(* ===== verification/Prelude.thy ===== *)
theory Prelude imports Complex_Main "HOL-Library.Char_ord" "HOL-Library.List_Lexorder"
  "HOL-Library.Product_Lexorder"
begin

text \<open>
  Shared vocabulary of the development: the JSON-like values that the Python code passes
  around as \<open>dict[str, Any]\<close>, the exception classes with their subclass tests, the
  state and exception monad in which the stateful components are written, and the two
  judgements the proofs use about it: \<open>keeps\<close> (an invariant survives the action, whether
  it returns or raises) and \<open>triple\<close> (a Hoare triple with an exceptional
  postcondition). Collections: \<open>keeps_intros\<close>, \<open>act_defs\<close>.
\<close>

named_theorems keeps_intros "rules that show that an action keeps an invariant"
named_theorems act_defs "definitions of the combinators of the action monad"

section \<open>Values\<close>

text \<open>
  Python strings are modelled as \<open>string\<close>, Python integers as \<open>int\<close>, finite floats as
  rationals (rounding is not modelled), a dictionary as an association list in
  insertion order. \<open>JNan\<close>, \<open>JPosInf\<close> and \<open>JNegInf\<close> are the other floats.
\<close>

datatype jval =
    JNull
  | JBool bool
  | JInt int
  | JFloat rat
  | JNan
  | JPosInf
  | JNegInf
  | JStr string
  | JList "jval list"
  | JObj "(string \<times> jval) list"

type_synonym jobj = "(string \<times> jval) list"

type_synonym timestamp = int

text \<open>\<open>d.get(key)\<close> of a dictionary of JSON values: \<open>None\<close> (here \<open>JNull\<close>) when absent.\<close>

definition jget :: "jobj \<Rightarrow> string \<Rightarrow> jval" where
  "jget d k = (case map_of d k of None \<Rightarrow> JNull | Some v \<Rightarrow> v)"

text \<open>\<open>{**d, k: v}\<close>: an existing key keeps its position, a new one goes last.\<close>

fun jput :: "'k \<Rightarrow> 'v \<Rightarrow> ('k \<times> 'v) list \<Rightarrow> ('k \<times> 'v) list" where
  "jput k v [] = [(k, v)]"
| "jput k v ((k', v') # d) = (if k' = k then (k, v) # d else (k', v') # jput k v d)"

lemma map_of_jput [simp]: "map_of (jput k v d) = (map_of d)(k \<mapsto> v)"
  by (induction d) auto

text \<open>
  Python's equality of JSON values: the order of the keys of a dictionary does not count,
  and numbers compare across \<open>bool\<close>, \<open>int\<close> and \<open>float\<close>. Two values are equal when their
  normal forms are.
\<close>

primrec jnorm :: "jval \<Rightarrow> jval" where
  "jnorm JNull = JNull"
| "jnorm (JBool b) = JFloat (if b then 1 else 0)"
| "jnorm (JInt n) = JFloat (of_int n)"
| "jnorm (JFloat q) = JFloat q"
| "jnorm JNan = JNan"
| "jnorm JPosInf = JPosInf"
| "jnorm JNegInf = JNegInf"
| "jnorm (JStr s) = JStr s"
| "jnorm (JList xs) = JList (map jnorm xs)"
| "jnorm (JObj d) = JObj (sort_key fst (map (map_prod id jnorm) d))"

definition jobj_eq :: "jobj \<Rightarrow> jobj \<Rightarrow> bool" where
  "jobj_eq d e \<longleftrightarrow> jnorm (JObj d) = jnorm (JObj e)"

lemma jobj_eq_refl [simp]: "jobj_eq d d"
  by (simp add: jobj_eq_def)

text \<open>Python's truth value of a JSON value.\<close>

fun jtruthy :: "jval \<Rightarrow> bool" where
  "jtruthy JNull = False"
| "jtruthy (JBool b) = b"
| "jtruthy (JInt n) = (n \<noteq> 0)"
| "jtruthy (JFloat q) = (q \<noteq> 0)"
| "jtruthy (JStr s) = (s \<noteq> [])"
| "jtruthy (JList xs) = (xs \<noteq> [])"
| "jtruthy (JObj d) = (d \<noteq> [])"
| "jtruthy _ = True"

text \<open>
  \<open>str(n)\<close>, and \<open>datetime.isoformat()\<close> of a UTC time given in microseconds since the epoch.
\<close>

primrec pad_digits :: "nat \<Rightarrow> int \<Rightarrow> string" where
  "pad_digits 0 n = []"
| "pad_digits (Suc k) n = pad_digits k (n div 10) @ [char_of (48 + n mod 10)]"

function digit_count :: "int \<Rightarrow> nat" where
  "digit_count n = (if n < 10 then 1 else Suc (digit_count (n div 10)))"
  by pat_completeness auto
termination by (relation "measure nat") auto

declare digit_count.simps [simp del]

definition show_int :: "int \<Rightarrow> string" where
  "show_int n = (if n < 0 then CHR ''-'' # pad_digits (digit_count (- n)) (- n)
     else pad_digits (digit_count n) n)"

definition show_nat :: "nat \<Rightarrow> string" where
  "show_nat n = show_int (int n)"

definition civil_of_days :: "int \<Rightarrow> int \<times> int \<times> int" where
  "civil_of_days days =
    (let z = days + 719468; era = z div 146097; doe = z mod 146097;
         yoe = (doe - doe div 1460 + doe div 36524 - doe div 146096) div 365;
         doy = doe - (365 * yoe + yoe div 4 - yoe div 100);
         mp = (5 * doy + 2) div 153;
         d = doy - (153 * mp + 2) div 5 + 1;
         m = (if mp < 10 then mp + 3 else mp - 9) in
     (yoe + era * 400 + (if m \<le> 2 then 1 else 0), m, d))"

definition isoformat_seconds :: "int \<Rightarrow> string" where
  "isoformat_seconds secs =
    (let s = secs mod 86400 in
     case civil_of_days (secs div 86400) of (y, m, d) \<Rightarrow>
       pad_digits 4 y @ ''-'' @ pad_digits 2 m @ ''-'' @ pad_digits 2 d @ ''T''
       @ pad_digits 2 (s div 3600) @ '':'' @ pad_digits 2 (s div 60 mod 60) @ '':''
       @ pad_digits 2 (s mod 60))"

definition isoformat :: "timestamp \<Rightarrow> string" where
  "isoformat t =
    (if t mod 1000000 = 0 then isoformat_seconds (t div 1000000) @ ''+00:00''
     else isoformat_seconds (t div 1000000) @ ''.'' @ pad_digits 6 (t mod 1000000) @ ''+00:00'')"

lemma isoformat_epoch: "isoformat 0 = ''1970-01-01T00:00:00+00:00''"
  by code_simp

lemma show_int_examples: "show_int 0 = ''0''" "show_int (- 1024) = ''-1024''"
  by code_simp+

lemma isoformat_leap_day: "isoformat 1709210096000007 = ''2024-02-29T12:34:56.000007+00:00''"
  by code_simp

definition jstr_list :: "string list \<Rightarrow> jval" where
  "jstr_list xs = JList (map JStr xs)"

definition jopt_str :: "string option \<Rightarrow> jval" where
  "jopt_str x = (case x of None \<Rightarrow> JNull | Some s \<Rightarrow> JStr s)"

text \<open>\<open>sorted(set(...))\<close> and \<open>', '.join(...)\<close>.\<close>

definition sorted_set :: "'a::linorder list \<Rightarrow> 'a list" where
  "sorted_set xs = sort (remdups xs)"

lemma set_sorted_set [simp]: "set (sorted_set xs) = set xs"
  by (simp add: sorted_set_def)

lemma sorted_set_Nil_iff [simp]: "sorted_set xs = [] \<longleftrightarrow> xs = []"
  by (metis set_sorted_set set_empty)

lemma sort_Nil_iff [simp]: "sort_key f xs = [] \<longleftrightarrow> xs = []"
  by (metis set_empty set_sort)

fun join :: "string \<Rightarrow> string list \<Rightarrow> string" where
  "join sep [] = []"
| "join sep [x] = x"
| "join sep (x # y # xs) = x @ sep @ join sep (y # xs)"

text \<open>\<open>str.strip()\<close> over ASCII white space.\<close>

definition is_space :: "char \<Rightarrow> bool" where
  "is_space c \<longleftrightarrow> c = CHR '' '' \<or> (9 \<le> (of_char c :: nat) \<and> (of_char c :: nat) \<le> 13)
     \<or> (28 \<le> (of_char c :: nat) \<and> (of_char c :: nat) \<le> 31)"

definition strip :: "string \<Rightarrow> string" where
  "strip s = rev (dropWhile is_space (rev (dropWhile is_space s)))"

lemma strip_Nil [simp]: "strip [] = []"
  by (simp add: strip_def)

lemma strip_nonempty: "strip s \<noteq> [] \<Longrightarrow> s \<noteq> []"
  by auto

text \<open>\<open>len(values) != len(set(values))\<close> is the negation of \<open>distinct\<close>.\<close>

lemma length_remdups_distinct: "length xs = length (remdups xs) \<longleftrightarrow> distinct xs"
  by (metis length_remdups_card_conv card_distinct distinct_card)

text \<open>\<open>[x for x in values if values.count(x) > 1]\<close>.\<close>

definition repeated :: "'a list \<Rightarrow> 'a list" where
  "repeated xs = filter (\<lambda>x. count_list xs x > 1) xs"

lemma count_list_le_1: "distinct xs \<Longrightarrow> count_list xs x \<le> 1"
  by (induction xs) (auto simp: count_list_0_iff)

lemma repeated_Nil_iff [simp]: "repeated xs = [] \<longleftrightarrow> distinct xs"
proof
  assume "repeated xs = []"
  then have "\<forall>x \<in> set xs. count_list xs x \<le> 1"
    by (simp add: repeated_def filter_empty_conv not_less)
  then show "distinct xs"
  proof (induction xs)
    case (Cons a xs)
    have "count_list xs a = 0" using Cons.prems by auto
    moreover have "\<forall>x \<in> set xs. count_list xs x \<le> 1"
    proof
      fix x assume "x \<in> set xs"
      with Cons.prems have "count_list (a # xs) x \<le> 1" by simp
      then show "count_list xs x \<le> 1" by (simp split: if_splits)
    qed
    ultimately show ?case using Cons.IH by (simp add: count_list_0_iff)
  qed simp
next
  assume "distinct xs"
  then show "repeated xs = []"
    using count_list_le_1 [of xs] by (simp add: repeated_def filter_empty_conv not_less)
qed

lemma set_repeated: "x \<in> set (repeated xs) \<longleftrightarrow> count_list xs x > 1"
  by (cases "x \<in> set xs") (auto simp: repeated_def)

section \<open>Exceptions\<close>

text \<open>
  The exception classes that the modelled code raises or catches, each with the message
  it is raised with. \<open>RunRecordIntegrityError\<close> carries the run id and the reason.
  \<open>is_storage_error\<close> and its companions are the \<open>isinstance\<close> tests of the handlers:
  \<open>RunRecordIntegrityError\<close> is a \<open>StorageIntegrityError\<close>, which is a \<open>StorageError\<close>;
  \<open>RuntimeControlConflict\<close> is a \<open>RuntimeControlError\<close>; \<open>FileExistsError\<close> is an
  \<open>OSError\<close>; \<open>ToolPermissionError\<close> and \<open>ToolValidationError\<close> are each a
  \<open>ToolGatewayError\<close>. \<open>is_plain_storage_error\<close> excludes the integrity errors. \<open>ModelRuntimeError\<close>
  carries the payload that \<open>model_runtime_error_payload\<close> reads off its attributes.
\<close>

datatype exn =
    StorageError string
  | StorageIntegrityError string
  | RunRecordIntegrityError string string
  | RuntimeControlError string
  | RuntimeControlConflict string
  | RunCoordinationConflict string
  | RunWorkerError string
  | WorkflowRunnerError string
  | ArtifactStoreError string
  | AgentRegistryError string
  | ContextBudgetExceeded string
  | ModelRuntimeError string jobj
  | CancelledError string
  | FileExistsError string
  | OSError string
  | ValueError string
  | RoutePolicyError string
  | CapabilityError string
  | ModelRoutingError string
  | ToolGatewayError string
  | ToolPermissionError string
  | ToolValidationError string
  | AgentLoopError string
  | TeamSelectionError string
  | RoleCardError string
  | WritebackError string
  | WritebackConflict string
  | OtherError string

fun exn_str :: "exn \<Rightarrow> string" where
  "exn_str (StorageError m) = m"
| "exn_str (StorageIntegrityError m) = m"
| "exn_str (RunRecordIntegrityError r _) = ''Persisted run record is invalid: '' @ r"
| "exn_str (RuntimeControlError m) = m"
| "exn_str (RuntimeControlConflict m) = m"
| "exn_str (RunCoordinationConflict m) = m"
| "exn_str (RunWorkerError m) = m"
| "exn_str (WorkflowRunnerError m) = m"
| "exn_str (ArtifactStoreError m) = m"
| "exn_str (AgentRegistryError m) = m"
| "exn_str (ContextBudgetExceeded m) = m"
| "exn_str (ModelRuntimeError m _) = m"
| "exn_str (CancelledError m) = m"
| "exn_str (FileExistsError m) = m"
| "exn_str (OSError m) = m"
| "exn_str (ValueError m) = m"
| "exn_str (RoutePolicyError m) = m"
| "exn_str (CapabilityError m) = m"
| "exn_str (ModelRoutingError m) = m"
| "exn_str (ToolGatewayError m) = m"
| "exn_str (ToolPermissionError m) = m"
| "exn_str (ToolValidationError m) = m"
| "exn_str (AgentLoopError m) = m"
| "exn_str (TeamSelectionError m) = m"
| "exn_str (RoleCardError m) = m"
| "exn_str (WritebackError m) = m"
| "exn_str (WritebackConflict m) = m"
| "exn_str (OtherError m) = m"

fun exn_class :: "exn \<Rightarrow> string" where
  "exn_class (StorageError _) = ''StorageError''"
| "exn_class (StorageIntegrityError _) = ''StorageIntegrityError''"
| "exn_class (RunRecordIntegrityError _ _) = ''RunRecordIntegrityError''"
| "exn_class (RuntimeControlError _) = ''RuntimeControlError''"
| "exn_class (RuntimeControlConflict _) = ''RuntimeControlConflict''"
| "exn_class (RunCoordinationConflict _) = ''RunCoordinationConflict''"
| "exn_class (RunWorkerError _) = ''RunWorkerError''"
| "exn_class (WorkflowRunnerError _) = ''WorkflowRunnerError''"
| "exn_class (ArtifactStoreError _) = ''ArtifactStoreError''"
| "exn_class (AgentRegistryError _) = ''AgentRegistryError''"
| "exn_class (ContextBudgetExceeded _) = ''ContextBudgetExceeded''"
| "exn_class (ModelRuntimeError _ _) = ''ModelRuntimeError''"
| "exn_class (CancelledError _) = ''CancelledError''"
| "exn_class (FileExistsError _) = ''FileExistsError''"
| "exn_class (OSError _) = ''OSError''"
| "exn_class (ValueError _) = ''ValueError''"
| "exn_class (RoutePolicyError _) = ''RoutePolicyError''"
| "exn_class (CapabilityError _) = ''CapabilityError''"
| "exn_class (ModelRoutingError _) = ''ModelRoutingError''"
| "exn_class (ToolGatewayError _) = ''ToolGatewayError''"
| "exn_class (ToolPermissionError _) = ''ToolPermissionError''"
| "exn_class (ToolValidationError _) = ''ToolValidationError''"
| "exn_class (AgentLoopError _) = ''AgentLoopError''"
| "exn_class (TeamSelectionError _) = ''TeamSelectionError''"
| "exn_class (RoleCardError _) = ''RoleCardError''"
| "exn_class (WritebackError _) = ''WritebackError''"
| "exn_class (WritebackConflict _) = ''WritebackConflict''"
| "exn_class (OtherError _) = ''Exception''"

fun is_storage_error :: "exn \<Rightarrow> bool" where
  "is_storage_error (StorageError _) = True"
| "is_storage_error (StorageIntegrityError _) = True"
| "is_storage_error (RunRecordIntegrityError _ _) = True"
| "is_storage_error _ = False"

fun is_plain_storage_error :: "exn \<Rightarrow> bool" where
  "is_plain_storage_error (StorageError _) = True"
| "is_plain_storage_error _ = False"

fun is_runner_error :: "exn \<Rightarrow> bool" where
  "is_runner_error (WorkflowRunnerError _) = True"
| "is_runner_error _ = False"

fun is_artifact_store_error :: "exn \<Rightarrow> bool" where
  "is_artifact_store_error (ArtifactStoreError _) = True"
| "is_artifact_store_error _ = False"

fun is_os_error :: "exn \<Rightarrow> bool" where
  "is_os_error (OSError _) = True"
| "is_os_error (FileExistsError _) = True"
| "is_os_error _ = False"

fun is_tool_gateway_error :: "exn \<Rightarrow> bool" where
  "is_tool_gateway_error (ToolGatewayError _) = True"
| "is_tool_gateway_error (ToolPermissionError _) = True"
| "is_tool_gateway_error (ToolValidationError _) = True"
| "is_tool_gateway_error _ = False"

fun is_record_integrity_error :: "exn \<Rightarrow> bool" where
  "is_record_integrity_error (RunRecordIntegrityError _ _) = True"
| "is_record_integrity_error _ = False"

fun is_control_conflict :: "exn \<Rightarrow> bool" where
  "is_control_conflict (RuntimeControlConflict _) = True"
| "is_control_conflict _ = False"

fun is_coordination_conflict :: "exn \<Rightarrow> bool" where
  "is_coordination_conflict (RunCoordinationConflict _) = True"
| "is_coordination_conflict _ = False"

section \<open>Pure code that raises\<close>

text \<open>Sequencing, guards and loops of pure functions with result \<open>error + value\<close>.\<close>

definition bindE :: "'e + 'a \<Rightarrow> ('a \<Rightarrow> 'e + 'b) \<Rightarrow> 'e + 'b" where
  "bindE r f = (case r of Inl e \<Rightarrow> Inl e | Inr x \<Rightarrow> f x)"

definition guardE :: "bool \<Rightarrow> 'e \<Rightarrow> 'e + unit" where
  "guardE b e = (if b then Inr () else Inl e)"

primrec mapE :: "('a \<Rightarrow> 'e + 'b) \<Rightarrow> 'a list \<Rightarrow> 'e + 'b list" where
  "mapE f [] = Inr []"
| "mapE f (x # xs) = bindE (f x) (\<lambda>y. bindE (mapE f xs) (\<lambda>ys. Inr (y # ys)))"

primrec forE :: "('a \<Rightarrow> 'e + unit) \<Rightarrow> 'a list \<Rightarrow> 'e + unit" where
  "forE f [] = Inr ()"
| "forE f (x # xs) = bindE (f x) (\<lambda>_. forE f xs)"

definition of_option :: "'e \<Rightarrow> 'a option \<Rightarrow> 'e + 'a" where
  "of_option e x = (case x of None \<Rightarrow> Inl e | Some y \<Rightarrow> Inr y)"

lemma bindE_Inr [simp]: "bindE r f = Inr y \<longleftrightarrow> (\<exists>x. r = Inr x \<and> f x = Inr y)"
  by (cases r) (auto simp: bindE_def)

lemma guardE_Inr [simp]: "guardE b e = Inr u \<longleftrightarrow> b"
  by (simp add: guardE_def)

lemma of_option_Inr [simp]: "of_option e x = Inr y \<longleftrightarrow> x = Some y"
  by (cases x) (simp_all add: of_option_def)

lemma forE_Inr [simp]: "forE f xs = Inr u \<longleftrightarrow> (\<forall>x \<in> set xs. f x = Inr ())"
  by (induction xs) auto

lemma mapE_Inr [simp]: "mapE f xs = Inr ys \<longleftrightarrow> list_all2 (\<lambda>x y. f x = Inr y) xs ys"
  by (induction xs arbitrary: ys) (auto simp: list_all2_Cons1)

section \<open>Actions: state and exceptions\<close>

text \<open>
  An action maps the state it starts in to a result (an exception or a value) and the
  state it ends in; the state changes made before an exception stay, as in Python.
\<close>

type_synonym ('s, 'a) act = "'s \<Rightarrow> (exn + 'a) \<times> 's"

definition returnM :: "'a \<Rightarrow> ('s, 'a) act" where
  [act_defs]: "returnM x = (\<lambda>s. (Inr x, s))"

definition raiseM :: "exn \<Rightarrow> ('s, 'a) act" where
  [act_defs]: "raiseM e = (\<lambda>s. (Inl e, s))"

definition bindM :: "('s, 'a) act \<Rightarrow> ('a \<Rightarrow> ('s, 'b) act) \<Rightarrow> ('s, 'b) act" where
  [act_defs]: "bindM m f = (\<lambda>s. case m s of (Inl e, s') \<Rightarrow> (Inl e, s') | (Inr x, s') \<Rightarrow> f x s')"

definition thenM :: "('s, 'a) act \<Rightarrow> ('s, 'b) act \<Rightarrow> ('s, 'b) act" where
  [act_defs]: "thenM m k = bindM m (\<lambda>_. k)"

definition getsM :: "('s \<Rightarrow> 'a) \<Rightarrow> ('s, 'a) act" where
  [act_defs]: "getsM f = (\<lambda>s. (Inr (f s), s))"

definition modifyM :: "('s \<Rightarrow> 's) \<Rightarrow> ('s, unit) act" where
  [act_defs]: "modifyM f = (\<lambda>s. (Inr (), f s))"

text \<open>\<open>if not b: raise e\<close>, and \<open>if b: m\<close>.\<close>

definition guardM :: "bool \<Rightarrow> exn \<Rightarrow> ('s, unit) act" where
  [act_defs]: "guardM b e = (if b then returnM () else raiseM e)"

definition whenM :: "bool \<Rightarrow> ('s, unit) act \<Rightarrow> ('s, unit) act" where
  [act_defs]: "whenM b m = (if b then m else returnM ())"

text \<open>\<open>try: m except Exception as e: h e\<close>; \<open>catch_if\<close> catches the exceptions of one class.\<close>

definition catchM :: "('s, 'a) act \<Rightarrow> (exn \<Rightarrow> ('s, 'a) act) \<Rightarrow> ('s, 'a) act" where
  [act_defs]: "catchM m h = (\<lambda>s. case m s of (Inl e, s') \<Rightarrow> h e s' | (Inr x, s') \<Rightarrow> (Inr x, s'))"

definition catch_if ::
  "(exn \<Rightarrow> bool) \<Rightarrow> ('s, 'a) act \<Rightarrow> (exn \<Rightarrow> ('s, 'a) act) \<Rightarrow> ('s, 'a) act" where
  "catch_if p m h = catchM m (\<lambda>e. if p e then h e else raiseM e)"

text \<open>
  \<open>try: m finally: f\<close>. An exception of the cleanup replaces the result, as in Python.
\<close>

definition finallyM :: "('s, 'a) act \<Rightarrow> ('s, unit) act \<Rightarrow> ('s, 'a) act" where
  [act_defs]: "finallyM m f = (\<lambda>s. case m s of (r, s') \<Rightarrow>
     (case f s' of (Inl e, s'') \<Rightarrow> (Inl e, s'') | (Inr _, s'') \<Rightarrow> (r, s'')))"

text \<open>\<open>for x in xs: f x\<close>, and the list of the results of a loop.\<close>

primrec forM :: "'a list \<Rightarrow> ('a \<Rightarrow> ('s, unit) act) \<Rightarrow> ('s, unit) act" where
  "forM [] f = returnM ()"
| "forM (x # xs) f = thenM (f x) (forM xs f)"

primrec mapM :: "'a list \<Rightarrow> ('a \<Rightarrow> ('s, 'b) act) \<Rightarrow> ('s, 'b list) act" where
  "mapM [] f = returnM []"
| "mapM (x # xs) f = bindM (f x) (\<lambda>y. bindM (mapM xs f) (\<lambda>ys. returnM (y # ys)))"

subsection \<open>Invariants of actions\<close>

definition keeps :: "('s \<Rightarrow> bool) \<Rightarrow> ('s, 'a) act \<Rightarrow> bool" where
  "keeps I m \<longleftrightarrow> (\<forall>s. I s \<longrightarrow> I (snd (m s)))"

lemma keepsI: "(\<And>s. I s \<Longrightarrow> I (snd (m s))) \<Longrightarrow> keeps I m"
  by (simp add: keeps_def)

lemma keepsD: "keeps I m \<Longrightarrow> I s \<Longrightarrow> m s = (r, s') \<Longrightarrow> I s'"
  by (metis keeps_def snd_conv)

lemma keeps_returnM [keeps_intros]: "keeps I (returnM x)"
  by (simp add: keeps_def returnM_def)

lemma keeps_raiseM [keeps_intros]: "keeps I (raiseM e)"
  by (simp add: keeps_def raiseM_def)

lemma keeps_getsM [keeps_intros]: "keeps I (getsM f)"
  by (simp add: keeps_def getsM_def)

lemma keeps_guardM [keeps_intros]: "keeps I (guardM b e)"
  by (simp add: guardM_def keeps_returnM keeps_raiseM)

lemma keeps_bindM [keeps_intros]:
  "keeps I m \<Longrightarrow> (\<And>x. keeps I (f x)) \<Longrightarrow> keeps I (bindM m f)"
  by (auto simp: keeps_def bindM_def split: prod.splits sum.splits)

lemma keeps_thenM [keeps_intros]: "keeps I m \<Longrightarrow> keeps I k \<Longrightarrow> keeps I (thenM m k)"
  by (simp add: thenM_def keeps_bindM)

lemma keeps_whenM [keeps_intros]: "keeps I m \<Longrightarrow> keeps I (whenM b m)"
  by (simp add: whenM_def keeps_returnM)

lemma keeps_catchM [keeps_intros]:
  "keeps I m \<Longrightarrow> (\<And>e. keeps I (h e)) \<Longrightarrow> keeps I (catchM m h)"
  by (auto simp: keeps_def catchM_def split: prod.splits sum.splits)

lemma keeps_catch_if [keeps_intros]:
  "keeps I m \<Longrightarrow> (\<And>e. keeps I (h e)) \<Longrightarrow> keeps I (catch_if p m h)"
  by (simp add: catch_if_def keeps_catchM keeps_raiseM)

lemma keeps_finallyM [keeps_intros]: "keeps I m \<Longrightarrow> keeps I f \<Longrightarrow> keeps I (finallyM m f)"
  by (auto simp: keeps_def finallyM_def split: prod.splits sum.splits)

lemma keeps_forM [keeps_intros]: "(\<And>x. keeps I (f x)) \<Longrightarrow> keeps I (forM xs f)"
  by (induction xs) (auto intro: keeps_intros)

lemma keeps_mapM [keeps_intros]: "(\<And>x. keeps I (f x)) \<Longrightarrow> keeps I (mapM xs f)"
  by (induction xs) (auto intro!: keeps_intros)

lemma keeps_if [keeps_intros]: "keeps I m \<Longrightarrow> keeps I k \<Longrightarrow> keeps I (if b then m else k)"
  by simp

lemma keeps_case_option [keeps_intros]:
  "keeps I m \<Longrightarrow> (\<And>x. keeps I (f x)) \<Longrightarrow> keeps I (case v of None \<Rightarrow> m | Some x \<Rightarrow> f x)"
  by (cases v) auto

lemma keeps_case_prod [keeps_intros]:
  "(\<And>x y. keeps I (f x y)) \<Longrightarrow> keeps I (case p of (x, y) \<Rightarrow> f x y)"
  by (cases p) auto

lemma keeps_Let [keeps_intros]: "(\<And>x. keeps I (f x)) \<Longrightarrow> keeps I (let x = v in f x)"
  by simp

subsection \<open>Triples\<close>

definition triple ::
  "('s \<Rightarrow> bool) \<Rightarrow> ('s, 'a) act \<Rightarrow> ('a \<Rightarrow> 's \<Rightarrow> bool) \<Rightarrow> (exn \<Rightarrow> 's \<Rightarrow> bool) \<Rightarrow> bool" where
  "triple P m Q E \<longleftrightarrow> (\<forall>s. P s \<longrightarrow> (case m s of (Inr x, s') \<Rightarrow> Q x s' | (Inl e, s') \<Rightarrow> E e s'))"

lemma tripleI:
  assumes "\<And>s x s'. P s \<Longrightarrow> m s = (Inr x, s') \<Longrightarrow> Q x s'"
    and "\<And>s e s'. P s \<Longrightarrow> m s = (Inl e, s') \<Longrightarrow> E e s'"
  shows "triple P m Q E"
  using assms by (fastforce simp: triple_def split: prod.splits sum.splits)

lemma triple_returns: "triple P m Q E \<Longrightarrow> P s \<Longrightarrow> m s = (Inr x, s') \<Longrightarrow> Q x s'"
  by (fastforce simp: triple_def)

lemma triple_raises: "triple P m Q E \<Longrightarrow> P s \<Longrightarrow> m s = (Inl e, s') \<Longrightarrow> E e s'"
  by (fastforce simp: triple_def)

lemma triple_bindM:
  assumes m: "triple P m R E" and f: "\<And>x. triple (R x) (f x) Q E"
  shows "triple P (bindM m f) Q E"
  unfolding triple_def
proof (intro allI impI)
  fix s assume "P s"
  with m have *: "case m s of (Inr x, s') \<Rightarrow> R x s' | (Inl e, s') \<Rightarrow> E e s'"
    by (simp add: triple_def)
  show "case bindM m f s of (Inr x, s') \<Rightarrow> Q x s' | (Inl e, s') \<Rightarrow> E e s'"
  proof (cases "m s")
    case (Pair r s')
    with * f show ?thesis by (cases r) (auto simp: bindM_def triple_def)
  qed
qed

lemma triple_thenM:
  "triple P m (\<lambda>_. R) E \<Longrightarrow> triple R k Q E \<Longrightarrow> triple P (thenM m k) Q E"
  unfolding thenM_def by (rule triple_bindM)

lemma triple_conseq:
  "triple P m Q E \<Longrightarrow> (\<And>s. P' s \<Longrightarrow> P s) \<Longrightarrow> (\<And>x s. Q x s \<Longrightarrow> Q' x s)
    \<Longrightarrow> (\<And>e s. E e s \<Longrightarrow> E' e s) \<Longrightarrow> triple P' m Q' E'"
  by (fastforce simp: triple_def split: prod.splits sum.splits)

text \<open>The inversion of a sequence that returned.\<close>

lemma bindM_returns:
  "bindM m f s = (Inr y, s'') \<longleftrightarrow> (\<exists>x s'. m s = (Inr x, s') \<and> f x s' = (Inr y, s''))"
  by (auto simp: bindM_def split: prod.splits sum.splits)

lemma bindM_raises:
  "bindM m f s = (Inl e, s'') \<longleftrightarrow>
     m s = (Inl e, s'') \<or> (\<exists>x s'. m s = (Inr x, s') \<and> f x s' = (Inl e, s''))"
  by (auto simp: bindM_def split: prod.splits sum.splits)

lemma thenM_returns:
  "thenM m k s = (Inr y, s'') \<longleftrightarrow> (\<exists>x s'. m s = (Inr x, s') \<and> k s' = (Inr y, s''))"
  by (simp add: thenM_def bindM_returns)

lemma guardM_returns: "guardM b e s = (Inr u, s') \<longleftrightarrow> b \<and> s' = s"
  by (auto simp: guardM_def returnM_def raiseM_def)

lemma getsM_returns: "getsM f s = (Inr x, s') \<longleftrightarrow> x = f s \<and> s' = s"
  by (auto simp: getsM_def)

lemma returnM_returns: "returnM x s = (Inr y, s') \<longleftrightarrow> y = x \<and> s' = s"
  by (auto simp: returnM_def)

lemma raiseM_returns: "\<not> raiseM e s = (Inr y, s')"
  by (simp add: raiseM_def)

lemmas returns_iff =
  bindM_returns thenM_returns guardM_returns getsM_returns returnM_returns raiseM_returns

end
