(* ===== verification/Harness_Models.thy ===== *)
theory Harness_Models imports Prelude begin

text \<open>
  The data model of \<open>backend/app/core/models.py\<close>: the status enumerations, one record
  per pydantic model, the two normalisers of the confirmed real-web snapshots and the
  validators of \<open>Run\<close>. A record field carries the source's field name behind a prefix
  for its model (\<open>t_\<close> Task, \<open>r_\<close> Run, \<open>a_\<close> AgentDefinition, \<open>ar_\<close> AgentRun,
  \<open>s_\<close> AgentSession, \<open>j_\<close> RuntimeJob, \<open>q_\<close> RunQueueItem, \<open>l_\<close> RunLock,
  \<open>h_\<close> Handoff, \<open>art_\<close> Artifact, \<open>ev_\<close> TraceEvent, \<open>er_\<close> EvalResult).
\<close>

section \<open>Enumerations\<close>

datatype run_status =
  Run_QUEUED | Run_RUNNING | Run_WAITING | Run_FAILED | Run_COMPLETED | Run_CANCELLED

datatype agent_run_status =
    AgentRun_QUEUED | AgentRun_RUNNING | AgentRun_WAITING | AgentRun_FAILED
  | AgentRun_COMPLETED | AgentRun_CANCELLED

datatype agent_session_status =
    Session_ACTIVE | Session_WAITING_APPROVAL | Session_COMPLETED | Session_FAILED
  | Session_REJECTED | Session_CANCELLED

datatype runtime_job_status =
    Job_RECORDED | Job_APPROVAL_REQUIRED | Job_APPROVED | Job_COMPLETED | Job_FAILED
  | Job_REJECTED | Job_CANCELLED

datatype run_queue_item_status =
    Queue_QUEUED | Queue_RUNNING | Queue_WAITING | Queue_COMPLETED | Queue_FAILED
  | Queue_CANCELLED

datatype run_lock_status = Lock_ACQUIRED | Lock_RELEASED

datatype artifact_type =
    DESIGN_DOC | PATCH | TEST_REPORT | SOURCE_SUMMARY | RESEARCH_NOTE
  | IMAGE_DESCRIPTION | FINAL_REPORT

datatype trace_event_type =
    MODEL_ACTION | WORKFLOW_EVENT | RUNTIME_EVENT | TOOL_CALL | TOOL_RESULT | HANDOFF
  | ARTIFACT_CREATED | EVAL_RESULT | ERROR

datatype eval_status = Eval_PASS | Eval_WARN | Eval_FAIL

datatype artifact_validation_status = Art_UNVALIDATED | Art_PASS | Art_WARN | Art_FAIL

text \<open>The string value of each member.\<close>

fun run_status_value :: "run_status \<Rightarrow> string" where
  "run_status_value Run_QUEUED = ''queued''"
| "run_status_value Run_RUNNING = ''running''"
| "run_status_value Run_WAITING = ''waiting''"
| "run_status_value Run_FAILED = ''failed''"
| "run_status_value Run_COMPLETED = ''completed''"
| "run_status_value Run_CANCELLED = ''cancelled''"

fun agent_run_status_value :: "agent_run_status \<Rightarrow> string" where
  "agent_run_status_value AgentRun_QUEUED = ''queued''"
| "agent_run_status_value AgentRun_RUNNING = ''running''"
| "agent_run_status_value AgentRun_WAITING = ''waiting''"
| "agent_run_status_value AgentRun_FAILED = ''failed''"
| "agent_run_status_value AgentRun_COMPLETED = ''completed''"
| "agent_run_status_value AgentRun_CANCELLED = ''cancelled''"

fun agent_session_status_value :: "agent_session_status \<Rightarrow> string" where
  "agent_session_status_value Session_ACTIVE = ''active''"
| "agent_session_status_value Session_WAITING_APPROVAL = ''waiting_approval''"
| "agent_session_status_value Session_COMPLETED = ''completed''"
| "agent_session_status_value Session_FAILED = ''failed''"
| "agent_session_status_value Session_REJECTED = ''rejected''"
| "agent_session_status_value Session_CANCELLED = ''cancelled''"

fun runtime_job_status_value :: "runtime_job_status \<Rightarrow> string" where
  "runtime_job_status_value Job_RECORDED = ''recorded''"
| "runtime_job_status_value Job_APPROVAL_REQUIRED = ''approval_required''"
| "runtime_job_status_value Job_APPROVED = ''approved''"
| "runtime_job_status_value Job_COMPLETED = ''completed''"
| "runtime_job_status_value Job_FAILED = ''failed''"
| "runtime_job_status_value Job_REJECTED = ''rejected''"
| "runtime_job_status_value Job_CANCELLED = ''cancelled''"

fun run_queue_item_status_value :: "run_queue_item_status \<Rightarrow> string" where
  "run_queue_item_status_value Queue_QUEUED = ''queued''"
| "run_queue_item_status_value Queue_RUNNING = ''running''"
| "run_queue_item_status_value Queue_WAITING = ''waiting''"
| "run_queue_item_status_value Queue_COMPLETED = ''completed''"
| "run_queue_item_status_value Queue_FAILED = ''failed''"
| "run_queue_item_status_value Queue_CANCELLED = ''cancelled''"

fun run_lock_status_value :: "run_lock_status \<Rightarrow> string" where
  "run_lock_status_value Lock_ACQUIRED = ''acquired''"
| "run_lock_status_value Lock_RELEASED = ''released''"

fun artifact_type_value :: "artifact_type \<Rightarrow> string" where
  "artifact_type_value DESIGN_DOC = ''design_doc''"
| "artifact_type_value PATCH = ''patch''"
| "artifact_type_value TEST_REPORT = ''test_report''"
| "artifact_type_value SOURCE_SUMMARY = ''source_summary''"
| "artifact_type_value RESEARCH_NOTE = ''research_note''"
| "artifact_type_value IMAGE_DESCRIPTION = ''image_description''"
| "artifact_type_value FINAL_REPORT = ''final_report''"

fun trace_event_type_value :: "trace_event_type \<Rightarrow> string" where
  "trace_event_type_value MODEL_ACTION = ''model_action''"
| "trace_event_type_value WORKFLOW_EVENT = ''workflow_event''"
| "trace_event_type_value RUNTIME_EVENT = ''runtime_event''"
| "trace_event_type_value TOOL_CALL = ''tool_call''"
| "trace_event_type_value TOOL_RESULT = ''tool_result''"
| "trace_event_type_value HANDOFF = ''handoff''"
| "trace_event_type_value ARTIFACT_CREATED = ''artifact_created''"
| "trace_event_type_value EVAL_RESULT = ''eval_result''"
| "trace_event_type_value ERROR = ''error''"

definition artifact_types :: "artifact_type list" where
  "artifact_types = [DESIGN_DOC, PATCH, TEST_REPORT, SOURCE_SUMMARY, RESEARCH_NOTE,
     IMAGE_DESCRIPTION, FINAL_REPORT]"

text \<open>\<open>{artifact_type.value for artifact_type in ArtifactType}\<close>, and \<open>ArtifactType(value)\<close>.\<close>

definition artifact_values :: "string list" where
  "artifact_values = map artifact_type_value artifact_types"

definition artifact_type_of :: "string \<Rightarrow> artifact_type option" where
  "artifact_type_of v = List.find (\<lambda>t. artifact_type_value t = v) artifact_types"

lemma artifact_types_complete [simp]: "t \<in> set artifact_types"
  by (cases t) (simp_all add: artifact_types_def)

lemma artifact_type_value_inj: "artifact_type_value t = artifact_type_value u \<longleftrightarrow> t = u"
  by (cases t; cases u) simp_all

lemma artifact_type_of_value [simp]: "artifact_type_of (artifact_type_value t) = Some t"
  by (cases t) (simp_all add: artifact_type_of_def artifact_types_def)

lemma artifact_type_of_Some: "artifact_type_of v = Some t \<longleftrightarrow> v = artifact_type_value t"
proof
  assume "artifact_type_of v = Some t"
  then show "v = artifact_type_value t"
    by (auto simp: artifact_type_of_def find_Some_iff)
qed simp

lemma artifact_values_iff: "v \<in> set artifact_values \<longleftrightarrow> artifact_type_of v \<noteq> None"
  by (auto simp: artifact_values_def artifact_type_of_Some)

instantiation artifact_type :: linorder
begin

definition less_eq_artifact_type :: "artifact_type \<Rightarrow> artifact_type \<Rightarrow> bool" where
  "less_eq_artifact_type t u \<longleftrightarrow> artifact_type_value t \<le> artifact_type_value u"

definition less_artifact_type :: "artifact_type \<Rightarrow> artifact_type \<Rightarrow> bool" where
  "less_artifact_type t u \<longleftrightarrow> artifact_type_value t < artifact_type_value u"

instance
  by standard
    (auto simp: less_eq_artifact_type_def less_artifact_type_def artifact_type_value_inj
      order_less_le)

end

section \<open>Models\<close>

record task =
  t_id :: string
  t_title :: string
  t_goal :: string
  t_workflow_pack :: string
  t_inputs :: jobj
  t_constraints :: "string list"
  t_acceptance_criteria :: "string list"
  t_created_by :: string
  t_created_at :: timestamp

record real_web_route =
  rt_name :: string
  rt_provider :: string

record run =
  r_legacy_real_web_snapshot_run_id :: "string option"
  r_id :: string
  r_task_id :: string
  r_real_model_access_confirmed :: bool
  r_real_web_access_confirmed :: bool
  r_confirmed_real_web_tools :: "string list option"
  r_confirmed_real_web_tool_routes :: "real_web_route list option"
  r_content_block_snapshot :: "jobj list"
  r_content_block_snapshot_hash :: "string option"
  r_content_block_snapshot_files :: "(string \<times> string) list"
  r_allow_external_model_inputs_snapshot :: bool
  r_vision_preprocess_snapshot :: "jobj option"
  r_approved_side_effect_tools :: "string list"
  r_execution_plan :: "jobj option"
  r_execution_plan_hash :: "string option"
  r_execution_plan_redacted :: bool
  r_status :: run_status
  r_current_step :: "string option"
  r_started_at :: "timestamp option"
  r_finished_at :: "timestamp option"
  r_final_artifact_id :: "string option"

record agent_definition =
  a_id :: string
  a_pack_name :: string
  a_role :: string
  a_system_prompt :: string
  a_model_settings :: jobj
  a_tool_permissions :: "string list"
  a_runtime_limits :: jobj
  a_effective_skill_ids :: "string list"

record agent_run =
  ar_id :: string
  ar_run_id :: string
  ar_agent_id :: string
  ar_step_name :: string
  ar_input_context :: jobj
  ar_status :: agent_run_status
  ar_started_at :: "timestamp option"
  ar_finished_at :: "timestamp option"
  ar_output_summary :: "string option"

record agent_session =
  s_id :: string
  s_run_id :: string
  s_agent_run_id :: string
  s_agent_id :: string
  s_step_name :: string
  s_runtime :: string
  s_status :: agent_session_status
  s_resume_strategy :: string
  s_requires_approval :: bool
  s_external_ref :: "string option"
  s_created_at :: timestamp
  s_updated_at :: timestamp
  s_metadata :: jobj

record runtime_job =
  j_id :: string
  j_run_id :: string
  j_agent_run_id :: string
  j_agent_session_id :: "string option"
  j_step_name :: string
  j_runtime :: string
  j_status :: runtime_job_status
  j_approval_required :: bool
  j_approved_at :: "timestamp option"
  j_external_ref :: "string option"
  j_created_at :: timestamp
  j_updated_at :: timestamp
  j_message :: string
  j_metadata :: jobj

record run_queue_item =
  q_id :: string
  q_run_id :: string
  q_action :: string
  q_status :: run_queue_item_status
  q_created_at :: timestamp
  q_updated_at :: timestamp
  q_message :: string
  q_metadata :: jobj

record run_lock =
  l_id :: string
  l_run_id :: string
  l_owner :: string
  l_status :: run_lock_status
  l_acquired_at :: timestamp
  l_released_at :: "timestamp option"
  l_metadata :: jobj

record handoff =
  h_id :: string
  h_run_id :: string
  h_from_agent_run_id :: string
  h_to_agent_id :: string
  h_summary :: string
  h_artifact_refs :: "string list"
  h_open_questions :: "string list"
  h_next_objective :: string
  h_constraints_to_preserve :: "string list"
  h_risk_notes :: "string list"

record artifact =
  art_id :: string
  art_run_id :: string
  art_agent_run_id :: string
  art_type :: artifact_type
  art_path :: string
  art_content_hash :: "string option"
  art_source_refs :: "string list"
  art_validation_status :: artifact_validation_status
  art_created_at :: timestamp

record trace_event =
  ev_id :: string
  ev_run_id :: string
  ev_agent_run_id :: "string option"
  ev_event_type :: trace_event_type
  ev_payload :: jobj
  ev_duration_ms :: "int option"
  ev_created_at :: timestamp

record eval_result =
  er_id :: string
  er_run_id :: string
  er_artifact_id :: "string option"
  er_check_name :: string
  er_status :: eval_status
  er_message :: string
  er_created_at :: timestamp

section \<open>Confirmed real-web tools\<close>

datatype model_error =
    DuplicateToolNames "string list"
  | UnsupportedToolNames "string list"
  | DuplicateRoutes "(string \<times> string) list"
  | FieldConstraint string
  | NoneSnapshotReserved
  | ToolsDoNotMatchRoutes
  | SnapshotNeedsConfirmation
  | PlanHashMismatch

definition CONFIRMABLE_REAL_WEB_TOOL_NAMES :: "string list" where
  "CONFIRMABLE_REAL_WEB_TOOL_NAMES =
     [''web_search'', ''fetch_page'', ''browser_search'', ''browser_fetch'']"

definition normalize_confirmed_real_web_tools ::
  "string list option \<Rightarrow> model_error + string list option" where
  "normalize_confirmed_real_web_tools value = (case value of
     None \<Rightarrow> Inr None
   | Some v \<Rightarrow>
       let duplicates = sorted_set (repeated v);
           unsupported = sorted_set (filter (\<lambda>name. name \<notin> set CONFIRMABLE_REAL_WEB_TOOL_NAMES) v)
       in if duplicates \<noteq> [] then Inl (DuplicateToolNames duplicates)
          else if unsupported \<noteq> [] then Inl (UnsupportedToolNames unsupported)
          else Inr (Some (sort v)))"

definition route_identity :: "real_web_route \<Rightarrow> string \<times> string" where
  "route_identity route = (rt_name route, rt_provider route)"

definition normalize_confirmed_real_web_tool_routes ::
  "real_web_route list option \<Rightarrow> model_error + real_web_route list option" where
  "normalize_confirmed_real_web_tool_routes value = (case value of
     None \<Rightarrow> Inr None
   | Some v \<Rightarrow>
       let identities = map route_identity v;
           duplicates = sorted_set (repeated identities)
       in if duplicates \<noteq> [] then Inl (DuplicateRoutes duplicates)
          else Inr (Some (sort_key route_identity v)))"

text \<open>
  \<open>ConfirmedRealWebToolRoute\<close>: the fields are stripped, checked against their bounds and
  the provider pattern, the name must be a confirmable tool, the provider is lowered.
\<close>

definition is_alnum :: "char \<Rightarrow> bool" where
  "is_alnum c \<longleftrightarrow> (CHR ''A'' \<le> c \<and> c \<le> CHR ''Z'') \<or> (CHR ''a'' \<le> c \<and> c \<le> CHR ''z'')
     \<or> (CHR ''0'' \<le> c \<and> c \<le> CHR ''9'')"

definition lower_char :: "char \<Rightarrow> char" where
  "lower_char c = (if CHR ''A'' \<le> c \<and> c \<le> CHR ''Z'' then char_of ((of_char c :: nat) + 32) else c)"

definition lower :: "string \<Rightarrow> string" where
  "lower = map lower_char"

fun provider_pattern :: "string \<Rightarrow> bool" where
  "provider_pattern [] = False"
| "provider_pattern (c # cs) =
     (is_alnum c \<and> (\<forall>d \<in> set cs. is_alnum d \<or> d \<in> set ''_.-''))"

definition confirmed_real_web_tool_route :: "string \<Rightarrow> string \<Rightarrow> model_error + real_web_route" where
  "confirmed_real_web_tool_route name0 provider0 =
    (let name = strip name0; provider = strip provider0 in
     if \<not> (1 \<le> length name \<and> length name \<le> 100) then Inl (FieldConstraint ''name'')
     else (case normalize_confirmed_real_web_tools (Some [name]) of
         Inl e \<Rightarrow> Inl e
       | Inr normalized \<Rightarrow>
           if \<not> (1 \<le> length provider \<and> length provider \<le> 100 \<and> provider_pattern provider)
           then Inl (FieldConstraint ''provider'')
           else Inr \<lparr>rt_name = hd (the normalized), rt_provider = lower provider\<rparr>))"

section \<open>The validators of Run\<close>

definition opt_all :: "('a \<Rightarrow> bool) \<Rightarrow> 'a option \<Rightarrow> bool" where
  "opt_all p x = (case x of None \<Rightarrow> True | Some y \<Rightarrow> p y)"

definition opt_ex :: "('a \<Rightarrow> bool) \<Rightarrow> 'a option \<Rightarrow> bool" where
  "opt_ex p x = (case x of None \<Rightarrow> False | Some y \<Rightarrow> p y)"

text \<open>The bounds of the field declarations, over strings that are stripped already.\<close>

definition run_fields_ok :: "run \<Rightarrow> bool" where
  "run_fields_ok r \<longleftrightarrow>
     r_id r \<noteq> [] \<and> r_task_id r \<noteq> []
   \<and> opt_all (\<lambda>v. length v \<le> 4) (r_confirmed_real_web_tools r)
   \<and> opt_all (\<lambda>v. length v \<le> 4) (r_confirmed_real_web_tool_routes r)
   \<and> length (r_content_block_snapshot r) \<le> 16
   \<and> opt_all (\<lambda>h. length h = 64) (r_content_block_snapshot_hash r)
   \<and> length (r_content_block_snapshot_files r) \<le> 16
   \<and> length (r_approved_side_effect_tools r) \<le> 32
   \<and> opt_all (\<lambda>h. length h = 64) (r_execution_plan_hash r)
   \<and> opt_all (\<lambda>v. v \<noteq> []) (r_current_step r)
   \<and> opt_all (\<lambda>v. v \<noteq> []) (r_final_artifact_id r)"

text \<open>
  \<open>legacy\<close> is the validation context flag that storage sets when it loads a row written
  before the snapshots existed.
\<close>

definition validate_real_web_snapshot :: "bool \<Rightarrow> run \<Rightarrow> model_error + run" where
  "validate_real_web_snapshot legacy r =
    (case (r_confirmed_real_web_tools r, r_confirmed_real_web_tool_routes r) of
       (Some names, Some routes) \<Rightarrow>
         if names \<noteq> map rt_name routes then Inl ToolsDoNotMatchRoutes
         else if \<not> r_real_web_access_confirmed r \<and> names \<noteq> [] then Inl SnapshotNeedsConfirmation
         else Inr r
     | (names, routes) \<Rightarrow>
         if names = None \<and> routes = None \<and> legacy then Inr r else Inl NoneSnapshotReserved)"

definition validate_execution_plan_pair :: "run \<Rightarrow> model_error + run" where
  "validate_execution_plan_pair r =
    (if (r_execution_plan r = None) \<noteq> (r_execution_plan_hash r = None) then Inl PlanHashMismatch
     else Inr r)"

text \<open>
  \<open>Run.model_validate\<close>: field bounds, then the two field validators, then the two model
  validators in declaration order.
\<close>

definition run_model_validate :: "bool \<Rightarrow> run \<Rightarrow> model_error + run" where
  "run_model_validate legacy r =
    (if \<not> run_fields_ok r then Inl (FieldConstraint ''Run'')
     else case normalize_confirmed_real_web_tools (r_confirmed_real_web_tools r) of
       Inl e \<Rightarrow> Inl e
     | Inr tools \<Rightarrow> (case normalize_confirmed_real_web_tool_routes (r_confirmed_real_web_tool_routes r) of
         Inl e \<Rightarrow> Inl e
       | Inr routes \<Rightarrow>
           (case validate_real_web_snapshot legacy
                   (r\<lparr>r_confirmed_real_web_tools := tools,
                      r_confirmed_real_web_tool_routes := routes\<rparr>) of
              Inl e \<Rightarrow> Inl e
            | Inr r' \<Rightarrow> validate_execution_plan_pair r')))"

subsection \<open>Lemmas\<close>

lemma normalize_tools_Inr:
  "normalize_confirmed_real_web_tools (Some v) = Inr w \<longleftrightarrow>
     distinct v \<and> set v \<subseteq> set CONFIRMABLE_REAL_WEB_TOOL_NAMES \<and> w = Some (sort v)"
  by (auto simp: normalize_confirmed_real_web_tools_def Let_def repeated_Nil_iff filter_empty_conv)

lemma normalize_routes_Inr:
  "normalize_confirmed_real_web_tool_routes (Some v) = Inr w \<longleftrightarrow>
     distinct (map route_identity v) \<and> w = Some (sort_key route_identity v)"
  by (auto simp: normalize_confirmed_real_web_tool_routes_def Let_def repeated_Nil_iff)

lemma normalize_tools_None [simp]: "normalize_confirmed_real_web_tools None = Inr None"
  by (simp add: normalize_confirmed_real_web_tools_def)

lemma normalize_routes_None [simp]: "normalize_confirmed_real_web_tool_routes None = Inr None"
  by (simp add: normalize_confirmed_real_web_tool_routes_def)

lemma run_model_validate_Inr:
  assumes "run_model_validate False r = Inr r'"
  obtains names :: "string list" and routes :: "real_web_route list" where
    "r' = r\<lparr>r_confirmed_real_web_tools := Some names,
           r_confirmed_real_web_tool_routes := Some routes\<rparr>"
    "names = map rt_name routes" "distinct names" "sorted names"
    "set names \<subseteq> set CONFIRMABLE_REAL_WEB_TOOL_NAMES"
    "sorted (map route_identity routes)" "distinct (map route_identity routes)"
    "r_real_web_access_confirmed r \<or> names = []"
    "r_execution_plan r = None \<longleftrightarrow> r_execution_plan_hash r = None"
    "run_fields_ok r" "length names \<le> 4"
proof -
  obtain tools routes where
    t: "normalize_confirmed_real_web_tools (r_confirmed_real_web_tools r) = Inr tools" and
    u: "normalize_confirmed_real_web_tool_routes (r_confirmed_real_web_tool_routes r) = Inr routes"
    and v: "validate_real_web_snapshot False
        (r\<lparr>r_confirmed_real_web_tools := tools, r_confirmed_real_web_tool_routes := routes\<rparr>) = Inr r'"
    and w: "validate_execution_plan_pair r' = Inr r'" and f: "run_fields_ok r"
    using assms
    by (auto simp: run_model_validate_def validate_execution_plan_pair_def
        split: if_splits sum.splits)
  from v obtain names rts where
    sn: "tools = Some names" "routes = Some rts" "names = map rt_name rts"
      "r_real_web_access_confirmed r \<or> names = []"
      "r' = r\<lparr>r_confirmed_real_web_tools := tools, r_confirmed_real_web_tool_routes := routes\<rparr>"
    by (auto simp: validate_real_web_snapshot_def split: option.splits if_splits)
  from t sn obtain v0 where v0: "r_confirmed_real_web_tools r = Some v0" "distinct v0"
      "set v0 \<subseteq> set CONFIRMABLE_REAL_WEB_TOOL_NAMES" "names = sort v0"
    by (cases "r_confirmed_real_web_tools r") (auto simp: normalize_tools_Inr)
  from u sn obtain u0 where u0: "r_confirmed_real_web_tool_routes r = Some u0"
      "distinct (map route_identity u0)" "rts = sort_key route_identity u0"
    by (cases "r_confirmed_real_web_tool_routes r") (auto simp: normalize_routes_Inr)
  have rd: "distinct (map route_identity rts)" "sorted (map route_identity rts)"
    using u0 by (simp_all add: distinct_map)
  have nm: "distinct names" "sorted names" "set names \<subseteq> set CONFIRMABLE_REAL_WEB_TOOL_NAMES"
    "length names \<le> 4"
    using v0 f by (simp_all add: run_fields_ok_def opt_all_def)
  have pl: "r_execution_plan r = None \<longleftrightarrow> r_execution_plan_hash r = None"
    using w sn(5) by (simp add: validate_execution_plan_pair_def split: if_splits)
  show ?thesis
    using that [of rts names] sn(1,2,5) nm rd pl f sn(3,4) by blast
qed

section \<open>Properties\<close>

text \<open>
  C18. A \<open>Run\<close> that passes validation carries a canonical web-access snapshot: the tool
  names are confirmable, sorted and without repetition, they are exactly the names of the
  provider routes (so at most one provider per tool), they are empty unless the operator
  confirmed web access, the execution plan and its hash are both present or both absent,
  and validating the accepted run again changes nothing.
\<close>

theorem run_model_validate_snapshot:
  assumes "run_model_validate False r = Inr r'"
  shows "\<exists>names routes. r_confirmed_real_web_tools r' = Some names
     \<and> r_confirmed_real_web_tool_routes r' = Some routes
     \<and> names = map rt_name routes \<and> distinct names \<and> sorted names
     \<and> set names \<subseteq> set CONFIRMABLE_REAL_WEB_TOOL_NAMES
     \<and> (r_real_web_access_confirmed r' \<or> names = [])
     \<and> (r_execution_plan r' = None) = (r_execution_plan_hash r' = None)
     \<and> run_model_validate False r' = Inr r'"
proof -
  obtain names routes where *:
    "r' = r\<lparr>r_confirmed_real_web_tools := Some names,
           r_confirmed_real_web_tool_routes := Some routes\<rparr>"
    "names = map rt_name routes" "distinct names" "sorted names"
    "set names \<subseteq> set CONFIRMABLE_REAL_WEB_TOOL_NAMES"
    "sorted (map route_identity routes)" "distinct (map route_identity routes)"
    "r_real_web_access_confirmed r \<or> names = []"
    "r_execution_plan r = None \<longleftrightarrow> r_execution_plan_hash r = None"
    "run_fields_ok r" "length names \<le> 4"
    by (rule run_model_validate_Inr [OF assms])
  have "normalize_confirmed_real_web_tools (Some names) = Inr (Some names)"
    using * by (simp only: normalize_tools_Inr sorted_sort_id simp_thms)
  moreover have "normalize_confirmed_real_web_tool_routes (Some routes) = Inr (Some routes)"
    using * by (simp only: normalize_routes_Inr sort_key_id_if_sorted simp_thms)
  moreover have "run_fields_ok r'"
    using * by (simp add: run_fields_ok_def opt_all_def)
  ultimately have "run_model_validate False r' = Inr r'"
    using * by (simp add: run_model_validate_def validate_real_web_snapshot_def
        validate_execution_plan_pair_def)
  then show ?thesis
    by (intro exI [of _ names] exI [of _ routes]) (use * in simp)
qed

definition example_run :: run where
  "example_run = \<lparr>r_legacy_real_web_snapshot_run_id = None, r_id = ''run-1'', r_task_id = ''task-1'',
     r_real_model_access_confirmed = True, r_real_web_access_confirmed = True,
     r_confirmed_real_web_tools = Some [''web_search'', ''fetch_page''],
     r_confirmed_real_web_tool_routes =
       Some [\<lparr>rt_name = ''web_search'', rt_provider = ''searx''\<rparr>,
             \<lparr>rt_name = ''fetch_page'', rt_provider = ''http''\<rparr>],
     r_content_block_snapshot = [], r_content_block_snapshot_hash = None,
     r_content_block_snapshot_files = [], r_allow_external_model_inputs_snapshot = False,
     r_vision_preprocess_snapshot = None, r_approved_side_effect_tools = [],
     r_execution_plan = None, r_execution_plan_hash = None, r_execution_plan_redacted = False,
     r_status = Run_QUEUED, r_current_step = None, r_started_at = None, r_finished_at = None,
     r_final_artifact_id = None\<rparr>"

lemma example_run_parts:
  "run_fields_ok example_run"
  "normalize_confirmed_real_web_tools (r_confirmed_real_web_tools example_run) =
     Inr (Some [''fetch_page'', ''web_search''])"
  "normalize_confirmed_real_web_tool_routes (r_confirmed_real_web_tool_routes example_run) =
     Inr (Some [\<lparr>rt_name = ''fetch_page'', rt_provider = ''http''\<rparr>,
                \<lparr>rt_name = ''web_search'', rt_provider = ''searx''\<rparr>])"
  by (simp_all add: example_run_def run_fields_ok_def opt_all_def normalize_tools_Inr
      normalize_routes_Inr CONFIRMABLE_REAL_WEB_TOOL_NAMES_def route_identity_def)

lemma example_run_validates:
  "run_model_validate False example_run =
     Inr (example_run\<lparr>
       r_confirmed_real_web_tools := Some [''fetch_page'', ''web_search''],
       r_confirmed_real_web_tool_routes :=
         Some [\<lparr>rt_name = ''fetch_page'', rt_provider = ''http''\<rparr>,
               \<lparr>rt_name = ''web_search'', rt_provider = ''searx''\<rparr>]\<rparr>)"
  by (simp add: run_model_validate_def example_run_parts validate_real_web_snapshot_def
      validate_execution_plan_pair_def)
    (simp add: example_run_def)

theorem run_model_validate_snapshot_witness:
  "\<exists>r'. run_model_validate False example_run = Inr r'
     \<and> (\<exists>names. r_confirmed_real_web_tools r' = Some names \<and> sorted names)"
  using run_model_validate_snapshot [OF example_run_validates] example_run_validates
  by fastforce

end
