(* ===== verification/Plan_Graph.thy ===== *)
theory Plan_Graph imports Harness_Models "HOL-Library.Multiset" begin

text \<open>
  The dependency-graph algorithms that the Pack validator, the execution plan, the runner
  and the quality gate share. Each is written over a step type with a name \<open>nm\<close> and a list
  of dependencies \<open>dp\<close>, because the code runs the same algorithm on Pack steps
  (\<open>name\<close>, \<open>depends_on\<close>) and on plan steps (\<open>step_id\<close>, \<open>dependencies\<close>). The locale
  \<open>step_view\<close> is the contract between a validated step list and the scheduler:
  its laws are what validation promises, its lemmas are what the runner relies on.
\<close>

section \<open>The dependency dictionary\<close>

definition dependencies_dict ::
  "('a \<Rightarrow> string) \<Rightarrow> ('a \<Rightarrow> string list) \<Rightarrow> 'a list \<Rightarrow> (string \<times> string list) list" where
  "dependencies_dict nm dp steps = map (\<lambda>s. (nm s, dp s)) steps"

text \<open>\<open>dependencies.get(name, [])\<close>: of two entries of a comprehension the later one stays.\<close>

definition deps_get :: "(string \<times> string list) list \<Rightarrow> string \<Rightarrow> string list" where
  "deps_get g k = (case map_of (rev g) k of None \<Rightarrow> [] | Some ds \<Rightarrow> ds)"

definition edges :: "(string \<Rightarrow> string list) \<Rightarrow> (string \<times> string) set" where
  "edges d = {(a, b). b \<in> set (d a)}"

lemma deps_get_range: "x \<in> set (deps_get g k) \<Longrightarrow> \<exists>ds. (k, ds) \<in> set g \<and> x \<in> set ds"
  by (cases "map_of (rev g) k") (auto simp: deps_get_def dest!: map_of_SomeD)

lemma deps_get_step:
  assumes "distinct (map nm steps)" "s \<in> set steps"
  shows "deps_get (dependencies_dict nm dp steps) (nm s) = dp s"
proof -
  have "map_of (rev (map (\<lambda>s. (nm s, dp s)) steps)) (nm s) = Some (dp s)"
    using assms by (intro map_of_is_SomeI) (auto simp: comp_def rev_map [symmetric])
  then show ?thesis by (simp add: deps_get_def dependencies_dict_def)
qed

section \<open>Topological lists\<close>

text \<open>Every dependency of a member of the list stands after it.\<close>

primrec topo :: "(string \<Rightarrow> string list) \<Rightarrow> string list \<Rightarrow> bool" where
  "topo d [] = True"
| "topo d (x # xs) = (x \<notin> set xs \<and> set (d x) \<subseteq> set xs \<and> topo d xs)"

lemma topo_closed: "topo d xs \<Longrightarrow> x \<in> set xs \<Longrightarrow> set (d x) \<subseteq> set xs"
  by (induction xs) auto

definition is_cycle :: "(string \<Rightarrow> string list) \<Rightarrow> string list \<Rightarrow> bool" where
  "is_cycle d c \<longleftrightarrow> length c \<ge> 2 \<and> hd c = last c \<and> distinct (butlast c)
     \<and> successively (\<lambda>a b. b \<in> set (d a)) c"

lemma is_cycleE:
  assumes "is_cycle d c"
  obtains a b p where "c = a # b # p" "b \<in> set (d a)"
proof (cases c)
  case (Cons a q)
  then show ?thesis
  proof (cases q)
    case (Cons b p)
    with \<open>c = a # q\<close> have c: "c = a # b # p" by simp
    moreover have "b \<in> set (d a)"
      using assms unfolding is_cycle_def c successively.simps by blast
    ultimately show ?thesis by (rule that)
  qed (use assms Cons in \<open>simp add: is_cycle_def\<close>)
qed (use assms in \<open>simp add: is_cycle_def\<close>)

lemma path_stays:
  "successively (\<lambda>a b. b \<in> set (d a)) (a # p) \<Longrightarrow> topo d xs \<Longrightarrow> a \<in> set xs
    \<Longrightarrow> set p \<subseteq> set xs"
proof (induction p arbitrary: a)
  case (Cons b p)
  then have "b \<in> set xs" using topo_closed by fastforce
  with Cons show ?case by auto
qed simp

lemma topo_no_cycle: "topo d xs \<Longrightarrow> hd c \<in> set xs \<Longrightarrow> \<not> is_cycle d c"
proof (induction xs)
  case (Cons x xs)
  show ?case
  proof (cases "hd c \<in> set xs")
    case True
    then show ?thesis using Cons by auto
  next
    case False
    with Cons.prems have hd: "hd c = x" by auto
    show ?thesis
    proof
      assume cyc: "is_cycle d c"
      then obtain b p where c: "c = x # b # p" "b \<in> set (d x)"
        using hd is_cycleE [OF cyc] by (metis list.sel(1))
      then have "b \<in> set xs" using Cons.prems by auto
      moreover have "successively (\<lambda>a b. b \<in> set (d a)) (b # p)"
        using cyc c by (simp add: is_cycle_def)
      ultimately have "set (b # p) \<subseteq> set xs" using path_stays [of d b p xs] Cons.prems by auto
      moreover have "last (b # p) = x" using cyc c by (simp add: is_cycle_def)
      ultimately show False using Cons.prems(1) last_in_set [of "b # p"] by auto
    qed
  qed
qed simp

lemma topo_minimal:
  "topo d xs \<Longrightarrow> R \<inter> set xs \<noteq> {} \<Longrightarrow> \<exists>x \<in> R \<inter> set xs. set (d x) \<inter> R = {}"
proof (induction xs)
  case (Cons x xs)
  show ?case
  proof (cases "R \<inter> set xs = {}")
    case True
    then have "x \<in> R" "set (d x) \<inter> R = {}" using Cons.prems by auto
    then show ?thesis by auto
  next
    case False
    then show ?thesis using Cons by auto
  qed
qed simp

section \<open>The cycle detector\<close>

text \<open>
  The nested function \<open>visit\<close> of \<open>_dependency_cycle\<close> with the variables it captures. The
  fuel bounds the depth of the recursion; running out of it is the value \<open>None\<close>, and
  \<open>visit_spec\<close> shows that one more than the number of nodes is enough. The sets
  \<open>visiting\<close> and \<open>visited\<close> stay disjoint, so the order of the first two tests, which
  differs between the two copies of the function, does not matter.
\<close>

record dfs_state =
  visiting :: "string list"
  visited :: "string list"
  stack :: "string list"

definition cycle_from :: "string list \<Rightarrow> string \<Rightarrow> string list" where
  "cycle_from st n =
     (let start = (if n \<in> set st then length (takeWhile (\<lambda>x. x \<noteq> n) st) else 0)
      in drop start st @ [n])"

fun visit :: "nat \<Rightarrow> (string \<Rightarrow> string list) \<Rightarrow> string \<Rightarrow> dfs_state \<Rightarrow> (string list \<times> dfs_state) option"
  and visit_all ::
    "nat \<Rightarrow> (string \<Rightarrow> string list) \<Rightarrow> string list \<Rightarrow> dfs_state \<Rightarrow> (string list \<times> dfs_state) option"
where
  "visit 0 d n s = None"
| "visit (Suc k) d n s =
    (if n \<in> set (visited s) then Some ([], s)
     else if n \<in> set (visiting s) then Some (cycle_from (stack s) n, s)
     else case visit_all k d (d n) (s\<lparr>visiting := n # visiting s, stack := stack s @ [n]\<rparr>) of
         None \<Rightarrow> None
       | Some (cycle, s') \<Rightarrow>
           if cycle \<noteq> [] then Some (cycle, s')
           else Some ([], s'\<lparr>stack := butlast (stack s'),
                             visiting := removeAll n (visiting s'),
                             visited := n # visited s'\<rparr>))"
| "visit_all k d [] s = Some ([], s)"
| "visit_all k d (n # ns) s =
    (case visit k d n s of
       None \<Rightarrow> None
     | Some (cycle, s') \<Rightarrow> if cycle \<noteq> [] then Some (cycle, s') else visit_all k d ns s')"

definition dfs_nodes :: "(string \<times> string list) list \<Rightarrow> string list" where
  "dfs_nodes g = remdups (map fst g @ concat (map snd g))"

definition dependency_cycle_fuel :: "(string \<times> string list) list \<Rightarrow> nat" where
  "dependency_cycle_fuel g = Suc (length (dfs_nodes g))"

definition dependency_cycle ::
  "('a \<Rightarrow> string) \<Rightarrow> ('a \<Rightarrow> string list) \<Rightarrow> 'a list \<Rightarrow> string list option" where
  "dependency_cycle nm dp steps =
    (let g = dependencies_dict nm dp steps in
     map_option fst (visit_all (dependency_cycle_fuel g) (deps_get g) (map nm steps)
       \<lparr>visiting = [], visited = [], stack = []\<rparr>))"

definition dfs_inv :: "(string \<Rightarrow> string list) \<Rightarrow> string set \<Rightarrow> dfs_state \<Rightarrow> bool" where
  "dfs_inv d U s \<longleftrightarrow> set (visiting s) = set (stack s) \<and> distinct (stack s)
     \<and> successively (\<lambda>a b. b \<in> set (d a)) (stack s) \<and> topo d (visited s)
     \<and> set (visited s) \<inter> set (stack s) = {} \<and> set (stack s) \<subseteq> U \<and> set (visited s) \<subseteq> U"

definition enters :: "(string \<Rightarrow> string list) \<Rightarrow> dfs_state \<Rightarrow> string \<Rightarrow> bool" where
  "enters d s n \<longleftrightarrow> stack s = [] \<or> n \<in> set (d (last (stack s)))"

definition visit_post ::
  "(string \<Rightarrow> string list) \<Rightarrow> string set \<Rightarrow> dfs_state \<Rightarrow> string set \<Rightarrow> string list \<Rightarrow> dfs_state \<Rightarrow> bool"
  where
  "visit_post d U s N c s' \<longleftrightarrow> (if c = [] then
       dfs_inv d U s' \<and> stack s' = stack s \<and> visiting s' = visiting s
         \<and> set (visited s) \<union> N \<subseteq> set (visited s')
     else is_cycle d c)"

lemma cycle_from_is_cycle:
  assumes "dfs_inv d U s" "enters d s n" "n \<in> set (stack s)"
  shows "is_cycle d (cycle_from (stack s) n)"
proof -
  let ?E = "\<lambda>a b. b \<in> set (d a)"
  obtain p q where st: "stack s = p @ n # q" "n \<notin> set p"
    using split_list_first [OF assms(3)] by blast
  then have "takeWhile (\<lambda>x. x \<noteq> n) (stack s) = p"
    by (auto simp: takeWhile_append intro: takeWhile_eq_all_conv [THEN iffD2])
  then have c: "cycle_from (stack s) n = n # q @ [n]"
    using assms(3) st by (simp add: cycle_from_def)
  have "successively ?E (n # q)"
    using assms(1) by (simp add: dfs_inv_def st successively_append_iff)
  moreover have "?E (last (n # q)) n"
    using assms(2) by (simp add: enters_def st)
  ultimately have "successively ?E ((n # q) @ [n])"
    by (simp only: successively_append_iff) simp
  moreover have "distinct (n # q)" using assms(1) by (simp add: dfs_inv_def st)
  ultimately show ?thesis
    by (simp add: c is_cycle_def butlast_append)
qed

lemma visit_spec:
  assumes U: "finite U" "\<And>x. x \<in> U \<Longrightarrow> set (d x) \<subseteq> U"
  shows "dfs_inv d U s \<Longrightarrow> n \<in> U \<Longrightarrow> enters d s n \<Longrightarrow> card (U - set (stack s)) < k
      \<Longrightarrow> \<exists>c s'. visit k d n s = Some (c, s') \<and> visit_post d U s {n} c s'"
    and "dfs_inv d U s \<Longrightarrow> set ns \<subseteq> U \<Longrightarrow> (\<And>n. n \<in> set ns \<Longrightarrow> enters d s n)
      \<Longrightarrow> card (U - set (stack s)) < k
      \<Longrightarrow> \<exists>c s'. visit_all k d ns s = Some (c, s') \<and> visit_post d U s (set ns) c s'"
  using U
proof (induction k d n s and k d ns s rule: visit_visit_all.induct)
  case (2 k d n s)
  show ?case
  proof (cases "n \<in> set (visited s) \<or> n \<in> set (visiting s)")
    case True
    then show ?thesis
      using 2 cycle_from_is_cycle [of d U s n]
      by (auto simp: visit_post_def is_cycle_def dfs_inv_def)
  next
    case False
    let ?s = "s\<lparr>visiting := n # visiting s, stack := stack s @ [n]\<rparr>"
    have n: "n \<notin> set (stack s)" using False "2.prems"(1) by (simp add: dfs_inv_def)
    have inv: "dfs_inv d U ?s"
      using "2.prems"(1,2,3) False n
      by (auto simp: dfs_inv_def enters_def successively_append_iff)
    have "card (U - set (stack ?s)) < card (U - set (stack s))"
      using "2.prems"(2,5) n by (intro psubset_card_mono) auto
    then have fuel: "card (U - set (stack ?s)) < k" using "2.prems"(4) by simp
    obtain c s' where v: "visit_all k d (d n) ?s = Some (c, s')"
      and p: "visit_post d U ?s (set (d n)) c s'"
      using "2.IH" [OF _ _ inv _ _ fuel "2.prems"(5,6)] False "2.prems"(2,6)
      by (auto simp: enters_def)
    show ?thesis
    proof (cases "c = []")
      case True
      with p have q: "dfs_inv d U s'" "stack s' = stack s @ [n]" "visiting s' = n # visiting s"
        "set (visited s) \<union> set (d n) \<subseteq> set (visited s')"
        by (auto simp: visit_post_def)
      have "n \<notin> set (visited s')" using q(1,2) by (auto simp: dfs_inv_def)
      then have "visit_post d U s {n} []
          (s'\<lparr>stack := butlast (stack s'), visiting := removeAll n (visiting s'),
              visited := n # visited s'\<rparr>)"
        using q False n "2.prems"(1,2)
        by (auto simp: visit_post_def dfs_inv_def successively_append_iff)
      with v True False show ?thesis by simp
    next
      case False
      with v p \<open>\<not> (n \<in> set (visited s) \<or> n \<in> set (visiting s))\<close> show ?thesis
        by (simp add: visit_post_def)
    qed
  qed
next
  case (4 k d n ns s)
  have "n \<in> U" "enters d s n" using "4.prems" by auto
  then obtain c s' where v: "visit k d n s = Some (c, s')" "visit_post d U s {n} c s'"
    using "4.IH"(1) [OF "4.prems"(1) _ _ "4.prems"(4,5,6)] by blast
  show ?case
  proof (cases "c = []")
    case True
    with v have q: "dfs_inv d U s'" "stack s' = stack s" "visiting s' = visiting s"
      "set (visited s) \<union> {n} \<subseteq> set (visited s')"
      by (auto simp: visit_post_def)
    have "\<exists>c'' s''. visit_all k d ns s' = Some (c'', s'') \<and> visit_post d U s' (set ns) c'' s''"
      using "4.IH"(2) [OF v(1) refl _ q(1)] True q "4.prems" by (auto simp: enters_def)
    with v True q show ?thesis by (auto simp: visit_post_def split: if_splits)
  next
    case False
    with v show ?thesis by (simp add: visit_post_def)
  qed
qed (auto simp: visit_post_def)


lemma dfs_nodes_closed:
  "x \<in> set (dfs_nodes g) \<Longrightarrow> set (deps_get g x) \<subseteq> set (dfs_nodes g)"
  by (force simp: dfs_nodes_def dest: deps_get_range)

text \<open>The detector returns: its fuel is enough on every input.\<close>

lemma dependency_cycle_result:
  obtains c and s' :: dfs_state where
    "dependency_cycle nm dp steps = Some c"
    "c \<noteq> [] \<Longrightarrow> is_cycle (deps_get (dependencies_dict nm dp steps)) c"
    "c = [] \<Longrightarrow> topo (deps_get (dependencies_dict nm dp steps)) (visited s')"
    "c = [] \<Longrightarrow> nm ` set steps \<subseteq> set (visited s')"
proof -
  let ?g = "dependencies_dict nm dp steps"
  let ?d = "deps_get ?g" and ?U = "set (dfs_nodes ?g)"
  let ?s = "\<lparr>visiting = [], visited = [], stack = []\<rparr>"
  have "card ?U < dependency_cycle_fuel ?g"
    unfolding dependency_cycle_fuel_def by (rule le_imp_less_Suc) (rule card_length)
  moreover have "set (map nm steps) \<subseteq> ?U"
    by (force simp: dfs_nodes_def dependencies_dict_def)
  ultimately obtain c s' where
    "visit_all (dependency_cycle_fuel ?g) ?d (map nm steps) ?s = Some (c, s')"
    "visit_post ?d ?U ?s (set (map nm steps)) c s'"
    using visit_spec(2) [of ?U ?d ?s "map nm steps" "dependency_cycle_fuel ?g"]
      dfs_nodes_closed [of _ ?g]
    by (auto simp: dfs_inv_def enters_def)
  then show ?thesis
    using that [of c s']
    by (auto simp: dependency_cycle_def visit_post_def dfs_inv_def split: if_splits)
qed

lemma dependency_cycle_total: "dependency_cycle nm dp steps \<noteq> None"
  by (rule dependency_cycle_result [of nm dp steps]) simp

lemma dependency_cycle_found:
  "dependency_cycle nm dp steps = Some c \<Longrightarrow> c \<noteq> []
    \<Longrightarrow> is_cycle (deps_get (dependencies_dict nm dp steps)) c"
  by (rule dependency_cycle_result [of nm dp steps]) simp

lemma dependency_cycle_none:
  "dependency_cycle nm dp steps = Some [] \<Longrightarrow>
    \<exists>order. topo (deps_get (dependencies_dict nm dp steps)) order \<and> nm ` set steps \<subseteq> set order"
  by (rule dependency_cycle_result [of nm dp steps]) auto

lemma is_cycle_hd_named:
  assumes "is_cycle (deps_get (dependencies_dict nm dp steps)) c"
  shows "hd c \<in> nm ` set steps"
proof -
  obtain a b p where "c = a # b # p" "b \<in> set (deps_get (dependencies_dict nm dp steps) a)"
    using is_cycleE [OF assms] by blast
  then have "b \<in> set (deps_get (dependencies_dict nm dp steps) a)" "hd c = a"
    by simp_all
  then obtain ds where "(hd c, ds) \<in> set (dependencies_dict nm dp steps)"
    using deps_get_range [of b "dependencies_dict nm dp steps" a] by blast
  then show ?thesis by (auto simp: dependencies_dict_def)
qed

text \<open>The empty answer is given exactly for a graph without a cycle.\<close>

lemma dependency_cycle_Nil_iff:
  "dependency_cycle nm dp steps = Some [] \<longleftrightarrow>
     (\<nexists>c. is_cycle (deps_get (dependencies_dict nm dp steps)) c)"
proof
  assume "dependency_cycle nm dp steps = Some []"
  then obtain order where
    "topo (deps_get (dependencies_dict nm dp steps)) order" "nm ` set steps \<subseteq> set order"
    using dependency_cycle_none by blast
  then show "\<nexists>c. is_cycle (deps_get (dependencies_dict nm dp steps)) c"
    by (meson is_cycle_hd_named subsetD topo_no_cycle)
next
  assume no: "\<nexists>c. is_cycle (deps_get (dependencies_dict nm dp steps)) c"
  obtain c where "dependency_cycle nm dp steps = Some c"
    using dependency_cycle_total [of nm dp steps] by auto
  with no dependency_cycle_found [of nm dp steps c] show "dependency_cycle nm dp steps = Some []"
    by (cases "c = []") auto
qed


section \<open>The order of execution\<close>

text \<open>
  \<open>_ordered_steps\<close>: the steps whose dependencies are completed, round after round, in
  the order of the Pack; \<open>remaining.remove\<close> drops the first equal element. A round
  without a ready step raises, here \<open>Inl\<close> with the steps that are blocked.
\<close>

definition ready_steps_of ::
  "('a \<Rightarrow> string list) \<Rightarrow> string list \<Rightarrow> 'a list \<Rightarrow> 'a list" where
  "ready_steps_of dp completed remaining =
     filter (\<lambda>s. set (dp s) \<subseteq> set completed) remaining"

definition remove_all_of :: "'a list \<Rightarrow> 'a list \<Rightarrow> 'a list" where
  "remove_all_of ready remaining = foldl (\<lambda>r s. remove1 s r) remaining ready"

lemma foldl_remove1_notin: "x \<notin> set ys \<Longrightarrow>
    foldl (\<lambda>r s. remove1 s r) (x # xs) ys = x # foldl (\<lambda>r s. remove1 s r) xs ys"
  by (induction ys arbitrary: xs) auto

lemma remove_all_of_filter [simp]: "remove_all_of (filter P xs) xs = filter (\<lambda>x. \<not> P x) xs"
  by (induction xs) (simp_all add: remove_all_of_def foldl_remove1_notin)

lemma remove_ready [simp]:
  "remove_all_of (ready_steps_of dp completed remaining) remaining =
     filter (\<lambda>s. \<not> set (dp s) \<subseteq> set completed) remaining"
  by (simp add: ready_steps_of_def)

lemma ready_shorter:
  "ready_steps_of dp completed remaining \<noteq> [] \<Longrightarrow>
    length (remove_all_of (ready_steps_of dp completed remaining) remaining) < length remaining"
  by (auto simp: ready_steps_of_def filter_empty_conv intro!: length_filter_less)

function ordered_loop ::
  "('a \<Rightarrow> string) \<Rightarrow> ('a \<Rightarrow> string list) \<Rightarrow> string list \<Rightarrow> 'a list \<Rightarrow> 'a list \<Rightarrow> 'a list + 'a list"
where
  "ordered_loop nm dp completed remaining ordered =
    (if remaining = [] then Inr ordered
     else let ready = ready_steps_of dp completed remaining in
       if ready = [] then Inl remaining
       else ordered_loop nm dp (completed @ map nm ready) (remove_all_of ready remaining)
              (ordered @ ready))"
  by pat_completeness auto
termination
  by (relation "measure (\<lambda>(nm, dp, completed, remaining, ordered). length remaining)")
    (simp_all add: ready_shorter del: remove_ready)

declare ordered_loop.simps [simp del]

text \<open>\<open>_ready_batches\<close>: the same rounds, kept apart.\<close>

function batches_loop ::
  "('a \<Rightarrow> string) \<Rightarrow> ('a \<Rightarrow> string list) \<Rightarrow> string list \<Rightarrow> 'a list \<Rightarrow> 'a list list
    \<Rightarrow> 'a list + 'a list list"
where
  "batches_loop nm dp completed remaining batches =
    (if remaining = [] then Inr batches
     else let ready = ready_steps_of dp completed remaining in
       if ready = [] then Inl remaining
       else batches_loop nm dp (completed @ map nm ready) (remove_all_of ready remaining)
              (batches @ [ready]))"
  by pat_completeness auto
termination
  by (relation "measure (\<lambda>(nm, dp, completed, remaining, batches). length remaining)")
    (simp_all add: ready_shorter del: remove_ready)

declare batches_loop.simps [simp del]

definition ready_batches_of ::
  "('a \<Rightarrow> string) \<Rightarrow> ('a \<Rightarrow> string list) \<Rightarrow> 'a list \<Rightarrow> 'a list + 'a list list" where
  "ready_batches_of nm dp steps =
    (if \<not> (\<exists>s \<in> set steps. dp s \<noteq> []) then Inr (map (\<lambda>s. [s]) steps)
     else batches_loop nm dp [] steps [])"

subsection \<open>Dependencies come first\<close>

fun deps_first :: "('a \<Rightarrow> string) \<Rightarrow> ('a \<Rightarrow> string list) \<Rightarrow> string set \<Rightarrow> 'a list \<Rightarrow> bool" where
  "deps_first nm dp before [] = True"
| "deps_first nm dp before (s # ss) =
     (set (dp s) \<subseteq> before \<and> deps_first nm dp (insert (nm s) before) ss)"

lemma deps_first_mono:
  "deps_first nm dp A ss \<Longrightarrow> A \<subseteq> B \<Longrightarrow> deps_first nm dp B ss"
  by (induction ss arbitrary: A B) (auto, meson insert_mono)

lemma deps_first_append:
  "deps_first nm dp A (xs @ ys) \<longleftrightarrow> deps_first nm dp A xs \<and> deps_first nm dp (A \<union> nm ` set xs) ys"
  by (induction xs arbitrary: A) auto

lemma deps_first_all: "(\<And>s. s \<in> set ss \<Longrightarrow> set (dp s) \<subseteq> A) \<Longrightarrow> deps_first nm dp A ss"
  by (induction ss arbitrary: A) (auto intro: deps_first_mono)

lemma deps_first_ready: "deps_first nm dp (set completed) (ready_steps_of dp completed remaining)"
  by (rule deps_first_all) (auto simp: ready_steps_of_def)

lemma ready_mset:
  "mset (ready_steps_of dp completed remaining)
    + mset (remove_all_of (ready_steps_of dp completed remaining) remaining) = mset remaining"
  by (simp add: ready_steps_of_def mset_filter)

lemma ordered_loop_mset:
  "ordered_loop nm dp completed remaining ordered = Inr res
    \<Longrightarrow> mset res = mset ordered + mset remaining"
proof (induction nm dp completed remaining ordered rule: ordered_loop.induct)
  case (1 nm dp completed remaining ordered)
  then show ?case
    using ready_mset [of dp completed remaining]
    by (subst (asm) ordered_loop.simps) (auto simp: Let_def split: if_splits)
qed

lemma ordered_loop_deps_first:
  "ordered_loop nm dp completed remaining ordered = Inr res
    \<Longrightarrow> deps_first nm dp {} ordered \<Longrightarrow> set completed = nm ` set ordered
    \<Longrightarrow> deps_first nm dp {} res"
proof (induction nm dp completed remaining ordered rule: ordered_loop.induct)
  case (1 nm dp completed remaining ordered)
  show ?case
  proof (cases "remaining = []")
    case True
    with 1 show ?thesis by (simp add: ordered_loop.simps)
  next
    case False
    let ?r = "ready_steps_of dp completed remaining"
    have ne: "?r \<noteq> []"
      using "1.prems"(1) False by (subst (asm) ordered_loop.simps) (auto simp: Let_def)
    have "ordered_loop nm dp (completed @ map nm ?r) (remove_all_of ?r remaining) (ordered @ ?r)
        = Inr res"
      using "1.prems"(1) False ne by (subst (asm) ordered_loop.simps) (auto simp: Let_def)
    moreover have "deps_first nm dp {} (ordered @ ?r)"
      using "1.prems"(2,3) deps_first_ready [of nm dp completed remaining]
      by (simp add: deps_first_append)
    ultimately show ?thesis
      using "1.IH" [OF False refl ne] "1.prems"(3) by (simp add: image_Un)
  qed
qed


lemma ordered_loop_step:
  assumes "remaining \<noteq> []" "ready_steps_of dp completed remaining \<noteq> []"
  shows "ordered_loop nm dp completed remaining ordered =
    ordered_loop nm dp (completed @ map nm (ready_steps_of dp completed remaining))
      (remove_all_of (ready_steps_of dp completed remaining) remaining)
      (ordered @ ready_steps_of dp completed remaining)"
  using assms by (subst ordered_loop.simps) (simp add: Let_def del: remove_ready)

lemma ordered_loop_succeeds:
  assumes "topo d order" "nm ` set steps \<subseteq> set order" "\<And>s. s \<in> set steps \<Longrightarrow> d (nm s) = dp s"
    "\<And>s. s \<in> set steps \<Longrightarrow> set (dp s) \<subseteq> nm ` set steps"
  shows "set remaining \<subseteq> set steps \<Longrightarrow> nm ` set steps \<subseteq> set completed \<union> nm ` set remaining
    \<Longrightarrow> \<exists>res. ordered_loop nm dp completed remaining ordered = Inr res"
  using assms
proof (induction nm dp completed remaining ordered rule: ordered_loop.induct)
  case (1 nm dp completed remaining ordered)
  let ?r = "ready_steps_of dp completed remaining"
  show ?case
  proof (cases "remaining = []")
    case True
    then show ?thesis by (simp add: ordered_loop.simps)
  next
    case False
    have "nm ` set remaining \<inter> set order \<noteq> {}"
      using False "1.prems"(1,4) by (cases remaining) auto
    from topo_minimal [OF "1.prems"(3) this]
    obtain x where x: "x \<in> nm ` set remaining" "set (d x) \<inter> nm ` set remaining = {}"
      by blast
    then obtain s where s: "s \<in> set remaining" "set (d (nm s)) \<inter> nm ` set remaining = {}"
      by blast
    have st: "s \<in> set steps" using s(1) "1.prems"(1) by auto
    have "set (dp s) \<subseteq> set completed \<union> nm ` set remaining"
      using "1.prems"(6) [OF st] "1.prems"(2) by (rule subset_trans)
    moreover have "set (dp s) \<inter> nm ` set remaining = {}"
      using s(2) "1.prems"(5) [OF st] by simp
    ultimately have "set (dp s) \<subseteq> set completed" by blast
    then have ne: "?r \<noteq> []"
      using s(1) by (auto simp: ready_steps_of_def filter_empty_conv)
    have "set (remove_all_of ?r remaining) \<subseteq> set steps"
      using "1.prems"(1) by auto
    moreover have "set remaining = set ?r \<union> set (remove_all_of ?r remaining)"
      by (auto simp: ready_steps_of_def)
    then have "nm ` set steps
        \<subseteq> set (completed @ map nm ?r) \<union> nm ` set (remove_all_of ?r remaining)"
      using "1.prems"(2) by (simp only: image_Un set_append set_map Un_assoc)
    ultimately show ?thesis
      using "1.IH" [OF False refl ne] "1.prems"(3-6) ordered_loop_step [OF False ne, of nm ordered]
      by presburger
  qed
qed

subsection \<open>Batches are the order, cut into rounds\<close>

lemma batches_loop_ordered:
  "map_sum id concat (batches_loop nm dp completed remaining batches) =
     ordered_loop nm dp completed remaining (concat batches)"
proof (induction nm dp completed remaining batches rule: batches_loop.induct)
  case (1 nm dp completed remaining batches)
  show ?case
    using 1 by (subst batches_loop.simps, subst ordered_loop.simps)
      (auto simp: Let_def id_def simp del: remove_ready)
qed

lemma ordered_loop_no_deps:
  assumes "\<And>s. s \<in> set steps \<Longrightarrow> dp s = []"
  shows "ordered_loop nm dp [] steps [] = Inr steps"
proof -
  have "ready_steps_of dp [] steps = steps"
    using assms by (simp add: ready_steps_of_def)
  moreover have "remove_all_of steps steps = []"
    using remove_all_of_filter [of "\<lambda>_. True" steps] by simp
  ultimately show ?thesis
    by (cases "steps = []") (auto simp: ordered_loop.simps [of nm dp "[]" steps]
        ordered_loop.simps [of _ _ _ "[]"] Let_def simp del: remove_ready)
qed

lemma ready_batches_concat:
  "map_sum id concat (ready_batches_of nm dp steps) = ordered_loop nm dp [] steps []"
proof (cases "\<exists>s \<in> set steps. dp s \<noteq> []")
  case True
  then show ?thesis
    using batches_loop_ordered [of nm dp "[]" steps "[]"] by (simp add: ready_batches_of_def)
next
  case False
  then have "ready_batches_of nm dp steps = Inr (map (\<lambda>s. [s]) steps)"
    by (auto simp: ready_batches_of_def)
  moreover have "concat (map (\<lambda>s. [s]) steps) = steps" by (induction steps) auto
  ultimately show ?thesis using ordered_loop_no_deps [of steps dp nm] False by auto
qed

text \<open>A batch depends on the batches before it only.\<close>

fun batches_ok :: "('a \<Rightarrow> string) \<Rightarrow> ('a \<Rightarrow> string list) \<Rightarrow> string set \<Rightarrow> 'a list list \<Rightarrow> bool" where
  "batches_ok nm dp before [] = True"
| "batches_ok nm dp before (b # bs) =
     ((\<forall>s \<in> set b. set (dp s) \<subseteq> before) \<and> batches_ok nm dp (before \<union> nm ` set b) bs)"

lemma batches_ok_append:
  "batches_ok nm dp A (xs @ ys) \<longleftrightarrow>
     batches_ok nm dp A xs \<and> batches_ok nm dp (A \<union> nm ` set (concat xs)) ys"
  by (induction xs arbitrary: A) (auto simp: Un_assoc image_Un)

lemma batches_ok_no_deps: "(\<And>s. s \<in> set steps \<Longrightarrow> dp s = []) \<Longrightarrow>
    batches_ok nm dp A (map (\<lambda>s. [s]) steps)"
  by (induction steps arbitrary: A) auto

lemma batches_loop_ok:
  "batches_loop nm dp completed remaining batches = Inr res
    \<Longrightarrow> batches_ok nm dp {} batches \<Longrightarrow> set completed = nm ` set (concat batches)
    \<Longrightarrow> batches_ok nm dp {} res"
proof (induction nm dp completed remaining batches rule: batches_loop.induct)
  case (1 nm dp completed remaining batches)
  show ?case
  proof (cases "remaining = []")
    case True
    with 1 show ?thesis by (simp add: batches_loop.simps)
  next
    case False
    let ?r = "ready_steps_of dp completed remaining"
    have ne: "?r \<noteq> []"
      using "1.prems"(1) False by (subst (asm) batches_loop.simps) (auto simp: Let_def)
    have "batches_loop nm dp (completed @ map nm ?r) (remove_all_of ?r remaining) (batches @ [?r])
        = Inr res"
      using "1.prems"(1) False ne by (subst (asm) batches_loop.simps) (auto simp: Let_def)
    moreover have "batches_ok nm dp {} (batches @ [?r])"
      using "1.prems"(2,3) by (auto simp: batches_ok_append ready_steps_of_def)
    moreover have "set (completed @ map nm ?r) = nm ` set (concat (batches @ [?r]))"
      using "1.prems"(3) by auto
    ultimately show ?thesis
      using "1.IH" [OF False refl ne] by blast
  qed
qed

lemma ready_batches_ok:
  assumes "ready_batches_of nm dp steps = Inr bs"
  shows "batches_ok nm dp {} bs"
proof (cases "\<exists>s \<in> set steps. dp s \<noteq> []")
  case True
  then show ?thesis
    using assms batches_loop_ok [of nm dp "[]" steps "[]" bs] by (simp add: ready_batches_of_def)
next
  case False
  then show ?thesis
    using assms batches_ok_no_deps [of steps dp nm "{}"] by (auto simp: ready_batches_of_def)
qed

lemma batches_ok_independent:
  "batches_ok nm dp A bs \<Longrightarrow> distinct (map nm (concat bs)) \<Longrightarrow> A \<inter> nm ` set (concat bs) = {}
    \<Longrightarrow> b \<in> set bs \<Longrightarrow> s \<in> set b \<Longrightarrow> t \<in> set b \<Longrightarrow> nm t \<notin> set (dp s)"
proof (induction bs arbitrary: A)
  case (Cons c bs)
  show ?case
  proof (cases "b = c")
    case True
    then have "set (dp s) \<subseteq> A" using Cons.prems by auto
    then show ?thesis using Cons.prems(3,6) True by auto
  next
    case False
    have "(A \<union> nm ` set c) \<inter> nm ` set (concat bs) = {}"
      using Cons.prems(2,3) by (auto simp: image_Un)
    then show ?thesis
      using Cons False by auto
  qed
qed simp


lemma deps_first_topo:
  "deps_first nm dp (set xs) ss \<Longrightarrow> topo d xs \<Longrightarrow> distinct (map nm ss)
    \<Longrightarrow> set xs \<inter> nm ` set ss = {} \<Longrightarrow> (\<And>s. s \<in> set ss \<Longrightarrow> d (nm s) = dp s)
    \<Longrightarrow> topo d (rev (map nm ss) @ xs)"
proof (induction ss arbitrary: xs)
  case (Cons s ss)
  have "topo d (nm s # xs)" using Cons.prems by auto
  then have "topo d (rev (map nm ss) @ nm s # xs)"
    using Cons.prems by (intro Cons.IH) auto
  then show ?case by simp
qed simp

section \<open>Upstream steps\<close>

text \<open>
  The work list of \<open>_upstream_steps\<close>: \<open>pending.pop()\<close> takes the last element, an
  element seen before is skipped, a new one is added and its dependencies are appended.
\<close>

definition upstream_universe :: "(string \<times> string list) list \<Rightarrow> string list \<Rightarrow> string set" where
  "upstream_universe g pending = set pending \<union> (\<Union>ds \<in> snd ` set g. set ds)"

lemma upstream_universe_pop:
  "pending \<noteq> [] \<Longrightarrow> upstream_universe g (butlast pending) \<subseteq> upstream_universe g pending"
  by (auto simp: upstream_universe_def dest: in_set_butlastD)

lemma upstream_universe_extend:
  "pending \<noteq> [] \<Longrightarrow>
    upstream_universe g (butlast pending @ deps_get g x) \<subseteq> upstream_universe g pending"
  by (force simp: upstream_universe_def dest: in_set_butlastD deps_get_range)

lemma finite_upstream_universe [simp]: "finite (upstream_universe g pending)"
  by (simp add: upstream_universe_def)

function upstream_loop ::
  "(string \<times> string list) list \<Rightarrow> string list \<Rightarrow> string list \<Rightarrow> string list" where
  "upstream_loop g upstream pending =
    (if pending = [] then upstream
     else let dependency = last pending; pending' = butlast pending in
       if dependency \<in> set upstream then upstream_loop g upstream pending'
       else upstream_loop g (dependency # upstream) (pending' @ deps_get g dependency))"
  by pat_completeness auto

termination
proof (relation "measures [\<lambda>(g, up, pending). card (upstream_universe g pending - set up),
                           \<lambda>(g, up, pending). length pending]")
  fix g :: "(string \<times> string list) list" and upstream pending xa :: "string list" and x
  assume *: "pending \<noteq> []" "x = last pending" "xa = butlast pending" "x \<in> set upstream"
  have "card (upstream_universe g xa - set upstream)
      \<le> card (upstream_universe g pending - set upstream)"
    using upstream_universe_pop [OF *(1), of g] *(3) by (intro card_mono) auto
  then show "((g, upstream, xa), g, upstream, pending)
      \<in> measures [\<lambda>(g, up, pending). card (upstream_universe g pending - set up),
                  \<lambda>(g, up, pending). length pending]"
    using * by auto
next
  fix g :: "(string \<times> string list) list" and upstream pending xa :: "string list" and x
  assume *: "pending \<noteq> []" "x = last pending" "xa = butlast pending" "x \<notin> set upstream"
  have "x \<in> upstream_universe g pending" using * by (simp add: upstream_universe_def)
  then have "card (upstream_universe g (xa @ deps_get g x) - set (x # upstream))
      < card (upstream_universe g pending - set upstream)"
    using upstream_universe_extend [OF *(1), of g x] *(3,4) by (intro psubset_card_mono) auto
  then show "((g, x # upstream, xa @ deps_get g x), g, upstream, pending)
      \<in> measures [\<lambda>(g, up, pending). card (upstream_universe g pending - set up),
                  \<lambda>(g, up, pending). length pending]"
    by simp
qed simp

declare upstream_loop.simps [simp del]

definition upstream_steps ::
  "('a \<Rightarrow> string) \<Rightarrow> ('a \<Rightarrow> string list) \<Rightarrow> string \<Rightarrow> 'a list \<Rightarrow> string list" where
  "upstream_steps nm dp step_name steps =
    (let g = dependencies_dict nm dp steps in upstream_loop g [] (deps_get g step_name))"

lemma last_butlast_set: "xs \<noteq> [] \<Longrightarrow> set xs = insert (last xs) (set (butlast xs))"
  by (metis append_butlast_last_id list.set(2) rotate1.simps(2) set_rotate1)

lemma upstream_loop_Nil [simp]: "upstream_loop g up [] = up"
  by (simp add: upstream_loop.simps)

lemma upstream_loop_seen:
  "pending \<noteq> [] \<Longrightarrow> last pending \<in> set up \<Longrightarrow>
    upstream_loop g up pending = upstream_loop g up (butlast pending)"
  by (subst upstream_loop.simps) (simp add: Let_def)

lemma upstream_loop_new:
  "pending \<noteq> [] \<Longrightarrow> last pending \<notin> set up \<Longrightarrow>
    upstream_loop g up pending =
      upstream_loop g (last pending # up) (butlast pending @ deps_get g (last pending))"
  by (subst upstream_loop.simps) (simp add: Let_def)

lemma upstream_loop_least:
  assumes S: "\<And>x. x \<in> S \<Longrightarrow> set (deps_get g x) \<subseteq> S"
  shows "set up \<subseteq> S \<Longrightarrow> set pending \<subseteq> S \<Longrightarrow> set (upstream_loop g up pending) \<subseteq> S"
  using S
proof (induction g up pending rule: upstream_loop.induct)
  case (1 g up pending)
  show ?case
  proof (cases "pending = []")
    case True
    with "1.prems"(1) show ?thesis by simp
  next
    case False
    then have l: "last pending \<in> S" "set (butlast pending) \<subseteq> S"
      using "1.prems"(2) last_butlast_set [of pending] by auto
    show ?thesis
    proof (cases "last pending \<in> set up")
      case True
      show ?thesis
        unfolding upstream_loop_seen [OF False True]
        by (rule "1.IH"(1) [OF False refl refl True "1.prems"(1) l(2) "1.prems"(3)])
    next
      case new: False
      have "set (last pending # up) \<subseteq> S"
        "set (butlast pending @ deps_get g (last pending)) \<subseteq> S"
        using l "1.prems"(1) "1.prems"(3) [OF l(1)] by simp_all
      then show ?thesis
        unfolding upstream_loop_new [OF False new]
        by (rule "1.IH"(2) [OF False refl refl new _ _ "1.prems"(3)])
    qed
  qed
qed

definition closed_under :: "(string \<times> string list) list \<Rightarrow> string set \<Rightarrow> string set \<Rightarrow> bool" where
  "closed_under g A B \<longleftrightarrow> (\<forall>x \<in> A. set (deps_get g x) \<subseteq> B)"

lemma upstream_loop_closed:
  "closed_under g (set up) (set up \<union> set pending)
    \<Longrightarrow> set up \<union> set pending \<subseteq> set (upstream_loop g up pending)
      \<and> closed_under g (set (upstream_loop g up pending)) (set (upstream_loop g up pending))"
proof (induction g up pending rule: upstream_loop.induct)
  case (1 g up pending)
  show ?case
  proof (cases "pending = []")
    case True
    then show ?thesis using "1.prems" by simp
  next
    case False
    note set_eq = last_butlast_set [OF False]
    show ?thesis
    proof (cases "last pending \<in> set up")
      case True
      have u: "set up \<union> set (butlast pending) = set up \<union> set pending"
        unfolding set_eq using True by auto
      show ?thesis
        using "1.IH"(1) [OF False refl refl True] "1.prems"
        unfolding upstream_loop_seen [OF False True] u by blast
    next
      case new: False
      let ?x = "last pending"
      have "closed_under g (set (?x # up)) (set (?x # up) \<union> set (butlast pending @ deps_get g ?x))"
        using "1.prems" unfolding closed_under_def set_eq by auto
      from "1.IH"(2) [OF False refl refl new this] show ?thesis
        unfolding upstream_loop_new [OF False new] set_eq by auto
    qed
  qed
qed

text \<open>The work list computes the transitive closure of the dependency relation.\<close>

lemma upstream_steps_trancl:
  "set (upstream_steps nm dp n steps) =
     {m. (n, m) \<in> (edges (deps_get (dependencies_dict nm dp steps)))\<^sup>+}"
proof -
  let ?g = "dependencies_dict nm dp steps"
  let ?d = "deps_get ?g" and ?up = "upstream_steps nm dp n steps"
  have up: "?up = upstream_loop ?g [] (?d n)" by (simp add: upstream_steps_def Let_def)
  have "set ?up \<subseteq> {m. (n, m) \<in> (edges ?d)\<^sup>+}"
    unfolding up by (rule upstream_loop_least) (auto simp: edges_def intro: trancl_into_trancl)
  moreover have cl: "set (?d n) \<subseteq> set ?up" "\<And>x. x \<in> set ?up \<Longrightarrow> set (?d x) \<subseteq> set ?up"
    using upstream_loop_closed [of ?g "[]" "?d n"] unfolding up closed_under_def by auto
  have "m \<in> set ?up" if "(n, m) \<in> (edges ?d)\<^sup>+" for m
    using that
  proof (induction rule: trancl_induct)
    case (base y)
    then show ?case using cl(1) by (auto simp: edges_def)
  next
    case (step y z)
    then show ?case using cl(2) by (auto simp: edges_def)
  qed
  ultimately show ?thesis by auto
qed

section \<open>The contract between validation and scheduling\<close>

locale step_view =
  fixes nm :: "'a \<Rightarrow> string"
    and dp :: "'a \<Rightarrow> string list"
    and accepted :: "'a list \<Rightarrow> bool"
  assumes accepted_distinct: "accepted steps \<Longrightarrow> distinct (map nm steps)"
    and accepted_known: "accepted steps \<Longrightarrow> s \<in> set steps \<Longrightarrow> set (dp s) \<subseteq> nm ` set steps"
    and accepted_acyclic: "accepted steps \<Longrightarrow> dependency_cycle nm dp steps = Some []"
begin

lemma ordered:
  assumes "accepted steps"
  obtains res where "ordered_loop nm dp [] steps [] = Inr res" "mset res = mset steps"
    "deps_first nm dp {} res" "distinct (map nm res)"
proof -
  obtain order where "topo (deps_get (dependencies_dict nm dp steps)) order"
    "nm ` set steps \<subseteq> set order"
    using dependency_cycle_none accepted_acyclic [OF assms] by blast
  then have "\<exists>res. ordered_loop nm dp [] steps [] = Inr res"
    by (rule ordered_loop_succeeds)
      (use accepted_known [OF assms] deps_get_step [OF accepted_distinct [OF assms]] in auto)
  then obtain res where res: "ordered_loop nm dp [] steps [] = Inr res" by blast
  have m: "mset res = mset steps" using ordered_loop_mset [OF res] by simp
  then have "mset (map nm res) = mset (map nm steps)" by simp
  then have "distinct (map nm res)"
    using accepted_distinct [OF assms] by (metis mset_eq_imp_distinct_iff)
  then show ?thesis
    using that [OF res m] ordered_loop_deps_first [OF res] by simp
qed

lemma topological_order:
  assumes "accepted steps"
  obtains order where "topo (deps_get (dependencies_dict nm dp steps)) order"
    "set order = nm ` set steps" "length order = length steps"
proof -
  obtain res where res: "mset res = mset steps" "deps_first nm dp {} res" "distinct (map nm res)"
    by (rule ordered [OF assms])
  have set: "set res = set steps" using res(1) by (rule mset_eq_setD)
  have "topo (deps_get (dependencies_dict nm dp steps)) (rev (map nm res) @ [])"
    by (rule deps_first_topo)
      (use res set deps_get_step [OF accepted_distinct [OF assms]] in auto)
  then show ?thesis
    using that [of "rev (map nm res)"] set mset_eq_length [OF res(1)] by simp
qed

lemma batches:
  assumes "accepted steps"
  obtains bs res where "ready_batches_of nm dp steps = Inr bs"
    "ordered_loop nm dp [] steps [] = Inr res" "concat bs = res" "batches_ok nm dp {} bs"
proof -
  obtain res where res: "ordered_loop nm dp [] steps [] = Inr res"
    by (rule ordered [OF assms])
  then obtain bs where "ready_batches_of nm dp steps = Inr bs" "concat bs = res"
    using ready_batches_concat [of nm dp steps]
    by (cases "ready_batches_of nm dp steps") auto
  with res show ?thesis using that ready_batches_ok by blast
qed

end

end
