(* ===== verification/Workflow_Pack.thy ===== *)
theory Workflow_Pack imports Plan_Graph begin

text \<open>
  Workflow Packs, from \<open>backend/app/packs/base.py\<close>: the policy models with their field
  bounds, the step and Pack records, \<open>StepAcceptanceCriterion.validate_criterion\<close> and the
  whole of \<open>WorkflowPack.validate_pack\<close>, one check per \<open>raise\<close> in the order of the
  source, each error carrying the values the message lists.
\<close>

section \<open>Policies\<close>

datatype eval_severity = Blocker | Warning

datatype resume_strategy =
  Resume_none | Resume_latest_artifact_and_trace | Resume_full_trace | Resume_manual

datatype coordination_role = Controller | Subagent | Gate | Synthesizer

datatype step_runtime = Runtime_model | Runtime_session | Runtime_acp

datatype execution_source = Source_workflow_pack | Source_planner | Source_operator

datatype criterion_kind =
    Artifact_nonempty | Artifact_min_chars | Artifact_contains | Source_refs_present
  | Executor_eval_pass

fun step_runtime_value :: "step_runtime \<Rightarrow> string" where
  "step_runtime_value Runtime_model = ''model''"
| "step_runtime_value Runtime_session = ''session''"
| "step_runtime_value Runtime_acp = ''acp''"

fun resume_strategy_value :: "resume_strategy \<Rightarrow> string" where
  "resume_strategy_value Resume_none = ''none''"
| "resume_strategy_value Resume_latest_artifact_and_trace = ''latest_artifact_and_trace''"
| "resume_strategy_value Resume_full_trace = ''full_trace''"
| "resume_strategy_value Resume_manual = ''manual''"

record eval_check =
  ec_name :: string
  ec_description :: string
  ec_severity :: eval_severity
  ec_required_artifact_types :: "string list"

record return_contract =
  rc_required_artifact_types :: "string list"
  rc_require_summary :: bool
  rc_require_open_questions :: bool
  rc_require_risk_notes :: bool

record session_policy =
  sp_persistent :: bool
  sp_resume_strategy :: resume_strategy
  sp_requires_approval :: bool

record context_policy =
  cp_artifact_excerpt_chars :: int
  cp_max_artifacts :: int
  cp_max_upstream_handoffs :: int
  cp_max_context_chars :: int
  cp_max_context_bytes :: int

record agent_loop_policy =
  al_enabled :: bool
  al_max_steps :: int
  al_max_tool_calls :: int
  al_max_total_tokens :: int
  al_timeout_seconds :: rat
  al_max_repeated_tool_calls :: int
  al_max_observation_chars :: int
  al_max_cost_usd :: "rat option"

record step_acceptance_criterion =
  sc_name :: string
  sc_kind :: criterion_kind
  sc_artifact_type :: "artifact_type option"
  sc_min_chars :: "int option"
  sc_marker :: "string option"
  sc_check_name :: "string option"

text \<open>The default values of the declarations.\<close>

definition default_return_contract :: return_contract where
  "default_return_contract = \<lparr>rc_required_artifact_types = [], rc_require_summary = True,
     rc_require_open_questions = False, rc_require_risk_notes = False\<rparr>"

definition default_session_policy :: session_policy where
  "default_session_policy =
     \<lparr>sp_persistent = False, sp_resume_strategy = Resume_none, sp_requires_approval = False\<rparr>"

definition default_context_policy :: context_policy where
  "default_context_policy = \<lparr>cp_artifact_excerpt_chars = 0, cp_max_artifacts = 8,
     cp_max_upstream_handoffs = 8, cp_max_context_chars = 120000, cp_max_context_bytes = 480000\<rparr>"

definition default_agent_loop_policy :: agent_loop_policy where
  "default_agent_loop_policy = \<lparr>al_enabled = False, al_max_steps = 1, al_max_tool_calls = 0,
     al_max_total_tokens = 64000, al_timeout_seconds = 180, al_max_repeated_tool_calls = 2,
     al_max_observation_chars = 20000, al_max_cost_usd = None\<rparr>"

text \<open>The field bounds (\<open>ge\<close>, \<open>le\<close>, \<open>gt\<close>, \<open>min_length\<close>, \<open>max_length\<close>).\<close>

definition between :: "'a::ord \<Rightarrow> 'a \<Rightarrow> 'a \<Rightarrow> bool" where
  "between lo x hi \<longleftrightarrow> lo \<le> x \<and> x \<le> hi"

definition context_policy_ok :: "context_policy \<Rightarrow> bool" where
  "context_policy_ok p \<longleftrightarrow> between 0 (cp_artifact_excerpt_chars p) 100000
     \<and> between 0 (cp_max_artifacts p) 32 \<and> between 0 (cp_max_upstream_handoffs p) 32
     \<and> between 10000 (cp_max_context_chars p) 1000000
     \<and> between 10000 (cp_max_context_bytes p) 3000000"

definition agent_loop_policy_ok :: "agent_loop_policy \<Rightarrow> bool" where
  "agent_loop_policy_ok p \<longleftrightarrow> between 1 (al_max_steps p) 12
     \<and> between 0 (al_max_tool_calls p) 32 \<and> between 1 (al_max_total_tokens p) 1000000
     \<and> 0 < al_timeout_seconds p \<and> al_timeout_seconds p \<le> 3600
     \<and> between 1 (al_max_repeated_tool_calls p) 5
     \<and> between 100 (al_max_observation_chars p) 100000
     \<and> opt_all (\<lambda>c. 0 < c \<and> c \<le> 10000) (al_max_cost_usd p)"

definition eval_check_ok :: "eval_check \<Rightarrow> bool" where
  "eval_check_ok c \<longleftrightarrow> ec_name c \<noteq> [] \<and> ec_description c \<noteq> []"

definition criterion_fields_ok :: "step_acceptance_criterion \<Rightarrow> bool" where
  "criterion_fields_ok c \<longleftrightarrow> between 1 (length (sc_name c)) 100
     \<and> opt_all (\<lambda>n. between 1 n 1000000) (sc_min_chars c)
     \<and> opt_all (\<lambda>m. between 1 (length m) 500) (sc_marker c)
     \<and> opt_all (\<lambda>m. between 1 (length m) 200) (sc_check_name c)"

datatype criterion_error =
  CriterionField | RequiresArtifactType criterion_kind | RequiresMinChars | RequiresMarker
  | RequiresCheckName

definition artifact_kinds :: "criterion_kind list" where
  "artifact_kinds = [Artifact_nonempty, Artifact_min_chars, Artifact_contains, Source_refs_present]"

definition validate_criterion ::
  "step_acceptance_criterion \<Rightarrow> criterion_error + step_acceptance_criterion" where
  "validate_criterion c =
    (if sc_kind c \<in> set artifact_kinds \<and> sc_artifact_type c = None
       then Inl (RequiresArtifactType (sc_kind c))
     else if sc_kind c = Artifact_min_chars \<and> sc_min_chars c = None then Inl RequiresMinChars
     else if sc_kind c = Artifact_contains \<and> sc_marker c = None then Inl RequiresMarker
     else if sc_kind c = Executor_eval_pass \<and> sc_check_name c = None then Inl RequiresCheckName
     else Inr c)"

definition criterion_ok :: "step_acceptance_criterion \<Rightarrow> bool" where
  "criterion_ok c \<longleftrightarrow> criterion_fields_ok c \<and> validate_criterion c = Inr c"

section \<open>Steps and Packs\<close>

record workflow_step =
  ws_name :: string
  ws_agent_role :: string
  ws_required_inputs :: "string list"
  ws_required_artifacts :: "string list"
  ws_allowed_tools :: "string list"
  ws_depends_on :: "string list"
  ws_phase :: "string option"
  ws_produces_artifact_type :: "string option"
  ws_coordination_role :: "coordination_role option"
  ws_controller_step :: "string option"
  ws_return_contract :: "return_contract option"
  ws_runtime :: step_runtime
  ws_session_policy :: session_policy
  ws_context_policy :: context_policy
  ws_agent_loop :: agent_loop_policy
  ws_execution_source :: execution_source
  ws_objective :: "string option"
  ws_acceptance_criteria :: "step_acceptance_criterion list"
  ws_requires_eval_pass :: bool
  ws_required_eval_checks :: "string list"
  ws_requires_artifact :: "string list"
  ws_ownership :: "(string \<times> string list) list"

record workflow_pack =
  wp_name :: string
  wp_description :: string
  wp_agents :: "agent_definition list"
  wp_steps :: "workflow_step list"
  wp_eval_checks :: "eval_check list"
  wp_final_artifact_type :: string
  wp_max_parallel_steps :: int
  wp_allow_dynamic_execution_plans :: bool

definition nonempty :: "'a list \<Rightarrow> bool" where
  "nonempty v \<longleftrightarrow> v \<noteq> []"

definition workflow_step_fields_ok :: "workflow_step \<Rightarrow> bool" where
  "workflow_step_fields_ok s \<longleftrightarrow>
     ws_name s \<noteq> [] \<and> ws_agent_role s \<noteq> []
   \<and> opt_all nonempty (ws_phase s) \<and> opt_all nonempty (ws_produces_artifact_type s)
   \<and> opt_all nonempty (ws_controller_step s)
   \<and> context_policy_ok (ws_context_policy s) \<and> agent_loop_policy_ok (ws_agent_loop s)
   \<and> opt_all (\<lambda>x. between 1 (length x) 10000) (ws_objective s)
   \<and> length (ws_acceptance_criteria s) \<le> 16
   \<and> list_all criterion_ok (ws_acceptance_criteria s)"

definition agent_definition_ok :: "agent_definition \<Rightarrow> bool" where
  "agent_definition_ok a \<longleftrightarrow>
     a_id a \<noteq> [] \<and> a_pack_name a \<noteq> [] \<and> a_role a \<noteq> [] \<and> a_system_prompt a \<noteq> []"

definition workflow_pack_fields_ok :: "workflow_pack \<Rightarrow> bool" where
  "workflow_pack_fields_ok p \<longleftrightarrow>
     wp_name p \<noteq> [] \<and> wp_description p \<noteq> [] \<and> wp_agents p \<noteq> [] \<and> wp_steps p \<noteq> []
   \<and> wp_final_artifact_type p \<noteq> [] \<and> between 1 (wp_max_parallel_steps p) 32
   \<and> list_all agent_definition_ok (wp_agents p)
   \<and> list_all workflow_step_fields_ok (wp_steps p)
   \<and> list_all eval_check_ok (wp_eval_checks p)"

section \<open>validate_pack\<close>

text \<open>\<open>_duplicates\<close>: the loop over \<open>seen\<close> and \<open>dupes\<close>.\<close>

fun duplicates_loop :: "string list \<Rightarrow> string list \<Rightarrow> string list \<Rightarrow> string list" where
  "duplicates_loop seen dupes [] = sorted_set dupes"
| "duplicates_loop seen dupes (v # vs) =
     duplicates_loop (v # seen) (if v \<in> set seen then v # dupes else dupes) vs"

definition duplicates_of :: "string list \<Rightarrow> string list" where
  "duplicates_of values = duplicates_loop [] [] values"

lemma duplicates_loop_Nil:
  "duplicates_loop seen dupes vs = [] \<longleftrightarrow> dupes = [] \<and> distinct vs \<and> set seen \<inter> set vs = {}"
  by (induction seen dupes vs rule: duplicates_loop.induct) auto

lemma duplicates_of_Nil [simp]: "duplicates_of vs = [] \<longleftrightarrow> distinct vs"
  by (simp add: duplicates_of_def duplicates_loop_Nil)

datatype pack_error =
    PackFieldConstraint
  | WrongPackAgents "string list"
  | DuplicateAgentRoles "string list"
  | DuplicateWorkflowSteps "string list"
  | UndefinedAgentRoles "string list"
  | UndefinedDependencies "string list"
  | SelfDependencies "string list"
  | DuplicateDependencies "string list"
  | UndersizedHandoffContext "string list"
  | MissingControllerStep "string list"
  | UndefinedControllerStep "string list"
  | ControllerNotUpstream "string list"
  | ResumeNeedsPersistent "string list"
  | AcpNeedsApproval "string list"
  | InvalidAgentLoop "string list"
  | EvalChecksNeedEvalPass "string list"
  | DuplicateRequiredEvalChecks "string list"
  | DuplicateCriterionNames "string list"
  | BlankRequiredEvalChecks "string list"
  | StructuralRequiredEvalChecks "string list"
  | WorkflowCycle "string list"
  | UnsupportedRequiredArtifacts "string list"
  | UnsupportedEvalArtifacts "string list"
  | UnsupportedContractArtifacts "string list"
  | UnsupportedProducedArtifacts "string list"
  | UnsupportedFinalArtifact string
  | FinalArtifactNotProduced string

text \<open>A check fails when its list of offenders is not empty; the first failing check raises.\<close>

definition reject :: "('b list \<Rightarrow> 'e) \<Rightarrow> 'b list \<Rightarrow> 'e option" where
  "reject e offenders = (if offenders = [] then None else Some (e offenders))"

fun first_error :: "'e option list \<Rightarrow> 'e option" where
  "first_error [] = None"
| "first_error (None # cs) = first_error cs"
| "first_error (Some e # cs) = Some e"

lemma first_error_None_iff [simp]: "first_error cs = None \<longleftrightarrow> (\<forall>c \<in> set cs. c = None)"
  by (induction cs rule: first_error.induct) auto

lemma reject_None_iff [simp]: "reject e xs = None \<longleftrightarrow> xs = []"
  by (simp add: reject_def)

definition names_where :: "(workflow_step \<Rightarrow> bool) \<Rightarrow> workflow_step list \<Rightarrow> string list" where
  "names_where p steps = sort (map ws_name (filter p steps))"

lemma names_where_Nil [simp]: "names_where p steps = [] \<longleftrightarrow> (\<forall>s \<in> set steps. \<not> p s)"
  by (auto simp: names_where_def filter_empty_conv)

definition pack_dependency_cycle :: "workflow_step list \<Rightarrow> string list option" where
  "pack_dependency_cycle steps = dependency_cycle ws_name ws_depends_on steps"

definition pack_upstream_steps :: "string \<Rightarrow> workflow_step list \<Rightarrow> string list" where
  "pack_upstream_steps step_name steps = upstream_steps ws_name ws_depends_on step_name steps"


text \<open>
  The fuel of the detector is enough (\<open>dependency_cycle_total\<close>), so \<open>None\<close> never arises.
\<close>

definition found_cycle :: "string list option \<Rightarrow> string list" where
  "found_cycle r = (case r of Some c \<Rightarrow> c | None \<Rightarrow> [])"

text \<open>The checks in the order of the method: identities and links, policies, artifact types.\<close>

definition pack_link_checks :: "workflow_pack \<Rightarrow> pack_error option list" where
  "pack_link_checks p =
    (let steps = wp_steps p; agent_roles = map a_role (wp_agents p);
         step_names = map ws_name steps in
    [reject WrongPackAgents
       (sort (map a_id (filter (\<lambda>a. a_pack_name a \<noteq> wp_name p) (wp_agents p)))),
     reject DuplicateAgentRoles (duplicates_of agent_roles),
     reject DuplicateWorkflowSteps (duplicates_of step_names),
     reject UndefinedAgentRoles
       (sorted_set (filter (\<lambda>r. r \<notin> set agent_roles) (map ws_agent_role steps))),
     reject UndefinedDependencies
       (sort (filter (\<lambda>d. d \<notin> set step_names) (concat (map ws_depends_on steps)))),
     reject SelfDependencies (names_where (\<lambda>s. ws_name s \<in> set (ws_depends_on s)) steps),
     reject DuplicateDependencies
       (names_where (\<lambda>s. duplicates_of (ws_depends_on s) \<noteq> []) steps),
     reject UndersizedHandoffContext
       (names_where (\<lambda>s. cp_max_upstream_handoffs (ws_context_policy s)
                           < int (length (ws_depends_on s))) steps),
     reject MissingControllerStep
       (names_where (\<lambda>s. ws_coordination_role s = Some Subagent \<and> ws_controller_step s = None)
          steps),
     reject UndefinedControllerStep
       (sort (filter (\<lambda>c. c \<notin> set step_names) (List.map_filter ws_controller_step steps))),
     reject ControllerNotUpstream
       (names_where (\<lambda>s. opt_ex (\<lambda>c. c \<notin> set (pack_upstream_steps (ws_name s) steps))
                           (ws_controller_step s)) steps)])"

definition pack_policy_checks :: "workflow_pack \<Rightarrow> pack_error option list" where
  "pack_policy_checks p =
    (let steps = wp_steps p in
    [reject ResumeNeedsPersistent
       (names_where (\<lambda>s. sp_resume_strategy (ws_session_policy s) \<noteq> Resume_none
                           \<and> \<not> sp_persistent (ws_session_policy s)) steps),
     reject AcpNeedsApproval
       (names_where (\<lambda>s. ws_runtime s = Runtime_acp
                           \<and> \<not> sp_requires_approval (ws_session_policy s)) steps),
     reject InvalidAgentLoop
       (names_where (\<lambda>s. al_enabled (ws_agent_loop s)
                           \<and> (al_max_steps (ws_agent_loop s) < 2
                              \<or> al_max_tool_calls (ws_agent_loop s) < 1
                              \<or> ws_allowed_tools s = [])) steps),
     reject EvalChecksNeedEvalPass
       (names_where (\<lambda>s. ws_required_eval_checks s \<noteq> [] \<and> \<not> ws_requires_eval_pass s) steps),
     reject DuplicateRequiredEvalChecks
       (names_where (\<lambda>s. duplicates_of (ws_required_eval_checks s) \<noteq> []) steps),
     reject DuplicateCriterionNames
       (names_where (\<lambda>s. duplicates_of (map sc_name (ws_acceptance_criteria s)) \<noteq> []) steps),
     reject BlankRequiredEvalChecks
       (names_where (\<lambda>s. \<exists>c \<in> set (ws_required_eval_checks s). strip c = []) steps),
     reject StructuralRequiredEvalChecks
       (names_where (\<lambda>s. ws_name s @ '':artifacts_created'' \<in> set (ws_required_eval_checks s))
          steps),
     reject WorkflowCycle (found_cycle (pack_dependency_cycle steps))])"

definition pack_artifact_checks :: "workflow_pack \<Rightarrow> pack_error option list" where
  "pack_artifact_checks p =
    (let steps = wp_steps p in
    [reject UnsupportedRequiredArtifacts
       (sort (filter (\<lambda>v. v \<notin> set artifact_values)
          (concat (map (\<lambda>s. ws_required_artifacts s @ ws_requires_artifact s) steps)))),
     reject UnsupportedEvalArtifacts
       (sort (filter (\<lambda>v. v \<notin> set artifact_values)
          (concat (map ec_required_artifact_types (wp_eval_checks p))))),
     reject UnsupportedContractArtifacts
       (sort (filter (\<lambda>v. v \<notin> set artifact_values)
          (concat (map rc_required_artifact_types (List.map_filter ws_return_contract steps))))),
     reject UnsupportedProducedArtifacts
       (sort (filter (\<lambda>v. v \<notin> set artifact_values)
          (List.map_filter ws_produces_artifact_type steps))),
     (if wp_final_artifact_type p \<in> set artifact_values then None
      else Some (UnsupportedFinalArtifact (wp_final_artifact_type p))),
     (let produced = List.map_filter ws_produces_artifact_type steps in
      if produced \<noteq> [] \<and> wp_final_artifact_type p \<notin> set produced
      then Some (FinalArtifactNotProduced (wp_final_artifact_type p)) else None)])"

definition pack_checks :: "workflow_pack \<Rightarrow> pack_error option list" where
  "pack_checks p = pack_link_checks p @ pack_policy_checks p @ pack_artifact_checks p"

definition validate_pack :: "workflow_pack \<Rightarrow> pack_error + workflow_pack" where
  "validate_pack p = (case first_error (pack_checks p) of Some e \<Rightarrow> Inl e | None \<Rightarrow> Inr p)"

text \<open>\<open>WorkflowPack(...)\<close>: field bounds first, the model validator only if they hold.\<close>

definition workflow_pack_model_validate :: "workflow_pack \<Rightarrow> pack_error + workflow_pack" where
  "workflow_pack_model_validate p =
     (if workflow_pack_fields_ok p then validate_pack p else Inl PackFieldConstraint)"

section \<open>What a validated Pack satisfies\<close>

definition pack_valid :: "workflow_pack \<Rightarrow> bool" where
  "pack_valid p \<longleftrightarrow> workflow_pack_model_validate p = Inr p"

lemma workflow_pack_model_validate_Inr:
  "workflow_pack_model_validate p = Inr q \<longleftrightarrow> q = p \<and> pack_valid p"
  by (auto simp: pack_valid_def workflow_pack_model_validate_def validate_pack_def
      split: option.splits if_splits)

lemma pack_valid_checks: "pack_valid p \<Longrightarrow> c \<in> set (pack_checks p) \<Longrightarrow> c = None"
  by (auto simp: pack_valid_def workflow_pack_model_validate_def validate_pack_def
      split: option.splits if_splits)

lemma pack_valid_fields: "pack_valid p \<Longrightarrow> workflow_pack_fields_ok p"
  by (auto simp: pack_valid_def workflow_pack_model_validate_def split: if_splits)

lemma map_filter_set: "set (List.map_filter f xs) = {y. \<exists>x \<in> set xs. f x = Some y}"
  by (force simp: List.map_filter_def)

lemma found_cycle_Nil: "found_cycle (dependency_cycle nm dp steps) = []
    \<longleftrightarrow> dependency_cycle nm dp steps = Some []"
  using dependency_cycle_total [of nm dp steps] by (auto simp: found_cycle_def)

lemma pack_check:
  "pack_valid p \<Longrightarrow> reject e xs \<in> set (pack_checks p) \<Longrightarrow> xs = []"
  by (drule (1) pack_valid_checks) simp

lemmas pack_check_members = pack_checks_def pack_link_checks_def pack_policy_checks_def
  pack_artifact_checks_def Let_def set_append Un_iff list.set insert_iff simp_thms

lemma pack_valid_steps:
  assumes "pack_valid p"
  shows "distinct (map ws_name (wp_steps p))"
    and "distinct (map a_role (wp_agents p))"
    and "s \<in> set (wp_steps p) \<Longrightarrow> ws_agent_role s \<in> a_role ` set (wp_agents p)"
    and "s \<in> set (wp_steps p) \<Longrightarrow> set (ws_depends_on s) \<subseteq> ws_name ` set (wp_steps p)"
    and "s \<in> set (wp_steps p) \<Longrightarrow>
      int (length (ws_depends_on s)) \<le> cp_max_upstream_handoffs (ws_context_policy s)"
    and "s \<in> set (wp_steps p) \<Longrightarrow> ws_controller_step s = Some c \<Longrightarrow>
      c \<in> set (pack_upstream_steps (ws_name s) (wp_steps p))"
    and "pack_dependency_cycle (wp_steps p) = Some []"
proof -
  have "duplicates_of (map ws_name (wp_steps p)) = []"
    by (rule pack_check [OF assms, of DuplicateWorkflowSteps]) (simp only: pack_check_members)
  then show "distinct (map ws_name (wp_steps p))" by simp
  have "duplicates_of (map a_role (wp_agents p)) = []"
    by (rule pack_check [OF assms, of DuplicateAgentRoles]) (simp only: pack_check_members)
  then show "distinct (map a_role (wp_agents p))" by simp
  have "sorted_set (filter (\<lambda>r. r \<notin> set (map a_role (wp_agents p)))
      (map ws_agent_role (wp_steps p))) = []"
    by (rule pack_check [OF assms, of UndefinedAgentRoles]) (simp only: pack_check_members)
  then show "s \<in> set (wp_steps p) \<Longrightarrow> ws_agent_role s \<in> a_role ` set (wp_agents p)"
    by (auto simp: filter_empty_conv)
  have "sort (filter (\<lambda>d. d \<notin> set (map ws_name (wp_steps p)))
      (concat (map ws_depends_on (wp_steps p)))) = []"
    by (rule pack_check [OF assms, of UndefinedDependencies]) (simp only: pack_check_members)
  then have "filter (\<lambda>d. d \<notin> set (map ws_name (wp_steps p)))
      (concat (map ws_depends_on (wp_steps p))) = []" by (simp only: sort_Nil_iff)
  then show "s \<in> set (wp_steps p) \<Longrightarrow> set (ws_depends_on s) \<subseteq> ws_name ` set (wp_steps p)"
    unfolding filter_empty_conv by auto
  have "names_where (\<lambda>s. cp_max_upstream_handoffs (ws_context_policy s)
      < int (length (ws_depends_on s))) (wp_steps p) = []"
    by (rule pack_check [OF assms, of UndersizedHandoffContext]) (simp only: pack_check_members)
  then show "s \<in> set (wp_steps p) \<Longrightarrow>
      int (length (ws_depends_on s)) \<le> cp_max_upstream_handoffs (ws_context_policy s)"
    by force
  have "names_where (\<lambda>s. opt_ex (\<lambda>c. c \<notin> set (pack_upstream_steps (ws_name s) (wp_steps p)))
      (ws_controller_step s)) (wp_steps p) = []"
    by (rule pack_check [OF assms, of ControllerNotUpstream]) (simp only: pack_check_members)
  then show "s \<in> set (wp_steps p) \<Longrightarrow> ws_controller_step s = Some c \<Longrightarrow>
      c \<in> set (pack_upstream_steps (ws_name s) (wp_steps p))"
    by (auto simp: opt_ex_def split: option.splits)
  have "found_cycle (pack_dependency_cycle (wp_steps p)) = []"
    by (rule pack_check [OF assms, of WorkflowCycle]) (simp only: pack_check_members)
  then show "pack_dependency_cycle (wp_steps p) = Some []"
    by (simp add: pack_dependency_cycle_def found_cycle_Nil)
qed

lemma pack_valid_policies:
  assumes "pack_valid p" "s \<in> set (wp_steps p)"
  shows "ws_runtime s = Runtime_acp \<Longrightarrow> sp_requires_approval (ws_session_policy s)"
    and "al_enabled (ws_agent_loop s) \<Longrightarrow> ws_allowed_tools s \<noteq> []
      \<and> 2 \<le> al_max_steps (ws_agent_loop s) \<and> 1 \<le> al_max_tool_calls (ws_agent_loop s)"
    and "ws_required_eval_checks s \<noteq> [] \<Longrightarrow> ws_requires_eval_pass s"
proof -
  have "names_where (\<lambda>s. ws_runtime s = Runtime_acp
      \<and> \<not> sp_requires_approval (ws_session_policy s)) (wp_steps p) = []"
    by (rule pack_check [OF assms(1), of AcpNeedsApproval]) (simp only: pack_check_members)
  then show "ws_runtime s = Runtime_acp \<Longrightarrow> sp_requires_approval (ws_session_policy s)"
    using assms(2) by simp
  have "names_where (\<lambda>s. al_enabled (ws_agent_loop s)
      \<and> (al_max_steps (ws_agent_loop s) < 2 \<or> al_max_tool_calls (ws_agent_loop s) < 1
         \<or> ws_allowed_tools s = [])) (wp_steps p) = []"
    by (rule pack_check [OF assms(1), of InvalidAgentLoop]) (simp only: pack_check_members)
  then show "al_enabled (ws_agent_loop s) \<Longrightarrow> ws_allowed_tools s \<noteq> []
      \<and> 2 \<le> al_max_steps (ws_agent_loop s) \<and> 1 \<le> al_max_tool_calls (ws_agent_loop s)"
    using assms(2) by force
  have "names_where (\<lambda>s. ws_required_eval_checks s \<noteq> [] \<and> \<not> ws_requires_eval_pass s)
      (wp_steps p) = []"
    by (rule pack_check [OF assms(1), of EvalChecksNeedEvalPass]) (simp only: pack_check_members)
  then show "ws_required_eval_checks s \<noteq> [] \<Longrightarrow> ws_requires_eval_pass s"
    using assms(2) by auto
qed

text \<open>The steps of a validated Pack satisfy the contract of the scheduler.\<close>

definition pack_steps_accepted :: "workflow_step list \<Rightarrow> bool" where
  "pack_steps_accepted steps \<longleftrightarrow> (\<exists>p. pack_valid p \<and> wp_steps p = steps)"

interpretation pack_view: step_view ws_name ws_depends_on pack_steps_accepted
proof
  fix steps assume "pack_steps_accepted steps"
  then obtain p where p: "pack_valid p" "wp_steps p = steps"
    by (auto simp: pack_steps_accepted_def)
  show "distinct (map ws_name steps)" using pack_valid_steps(1) [OF p(1)] p(2) by simp
  show "dependency_cycle ws_name ws_depends_on steps = Some []"
    using pack_valid_steps(7) [OF p(1)] p(2) by (simp add: pack_dependency_cycle_def)
  show "set (ws_depends_on s) \<subseteq> ws_name ` set steps" if "s \<in> set steps" for s
    using pack_valid_steps(4) [OF p(1)] that p(2) by simp
qed

lemma pack_valid_accepted: "pack_valid p \<Longrightarrow> pack_steps_accepted (wp_steps p)"
  by (auto simp: pack_steps_accepted_def)

section \<open>An example Pack\<close>

definition example_agent :: "string \<Rightarrow> agent_definition" where
  "example_agent role = \<lparr>a_id = ''agent-'' @ role, a_pack_name = ''demo'', a_role = role,
     a_system_prompt = ''Work.'', a_model_settings = [], a_tool_permissions = [''read_file''],
     a_runtime_limits = [(''max_steps'', JInt 4)], a_effective_skill_ids = []\<rparr>"

definition example_step :: "string \<Rightarrow> string \<Rightarrow> string list \<Rightarrow> artifact_type \<Rightarrow> workflow_step" where
  "example_step name role deps produces = \<lparr>ws_name = name, ws_agent_role = role,
     ws_required_inputs = [], ws_required_artifacts = [], ws_allowed_tools = [],
     ws_depends_on = deps, ws_phase = None,
     ws_produces_artifact_type = Some (artifact_type_value produces),
     ws_coordination_role = None, ws_controller_step = None, ws_return_contract = None,
     ws_runtime = Runtime_model, ws_session_policy = default_session_policy,
     ws_context_policy = default_context_policy, ws_agent_loop = default_agent_loop_policy,
     ws_execution_source = Source_workflow_pack, ws_objective = None,
     ws_acceptance_criteria = [], ws_requires_eval_pass = False, ws_required_eval_checks = [],
     ws_requires_artifact = [], ws_ownership = [(''file'', [name])]\<rparr>"

definition example_pack :: workflow_pack where
  "example_pack = \<lparr>wp_name = ''demo'', wp_description = ''Demo'',
     wp_agents = [example_agent ''planner'', example_agent ''coder'', example_agent ''reporter''],
     wp_steps = [example_step ''report'' ''reporter'' [''code'', ''test''] FINAL_REPORT,
                 example_step ''plan'' ''planner'' [] DESIGN_DOC,
                 example_step ''code'' ''coder'' [''plan''] PATCH,
                 example_step ''test'' ''coder'' [''plan''] TEST_REPORT],
     wp_eval_checks = [], wp_final_artifact_type = ''final_report'',
     wp_max_parallel_steps = 2, wp_allow_dynamic_execution_plans = True\<rparr>"

lemma example_pack_validates: "workflow_pack_model_validate example_pack = Inr example_pack"
  by code_simp

end
