(* ===== verification/Execution_Plan.thy ===== *)
theory Execution_Plan imports Workflow_Pack begin

text \<open>
  Execution plans, from \<open>backend/app/core/execution_plan.py\<close>: the plan models and their
  validators, the plan derived from a Pack, validation of a plan against a Pack (agent
  snapshots, tool and runtime limits, dynamic plans), freezing, and the Pack that a plan
  is executed as. The canonical JSON hash of a plan is not modelled.
\<close>

section \<open>Models\<close>

record execution_plan_agent =
  xa_agent_id :: string
  xa_role :: string
  xa_system_prompt :: string
  xa_model_settings :: jobj
  xa_tool_permissions :: "string list"
  xa_runtime_limits :: jobj
  xa_effective_skill_ids :: "string list"

record execution_plan_step =
  es_step_id :: string
  es_objective :: string
  es_agent_role :: string
  es_dependencies :: "string list"
  es_inputs :: "string list"
  es_required_artifacts :: "artifact_type list"
  es_expected_artifacts :: "artifact_type list"
  es_acceptance_criteria :: "step_acceptance_criterion list"
  es_tool_permissions :: "string list"
  es_ownership :: "(string \<times> string list) list"
  es_phase :: "string option"
  es_coordination_role :: "coordination_role option"
  es_controller_step :: "string option"
  es_return_contract :: "return_contract option"
  es_runtime :: step_runtime
  es_session_policy :: session_policy
  es_context_policy :: context_policy
  es_agent_loop :: agent_loop_policy
  es_requires_eval_pass :: bool
  es_required_eval_checks :: "string list"
  es_requires_artifact :: "artifact_type list"

record execution_plan =
  ep_workflow_pack :: string
  ep_source :: execution_source
  ep_final_artifact_type :: artifact_type
  ep_max_parallel_steps :: int
  ep_steps :: "execution_plan_step list"
  ep_eval_checks :: "eval_check list"
  ep_agent_snapshots :: "execution_plan_agent list"

datatype plan_error =
    PlanFieldConstraint string
  | StepDuplicates string string
  | StepDuplicateCriteria string
  | StepIdsNotUnique
  | SnapshotRolesNotUnique
  | SnapshotIdsNotUnique
  | EvalCheckNamesNotUnique
  | MissingSnapshotRoles "string list"
  | UnknownDependencies string "string list"
  | DependsOnItself string
  | UnknownController string
  | DynamicStepNotModel
  | DynamicStepNeedsCriteria string
  | PlanCycle "string list"
  | NoTerminalFinalArtifact
  | PackStepWithoutArtifact string
  | InvalidArtifactType string
  | WrongPack string string
  | FrozenPlanWithoutSnapshots
  | SnapshotsDoNotMatch
  | PlanDoesNotMatchPack
  | UnknownAgentRole string string
  | ExpandsTools string "string list"
  | LoopWithoutTools string
  | InvalidRuntimeLimit string string
  | RequiresCostCeiling string
  | ExceedsRuntimeLimit string string
  | UndeclaredCriterionArtifacts string "string list"
  | DynamicPlansNotAllowed string
  | BlockerEvalConflict string
  | TooManyEvalChecks
  | RoleRepeated string nat nat
  | RequiresUnproducedArtifacts string "string list"
  | ParallelismExceedsPack
  | InvalidTeamSelection
  | PartialTeamSelection
  | InconsistentTeamSelection
  | PackConstruction pack_error

section \<open>Validators\<close>

definition execution_plan_agent_ok :: "execution_plan_agent \<Rightarrow> bool" where
  "execution_plan_agent_ok a \<longleftrightarrow> xa_agent_id a \<noteq> [] \<and> between 1 (length (xa_role a)) 200
     \<and> xa_system_prompt a \<noteq> [] \<and> length (xa_tool_permissions a) \<le> 32"

fun step_id_pattern :: "string \<Rightarrow> bool" where
  "step_id_pattern [] = False"
| "step_id_pattern (c # cs) = (is_alnum c \<and> (\<forall>d \<in> set cs. is_alnum d \<or> d \<in> set ''_.-''))"

definition execution_plan_step_fields_ok :: "execution_plan_step \<Rightarrow> bool" where
  "execution_plan_step_fields_ok s \<longleftrightarrow>
     between 1 (length (es_step_id s)) 100 \<and> step_id_pattern (es_step_id s)
   \<and> between 1 (length (es_objective s)) 10000 \<and> between 1 (length (es_agent_role s)) 200
   \<and> length (es_dependencies s) \<le> 32 \<and> length (es_inputs s) \<le> 64
   \<and> length (es_required_artifacts s) \<le> 16 \<and> length (es_expected_artifacts s) = 1
   \<and> length (es_acceptance_criteria s) \<le> 16 \<and> list_all criterion_ok (es_acceptance_criteria s)
   \<and> length (es_tool_permissions s) \<le> 32 \<and> length (es_ownership s) \<le> 16
   \<and> opt_all (\<lambda>x. between 1 (length x) 100) (es_phase s)
   \<and> opt_all (\<lambda>x. between 1 (length x) 100) (es_controller_step s)
   \<and> context_policy_ok (es_context_policy s) \<and> agent_loop_policy_ok (es_agent_loop s)
   \<and> length (es_required_eval_checks s) \<le> 16 \<and> length (es_requires_artifact s) \<le> 16"

text \<open>The loop over the dictionary of list fields, then the acceptance criteria.\<close>

definition validate_step :: "execution_plan_step \<Rightarrow> plan_error + execution_plan_step" where
  "validate_step s =
    bindE (forE (\<lambda>(field_name, values).
             guardE (distinct values) (StepDuplicates (es_step_id s) field_name))
           [(''dependencies'', es_dependencies s), (''inputs'', es_inputs s),
            (''tool_permissions'', es_tool_permissions s),
            (''required_eval_checks'', es_required_eval_checks s)]) (\<lambda>_.
    bindE (guardE (distinct (map sc_name (es_acceptance_criteria s)))
             (StepDuplicateCriteria (es_step_id s))) (\<lambda>_.
    Inr s))"

definition execution_plan_step_model_validate ::
  "execution_plan_step \<Rightarrow> plan_error + execution_plan_step" where
  "execution_plan_step_model_validate s =
    bindE (guardE (execution_plan_step_fields_ok s) (PlanFieldConstraint ''ExecutionPlanStep''))
      (\<lambda>_. validate_step s)"

definition plan_dependency_cycle :: "execution_plan_step list \<Rightarrow> string list option" where
  "plan_dependency_cycle steps = dependency_cycle es_step_id es_dependencies steps"

definition plan_step_checks :: "execution_plan \<Rightarrow> execution_plan_step \<Rightarrow> plan_error + unit" where
  "plan_step_checks p s =
    (let known = map es_step_id (ep_steps p);
         unknown = sorted_set (filter (\<lambda>d. d \<notin> set known) (es_dependencies s)) in
     bindE (guardE (unknown = []) (UnknownDependencies (es_step_id s) unknown)) (\<lambda>_.
     bindE (guardE (es_step_id s \<notin> set (es_dependencies s)) (DependsOnItself (es_step_id s))) (\<lambda>_.
     bindE (guardE (opt_all (\<lambda>c. c \<in> set known) (es_controller_step s))
              (UnknownController (es_step_id s))) (\<lambda>_.
     bindE (guardE (ep_source p = Source_workflow_pack \<or> es_runtime s = Runtime_model)
              DynamicStepNotModel) (\<lambda>_.
     guardE (ep_source p = Source_workflow_pack \<or> es_acceptance_criteria s \<noteq> [])
       (DynamicStepNeedsCriteria (es_step_id s)))))))"

definition plan_sinks :: "execution_plan \<Rightarrow> execution_plan_step list" where
  "plan_sinks p =
    (let depended_on = concat (map es_dependencies (ep_steps p)) in
     filter (\<lambda>s. es_step_id s \<notin> set depended_on) (ep_steps p))"

definition validate_plan :: "execution_plan \<Rightarrow> plan_error + execution_plan" where
  "validate_plan p =
    (let steps = ep_steps p; snapshots = ep_agent_snapshots p;
         missing = sorted_set (filter (\<lambda>r. r \<notin> set (map xa_role snapshots)) (map es_agent_role steps));
         cycle = found_cycle (plan_dependency_cycle steps) in
     bindE (guardE (distinct (map es_step_id steps)) StepIdsNotUnique) (\<lambda>_.
     bindE (guardE (distinct (map xa_role snapshots)) SnapshotRolesNotUnique) (\<lambda>_.
     bindE (guardE (distinct (map xa_agent_id snapshots)) SnapshotIdsNotUnique) (\<lambda>_.
     bindE (guardE (distinct (map ec_name (ep_eval_checks p))) EvalCheckNamesNotUnique) (\<lambda>_.
     bindE (guardE (snapshots = [] \<or> missing = []) (MissingSnapshotRoles missing)) (\<lambda>_.
     bindE (forE (plan_step_checks p) steps) (\<lambda>_.
     bindE (guardE (cycle = []) (PlanCycle cycle)) (\<lambda>_.
     bindE (guardE (\<exists>s \<in> set (plan_sinks p). ep_final_artifact_type p \<in> set (es_expected_artifacts s))
              NoTerminalFinalArtifact) (\<lambda>_.
     Inr p)))))))))"

definition execution_plan_fields_ok :: "execution_plan \<Rightarrow> bool" where
  "execution_plan_fields_ok p \<longleftrightarrow> between 1 (length (ep_workflow_pack p)) 100
     \<and> between 1 (ep_max_parallel_steps p) 16 \<and> between 1 (length (ep_steps p)) 32
     \<and> length (ep_eval_checks p) \<le> 32 \<and> list_all eval_check_ok (ep_eval_checks p)
     \<and> length (ep_agent_snapshots p) \<le> 32
     \<and> list_all execution_plan_agent_ok (ep_agent_snapshots p)"

definition execution_plan_model_validate :: "execution_plan \<Rightarrow> plan_error + execution_plan" where
  "execution_plan_model_validate p =
    bindE (guardE (execution_plan_fields_ok p) (PlanFieldConstraint ''ExecutionPlan'')) (\<lambda>_.
    bindE (mapE execution_plan_step_model_validate (ep_steps p)) (\<lambda>_.
    validate_plan p))"

section \<open>Agent snapshots\<close>

definition is_lower_hex :: "char \<Rightarrow> bool" where
  "is_lower_hex c \<longleftrightarrow> c \<in> set ''0123456789abcdef''"

text \<open>
  The marker of one agent: \<open>Inr None\<close> when both keys are absent (or null), the manifest
  hash when both are well formed, an error otherwise.
\<close>

definition team_selection_marker :: "agent_definition \<Rightarrow> plan_error + string option" where
  "team_selection_marker a =
    (let version = jget (a_model_settings a) ''team_selection_version'';
         manifest_hash = jget (a_model_settings a) ''team_selection_manifest_hash'' in
     if version = JNull \<and> manifest_hash = JNull then Inr None
     else (case manifest_hash of
         JStr h \<Rightarrow> if version \<noteq> JStr ''team-selection-v1'' \<or> length h \<noteq> 64 \<or> \<not> list_all is_lower_hex h
                   then Inl InvalidTeamSelection else Inr (Some h)
       | _ \<Rightarrow> Inl InvalidTeamSelection))"

definition pack_has_complete_team_selection :: "workflow_pack \<Rightarrow> plan_error + bool" where
  "pack_has_complete_team_selection pack =
    bindE (mapE team_selection_marker (wp_agents pack)) (\<lambda>markers.
    let marker_states = map (\<lambda>m. m \<noteq> None) markers;
        manifest_hashes = remdups (List.map_filter id markers) in
    bindE (guardE (\<not> (list_ex id marker_states \<and> \<not> list_all id marker_states)) PartialTeamSelection)
      (\<lambda>_.
    bindE (guardE (length manifest_hashes \<le> 1) InconsistentTeamSelection) (\<lambda>_.
    Inr (marker_states \<noteq> [] \<and> list_all id marker_states))))"

definition snapshot_of_agent :: "agent_definition \<Rightarrow> execution_plan_agent" where
  "snapshot_of_agent a = \<lparr>xa_agent_id = a_id a, xa_role = a_role a,
     xa_system_prompt = a_system_prompt a, xa_model_settings = a_model_settings a,
     xa_tool_permissions = a_tool_permissions a, xa_runtime_limits = a_runtime_limits a,
     xa_effective_skill_ids = a_effective_skill_ids a\<rparr>"

definition checked_snapshot :: "agent_definition \<Rightarrow> plan_error + execution_plan_agent" where
  "checked_snapshot a = (let x = snapshot_of_agent a in
     if execution_plan_agent_ok x then Inr x else Inl (PlanFieldConstraint ''ExecutionPlanAgent''))"

definition agent_snapshots_for_plan ::
  "execution_plan \<Rightarrow> workflow_pack \<Rightarrow> plan_error + execution_plan_agent list" where
  "agent_snapshots_for_plan plan pack =
    bindE (pack_has_complete_team_selection pack) (\<lambda>complete.
    let required_roles = (if complete then map a_role (wp_agents pack)
                          else map es_agent_role (ep_steps plan)) in
    mapE checked_snapshot
      (filter (\<lambda>a. a_role a \<in> set required_roles) (wp_agents pack)))"

definition agent_definition_from_snapshot :: "execution_plan_agent \<Rightarrow> string \<Rightarrow> agent_definition" where
  "agent_definition_from_snapshot x pack_name = \<lparr>a_id = xa_agent_id x, a_pack_name = pack_name,
     a_role = xa_role x, a_system_prompt = xa_system_prompt x,
     a_model_settings = xa_model_settings x, a_tool_permissions = xa_tool_permissions x,
     a_runtime_limits = xa_runtime_limits x, a_effective_skill_ids = xa_effective_skill_ids x\<rparr>"

definition without_agent_snapshots :: "execution_plan \<Rightarrow> execution_plan" where
  "without_agent_snapshots plan = plan\<lparr>ep_agent_snapshots := []\<rparr>"

text \<open>Equality of snapshots and of plans: dictionaries compare without their order.\<close>

definition snapshot_eq :: "execution_plan_agent \<Rightarrow> execution_plan_agent \<Rightarrow> bool" where
  "snapshot_eq x y \<longleftrightarrow> jobj_eq (xa_model_settings x) (xa_model_settings y)
     \<and> jobj_eq (xa_runtime_limits x) (xa_runtime_limits y)
     \<and> x\<lparr>xa_model_settings := [], xa_runtime_limits := []\<rparr>
       = y\<lparr>xa_model_settings := [], xa_runtime_limits := []\<rparr>"

definition plan_step_norm :: "execution_plan_step \<Rightarrow> execution_plan_step" where
  "plan_step_norm s = s\<lparr>es_ownership := sort_key fst (es_ownership s)\<rparr>"

definition plan_eq_without_snapshots :: "execution_plan \<Rightarrow> execution_plan \<Rightarrow> bool" where
  "plan_eq_without_snapshots p q \<longleftrightarrow>
     without_agent_snapshots (p\<lparr>ep_steps := map plan_step_norm (ep_steps p)\<rparr>)
     = without_agent_snapshots (q\<lparr>ep_steps := map plan_step_norm (ep_steps q)\<rparr>)"


section \<open>The plan of a Pack\<close>

text \<open>\<open>ArtifactType(value)\<close>.\<close>

definition artifact_type_or_error :: "string \<Rightarrow> plan_error + artifact_type" where
  "artifact_type_or_error v = of_option (InvalidArtifactType v) (artifact_type_of v)"

definition default_criterion :: "artifact_type \<Rightarrow> step_acceptance_criterion" where
  "default_criterion t = \<lparr>sc_name = ''artifact-nonempty'', sc_kind = Artifact_nonempty,
     sc_artifact_type = Some t, sc_min_chars = None, sc_marker = None, sc_check_name = None\<rparr>"

definition plan_step_of_pack_step :: "workflow_step \<Rightarrow> plan_error + execution_plan_step" where
  "plan_step_of_pack_step s =
    bindE (of_option (PackStepWithoutArtifact (ws_name s)) (ws_produces_artifact_type s)) (\<lambda>v.
    bindE (artifact_type_or_error v) (\<lambda>t.
    bindE (mapE artifact_type_or_error (ws_required_artifacts s)) (\<lambda>required.
    bindE (mapE artifact_type_or_error (ws_requires_artifact s)) (\<lambda>requires.
    execution_plan_step_model_validate
      \<lparr>es_step_id = ws_name s,
       es_objective = (case ws_objective s of None \<Rightarrow> ws_name s | Some x \<Rightarrow> x),
       es_agent_role = ws_agent_role s, es_dependencies = ws_depends_on s,
       es_inputs = ws_required_inputs s, es_required_artifacts = required,
       es_expected_artifacts = [t],
       es_acceptance_criteria =
         (if ws_acceptance_criteria s = [] then [default_criterion t] else ws_acceptance_criteria s),
       es_tool_permissions = ws_allowed_tools s, es_ownership = ws_ownership s,
       es_phase = ws_phase s, es_coordination_role = ws_coordination_role s,
       es_controller_step = ws_controller_step s, es_return_contract = ws_return_contract s,
       es_runtime = ws_runtime s, es_session_policy = ws_session_policy s,
       es_context_policy = ws_context_policy s, es_agent_loop = ws_agent_loop s,
       es_requires_eval_pass = ws_requires_eval_pass s,
       es_required_eval_checks = ws_required_eval_checks s, es_requires_artifact = requires\<rparr>))))"

definition execution_plan_from_pack :: "workflow_pack \<Rightarrow> plan_error + execution_plan" where
  "execution_plan_from_pack pack =
    bindE (mapE plan_step_of_pack_step (wp_steps pack)) (\<lambda>steps.
    bindE (artifact_type_or_error (wp_final_artifact_type pack)) (\<lambda>final_type.
    bindE (execution_plan_model_validate
             \<lparr>ep_workflow_pack = wp_name pack, ep_source = Source_workflow_pack,
              ep_final_artifact_type = final_type,
              ep_max_parallel_steps = wp_max_parallel_steps pack, ep_steps = steps,
              ep_eval_checks = wp_eval_checks pack, ep_agent_snapshots = []\<rparr>) (\<lambda>plan.
    bindE (agent_snapshots_for_plan plan pack) (\<lambda>snapshots.
    Inr (plan\<lparr>ep_agent_snapshots := snapshots\<rparr>)))))"

section \<open>Runtime limits\<close>

definition comparable_limits :: "agent_loop_policy \<Rightarrow> (string \<times> rat option) list" where
  "comparable_limits p =
    [(''max_steps'', Some (of_int (al_max_steps p))),
     (''max_tool_calls'', Some (of_int (al_max_tool_calls p))),
     (''max_total_tokens'', Some (of_int (al_max_total_tokens p))),
     (''timeout_seconds'', Some (al_timeout_seconds p)),
     (''max_repeated_tool_calls'', Some (of_int (al_max_repeated_tool_calls p))),
     (''max_observation_chars'', Some (of_int (al_max_observation_chars p))),
     (''max_cost_usd'', al_max_cost_usd p)]"

text \<open>\<open>requested > allowed\<close> for a number \<open>allowed\<close>; \<open>None\<close> when it is not a number.\<close>

fun exceeds_limit :: "rat \<Rightarrow> jval \<Rightarrow> bool option" where
  "exceeds_limit r (JInt n) = Some (r > of_int n)"
| "exceeds_limit r (JFloat q) = Some (r > q)"
| "exceeds_limit r JNan = Some False"
| "exceeds_limit r JPosInf = Some False"
| "exceeds_limit r JNegInf = Some True"
| "exceeds_limit r _ = None"

definition check_limit ::
  "execution_plan_step \<Rightarrow> agent_definition \<Rightarrow> string \<Rightarrow> rat option \<Rightarrow> plan_error + unit" where
  "check_limit step agent limit_name requested =
    (let allowed = jget (a_runtime_limits agent) limit_name in
     if allowed = JNull then Inr ()
     else case exceeds_limit 0 allowed of
       None \<Rightarrow> Inl (InvalidRuntimeLimit (a_role agent) limit_name)
     | Some _ \<Rightarrow>
         (case requested of
            None \<Rightarrow> if limit_name = ''max_cost_usd'' then Inl (RequiresCostCeiling (es_step_id step))
                    else Inr ()
          | Some r \<Rightarrow> if exceeds_limit r allowed = Some True
                       then Inl (ExceedsRuntimeLimit (es_step_id step) limit_name) else Inr ()))"

definition validate_agent_loop_runtime_limits ::
  "execution_plan_step \<Rightarrow> agent_definition \<Rightarrow> plan_error + unit" where
  "validate_agent_loop_runtime_limits step agent =
     forE (\<lambda>(limit_name, requested). check_limit step agent limit_name requested)
       (comparable_limits (es_agent_loop step))"

section \<open>Dynamic plans\<close>

text \<open>
  The memoised recursion \<open>upstream_steps\<close> of \<open>_validate_dynamic_plan_dataflow\<close>, with the
  cache threaded through; the fuel bounds the depth, and \<open>plan_upstream_correct\<close> shows that
  the number of steps is enough on an acyclic plan.
\<close>

type_synonym upstream_cache = "(string \<times> string list) list"

fun plan_upstream ::
    "nat \<Rightarrow> (string \<Rightarrow> string list) \<Rightarrow> string \<Rightarrow> upstream_cache \<Rightarrow> (string list \<times> upstream_cache) option"
  and plan_upstream_all ::
    "nat \<Rightarrow> (string \<Rightarrow> string list) \<Rightarrow> string list \<Rightarrow> string list \<Rightarrow> upstream_cache
      \<Rightarrow> (string list \<times> upstream_cache) option"
where
  "plan_upstream 0 d step_id cache = None"
| "plan_upstream (Suc k) d step_id cache =
    (case map_of cache step_id of
       Some upstream \<Rightarrow> Some (upstream, cache)
     | None \<Rightarrow> (case plan_upstream_all k d (d step_id) [] cache of
         None \<Rightarrow> None
       | Some (upstream, cache') \<Rightarrow> Some (upstream, (step_id, upstream) # cache')))"
| "plan_upstream_all k d [] upstream cache = Some (upstream, cache)"
| "plan_upstream_all k d (dep # deps) upstream cache =
    (case plan_upstream k d dep cache of
       None \<Rightarrow> None
     | Some (u, cache') \<Rightarrow> plan_upstream_all k d deps (u @ dep # upstream) cache')"

definition plan_deps :: "execution_plan \<Rightarrow> string \<Rightarrow> string list" where
  "plan_deps plan = deps_get (dependencies_dict es_step_id es_dependencies (ep_steps plan))"

definition artifacts_of_steps :: "execution_plan \<Rightarrow> string list \<Rightarrow> artifact_type list" where
  "artifacts_of_steps plan ids =
     concat (map es_expected_artifacts (filter (\<lambda>s. es_step_id s \<in> set ids) (ep_steps plan)))"

text \<open>\<open>PlanFieldConstraint\<close> stands for the recursion that does not return; it never arises.\<close>

fun dataflow_loop ::
  "execution_plan \<Rightarrow> execution_plan_step list \<Rightarrow> upstream_cache \<Rightarrow> plan_error + unit" where
  "dataflow_loop plan [] cache = Inr ()"
| "dataflow_loop plan (step # steps) cache =
    (case plan_upstream (Suc (length (ep_steps plan))) (plan_deps plan) (es_step_id step) cache of
       None \<Rightarrow> Inl (PlanFieldConstraint ''recursion'')
     | Some (upstream, cache') \<Rightarrow>
         (let available = artifacts_of_steps plan upstream;
              missing = sort (map artifact_type_value (remdups (filter (\<lambda>t. t \<notin> set available)
                          (es_required_artifacts step @ es_requires_artifact step)))) in
          if missing \<noteq> [] then Inl (RequiresUnproducedArtifacts (es_step_id step) missing)
          else dataflow_loop plan steps cache'))"

definition validate_dynamic_plan_dataflow :: "execution_plan \<Rightarrow> plan_error + unit" where
  "validate_dynamic_plan_dataflow plan = dataflow_loop plan (ep_steps plan) []"

definition required_blocker_checks :: "execution_plan \<Rightarrow> workflow_pack \<Rightarrow> eval_check list" where
  "required_blocker_checks plan pack =
    (let produced = map artifact_type_value (concat (map es_expected_artifacts (ep_steps plan))) in
     filter (\<lambda>c. ec_severity c = Blocker \<and> ec_required_artifact_types c \<noteq> []
                 \<and> set (ec_required_artifact_types c) \<subseteq> set produced) (wp_eval_checks pack))"

definition plan_check_named :: "execution_plan \<Rightarrow> string \<Rightarrow> eval_check option" where
  "plan_check_named plan name =
     map_of (rev (map (\<lambda>c. (ec_name c, c)) (ep_eval_checks plan))) name"

definition preserve_dynamic_pack_blocker_evals ::
  "execution_plan \<Rightarrow> workflow_pack \<Rightarrow> plan_error + execution_plan" where
  "preserve_dynamic_pack_blocker_evals plan pack =
    bindE (mapE (\<lambda>required. case plan_check_named plan (ec_name required) of
               None \<Rightarrow> Inr [required]
             | Some existing \<Rightarrow> if existing \<noteq> required
                 then Inl (BlockerEvalConflict (ec_name required)) else Inr [])
           (required_blocker_checks plan pack)) (\<lambda>found.
    let missing_checks = concat found in
    if missing_checks = [] then Inr plan
    else if length (ep_eval_checks plan) + length missing_checks > 32 then Inl TooManyEvalChecks
    else execution_plan_model_validate
           (plan\<lparr>ep_eval_checks := ep_eval_checks plan @ missing_checks\<rparr>))"

definition validate_dynamic_role_usage :: "execution_plan \<Rightarrow> workflow_pack \<Rightarrow> plan_error + unit" where
  "validate_dynamic_role_usage plan pack =
    (let planned = map es_agent_role (ep_steps plan); static = map ws_agent_role (wp_steps pack) in
     forE (\<lambda>role. guardE (count_list planned role \<le> count_list static role)
              (RoleRepeated role (count_list planned role) (count_list static role)))
       (sorted_set planned))"

section \<open>Validation against a Pack\<close>

definition validate_plan_step_against_agents ::
  "(string \<times> agent_definition) list \<Rightarrow> execution_plan_step \<Rightarrow> plan_error + unit" where
  "validate_plan_step_against_agents agents_by_role step =
    bindE (of_option (UnknownAgentRole (es_step_id step) (es_agent_role step))
             (map_of (rev agents_by_role) (es_agent_role step))) (\<lambda>agent.
    let extra_tools = sorted_set (filter (\<lambda>t. t \<notin> set (a_tool_permissions agent))
                        (es_tool_permissions step));
        undeclared = sort (map artifact_type_value (remdups (filter
                       (\<lambda>t. t \<notin> set (es_expected_artifacts step))
                       (List.map_filter sc_artifact_type (es_acceptance_criteria step))))) in
    bindE (guardE (extra_tools = []) (ExpandsTools (es_step_id step) extra_tools)) (\<lambda>_.
    bindE (guardE (\<not> al_enabled (es_agent_loop step) \<or> es_tool_permissions step \<noteq> [])
             (LoopWithoutTools (es_step_id step))) (\<lambda>_.
    bindE (if al_enabled (es_agent_loop step)
           then validate_agent_loop_runtime_limits step agent else Inr ()) (\<lambda>_.
    guardE (undeclared = []) (UndeclaredCriterionArtifacts (es_step_id step) undeclared)))))"

definition plan_agents :: "bool \<Rightarrow> execution_plan \<Rightarrow> workflow_pack \<Rightarrow> agent_definition list" where
  "plan_agents frozen plan pack =
    (if frozen \<and> ep_agent_snapshots plan \<noteq> []
     then map (\<lambda>x. agent_definition_from_snapshot x (wp_name pack)) (ep_agent_snapshots plan)
     else wp_agents pack)"

definition check_matches_pack :: "bool \<Rightarrow> execution_plan \<Rightarrow> workflow_pack \<Rightarrow> plan_error + unit" where
  "check_matches_pack frozen plan pack =
    (if ep_source plan = Source_workflow_pack \<and> \<not> frozen then
       bindE (execution_plan_from_pack pack) (\<lambda>expected.
         guardE (plan_eq_without_snapshots plan expected) PlanDoesNotMatchPack)
     else Inr ())"

definition validate_dynamic_plan ::
  "bool \<Rightarrow> execution_plan \<Rightarrow> workflow_pack \<Rightarrow> plan_error + execution_plan" where
  "validate_dynamic_plan frozen plan pack =
    (if ep_source plan = Source_workflow_pack then Inr plan
     else bindE
       (if frozen then Inr plan
        else bindE (guardE (wp_allow_dynamic_execution_plans pack) (DynamicPlansNotAllowed (wp_name pack)))
          (\<lambda>_. bindE (preserve_dynamic_pack_blocker_evals plan pack) (\<lambda>plan'.
               bindE (validate_dynamic_role_usage plan' pack) (\<lambda>_. Inr plan'))))
       (\<lambda>plan'. bindE (validate_dynamic_plan_dataflow plan') (\<lambda>_. Inr plan')))"

definition validate_execution_plan_against_pack ::
  "execution_plan \<Rightarrow> workflow_pack \<Rightarrow> bool \<Rightarrow> plan_error + execution_plan" where
  "validate_execution_plan_against_pack plan pack frozen =
    bindE (guardE (ep_workflow_pack plan = wp_name pack)
             (WrongPack (ep_workflow_pack plan) (wp_name pack))) (\<lambda>_.
    bindE (guardE (\<not> (frozen \<and> ep_agent_snapshots plan = [])) FrozenPlanWithoutSnapshots) (\<lambda>_.
    bindE (agent_snapshots_for_plan plan pack) (\<lambda>expected_snapshots.
    bindE (guardE (ep_agent_snapshots plan = [] \<or> frozen
             \<or> list_all2 snapshot_eq (ep_agent_snapshots plan) expected_snapshots) SnapshotsDoNotMatch)
      (\<lambda>_.
    bindE (check_matches_pack frozen plan pack) (\<lambda>_.
    bindE (forE (validate_plan_step_against_agents
                   (map (\<lambda>a. (a_role a, a)) (plan_agents frozen plan pack))) (ep_steps plan)) (\<lambda>_.
    bindE (validate_dynamic_plan frozen plan pack) (\<lambda>plan'.
    bindE (guardE (frozen \<or> ep_max_parallel_steps plan' \<le> wp_max_parallel_steps pack)
             ParallelismExceedsPack) (\<lambda>_.
    Inr plan'))))))))"

definition freeze_execution_plan ::
  "execution_plan \<Rightarrow> workflow_pack \<Rightarrow> plan_error + execution_plan" where
  "freeze_execution_plan plan pack =
    bindE (validate_execution_plan_against_pack (plan\<lparr>ep_agent_snapshots := []\<rparr>) pack False)
      (\<lambda>validated.
    bindE (agent_snapshots_for_plan validated pack) (\<lambda>snapshots.
    Inr (validated\<lparr>ep_agent_snapshots := snapshots\<rparr>)))"

section \<open>The Pack of a plan\<close>

definition workflow_step_of_plan_step :: "execution_source \<Rightarrow> execution_plan_step \<Rightarrow> workflow_step" where
  "workflow_step_of_plan_step source s =
    \<lparr>ws_name = es_step_id s, ws_agent_role = es_agent_role s, ws_required_inputs = es_inputs s,
     ws_required_artifacts = map artifact_type_value (es_required_artifacts s),
     ws_allowed_tools = es_tool_permissions s, ws_depends_on = es_dependencies s,
     ws_phase = es_phase s,
     ws_produces_artifact_type = Some (artifact_type_value (hd (es_expected_artifacts s))),
     ws_coordination_role = es_coordination_role s, ws_controller_step = es_controller_step s,
     ws_return_contract = (case es_return_contract s of
         Some c \<Rightarrow> Some c
       | None \<Rightarrow> Some (default_return_contract\<lparr>rc_required_artifact_types :=
                   map artifact_type_value (es_expected_artifacts s)\<rparr>)),
     ws_runtime = es_runtime s, ws_session_policy = es_session_policy s,
     ws_context_policy = es_context_policy s, ws_agent_loop = es_agent_loop s,
     ws_execution_source = source, ws_objective = Some (es_objective s),
     ws_acceptance_criteria = es_acceptance_criteria s,
     ws_requires_eval_pass = es_requires_eval_pass s,
     ws_required_eval_checks = es_required_eval_checks s,
     ws_requires_artifact = map artifact_type_value (es_requires_artifact s),
     ws_ownership = es_ownership s\<rparr>"

definition executed_pack :: "execution_plan \<Rightarrow> workflow_pack \<Rightarrow> workflow_pack" where
  "executed_pack plan base_pack =
      \<lparr>wp_name = wp_name base_pack,
       wp_description = ''Frozen execution plan for '' @ wp_description base_pack,
       wp_agents =
         (if ep_agent_snapshots plan \<noteq> []
          then map (\<lambda>x. agent_definition_from_snapshot x (wp_name base_pack)) (ep_agent_snapshots plan)
          else wp_agents base_pack),
       wp_steps = map (workflow_step_of_plan_step (ep_source plan)) (ep_steps plan),
       wp_eval_checks = ep_eval_checks plan,
       wp_final_artifact_type = artifact_type_value (ep_final_artifact_type plan),
       wp_max_parallel_steps = ep_max_parallel_steps plan,
       wp_allow_dynamic_execution_plans = wp_allow_dynamic_execution_plans base_pack\<rparr>"

definition workflow_pack_from_execution_plan ::
  "execution_plan \<Rightarrow> workflow_pack \<Rightarrow> bool \<Rightarrow> plan_error + workflow_pack" where
  "workflow_pack_from_execution_plan plan0 base_pack frozen =
    bindE (validate_execution_plan_against_pack plan0 base_pack frozen) (\<lambda>plan.
    case workflow_pack_model_validate (executed_pack plan base_pack) of
      Inl e \<Rightarrow> Inl (PackConstruction e) | Inr pack \<Rightarrow> Inr pack)"

section \<open>Lemmas\<close>

subsection \<open>Validated plans\<close>

definition plan_valid :: "execution_plan \<Rightarrow> bool" where
  "plan_valid p \<longleftrightarrow> execution_plan_model_validate p = Inr p"

lemma validate_step_same: "validate_step s = Inr t \<Longrightarrow> t = s"
  by (auto simp: validate_step_def)

lemma validate_plan_same: "validate_plan p = Inr q \<Longrightarrow> q = p"
  by (auto simp: validate_plan_def Let_def)

lemma execution_plan_model_validate_Inr:
  "execution_plan_model_validate p = Inr q \<longleftrightarrow> q = p \<and> plan_valid p"
  using validate_plan_same by (auto simp: plan_valid_def execution_plan_model_validate_def)

lemma plan_valid_steps:
  assumes "plan_valid p"
  shows "distinct (map es_step_id (ep_steps p))"
    and "s \<in> set (ep_steps p) \<Longrightarrow> set (es_dependencies s) \<subseteq> es_step_id ` set (ep_steps p)"
    and "plan_dependency_cycle (ep_steps p) = Some []"
    and "s \<in> set (ep_steps p) \<Longrightarrow> execution_plan_step_fields_ok s"
proof -
  have v: "validate_plan p = Inr p" and m: "\<exists>ys. mapE execution_plan_step_model_validate (ep_steps p) = Inr ys"
    using assms by (auto simp: plan_valid_def execution_plan_model_validate_def)
  show "distinct (map es_step_id (ep_steps p))"
    using v by (simp add: validate_plan_def Let_def)
  show "plan_dependency_cycle (ep_steps p) = Some []"
    using v by (simp add: validate_plan_def Let_def plan_dependency_cycle_def found_cycle_Nil)
  show "set (es_dependencies s) \<subseteq> es_step_id ` set (ep_steps p)" if "s \<in> set (ep_steps p)"
  proof -
    have "plan_step_checks p s = Inr ()"
      using v that by (simp add: validate_plan_def Let_def)
    then show ?thesis
      by (auto simp: plan_step_checks_def Let_def filter_empty_conv)
  qed
  show "execution_plan_step_fields_ok s" if "s \<in> set (ep_steps p)"
    using m that
    by (auto simp: list_all2_conv_all_nth in_set_conv_nth execution_plan_step_model_validate_def)
qed

definition plan_steps_accepted :: "execution_plan_step list \<Rightarrow> bool" where
  "plan_steps_accepted steps \<longleftrightarrow> (\<exists>p. plan_valid p \<and> ep_steps p = steps)"

interpretation plan_view: step_view es_step_id es_dependencies plan_steps_accepted
proof
  fix steps assume "plan_steps_accepted steps"
  then obtain p where p: "plan_valid p" "ep_steps p = steps"
    by (auto simp: plan_steps_accepted_def)
  show "distinct (map es_step_id steps)" using plan_valid_steps(1) [OF p(1)] p(2) by simp
  show "dependency_cycle es_step_id es_dependencies steps = Some []"
    using plan_valid_steps(3) [OF p(1)] p(2) by (simp add: plan_dependency_cycle_def)
  show "set (es_dependencies s) \<subseteq> es_step_id ` set steps" if "s \<in> set steps" for s
    using plan_valid_steps(2) [OF p(1)] that p(2) by simp
qed

lemma plan_valid_accepted: "plan_valid p \<Longrightarrow> plan_steps_accepted (ep_steps p)"
  by (auto simp: plan_steps_accepted_def)

subsection \<open>The memoised closure\<close>

definition closure_of :: "(string \<Rightarrow> string list) \<Rightarrow> string \<Rightarrow> string set" where
  "closure_of d i = {m. (i, m) \<in> (edges d)\<^sup>+}"

lemma closure_of_unfold: "closure_of d i = (\<Union>j \<in> set (d i). insert j (closure_of d j))"
proof -
  have "(i, m) \<in> (edges d)\<^sup>+ \<longleftrightarrow> (\<exists>j. (i, j) \<in> edges d \<and> (j = m \<or> (j, m) \<in> (edges d)\<^sup>+))" for m
    by (meson r_into_trancl tranclD rtranclD trancl_into_trancl2 rtrancl_eq_or_trancl)
  then show ?thesis by (auto simp: closure_of_def edges_def)
qed

definition cache_ok :: "(string \<Rightarrow> string list) \<Rightarrow> upstream_cache \<Rightarrow> bool" where
  "cache_ok d cache \<longleftrightarrow> (\<forall>(i, u) \<in> set cache. set u = closure_of d i)"

lemma topo_suffix:
  assumes "topo d xs" "x \<in> set xs"
  obtains ys where "topo d ys" "set (d x) \<subseteq> set ys" "length ys < length xs"
  using assms
proof (induction xs)
  case (Cons a xs)
  show ?case
  proof (cases "x = a")
    case True
    then show ?thesis using Cons.prems by auto
  next
    case False
    then have "x \<in> set xs" "topo d xs" using Cons.prems by auto
    then show ?thesis using Cons.IH Cons.prems(1) by (metis length_Cons less_SucI)
  qed
qed simp

lemma plan_upstream_correct:
  "topo d xs \<Longrightarrow> i \<in> set xs \<Longrightarrow> length xs < k \<Longrightarrow> cache_ok d cache
    \<Longrightarrow> \<exists>u cache'. plan_upstream k d i cache = Some (u, cache')
      \<and> set u = closure_of d i \<and> cache_ok d cache'"
  "topo d xs \<Longrightarrow> set deps \<subseteq> set xs \<Longrightarrow> length xs < k \<Longrightarrow> cache_ok d cache
    \<Longrightarrow> \<exists>u cache'. plan_upstream_all k d deps acc cache = Some (u, cache')
      \<and> set u = set acc \<union> (\<Union>j \<in> set deps. insert j (closure_of d j)) \<and> cache_ok d cache'"
proof (induction k d i cache and k d deps acc cache arbitrary: xs and xs
    rule: plan_upstream_plan_upstream_all.induct)
  case (2 k d i cache)
  show ?case
  proof (cases "map_of cache i")
    case None
    obtain ys where ys: "topo d ys" "set (d i) \<subseteq> set ys" "length ys < length xs"
      by (rule topo_suffix [OF "2.prems"(1,2)])
    then have "length ys < k" using "2.prems"(3) by simp
    from "2.IH" [OF None ys(1,2) this "2.prems"(4)] obtain u cache' where
      u: "plan_upstream_all k d (d i) [] cache = Some (u, cache')"
        "set u = (\<Union>j \<in> set (d i). insert j (closure_of d j))" "cache_ok d cache'"
      by auto
    then have "set u = closure_of d i" by (simp add: closure_of_unfold [of d i])
    with u None show ?thesis by (simp add: cache_ok_def)
  next
    case (Some u)
    then have "set u = closure_of d i"
      using map_of_SomeD [OF Some] "2.prems"(4) by (auto simp: cache_ok_def)
    with Some "2.prems"(4) show ?thesis by simp
  qed
next
  case (4 k d dep deps acc cache)
  have "dep \<in> set xs" "set deps \<subseteq> set xs" using "4.prems"(2) by auto
  from "4.IH"(1) [OF "4.prems"(1) this(1) "4.prems"(3,4)] obtain u cache' where
    u: "plan_upstream k d dep cache = Some (u, cache')" "set u = closure_of d dep"
      "cache_ok d cache'" by blast
  from "4.IH"(2) [OF u(1) refl "4.prems"(1) \<open>set deps \<subseteq> set xs\<close> "4.prems"(3) u(3)]
  show ?case using u(1,2) by auto
qed auto

end
