(* ===== verification/Scheduling.thy ===== *)
theory Scheduling imports Workflow_Pack begin

text \<open>
  Step scheduling of \<open>WorkflowRunner\<close> in \<open>backend/app/core/runner.py\<close>: the execution
  order, the ready batches, the steps that are ready in the main loop, the ownership check
  of a batch and the choice of the next steps for handoffs. The lemmas rest on the contract
  \<open>pack_view\<close>: a validated Pack can always be ordered, no batch depends on itself, and
  as long as a step is not completed some step is ready.
\<close>

section \<open>Order and batches\<close>

definition blocked_message :: "workflow_step list \<Rightarrow> exn" where
  "blocked_message remaining = WorkflowRunnerError
     (''Workflow step dependencies cannot be resolved: '' @ join '', '' (map ws_name remaining))"

definition ordered_steps :: "workflow_pack \<Rightarrow> exn + workflow_step list" where
  "ordered_steps pack = (case ordered_loop ws_name ws_depends_on [] (wp_steps pack) [] of
     Inl remaining \<Rightarrow> Inl (blocked_message remaining) | Inr ordered \<Rightarrow> Inr ordered)"

definition ready_batches :: "workflow_pack \<Rightarrow> exn + workflow_step list list" where
  "ready_batches pack = (case ready_batches_of ws_name ws_depends_on (wp_steps pack) of
     Inl remaining \<Rightarrow> Inl (blocked_message remaining) | Inr batches \<Rightarrow> Inr batches)"

text \<open>\<open>_ready_steps\<close>; \<open>completed\<close> is the set of the completed step names.\<close>

definition ready_steps :: "workflow_step list \<Rightarrow> string list \<Rightarrow> bool \<Rightarrow> workflow_step list" where
  "ready_steps ordered completed has_explicit_dependencies =
    (if has_explicit_dependencies then
       filter (\<lambda>s. ws_name s \<notin> set completed \<and> (\<forall>d \<in> set (ws_depends_on s). d \<in> set completed)) ordered
     else (case List.find (\<lambda>s. ws_name s \<notin> set completed) ordered of
             None \<Rightarrow> [] | Some s \<Rightarrow> [s]))"

definition has_explicit_dependencies :: "workflow_pack \<Rightarrow> bool" where
  "has_explicit_dependencies pack \<longleftrightarrow> (\<exists>s \<in> set (wp_steps pack). ws_depends_on s \<noteq> [])"

section \<open>Ownership\<close>

text \<open>The claims of a batch in the order of the three nested loops.\<close>

definition ownership_claims :: "workflow_step list \<Rightarrow> ((string \<times> string) \<times> string) list" where
  "ownership_claims batch =
     concat (map (\<lambda>s. concat (map (\<lambda>(resource_type, resources).
       map (\<lambda>resource. ((resource_type, resource), ws_name s)) resources) (ws_ownership s))) batch)"

definition conflict_message :: "(string \<times> string) \<Rightarrow> string \<Rightarrow> string \<Rightarrow> string" where
  "conflict_message key previous name =
     fst key @ '':'' @ snd key @ '' claimed by '' @ previous @ '' and '' @ name"

fun ownership_loop ::
  "((string \<times> string) \<times> string) list \<Rightarrow> ((string \<times> string) \<times> string) list \<Rightarrow> string list" where
  "ownership_loop owners [] = []"
| "ownership_loop owners ((key, name) # claims) = (case map_of owners key of
       Some previous \<Rightarrow> conflict_message key previous name # ownership_loop owners claims
     | None \<Rightarrow> ownership_loop ((key, name) # owners) claims)"

definition batch_ownership_conflicts :: "workflow_step list \<Rightarrow> string list" where
  "batch_ownership_conflicts batch = ownership_loop [] (ownership_claims batch)"

fun validate_ready_batch_ownership :: "workflow_step list list \<Rightarrow> exn + unit" where
  "validate_ready_batch_ownership [] = Inr ()"
| "validate_ready_batch_ownership (batch # batches) =
    (let conflicts = batch_ownership_conflicts batch in
     if conflicts \<noteq> [] then
       Inl (WorkflowRunnerError (''Ready batch ownership conflict: '' @ join ''; '' conflicts))
     else validate_ready_batch_ownership batches)"

section \<open>Next steps\<close>

text \<open>\<open>xs.index(x)\<close>; the code only asks for members.\<close>

definition index_of :: "'a \<Rightarrow> 'a list \<Rightarrow> nat" where
  "index_of x xs = length (takeWhile (\<lambda>y. y \<noteq> x) xs)"

definition next_steps ::
  "workflow_pack \<Rightarrow> workflow_step list \<Rightarrow> workflow_step \<Rightarrow> workflow_step list" where
  "next_steps pack ordered current =
    (let dependents = filter (\<lambda>s. ws_name current \<in> set (ws_depends_on s)) (wp_steps pack) in
     if dependents \<noteq> [] then
       sort_key (\<lambda>s. index_of (ws_name s) (map ws_name ordered)) dependents
     else if has_explicit_dependencies pack then []
     else let index = index_of current ordered in
       if index + 1 \<ge> length ordered then [] else [ordered ! (index + 1)])"

section \<open>Lemmas\<close>

lemma ownership_loop_Nil:
  "ownership_loop owners claims = [] \<longleftrightarrow>
     distinct (map fst claims) \<and> fst ` set owners \<inter> fst ` set claims = {}"
proof (induction owners claims rule: ownership_loop.induct)
  case (2 owners key name claims)
  show ?case
  proof (cases "map_of owners key")
    case None
    then have "key \<notin> fst ` set owners" by (simp add: map_of_eq_None_iff)
    then show ?thesis using 2 None by auto
  next
    case (Some previous)
    then have "key \<in> fst ` set owners" by (metis map_of_eq_None_iff option.distinct(1))
    then show ?thesis using Some by simp
  qed
qed simp

lemma batch_ownership_conflicts_Nil:
  "batch_ownership_conflicts batch = [] \<longleftrightarrow> distinct (map fst (ownership_claims batch))"
  by (simp add: batch_ownership_conflicts_def ownership_loop_Nil)

lemma claims_of_step:
  assumes "(rt, rs) \<in> set (ws_ownership s)" "r \<in> set rs"
  shows "(rt, r) \<in> fst ` set (ownership_claims [s])"
  using assms by (force simp: ownership_claims_def)

lemma ownership_claims_append:
  "ownership_claims (xs @ ys) = ownership_claims xs @ ownership_claims ys"
  by (simp add: ownership_claims_def)

lemma validate_ownership_Inr:
  "validate_ready_batch_ownership batches = Inr u \<longleftrightarrow>
     (\<forall>batch \<in> set batches. batch_ownership_conflicts batch = [])"
  by (induction batches) (auto simp: Let_def)

lemma ready_steps_exist:
  assumes "pack_steps_accepted (wp_steps p)" "s \<in> set (wp_steps p)" "ws_name s \<notin> set completed"
    "set ordered = set (wp_steps p)"
  shows "ready_steps ordered completed flag \<noteq> []"
proof (cases flag)
  case True
  let ?d = "deps_get (dependencies_dict ws_name ws_depends_on (wp_steps p))"
  obtain order where o: "topo ?d order" "ws_name ` set (wp_steps p) \<subseteq> set order"
    using dependency_cycle_none pack_view.accepted_acyclic [OF assms(1)] by blast
  let ?R = "ws_name ` {t \<in> set (wp_steps p). ws_name t \<notin> set completed}"
  have "?R \<inter> set order \<noteq> {}" using assms(2,3) o(2) by auto
  from topo_minimal [OF o(1) this] obtain x where
    x: "x \<in> ?R" "set (?d x) \<inter> ?R = {}" by blast
  then obtain t where t: "t \<in> set (wp_steps p)" "ws_name t \<notin> set completed" "x = ws_name t"
    by blast
  have "?d x = ws_depends_on t"
    using deps_get_step [OF pack_view.accepted_distinct [OF assms(1)] t(1)] t(3) by simp
  then have "set (ws_depends_on t) \<subseteq> set completed"
    using x(2) pack_view.accepted_known [OF assms(1) t(1)] by (simp add: set_eq_iff) blast
  then show ?thesis
    using t assms(4) True by (auto simp: ready_steps_def filter_empty_conv)
next
  case False
  then show ?thesis
    using assms(2-4) by (auto simp: ready_steps_def find_None_iff split: option.splits)
qed

lemma ready_steps_sound:
  "s \<in> set (ready_steps ordered completed True) \<Longrightarrow>
    s \<in> set ordered \<and> ws_name s \<notin> set completed \<and> set (ws_depends_on s) \<subseteq> set completed"
  by (auto simp: ready_steps_def)

section \<open>Properties\<close>

text \<open>
  C6. A Pack that passes validation can always be scheduled: \<open>_ordered_steps\<close> returns, its
  result is a permutation of the Pack's steps in which every step stands after all of its
  dependencies, \<open>_ready_batches\<close> returns the same order cut into rounds, and no step of a
  batch depends on a step of the same batch.
\<close>

theorem validated_pack_is_schedulable:
  assumes "workflow_pack_model_validate p = Inr q"
  shows "\<exists>order batches. ordered_steps q = Inr order \<and> ready_batches q = Inr batches
     \<and> mset order = mset (wp_steps p) \<and> deps_first ws_name ws_depends_on {} order
     \<and> concat batches = order
     \<and> (\<forall>b \<in> set batches. \<forall>s \<in> set b. \<forall>t \<in> set b. ws_name t \<notin> set (ws_depends_on s))"
proof -
  have q: "q = p" and acc: "pack_steps_accepted (wp_steps p)"
    using assms pack_valid_accepted by (auto simp: workflow_pack_model_validate_Inr)
  obtain bs res where b: "ready_batches_of ws_name ws_depends_on (wp_steps p) = Inr bs"
    "ordered_loop ws_name ws_depends_on [] (wp_steps p) [] = Inr res" "concat bs = res"
    "batches_ok ws_name ws_depends_on {} bs"
    by (rule pack_view.batches [OF acc])
  obtain res' where o: "ordered_loop ws_name ws_depends_on [] (wp_steps p) [] = Inr res'"
    "mset res' = mset (wp_steps p)" "deps_first ws_name ws_depends_on {} res'"
    "distinct (map ws_name res')"
    by (rule pack_view.ordered [OF acc])
  have "res' = res" using o(1) b(2) by simp
  then have "\<forall>b \<in> set bs. \<forall>s \<in> set b. \<forall>t \<in> set b. ws_name t \<notin> set (ws_depends_on s)"
    using batches_ok_independent [OF b(4)] o(4) b(3) by blast
  with \<open>res' = res\<close> show ?thesis
    using b o q by (simp add: ordered_steps_def ready_batches_def)
qed

definition example_order :: "workflow_step list" where
  "example_order =
     [example_step ''plan'' ''planner'' [] DESIGN_DOC, example_step ''code'' ''coder'' [''plan''] PATCH,
      example_step ''test'' ''coder'' [''plan''] TEST_REPORT,
      example_step ''report'' ''reporter'' [''code'', ''test''] FINAL_REPORT]"

lemma example_pack_ordered: "ordered_steps example_pack = Inr example_order"
  by code_simp

theorem validated_pack_is_schedulable_witness:
  "\<exists>batches. ready_batches example_pack = Inr batches \<and> concat batches = example_order"
  using validated_pack_is_schedulable [OF example_pack_validates] example_pack_ordered by auto

text \<open>
  C13. The cycle detector of \<open>packs/base.py\<close> is correct and total: it answers on every step
  list, the answer is empty exactly when the dependency graph has no cycle, and otherwise
  it is a real cycle: it starts and ends with the same step, repeats no other, and every
  step depends on its successor.
\<close>

theorem pack_cycle_detector_correct:
  "\<exists>c. pack_dependency_cycle steps = Some c
     \<and> (if c = [] then \<nexists>c'. is_cycle (deps_get (dependencies_dict ws_name ws_depends_on steps)) c'
        else is_cycle (deps_get (dependencies_dict ws_name ws_depends_on steps)) c)"
proof -
  obtain c where c: "dependency_cycle ws_name ws_depends_on steps = Some c"
    using dependency_cycle_total [of ws_name ws_depends_on steps] by auto
  then show ?thesis
    using dependency_cycle_Nil_iff [of ws_name ws_depends_on steps] dependency_cycle_found [OF c]
    by (auto simp: pack_dependency_cycle_def)
qed

text \<open>
  C17. The work list of \<open>_upstream_steps\<close> terminates and computes the transitive closure of
  the dependency relation, on any step list, cyclic or with undefined names.
\<close>

theorem upstream_steps_are_the_closure:
  "set (pack_upstream_steps n steps) =
     {m. (n, m) \<in> (edges (deps_get (dependencies_dict ws_name ws_depends_on steps)))\<^sup>+}"
  unfolding pack_upstream_steps_def by (rule upstream_steps_trancl)

text \<open>
  C14. The main loop of the runner cannot get stuck on a validated Pack: whatever set of
  steps is completed, if one step of the Pack is not, \<open>_ready_steps\<close> returns a step, and
  every step it returns is new and has all of its dependencies completed (or the Pack has
  no explicit dependencies at all).
\<close>

theorem validated_pack_never_stuck:
  assumes "workflow_pack_model_validate p = Inr q" "ordered_steps q = Inr order"
    and "s \<in> set (wp_steps q)" "ws_name s \<notin> set completed"
  shows "ready_steps order completed (has_explicit_dependencies q) \<noteq> []
     \<and> set (ready_steps order completed (has_explicit_dependencies q)) \<subseteq>
         {t \<in> set (wp_steps q). ws_name t \<notin> set completed \<and> set (ws_depends_on t) \<subseteq> set completed}"
proof -
  have q: "q = p" and acc: "pack_steps_accepted (wp_steps q)"
    using assms(1) pack_valid_accepted by (auto simp: workflow_pack_model_validate_Inr)
  have set: "set order = set (wp_steps q)"
    using assms(2) ordered_loop_mset [of ws_name ws_depends_on "[]" "wp_steps q" "[]" order]
    by (auto simp: ordered_steps_def split: sum.splits dest: mset_eq_setD)
  have "ready_steps order completed (has_explicit_dependencies q) \<noteq> []"
    by (rule ready_steps_exist [OF acc assms(3,4) set])
  moreover have "t \<in> {t \<in> set (wp_steps q). ws_name t \<notin> set completed
      \<and> set (ws_depends_on t) \<subseteq> set completed}"
    if t: "t \<in> set (ready_steps order completed (has_explicit_dependencies q))" for t
  proof (cases "has_explicit_dependencies q")
    case True
    then show ?thesis using ready_steps_sound [of t order completed] t set by simp
  next
    case False
    then have "List.find (\<lambda>s. ws_name s \<notin> set completed) order = Some t"
      using t by (auto simp: ready_steps_def split: option.splits)
    then have "t \<in> set order" "ws_name t \<notin> set completed"
      by (auto simp: find_Some_iff)
    moreover have "ws_depends_on t = []"
      using False \<open>t \<in> set order\<close> set by (auto simp: has_explicit_dependencies_def)
    ultimately show ?thesis using set by simp
  qed
  ultimately show ?thesis by blast
qed

theorem validated_pack_never_stuck_witness:
  "ready_steps example_order [''plan''] (has_explicit_dependencies example_pack) \<noteq> []"
  by (rule validated_pack_never_stuck [OF example_pack_validates example_pack_ordered,
        of "example_step ''test'' ''coder'' [''plan''] TEST_REPORT" "[''plan'']", THEN conjunct1])
    (simp_all add: example_pack_def example_step_def)

text \<open>
  The ownership check of the ready batches accepts exactly the batches in which no
  resource is claimed twice, so two different steps that may run side by side never own the
  same resource.
\<close>

theorem ownership_check_is_exact:
  "(validate_ready_batch_ownership batches = Inr ()) =
     (\<forall>batch \<in> set batches. distinct (map fst (ownership_claims batch)))"
  by (simp add: validate_ownership_Inr batch_ownership_conflicts_Nil)

theorem ownership_check_is_exact_witness:
  "validate_ready_batch_ownership [[example_step ''a'' ''coder'' [] PATCH,
     example_step ''b'' ''coder'' [] PATCH]] = Inr ()"
  by (subst ownership_check_is_exact) (simp add: ownership_claims_def example_step_def)

end
