(* ===== verification/Plan_Guarantees.thy ===== *)
theory Plan_Guarantees imports Execution_Plan Scheduling begin

text \<open>
  What validation against a Pack and freezing guarantee (\<open>core/execution_plan.py\<close>): no
  step gains a tool, a runtime limit or parallelism that the Pack does not grant, dynamic
  plans keep the Pack's blocker evals, role counts and data flow, a frozen plan stays
  accepted, and the quality gate (\<open>core/quality.py\<close>) finds the step that the runner
  executes last.
\<close>


subsection \<open>Dynamic plans\<close>

text \<open>Every artifact a step requires is produced by a step it depends on.\<close>

definition dataflow_ok :: "execution_plan \<Rightarrow> execution_plan_step \<Rightarrow> bool" where
  "dataflow_ok plan step \<longleftrightarrow>
     (\<forall>t \<in> set (es_required_artifacts step @ es_requires_artifact step).
        \<exists>u \<in> set (ep_steps plan). es_step_id u \<in> closure_of (plan_deps plan) (es_step_id step)
          \<and> t \<in> set (es_expected_artifacts u))"

lemma artifacts_of_steps_iff:
  "set ids = closure_of d i \<Longrightarrow> t \<in> set (artifacts_of_steps plan ids) \<longleftrightarrow>
     (\<exists>u \<in> set (ep_steps plan). es_step_id u \<in> closure_of d i \<and> t \<in> set (es_expected_artifacts u))"
  by (auto simp: artifacts_of_steps_def)

lemma dataflow_loop_iff:
  assumes topo: "topo (plan_deps plan) order" "length order = length (ep_steps plan)"
    and ids: "set order = es_step_id ` set (ep_steps plan)"
  shows "set steps \<subseteq> set (ep_steps plan) \<Longrightarrow> cache_ok (plan_deps plan) cache \<Longrightarrow>
    dataflow_loop plan steps cache = Inr () \<longleftrightarrow> (\<forall>s \<in> set steps. dataflow_ok plan s)"
proof (induction steps arbitrary: cache)
  case (Cons step steps)
  have "es_step_id step \<in> set order" using Cons.prems(1) ids by auto
  then obtain u cache' where u:
    "plan_upstream (Suc (length (ep_steps plan))) (plan_deps plan) (es_step_id step) cache
      = Some (u, cache')"
    "set u = closure_of (plan_deps plan) (es_step_id step)" "cache_ok (plan_deps plan) cache'"
    using plan_upstream_correct(1) [OF topo(1), of "es_step_id step"] topo(2) Cons.prems(2)
    by (metis lessI)
  note art = artifacts_of_steps_iff [OF u(2), of _ plan]
  have "dataflow_ok plan step \<longleftrightarrow> filter (\<lambda>t. t \<notin> set (artifacts_of_steps plan u))
      (es_required_artifacts step @ es_requires_artifact step) = []"
    unfolding dataflow_ok_def filter_empty_conv not_not art by blast
  then show ?case
    using Cons.IH [OF _ u(3)] Cons.prems(1) by (auto simp: u(1) Let_def simp del: plan_upstream.simps)
qed simp

lemma plan_topological_order:
  assumes "plan_valid p"
  obtains order where "topo (plan_deps p) order" "set order = es_step_id ` set (ep_steps p)"
    "length order = length (ep_steps p)"
  unfolding plan_deps_def by (rule plan_view.topological_order [OF plan_valid_accepted [OF assms]])

lemma dynamic_dataflow_iff:
  assumes "plan_valid plan"
  shows "validate_dynamic_plan_dataflow plan = Inr () \<longleftrightarrow> (\<forall>s \<in> set (ep_steps plan). dataflow_ok plan s)"
proof -
  obtain order where o: "topo (plan_deps plan) order" "length order = length (ep_steps plan)"
    "set order = es_step_id ` set (ep_steps plan)"
    by (rule plan_topological_order [OF assms])
  show ?thesis
    unfolding validate_dynamic_plan_dataflow_def
    by (rule dataflow_loop_iff [OF o]) (simp_all add: cache_ok_def)
qed

definition missing_check ::
  "execution_plan \<Rightarrow> eval_check \<Rightarrow> plan_error + eval_check list" where
  "missing_check plan required = (case plan_check_named plan (ec_name required) of
     None \<Rightarrow> Inr [required]
   | Some existing \<Rightarrow> if existing \<noteq> required
       then Inl (BlockerEvalConflict (ec_name required)) else Inr [])"

lemma plan_check_named_SomeD: "plan_check_named plan n = Some c \<Longrightarrow> c \<in> set (ep_eval_checks plan)"
  by (auto simp: plan_check_named_def dest!: map_of_SomeD)

lemma missing_check_Inr:
  "missing_check plan r = Inr xs \<Longrightarrow>
    (xs = [] \<and> r \<in> set (ep_eval_checks plan) \<and> plan_check_named plan (ec_name r) = Some r)
    \<or> (xs = [r] \<and> plan_check_named plan (ec_name r) = None)"
  by (auto simp: missing_check_def dest: plan_check_named_SomeD split: option.splits if_splits)

lemma missing_checks_cover:
  "mapE (missing_check plan) rs = Inr found \<Longrightarrow>
    set rs \<subseteq> set (ep_eval_checks plan) \<union> set (concat found) \<and> set (concat found) \<subseteq> set rs"
proof (induction rs arbitrary: found)
  case (Cons r rs)
  then obtain x xs where *: "found = x # xs" "missing_check plan r = Inr x"
    "mapE (missing_check plan) rs = Inr xs"
    by auto
  then show ?case using missing_check_Inr [OF *(2)] Cons.IH [OF *(3)] by auto
qed simp

lemma preserve_steps:
  assumes "preserve_dynamic_pack_blocker_evals plan pack = Inr plan'"
  shows "\<exists>checks. plan' = plan\<lparr>ep_eval_checks := ep_eval_checks plan @ checks\<rparr>
      \<and> set (required_blocker_checks plan pack) \<subseteq> set (ep_eval_checks plan @ checks)
      \<and> (checks = [] \<or> plan_valid plan')"
proof -
  obtain found where f: "mapE (missing_check plan) (required_blocker_checks plan pack) = Inr found"
    "plan' = plan \<and> concat found = [] \<or>
     plan' = plan\<lparr>ep_eval_checks := ep_eval_checks plan @ concat found\<rparr> \<and> plan_valid plan'"
    using assms
    unfolding preserve_dynamic_pack_blocker_evals_def missing_check_def [symmetric] Let_def
    by (auto simp: execution_plan_model_validate_Inr split: if_splits)
  from missing_checks_cover [OF f(1)] f(2) show ?thesis
    by (intro exI [of _ "concat found"]) auto
qed

lemma map_fst_rev_pairs: "map fst (rev (map (\<lambda>c. (f c, c)) xs)) = rev (map f xs)"
  by (induction xs) auto

lemma plan_check_named_member:
  assumes "distinct (map ec_name (ep_eval_checks plan))" "c \<in> set (ep_eval_checks plan)"
  shows "plan_check_named plan (ec_name c) = Some c"
proof -
  have "map fst (rev (map (\<lambda>c. (ec_name c, c)) (ep_eval_checks plan)))
      = rev (map ec_name (ep_eval_checks plan))"
    by (rule map_fst_rev_pairs)
  moreover have "(ec_name c, c) \<in> set (rev (map (\<lambda>c. (ec_name c, c)) (ep_eval_checks plan)))"
    using assms(2) by simp
  ultimately show ?thesis
    unfolding plan_check_named_def using assms(1) by (simp only: map_of_is_SomeI distinct_rev)
qed

lemma plan_valid_evals: "plan_valid p \<Longrightarrow> distinct (map ec_name (ep_eval_checks p))"
  unfolding plan_valid_def execution_plan_model_validate_def validate_plan_def Let_def
    bindE_Inr guardE_Inr by blast

lemma mapE_missing_none:
  "(\<And>r. r \<in> set rs \<Longrightarrow> missing_check plan r = Inr []) \<Longrightarrow>
    mapE (missing_check plan) rs = Inr (map (\<lambda>_. []) rs)"
  by (induction rs) (simp_all add: bindE_def del: mapE_Inr)

lemma preserve_stable:
  assumes "preserve_dynamic_pack_blocker_evals plan pack = Inr plan'"
  shows "preserve_dynamic_pack_blocker_evals plan' pack = Inr plan'"
proof -
  obtain checks where c: "plan' = plan\<lparr>ep_eval_checks := ep_eval_checks plan @ checks\<rparr>"
      "set (required_blocker_checks plan pack) \<subseteq> set (ep_eval_checks plan @ checks)"
      "checks = [] \<or> plan_valid plan'"
    using preserve_steps [OF assms] by blast
  show ?thesis
  proof (cases "checks = []")
    case True
    then show ?thesis using assms c(1) by simp
  next
    case False
    have req: "required_blocker_checks plan' pack = required_blocker_checks plan pack"
      using c(1) by (simp add: required_blocker_checks_def)
    have "missing_check plan' r = Inr []" if "r \<in> set (required_blocker_checks plan' pack)" for r
    proof -
      have "r \<in> set (ep_eval_checks plan')" using that c(1,2) unfolding req by auto
      then have "plan_check_named plan' (ec_name r) = Some r"
        using plan_check_named_member plan_valid_evals False c(3) by blast
      then show ?thesis by (simp add: missing_check_def)
    qed
    then have "mapE (missing_check plan') (required_blocker_checks plan' pack)
        = Inr (map (\<lambda>_. []) (required_blocker_checks plan' pack))"
      by (rule mapE_missing_none)
    moreover have "concat (map (\<lambda>_. []) xs) = []" for xs :: "eval_check list"
      by (induction xs) auto
    ultimately show ?thesis
      unfolding preserve_dynamic_pack_blocker_evals_def missing_check_def [symmetric] Let_def
      by (simp add: bindE_def del: mapE_Inr)
  qed
qed

subsection \<open>Accepted plans\<close>

lemma plan_valid_eval_update:
  "plan_valid p \<Longrightarrow> ep_steps (p\<lparr>ep_eval_checks := cs\<rparr>) = ep_steps p"
  by simp

lemma against_pack_Inr:
  assumes "validate_execution_plan_against_pack plan pack frozen = Inr plan'"
  obtains snapshots where
    "ep_workflow_pack plan = wp_name pack"
    "agent_snapshots_for_plan plan pack = Inr snapshots"
    "check_matches_pack frozen plan pack = Inr ()"
    "\<forall>s \<in> set (ep_steps plan). validate_plan_step_against_agents
        (map (\<lambda>a. (a_role a, a)) (plan_agents frozen plan pack)) s = Inr ()"
    "validate_dynamic_plan frozen plan pack = Inr plan'"
    "frozen \<or> ep_max_parallel_steps plan' \<le> wp_max_parallel_steps pack"
    "frozen \<longrightarrow> ep_agent_snapshots plan \<noteq> []"
  using assms unfolding validate_execution_plan_against_pack_def by auto

lemma dynamic_plan_Inr:
  assumes "validate_dynamic_plan frozen plan pack = Inr plan'" "ep_source plan \<noteq> Source_workflow_pack"
  shows "validate_dynamic_plan_dataflow plan' = Inr ()"
    and "\<not> frozen \<Longrightarrow> preserve_dynamic_pack_blocker_evals plan pack = Inr plan'
        \<and> validate_dynamic_role_usage plan' pack = Inr () \<and> wp_allow_dynamic_execution_plans pack"
    and "frozen \<Longrightarrow> plan' = plan"
  using assms by (auto simp: validate_dynamic_plan_def split: if_splits)

text \<open>Validation only ever appends eval checks.\<close>

lemma against_pack_shape:
  assumes "validate_execution_plan_against_pack plan pack frozen = Inr plan'"
  shows "\<exists>checks. plan' = plan\<lparr>ep_eval_checks := ep_eval_checks plan @ checks\<rparr>
     \<and> (checks = [] \<or> plan_valid plan')"
proof -
  have "validate_dynamic_plan frozen plan pack = Inr plan'"
    using against_pack_Inr [OF assms] by blast
  then have "plan' = plan \<or> preserve_dynamic_pack_blocker_evals plan pack = Inr plan'"
    by (auto simp: validate_dynamic_plan_def split: if_splits)
  then show ?thesis
  proof
    assume "plan' = plan"
    then show ?thesis by (intro exI [of _ "[]"]) simp
  qed (use preserve_steps in blast)
qed

lemma against_pack_valid:
  assumes "validate_execution_plan_against_pack plan pack frozen = Inr plan'" "plan_valid plan"
  shows "plan_valid plan'"
  using against_pack_shape [OF assms(1)] assms(2) by auto

definition limits_respected :: "agent_loop_policy \<Rightarrow> jobj \<Rightarrow> bool" where
  "limits_respected policy limits \<longleftrightarrow>
     (\<forall>(name, requested) \<in> set (comparable_limits policy).
        jget limits name = JNull \<or>
        (case requested of Some r \<Rightarrow> exceeds_limit r (jget limits name) = Some False
         | None \<Rightarrow> name \<noteq> ''max_cost_usd''))"

lemma exceeds_limit_total: "exceeds_limit r v = None \<longleftrightarrow> exceeds_limit q v = None"
  by (cases v) auto

lemma check_limit_Inr:
  assumes "check_limit s a name requested = Inr ()"
  shows "jget (a_runtime_limits a) name = JNull \<or>
    (case requested of None \<Rightarrow> name \<noteq> ''max_cost_usd''
     | Some r \<Rightarrow> exceeds_limit r (jget (a_runtime_limits a) name) = Some False)"
proof (cases "jget (a_runtime_limits a) name = JNull")
  case False
  then have "exceeds_limit 0 (jget (a_runtime_limits a) name) \<noteq> None"
    using assms by (auto simp: check_limit_def Let_def split: option.splits)
  then have total: "exceeds_limit r (jget (a_runtime_limits a) name) \<noteq> None" for r
    using exceeds_limit_total [of r _ 0] by simp
  show ?thesis
  proof (cases requested)
    case None
    with assms False show ?thesis
      by (auto simp: check_limit_def Let_def split: option.splits if_splits)
  next
    case (Some r)
    then have "exceeds_limit r (jget (a_runtime_limits a) name) \<noteq> Some True"
      using assms False by (auto simp: check_limit_def Let_def split: option.splits if_splits)
    then show ?thesis
      using total [of r] Some by (cases "exceeds_limit r (jget (a_runtime_limits a) name)") auto
  qed
qed simp

lemma validate_limits_respected:
  assumes "validate_agent_loop_runtime_limits s a = Inr ()"
  shows "limits_respected (es_agent_loop s) (a_runtime_limits a)"
proof -
  have "check_limit s a name requested = Inr ()"
    if "(name, requested) \<in> set (comparable_limits (es_agent_loop s))" for name requested
    using assms that by (auto simp: validate_agent_loop_runtime_limits_def)
  then show ?thesis
    unfolding limits_respected_def using check_limit_Inr by blast
qed

lemma step_against_agents_Inr:
  assumes "validate_plan_step_against_agents (map (\<lambda>a. (a_role a, a)) agents) s = Inr ()"
  obtains a where "a \<in> set agents" "a_role a = es_agent_role s"
    "set (es_tool_permissions s) \<subseteq> set (a_tool_permissions a)"
    "al_enabled (es_agent_loop s) \<longrightarrow> es_tool_permissions s \<noteq> []
       \<and> limits_respected (es_agent_loop s) (a_runtime_limits a)"
proof -
  from assms obtain a where a: "map_of (rev (map (\<lambda>a. (a_role a, a)) agents)) (es_agent_role s) = Some a"
    "set (es_tool_permissions s) \<subseteq> set (a_tool_permissions a)"
    "al_enabled (es_agent_loop s) \<Longrightarrow> es_tool_permissions s \<noteq> []"
    "al_enabled (es_agent_loop s) \<Longrightarrow> validate_agent_loop_runtime_limits s a = Inr ()"
    by (auto simp: validate_plan_step_against_agents_def Let_def filter_empty_conv split: if_splits)
  then have "a \<in> set agents" "a_role a = es_agent_role s"
    by (auto dest!: map_of_SomeD)
  with a validate_limits_respected show ?thesis by (intro that) auto
qed


subsection \<open>Freezing\<close>

lemma agent_snapshots_cong:
  "ep_steps p = ep_steps q \<Longrightarrow> agent_snapshots_for_plan p pack = agent_snapshots_for_plan q pack"
  by (simp add: agent_snapshots_for_plan_def cong: if_cong)

lemma snapshot_eq_refl: "list_all2 snapshot_eq xs xs"
  by (rule list_all2_refl) (simp add: snapshot_eq_def)

lemma checked_snapshots:
  "mapE checked_snapshot agents = Inr ys \<Longrightarrow> ys = map snapshot_of_agent agents"
  by (induction agents arbitrary: ys)
    (auto simp: checked_snapshot_def Let_def list_all2_Cons1 split: if_splits)

lemma agent_snapshots_Inr:
  assumes "agent_snapshots_for_plan plan pack = Inr snapshots"
  obtains roles where
    "\<forall>s \<in> set (ep_steps plan). es_agent_role s \<in> a_role ` set (wp_agents pack)
      \<longrightarrow> es_agent_role s \<in> set roles"
    "snapshots = map snapshot_of_agent (filter (\<lambda>a. a_role a \<in> set roles) (wp_agents pack))"
proof -
  obtain complete where
    "mapE checked_snapshot (filter (\<lambda>a. a_role a \<in> set (if complete
        then map a_role (wp_agents pack) else map es_agent_role (ep_steps plan))) (wp_agents pack))
      = Inr snapshots"
    using assms unfolding agent_snapshots_for_plan_def Let_def bindE_Inr by blast
  from checked_snapshots [OF this] show ?thesis
    by (rule that [rotated]) auto
qed

lemma validate_dynamic_stable:
  assumes "validate_dynamic_plan False plan pack = Inr plan'"
  shows "validate_dynamic_plan False plan' pack = Inr plan'"
  using assms preserve_stable
  by (auto simp: validate_dynamic_plan_def split: if_splits dest: preserve_steps)

text \<open>
  The agents of a frozen plan are the Pack's agents cut down to the roles of the plan, so a
  step that the Pack's agents accept is accepted against the snapshots.
\<close>

lemma map_of_role:
  "distinct (map a_role agents) \<Longrightarrow> a \<in> set agents \<Longrightarrow>
    map_of (rev (map (\<lambda>a. (a_role a, a)) agents)) (a_role a) = Some a"
  by (rule map_of_is_SomeI) (simp_all add: map_fst_rev_pairs del: distinct_map)

lemma map_of_role_None:
  "r \<notin> a_role ` set agents \<Longrightarrow> map_of (rev (map (\<lambda>a. (a_role a, a)) agents)) r = None"
  by (auto simp: map_of_eq_None_iff)


lemma dataflow_loop_snapshots:
  "dataflow_loop (p\<lparr>ep_agent_snapshots := x\<rparr>) steps cache = dataflow_loop p steps cache"
proof (induction steps arbitrary: cache)
  case (Cons step steps)
  have "plan_deps (p\<lparr>ep_agent_snapshots := x\<rparr>) = plan_deps p"
    "artifacts_of_steps (p\<lparr>ep_agent_snapshots := x\<rparr>) ids = artifacts_of_steps p ids"
    "ep_steps (p\<lparr>ep_agent_snapshots := x\<rparr>) = ep_steps p" for ids
    by (simp_all add: plan_deps_def artifacts_of_steps_def)
  then show ?case
    by (simp only: dataflow_loop.simps Cons.IH)
qed simp

lemma preserve_fixed_snapshots:
  assumes "preserve_dynamic_pack_blocker_evals p pack = Inr p"
  shows "preserve_dynamic_pack_blocker_evals (p\<lparr>ep_agent_snapshots := x\<rparr>) pack
    = Inr (p\<lparr>ep_agent_snapshots := x\<rparr>)"
proof -
  let ?p = "p\<lparr>ep_agent_snapshots := x\<rparr>"
  obtain found where f: "mapE (missing_check p) (required_blocker_checks p pack) = Inr found"
    "p = p \<and> concat found = [] \<or> p = p\<lparr>ep_eval_checks := ep_eval_checks p @ concat found\<rparr>"
    using assms
    unfolding preserve_dynamic_pack_blocker_evals_def missing_check_def [symmetric] Let_def
    by (auto simp: execution_plan_model_validate_Inr split: if_splits)
  have "ep_eval_checks p = ep_eval_checks p @ concat found \<Longrightarrow> concat found = []"
    by (metis append_self_conv)
  with f(2) have c: "concat found = []"
    by (metis execution_plan.ext_inject execution_plan.surjective execution_plan.update_convs(6))
  have "missing_check ?p = missing_check p"
    by (rule ext) (simp add: missing_check_def plan_check_named_def)
  moreover have "required_blocker_checks ?p pack = required_blocker_checks p pack"
    by (simp add: required_blocker_checks_def)
  ultimately show ?thesis
    unfolding preserve_dynamic_pack_blocker_evals_def missing_check_def [symmetric] Let_def
    using f(1) c by (simp add: bindE_def del: mapE_Inr)
qed

lemma dynamic_snapshots:
  assumes "validate_dynamic_plan False p pack = Inr p"
  shows "validate_dynamic_plan frozen (p\<lparr>ep_agent_snapshots := x\<rparr>) pack
    = Inr (p\<lparr>ep_agent_snapshots := x\<rparr>)"
proof (cases "ep_source p = Source_workflow_pack")
  case True
  then show ?thesis by (simp add: validate_dynamic_plan_def)
next
  case False
  have d: "validate_dynamic_plan_dataflow (p\<lparr>ep_agent_snapshots := x\<rparr>) = Inr ()"
    using dynamic_plan_Inr(1) [OF assms False]
    by (simp add: validate_dynamic_plan_dataflow_def dataflow_loop_snapshots)
  have p: "preserve_dynamic_pack_blocker_evals p pack = Inr p"
    "validate_dynamic_role_usage p pack = Inr ()" "wp_allow_dynamic_execution_plans pack"
    using dynamic_plan_Inr(2) [OF assms False] by auto
  have "validate_dynamic_role_usage (p\<lparr>ep_agent_snapshots := x\<rparr>) pack = Inr ()"
    using p(2) by (simp add: validate_dynamic_role_usage_def)
  with d p(3) preserve_fixed_snapshots [OF p(1)] False show ?thesis
    by (simp add: validate_dynamic_plan_def bindE_def guardE_def)
qed

lemma step_against_snapshots:
  assumes d: "distinct (map a_role agents)"
    and v: "validate_plan_step_against_agents (map (\<lambda>a. (a_role a, a)) agents) s = Inr ()"
    and r: "es_agent_role s \<in> a_role ` set agents \<Longrightarrow> es_agent_role s \<in> set roles"
  shows "validate_plan_step_against_agents (map (\<lambda>a. (a_role a, a))
      (map (\<lambda>x. agent_definition_from_snapshot x n)
        (map snapshot_of_agent (filter (\<lambda>a. a_role a \<in> set roles) agents)))) s = Inr ()"
proof -
  obtain a where a: "a \<in> set agents" "a_role a = es_agent_role s"
    using step_against_agents_Inr [OF v] by blast
  then have find: "map_of (rev (map (\<lambda>a. (a_role a, a)) agents)) (es_agent_role s) = Some a"
    using map_of_role [OF d a(1)] by simp
  let ?f = "\<lambda>a. agent_definition_from_snapshot (snapshot_of_agent a) n"
  let ?as = "map ?f (filter (\<lambda>a. a_role a \<in> set roles) agents)"
  have role [simp]: "a_role (?f b) = a_role b" "a_tool_permissions (?f b) = a_tool_permissions b"
    "a_runtime_limits (?f b) = a_runtime_limits b" for b
    by (simp_all add: agent_definition_from_snapshot_def snapshot_of_agent_def)
  have "a_role a \<in> set roles" using a r by (metis image_eqI)
  then have "?f a \<in> set ?as" using a(1) by auto
  moreover have "distinct (map a_role ?as)"
    using d by (simp add: comp_def distinct_map inj_on_def)
  ultimately have "map_of (rev (map (\<lambda>a. (a_role a, a)) ?as)) (es_agent_role s) = Some (?f a)"
    using map_of_role [of ?as "?f a"] a(2) by simp
  moreover have "check_limit s (?f a) = check_limit s a"
    by (intro ext) (simp only: check_limit_def role)
  then have "validate_agent_loop_runtime_limits s (?f a) = validate_agent_loop_runtime_limits s a"
    by (simp only: validate_agent_loop_runtime_limits_def)
  ultimately show ?thesis
    using v find unfolding map_map comp_def
    by (simp only: validate_plan_step_against_agents_def of_option_def option.case bindE_def
        sum.case Let_def role)
qed

lemma freeze_Inr:
  assumes "freeze_execution_plan plan pack = Inr f"
  obtains validated snapshots where
    "validate_execution_plan_against_pack (plan\<lparr>ep_agent_snapshots := []\<rparr>) pack False = Inr validated"
    "agent_snapshots_for_plan validated pack = Inr snapshots"
    "f = validated\<lparr>ep_agent_snapshots := snapshots\<rparr>"
  using assms by (auto simp: freeze_execution_plan_def)


lemma against_pack_intro:
  assumes "ep_workflow_pack plan = wp_name pack" "frozen \<Longrightarrow> ep_agent_snapshots plan \<noteq> []"
    "agent_snapshots_for_plan plan pack = Inr snapshots"
    "frozen \<or> ep_agent_snapshots plan = snapshots"
    "check_matches_pack frozen plan pack = Inr ()"
    "\<And>s. s \<in> set (ep_steps plan) \<Longrightarrow> validate_plan_step_against_agents
        (map (\<lambda>a. (a_role a, a)) (plan_agents frozen plan pack)) s = Inr ()"
    "validate_dynamic_plan frozen plan pack = Inr plan'"
    "frozen \<or> ep_max_parallel_steps plan' \<le> wp_max_parallel_steps pack"
  shows "validate_execution_plan_against_pack plan pack frozen = Inr plan'"
  using assms snapshot_eq_refl
  unfolding validate_execution_plan_against_pack_def bindE_Inr guardE_Inr forE_Inr by blast

lemma check_matches_snapshots:
  "check_matches_pack False p pack = Inr () \<Longrightarrow>
    check_matches_pack frozen (p\<lparr>ep_agent_snapshots := x\<rparr>) pack = Inr ()"
  by (auto simp: check_matches_pack_def plan_eq_without_snapshots_def without_agent_snapshots_def)

lemma validated_fixed:
  assumes v: "validate_execution_plan_against_pack plan pack False = Inr p"
    "ep_agent_snapshots plan = []"
  shows "validate_dynamic_plan False p pack = Inr p" "check_matches_pack False p pack = Inr ()"
    "ep_workflow_pack p = wp_name pack" "ep_steps p = ep_steps plan"
    "s \<in> set (ep_steps p) \<Longrightarrow> validate_plan_step_against_agents
        (map (\<lambda>a. (a_role a, a)) (wp_agents pack)) s = Inr ()"
    "ep_max_parallel_steps p \<le> wp_max_parallel_steps pack"
proof -
  obtain snaps where i: "ep_workflow_pack plan = wp_name pack"
    "agent_snapshots_for_plan plan pack = Inr snaps"
    "check_matches_pack False plan pack = Inr ()"
    "\<forall>s \<in> set (ep_steps plan). validate_plan_step_against_agents
        (map (\<lambda>a. (a_role a, a)) (plan_agents False plan pack)) s = Inr ()"
    "validate_dynamic_plan False plan pack = Inr p"
    "False \<or> ep_max_parallel_steps p \<le> wp_max_parallel_steps pack"
    using against_pack_Inr [OF v(1)] by blast
  obtain checks where c: "p = plan\<lparr>ep_eval_checks := ep_eval_checks plan @ checks\<rparr>"
    using against_pack_shape [OF v(1)] by blast
  show "validate_dynamic_plan False p pack = Inr p" by (rule validate_dynamic_stable [OF i(5)])
  show "ep_workflow_pack p = wp_name pack" "ep_steps p = ep_steps plan" using c i(1) by simp_all
  show "ep_max_parallel_steps p \<le> wp_max_parallel_steps pack" using i(6) by simp
  show "check_matches_pack False p pack = Inr ()"
  proof (cases "ep_source plan = Source_workflow_pack")
    case True
    then have "p = plan" using i(5) by (simp add: validate_dynamic_plan_def)
    then show ?thesis using i(3) by simp
  next
    case False
    then show ?thesis using c by (simp add: check_matches_pack_def)
  qed
  show "s \<in> set (ep_steps p) \<Longrightarrow> validate_plan_step_against_agents
        (map (\<lambda>a. (a_role a, a)) (wp_agents pack)) s = Inr ()"
    using i(4) c by (simp add: plan_agents_def)
qed

subsection \<open>The last step\<close>

text \<open>\<open>_last_ordered_plan_step_name\<close> of \<open>core/quality.py\<close>.\<close>

definition last_ordered_plan_step_name :: "execution_plan \<Rightarrow> exn + string" where
  "last_ordered_plan_step_name plan =
    (case ordered_loop es_step_id es_dependencies [] (ep_steps plan) [] of
       Inl _ \<Rightarrow> Inl (OtherError ''Execution plan step dependencies cannot be resolved.'')
     | Inr ordered \<Rightarrow> Inr (es_step_id (last ordered)))"

lemma ordered_loop_map:
  assumes "\<And>s. nm (f s) = nm' s" "\<And>s. dp (f s) = dp' s"
  shows "ordered_loop nm dp completed (map f remaining) (map f ordered)
    = map_sum (map f) (map f) (ordered_loop nm' dp' completed remaining ordered)"
proof (induction "length remaining" arbitrary: completed remaining ordered rule: less_induct)
  case less
  let ?c = completed and ?r = remaining and ?o = ordered
  have eq: "ready_steps_of dp ?c (map f ?r) = map f (ready_steps_of dp' ?c ?r)"
    by (simp add: ready_steps_of_def filter_map comp_def assms(2))
  have rem: "remove_all_of (map f (ready_steps_of dp' ?c ?r)) (map f ?r)
      = map f (remove_all_of (ready_steps_of dp' ?c ?r) ?r)"
    unfolding eq [symmetric] by (simp add: filter_map comp_def assms(2))
  show ?case
  proof (cases "?r = [] \<or> ready_steps_of dp' ?c ?r = []")
    case True
    then show ?thesis
      by (auto simp: ordered_loop.simps [of nm dp ?c "map f ?r"] ordered_loop.simps [of nm' dp' ?c ?r]
          Let_def eq)
  next
    case False
    have nm: "map nm (map f (ready_steps_of dp' ?c ?r)) = map nm' (ready_steps_of dp' ?c ?r)"
      by (simp add: comp_def assms(1))
    have "map f ?r \<noteq> []" "ready_steps_of dp ?c (map f ?r) \<noteq> []" using False eq by auto
    note outer = ordered_loop_step [OF this, of nm "map f ?o", unfolded eq rem nm]
    let ?c' = "?c @ map nm' (ready_steps_of dp' ?c ?r)"
    let ?r' = "remove_all_of (ready_steps_of dp' ?c ?r) ?r"
    have "length ?r' < length ?r" using False by (intro ready_shorter) simp
    then have "ordered_loop nm dp ?c' (map f ?r') (map f (?o @ ready_steps_of dp' ?c ?r))
        = map_sum (map f) (map f) (ordered_loop nm' dp' ?c' ?r' (?o @ ready_steps_of dp' ?c ?r))"
      by (rule less)
    then show ?thesis
      using ordered_loop_step [of ?r dp' ?c nm' ?o] False outer by (simp add: map_append)
  qed
qed

lemma workflow_pack_from_Inr:
  assumes "workflow_pack_from_execution_plan plan base frozen = Inr pack"
  obtains plan' where "validate_execution_plan_against_pack plan base frozen = Inr plan'"
    "pack = executed_pack plan' base" "pack_valid pack"
proof -
  from assms obtain plan' where v: "validate_execution_plan_against_pack plan base frozen = Inr plan'"
    and c: "(case workflow_pack_model_validate (executed_pack plan' base) of
        Inl e \<Rightarrow> Inl (PackConstruction e) | Inr pack \<Rightarrow> Inr pack) = Inr pack"
    unfolding workflow_pack_from_execution_plan_def bindE_Inr by blast
  from c have w: "workflow_pack_model_validate (executed_pack plan' base) = Inr pack"
    by (cases "workflow_pack_model_validate (executed_pack plan' base)") simp_all
  from w have "pack = executed_pack plan' base" "pack_valid pack"
    unfolding workflow_pack_model_validate_Inr by simp_all
  with v show ?thesis by (rule that)
qed

section \<open>An example plan\<close>

definition example_plan_step :: "string \<Rightarrow> string \<Rightarrow> string list \<Rightarrow> artifact_type \<Rightarrow> execution_plan_step" where
  "example_plan_step name role deps produces = \<lparr>es_step_id = name, es_objective = name,
     es_agent_role = role, es_dependencies = deps, es_inputs = [], es_required_artifacts = [],
     es_expected_artifacts = [produces], es_acceptance_criteria = [default_criterion produces],
     es_tool_permissions = [''read_file''], es_ownership = [], es_phase = None,
     es_coordination_role = None, es_controller_step = None, es_return_contract = None,
     es_runtime = Runtime_model, es_session_policy = default_session_policy,
     es_context_policy = default_context_policy,
     es_agent_loop = default_agent_loop_policy\<lparr>al_enabled := True, al_max_steps := 4,
       al_max_tool_calls := 2\<rparr>,
     es_requires_eval_pass = False, es_required_eval_checks = [],
     es_requires_artifact = (if deps = [] then [] else [DESIGN_DOC])\<rparr>"

definition example_plan :: execution_plan where
  "example_plan = \<lparr>ep_workflow_pack = ''demo'', ep_source = Source_operator,
     ep_final_artifact_type = FINAL_REPORT, ep_max_parallel_steps = 2,
     ep_steps = [example_plan_step ''report'' ''reporter'' [''code''] FINAL_REPORT,
                 example_plan_step ''code'' ''coder'' [''plan''] PATCH,
                 example_plan_step ''plan'' ''planner'' [] DESIGN_DOC],
     ep_eval_checks = [], ep_agent_snapshots = []\<rparr>"

definition example_frozen_plan :: execution_plan where
  "example_frozen_plan =
     example_plan\<lparr>ep_agent_snapshots := map snapshot_of_agent (wp_agents example_pack)\<rparr>"

lemma example_plan_validates: "execution_plan_model_validate example_plan = Inr example_plan"
  by code_simp

lemma example_plan_accepted:
  "validate_execution_plan_against_pack example_plan example_pack False = Inr example_plan"
  by code_simp

lemma example_plan_freezes:
  "freeze_execution_plan example_plan example_pack = Inr example_frozen_plan"
  by code_simp

lemma example_plan_executes:
  "workflow_pack_from_execution_plan example_plan example_pack False
     = Inr (executed_pack example_plan example_pack)"
  by code_simp

section \<open>Properties\<close>

text \<open>
  C15. Freezing is stable: the plan that \<open>freeze_execution_plan\<close> returns validates against
  the same Pack unchanged, both as a fresh plan (its snapshots match the Pack's agents) and
  as the persisted plan of a resumed run (its steps are accepted by its own snapshots).
\<close>

theorem frozen_plan_revalidates:
  assumes plan: "execution_plan_model_validate plan = Inr plan"
    and pack: "workflow_pack_model_validate pack = Inr pack"
    and f: "freeze_execution_plan plan pack = Inr f"
  shows "validate_execution_plan_against_pack f pack False = Inr f
     \<and> validate_execution_plan_against_pack f pack True = Inr f"
proof -
  obtain p snaps where p:
    "validate_execution_plan_against_pack (plan\<lparr>ep_agent_snapshots := []\<rparr>) pack False = Inr p"
    "agent_snapshots_for_plan p pack = Inr snaps" "f = p\<lparr>ep_agent_snapshots := snaps\<rparr>"
    by (rule freeze_Inr [OF f])
  have "ep_agent_snapshots (plan\<lparr>ep_agent_snapshots := []\<rparr>) = []" by simp
  note fx = validated_fixed [OF p(1) this]
  have snaps: "agent_snapshots_for_plan f pack = Inr snaps"
    using p(2) agent_snapshots_cong [of f p pack] p(3) by simp
  obtain roles where roles:
    "\<forall>s \<in> set (ep_steps p). es_agent_role s \<in> a_role ` set (wp_agents pack)
      \<longrightarrow> es_agent_role s \<in> set roles"
    "snaps = map snapshot_of_agent (filter (\<lambda>a. a_role a \<in> set roles) (wp_agents pack))"
    using agent_snapshots_Inr [OF p(2)] by blast
  have d: "distinct (map a_role (wp_agents pack))"
    using pack pack_valid_steps(2) by (simp add: pack_valid_def)
  have "ep_steps plan \<noteq> []"
    using plan by (auto simp: execution_plan_model_validate_def execution_plan_fields_ok_def between_def)
  then obtain s where s: "s \<in> set (ep_steps p)" using fx(4) by (cases "ep_steps plan") auto
  obtain a where a: "a \<in> set (wp_agents pack)" "a_role a = es_agent_role s"
    using step_against_agents_Inr [OF fx(5) [OF s]] by blast
  then have "a_role a \<in> set roles" using roles(1) s by (metis image_eqI)
  then have ne: "snaps \<noteq> []" using a(1) roles(2) by (auto simp: filter_empty_conv)
  have "validate_execution_plan_against_pack f pack False = Inr f"
    by (rule against_pack_intro [OF _ _ snaps])
      (use fx p(3) dynamic_snapshots [OF fx(1)] check_matches_snapshots [OF fx(2)]
        in \<open>simp_all add: plan_agents_def\<close>)
  moreover have "validate_execution_plan_against_pack f pack True = Inr f"
  proof (rule against_pack_intro [OF _ _ snaps])
    fix t assume t: "t \<in> set (ep_steps f)"
    then have tp: "t \<in> set (ep_steps p)" using p(3) by simp
    show "validate_plan_step_against_agents
        (map (\<lambda>a. (a_role a, a)) (plan_agents True f pack)) t = Inr ()"
      using step_against_snapshots [OF d fx(5) [OF tp] roles(1) [rule_format, OF tp], of "wp_name pack"] ne
      by (simp add: plan_agents_def p(3) roles(2))
  qed (use fx p(3) ne dynamic_snapshots [OF fx(1)] check_matches_snapshots [OF fx(2)]
        in simp_all)
  ultimately show ?thesis by blast
qed


theorem frozen_plan_revalidates_witness:
  "validate_execution_plan_against_pack example_frozen_plan example_pack True
     = Inr example_frozen_plan"
  using frozen_plan_revalidates
    [OF example_plan_validates example_pack_validates example_plan_freezes] by blast

text \<open>
  C5. A plan accepted for a Pack never expands what the Pack grants: validation keeps its
  steps, every step runs as an agent of the Pack whose tool permissions contain the
  step's, an enabled agent loop has tools and stays within every runtime limit of that
  agent, and the plan is not more parallel than the Pack.
\<close>

theorem accepted_plan_expands_nothing:
  assumes "validate_execution_plan_against_pack plan pack False = Inr plan'"
  shows "ep_steps plan' = ep_steps plan
     \<and> ep_max_parallel_steps plan' \<le> wp_max_parallel_steps pack
     \<and> (\<forall>s \<in> set (ep_steps plan'). \<exists>a \<in> set (wp_agents pack). a_role a = es_agent_role s
          \<and> set (es_tool_permissions s) \<subseteq> set (a_tool_permissions a)
          \<and> (al_enabled (es_agent_loop s) \<longrightarrow> es_tool_permissions s \<noteq> []
               \<and> limits_respected (es_agent_loop s) (a_runtime_limits a)))"
proof -
  have steps: "ep_steps plan' = ep_steps plan"
    using against_pack_shape [OF assms] by auto
  have v: "\<forall>s \<in> set (ep_steps plan). validate_plan_step_against_agents
        (map (\<lambda>a. (a_role a, a)) (wp_agents pack)) s = Inr ()"
    "ep_max_parallel_steps plan' \<le> wp_max_parallel_steps pack"
    using against_pack_Inr [OF assms] by (auto simp: plan_agents_def)
  have "\<exists>a \<in> set (wp_agents pack). a_role a = es_agent_role s
      \<and> set (es_tool_permissions s) \<subseteq> set (a_tool_permissions a)
      \<and> (al_enabled (es_agent_loop s) \<longrightarrow> es_tool_permissions s \<noteq> []
           \<and> limits_respected (es_agent_loop s) (a_runtime_limits a))"
    if "s \<in> set (ep_steps plan)" for s
    using step_against_agents_Inr [of "wp_agents pack" s] v(1) that by blast
  then show ?thesis
    unfolding steps using v(2) by blast
qed

theorem accepted_plan_expands_nothing_witness:
  "\<exists>a \<in> set (wp_agents example_pack).
     set (es_tool_permissions (hd (ep_steps example_plan))) \<subseteq> set (a_tool_permissions a)"
proof -
  have "hd (ep_steps example_plan) \<in> set (ep_steps example_plan)" by code_simp
  then show ?thesis using accepted_plan_expands_nothing [OF example_plan_accepted] by blast
qed

text \<open>
  C16. A dynamic plan (written by the planner or the operator) that is accepted keeps the
  Pack's guards: the Pack allows dynamic plans, every blocker eval check whose artifacts the
  plan produces is in the accepted plan, no role is used more often than in the Pack, and
  every artifact a step requires is produced by a step it transitively depends on.
\<close>

theorem dynamic_plan_keeps_guards:
  assumes plan: "execution_plan_model_validate plan = Inr plan"
    and v: "validate_execution_plan_against_pack plan pack False = Inr plan'"
    and dyn: "ep_source plan \<noteq> Source_workflow_pack"
  shows "wp_allow_dynamic_execution_plans pack
     \<and> set (required_blocker_checks plan' pack) \<subseteq> set (ep_eval_checks plan')
     \<and> (\<forall>role. count_list (map es_agent_role (ep_steps plan')) role
          \<le> count_list (map ws_agent_role (wp_steps pack)) role)
     \<and> (\<forall>s \<in> set (ep_steps plan'). dataflow_ok plan' s)"
proof -
  have d: "validate_dynamic_plan False plan pack = Inr plan'"
    using against_pack_Inr [OF v] by blast
  have pl: "plan_valid plan" using plan by (simp add: plan_valid_def)
  have p: "preserve_dynamic_pack_blocker_evals plan pack = Inr plan'"
    "validate_dynamic_role_usage plan' pack = Inr ()" "wp_allow_dynamic_execution_plans pack"
    using dynamic_plan_Inr(2) [OF d dyn] by auto
  obtain checks where c: "plan' = plan\<lparr>ep_eval_checks := ep_eval_checks plan @ checks\<rparr>"
    "set (required_blocker_checks plan pack) \<subseteq> set (ep_eval_checks plan @ checks)"
    using preserve_steps [OF p(1)] by blast
  have blockers: "set (required_blocker_checks plan' pack) \<subseteq> set (ep_eval_checks plan')"
    using c by (simp add: required_blocker_checks_def)
  have roles: "count_list (map es_agent_role (ep_steps plan')) role
      \<le> count_list (map ws_agent_role (wp_steps pack)) role" for role
  proof (cases "role \<in> set (map es_agent_role (ep_steps plan'))")
    case True
    then show ?thesis using p(2) by (auto simp: validate_dynamic_role_usage_def Let_def)
  next
    case False
    then have "count_list (map es_agent_role (ep_steps plan')) role = 0"
      by (simp only: count_list_0_iff) simp
    then show ?thesis by simp
  qed
  have "\<forall>s \<in> set (ep_steps plan'). dataflow_ok plan' s"
    using dynamic_plan_Inr(1) [OF d dyn] dynamic_dataflow_iff [OF against_pack_valid [OF v pl]]
    by simp
  with blockers roles p(3) show ?thesis by blast
qed

theorem dynamic_plan_keeps_guards_witness:
  "dataflow_ok example_plan (hd (ep_steps example_plan))"
proof -
  have "hd (ep_steps example_plan) \<in> set (ep_steps example_plan)" by code_simp
  then show ?thesis
    using dynamic_plan_keeps_guards [OF example_plan_validates example_plan_accepted]
    by (simp add: example_plan_def)
qed

text \<open>
  The quality gate and the runner agree on the last step: for the Pack that a validated
  plan is executed as, \<open>_ordered_steps\<close> of the runner returns an order whose last step is
  the one that \<open>_last_ordered_plan_step_name\<close> computes from the plan.
\<close>

theorem quality_gate_finds_last_step:
  assumes "execution_plan_model_validate plan = Inr plan"
    and "workflow_pack_from_execution_plan plan base frozen = Inr pack"
  shows "\<exists>order. ordered_steps pack = Inr order \<and> order \<noteq> []
     \<and> last_ordered_plan_step_name plan = Inr (ws_name (last order))"
proof -
  obtain plan' where v: "validate_execution_plan_against_pack plan base frozen = Inr plan'"
    and pack: "pack = executed_pack plan' base"
    using workflow_pack_from_Inr [OF assms(2)] by blast
  then have wsteps:
    "wp_steps pack = map (workflow_step_of_plan_step (ep_source plan')) (ep_steps plan')"
    by (simp add: executed_pack_def)
  have steps: "ep_steps plan' = ep_steps plan"
    using against_pack_shape [OF v] by auto
  have pl: "plan_valid plan" using assms(1) by (simp add: plan_valid_def)
  obtain res where res: "ordered_loop es_step_id es_dependencies [] (ep_steps plan) [] = Inr res"
    "mset res = mset (ep_steps plan)"
    using plan_view.ordered [OF plan_valid_accepted [OF pl]] by blast
  let ?f = "workflow_step_of_plan_step (ep_source plan')"
  have "ordered_loop ws_name ws_depends_on [] (map ?f (ep_steps plan)) (map ?f [])
      = map_sum (map ?f) (map ?f) (ordered_loop es_step_id es_dependencies [] (ep_steps plan) [])"
    by (rule ordered_loop_map) (simp_all add: workflow_step_of_plan_step_def)
  then have "ordered_steps pack = Inr (map ?f res)"
    by (simp add: ordered_steps_def wsteps steps res(1))
  moreover have "ep_steps plan \<noteq> []"
    using assms(1) by (auto simp: execution_plan_model_validate_def execution_plan_fields_ok_def between_def)
  then have "res \<noteq> []" using res(2) by auto
  moreover have "ws_name (?f s) = es_step_id s" for s
    by (simp add: workflow_step_of_plan_step_def)
  ultimately show ?thesis
    by (simp add: last_ordered_plan_step_name_def res(1) last_map)
qed

theorem quality_gate_finds_last_step_witness:
  "\<exists>order. ordered_steps (executed_pack example_plan example_pack) = Inr order
     \<and> last_ordered_plan_step_name example_plan = Inr (ws_name (last order))"
  using quality_gate_finds_last_step [OF example_plan_validates example_plan_executes] by blast

end
