(* ===== verification/Registry.thy ===== *)
theory Registry imports Harness_Models begin

text \<open>
  \<open>AgentRegistry\<close> of \<open>backend/app/core/registry.py\<close>: the agents by id and the ids by Pack and
  role, both dictionaries in insertion order. A method takes the registry and returns its
  result with the registry it leaves; a raise leaves what was written before it.
\<close>

record agent_registry =
  reg_agents_by_id :: "(string \<times> agent_definition) list"
  reg_ids_by_pack_role :: "((string \<times> string) \<times> string) list"

definition empty_registry :: agent_registry where
  "empty_registry = \<lparr>reg_agents_by_id = [], reg_ids_by_pack_role = []\<rparr>"

definition pack_role :: "agent_definition \<Rightarrow> string \<times> string" where
  "pack_role a = (a_pack_name a, a_role a)"

definition ensure_can_register :: "agent_definition \<Rightarrow> agent_registry \<Rightarrow> exn + unit" where
  "ensure_can_register a g =
    bindE (guardE (opt_all (\<lambda>i. i = a_id a) (map_of (reg_ids_by_pack_role g) (pack_role a)))
       (AgentRegistryError (''Agent role already registered for pack '' @ a_pack_name a @ '': '' @ a_role a)))
    (\<lambda>_. guardE (map_of (reg_agents_by_id g) (a_id a) = None)
       (AgentRegistryError (''Agent id already registered: '' @ a_id a)))"

definition record_agent :: "agent_definition \<Rightarrow> agent_registry \<Rightarrow> agent_registry" where
  "record_agent a g = \<lparr>reg_agents_by_id = jput (a_id a) a (reg_agents_by_id g),
     reg_ids_by_pack_role = jput (pack_role a) (a_id a) (reg_ids_by_pack_role g)\<rparr>"

definition register_agent :: "agent_definition \<Rightarrow> agent_registry \<Rightarrow> exn + agent_registry" where
  "register_agent a g = bindE (ensure_can_register a g) (\<lambda>_. Inr (record_agent a g))"

text \<open>All agents of the Pack are checked before the first is written.\<close>

definition register_pack_agents :: "agent_definition list \<Rightarrow> agent_registry \<Rightarrow> exn + agent_registry" where
  "register_pack_agents agents g =
     bindE (forE (\<lambda>a. ensure_can_register a g) agents) (\<lambda>_. Inr (fold record_agent agents g))"

definition get_agent :: "string \<Rightarrow> agent_registry \<Rightarrow> agent_definition option" where
  "get_agent i g = map_of (reg_agents_by_id g) i"

text \<open>\<open>self._agents_by_id[agent_id]\<close> raises \<open>KeyError\<close> for an id that is missing.\<close>

definition get_agent_for_role :: "string \<Rightarrow> string \<Rightarrow> agent_registry \<Rightarrow> exn + agent_definition option" where
  "get_agent_for_role pack_name role g =
    (case map_of (reg_ids_by_pack_role g) (pack_name, role) of
       None \<Rightarrow> Inr None
     | Some i \<Rightarrow> (case map_of (reg_agents_by_id g) i of
         None \<Rightarrow> Inl (OtherError i) | Some a \<Rightarrow> Inr (Some a)))"

definition list_agents :: "string option \<Rightarrow> agent_registry \<Rightarrow> agent_definition list" where
  "list_agents pack_name g =
    (let agents = map snd (reg_agents_by_id g) in
     case pack_name of None \<Rightarrow> agents | Some n \<Rightarrow> filter (\<lambda>a. a_pack_name a = n) agents)"

section \<open>Consistency\<close>

text \<open>
  The two dictionaries describe the same agents: every agent is stored under its id and
  reached by its Pack and role, and every role entry leads to such an agent.
\<close>

definition registry_ok :: "agent_registry \<Rightarrow> bool" where
  "registry_ok g \<longleftrightarrow>
     (\<forall>i a. map_of (reg_agents_by_id g) i = Some a \<longrightarrow>
        a_id a = i \<and> map_of (reg_ids_by_pack_role g) (pack_role a) = Some i)
   \<and> (\<forall>k i. map_of (reg_ids_by_pack_role g) k = Some i \<longrightarrow>
        (\<exists>a. map_of (reg_agents_by_id g) i = Some a \<and> pack_role a = k))"

lemma empty_registry_ok: "registry_ok empty_registry"
  by (simp add: registry_ok_def empty_registry_def)

lemma ensure_can_register_Inr:
  "ensure_can_register a g = Inr u \<longleftrightarrow> map_of (reg_agents_by_id g) (a_id a) = None
     \<and> (\<forall>i. map_of (reg_ids_by_pack_role g) (pack_role a) = Some i \<longrightarrow> i = a_id a)"
  by (auto simp: ensure_can_register_def opt_all_def split: option.splits)

lemma record_agent_ok:
  assumes "registry_ok g" "ensure_can_register a g = Inr ()"
  shows "registry_ok (record_agent a g)"
proof -
  have free: "map_of (reg_agents_by_id g) (a_id a) = None"
    using assms by (simp add: ensure_can_register_Inr)
  have free2: "map_of (reg_ids_by_pack_role g) (pack_role a) = None"
  proof (cases "map_of (reg_ids_by_pack_role g) (pack_role a)")
    case (Some i)
    then have "i = a_id a" "map_of (reg_agents_by_id g) i \<noteq> None"
      using assms unfolding ensure_can_register_Inr registry_ok_def by fastforce+
    with free show ?thesis by simp
  qed
  have old: "a_id b = i \<and> map_of (reg_ids_by_pack_role g) (pack_role b) = Some i"
    if "map_of (reg_agents_by_id g) i = Some b" for i b
    using that assms(1) unfolding registry_ok_def by blast
  then have other: "pack_role b \<noteq> pack_role a" if "map_of (reg_agents_by_id g) i = Some b" for i b
    using that free2 by fastforce
  have roles: "i \<noteq> a_id a \<and> (\<exists>b. map_of (reg_agents_by_id g) i = Some b \<and> pack_role b = k)"
    if "map_of (reg_ids_by_pack_role g) k = Some i" for k i
    using that assms(1) free unfolding registry_ok_def by fastforce
  show ?thesis
    unfolding registry_ok_def record_agent_def
    by (simp add: old other) (metis roles)
qed

lemma fold_record_ok:
  assumes "registry_ok g" "\<forall>a \<in> set agents. ensure_can_register a g = Inr ()"
    "distinct (map a_id agents)" "distinct (map pack_role agents)"
  shows "registry_ok (fold record_agent agents g)"
  using assms
proof (induction agents arbitrary: g)
  case (Cons a agents)
  have "ensure_can_register b (record_agent a g) = Inr ()" if "b \<in> set agents" for b
    using Cons.prems that
    by (auto simp: ensure_can_register_Inr record_agent_def image_iff)
  then show ?case using Cons by (auto simp: record_agent_ok)
qed simp

lemma get_agent_for_role_ok:
  assumes "registry_ok g"
  shows "\<exists>x. get_agent_for_role p r g = Inr x
    \<and> (\<forall>a. x = Some a \<longrightarrow> a_pack_name a = p \<and> a_role a = r \<and> get_agent (a_id a) g = Some a)"
proof (cases "map_of (reg_ids_by_pack_role g) (p, r)")
  case None
  then show ?thesis by (simp add: get_agent_for_role_def)
next
  case (Some i)
  then obtain a where a: "map_of (reg_agents_by_id g) i = Some a" "pack_role a = (p, r)"
    using assms unfolding registry_ok_def by blast
  then have "a_id a = i" using assms unfolding registry_ok_def by blast
  then show ?thesis using Some a by (simp add: get_agent_for_role_def get_agent_def pack_role_def)
qed

section \<open>Properties\<close>

text \<open>The registries that successful registrations lead to.\<close>

inductive registry_reachable :: "agent_registry \<Rightarrow> bool" where
  registry_initial: "registry_reachable empty_registry"
| registry_registered:
    "registry_reachable g \<Longrightarrow> register_agent a g = Inr g' \<Longrightarrow> registry_reachable g'"
| registry_pack_registered:
    "registry_reachable g \<Longrightarrow> register_pack_agents agents g = Inr g'
      \<Longrightarrow> distinct (map a_id agents) \<Longrightarrow> distinct (map pack_role agents) \<Longrightarrow> registry_reachable g'"

lemma registry_reachable_ok: "registry_reachable g \<Longrightarrow> registry_ok g"
proof (induction rule: registry_reachable.induct)
  case registry_initial
  then show ?case by (rule empty_registry_ok)
next
  case (registry_registered g a g')
  then show ?case by (auto simp: register_agent_def intro: record_agent_ok)
next
  case (registry_pack_registered g agents g')
  then show ?case by (auto simp: register_pack_agents_def intro!: fold_record_ok)
qed

text \<open>
  Whatever was registered, the lookup by role never hits a missing id: it returns an agent
  of exactly that Pack and role which the lookup by id returns too, or \<open>None\<close>; and an agent
  is registered only when its id and its role are both free.
\<close>

theorem registry_lookups_agree:
  assumes "registry_reachable g"
  shows "(\<exists>x. get_agent_for_role p r g = Inr x
      \<and> (\<forall>a. x = Some a \<longrightarrow> a_pack_name a = p \<and> a_role a = r \<and> get_agent (a_id a) g = Some a))
    \<and> (\<forall>a g'. register_agent a g = Inr g' \<longrightarrow> get_agent (a_id a) g = None
        \<and> get_agent_for_role (a_pack_name a) (a_role a) g = Inr None
        \<and> get_agent_for_role (a_pack_name a) (a_role a) g' = Inr (Some a))"
proof -
  have ok: "registry_ok g" by (rule registry_reachable_ok [OF assms])
  have new: "get_agent (a_id a) g = None
      \<and> get_agent_for_role (a_pack_name a) (a_role a) g = Inr None
      \<and> get_agent_for_role (a_pack_name a) (a_role a) g' = Inr (Some a)"
    if "register_agent a g = Inr g'" for a g'
  proof -
    from that have free: "map_of (reg_agents_by_id g) (a_id a) = None"
      "\<And>i. map_of (reg_ids_by_pack_role g) (pack_role a) = Some i \<Longrightarrow> i = a_id a"
      and g': "g' = record_agent a g"
      by (auto simp: register_agent_def ensure_can_register_Inr)
    have "map_of (reg_ids_by_pack_role g) (pack_role a) \<noteq> Some i" for i
      using free ok unfolding registry_ok_def by fastforce
    then have "map_of (reg_ids_by_pack_role g) (pack_role a) = None"
      by (cases "map_of (reg_ids_by_pack_role g) (pack_role a)") auto
    then show ?thesis using free g'
      by (simp add: get_agent_def get_agent_for_role_def record_agent_def pack_role_def)
  qed
  show ?thesis using get_agent_for_role_ok [OF ok] new by blast
qed

definition example_registered :: agent_definition where
  "example_registered = \<lparr>a_id = ''agent-1'', a_pack_name = ''demo'', a_role = ''coder'',
     a_system_prompt = ''Work.'', a_model_settings = [], a_tool_permissions = [],
     a_runtime_limits = [], a_effective_skill_ids = []\<rparr>"

theorem registry_lookups_agree_witness:
  "get_agent_for_role ''demo'' ''coder'' (record_agent example_registered empty_registry)
     = Inr (Some example_registered)"
proof -
  have "register_agent example_registered empty_registry
      = Inr (record_agent example_registered empty_registry)"
    by code_simp
  then have "get_agent_for_role (a_pack_name example_registered) (a_role example_registered)
      (record_agent example_registered empty_registry) = Inr (Some example_registered)"
    using registry_lookups_agree [OF registry_initial] by blast
  then show ?thesis
    by (simp add: example_registered_def)
qed

end
