(* ===== verification/Store.thy ===== *)
theory Store imports Registry "HOL-Library.Option_ord" begin

text \<open>
  \<open>SQLiteStorage\<close> of \<open>backend/app/core/storage.py\<close>: the database as one list of rows
  per table in row-id order, the world in which the stateful code runs (clock, fresh ids,
  the failures of write statements), nested transactions with rollback, and one action per
  storage operation. The declared constraints of the schema (primary keys, foreign keys,
  the unique role) are enforced the way SQLite does it: a write statement that would leave
  the database violating one raises \<open>StorageIntegrityError\<close> and changes nothing.
  Reads do not fail. Rows hold the validated model instead of its JSON text; only the
  \<open>runs\<close> table keeps rows whose text does not load.
\<close>

section \<open>The database\<close>

text \<open>
  The text of a persisted run: a run that loads; a payload that would load if one half of
  the plan/hash pair were not missing; text that is not JSON or not an object; a payload
  with another id; or a payload that validation rejects for the given reason, with the flag
  whether exactly one half of the pair is present.
\<close>

datatype run_cell =
    Stored_run run
  | Incomplete_pair run
  | Not_json
  | Not_object
  | Wrong_identity
  | Invalid_payload bool string

record run_row =
  rr_id :: string
  rr_task_id :: string
  rr_status :: run_status
  rr_started_at :: "timestamp option"
  rr_finished_at :: "timestamp option"
  rr_cell :: run_cell

record db =
  d_tasks :: "task list"
  d_runs :: "run_row list"
  d_agents :: "agent_definition list"
  d_agent_runs :: "agent_run list"
  d_sessions :: "agent_session list"
  d_jobs :: "runtime_job list"
  d_queue :: "run_queue_item list"
  d_locks :: "run_lock list"
  d_handoffs :: "handoff list"
  d_artifacts :: "artifact list"
  d_events :: "trace_event list"
  d_evals :: "eval_result list"

definition empty_db :: db where
  "empty_db = \<lparr>d_tasks = [], d_runs = [], d_agents = [], d_agent_runs = [], d_sessions = [],
     d_jobs = [], d_queue = [], d_locks = [], d_handoffs = [], d_artifacts = [], d_events = [],
     d_evals = []\<rparr>"

text \<open>The constraints that \<open>init_schema\<close> declares.\<close>

definition references :: "string list \<Rightarrow> string list \<Rightarrow> bool" where
  "references keys ids \<longleftrightarrow> set keys \<subseteq> set ids"

definition primary_keys_ok :: "db \<Rightarrow> bool" where
  "primary_keys_ok d \<longleftrightarrow>
     distinct (map t_id (d_tasks d)) \<and> distinct (map rr_id (d_runs d))
   \<and> distinct (map a_id (d_agents d)) \<and> distinct (map ar_id (d_agent_runs d))
   \<and> distinct (map s_id (d_sessions d)) \<and> distinct (map j_id (d_jobs d))
   \<and> distinct (map q_id (d_queue d)) \<and> distinct (map l_id (d_locks d))
   \<and> distinct (map h_id (d_handoffs d)) \<and> distinct (map art_id (d_artifacts d))
   \<and> distinct (map ev_id (d_events d)) \<and> distinct (map er_id (d_evals d))"

definition foreign_keys_ok :: "db \<Rightarrow> bool" where
  "foreign_keys_ok d \<longleftrightarrow>
    (let tasks = map t_id (d_tasks d); runs = map rr_id (d_runs d); agents = map a_id (d_agents d);
         agent_runs = map ar_id (d_agent_runs d); sessions = map s_id (d_sessions d);
         artifacts = map art_id (d_artifacts d) in
     references (map rr_task_id (d_runs d)) tasks
   \<and> references (map ar_run_id (d_agent_runs d)) runs
   \<and> references (map ar_agent_id (d_agent_runs d)) agents
   \<and> references (map s_run_id (d_sessions d)) runs
   \<and> references (map s_agent_run_id (d_sessions d)) agent_runs
   \<and> references (map s_agent_id (d_sessions d)) agents
   \<and> references (map j_run_id (d_jobs d)) runs
   \<and> references (map j_agent_run_id (d_jobs d)) agent_runs
   \<and> references (List.map_filter j_agent_session_id (d_jobs d)) sessions
   \<and> references (map q_run_id (d_queue d)) runs
   \<and> references (map l_run_id (d_locks d)) runs
   \<and> references (map h_run_id (d_handoffs d)) runs
   \<and> references (map h_from_agent_run_id (d_handoffs d)) agent_runs
   \<and> references (map h_to_agent_id (d_handoffs d)) agents
   \<and> references (map art_run_id (d_artifacts d)) runs
   \<and> references (map art_agent_run_id (d_artifacts d)) agent_runs
   \<and> references (map ev_run_id (d_events d)) runs
   \<and> references (List.map_filter ev_agent_run_id (d_events d)) agent_runs
   \<and> references (map er_run_id (d_evals d)) runs
   \<and> references (List.map_filter er_artifact_id (d_evals d)) artifacts)"

definition unique_roles_ok :: "db \<Rightarrow> bool" where
  "unique_roles_ok d \<longleftrightarrow> distinct (map (\<lambda>a. (a_pack_name a, a_role a)) (d_agents d))"

definition schema_ok :: "db \<Rightarrow> bool" where
  "schema_ok d \<longleftrightarrow> primary_keys_ok d \<and> foreign_keys_ok d \<and> unique_roles_ok d"

section \<open>The world\<close>

text \<open>
  \<open>w_clock\<close> gives the successive answers of \<open>utc_now()\<close>, \<open>w_fresh\<close> those of
  \<open>uuid4()\<close>, \<open>w_fault\<close> the write statements (and commits) that SQLite fails, by their
  number, with the text of the \<open>sqlite3.Error\<close>. \<open>w_redact\<close> is
  \<open>redact_secret_like_text\<close>. \<open>w_registry\<close> is the agent registry of the process. \<open>w_files\<close> are
  the files below the artifact root by their path segments, in creation order, \<open>w_os_fault\<close>
  the system calls that fail, by their number, with the error text and the number of bytes
  that a failing write has written; \<open>w_sha256\<close>, \<open>w_encode\<close>, \<open>w_decode\<close> and \<open>w_show_float\<close>
  are the hex digest of \<open>hashlib.sha256\<close>, the UTF-8 codec (bytes as characters) and
  \<open>float.__repr__\<close>.
\<close>

datatype file_node = Directory | Regular string nat | Link

type_synonym file_path = "string list"

record world =
  w_db :: db
  w_depth :: nat
  w_ticks :: nat
  w_ids :: nat
  w_ios :: nat
  w_clock :: "nat \<Rightarrow> timestamp"
  w_fresh :: "nat \<Rightarrow> string"
  w_fault :: "nat \<Rightarrow> string option"
  w_redact :: "string \<Rightarrow> string"
  w_registry :: agent_registry
  w_files :: "(file_path \<times> file_node) list"
  w_syscalls :: nat
  w_os_fault :: "nat \<Rightarrow> (string \<times> nat) option"
  w_sha256 :: "string \<Rightarrow> string"
  w_encode :: "string \<Rightarrow> string"
  w_decode :: "string \<Rightarrow> string option"
  w_show_float :: "rat \<Rightarrow> string"

type_synonym 'a io = "(world, 'a) act"

definition utc_now :: "timestamp io" where
  "utc_now = (\<lambda>w. (Inr (w_clock w (w_ticks w)), w\<lparr>w_ticks := Suc (w_ticks w)\<rparr>))"

definition new_id :: "string io" where
  "new_id = (\<lambda>w. (Inr (w_fresh w (w_ids w)), w\<lparr>w_ids := Suc (w_ids w)\<rparr>))"

definition sqlite_io :: "unit io" where
  "sqlite_io = (\<lambda>w. (case w_fault w (w_ios w) of
      None \<Rightarrow> (Inr (), w\<lparr>w_ios := Suc (w_ios w)\<rparr>)
    | Some msg \<Rightarrow> (Inl (StorageError msg), w\<lparr>w_ios := Suc (w_ios w)\<rparr>)))"

text \<open>
  \<open>transaction()\<close>: only the outermost one begins, commits and rolls back; a nested one
  lets the exception pass. A failing commit rolls back. The depth is decreased on every path.
\<close>

definition transaction :: "'a io \<Rightarrow> 'a io" where
  "transaction m = (\<lambda>w.
    let outermost = (w_depth w = 0); saved = w_db w in
    case (if outermost then sqlite_io w else (Inr (), w)) of
      (Inl e, w1) \<Rightarrow> (Inl e, w1)
    | (Inr _, w1) \<Rightarrow>
       (case m (w1\<lparr>w_depth := Suc (w_depth w1)\<rparr>) of
          (Inl e, w2) \<Rightarrow> (Inl e, w2\<lparr>w_db := (if outermost then saved else w_db w2),
                                 w_depth := w_depth w2 - 1\<rparr>)
        | (Inr x, w2) \<Rightarrow>
            if outermost then
              (case sqlite_io w2 of
                 (Inl e, w3) \<Rightarrow> (Inl e, w3\<lparr>w_db := saved, w_depth := w_depth w3 - 1\<rparr>)
               | (Inr _, w3) \<Rightarrow> (Inr x, w3\<lparr>w_depth := w_depth w3 - 1\<rparr>))
            else (Inr x, w2\<lparr>w_depth := w_depth w2 - 1\<rparr>)))"

text \<open>One write statement.\<close>

definition write_statement :: "(db \<Rightarrow> db) \<Rightarrow> unit io" where
  "write_statement f = thenM sqlite_io (\<lambda>w.
     if schema_ok (f (w_db w)) then (Inr (), w\<lparr>w_db := f (w_db w)\<rparr>)
     else (Inl (StorageIntegrityError ''constraint failed''), w))"

section \<open>Generic rows\<close>

text \<open>
  A table is given by its rows, its update and the key of a row. \<open>_insert_model\<close> appends,
  \<open>_update_model\<close> replaces the row with the key of the model and raises when there is none,
  \<open>_get_model\<close> looks up, \<open>_list_models\<close> filters in row-id order.
\<close>

definition replace_row :: "('a \<Rightarrow> string) \<Rightarrow> 'a \<Rightarrow> 'a list \<Rightarrow> 'a list" where
  "replace_row rid r xs = map (\<lambda>x. if rid x = rid r then r else x) xs"

definition insert_model :: "(db \<Rightarrow> 'a list) \<Rightarrow> ('a list \<Rightarrow> db \<Rightarrow> db) \<Rightarrow> 'a \<Rightarrow> unit io" where
  "insert_model rows put r =
     transaction (write_statement (\<lambda>d. put (rows d @ [r]) d))"

definition update_model ::
  "string \<Rightarrow> (db \<Rightarrow> 'a list) \<Rightarrow> ('a list \<Rightarrow> db \<Rightarrow> db) \<Rightarrow> ('a \<Rightarrow> string) \<Rightarrow> 'a \<Rightarrow> unit io" where
  "update_model table rows put rid r =
     transaction (thenM (write_statement (\<lambda>d. put (replace_row rid r (rows d)) d))
       (bindM (getsM (\<lambda>w. rid r \<in> set (map rid (rows (w_db w))))) (\<lambda>found.
        guardM found (StorageIntegrityError (table @ '' row not found: '' @ rid r)))))"

definition get_model :: "(db \<Rightarrow> 'a list) \<Rightarrow> ('a \<Rightarrow> string) \<Rightarrow> string \<Rightarrow> 'a option io" where
  "get_model rows rid i = getsM (\<lambda>w. List.find (\<lambda>x. rid x = i) (rows (w_db w)))"

definition list_models :: "(db \<Rightarrow> 'a list) \<Rightarrow> ('a \<Rightarrow> bool) \<Rightarrow> 'a list io" where
  "list_models rows p = getsM (\<lambda>w. filter p (rows (w_db w)))"

text \<open>The tables: how each list of rows is replaced.\<close>

definition put_tasks where "put_tasks xs d = d\<lparr>d_tasks := xs\<rparr>" for d :: db
definition put_runs where "put_runs xs d = d\<lparr>d_runs := xs\<rparr>" for d :: db
definition put_agents where "put_agents xs d = d\<lparr>d_agents := xs\<rparr>" for d :: db
definition put_agent_runs where "put_agent_runs xs d = d\<lparr>d_agent_runs := xs\<rparr>" for d :: db
definition put_sessions where "put_sessions xs d = d\<lparr>d_sessions := xs\<rparr>" for d :: db
definition put_jobs where "put_jobs xs d = d\<lparr>d_jobs := xs\<rparr>" for d :: db
definition put_queue where "put_queue xs d = d\<lparr>d_queue := xs\<rparr>" for d :: db
definition put_locks where "put_locks xs d = d\<lparr>d_locks := xs\<rparr>" for d :: db
definition put_handoffs where "put_handoffs xs d = d\<lparr>d_handoffs := xs\<rparr>" for d :: db
definition put_artifacts where "put_artifacts xs d = d\<lparr>d_artifacts := xs\<rparr>" for d :: db
definition put_events where "put_events xs d = d\<lparr>d_events := xs\<rparr>" for d :: db
definition put_evals where "put_evals xs d = d\<lparr>d_evals := xs\<rparr>" for d :: db

lemmas put_defs = put_tasks_def put_runs_def put_agents_def put_agent_runs_def put_sessions_def
  put_jobs_def put_queue_def put_locks_def put_handoffs_def put_artifacts_def put_events_def
  put_evals_def

section \<open>Guards\<close>

definition ensure_run_exists :: "string \<Rightarrow> unit io" where
  "ensure_run_exists run_id =
    bindM (getsM (\<lambda>w. run_id \<in> set (map rr_id (d_runs (w_db w))))) (\<lambda>found.
    guardM found (StorageIntegrityError (''run row not found: '' @ run_id)))"

text \<open>The three copies of \<open>_ensure_..._belongs_to_run\<close>.\<close>

definition ensure_belongs_to_run ::
  "string \<Rightarrow> (db \<Rightarrow> 'a list) \<Rightarrow> ('a \<Rightarrow> string) \<Rightarrow> ('a \<Rightarrow> string) \<Rightarrow> string \<Rightarrow> string \<Rightarrow> unit io" where
  "ensure_belongs_to_run kind rows rid run_of i run_id =
    bindM (get_model rows rid i) (\<lambda>row. case row of
       None \<Rightarrow> raiseM (StorageIntegrityError (kind @ '' row not found: '' @ i))
     | Some x \<Rightarrow> guardM (run_of x = run_id)
         (StorageIntegrityError (kind @ '' '' @ i @ '' belongs to run '' @ run_of x @ '', not run ''
            @ run_id)))"

definition ensure_agent_run_belongs_to_run :: "string \<Rightarrow> string \<Rightarrow> unit io" where
  "ensure_agent_run_belongs_to_run =
     ensure_belongs_to_run ''agent_run'' d_agent_runs ar_id ar_run_id"

definition ensure_artifact_belongs_to_run :: "string \<Rightarrow> string \<Rightarrow> unit io" where
  "ensure_artifact_belongs_to_run =
     ensure_belongs_to_run ''artifact'' d_artifacts art_id art_run_id"

definition session_mismatches :: "agent_session \<Rightarrow> runtime_job \<Rightarrow> string list" where
  "session_mismatches s j =
     (if s_run_id s \<noteq> j_run_id j then [''run_id='' @ s_run_id s] else [])
   @ (if s_agent_run_id s \<noteq> j_agent_run_id j then [''agent_run_id='' @ s_agent_run_id s] else [])
   @ (if s_step_name s \<noteq> j_step_name j then [''step_name='' @ s_step_name s] else [])
   @ (if s_runtime s \<noteq> j_runtime j then [''runtime='' @ s_runtime s] else [])"

definition ensure_runtime_job_session_matches :: "string \<Rightarrow> runtime_job \<Rightarrow> unit io" where
  "ensure_runtime_job_session_matches session_id j =
    bindM (get_model d_sessions s_id session_id) (\<lambda>row. case row of
       None \<Rightarrow> raiseM (StorageIntegrityError (''agent_session row not found: '' @ session_id))
     | Some s \<Rightarrow> guardM (session_mismatches s j = [])
         (StorageIntegrityError (''runtime_job session mismatch for '' @ session_id @ '': ''
            @ join '', '' (session_mismatches s j))))"

section \<open>Tasks and runs\<close>

definition create_task :: "task \<Rightarrow> task io" where
  "create_task t = thenM (insert_model d_tasks put_tasks t) (returnM t)"

definition get_task :: "string \<Rightarrow> task option io" where
  "get_task = get_model d_tasks t_id"

text \<open>\<open>_dump\<close> refuses a run whose snapshots are absent unless it was loaded that way.\<close>

definition dump_run :: "run \<Rightarrow> unit io" where
  "dump_run r =
    (let names = r_confirmed_real_web_tools r; routes = r_confirmed_real_web_tool_routes r in
     guardM (\<not> (names = None \<or> routes = None)
             \<or> (names = None \<and> routes = None \<and> r_legacy_real_web_snapshot_run_id r = Some (r_id r)))
       (RunRecordIntegrityError (r_id r) ''invalid_payload''))"

definition run_row_of :: "run \<Rightarrow> run_row" where
  "run_row_of r = \<lparr>rr_id = r_id r, rr_task_id = r_task_id r, rr_status = r_status r,
     rr_started_at = r_started_at r, rr_finished_at = r_finished_at r, rr_cell = Stored_run r\<rparr>"

definition ensure_final_artifact :: "run \<Rightarrow> unit io" where
  "ensure_final_artifact r = (case r_final_artifact_id r of
     None \<Rightarrow> returnM () | Some a \<Rightarrow> ensure_artifact_belongs_to_run a (r_id r))"

definition create_run :: "run \<Rightarrow> run io" where
  "create_run r = thenM (ensure_final_artifact r) (thenM (dump_run r)
     (thenM (insert_model d_runs put_runs (run_row_of r)) (returnM r)))"

definition update_run :: "run \<Rightarrow> run io" where
  "update_run r = thenM (ensure_final_artifact r) (thenM (dump_run r)
     (thenM (update_model ''runs'' d_runs put_runs rr_id (run_row_of r)) (returnM r)))"

text \<open>\<open>_load_persisted_run\<close>.\<close>

fun load_persisted_run :: "string \<Rightarrow> run_cell \<Rightarrow> run io" where
  "load_persisted_run run_id (Stored_run r) =
     (if r_id r = run_id then returnM r
      else raiseM (RunRecordIntegrityError run_id ''identity_mismatch''))"
| "load_persisted_run run_id (Incomplete_pair r) =
     (if r_id r = run_id then raiseM (RunRecordIntegrityError run_id ''incomplete_execution_plan_pair'')
      else raiseM (RunRecordIntegrityError run_id ''identity_mismatch''))"
| "load_persisted_run run_id Not_json = raiseM (RunRecordIntegrityError run_id ''invalid_payload'')"
| "load_persisted_run run_id Not_object = raiseM (RunRecordIntegrityError run_id ''invalid_payload'')"
| "load_persisted_run run_id Wrong_identity =
     raiseM (RunRecordIntegrityError run_id ''identity_mismatch'')"
| "load_persisted_run run_id (Invalid_payload _ reason) =
     raiseM (RunRecordIntegrityError run_id reason)"

definition get_run :: "string \<Rightarrow> run option io" where
  "get_run run_id = bindM (get_model d_runs rr_id run_id) (\<lambda>row. case row of
     None \<Rightarrow> returnM None
   | Some x \<Rightarrow> bindM (load_persisted_run run_id (rr_cell x)) (\<lambda>r. returnM (Some r)))"

definition load_rows :: "run_row list \<Rightarrow> run list io" where
  "load_rows rows = mapM rows (\<lambda>x. load_persisted_run (rr_id x) (rr_cell x))"

definition list_runs_by_statuses :: "run_status list \<Rightarrow> run list io" where
  "list_runs_by_statuses statuses =
     bindM (list_models d_runs (\<lambda>x. rr_status x \<in> set statuses)) (\<lambda>rows.
     load_rows (sort_key rr_id rows))"

definition list_run_ids :: "string list io" where
  "list_run_ids = bindM (list_models d_runs (\<lambda>_. True)) (\<lambda>rows. returnM (sort (map rr_id rows)))"


text \<open>
  \<open>_complete_execution_plan_pair_with_failure_sentinel\<close>; \<open>plan_hash\<close> is the hash of the
  stored plan, \<open>None\<close> when it does not validate.
\<close>

definition complete_pair_with_sentinel :: "(jobj \<Rightarrow> string option) \<Rightarrow> run \<Rightarrow> run" where
  "complete_pair_with_sentinel plan_hash r =
    (let plan = (case r_execution_plan r of None \<Rightarrow> [] | Some p \<Rightarrow> p);
         zeros = replicate 64 CHR ''0''; ones = replicate 64 CHR ''1'' in
     r\<lparr>r_execution_plan := Some plan,
       r_execution_plan_hash := (case r_execution_plan_hash r of
           Some h \<Rightarrow> Some h
         | None \<Rightarrow> Some (if plan_hash plan = Some zeros then ones else zeros))\<rparr>)"

definition terminalize_incomplete_execution_plan_pair ::
  "(jobj \<Rightarrow> string option) \<Rightarrow> string \<Rightarrow> run io" where
  "terminalize_incomplete_execution_plan_pair plan_hash run_id = transaction (
    bindM (get_model d_runs rr_id run_id) (\<lambda>row. case row of
      None \<Rightarrow> raiseM (StorageError (''runs row not found: '' @ run_id))
    | Some x \<Rightarrow> (case rr_cell x of
        Not_json \<Rightarrow> raiseM (StorageError (''Persisted run record is not valid JSON: '' @ run_id))
      | Not_object \<Rightarrow> raiseM (StorageError (''Persisted run record is not an object: '' @ run_id))
      | Wrong_identity \<Rightarrow> raiseM (RunRecordIntegrityError run_id ''identity_mismatch'')
      | Stored_run _ \<Rightarrow> raiseM (StorageError
          (''Persisted run does not have an incomplete execution plan pair: '' @ run_id))
      | Invalid_payload incomplete _ \<Rightarrow> raiseM (StorageError
          ((if incomplete then ''Persisted run record cannot be terminalized: ''
            else ''Persisted run does not have an incomplete execution plan pair: '') @ run_id))
      | Incomplete_pair r \<Rightarrow>
          if r_id r \<noteq> run_id then raiseM (RunRecordIntegrityError run_id ''identity_mismatch'')
          else bindM utc_now (\<lambda>now.
            let failed = (complete_pair_with_sentinel plan_hash r)\<lparr>r_status := Run_FAILED,
                            r_current_step := None, r_finished_at := Some now\<rparr> in
            thenM (dump_run failed)
              (thenM (update_model ''runs'' d_runs put_runs rr_id (run_row_of failed))
                 (returnM failed))))))"

text \<open>The quarantine sets the columns of the status and the end, and leaves the text of the row.\<close>

definition quarantine_invalid_run_record :: "string \<Rightarrow> unit io" where
  "quarantine_invalid_run_record run_id =
    bindM utc_now (\<lambda>now. transaction (
      thenM (write_statement (\<lambda>d. put_runs
          (map (\<lambda>x. if rr_id x = run_id then x\<lparr>rr_status := Run_FAILED, rr_finished_at := Some now\<rparr> else x) (d_runs d)) d))
        (bindM (getsM (\<lambda>w. run_id \<in> set (map rr_id (d_runs (w_db w))))) (\<lambda>found.
         guardM found (StorageError (''runs row not found: '' @ run_id))))))"

section \<open>Agents\<close>

definition get_agent_definition :: "string \<Rightarrow> agent_definition option io" where
  "get_agent_definition = get_model d_agents a_id"

definition get_agent_definition_by_pack_role :: "string \<Rightarrow> string \<Rightarrow> agent_definition option io" where
  "get_agent_definition_by_pack_role pack_name role =
     getsM (\<lambda>w. List.find (\<lambda>a. a_pack_name a = pack_name \<and> a_role a = role) (d_agents (w_db w)))"

definition ensure_role_free :: "agent_definition \<Rightarrow> unit io" where
  "ensure_role_free a =
    bindM (get_agent_definition_by_pack_role (a_pack_name a) (a_role a)) (\<lambda>existing.
    guardM (opt_all (\<lambda>e. a_id e = a_id a) existing)
      (StorageIntegrityError (''Agent role already exists for pack '' @ a_pack_name a @ '': '' @ a_role a)))"

definition create_agent_definition :: "agent_definition \<Rightarrow> agent_definition io" where
  "create_agent_definition a =
     thenM (ensure_role_free a) (thenM (insert_model d_agents put_agents a) (returnM a))"

definition upsert_agent_definition :: "agent_definition \<Rightarrow> agent_definition io" where
  "upsert_agent_definition a = thenM (ensure_role_free a)
    (bindM (get_agent_definition (a_id a)) (\<lambda>existing_by_id. case existing_by_id of
       None \<Rightarrow> create_agent_definition a
     | Some e \<Rightarrow>
         if a_pack_name e \<noteq> a_pack_name a \<or> a_role e \<noteq> a_role a
         then raiseM (StorageIntegrityError (''Agent id already exists for another pack/role: '' @ a_id a))
         else thenM (update_model ''agent_definitions'' d_agents put_agents a_id a) (returnM a)))"

definition create_agent_run :: "agent_run \<Rightarrow> agent_run io" where
  "create_agent_run x = thenM (insert_model d_agent_runs put_agent_runs x) (returnM x)"

definition get_agent_run :: "string \<Rightarrow> agent_run option io" where
  "get_agent_run = get_model d_agent_runs ar_id"

definition update_agent_run :: "agent_run \<Rightarrow> agent_run io" where
  "update_agent_run x =
     thenM (update_model ''agent_runs'' d_agent_runs put_agent_runs ar_id x) (returnM x)"

definition list_agent_runs_for_run :: "string \<Rightarrow> agent_run list io" where
  "list_agent_runs_for_run run_id = list_models d_agent_runs (\<lambda>x. ar_run_id x = run_id)"

section \<open>Sessions and jobs\<close>

definition get_agent_session :: "string \<Rightarrow> agent_session option io" where
  "get_agent_session = get_model d_sessions s_id"

definition create_agent_session :: "agent_session \<Rightarrow> agent_session io" where
  "create_agent_session s =
    thenM (ensure_agent_run_belongs_to_run (s_agent_run_id s) (s_run_id s))
    (bindM (get_agent_run (s_agent_run_id s)) (\<lambda>agent_run.
     thenM (case agent_run of None \<Rightarrow> returnM ()
       | Some x \<Rightarrow> guardM (ar_agent_id x = s_agent_id s)
           (StorageIntegrityError (''agent_session agent '' @ s_agent_id s
              @ '' does not match agent_run '' @ ar_agent_id x)))
     (thenM (insert_model d_sessions put_sessions s) (returnM s))))"

definition update_agent_session :: "agent_session \<Rightarrow> agent_session io" where
  "update_agent_session s =
    thenM (ensure_agent_run_belongs_to_run (s_agent_run_id s) (s_run_id s))
    (thenM (update_model ''agent_sessions'' d_sessions put_sessions s_id s) (returnM s))"

definition list_agent_sessions_for_run :: "string \<Rightarrow> agent_session list io" where
  "list_agent_sessions_for_run run_id = list_models d_sessions (\<lambda>x. s_run_id x = run_id)"

definition ensure_runtime_job_owned :: "runtime_job \<Rightarrow> unit io" where
  "ensure_runtime_job_owned j =
    thenM (ensure_agent_run_belongs_to_run (j_agent_run_id j) (j_run_id j))
      (case j_agent_session_id j of None \<Rightarrow> returnM ()
       | Some s \<Rightarrow> ensure_runtime_job_session_matches s j)"

definition create_runtime_job :: "runtime_job \<Rightarrow> runtime_job io" where
  "create_runtime_job j = thenM (ensure_runtime_job_owned j)
     (thenM (insert_model d_jobs put_jobs j) (returnM j))"

definition get_runtime_job :: "string \<Rightarrow> runtime_job option io" where
  "get_runtime_job = get_model d_jobs j_id"

definition update_runtime_job :: "runtime_job \<Rightarrow> runtime_job io" where
  "update_runtime_job j = thenM (ensure_runtime_job_owned j)
     (thenM (update_model ''runtime_jobs'' d_jobs put_jobs j_id j) (returnM j))"

definition list_runtime_jobs_for_run :: "string \<Rightarrow> runtime_job list io" where
  "list_runtime_jobs_for_run run_id = list_models d_jobs (\<lambda>x. j_run_id x = run_id)"

section \<open>Queue items and locks\<close>

definition create_run_queue_item :: "run_queue_item \<Rightarrow> run_queue_item io" where
  "create_run_queue_item q = thenM (ensure_run_exists (q_run_id q))
     (thenM (insert_model d_queue put_queue q) (returnM q))"

definition get_run_queue_item :: "string \<Rightarrow> run_queue_item option io" where
  "get_run_queue_item = get_model d_queue q_id"

definition update_run_queue_item :: "run_queue_item \<Rightarrow> run_queue_item io" where
  "update_run_queue_item q = thenM (ensure_run_exists (q_run_id q))
     (thenM (update_model ''run_queue_items'' d_queue put_queue q_id q) (returnM q))"

definition list_run_queue_items_for_run :: "string \<Rightarrow> run_queue_item list io" where
  "list_run_queue_items_for_run run_id =
    bindM (list_models d_queue (\<lambda>x. q_run_id x = run_id)) (\<lambda>items.
    returnM (sort_key (\<lambda>x. (q_created_at x, q_id x)) items))"

text \<open>\<open>ORDER BY acquired_at DESC, id DESC LIMIT 1\<close>: the last row in ascending order.\<close>

definition active_locks :: "string \<Rightarrow> db \<Rightarrow> run_lock list" where
  "active_locks run_id d = filter (\<lambda>l. l_run_id l = run_id \<and> l_status l = Lock_ACQUIRED) (d_locks d)"

definition get_active_run_lock :: "string \<Rightarrow> run_lock option io" where
  "get_active_run_lock run_id = getsM (\<lambda>w.
     let ls = sort_key (\<lambda>l. (l_acquired_at l, l_id l)) (active_locks run_id (w_db w)) in
     if ls = [] then None else Some (last ls))"

definition create_run_lock :: "run_lock \<Rightarrow> run_lock io" where
  "create_run_lock l = thenM (ensure_run_exists (l_run_id l))
    (bindM (get_active_run_lock (l_run_id l)) (\<lambda>active.
     thenM (guardM (\<not> (l_status l = Lock_ACQUIRED \<and> active \<noteq> None))
              (StorageError (''Run already has an active lock: '' @ l_run_id l)))
     (thenM (insert_model d_locks put_locks l) (returnM l))))"

definition get_run_lock :: "string \<Rightarrow> run_lock option io" where
  "get_run_lock = get_model d_locks l_id"

definition update_run_lock :: "run_lock \<Rightarrow> run_lock io" where
  "update_run_lock l = thenM (ensure_run_exists (l_run_id l))
    (thenM (whenM (l_status l = Lock_ACQUIRED)
       (bindM (get_active_run_lock (l_run_id l)) (\<lambda>active.
        guardM (opt_all (\<lambda>a. l_id a = l_id l) active)
          (StorageError (''Run already has an active lock: '' @ l_run_id l)))))
     (thenM (update_model ''run_locks'' d_locks put_locks l_id l) (returnM l)))"

definition list_run_locks_for_run :: "string \<Rightarrow> run_lock list io" where
  "list_run_locks_for_run run_id =
    bindM (list_models d_locks (\<lambda>x. l_run_id x = run_id)) (\<lambda>ls.
    returnM (sort_key (\<lambda>x. (l_acquired_at x, l_id x)) ls))"

section \<open>Handoffs, artifacts, events and evals\<close>

definition create_handoff :: "handoff \<Rightarrow> handoff io" where
  "create_handoff h = thenM (ensure_agent_run_belongs_to_run (h_from_agent_run_id h) (h_run_id h))
    (thenM (forM (h_artifact_refs h) (\<lambda>a. ensure_artifact_belongs_to_run a (h_run_id h)))
    (thenM (insert_model d_handoffs put_handoffs h) (returnM h)))"

definition create_artifact :: "artifact \<Rightarrow> artifact io" where
  "create_artifact a = thenM (ensure_agent_run_belongs_to_run (art_agent_run_id a) (art_run_id a))
     (thenM (insert_model d_artifacts put_artifacts a) (returnM a))"

definition get_artifact :: "string \<Rightarrow> artifact option io" where
  "get_artifact = get_model d_artifacts art_id"

definition delete_artifact :: "string \<Rightarrow> unit io" where
  "delete_artifact i = transaction (write_statement (\<lambda>d.
     put_artifacts (filter (\<lambda>a. art_id a \<noteq> i) (d_artifacts d)) d))"

definition list_artifacts_for_run :: "string \<Rightarrow> artifact list io" where
  "list_artifacts_for_run run_id =
    bindM (list_models d_artifacts (\<lambda>x. art_run_id x = run_id)) (\<lambda>xs.
    returnM (sort_key (\<lambda>x. (art_created_at x, art_id x)) xs))"

definition append_trace_event :: "trace_event \<Rightarrow> trace_event io" where
  "append_trace_event e =
    thenM (case ev_agent_run_id e of None \<Rightarrow> returnM ()
           | Some a \<Rightarrow> ensure_agent_run_belongs_to_run a (ev_run_id e))
    (thenM (insert_model d_events put_events e) (returnM e))"

definition list_trace_events_for_run :: "string \<Rightarrow> trace_event list io" where
  "list_trace_events_for_run run_id =
    bindM (list_models d_events (\<lambda>x. ev_run_id x = run_id)) (\<lambda>xs.
    returnM (sort_key (\<lambda>x. (ev_created_at x, ev_id x)) xs))"

definition create_eval_result :: "eval_result \<Rightarrow> eval_result io" where
  "create_eval_result e =
    thenM (case er_artifact_id e of None \<Rightarrow> returnM ()
           | Some a \<Rightarrow> ensure_artifact_belongs_to_run a (er_run_id e))
    (thenM (insert_model d_evals put_evals e) (returnM e))"

definition list_eval_results_for_run :: "string \<Rightarrow> eval_result list io" where
  "list_eval_results_for_run run_id =
    bindM (list_models d_evals (\<lambda>x. er_run_id x = run_id)) (\<lambda>xs.
    returnM (sort_key (\<lambda>x. (er_created_at x, er_id x)) xs))"

text \<open>\<open>TraceLogger.record\<close> of \<open>core/trace.py\<close>.\<close>

definition record_trace ::
  "string \<Rightarrow> trace_event_type \<Rightarrow> jobj \<Rightarrow> string option \<Rightarrow> int option \<Rightarrow> trace_event io" where
  "record_trace run_id event_type payload agent_run_id duration_ms =
    bindM new_id (\<lambda>i. bindM utc_now (\<lambda>now.
    append_trace_event \<lparr>ev_id = i, ev_run_id = run_id, ev_agent_run_id = agent_run_id,
      ev_event_type = event_type, ev_payload = payload, ev_duration_ms = duration_ms,
      ev_created_at = now\<rparr>))"


section \<open>Recovery and purge\<close>

definition requires_worker_recovery :: "db \<Rightarrow> run_row \<Rightarrow> bool" where
  "requires_worker_recovery d x \<longleftrightarrow>
     rr_status x \<in> {Run_QUEUED, Run_RUNNING}
   \<or> (\<exists>q \<in> set (d_queue d). q_run_id q = rr_id x \<and> q_status q \<in> {Queue_QUEUED, Queue_RUNNING})
   \<or> (\<exists>l \<in> set (d_locks d). l_run_id l = rr_id x \<and> l_status l = Lock_ACQUIRED)
   \<or> (rr_status x = Run_WAITING
      \<and> (\<exists>j \<in> set (d_jobs d). j_run_id j = rr_id x
           \<and> j_status j \<in> {Job_APPROVED, Job_REJECTED, Job_CANCELLED}))"

definition list_run_ids_requiring_worker_recovery :: "string list io" where
  "list_run_ids_requiring_worker_recovery =
     getsM (\<lambda>w. sort (map rr_id (filter (requires_worker_recovery (w_db w)) (d_runs (w_db w)))))"

definition eligible_terminal_run :: "db \<Rightarrow> run_row \<Rightarrow> bool" where
  "eligible_terminal_run d x \<longleftrightarrow>
     rr_status x \<in> {Run_COMPLETED, Run_FAILED, Run_CANCELLED}
   \<and> \<not> (\<exists>q \<in> set (d_queue d). q_run_id q = rr_id x
          \<and> q_status q \<in> {Queue_QUEUED, Queue_RUNNING, Queue_WAITING})
   \<and> \<not> (\<exists>l \<in> set (d_locks d). l_run_id l = rr_id x \<and> l_status l = Lock_ACQUIRED)
   \<and> \<not> (\<exists>j \<in> set (d_jobs d). j_run_id j = rr_id x
          \<and> j_status j \<in> {Job_RECORDED, Job_APPROVAL_REQUIRED, Job_APPROVED})
   \<and> \<not> (\<exists>s \<in> set (d_sessions d). s_run_id s = rr_id x
          \<and> s_status s \<in> {Session_ACTIVE, Session_WAITING_APPROVAL})"

definition eligible_terminal_run_ids :: "string list io" where
  "eligible_terminal_run_ids =
     getsM (\<lambda>w. sort (map rr_id (filter (eligible_terminal_run (w_db w)) (d_runs (w_db w)))))"

text \<open>\<open>_run_id_batches\<close>: slices of 500 (SQLite allows more variables than that).\<close>

function chunks :: "nat \<Rightarrow> 'a list \<Rightarrow> 'a list list" where
  "chunks n xs = (if n = 0 \<or> xs = [] then [] else take n xs # chunks n (drop n xs))"
  by pat_completeness auto
termination by (relation "measure (\<lambda>(n, xs). length xs)") auto

declare chunks.simps [simp del]

definition run_id_batches :: "string list \<Rightarrow> string list list" where
  "run_id_batches run_ids = chunks 500 run_ids"

text \<open>\<open>Path(p).parts\<close> of a relative POSIX path; an absolute path starts with a slash.\<close>

fun split_slash :: "string \<Rightarrow> string \<Rightarrow> string list" where
  "split_slash acc [] = [rev acc]"
| "split_slash acc (c # cs) =
     (if c = CHR ''/'' then rev acc # split_slash [] cs else split_slash (c # acc) cs)"

definition path_parts :: "string \<Rightarrow> string list" where
  "path_parts p = filter (\<lambda>x. x \<noteq> [] \<and> x \<noteq> ''.'') (split_slash [] p)"

definition purge_path_ok :: "artifact \<Rightarrow> bool" where
  "purge_path_ok a \<longleftrightarrow>
    (let parts = path_parts (art_path a) in
     \<not> (art_path a \<noteq> [] \<and> hd (art_path a) = CHR ''/'') \<and> length parts = 2
     \<and> hd parts = art_run_id a)"

record purge_candidate =
  pc_id :: string
  pc_run_id :: string
  pc_path :: string
  pc_content_hash :: "string option"

definition candidate_of :: "artifact \<Rightarrow> purge_candidate" where
  "candidate_of a = \<lparr>pc_id = art_id a, pc_run_id = art_run_id a, pc_path = art_path a,
     pc_content_hash = art_content_hash a\<rparr>"

definition batch_artifacts :: "db \<Rightarrow> string list \<Rightarrow> artifact list" where
  "batch_artifacts d batch =
     sort_key art_id (filter (\<lambda>a. art_run_id a \<in> set batch) (d_artifacts d))"

definition artifact_purge_candidates :: "string list \<Rightarrow> purge_candidate list io" where
  "artifact_purge_candidates run_ids =
    bindM (getsM (\<lambda>w. concat (map (batch_artifacts (w_db w)) (run_id_batches run_ids)))) (\<lambda>found.
    thenM (guardM (list_all purge_path_ok found)
             (StorageIntegrityError ''Terminal Run artifact path does not match its Run identity.''))
    (bindM (getsM (\<lambda>w. filter (\<lambda>a. art_id a \<notin> set (map art_id found)
                                   \<and> art_path a \<in> set (map art_path found)) (d_artifacts (w_db w))))
      (\<lambda>retained.
       thenM (guardM (retained = [])
         (StorageIntegrityError ''Terminal Run artifact path is also owned by a retained artifact.''))
       (returnM (map candidate_of found)))))"

text \<open>\<open>_delete_run_records\<close>: ten statements per batch, children first.\<close>

definition delete_batch :: "string list \<Rightarrow> unit io" where
  "delete_batch batch = forM
    [\<lambda>d. put_evals (filter (\<lambda>x. er_run_id x \<notin> set batch) (d_evals d)) d,
     \<lambda>d. put_events (filter (\<lambda>x. ev_run_id x \<notin> set batch) (d_events d)) d,
     \<lambda>d. put_handoffs (filter (\<lambda>x. h_run_id x \<notin> set batch) (d_handoffs d)) d,
     \<lambda>d. put_jobs (filter (\<lambda>x. j_run_id x \<notin> set batch) (d_jobs d)) d,
     \<lambda>d. put_sessions (filter (\<lambda>x. s_run_id x \<notin> set batch) (d_sessions d)) d,
     \<lambda>d. put_queue (filter (\<lambda>x. q_run_id x \<notin> set batch) (d_queue d)) d,
     \<lambda>d. put_locks (filter (\<lambda>x. l_run_id x \<notin> set batch) (d_locks d)) d,
     \<lambda>d. put_artifacts (filter (\<lambda>x. art_run_id x \<notin> set batch) (d_artifacts d)) d,
     \<lambda>d. put_agent_runs (filter (\<lambda>x. ar_run_id x \<notin> set batch) (d_agent_runs d)) d,
     \<lambda>d. put_runs (filter (\<lambda>x. rr_id x \<notin> set batch) (d_runs d)) d]
    write_statement"

definition delete_run_records :: "string list \<Rightarrow> unit io" where
  "delete_run_records run_ids = forM (run_id_batches run_ids) delete_batch"

definition preview_terminal_run_records :: "(string list \<times> purge_candidate list) io" where
  "preview_terminal_run_records = transaction (
    bindM eligible_terminal_run_ids (\<lambda>run_ids.
    bindM (artifact_purge_candidates run_ids) (\<lambda>artifacts.
    returnM (run_ids, artifacts))))"

definition purge_run_ids :: "string list option \<Rightarrow> string list \<Rightarrow> string list io" where
  "purge_run_ids expected eligible = (case expected of
     None \<Rightarrow> returnM eligible
   | Some ids \<Rightarrow>
       thenM (guardM (\<not> ([] \<in> set ids \<or> \<not> distinct ids))
         (StorageError ''Expected terminal Run ids must be unique non-empty strings.''))
       (thenM (guardM (set ids \<subseteq> set eligible)
         (StorageError ''Terminal Run purge candidates changed before deletion.''))
       (returnM ids)))"

definition purge_terminal_run_records ::
  "string list option \<Rightarrow> purge_candidate list option \<Rightarrow> (string list \<times> purge_candidate list) io" where
  "purge_terminal_run_records expected_run_ids expected_artifacts = transaction (
    bindM eligible_terminal_run_ids (\<lambda>eligible.
    bindM (purge_run_ids expected_run_ids eligible) (\<lambda>run_ids.
    bindM (artifact_purge_candidates run_ids) (\<lambda>artifacts.
    thenM (guardM (opt_all (\<lambda>e. artifacts = e) expected_artifacts)
      (StorageError ''Terminal Run artifact candidates changed before deletion.''))
    (thenM (delete_run_records run_ids)
    (returnM (run_ids, artifacts)))))))"

section \<open>Listings\<close>

text \<open>
  The pages of \<open>_list_models\<close>; \<open>DESC\<close> orders are reversed ascending ones, the keys being
  unique. \<open>NULL\<close> sorts before every time, as \<open>None\<close> does before \<open>Some\<close>.
\<close>

definition check_page :: "int option \<Rightarrow> int \<Rightarrow> unit io" where
  "check_page limit offset = (case limit of
     Some n \<Rightarrow> guardM (0 < n \<and> 0 \<le> offset)
       (StorageError ''list limit must be positive and offset must be non-negative'')
   | None \<Rightarrow> guardM (offset = 0) (StorageError ''list offset requires a limit''))"

definition page_of :: "int option \<Rightarrow> int \<Rightarrow> 'a list \<Rightarrow> 'a list" where
  "page_of limit offset xs = (case limit of
     Some n \<Rightarrow> take (nat n) (drop (nat offset) xs) | None \<Rightarrow> xs)"

definition list_tasks :: "int option \<Rightarrow> int \<Rightarrow> task list io" where
  "list_tasks limit offset = thenM (check_page limit offset)
    (bindM (list_models d_tasks (\<lambda>_. True)) (\<lambda>ts.
     returnM (page_of limit offset (if limit = None then sort_key t_created_at ts
       else rev (sort_key (\<lambda>t. (t_created_at t, t_id t)) ts)))))"

definition list_runs :: "int option \<Rightarrow> int \<Rightarrow> run list io" where
  "list_runs limit offset = thenM (check_page limit offset)
    (bindM (list_models d_runs (\<lambda>_. True)) (\<lambda>rows.
     load_rows (page_of limit offset (if limit = None then sort_key rr_id rows else rev rows))))"

definition list_runs_requiring_worker_recovery :: "run list io" where
  "list_runs_requiring_worker_recovery =
    bindM list_run_ids_requiring_worker_recovery (\<lambda>ids.
    bindM (mapM ids get_run) (\<lambda>runs. returnM (List.map_filter (\<lambda>r. r) runs)))"

definition list_agent_definitions :: "string option \<Rightarrow> agent_definition list io" where
  "list_agent_definitions pack_name =
     bindM (list_models d_agents (\<lambda>a. opt_all (\<lambda>n. a_pack_name a = n) pack_name)) (\<lambda>xs.
     returnM (sort_key a_id xs))"

definition list_runtime_jobs_for_session :: "string \<Rightarrow> runtime_job list io" where
  "list_runtime_jobs_for_session session_id =
     list_models d_jobs (\<lambda>j. j_agent_session_id j = Some session_id)"

definition get_handoff :: "string \<Rightarrow> handoff option io" where
  "get_handoff = get_model d_handoffs h_id"

definition get_eval_result :: "string \<Rightarrow> eval_result option io" where
  "get_eval_result = get_model d_evals er_id"

definition handoff_key ::
  "db \<Rightarrow> handoff \<Rightarrow> (timestamp option \<times> timestamp option \<times> string \<times> string) option" where
  "handoff_key d h = map_option (\<lambda>ar. (ar_started_at ar, ar_finished_at ar, ar_id ar, h_id h))
     (List.find (\<lambda>ar. ar_id ar = h_from_agent_run_id h) (d_agent_runs d))"

definition list_handoffs_for_run :: "string \<Rightarrow> handoff list io" where
  "list_handoffs_for_run run_id = getsM (\<lambda>w.
     sort_key (handoff_key (w_db w))
       (filter (\<lambda>h. h_run_id h = run_id \<and> handoff_key (w_db w) h \<noteq> None) (d_handoffs (w_db w))))"

end
