(* ===== verification/Store_Facts.thy ===== *)
theory Store_Facts imports Store begin

text \<open>
  What the storage guarantees: atomic transactions, the laws of a table (locale
  \<open>store_table\<close>, interpreted on all twelve tables), and the invariant of every reachable
  database: the schema's constraints and at most one acquired lock per run, whatever
  statements fail.
\<close>

section \<open>Transactions\<close>

lemma sqlite_io_db: "sqlite_io w = (r, w') \<Longrightarrow> w_db w' = w_db w \<and> w_depth w' = w_depth w
    \<and> (\<forall>e. r = Inl e \<longrightarrow> is_storage_error e)"
  by (auto simp: sqlite_io_def split: option.splits)

lemma transaction_rollback:
  "transaction m w = (Inl e, w') \<Longrightarrow> w_depth w = 0 \<Longrightarrow> w_db w' = w_db w"
  by (auto simp: transaction_def Let_def split: prod.splits sum.splits dest!: sqlite_io_db)

lemma transaction_commit:
  assumes "transaction m w = (Inr x, w')"
  obtains w1 w2 where "m w1 = (Inr x, w2)" "w_db w1 = w_db w" "w_depth w1 = Suc (w_depth w)"
    "w_db w' = w_db w2" "w_depth w' = w_depth w2 - 1"
  using assms
  by (auto simp: transaction_def Let_def split: prod.splits sum.splits if_splits dest!: sqlite_io_db)

lemma transaction_nested:
  assumes "transaction m w = (r, w')" "w_depth w \<noteq> 0"
  obtains w2 where "m (w\<lparr>w_depth := Suc (w_depth w)\<rparr>) = (r, w2)" "w_db w' = w_db w2"
    "w_depth w' = w_depth w2 - 1"
  using assms by (auto simp: transaction_def Let_def split: prod.splits sum.splits)

lemma keeps_transaction:
  assumes "keeps (\<lambda>w. P (w_db w)) m"
  shows "keeps (\<lambda>w. P (w_db w)) (transaction m)"
proof (rule keepsI)
  fix w :: world assume P: "P (w_db w)"
  obtain r w' where t: "transaction m w = (r, w')" by fastforce
  have m: "P (w_db (snd (m w1)))" if "w_db w1 = w_db w" for w1
    using assms P that by (simp add: keeps_def)
  show "P (w_db (snd (transaction m w)))"
  proof (cases "w_depth w = 0")
    case True
    show ?thesis
    proof (cases r)
      case (Inl e)
      then show ?thesis using transaction_rollback [of m w e w'] t True P by simp
    next
      case (Inr x)
      then obtain w1 w2 where "m w1 = (Inr x, w2)" "w_db w1 = w_db w" "w_db w' = w_db w2"
        using t transaction_commit by metis
      then show ?thesis using m [of w1] t by simp
    qed
  next
    case False
    then obtain w2 where "m (w\<lparr>w_depth := Suc (w_depth w)\<rparr>) = (r, w2)" "w_db w' = w_db w2"
      using t transaction_nested by metis
    then show ?thesis using m [of "w\<lparr>w_depth := Suc (w_depth w)\<rparr>"] t by simp
  qed
qed

lemma keeps_write_statement:
  assumes "\<And>d. P d \<Longrightarrow> schema_ok (f d) \<Longrightarrow> P (f d)"
  shows "keeps (\<lambda>w. P (w_db w)) (write_statement f)"
proof (rule keepsI)
  fix w :: world assume "P (w_db w)"
  then show "P (w_db (snd (write_statement f w)))"
    using assms
    by (auto simp: write_statement_def thenM_def bindM_def split: prod.splits sum.splits
        dest!: sqlite_io_db)
qed

lemma keeps_utc_now: "keeps (\<lambda>w. P (w_db w)) utc_now"
  by (simp add: keeps_def utc_now_def)

lemma keeps_new_id: "keeps (\<lambda>w. P (w_db w)) new_id"
  by (simp add: keeps_def new_id_def)

text \<open>The effect of one statement in its own transaction.\<close>

lemma write_statement_cases:
  assumes "write_statement f w = (r, w')"
  shows "w_depth w' = w_depth w \<and>
    (r = Inr () \<and> w_db w' = f (w_db w) \<and> schema_ok (w_db w')
     \<or> (\<exists>e. r = Inl e \<and> w_db w' = w_db w \<and> is_storage_error e))"
  using assms
  by (auto simp: write_statement_def thenM_def bindM_def split: prod.splits sum.splits if_splits
      dest!: sqlite_io_db)

lemma transaction_cases:
  assumes "transaction m w = (r, w')"
    and "\<And>w1 r1 w2. m w1 = (r1, w2) \<Longrightarrow> w_db w1 = w_db w \<Longrightarrow> w_depth w2 = w_depth w1 \<and>
      (case r1 of Inr x \<Rightarrow> Q x (w_db w2) | Inl e \<Rightarrow> w_db w2 = w_db w \<and> is_storage_error e)"
  shows "w_depth w' = w_depth w \<and>
    (case r of Inr x \<Rightarrow> Q x (w_db w') | Inl e \<Rightarrow> w_db w' = w_db w \<and> is_storage_error e)"
proof (cases "w_depth w = 0")
  case True
  obtain r0 w0 where s0: "sqlite_io w = (r0, w0)" by fastforce
  show ?thesis
  proof (cases r0)
    case (Inl e)
    then show ?thesis using assms(1) s0 True sqlite_io_db [OF s0] by (auto simp: transaction_def)
  next
    case (Inr u)
    obtain r1 w2 where m: "m (w0\<lparr>w_depth := Suc (w_depth w0)\<rparr>) = (r1, w2)" by fastforce
    have d: "w_db w0 = w_db w" "w_depth w0 = 0" using sqlite_io_db [OF s0] True by auto
    have m2: "w_depth w2 = 1 \<and> (case r1 of Inr x \<Rightarrow> Q x (w_db w2)
        | Inl e \<Rightarrow> w_db w2 = w_db w \<and> is_storage_error e)"
      using assms(2) [OF m] d by simp
    obtain r3 w3 where s3: "sqlite_io w2 = (r3, w3)" by fastforce
    show ?thesis
      using assms(1) s0 Inr True m m2 s3 sqlite_io_db [OF s3]
      by (auto simp: transaction_def split: sum.splits)
  qed
next
  case False
  then obtain w2 where "m (w\<lparr>w_depth := Suc (w_depth w)\<rparr>) = (r, w2)" "w_db w' = w_db w2"
    "w_depth w' = w_depth w2 - 1"
    using transaction_nested [OF assms(1)] by blast
  with assms(2) [OF this(1)] show ?thesis by (auto split: sum.splits)
qed

lemma insert_model_cases:
  assumes "insert_model rows put x w = (r, w')"
  shows "w_depth w' = w_depth w \<and>
    (case r of Inr _ \<Rightarrow> w_db w' = put (rows (w_db w) @ [x]) (w_db w) \<and> schema_ok (w_db w')
     | Inl e \<Rightarrow> w_db w' = w_db w \<and> is_storage_error e)"
proof (rule transaction_cases [where Q = "\<lambda>_ d. d = put (rows (w_db w) @ [x]) (w_db w) \<and> schema_ok d"])
  show "transaction (write_statement (\<lambda>d. put (rows d @ [x]) d)) w = (r, w')"
    using assms by (simp add: insert_model_def)
next
  fix w1 r1 w2
  assume "write_statement (\<lambda>d. put (rows d @ [x]) d) w1 = (r1, w2)" "w_db w1 = w_db w"
  from write_statement_cases [OF this(1)] this(2)
  show "w_depth w2 = w_depth w1 \<and> (case r1 of
      Inl e \<Rightarrow> w_db w2 = w_db w \<and> is_storage_error e
    | Inr _ \<Rightarrow> w_db w2 = put (rows (w_db w) @ [x]) (w_db w) \<and> schema_ok (w_db w2))"
    by auto
qed

section \<open>Tables\<close>

lemma replace_row_ids [simp]: "map rid (replace_row rid r xs) = map rid xs"
  by (auto simp: replace_row_def)

lemma replace_row_absent: "rid r \<notin> set (map rid xs) \<Longrightarrow> replace_row rid r xs = xs"
  unfolding replace_row_def by (rule map_idI) (auto simp: image_iff)

lemma replace_row_set:
  "set (replace_row rid r xs) =
     {x \<in> set xs. rid x \<noteq> rid r} \<union> (if rid r \<in> rid ` set xs then {r} else {})"
  by (auto simp: replace_row_def image_iff)

lemma find_replace_row:
  "List.find (\<lambda>y. rid y = i) (replace_row rid x xs) =
    (if i = rid x \<and> rid x \<in> set (map rid xs) then Some x else List.find (\<lambda>y. rid y = i) xs)"
  unfolding replace_row_def by (induction xs) auto

lemma find_unique:
  "distinct (map rid xs) \<Longrightarrow> x \<in> set xs \<Longrightarrow> List.find (\<lambda>y. rid y = rid x) xs = Some x"
  by (induction xs) auto

locale store_table =
  fixes rows :: "db \<Rightarrow> 'a list"
    and put :: "'a list \<Rightarrow> db \<Rightarrow> db"
    and rid :: "'a \<Rightarrow> string"
  assumes rows_put: "rows (put xs d) = xs"
    and put_rows: "put (rows d) d = d"
    and keys: "schema_ok d \<Longrightarrow> distinct (map rid (rows d))"
begin

lemma update_cases:
  assumes "update_model table rows put rid x w = (r, w')"
  shows "w_depth w' = w_depth w \<and>
    (case r of Inr _ \<Rightarrow> w_db w' = put (replace_row rid x (rows (w_db w))) (w_db w)
        \<and> schema_ok (w_db w') \<and> rid x \<in> set (map rid (rows (w_db w)))
     | Inl e \<Rightarrow> w_db w' = w_db w \<and> is_storage_error e)"
proof (rule transaction_cases [where Q = "\<lambda>_ d.
    d = put (replace_row rid x (rows (w_db w))) (w_db w) \<and> schema_ok d
    \<and> rid x \<in> set (map rid (rows (w_db w)))"])
  show "transaction (thenM (write_statement (\<lambda>d. put (replace_row rid x (rows d)) d))
       (bindM (getsM (\<lambda>w. rid x \<in> set (map rid (rows (w_db w))))) (\<lambda>found.
        guardM found (StorageIntegrityError (table @ '' row not found: '' @ rid x))))) w = (r, w')"
    using assms by (simp add: update_model_def)
next
  fix w1 r1 w2
  assume m: "thenM (write_statement (\<lambda>d. put (replace_row rid x (rows d)) d))
       (bindM (getsM (\<lambda>w. rid x \<in> set (map rid (rows (w_db w))))) (\<lambda>found.
        guardM found (StorageIntegrityError (table @ '' row not found: '' @ rid x)))) w1 = (r1, w2)"
    and d: "w_db w1 = w_db w"
  obtain r0 w0 where s: "write_statement (\<lambda>d. put (replace_row rid x (rows d)) d) w1 = (r0, w0)"
    by fastforce
  from write_statement_cases [OF s] d
  show "w_depth w2 = w_depth w1 \<and> (case r1 of
      Inl e \<Rightarrow> w_db w2 = w_db w \<and> is_storage_error e
    | Inr _ \<Rightarrow> w_db w2 = put (replace_row rid x (rows (w_db w))) (w_db w) \<and> schema_ok (w_db w2)
        \<and> rid x \<in> set (map rid (rows (w_db w))))"
    using m s
    by (auto simp: thenM_def bindM_def getsM_def guardM_def returnM_def raiseM_def rows_put
        replace_row_absent put_rows simp del: set_map split: if_splits)
qed

lemma update_returns:
  assumes "update_model table rows put rid x w = (Inr u, w')"
  shows "w_db w' = put (replace_row rid x (rows (w_db w))) (w_db w)"
    and "schema_ok (w_db w')"
    and "rid x \<in> set (map rid (rows (w_db w)))"
    and "w_depth w' = w_depth w"
  using update_cases [OF assms] unfolding sum.case by blast+

lemma insert_returns:
  assumes "insert_model rows put x w = (Inr u, w')"
  shows "w_db w' = put (rows (w_db w) @ [x]) (w_db w)" and "schema_ok (w_db w')"
    and "w_depth w' = w_depth w"
  using insert_model_cases [OF assms] unfolding sum.case by blast+

lemma get_after_insert:
  assumes "insert_model rows put x w = (Inr u, w')"
  shows "get_model rows rid (rid x) w' = (Inr (Some x), w')"
proof -
  have d: "w_db w' = put (rows (w_db w) @ [x]) (w_db w)" "schema_ok (w_db w')"
    using insert_model_cases [OF assms] by auto
  have "x \<in> set (rows (w_db w'))" unfolding d(1) rows_put by simp
  from find_unique [OF keys [OF d(2)] this] show ?thesis
    by (simp only: get_model_def getsM_def)
qed

lemma get_after_update:
  assumes "update_model table rows put rid x w = (Inr u, w')"
  shows "get_model rows rid i w' =
    (Inr (if i = rid x then Some x else List.find (\<lambda>y. rid y = i) (rows (w_db w))), w')"
proof -
  have d: "rows (w_db w') = replace_row rid x (rows (w_db w))" "rid x \<in> set (map rid (rows (w_db w)))"
    using update_cases [OF assms] by (auto simp: rows_put)
  show ?thesis
    unfolding get_model_def getsM_def d(1) find_replace_row using d(2) by simp
qed

end

lemmas schema_defs = schema_ok_def primary_keys_ok_def

interpretation task_table: store_table d_tasks put_tasks t_id
  by unfold_locales (simp_all add: put_tasks_def schema_defs)
interpretation run_table: store_table d_runs put_runs rr_id
  by unfold_locales (simp_all add: put_runs_def schema_defs)
interpretation agent_table: store_table d_agents put_agents a_id
  by unfold_locales (simp_all add: put_agents_def schema_defs)
interpretation agent_run_table: store_table d_agent_runs put_agent_runs ar_id
  by unfold_locales (simp_all add: put_agent_runs_def schema_defs)
interpretation session_table: store_table d_sessions put_sessions s_id
  by unfold_locales (simp_all add: put_sessions_def schema_defs)
interpretation job_table: store_table d_jobs put_jobs j_id
  by unfold_locales (simp_all add: put_jobs_def schema_defs)
interpretation queue_table: store_table d_queue put_queue q_id
  by unfold_locales (simp_all add: put_queue_def schema_defs)
interpretation lock_table: store_table d_locks put_locks l_id
  by unfold_locales (simp_all add: put_locks_def schema_defs)
interpretation handoff_table: store_table d_handoffs put_handoffs h_id
  by unfold_locales (simp_all add: put_handoffs_def schema_defs)
interpretation artifact_table: store_table d_artifacts put_artifacts art_id
  by unfold_locales (simp_all add: put_artifacts_def schema_defs)
interpretation event_table: store_table d_events put_events ev_id
  by unfold_locales (simp_all add: put_events_def schema_defs)
interpretation eval_table: store_table d_evals put_evals er_id
  by unfold_locales (simp_all add: put_evals_def schema_defs)


section \<open>The invariant of the database\<close>

definition one_active_lock :: "db \<Rightarrow> bool" where
  "one_active_lock d \<longleftrightarrow> (\<forall>r. length (active_locks r d) \<le> 1)"

definition store_inv :: "db \<Rightarrow> bool" where
  "store_inv d \<longleftrightarrow> schema_ok d \<and> one_active_lock d"

abbreviation inv_w :: "world \<Rightarrow> bool" where
  "inv_w \<equiv> \<lambda>w. store_inv (w_db w)"

lemma active_locks_same: "d_locks d' = d_locks d \<Longrightarrow> active_locks r d' = active_locks r d"
  by (simp add: active_locks_def)

lemma store_inv_same_locks:
  "store_inv d \<Longrightarrow> schema_ok d' \<Longrightarrow> d_locks d' = d_locks d \<Longrightarrow> store_inv d'"
  by (simp add: store_inv_def one_active_lock_def active_locks_def)

lemma all_equal_short:
  assumes "distinct xs" "\<forall>a \<in> set xs. \<forall>b \<in> set xs. a = b"
  shows "length xs \<le> 1"
proof (rule ccontr)
  assume "\<not> length xs \<le> 1"
  then have "1 < length xs" by simp
  then have l: "0 < length xs" "1 < length xs" by linarith+
  then have "xs ! 0 = xs ! 1" using assms(2) nth_mem by blast
  then show False
    using nth_eq_iff_index_eq [OF assms(1) l] by simp
qed

lemma store_inv_fewer_locks:
  assumes "store_inv d" "schema_ok d'" "\<And>r. length (active_locks r d') \<le> length (active_locks r d)"
  shows "store_inv d'"
  using assms le_trans unfolding store_inv_def one_active_lock_def by blast

definition lock_free_put :: "('a list \<Rightarrow> db \<Rightarrow> db) \<Rightarrow> bool" where
  "lock_free_put put \<longleftrightarrow> (\<forall>xs d. d_locks (put xs d) = d_locks d)"

lemma lock_free_puts [keeps_intros]:
  "lock_free_put put_tasks" "lock_free_put put_runs" "lock_free_put put_agents"
  "lock_free_put put_agent_runs" "lock_free_put put_sessions" "lock_free_put put_jobs"
  "lock_free_put put_queue" "lock_free_put put_handoffs" "lock_free_put put_artifacts"
  "lock_free_put put_events" "lock_free_put put_evals"
  by (simp_all add: lock_free_put_def put_defs)

lemma keeps_inv_write [keeps_intros]:
  assumes "\<And>d. d_locks (f d) = d_locks d"
  shows "keeps inv_w (write_statement f)"
proof (rule keeps_write_statement [where P = store_inv])
  fix d assume "store_inv d" "schema_ok (f d)"
  then show "store_inv (f d)" using assms by (rule store_inv_same_locks)
qed

lemma keeps_inv_transaction [keeps_intros]: "keeps inv_w m \<Longrightarrow> keeps inv_w (transaction m)"
  by (rule keeps_transaction [where P = store_inv])

lemma keeps_inv_utc_now [keeps_intros]: "keeps inv_w utc_now"
  by (rule keeps_utc_now [where P = store_inv])

lemma keeps_inv_new_id [keeps_intros]: "keeps inv_w new_id"
  by (rule keeps_new_id [where P = store_inv])

lemma keeps_inv_insert [keeps_intros]:
  "lock_free_put put \<Longrightarrow> keeps inv_w (insert_model rows put r)"
  unfolding insert_model_def lock_free_put_def
  by (intro keeps_inv_transaction keeps_inv_write) blast

lemma keeps_inv_update [keeps_intros]:
  "lock_free_put put \<Longrightarrow> keeps inv_w (update_model table rows put rid r)"
  unfolding update_model_def lock_free_put_def
  by (intro keeps_inv_transaction keeps_inv_write keeps_thenM keeps_bindM keeps_getsM keeps_guardM)
    blast

lemma keeps_inv_get [keeps_intros]: "keeps inv_w (get_model rows rid i)"
  by (simp add: get_model_def keeps_getsM)

lemma keeps_inv_list [keeps_intros]: "keeps inv_w (list_models rows p)"
  by (simp add: list_models_def keeps_getsM)

lemma keeps_inv_ensure_run [keeps_intros]: "keeps inv_w (ensure_run_exists i)"
  by (auto simp: ensure_run_exists_def intro!: keeps_intros)

lemma keeps_inv_belongs [keeps_intros]:
  "keeps inv_w (ensure_belongs_to_run kind rows rid run_of i j)"
  unfolding ensure_belongs_to_run_def by (intro keeps_intros)

lemma keeps_inv_agent_run_belongs [keeps_intros]: "keeps inv_w (ensure_agent_run_belongs_to_run i j)"
  unfolding ensure_agent_run_belongs_to_run_def by (intro keeps_intros)

lemma keeps_inv_artifact_belongs [keeps_intros]: "keeps inv_w (ensure_artifact_belongs_to_run i j)"
  unfolding ensure_artifact_belongs_to_run_def by (intro keeps_intros)


lemma keeps_inv_job_session [keeps_intros]: "keeps inv_w (ensure_runtime_job_session_matches i j)"
  unfolding ensure_runtime_job_session_matches_def by (intro keeps_intros)

lemma keeps_inv_job_owned [keeps_intros]: "keeps inv_w (ensure_runtime_job_owned j)"
  unfolding ensure_runtime_job_owned_def by (intro keeps_intros)

lemma keeps_inv_final_artifact [keeps_intros]: "keeps inv_w (ensure_final_artifact r)"
  unfolding ensure_final_artifact_def by (intro keeps_intros)

lemma keeps_inv_dump [keeps_intros]: "keeps inv_w (dump_run r)"
  unfolding dump_run_def Let_def by (intro keeps_intros)

lemma keeps_inv_load [keeps_intros]: "keeps inv_w (load_persisted_run i c)"
  by (cases c) (auto intro: keeps_intros)

lemma keeps_inv_role_free [keeps_intros]: "keeps inv_w (ensure_role_free a)"
  unfolding ensure_role_free_def get_agent_definition_by_pack_role_def by (intro keeps_intros)

lemma keeps_inv_active_lock [keeps_intros]: "keeps inv_w (get_active_run_lock r)"
  unfolding get_active_run_lock_def by (intro keeps_intros)

lemma keeps_inv_tasks_runs [keeps_intros]:
  "keeps inv_w (create_task t)" "keeps inv_w (get_task i)"
  "keeps inv_w (create_run r)" "keeps inv_w (update_run r)" "keeps inv_w (get_run i)"
  "keeps inv_w (list_runs_by_statuses sts)" "keeps inv_w list_run_ids"
  unfolding create_task_def get_task_def create_run_def update_run_def get_run_def
    list_runs_by_statuses_def list_run_ids_def load_rows_def
  by (intro keeps_intros)+

lemma keeps_inv_terminalize_pair [keeps_intros]:
  "keeps inv_w (terminalize_incomplete_execution_plan_pair h i)"
  unfolding terminalize_incomplete_execution_plan_pair_def
  by (intro keeps_intros, split run_cell.split, intro conjI allI impI keeps_intros)

lemma keeps_inv_quarantine [keeps_intros]: "keeps inv_w (quarantine_invalid_run_record i)"
  unfolding quarantine_invalid_run_record_def
  by (intro keeps_intros) (simp add: put_runs_def)

lemma keeps_inv_agents [keeps_intros]:
  "keeps inv_w (create_agent_definition a)" "keeps inv_w (upsert_agent_definition a)"
  "keeps inv_w (create_agent_run x)" "keeps inv_w (get_agent_run i)"
  "keeps inv_w (update_agent_run x)" "keeps inv_w (list_agent_runs_for_run r)"
  unfolding create_agent_definition_def upsert_agent_definition_def get_agent_definition_def
    create_agent_run_def get_agent_run_def update_agent_run_def list_agent_runs_for_run_def
  by (intro keeps_intros)+

lemma keeps_inv_sessions_jobs [keeps_intros]:
  "keeps inv_w (get_agent_session i)" "keeps inv_w (create_agent_session s)"
  "keeps inv_w (update_agent_session s)" "keeps inv_w (list_agent_sessions_for_run r)"
  "keeps inv_w (get_runtime_job i)" "keeps inv_w (create_runtime_job j)"
  "keeps inv_w (update_runtime_job j)" "keeps inv_w (list_runtime_jobs_for_run r)"
  unfolding get_agent_session_def create_agent_session_def update_agent_session_def
    list_agent_sessions_for_run_def get_runtime_job_def create_runtime_job_def
    update_runtime_job_def list_runtime_jobs_for_run_def
  by (intro keeps_intros)+

lemma keeps_inv_queue [keeps_intros]:
  "keeps inv_w (create_run_queue_item q)" "keeps inv_w (get_run_queue_item i)"
  "keeps inv_w (update_run_queue_item q)" "keeps inv_w (list_run_queue_items_for_run r)"
  "keeps inv_w (get_run_lock i)" "keeps inv_w (list_run_locks_for_run r)"
  unfolding create_run_queue_item_def get_run_queue_item_def update_run_queue_item_def
    list_run_queue_items_for_run_def get_run_lock_def list_run_locks_for_run_def
  by (intro keeps_intros)+

lemma keeps_inv_records [keeps_intros]:
  "keeps inv_w (create_handoff h)" "keeps inv_w (create_artifact a)" "keeps inv_w (get_artifact i)"
  "keeps inv_w (list_artifacts_for_run r)" "keeps inv_w (append_trace_event e)"
  "keeps inv_w (list_trace_events_for_run r)" "keeps inv_w (create_eval_result v)"
  "keeps inv_w (list_eval_results_for_run r)" "keeps inv_w (record_trace r t p ar dur)"
  unfolding create_handoff_def create_artifact_def get_artifact_def list_artifacts_for_run_def
    append_trace_event_def list_trace_events_for_run_def create_eval_result_def
    list_eval_results_for_run_def record_trace_def
  by (intro keeps_intros)+

lemma keeps_inv_delete_artifact [keeps_intros]: "keeps inv_w (delete_artifact i)"
  unfolding delete_artifact_def by (intro keeps_intros) (simp add: put_artifacts_def)

subsection \<open>Locks\<close>

lemma get_active_none:
  "get_active_run_lock r w = (Inr a, w') \<Longrightarrow> w' = w \<and> (a = None \<longleftrightarrow> active_locks r (w_db w) = [])
    \<and> (\<forall>l. a = Some l \<longrightarrow> l \<in> set (active_locks r (w_db w)))"
  by (auto simp: get_active_run_lock_def getsM_def Let_def split: if_splits)
    (metis last_in_set set_sort sort_Nil_iff)

lemma active_locks_insert:
  "active_locks r (put_locks (d_locks d @ [l]) d) =
    active_locks r d @ (if l_run_id l = r \<and> l_status l = Lock_ACQUIRED then [l] else [])"
  by (simp add: active_locks_def put_locks_def)

lemma keeps_inv_create_lock [keeps_intros]: "keeps inv_w (create_run_lock l)"
proof (rule keepsI)
  fix w :: world assume inv: "inv_w w"
  obtain r w' where c: "create_run_lock l w = (r, w')" by fastforce
  have "w_db w' = w_db w \<or> (w_db w' = put_locks (d_locks (w_db w) @ [l]) (w_db w)
      \<and> schema_ok (w_db w') \<and> (l_status l = Lock_ACQUIRED \<longrightarrow> active_locks (l_run_id l) (w_db w) = []))"
    using c
    by (auto simp: create_run_lock_def thenM_def bindM_def ensure_run_exists_def getsM_def guardM_def
        returnM_def raiseM_def get_active_run_lock_def Let_def split: prod.splits sum.splits if_splits
        dest!: insert_model_cases)
  then have "store_inv (w_db w')"
  proof
    assume *: "w_db w' = put_locks (d_locks (w_db w) @ [l]) (w_db w) \<and> schema_ok (w_db w')
      \<and> (l_status l = Lock_ACQUIRED \<longrightarrow> active_locks (l_run_id l) (w_db w) = [])"
    then have "length (active_locks r (w_db w')) \<le> 1" for r
      using inv by (auto simp: active_locks_insert store_inv_def one_active_lock_def)
    then show ?thesis using * unfolding store_inv_def one_active_lock_def by blast
  qed (use inv in simp)
  then show "inv_w (snd (create_run_lock l w))" by (simp add: c)
qed


lemma keeps_inv_update_lock [keeps_intros]: "keeps inv_w (update_run_lock l)"
proof (rule keepsI)
  fix w :: world assume inv: "inv_w w"
  obtain r w' where c: "update_run_lock l w = (r, w')" by fastforce
  let ?ls = "replace_row l_id l (d_locks (w_db w))"
  have "w_db w' = w_db w \<or> (w_db w' = put_locks ?ls (w_db w) \<and> schema_ok (w_db w')
      \<and> (l_status l = Lock_ACQUIRED \<longrightarrow>
           (\<forall>a \<in> set (active_locks (l_run_id l) (w_db w)). l_id a = l_id l)))"
  proof (cases "l_status l = Lock_ACQUIRED")
    case True
    obtain a where a: "get_active_run_lock (l_run_id l) w = (Inr a, w)"
      by (auto simp: get_active_run_lock_def getsM_def)
    have one: "length (active_locks (l_run_id l) (w_db w)) \<le> 1"
      using inv by (simp add: store_inv_def one_active_lock_def)
    have "\<forall>b \<in> set (active_locks (l_run_id l) (w_db w)). a = Some b"
      using get_active_none [OF a] one
      by (cases "active_locks (l_run_id l) (w_db w)") auto
    then show ?thesis
      using c True a
      by (auto simp: update_run_lock_def thenM_def bindM_def ensure_run_exists_def getsM_def guardM_def
          returnM_def raiseM_def whenM_def opt_all_def split: prod.splits sum.splits if_splits option.splits
          dest!: lock_table.update_cases)
  next
    case False
    then show ?thesis
      using c
      by (auto simp: update_run_lock_def thenM_def bindM_def ensure_run_exists_def getsM_def guardM_def
          returnM_def raiseM_def whenM_def split: prod.splits sum.splits if_splits
          dest!: lock_table.update_cases)
  qed
  then have "store_inv (w_db w')"
  proof
    assume *: "w_db w' = put_locks ?ls (w_db w) \<and> schema_ok (w_db w')
      \<and> (l_status l = Lock_ACQUIRED \<longrightarrow>
           (\<forall>a \<in> set (active_locks (l_run_id l) (w_db w)). l_id a = l_id l))"
    have "length (active_locks q (w_db w')) \<le> 1" for q
    proof -
      have locks: "d_locks (w_db w') = ?ls" using * by (simp add: put_locks_def)
      have dist: "distinct (map l_id (d_locks (w_db w')))"
        using * by (intro lock_table.keys) blast
      have "distinct (active_locks q (w_db w'))"
        using dist by (auto simp: active_locks_def distinct_map)
      moreover have "a = b"
        if ab: "a \<in> set (active_locks q (w_db w'))" "b \<in> set (active_locks q (w_db w'))" for a b
      proof -
        have old: "x = l \<or> x \<in> set (active_locks q (w_db w))"
          if "x \<in> set (active_locks q (w_db w'))" for x
          using that by (auto simp: active_locks_def locks replace_row_set split: if_splits)
        have gone: "x \<noteq> l \<Longrightarrow> l_id x \<noteq> l_id l"
          if "x \<in> set (active_locks q (w_db w'))" for x
          using that by (auto simp: active_locks_def locks replace_row_set split: if_splits)
        have lq: "l \<in> set (active_locks q (w_db w')) \<Longrightarrow>
            \<forall>x \<in> set (active_locks q (w_db w)). l_id x = l_id l"
          using * by (auto simp: active_locks_def)
        have one: "length (active_locks q (w_db w)) \<le> 1"
          using inv by (simp add: store_inv_def one_active_lock_def)
        have "x = y" if "x \<in> set (active_locks q (w_db w))" "y \<in> set (active_locks q (w_db w))" for x y
          using that one by (cases "active_locks q (w_db w)") auto
        then show ?thesis using old gone lq ab by metis
      qed
      ultimately show ?thesis by (intro all_equal_short) blast+
    qed
    then show ?thesis using * unfolding store_inv_def one_active_lock_def by blast
  qed (use inv in simp)
  then show "inv_w (snd (update_run_lock l w))" by (simp add: c)
qed

subsection \<open>Purge\<close>

lemma keeps_inv_delete_locks [keeps_intros]:
  "keeps inv_w (write_statement (\<lambda>d. put_locks (filter p (d_locks d)) d))"
proof (rule keeps_write_statement [where P = store_inv])
  fix d :: db assume "store_inv d" "schema_ok (put_locks (filter p (d_locks d)) d)"
  then show "store_inv (put_locks (filter p (d_locks d)) d)"
  proof (rule store_inv_fewer_locks)
    fix r
    have "active_locks r (put_locks (filter p (d_locks d)) d) = filter p (active_locks r d)"
      by (simp add: active_locks_def put_locks_def conj_commute)
    then show "length (active_locks r (put_locks (filter p (d_locks d)) d))
        \<le> length (active_locks r d)"
      by simp
  qed
qed

lemma keeps_inv_delete_batch [keeps_intros]: "keeps inv_w (delete_batch b)"
  unfolding delete_batch_def forM.simps
  by (intro keeps_intros) (simp_all add: put_defs)

lemma keeps_inv_purge [keeps_intros]:
  "keeps inv_w (purge_terminal_run_records ids arts)" "keeps inv_w preview_terminal_run_records"
  unfolding purge_terminal_run_records_def preview_terminal_run_records_def purge_run_ids_def
    eligible_terminal_run_ids_def artifact_purge_candidates_def delete_run_records_def
  by (intro keeps_intros)+


lemma concat_chunks: "n \<noteq> 0 \<Longrightarrow> concat (chunks n xs) = xs"
proof (induction n xs rule: chunks.induct)
  case (1 n xs)
  then show ?case by (subst chunks.simps) auto
qed

lemma forM_writes:
  "forM fs write_statement w = (Inr u, w') \<Longrightarrow> w_db w' = fold (\<lambda>f d. f d) fs (w_db w)"
proof (induction fs arbitrary: w)
  case (Cons f fs)
  then obtain w1 where w1: "write_statement f w = (Inr (), w1)"
    "forM fs write_statement w1 = (Inr u, w')"
    by (auto simp: thenM_returns)
  then show ?case using write_statement_cases [OF w1(1)] Cons.IH [OF w1(2)] by simp
qed (simp add: returnM_def)

text \<open>The database without the records of a set of runs.\<close>

definition without_runs :: "string set \<Rightarrow> db \<Rightarrow> db" where
  "without_runs R d = d\<lparr>d_runs := filter (\<lambda>x. rr_id x \<notin> R) (d_runs d),
     d_agent_runs := filter (\<lambda>x. ar_run_id x \<notin> R) (d_agent_runs d),
     d_sessions := filter (\<lambda>x. s_run_id x \<notin> R) (d_sessions d),
     d_jobs := filter (\<lambda>x. j_run_id x \<notin> R) (d_jobs d),
     d_queue := filter (\<lambda>x. q_run_id x \<notin> R) (d_queue d),
     d_locks := filter (\<lambda>x. l_run_id x \<notin> R) (d_locks d),
     d_handoffs := filter (\<lambda>x. h_run_id x \<notin> R) (d_handoffs d),
     d_artifacts := filter (\<lambda>x. art_run_id x \<notin> R) (d_artifacts d),
     d_events := filter (\<lambda>x. ev_run_id x \<notin> R) (d_events d),
     d_evals := filter (\<lambda>x. er_run_id x \<notin> R) (d_evals d)\<rparr>"

lemma without_runs_Un: "without_runs B (without_runs A d) = without_runs (A \<union> B) d"
  by (simp add: without_runs_def conj_commute)

lemma without_runs_empty: "without_runs {} d = d"
  by (simp add: without_runs_def)

lemma delete_batch_effect:
  assumes "delete_batch b w = (Inr u, w')"
  shows "w_db w' = without_runs (set b) (w_db w)"
  using forM_writes [OF assms [unfolded delete_batch_def]]
  by (simp add: put_defs without_runs_def)

lemma delete_batches_effect:
  "forM bs delete_batch w = (Inr u, w') \<Longrightarrow> w_db w' = without_runs (set (concat bs)) (w_db w)"
proof (induction bs arbitrary: w)
  case (Cons b bs)
  then obtain w1 where w1: "delete_batch b w = (Inr (), w1)" "forM bs delete_batch w1 = (Inr u, w')"
    by (auto simp: thenM_returns)
  then show ?case using delete_batch_effect [OF w1(1)] Cons.IH [OF w1(2)]
    by (simp add: without_runs_Un)
qed (simp add: returnM_def without_runs_empty)

lemma delete_run_records_effect:
  "delete_run_records ids w = (Inr u, w') \<Longrightarrow> w_db w' = without_runs (set ids) (w_db w)"
  unfolding delete_run_records_def run_id_batches_def
  by (drule delete_batches_effect) (simp add: concat_chunks)

text \<open>
  What the purge may take, said of the statuses that are left: the run has ended, each of its queue
  items, jobs and sessions has ended, and its locks are released.
\<close>

definition settled_run :: "db \<Rightarrow> string \<Rightarrow> bool" where
  "settled_run d R \<longleftrightarrow>
     (\<exists>x \<in> set (d_runs d). rr_id x = R \<and> rr_status x \<notin> {Run_QUEUED, Run_RUNNING, Run_WAITING})
   \<and> (\<forall>q \<in> set (d_queue d). q_run_id q = R \<longrightarrow> q_status q \<in> {Queue_COMPLETED, Queue_FAILED, Queue_CANCELLED})
   \<and> (\<forall>l \<in> set (d_locks d). l_run_id l = R \<longrightarrow> l_status l = Lock_RELEASED)
   \<and> (\<forall>j \<in> set (d_jobs d). j_run_id j = R \<longrightarrow>
        j_status j \<in> {Job_COMPLETED, Job_FAILED, Job_REJECTED, Job_CANCELLED})
   \<and> (\<forall>s \<in> set (d_sessions d). s_run_id s = R \<longrightarrow>
        s_status s \<in> {Session_COMPLETED, Session_FAILED, Session_REJECTED, Session_CANCELLED})"

lemma ended_statuses:
  "st \<notin> {Run_QUEUED, Run_RUNNING, Run_WAITING} \<longleftrightarrow> st \<in> {Run_COMPLETED, Run_FAILED, Run_CANCELLED}"
  "q \<in> {Queue_COMPLETED, Queue_FAILED, Queue_CANCELLED} \<longleftrightarrow> q \<notin> {Queue_QUEUED, Queue_RUNNING, Queue_WAITING}"
  "k = Lock_RELEASED \<longleftrightarrow> k \<noteq> Lock_ACQUIRED"
  "j \<in> {Job_COMPLETED, Job_FAILED, Job_REJECTED, Job_CANCELLED}
     \<longleftrightarrow> j \<notin> {Job_RECORDED, Job_APPROVAL_REQUIRED, Job_APPROVED}"
  "s \<in> {Session_COMPLETED, Session_FAILED, Session_REJECTED, Session_CANCELLED}
     \<longleftrightarrow> s \<notin> {Session_ACTIVE, Session_WAITING_APPROVAL}"
proof -
  show "st \<notin> {Run_QUEUED, Run_RUNNING, Run_WAITING} \<longleftrightarrow> st \<in> {Run_COMPLETED, Run_FAILED, Run_CANCELLED}"
    by (cases st) simp_all
  show "q \<in> {Queue_COMPLETED, Queue_FAILED, Queue_CANCELLED} \<longleftrightarrow> q \<notin> {Queue_QUEUED, Queue_RUNNING, Queue_WAITING}"
    by (cases q) simp_all
  show "k = Lock_RELEASED \<longleftrightarrow> k \<noteq> Lock_ACQUIRED" by (cases k) simp_all
  show "j \<in> {Job_COMPLETED, Job_FAILED, Job_REJECTED, Job_CANCELLED}
     \<longleftrightarrow> j \<notin> {Job_RECORDED, Job_APPROVAL_REQUIRED, Job_APPROVED}" by (cases j) simp_all
  show "s \<in> {Session_COMPLETED, Session_FAILED, Session_REJECTED, Session_CANCELLED}
     \<longleftrightarrow> s \<notin> {Session_ACTIVE, Session_WAITING_APPROVAL}" by (cases s) simp_all
qed

lemma eligible_runs_settled:
  "rr_id ` set (filter (eligible_terminal_run d) (d_runs d)) = {R. settled_run d R}"
  unfolding settled_run_def eligible_terminal_run_def ended_statuses by auto

lemma purge_effect:
  assumes "purge_terminal_run_records expected arts w = (Inr (ids, found), w')"
  shows "w_db w' = without_runs (set ids) (w_db w)
    \<and> (\<forall>R \<in> set ids. settled_run (w_db w) R)
    \<and> (case expected of None \<Rightarrow> set ids = {R. settled_run (w_db w) R} | Some xs \<Rightarrow> ids = xs)"
proof -
  obtain w1 w2 where t: "(bindM eligible_terminal_run_ids (\<lambda>eligible.
      bindM (purge_run_ids expected eligible) (\<lambda>run_ids.
      bindM (artifact_purge_candidates run_ids) (\<lambda>artifacts.
      thenM (guardM (opt_all (\<lambda>e. artifacts = e) arts)
        (StorageError ''Terminal Run artifact candidates changed before deletion.''))
      (thenM (delete_run_records run_ids) (returnM (run_ids, artifacts))))))) w1 = (Inr (ids, found), w2)"
    "w_db w1 = w_db w" "w_depth w1 = Suc (w_depth w)" "w_db w' = w_db w2"
    "w_depth w' = w_depth w2 - 1"
    by (rule transaction_commit [OF assms [unfolded purge_terminal_run_records_def]])
  have ids: "purge_run_ids ex el w0 = (Inr xs, w0') \<Longrightarrow> w0' = w0 \<and> set xs \<subseteq> set el
      \<and> (case ex of None \<Rightarrow> xs = el | Some ys \<Rightarrow> xs = ys)"
    for ex el w0 xs w0'
    by (auto simp: purge_run_ids_def returns_iff split: option.splits)
  have arts: "artifact_purge_candidates xs w0 = (Inr as, w0') \<Longrightarrow> w0' = w0" for xs w0 as w0'
    by (auto simp: artifact_purge_candidates_def returns_iff)
  let ?eligible = "sort (map rr_id (filter (eligible_terminal_run (w_db w)) (d_runs (w_db w))))"
  from t(1) obtain w3 where del: "delete_run_records ids w1 = (Inr (), w3)" "w2 = w3"
    and e: "set ids \<subseteq> set ?eligible" "case expected of None \<Rightarrow> ids = ?eligible | Some xs \<Rightarrow> ids = xs"
    using t(2) by (auto simp: returns_iff eligible_terminal_run_ids_def dest!: ids arts)
  have "w_db w' = without_runs (set ids) (w_db w)"
    using delete_run_records_effect [OF del(1)] t(2,4) del(2) by simp
  moreover have "set ?eligible = {R. settled_run (w_db w) R}"
    using eligible_runs_settled [of "w_db w"] by simp
  ultimately show ?thesis using e by (cases expected) auto
qed

section \<open>Reachable databases\<close>

text \<open>
  Any sequence of storage operations, each of which may return or raise, from the empty
  database; the parameters of the world (clock, ids, failing statements) are arbitrary.
\<close>

inductive store_step :: "world \<Rightarrow> world \<Rightarrow> bool" where
  step_create_task: "store_step w (snd (create_task t w))"
| step_create_run: "store_step w (snd (create_run r w))"
| step_update_run: "store_step w (snd (update_run r w))"
| step_terminalize_pair: "store_step w (snd (terminalize_incomplete_execution_plan_pair h i w))"
| step_quarantine: "store_step w (snd (quarantine_invalid_run_record i w))"
| step_create_agent: "store_step w (snd (create_agent_definition a w))"
| step_upsert_agent: "store_step w (snd (upsert_agent_definition a w))"
| step_create_agent_run: "store_step w (snd (create_agent_run x w))"
| step_update_agent_run: "store_step w (snd (update_agent_run x w))"
| step_create_session: "store_step w (snd (create_agent_session s w))"
| step_update_session: "store_step w (snd (update_agent_session s w))"
| step_create_job: "store_step w (snd (create_runtime_job j w))"
| step_update_job: "store_step w (snd (update_runtime_job j w))"
| step_create_queue_item: "store_step w (snd (create_run_queue_item q w))"
| step_update_queue_item: "store_step w (snd (update_run_queue_item q w))"
| step_create_lock: "store_step w (snd (create_run_lock l w))"
| step_update_lock: "store_step w (snd (update_run_lock l w))"
| step_create_handoff: "store_step w (snd (create_handoff ho w))"
| step_create_artifact: "store_step w (snd (create_artifact art w))"
| step_delete_artifact: "store_step w (snd (delete_artifact i w))"
| step_append_event: "store_step w (snd (append_trace_event e w))"
| step_create_eval: "store_step w (snd (create_eval_result v w))"
| step_purge: "store_step w (snd (purge_terminal_run_records ids arts w))"

inductive store_reachable :: "world \<Rightarrow> bool" where
  initial: "w_db w = empty_db \<Longrightarrow> store_reachable w"
| step: "store_reachable w \<Longrightarrow> store_step w w' \<Longrightarrow> store_reachable w'"

lemma keeps_snd: "keeps inv_w m \<Longrightarrow> inv_w w \<Longrightarrow> inv_w (snd (m w))"
  by (simp add: keeps_def)

lemma store_step_inv: "store_step w w' \<Longrightarrow> inv_w w \<Longrightarrow> inv_w w'"
  by (induction rule: store_step.induct) (rule keeps_snd, rule keeps_intros, assumption)+

lemma empty_db_inv: "store_inv empty_db"
  by (simp add: store_inv_def schema_ok_def primary_keys_ok_def foreign_keys_ok_def
      unique_roles_ok_def references_def empty_db_def one_active_lock_def active_locks_def Let_def
      List.map_filter_def)

lemma store_reachable_inv: "store_reachable w \<Longrightarrow> store_inv (w_db w)"
  by (induction rule: store_reachable.induct) (use empty_db_inv store_step_inv in auto)



section \<open>Properties\<close>

text \<open>
  C1. Mutual exclusion of run locks: in every database that any sequence of storage
  operations can reach, with arbitrary arguments and arbitrary failing statements, the
  constraints of the schema hold and each run has at most one acquired lock.
\<close>

theorem at_most_one_active_lock:
  assumes "store_reachable w"
  shows "schema_ok (w_db w) \<and> length (active_locks run_id (w_db w)) \<le> 1"
  using store_reachable_inv [OF assms] by (simp add: store_inv_def one_active_lock_def)

text \<open>
  C8. Purging is exact and all or nothing. A purge that returns has deleted every record of the runs
  that it reports and left every record of every other run, all tasks and all agents as they were.
  The reported runs are those the caller expected or, without an expectation, all that are
  settled, and each of them is settled: terminal, with no active queue item, lock, job or
  session. A purge that raises outside a transaction leaves the database unchanged.
\<close>

theorem purge_is_safe_and_atomic:
  assumes "purge_terminal_run_records expected arts w = (r, w')" "w_depth w = 0"
  shows "case r of
      Inl _ \<Rightarrow> w_db w' = w_db w
    | Inr (ids, _) \<Rightarrow> w_db w' = without_runs (set ids) (w_db w)
        \<and> (\<forall>R \<in> set ids. settled_run (w_db w) R)
        \<and> (case expected of None \<Rightarrow> set ids = {R. settled_run (w_db w) R} | Some xs \<Rightarrow> ids = xs)"
proof (cases r)
  case (Inl e)
  then show ?thesis
    using transaction_rollback [OF assms(1) [unfolded purge_terminal_run_records_def Inl] assms(2)]
    by simp
next
  case (Inr p)
  obtain ids found where "p = (ids, found)" by fastforce
  then show ?thesis using purge_effect assms(1) Inr by auto
qed

section \<open>An example world\<close>

definition example_world :: "db \<Rightarrow> world" where
  "example_world d = \<lparr>w_db = d, w_depth = 0, w_ticks = 0, w_ids = 0, w_ios = 0,
     w_clock = (\<lambda>n. 1000 + int n), w_fresh = (\<lambda>n. ''id-'' @ replicate n CHR ''x''),
     w_fault = (\<lambda>_. None), w_redact = (\<lambda>s. s), w_registry = empty_registry, w_files = [],
     w_syscalls = 0, w_os_fault = (\<lambda>_. None), w_sha256 = (\<lambda>s. s), w_encode = (\<lambda>s. s),
     w_decode = Some, w_show_float = (\<lambda>_. ''0.5'')\<rparr>"

definition example_task :: task where
  "example_task = \<lparr>t_id = ''task-1'', t_title = ''T'', t_goal = ''G'', t_workflow_pack = ''demo'',
     t_inputs = [], t_constraints = [], t_acceptance_criteria = [], t_created_by = ''system'',
     t_created_at = 1\<rparr>"

definition example_lock :: "string \<Rightarrow> run_lock" where
  "example_lock i = \<lparr>l_id = i, l_run_id = ''run-1'', l_owner = ''api:start'', l_status = Lock_ACQUIRED,
     l_acquired_at = 5, l_released_at = None, l_metadata = []\<rparr>"

definition example_locked_db :: db where
  "example_locked_db = empty_db\<lparr>d_tasks := [example_task], d_runs := [run_row_of example_run],
     d_locks := [example_lock ''lock-1'']\<rparr>"

text \<open>Two runs that are completed; the second is still locked.\<close>

definition example_terminal_db :: db where
  "example_terminal_db = empty_db\<lparr>d_tasks := [example_task],
     d_runs := [run_row_of (example_run\<lparr>r_status := Run_COMPLETED\<rparr>),
                run_row_of (example_run\<lparr>r_id := ''run-2'', r_status := Run_COMPLETED\<rparr>)],
     d_locks := [(example_lock ''lock-2'')\<lparr>l_run_id := ''run-2''\<rparr>]\<rparr>"

definition example_contended_world :: world where
  "example_contended_world =
     snd (create_run_lock (example_lock ''lock-2'') (snd (create_run_lock (example_lock ''lock-1'')
       (snd (create_run example_run (snd (create_task example_task (example_world empty_db))))))))"

lemma example_contended_reachable: "store_reachable example_contended_world"
proof -
  have "store_reachable (example_world empty_db)"
    by (rule store_reachable.initial) (simp add: example_world_def)
  then have "store_reachable (snd (create_task example_task (example_world empty_db)))"
    by (rule store_reachable.step) (rule store_step.step_create_task)
  then have "store_reachable (snd (create_run example_run
      (snd (create_task example_task (example_world empty_db)))))"
    by (rule store_reachable.step) (rule store_step.step_create_run)
  then have "store_reachable (snd (create_run_lock (example_lock ''lock-1'') (snd (create_run example_run
      (snd (create_task example_task (example_world empty_db)))))))"
    by (rule store_reachable.step) (rule store_step.step_create_lock)
  then show ?thesis
    unfolding example_contended_world_def
    by (rule store_reachable.step) (rule store_step.step_create_lock)
qed

theorem at_most_one_active_lock_witness:
  "length (active_locks ''run-1'' (w_db example_contended_world)) \<le> 1"
  using at_most_one_active_lock [OF example_contended_reachable] by blast

theorem purge_is_safe_and_atomic_witness:
  "w_db (snd (purge_terminal_run_records None None (example_world example_terminal_db)))
     = without_runs {''run-1''} example_terminal_db
   \<and> {R. settled_run example_terminal_db R} = {''run-1''}"
proof -
  have "fst (purge_terminal_run_records None None (example_world example_terminal_db))
      = Inr ([''run-1''], [])"
    by code_simp
  then show ?thesis
    using purge_is_safe_and_atomic [of None None "example_world example_terminal_db"]
    by (cases "purge_terminal_run_records None None (example_world example_terminal_db)")
      (simp add: example_world_def)
qed

end
