(* ===== verification/Runtime_Control.thy ===== *)
theory Runtime_Control imports Store_Facts begin

text \<open>
  Approval of runtime jobs, from \<open>backend/app/core/runtime_control.py\<close>: approve, reject,
  cancel, the recovery of a terminal intent, the guard that the job is the current
  resumable one, and the loops that terminalize what a terminal run leaves open.
\<close>

section \<open>Terminal statuses\<close>

fun is_terminal_agent_run_status :: "agent_run_status \<Rightarrow> bool" where
  "is_terminal_agent_run_status AgentRun_COMPLETED = True"
| "is_terminal_agent_run_status AgentRun_FAILED = True"
| "is_terminal_agent_run_status AgentRun_CANCELLED = True"
| "is_terminal_agent_run_status _ = False"

fun is_terminal_agent_session_status :: "agent_session_status \<Rightarrow> bool" where
  "is_terminal_agent_session_status Session_COMPLETED = True"
| "is_terminal_agent_session_status Session_FAILED = True"
| "is_terminal_agent_session_status Session_REJECTED = True"
| "is_terminal_agent_session_status Session_CANCELLED = True"
| "is_terminal_agent_session_status _ = False"

fun is_terminal_runtime_job_status :: "runtime_job_status \<Rightarrow> bool" where
  "is_terminal_runtime_job_status Job_COMPLETED = True"
| "is_terminal_runtime_job_status Job_FAILED = True"
| "is_terminal_runtime_job_status Job_REJECTED = True"
| "is_terminal_runtime_job_status Job_CANCELLED = True"
| "is_terminal_runtime_job_status _ = False"

definition is_terminal_run_status :: "run_status \<Rightarrow> bool" where
  "is_terminal_run_status s \<longleftrightarrow> s \<in> {Run_COMPLETED, Run_FAILED, Run_CANCELLED}"

section \<open>Loading\<close>

record runtime_action_result =
  ra_run :: run
  ra_session :: "agent_session option"
  ra_job :: runtime_job

definition action_mismatches :: "agent_session \<Rightarrow> runtime_job \<Rightarrow> string list" where
  "action_mismatches s j =
     (if s_run_id s \<noteq> j_run_id j then [''run_id''] else [])
   @ (if s_agent_run_id s \<noteq> j_agent_run_id j then [''agent_run_id''] else [])
   @ (if s_step_name s \<noteq> j_step_name j then [''step_name''] else [])
   @ (if s_runtime s \<noteq> j_runtime j then [''runtime''] else [])"

definition load_for_action :: "string \<Rightarrow> string \<Rightarrow> runtime_action_result io" where
  "load_for_action run_id job_id =
    bindM (get_run run_id) (\<lambda>run0. case run0 of
      None \<Rightarrow> raiseM (RuntimeControlError ''Run not found'')
    | Some run \<Rightarrow> bindM (get_runtime_job job_id) (\<lambda>job0. case job0 of
        None \<Rightarrow> raiseM (RuntimeControlError ''Runtime job not found'')
      | Some job \<Rightarrow>
          thenM (guardM (j_run_id job = run_id)
                   (RuntimeControlError ''Runtime job does not belong to run.''))
          (bindM (case j_agent_session_id job of
                    Some i \<Rightarrow> if i \<noteq> [] then get_agent_session i else returnM None
                  | None \<Rightarrow> returnM None) (\<lambda>session.
           thenM (case session of None \<Rightarrow> returnM ()
             | Some s \<Rightarrow> guardM (action_mismatches s job = [])
                 (RuntimeControlConflict (''Runtime job/session mismatch: ''
                    @ join '', '' (action_mismatches s job))))
           (returnM \<lparr>ra_run = run, ra_session = session, ra_job = job\<rparr>)))))"

definition get_action_state :: "string \<Rightarrow> string \<Rightarrow> runtime_action_result io" where
  "get_action_state run_id job_id = load_for_action run_id job_id"

section \<open>The current approval job\<close>

definition last_opt :: "'a list \<Rightarrow> 'a option" where
  "last_opt xs = (if xs = [] then None else Some (last xs))"

definition ensure_current_approval_job :: "runtime_action_result \<Rightarrow> bool \<Rightarrow> unit io" where
  "ensure_current_approval_job st allow_terminal_agent_run =
    (let run = ra_run st; job = ra_job st in
     thenM (guardM (j_approval_required job)
              (RuntimeControlConflict ''Runtime job does not require approval.''))
     (bindM (get_agent_run (j_agent_run_id job)) (\<lambda>agent_run0.
      thenM (guardM (opt_ex (\<lambda>ar. ar_run_id ar = r_id run \<and> ar_step_name ar = j_step_name job
                 \<and> \<not> (is_terminal_agent_run_status (ar_status ar)
                       \<and> (\<not> allow_terminal_agent_run \<or> ar_status ar \<noteq> AgentRun_CANCELLED))) agent_run0)
        (RuntimeControlConflict
           ''Runtime job is not attached to the current resumable agent attempt.''))
      (bindM (list_agent_runs_for_run (r_id run)) (\<lambda>agent_runs.
       thenM (guardM (opt_ex (\<lambda>ar. map_option ar_id agent_run0 = Some (ar_id ar))
                (last_opt (filter (\<lambda>ar. ar_step_name ar = j_step_name job) agent_runs)))
         (RuntimeControlConflict ''A newer agent attempt supersedes this runtime approval job.''))
       (bindM (list_runtime_jobs_for_run (r_id run)) (\<lambda>jobs.
        guardM (opt_ex (\<lambda>j. j_id j = j_id job)
                 (last_opt (filter (\<lambda>j. j_step_name j = j_step_name job \<and> j_approval_required j) jobs)))
          (RuntimeControlConflict ''A newer runtime approval job supersedes this job.'')))))))) "

definition ensure_current_resumable_job :: "runtime_action_result \<Rightarrow> unit io" where
  "ensure_current_resumable_job st = ensure_current_approval_job st False"

definition record_action :: "string \<Rightarrow> runtime_job \<Rightarrow> string \<Rightarrow> unit io" where
  "record_action run_id job action = thenM (record_trace run_id RUNTIME_EVENT
     [(''action'', JStr action), (''runtime'', JStr (j_runtime job)),
      (''runtime_job_id'', JStr (j_id job)),
      (''agent_session_id'', jopt_str (j_agent_session_id job)),
      (''job_status'', JStr (runtime_job_status_value (j_status job))),
      (''approval_required'', JBool (j_approval_required job)),
      (''external_runtime_started'', JBool False)] (Some (j_agent_run_id job)) None) (returnM ())"

section \<open>Terminalizing open state\<close>

text \<open>
  One loop over the rows of a table: terminal rows are skipped, the others are updated with
  their cancelled version, and the step names of the cancelled rows are collected.
\<close>

primrec terminalize_rows ::
  "('a \<Rightarrow> bool) \<Rightarrow> ('a \<Rightarrow> 'a) \<Rightarrow> ('a \<Rightarrow> 'a io) \<Rightarrow> ('a \<Rightarrow> string) \<Rightarrow> 'a list \<Rightarrow> string list io" where
  "terminalize_rows terminal cancel update step [] = returnM []"
| "terminalize_rows terminal cancel update step (x # xs) =
    (if terminal x then terminalize_rows terminal cancel update step xs
     else thenM (update (cancel x))
       (bindM (terminalize_rows terminal cancel update step xs) (\<lambda>names.
        returnM (step x # names))))"

definition cancel_agent_run :: "timestamp \<Rightarrow> string \<Rightarrow> agent_run \<Rightarrow> agent_run" where
  "cancel_agent_run now message x = x\<lparr>ar_status := AgentRun_CANCELLED, ar_finished_at := Some now,
     ar_output_summary := Some message\<rparr>"

definition terminalized_metadata :: "string \<Rightarrow> jobj \<Rightarrow> jobj" where
  "terminalized_metadata reason d =
     jput ''external_runtime_started'' (JBool False) (jput ''terminalized_reason'' (JStr reason) d)"

definition cancel_session :: "timestamp \<Rightarrow> string \<Rightarrow> agent_session \<Rightarrow> agent_session" where
  "cancel_session now reason x = x\<lparr>s_status := Session_CANCELLED, s_updated_at := now,
     s_metadata := terminalized_metadata reason (s_metadata x)\<rparr>"

definition cancel_job :: "timestamp \<Rightarrow> string \<Rightarrow> string \<Rightarrow> runtime_job \<Rightarrow> runtime_job" where
  "cancel_job now message reason x = x\<lparr>j_status := Job_CANCELLED, j_updated_at := now,
     j_message := message, j_metadata := terminalized_metadata reason (j_metadata x)\<rparr>"

definition terminal_agent_run :: "agent_run \<Rightarrow> bool" where
  "terminal_agent_run x \<longleftrightarrow> is_terminal_agent_run_status (ar_status x)"

definition terminal_session :: "agent_session \<Rightarrow> bool" where
  "terminal_session x \<longleftrightarrow> is_terminal_agent_session_status (s_status x)"

definition terminal_job :: "runtime_job \<Rightarrow> bool" where
  "terminal_job x \<longleftrightarrow> is_terminal_runtime_job_status (j_status x)"

definition terminalized_message :: "string \<Rightarrow> string" where
  "terminalized_message reason =
     ''Run terminalized before this runtime state completed: '' @ reason @ ''.''"

definition terminalize_open_runtime_state :: "string \<Rightarrow> string \<Rightarrow> unit io" where
  "terminalize_open_runtime_state run_id reason =
    bindM utc_now (\<lambda>now.
    let message = terminalized_message reason in
    bindM (list_agent_runs_for_run run_id) (\<lambda>agent_runs.
    bindM (terminalize_rows terminal_agent_run (cancel_agent_run now message) update_agent_run
             ar_step_name agent_runs) (\<lambda>cancelled_agent_runs.
    bindM (list_agent_sessions_for_run run_id) (\<lambda>sessions.
    bindM (terminalize_rows terminal_session (cancel_session now reason) update_agent_session
             s_step_name sessions) (\<lambda>cancelled_sessions.
    bindM (list_runtime_jobs_for_run run_id) (\<lambda>jobs.
    bindM (terminalize_rows terminal_job (cancel_job now message reason) update_runtime_job
             j_step_name jobs) (\<lambda>cancelled_jobs.
    whenM (cancelled_agent_runs \<noteq> [] \<or> cancelled_sessions \<noteq> [] \<or> cancelled_jobs \<noteq> [])
      (thenM (record_trace run_id RUNTIME_EVENT
         [(''action'', JStr ''open_runtime_state_terminalized''), (''reason'', JStr reason),
          (''cancelled_agent_runs'', jstr_list cancelled_agent_runs),
          (''cancelled_sessions'', jstr_list cancelled_sessions),
          (''cancelled_jobs'', jstr_list cancelled_jobs),
          (''external_runtime_started'', JBool False)] None None) (returnM ()))))))))) "

section \<open>Terminal actions\<close>

definition intent_metadata :: "string \<Rightarrow> jobj \<Rightarrow> jobj" where
  "intent_metadata intent d =
     jput ''local_approval_intent'' (JStr intent) (jput ''external_runtime_started'' (JBool False) d)"

definition decided_job :: "runtime_job_status \<Rightarrow> timestamp \<Rightarrow> string \<Rightarrow> runtime_job \<Rightarrow> runtime_job" where
  "decided_job status now message job = job\<lparr>j_status := status, j_updated_at := now,
     j_message := message,
     j_metadata := intent_metadata (runtime_job_status_value status) (j_metadata job)\<rparr>"

definition update_optional_session ::
  "(agent_session \<Rightarrow> agent_session) \<Rightarrow> agent_session option \<Rightarrow> agent_session option io" where
  "update_optional_session f session = (case session of
     None \<Rightarrow> returnM None
   | Some s \<Rightarrow> bindM (update_agent_session (f s)) (\<lambda>s'. returnM (Some s')))"

definition terminal_action ::
  "runtime_action_result \<Rightarrow> runtime_job_status \<Rightarrow> agent_session_status \<Rightarrow> run_status \<Rightarrow> string \<Rightarrow> string
    \<Rightarrow> runtime_action_result io" where
  "terminal_action st job_status session_status run_status action message =
    (let run = ra_run st; session = ra_session st; job = ra_job st in
    bindM utc_now (\<lambda>now.
    let updated_job = decided_job job_status now message job in
    transaction (
      thenM (update_runtime_job updated_job)
      (bindM (update_optional_session (\<lambda>s. s\<lparr>s_status := session_status, s_updated_at := now,
          s_metadata := intent_metadata (runtime_job_status_value job_status) (s_metadata s)\<rparr>) session)
        (\<lambda>updated_session.
       bindM (get_agent_run (j_agent_run_id job)) (\<lambda>agent_run.
       thenM (case agent_run of None \<Rightarrow> returnM ()
              | Some ar \<Rightarrow> whenM (\<not> terminal_agent_run ar)
                  (thenM (update_agent_run (cancel_agent_run now message ar)) (returnM ())))
       (bindM (if is_terminal_run_status (r_status run) then returnM run
               else update_run (run\<lparr>r_status := run_status, r_finished_at := Some now,
                                    r_current_step := Some (j_step_name job)\<rparr>)) (\<lambda>updated_run.
        thenM (terminalize_open_runtime_state (r_id run) action)
        (thenM (record_action (r_id run) updated_job action)
         (returnM \<lparr>ra_run = updated_run, ra_session = updated_session, ra_job = updated_job\<rparr>))))))))))"

section \<open>Operations\<close>

definition approve :: "string \<Rightarrow> string \<Rightarrow> runtime_action_result io" where
  "approve run_id job_id =
    bindM (load_for_action run_id job_id) (\<lambda>st.
    let run = ra_run st; session = ra_session st; job = ra_job st in
    thenM (guardM (r_status run = Run_WAITING)
      (RuntimeControlConflict ''Only waiting runs can approve local runtime jobs.''))
    (thenM (guardM (j_status job = Job_APPROVAL_REQUIRED)
      (RuntimeControlConflict (''Runtime job is not waiting for approval: ''
         @ runtime_job_status_value (j_status job))))
    (thenM (guardM (j_approval_required job)
      (RuntimeControlConflict ''Runtime job does not require approval.''))
    (thenM (ensure_current_resumable_job st)
    (bindM utc_now (\<lambda>now.
     let approved_job = job\<lparr>j_status := Job_APPROVED, j_approved_at := Some now, j_updated_at := now,
           j_message := ''Local approval intent recorded. External ACP remains not started.'',
           j_metadata := intent_metadata ''approved'' (j_metadata job)\<rparr> in
     thenM (update_runtime_job approved_job)
     (bindM (update_optional_session (\<lambda>s. s\<lparr>s_status := Session_ACTIVE, s_updated_at := now,
         s_metadata := intent_metadata ''approved'' (s_metadata s)\<rparr>) session) (\<lambda>updated_session.
      thenM (record_action run_id approved_job ''runtime_job_approved'')
      (returnM \<lparr>ra_run = run, ra_session = updated_session, ra_job = approved_job\<rparr>)))))))))"

definition reject_job :: "string \<Rightarrow> string \<Rightarrow> runtime_action_result io" where
  "reject_job run_id job_id =
    bindM (load_for_action run_id job_id) (\<lambda>st.
    thenM (guardM (r_status (ra_run st) = Run_WAITING)
      (RuntimeControlConflict ''Only waiting runs can reject local runtime jobs.''))
    (thenM (guardM (j_status (ra_job st) = Job_APPROVAL_REQUIRED)
      (RuntimeControlConflict (''Runtime job is not waiting for approval: ''
         @ runtime_job_status_value (j_status (ra_job st)))))
    (thenM (ensure_current_resumable_job st)
    (terminal_action st Job_REJECTED Session_REJECTED Run_CANCELLED ''runtime_job_rejected''
       ''Local approval intent rejected. External ACP was not started.''))))"

definition cancel :: "string \<Rightarrow> string \<Rightarrow> runtime_action_result io" where
  "cancel run_id job_id =
    bindM (load_for_action run_id job_id) (\<lambda>st.
    thenM (guardM (\<not> is_terminal_run_status (r_status (ra_run st)))
      (RuntimeControlConflict (''Terminal run cannot cancel runtime jobs: ''
         @ run_status_value (r_status (ra_run st)))))
    (thenM (guardM (j_status (ra_job st) \<notin> {Job_COMPLETED, Job_FAILED, Job_REJECTED})
      (RuntimeControlConflict (''Terminal runtime job cannot be cancelled: ''
         @ runtime_job_status_value (j_status (ra_job st)))))
    (if j_status (ra_job st) = Job_CANCELLED then returnM st
     else thenM (ensure_current_resumable_job st)
       (terminal_action st Job_CANCELLED Session_CANCELLED Run_CANCELLED ''runtime_job_cancelled''
          ''Local runtime job cancelled. External ACP was not started.''))))"

text \<open>\<open>max(enumerate(jobs), key=(updated_at, created_at, index))\<close>: the last of the maxima.\<close>

definition latest_job :: "runtime_job list \<Rightarrow> runtime_job option" where
  "latest_job jobs = last_opt (sort_key (\<lambda>j. (j_updated_at j, j_created_at j)) jobs)"

definition terminal_intent_requiring_recovery :: "run \<Rightarrow> runtime_job option io" where
  "terminal_intent_requiring_recovery run =
    bindM (list_runtime_jobs_for_run (r_id run)) (\<lambda>jobs.
    returnM (case latest_job (filter j_approval_required jobs) of
        None \<Rightarrow> None
      | Some j \<Rightarrow> if j_status j \<in> {Job_REJECTED, Job_CANCELLED} then Some j else None))"

definition recover_terminal_intent :: "string \<Rightarrow> string \<Rightarrow> runtime_action_result io" where
  "recover_terminal_intent run_id job_id =
    bindM (load_for_action run_id job_id) (\<lambda>st.
    thenM (guardM (r_status (ra_run st) = Run_WAITING)
      (RuntimeControlConflict ''Only waiting runs can recover terminal runtime intents.''))
    (thenM (guardM (j_status (ra_job st) \<in> {Job_REJECTED, Job_CANCELLED})
      (RuntimeControlConflict (''Runtime job has no terminal intent to recover: ''
         @ runtime_job_status_value (j_status (ra_job st)))))
    (bindM (terminal_intent_requiring_recovery (ra_run st)) (\<lambda>current.
     thenM (guardM (opt_ex (\<lambda>j. j_id j = j_id (ra_job st)) current)
      (RuntimeControlConflict ''A newer runtime approval state supersedes this terminal intent.''))
     (thenM (ensure_current_approval_job st True)
     (if j_status (ra_job st) = Job_REJECTED then
        terminal_action st Job_REJECTED Session_REJECTED Run_CANCELLED
          ''runtime_job_rejection_recovered''
          ''Recovered a persisted rejection intent left by an interrupted older process.''
      else
        terminal_action st Job_CANCELLED Session_CANCELLED Run_CANCELLED
          ''runtime_job_cancellation_recovered''
          ''Recovered a persisted cancellation intent left by an interrupted older process.''))))))"

section \<open>Lemmas\<close>

subsection \<open>Effects of the storage operations that are used\<close>

lemma get_model_returns: "get_model rows rid i w = (Inr x, w') \<longleftrightarrow>
    w' = w \<and> x = List.find (\<lambda>x. rid x = i) (rows (w_db w))"
  by (auto simp: get_model_def getsM_def)

lemma list_models_returns: "list_models rows p w = (Inr x, w') \<longleftrightarrow>
    w' = w \<and> x = filter p (rows (w_db w))"
  by (auto simp: list_models_def getsM_def)

lemma find_SomeD: "List.find P xs = Some x \<Longrightarrow> x \<in> set xs \<and> P x"
  by (auto simp: find_Some_iff)

lemma find_ID: "Some x = List.find P xs \<Longrightarrow> x \<in> set xs \<and> P x"
  by (drule sym) (rule find_SomeD)

lemma belongs_returns:
  "ensure_belongs_to_run kind rows rid run_of i r w = (Inr u, w') \<Longrightarrow>
    w' = w \<and> (\<exists>x \<in> set (rows (w_db w)). rid x = i \<and> run_of x = r)"
  by (auto simp: ensure_belongs_to_run_def returns_iff get_model_returns split: option.splits
      dest: find_SomeD find_ID)

lemma update_run_returns:
  assumes "update_run r w = (Inr y, w')"
  shows "y = r \<and> w_db w' = put_runs (replace_row rr_id (run_row_of r) (d_runs (w_db w))) (w_db w)
    \<and> schema_ok (w_db w') \<and> r_id r \<in> set (map rr_id (d_runs (w_db w)))"
proof -
  obtain w1 u where e: "ensure_final_artifact r w = (Inr (), w1)" "dump_run r w1 = (Inr (), w1)"
    "update_model ''runs'' d_runs put_runs rr_id (run_row_of r) w1 = (Inr u, w')" "y = r"
    using assms by (auto simp: update_run_def returns_iff dump_run_def Let_def)
  have "w1 = w"
    using e(1) by (auto simp: ensure_final_artifact_def ensure_artifact_belongs_to_run_def returns_iff
        split: option.splits dest: belongs_returns)
  with run_table.update_returns [OF e(3)] e(4) show ?thesis unfolding run_row_of_def by simp
qed

lemma update_agent_run_returns:
  assumes "update_agent_run x w = (Inr y, w')"
  shows "y = x \<and> w_db w' = put_agent_runs (replace_row ar_id x (d_agent_runs (w_db w))) (w_db w)
    \<and> schema_ok (w_db w')"
proof -
  obtain u where "update_model ''agent_runs'' d_agent_runs put_agent_runs ar_id x w = (Inr u, w')" "y = x"
    using assms by (auto simp: update_agent_run_def returns_iff)
  with agent_run_table.update_returns [OF this(1)] show ?thesis by blast
qed

lemma update_agent_session_returns:
  assumes "update_agent_session x w = (Inr y, w')"
  shows "y = x \<and> w_db w' = put_sessions (replace_row s_id x (d_sessions (w_db w))) (w_db w)
    \<and> schema_ok (w_db w')"
proof -
  obtain u w1 where "ensure_agent_run_belongs_to_run (s_agent_run_id x) (s_run_id x) w = (Inr (), w1)"
    "update_model ''agent_sessions'' d_sessions put_sessions s_id x w1 = (Inr u, w')" "y = x"
    using assms by (auto simp: update_agent_session_def returns_iff)
  with session_table.update_returns [OF this(2)] show ?thesis
    by (auto simp: ensure_agent_run_belongs_to_run_def dest!: belongs_returns)
qed

lemma job_owned_returns:
  assumes "ensure_runtime_job_owned j w = (Inr u, w')"
  shows "w' = w \<and> (\<exists>x \<in> set (d_agent_runs (w_db w)). ar_id x = j_agent_run_id j \<and> ar_run_id x = j_run_id j)"
  using assms
  by (auto simp: ensure_runtime_job_owned_def ensure_agent_run_belongs_to_run_def
      ensure_runtime_job_session_matches_def returns_iff get_model_returns
      split: option.splits dest!: belongs_returns)

lemma update_runtime_job_returns:
  assumes "update_runtime_job x w = (Inr y, w')"
  shows "y = x \<and> w_db w' = put_jobs (replace_row j_id x (d_jobs (w_db w))) (w_db w)
    \<and> schema_ok (w_db w')
    \<and> (\<exists>ar \<in> set (d_agent_runs (w_db w)). ar_id ar = j_agent_run_id x \<and> ar_run_id ar = j_run_id x)"
proof -
  obtain u w1 where e: "ensure_runtime_job_owned x w = (Inr (), w1)"
    "update_model ''runtime_jobs'' d_jobs put_jobs j_id x w1 = (Inr u, w')" "y = x"
    using assms by (auto simp: update_runtime_job_def returns_iff)
  with job_table.update_returns [OF e(2)] job_owned_returns [OF e(1)] show ?thesis by blast
qed

lemma append_trace_event_returns:
  assumes "append_trace_event e w = (Inr y, w')"
  shows "w_db w' = put_events (d_events (w_db w) @ [e]) (w_db w)"
proof -
  obtain u w1 where w1:
    "(case ev_agent_run_id e of None \<Rightarrow> returnM ()
       | Some a \<Rightarrow> ensure_agent_run_belongs_to_run a (ev_run_id e)) w = (Inr (), w1)"
    "insert_model d_events put_events e w1 = (Inr u, w')"
    using assms by (auto simp: append_trace_event_def returns_iff)
  have "w1 = w"
    using w1(1) by (auto simp: returns_iff ensure_agent_run_belongs_to_run_def
        split: option.splits dest: belongs_returns)
  with insert_model_cases [OF w1(2)] show ?thesis by simp
qed

lemma record_trace_returns:
  assumes "record_trace run_id t payload ar dur w = (Inr y, w')"
  shows "\<exists>e. ev_run_id e = run_id \<and> w_db w' = put_events (d_events (w_db w) @ [e]) (w_db w)"
proof -
  obtain i w1 now w2 where w: "new_id w = (Inr i, w1)" "utc_now w1 = (Inr now, w2)"
    "append_trace_event \<lparr>ev_id = i, ev_run_id = run_id, ev_agent_run_id = ar,
      ev_event_type = t, ev_payload = payload, ev_duration_ms = dur, ev_created_at = now\<rparr> w2
      = (Inr y, w')"
    using assms by (auto simp: record_trace_def returns_iff)
  then have "w_db w2 = w_db w" by (auto simp: new_id_def utc_now_def)
  with append_trace_event_returns [OF w(3)] show ?thesis
    by (intro exI [of _ "\<lparr>ev_id = i, ev_run_id = run_id, ev_agent_run_id = ar,
      ev_event_type = t, ev_payload = payload, ev_duration_ms = dur, ev_created_at = now\<rparr>"]) simp
qed

lemma record_action_returns:
  assumes "record_action R job action w = (Inr u, w')"
  shows "\<exists>e. ev_run_id e = R \<and> w_db w' = put_events (d_events (w_db w) @ [e]) (w_db w)"
  using assms unfolding record_action_def
  by (auto simp: thenM_returns returnM_returns dest!: record_trace_returns)

subsection \<open>The terminalizing loops\<close>

text \<open>A table with a notion of terminal rows and an update that replaces the row.\<close>

locale terminal_table = store_table rows put rid
  for rows :: "db \<Rightarrow> 'a list" and put and rid +
  fixes run_of :: "'a \<Rightarrow> string"
    and terminal :: "'a \<Rightarrow> bool"
    and update :: "'a \<Rightarrow> 'a io"
  assumes update_effect: "update x w = (Inr y, w') \<Longrightarrow>
      w_db w' = put (replace_row rid x (rows (w_db w))) (w_db w)"
    and put_put: "put ys (put xs d) = put ys d"
begin

lemma terminalize_effect:
  assumes c: "\<And>x. rid (c x) = rid x"
  shows "terminalize_rows terminal c update step xs w = (Inr names, w')
    \<Longrightarrow> distinct (map rid (rows (w_db w))) \<Longrightarrow> distinct (map rid xs)
    \<Longrightarrow> set xs \<subseteq> set (rows (w_db w))
    \<Longrightarrow> w_db w' = put (map (\<lambda>y. if y \<in> set xs \<and> \<not> terminal y then c y else y) (rows (w_db w))) (w_db w)"
proof (induction xs arbitrary: w names)
  case Nil
  then show ?case by (simp add: returnM_def put_rows)
next
  case (Cons x xs)
  note d = Cons.prems(2)
  show ?case
  proof (cases "terminal x")
    case True
    have "w_db w' = put (map (\<lambda>y. if y \<in> set xs \<and> \<not> terminal y then c y else y) (rows (w_db w))) (w_db w)"
      using Cons.prems True by (intro Cons.IH [of w names]) auto
    moreover have "map (\<lambda>y. if y \<in> set xs \<and> \<not> terminal y then c y else y) (rows (w_db w))
        = map (\<lambda>y. if y \<in> set (x # xs) \<and> \<not> terminal y then c y else y) (rows (w_db w))"
      using True by (intro map_cong) auto
    ultimately show ?thesis by simp
  next
    case False
    then obtain y w1 ns where u: "update (c x) w = (Inr y, w1)"
      "terminalize_rows terminal c update step xs w1 = (Inr ns, w')"
      using Cons.prems(1) by (auto simp: returns_iff)
    have db1: "w_db w1 = put (replace_row rid (c x) (rows (w_db w))) (w_db w)"
      by (rule update_effect [OF u(1)])
    then have rows1: "rows (w_db w1) = replace_row rid (c x) (rows (w_db w))"
      by (simp add: rows_put)
    have x: "x \<in> set (rows (w_db w))" "rid x \<notin> rid ` set xs" using Cons.prems by auto
    have id: "y = x" if "y \<in> set (rows (w_db w))" "rid y = rid x" for y
      using that x(1) d by (auto simp: distinct_map inj_on_def)
    have new: "rid y \<noteq> rid x" if "y \<in> set xs" for y using that x(2) by (metis imageI)
    have sub: "set xs \<subseteq> set (rows (w_db w1))"
      using Cons.prems(4) new by (auto simp: rows1 replace_row_set c)
    have "w_db w' = put (map (\<lambda>y. if y \<in> set xs \<and> \<not> terminal y then c y else y) (rows (w_db w1))) (w_db w1)"
      using Cons.prems(3) d sub by (intro Cons.IH [OF u(2)]) (simp_all add: rows1)
    moreover have "map (\<lambda>y. if y \<in> set xs \<and> \<not> terminal y then c y else y) (rows (w_db w1))
        = map (\<lambda>y. if y \<in> set (x # xs) \<and> \<not> terminal y then c y else y) (rows (w_db w))"
      unfolding rows1 replace_row_def map_map
    proof (rule map_cong [OF refl])
      fix y assume y: "y \<in> set (rows (w_db w))"
      have "c x \<notin> set xs" using x(2) c by (metis image_eqI)
      then show "((\<lambda>y. if y \<in> set xs \<and> \<not> terminal y then c y else y) \<circ>
          (\<lambda>y. if rid y = rid (c x) then c x else y)) y
          = (if y \<in> set (x # xs) \<and> \<not> terminal y then c y else y)"
        using id [OF y] False x(2) by (auto simp: c)
    qed
    ultimately show ?thesis by (simp add: db1 put_put)
  qed
qed

lemma terminalize_run_effect:
  assumes "\<And>x. rid (c x) = rid x"
    and "terminalize_rows terminal c update step (filter (\<lambda>x. run_of x = r) (rows (w_db w))) w = (Inr names, w')"
    and "distinct (map rid (rows (w_db w)))"
  shows "w_db w' = put (map (\<lambda>y. if run_of y = r \<and> \<not> terminal y then c y else y) (rows (w_db w))) (w_db w)"
proof -
  have "w_db w' = put (map (\<lambda>y. if y \<in> set (filter (\<lambda>x. run_of x = r) (rows (w_db w))) \<and> \<not> terminal y
      then c y else y) (rows (w_db w))) (w_db w)"
    by (rule terminalize_effect [OF assms(1,2)]) (use assms(3) in \<open>auto simp: distinct_map intro: inj_on_subset\<close>)
  moreover have "map (\<lambda>y. if y \<in> set (filter (\<lambda>x. run_of x = r) (rows (w_db w))) \<and> \<not> terminal y
      then c y else y) (rows (w_db w)) = map (\<lambda>y. if run_of y = r \<and> \<not> terminal y then c y else y) (rows (w_db w))"
    by (rule map_cong) auto
  ultimately show ?thesis by (simp only:)
qed

end

interpretation agent_run_rows: terminal_table d_agent_runs put_agent_runs ar_id ar_run_id
    terminal_agent_run update_agent_run
  by unfold_locales (auto simp: put_agent_runs_def dest: update_agent_run_returns)
interpretation session_rows: terminal_table d_sessions put_sessions s_id s_run_id
    terminal_session update_agent_session
  by unfold_locales (auto simp: put_sessions_def dest: update_agent_session_returns)
interpretation job_rows: terminal_table d_jobs put_jobs j_id j_run_id
    terminal_job update_runtime_job
  by unfold_locales (auto simp: put_jobs_def dest: update_runtime_job_returns)

subsection \<open>Changes local to a run\<close>

text \<open>
  The change of a database that touches the records of one run only; it is a preorder, and
  each storage operation of the controller makes such a change.
\<close>

definition local_change :: "string \<Rightarrow> db \<Rightarrow> db \<Rightarrow> bool" where
  "local_change R d d' \<longleftrightarrow> without_runs {R} d' = without_runs {R} d"

lemma local_change_refl [simp]: "local_change R d d"
  by (simp add: local_change_def)

lemma local_change_trans [trans]: "local_change R d d' \<Longrightarrow> local_change R d' d'' \<Longrightarrow> local_change R d d''"
  by (simp add: local_change_def)

lemma filter_replace_row:
  assumes "distinct (map rid xs)" "x \<in> set xs" "rid y = rid x" "run_of x = R" "run_of y = R"
  shows "filter (\<lambda>x. run_of x \<noteq> R) (replace_row rid y xs) = filter (\<lambda>x. run_of x \<noteq> R) xs"
  using assms
proof (induction xs)
  case (Cons a xs)
  show ?case
  proof (cases "rid a = rid x")
    case True
    then have "a = x" "replace_row rid y xs = xs" using Cons.prems
      by (auto simp: replace_row_absent image_iff)
    then show ?thesis using Cons.prems by (simp add: replace_row_def)
  next
    case False
    then show ?thesis using Cons by (auto simp: replace_row_def)
  qed
qed simp

lemma filter_map_other:
  "(\<And>x. x \<in> set xs \<Longrightarrow> run_of (f x) = run_of x) \<Longrightarrow> (\<And>x. run_of x \<noteq> R \<Longrightarrow> f x = x) \<Longrightarrow>
    filter (\<lambda>x. run_of x \<noteq> R) (map f xs) = filter (\<lambda>x. run_of x \<noteq> R) xs"
  by (induction xs) auto

lemma local_changes:
  "filter (\<lambda>x. rr_id x \<noteq> R) rs = filter (\<lambda>x. rr_id x \<noteq> R) (d_runs d) \<Longrightarrow> local_change R d (put_runs rs d)"
  "filter (\<lambda>x. ar_run_id x \<noteq> R) as = filter (\<lambda>x. ar_run_id x \<noteq> R) (d_agent_runs d)
    \<Longrightarrow> local_change R d (put_agent_runs as d)"
  "filter (\<lambda>x. s_run_id x \<noteq> R) ss = filter (\<lambda>x. s_run_id x \<noteq> R) (d_sessions d)
    \<Longrightarrow> local_change R d (put_sessions ss d)"
  "filter (\<lambda>x. j_run_id x \<noteq> R) js = filter (\<lambda>x. j_run_id x \<noteq> R) (d_jobs d)
    \<Longrightarrow> local_change R d (put_jobs js d)"
  "filter (\<lambda>x. q_run_id x \<noteq> R) qs = filter (\<lambda>x. q_run_id x \<noteq> R) (d_queue d)
    \<Longrightarrow> local_change R d (put_queue qs d)"
  "filter (\<lambda>x. l_run_id x \<noteq> R) ls = filter (\<lambda>x. l_run_id x \<noteq> R) (d_locks d)
    \<Longrightarrow> local_change R d (put_locks ls d)"
  "filter (\<lambda>x. ev_run_id x \<noteq> R) es = filter (\<lambda>x. ev_run_id x \<noteq> R) (d_events d)
    \<Longrightarrow> local_change R d (put_events es d)"
  by (simp_all add: local_change_def without_runs_def put_defs)

text \<open>The records that stay open in a run.\<close>

definition open_state :: "string \<Rightarrow> db \<Rightarrow> bool" where
  "open_state R d \<longleftrightarrow> (\<exists>x \<in> set (d_agent_runs d). ar_run_id x = R \<and> \<not> terminal_agent_run x)
     \<or> (\<exists>x \<in> set (d_sessions d). s_run_id x = R \<and> \<not> terminal_session x)
     \<or> (\<exists>x \<in> set (d_jobs d). j_run_id x = R \<and> \<not> terminal_job x)"

lemma utc_now_returns: "utc_now w = (Inr t, w') \<Longrightarrow> w_db w' = w_db w \<and> w_depth w' = w_depth w"
  by (auto simp: utc_now_def)

lemma put_events_id: "put_events (d_events d) d = d"
  by (simp add: put_events_def)

lemma traced_returns:
  assumes "whenM b (thenM (record_trace R t p ar dr) (returnM ())) w = (Inr u, w')"
  shows "\<exists>es. (\<forall>e \<in> set es. ev_run_id e = R) \<and> w_db w' = put_events (d_events (w_db w) @ es) (w_db w)"
proof (cases b)
  case True
  then obtain y where "record_trace R t p ar dr w = (Inr y, w')"
    using assms by (auto simp: whenM_def returns_iff)
  then obtain e where "ev_run_id e = R" "w_db w' = put_events (d_events (w_db w) @ [e]) (w_db w)"
    using record_trace_returns by metis
  then show ?thesis by (intro exI [of _ "[e]"]) simp
next
  case False
  then show ?thesis using assms
    by (intro exI [of _ "[]"]) (simp add: whenM_def returns_iff put_events_id)
qed

lemma terminalize_open_effect:
  assumes "terminalize_open_runtime_state R reason w = (Inr u, w')" "schema_ok (w_db w)"
  shows "local_change R (w_db w) (w_db w') \<and> \<not> open_state R (w_db w')
    \<and> d_runs (w_db w') = d_runs (w_db w)
    \<and> {j \<in> set (d_jobs (w_db w)). terminal_job j} \<subseteq> set (d_jobs (w_db w'))"
proof -
  let ?m = "terminalized_message reason"
  obtain now w0 ars w1 ss w2 js w3 es where e: "utc_now w = (Inr now, w0)"
    "terminalize_rows terminal_agent_run (cancel_agent_run now ?m) update_agent_run ar_step_name
       (filter (\<lambda>x. ar_run_id x = R) (d_agent_runs (w_db w0))) w0 = (Inr ars, w1)"
    "terminalize_rows terminal_session (cancel_session now reason) update_agent_session s_step_name
       (filter (\<lambda>x. s_run_id x = R) (d_sessions (w_db w1))) w1 = (Inr ss, w2)"
    "terminalize_rows terminal_job (cancel_job now ?m reason) update_runtime_job j_step_name
       (filter (\<lambda>x. j_run_id x = R) (d_jobs (w_db w2))) w2 = (Inr js, w3)"
    and w3': "\<forall>e \<in> set es. ev_run_id e = R" "w_db w' = put_events (d_events (w_db w3) @ es) (w_db w3)"
    using assms(1)
    by (auto simp: terminalize_open_runtime_state_def bindM_returns Let_def
        list_agent_runs_for_run_def list_agent_sessions_for_run_def list_runtime_jobs_for_run_def
        list_models_returns dest!: traced_returns)
  let ?d = "w_db w"
  let ?f = "\<lambda>y. if ar_run_id y = R \<and> \<not> terminal_agent_run y then cancel_agent_run now ?m y else y"
  let ?g = "\<lambda>y. if s_run_id y = R \<and> \<not> terminal_session y then cancel_session now reason y else y"
  let ?h = "\<lambda>y. if j_run_id y = R \<and> \<not> terminal_job y then cancel_job now ?m reason y else y"
  have w0: "w_db w0 = ?d" using utc_now_returns [OF e(1)] by simp
  have keys: "distinct (map ar_id (d_agent_runs ?d))" "distinct (map s_id (d_sessions ?d))"
    "distinct (map j_id (d_jobs ?d))"
    using assms(2) by (simp_all add: schema_defs)
  have w1: "w_db w1 = put_agent_runs (map ?f (d_agent_runs ?d)) ?d"
    using agent_run_rows.terminalize_run_effect [OF _ e(2)] keys(1) by (simp add: w0 cancel_agent_run_def)
  have w2: "w_db w2 = put_sessions (map ?g (d_sessions ?d)) (w_db w1)"
    using session_rows.terminalize_run_effect [OF _ e(3)] keys(2)
    by (simp add: w1 put_agent_runs_def cancel_session_def)
  have w3: "w_db w3 = put_jobs (map ?h (d_jobs ?d)) (w_db w2)"
    using job_rows.terminalize_run_effect [OF _ e(4)] keys(3)
    by (simp add: w1 w2 put_agent_runs_def put_sessions_def cancel_job_def)
  have w': "w_db w' = put_events (d_events ?d @ es) (w_db w3)" "\<forall>e \<in> set es. ev_run_id e = R"
    using w3' by (simp_all add: w1 w2 w3 put_defs)
  have "local_change R ?d (w_db w1)"
    unfolding w1 by (rule local_changes, rule filter_map_other) (auto simp: cancel_agent_run_def)
  also have "local_change R (w_db w1) (w_db w2)"
    unfolding w2 by (rule local_changes, subst filter_map_other)
      (auto simp: cancel_session_def w1 put_agent_runs_def)
  also have "local_change R (w_db w2) (w_db w3)"
    unfolding w3 by (rule local_changes, subst filter_map_other)
      (auto simp: cancel_job_def w1 w2 put_agent_runs_def put_sessions_def)
  also have "local_change R (w_db w3) (w_db w')"
    unfolding w'(1) by (rule local_changes) (use w'(2) in \<open>simp add: w1 w2 w3 put_defs\<close>)
  finally have local: "local_change R ?d (w_db w')" .
  have rows: "d_agent_runs (w_db w') = map ?f (d_agent_runs ?d)"
    "d_sessions (w_db w') = map ?g (d_sessions ?d)" "d_jobs (w_db w') = map ?h (d_jobs ?d)"
    "d_runs (w_db w') = d_runs ?d"
    unfolding w'(1) w3 w2 w1 by (simp_all add: put_defs)
  have closed: "\<And>x. ar_run_id (?f x) = R \<Longrightarrow> terminal_agent_run (?f x)"
    "\<And>x. s_run_id (?g x) = R \<Longrightarrow> terminal_session (?g x)"
    "\<And>x. j_run_id (?h x) = R \<Longrightarrow> terminal_job (?h x)"
    by (auto simp: terminal_agent_run_def terminal_session_def terminal_job_def
        cancel_agent_run_def cancel_session_def cancel_job_def)
  have "\<not> open_state R (w_db w')"
    unfolding open_state_def rows set_map using closed by blast
  moreover have "{j \<in> set (d_jobs ?d). terminal_job j} \<subseteq> set (d_jobs (w_db w'))"
    unfolding rows by force
  moreover note rows(4)
  ultimately show ?thesis using local by blast
qed

subsection \<open>The terminal action\<close>

definition loaded :: "string \<Rightarrow> runtime_action_result \<Rightarrow> db \<Rightarrow> bool" where
  "loaded R st d \<longleftrightarrow> r_id (ra_run st) = R \<and> R \<in> set (map rr_id (d_runs d))
     \<and> ra_job st \<in> set (d_jobs d) \<and> j_run_id (ra_job st) = R
     \<and> (\<forall>s. ra_session st = Some s \<longrightarrow> s \<in> set (d_sessions d) \<and> s_run_id s = R)"

lemma update_row_local:
  assumes "schema_ok d"
  shows "x \<in> set (d_jobs d) \<Longrightarrow> j_id y = j_id x \<Longrightarrow> j_run_id x = R \<Longrightarrow> j_run_id y = R \<Longrightarrow>
      local_change R d (put_jobs (replace_row j_id y (d_jobs d)) d)"
    and "s \<in> set (d_sessions d) \<Longrightarrow> s_id s' = s_id s \<Longrightarrow> s_run_id s = R \<Longrightarrow> s_run_id s' = R \<Longrightarrow>
      local_change R d (put_sessions (replace_row s_id s' (d_sessions d)) d)"
    and "a \<in> set (d_agent_runs d) \<Longrightarrow> ar_id a' = ar_id a \<Longrightarrow> ar_run_id a = R \<Longrightarrow> ar_run_id a' = R \<Longrightarrow>
      local_change R d (put_agent_runs (replace_row ar_id a' (d_agent_runs d)) d)"
    and "rr_id r = R \<Longrightarrow> local_change R d (put_runs (replace_row rr_id r (d_runs d)) d)"
proof -
  have keys: "distinct (map ar_id (d_agent_runs d))" "distinct (map s_id (d_sessions d))"
    "distinct (map j_id (d_jobs d))"
    using assms by (simp_all add: schema_defs)
  show "x \<in> set (d_jobs d) \<Longrightarrow> j_id y = j_id x \<Longrightarrow> j_run_id x = R \<Longrightarrow> j_run_id y = R \<Longrightarrow>
      local_change R d (put_jobs (replace_row j_id y (d_jobs d)) d)"
    by (rule local_changes, rule filter_replace_row [OF keys(3)])
  show "s \<in> set (d_sessions d) \<Longrightarrow> s_id s' = s_id s \<Longrightarrow> s_run_id s = R \<Longrightarrow> s_run_id s' = R \<Longrightarrow>
      local_change R d (put_sessions (replace_row s_id s' (d_sessions d)) d)"
    by (rule local_changes, rule filter_replace_row [OF keys(2)])
  show "a \<in> set (d_agent_runs d) \<Longrightarrow> ar_id a' = ar_id a \<Longrightarrow> ar_run_id a = R \<Longrightarrow> ar_run_id a' = R \<Longrightarrow>
      local_change R d (put_agent_runs (replace_row ar_id a' (d_agent_runs d)) d)"
    by (rule local_changes, rule filter_replace_row [OF keys(1)])
  show "rr_id r = R \<Longrightarrow> local_change R d (put_runs (replace_row rr_id r (d_runs d)) d)"
    by (rule local_changes) (auto simp: replace_row_def filter_map o_def intro!: map_idI)
qed

lemma update_optional_session_effect:
  assumes "update_optional_session f so w = (Inr y, w')" "schema_ok (w_db w)"
    and "\<And>s. so = Some s \<Longrightarrow> s \<in> set (d_sessions (w_db w)) \<and> s_run_id s = R \<and> s_id (f s) = s_id s
      \<and> s_run_id (f s) = R"
  shows "local_change R (w_db w) (w_db w') \<and> schema_ok (w_db w') \<and> y = map_option f so
    \<and> (\<exists>ss. w_db w' = put_sessions ss (w_db w))"
proof (cases so)
  case None
  then have "w' = w" "y = None" using assms(1) by (simp_all add: update_optional_session_def returns_iff)
  moreover have "w_db w = put_sessions (d_sessions (w_db w)) (w_db w)" by (simp add: put_sessions_def)
  ultimately show ?thesis using None assms(2) by auto
next
  case (Some s)
  then have u: "update_agent_session (f s) w = (Inr (f s), w')" "y = Some (f s)"
    using assms(1) update_agent_session_returns
    by (auto simp: update_optional_session_def returns_iff)
  have d: "w_db w' = put_sessions (replace_row s_id (f s) (d_sessions (w_db w))) (w_db w)"
    "schema_ok (w_db w')"
    using update_agent_session_returns [OF u(1)] by blast+
  have "local_change R (w_db w) (w_db w')"
    unfolding d(1) using assms(3) [OF Some] update_row_local(2) [OF assms(2)] by blast
  then show ?thesis using d u Some by auto
qed

lemma cancel_attempt_effect:
  assumes "(case List.find (\<lambda>x. ar_id x = i) (d_agent_runs (w_db w)) of None \<Rightarrow> returnM ()
     | Some ar \<Rightarrow> whenM (\<not> terminal_agent_run ar)
         (thenM (update_agent_run (cancel_agent_run now message ar)) (returnM ()))) w = (Inr u, w')"
    and "schema_ok (w_db w)" "\<exists>x \<in> set (d_agent_runs (w_db w)). ar_id x = i \<and> ar_run_id x = R"
  shows "local_change R (w_db w) (w_db w') \<and> schema_ok (w_db w')
    \<and> (\<exists>xs. w_db w' = put_agent_runs xs (w_db w))"
proof -
  have dist: "distinct (map ar_id (d_agent_runs (w_db w)))" using assms(2) by (simp add: schema_defs)
  obtain x where x: "x \<in> set (d_agent_runs (w_db w))" "ar_id x = i" "ar_run_id x = R"
    using assms(3) by blast
  then have find: "List.find (\<lambda>x. ar_id x = i) (d_agent_runs (w_db w)) = Some x"
    using find_unique [OF dist] by metis
  show ?thesis
  proof (cases "terminal_agent_run x")
    case True
    then have "w' = w" using assms(1) by (simp add: find whenM_def returns_iff)
    moreover have "w_db w = put_agent_runs (d_agent_runs (w_db w)) (w_db w)"
      by (simp add: put_agent_runs_def)
    ultimately show ?thesis using assms(2) by auto
  next
    case False
    then obtain y where "update_agent_run (cancel_agent_run now message x) w = (Inr y, w')"
      using assms(1) by (auto simp: find whenM_def returns_iff)
    note d = update_agent_run_returns [OF this]
    have "local_change R (w_db w) (put_agent_runs (replace_row ar_id (cancel_agent_run now message x)
        (d_agent_runs (w_db w))) (w_db w))"
      using update_row_local(3) [OF assms(2) x(1) _ x(3)] x(3) by (simp add: cancel_agent_run_def)
    then show ?thesis using d by auto
  qed
qed

lemma bindM_after: "m s = (Inr x, s') \<Longrightarrow> bindM m f s = f x s'"
  by (simp add: bindM_def)

text \<open>What every terminal action leaves behind.\<close>

definition terminated :: "string \<Rightarrow> string \<Rightarrow> runtime_job_status \<Rightarrow> db \<Rightarrow> db \<Rightarrow> bool" where
  "terminated R J status d d' \<longleftrightarrow> local_change R d d' \<and> \<not> open_state R d'
     \<and> (\<exists>j \<in> set (d_jobs d'). j_id j = J \<and> j_run_id j = R \<and> j_status j = status)
     \<and> (\<forall>x \<in> set (d_runs d'). rr_id x = R \<longrightarrow> rr_status x = Run_CANCELLED)"

lemma terminal_action_effect:
  assumes act: "terminal_action st js ss Run_CANCELLED action message w = (Inr out, w')"
    and st: "loaded R st (w_db w)" and ok: "schema_ok (w_db w)"
    and open_run: "\<not> is_terminal_run_status (r_status (ra_run st))"
    and js: "is_terminal_runtime_job_status js"
  shows "terminated R (j_id (ra_job st)) js (w_db w) (w_db w')"
proof -
  let ?job = "ra_job st"
  obtain now w0 where w0: "utc_now w = (Inr now, w0)" "w_db w0 = w_db w"
    by (simp add: utc_now_def)
  let ?job' = "decided_job js now message ?job"
  let ?f = "\<lambda>s. s\<lparr>s_status := ss, s_updated_at := now,
          s_metadata := intent_metadata (runtime_job_status_value js) (s_metadata s)\<rparr>"
  let ?run = "(ra_run st)\<lparr>r_status := Run_CANCELLED, r_finished_at := Some now,
                   r_current_step := Some (j_step_name ?job)\<rparr>"
  have "transaction (thenM (update_runtime_job ?job')
      (bindM (update_optional_session ?f (ra_session st)) (\<lambda>updated_session.
       bindM (get_agent_run (j_agent_run_id ?job)) (\<lambda>agent_run.
       thenM (case agent_run of None \<Rightarrow> returnM ()
              | Some ar \<Rightarrow> whenM (\<not> terminal_agent_run ar)
                  (thenM (update_agent_run (cancel_agent_run now message ar)) (returnM ())))
       (bindM (update_run ?run) (\<lambda>updated_run.
        thenM (terminalize_open_runtime_state (r_id (ra_run st)) action)
        (thenM (record_action (r_id (ra_run st)) ?job' action)
         (returnM \<lparr>ra_run = updated_run, ra_session = updated_session, ra_job = ?job'\<rparr>)))))))) w0
      = (Inr out, w')" (is "transaction ?body w0 = _")
    using act open_run unfolding terminal_action_def Let_def bindM_after [where m = utc_now, OF w0(1)] by simp
  then obtain wa wb where t: "?body wa = (Inr out, wb)" "w_db wa = w_db w0"
    "w_depth wa = Suc (w_depth w0)" "w_db w' = w_db wb" "w_depth w' = w_depth wb - 1"
    by (rule transaction_commit)
  from t(1) obtain y1 w1 y2 w2 y3 w3 y4 w4 y5 w5 y6 where
      u1: "update_runtime_job ?job' wa = (Inr y1, w1)"
    and u2: "update_optional_session ?f (ra_session st) w1 = (Inr y2, w2)"
    and u3: "(case List.find (\<lambda>x. ar_id x = j_agent_run_id ?job) (d_agent_runs (w_db w2)) of None \<Rightarrow> returnM ()
              | Some ar \<Rightarrow> whenM (\<not> terminal_agent_run ar)
                  (thenM (update_agent_run (cancel_agent_run now message ar)) (returnM ()))) w2 = (Inr y3, w3)"
    and u4: "update_run ?run w3 = (Inr y4, w4)"
    and u5: "terminalize_open_runtime_state (r_id (ra_run st)) action w4 = (Inr y5, w5)"
    and u6: "record_action (r_id (ra_run st)) ?job' action w5 = (Inr y6, wb)"
    by (auto simp only: thenM_returns bindM_returns returnM_returns get_agent_run_def get_model_returns)
  have d0: "w_db wa = w_db w" "schema_ok (w_db wa)" using t(2) w0(2) ok by simp_all
  have job: "?job \<in> set (d_jobs (w_db wa))" "j_run_id ?job = R" "r_id (ra_run st) = R"
    using st d0 by (simp_all add: loaded_def)
  have job': "j_id ?job' = j_id ?job" "j_run_id ?job' = R" "j_status ?job' = js"
    "j_agent_run_id ?job' = j_agent_run_id ?job"
    using job(2) by (simp_all add: decided_job_def)
  have w1: "w_db w1 = put_jobs (replace_row j_id ?job' (d_jobs (w_db wa))) (w_db wa)"
    "schema_ok (w_db w1)"
    "\<exists>ar \<in> set (d_agent_runs (w_db wa)). ar_id ar = j_agent_run_id ?job \<and> ar_run_id ar = R"
    using update_runtime_job_returns [OF u1] job' by auto
  have l1: "local_change R (w_db wa) (w_db w1)"
    unfolding w1(1) using update_row_local(1) [OF d0(2) job(1) _ job(2)] job'(1,2) by blast
  have j1: "?job' \<in> set (d_jobs (w_db w1))"
    using job(1) job'(1) unfolding w1(1) by (auto simp: put_jobs_def replace_row_set)
  have "local_change R (w_db w1) (w_db w2) \<and> schema_ok (w_db w2) \<and> y2 = map_option ?f (ra_session st)
      \<and> (\<exists>xs. w_db w2 = put_sessions xs (w_db w1))"
    by (rule update_optional_session_effect [OF u2 w1(2)])
      (use st d0(1) in \<open>simp add: loaded_def w1(1) put_jobs_def\<close>)
  then obtain xs where w2: "local_change R (w_db w1) (w_db w2)" "schema_ok (w_db w2)"
    "w_db w2 = put_sessions xs (w_db w1)" by blast
  have "d_agent_runs (w_db w2) = d_agent_runs (w_db wa)"
    by (simp add: w2(3) w1(1) put_sessions_def put_jobs_def)
  with cancel_attempt_effect [OF u3 w2(2)] w1(3) obtain ys where
    w3: "local_change R (w_db w2) (w_db w3)" "schema_ok (w_db w3)" "w_db w3 = put_agent_runs ys (w_db w2)"
    by metis
  have w4: "w_db w4 = put_runs (replace_row rr_id (run_row_of ?run) (d_runs (w_db w3))) (w_db w3)"
    "schema_ok (w_db w4)"
    using update_run_returns [OF u4] by blast+
  have l4: "local_change R (w_db w3) (w_db w4)"
    unfolding w4(1) by (rule update_row_local(4) [OF w3(2)]) (simp add: run_row_of_def job(3))
  note w5 = terminalize_open_effect [OF u5 w4(2), unfolded job(3)]
  have w6: "\<exists>e. ev_run_id e = R \<and> w_db wb = put_events (d_events (w_db w5) @ [e]) (w_db w5)"
    using record_action_returns [OF u6] by (simp add: job(3))
  then have l6: "local_change R (w_db w5) (w_db wb)" by (auto intro!: local_changes)
  have same6: "d_jobs (w_db wb) = d_jobs (w_db w5)" "d_runs (w_db wb) = d_runs (w_db w5)"
    "open_state R (w_db wb) = open_state R (w_db w5)"
    using w6 by (auto simp: put_events_def open_state_def)
  have "local_change R (w_db wa) (w_db wb)"
    using l1 w2(1) w3(1) l4 w5 l6 local_change_trans by metis
  moreover have "?job' \<in> set (d_jobs (w_db w4))"
    using j1 by (simp add: w4(1) w3(3) w2(3) put_runs_def put_agent_runs_def put_sessions_def)
  then have "?job' \<in> set (d_jobs (w_db wb))"
    using w5 js job'(3) by (auto simp: same6 terminal_job_def)
  then have "\<exists>j \<in> set (d_jobs (w_db wb)). j_id j = j_id ?job \<and> j_run_id j = R \<and> j_status j = js"
    using job' by blast
  moreover have "rr_status x = Run_CANCELLED" if "x \<in> set (d_runs (w_db wb))" "rr_id x = R" for x
    using that w5 job(3)
    by (auto simp: same6 w4(1) put_runs_def replace_row_set run_row_of_def split: if_splits)
  ultimately show ?thesis
    using w5 unfolding terminated_def t(4) d0(1) [symmetric] same6(3) by blast
qed

subsection \<open>Loading and guarding only read\<close>

lemma keeps_reads [keeps_intros]:
  "keeps I (get_model rows rid i)" "keeps I (list_models rows p)"
  by (simp_all add: get_model_def list_models_def keeps_getsM)

lemma keeps_load [keeps_intros]: "keeps I (load_persisted_run i c)"
  by (cases c) (auto intro: keeps_intros)

lemma keeps_get [keeps_intros]:
  "keeps I (get_run i)" "keeps I (get_agent_run i)" "keeps I (get_agent_session i)"
  "keeps I (get_runtime_job i)" "keeps I (list_agent_runs_for_run r)"
  "keeps I (list_runtime_jobs_for_run r)" "keeps I (list_agent_sessions_for_run r)"
  unfolding get_run_def get_agent_run_def get_agent_session_def get_runtime_job_def
    list_agent_runs_for_run_def list_runtime_jobs_for_run_def list_agent_sessions_for_run_def
  by (intro keeps_intros)+

lemma keeps_load_for_action [keeps_intros]: "keeps I (load_for_action r j)"
  unfolding load_for_action_def by (intro keeps_intros)

lemma keeps_ensure_current [keeps_intros]: "keeps I (ensure_current_approval_job st b)"
  unfolding ensure_current_approval_job_def Let_def by (intro keeps_intros)

lemma keeps_ensure_resumable [keeps_intros]: "keeps I (ensure_current_resumable_job st)"
  unfolding ensure_current_resumable_job_def by (intro keeps_intros)

lemma keeps_terminal_intent [keeps_intros]: "keeps I (terminal_intent_requiring_recovery run)"
  unfolding terminal_intent_requiring_recovery_def by (intro keeps_intros)

lemma reads_only: "(\<And>I. keeps I m) \<Longrightarrow> m w = (r, w') \<Longrightarrow> w' = w"
  by (rule keepsD [of "\<lambda>s. s = w" m w r w']) simp_all

lemma case_raise_returns:
  "(case x of None \<Rightarrow> raiseM e | Some y \<Rightarrow> f y) w = (Inr r, w') \<longleftrightarrow>
    (\<exists>y. x = Some y \<and> f y w = (Inr r, w'))"
  by (cases x) (simp_all add: raiseM_def)

lemma case_guard_returns:
  "(case x of None \<Rightarrow> returnM () | Some y \<Rightarrow> guardM (p y) (e y)) w = (Inr u, w') \<longleftrightarrow>
    w' = w \<and> (\<forall>y. x = Some y \<longrightarrow> p y)"
  by (cases x) (auto simp: returns_iff)

lemma load_persisted_run_returns:
  "load_persisted_run i c w = (Inr r, w') \<Longrightarrow> w' = w \<and> c = Stored_run r \<and> r_id r = i"
  by (cases c) (auto simp: returnM_def raiseM_def split: if_splits)

lemma get_run_returns:
  assumes "get_run i w = (Inr x, w')"
  shows "w' = w \<and> (\<forall>r. x = Some r \<longrightarrow> r_id r = i
    \<and> (\<exists>row \<in> set (d_runs (w_db w)). rr_id row = i \<and> rr_cell row = Stored_run r))"
proof (cases "List.find (\<lambda>x. rr_id x = i) (d_runs (w_db w))")
  case None
  then show ?thesis using assms by (simp add: get_run_def returns_iff get_model_returns)
next
  case (Some row)
  then obtain r where "load_persisted_run i (rr_cell row) w = (Inr r, w')" "x = Some r"
    using assms by (auto simp: get_run_def returns_iff get_model_returns)
  with find_SomeD [OF Some] load_persisted_run_returns [OF this(1)] show ?thesis by blast
qed

lemma pick_session_returns:
  assumes "(case i of Some i \<Rightarrow> if i \<noteq> [] then get_agent_session i else returnM None
      | None \<Rightarrow> returnM None) w = (Inr x, w')"
  shows "w' = w \<and> (\<forall>s. x = Some s \<longrightarrow> s \<in> set (d_sessions (w_db w)))"
  using assms
  by (auto simp: returns_iff get_agent_session_def get_model_returns split: option.splits if_splits
      dest!: find_ID find_SomeD)

lemma load_for_action_returns:
  assumes "load_for_action R J w = (Inr st, w')"
  shows "w' = w \<and> loaded R st (w_db w) \<and> j_id (ra_job st) = J"
proof -
  obtain run0 w1 where r0: "get_run R w = (Inr run0, w1)" and rest: "(case run0 of
      None \<Rightarrow> raiseM (RuntimeControlError ''Run not found'')
    | Some run \<Rightarrow> bindM (get_runtime_job J) (\<lambda>job0. case job0 of
        None \<Rightarrow> raiseM (RuntimeControlError ''Runtime job not found'')
      | Some job \<Rightarrow>
          thenM (guardM (j_run_id job = R)
                   (RuntimeControlError ''Runtime job does not belong to run.''))
          (bindM (case j_agent_session_id job of
                    Some i \<Rightarrow> if i \<noteq> [] then get_agent_session i else returnM None
                  | None \<Rightarrow> returnM None) (\<lambda>session.
           thenM (case session of None \<Rightarrow> returnM ()
             | Some s \<Rightarrow> guardM (action_mismatches s job = [])
                 (RuntimeControlConflict (''Runtime job/session mismatch: ''
                    @ join '', '' (action_mismatches s job))))
           (returnM \<lparr>ra_run = run, ra_session = session, ra_job = job\<rparr>))))) w1 = (Inr st, w')"
    using assms unfolding load_for_action_def bindM_returns by blast
  note run = get_run_returns [OF r0]
  obtain r job w2 so w3 where r: "run0 = Some r"
    and j: "List.find (\<lambda>x. j_id x = J) (d_jobs (w_db w1)) = Some job" "j_run_id job = R"
    and so: "(case j_agent_session_id job of
                    Some i \<Rightarrow> if i \<noteq> [] then get_agent_session i else returnM None
                  | None \<Rightarrow> returnM None) w1 = (Inr so, w3)"
    and eq: "\<forall>s. so = Some s \<longrightarrow> action_mismatches s job = []"
      "st = \<lparr>ra_run = r, ra_session = so, ra_job = job\<rparr>" "w' = w3"
    using rest unfolding case_raise_returns
    by (elim exE conjE)
      (simp only: bindM_returns thenM_returns guardM_returns returnM_returns case_raise_returns
        case_guard_returns get_runtime_job_def get_model_returns, elim exE conjE, blast)
  note pick = pick_session_returns [OF so]
  have "s_run_id s = R" if "so = Some s" for s
    using eq(1) that j(2) by (auto simp: action_mismatches_def split: if_splits)
  moreover have "R \<in> set (map rr_id (d_runs (w_db w)))" "r_id r = R"
    using run r by force+
  ultimately show ?thesis
    using run pick find_SomeD [OF j(1)] j(2) eq by (simp add: loaded_def)
qed

subsection \<open>Raising leaves the database unchanged\<close>

definition raise_safe :: "'a io \<Rightarrow> bool" where
  "raise_safe m \<longleftrightarrow> (\<forall>w e w'. w_depth w = 0 \<longrightarrow> m w = (Inl e, w') \<longrightarrow> w_db w' = w_db w)"

lemma raise_safe_bind:
  assumes "\<And>I. keeps I m" "\<And>x. raise_safe (f x)"
  shows "raise_safe (bindM m f)"
  unfolding raise_safe_def
proof (intro allI impI)
  fix w :: world and e w'
  assume d: "w_depth w = 0" and b: "bindM m f w = (Inl e, w')"
  obtain r w1 where m: "m w = (r, w1)" by fastforce
  have "w1 = w" by (rule reads_only [OF assms(1) m])
  then show "w_db w' = w_db w"
    using b m d assms(2) unfolding raise_safe_def bindM_def by (auto split: sum.splits)
qed

lemma raise_safe_then: "(\<And>I. keeps I m) \<Longrightarrow> raise_safe k \<Longrightarrow> raise_safe (thenM m k)"
  unfolding thenM_def by (rule raise_safe_bind)

lemma raise_safe_if: "raise_safe m \<Longrightarrow> raise_safe k \<Longrightarrow> raise_safe (if b then m else k)"
  by simp

lemma raise_safe_return: "raise_safe (returnM x)"
  by (simp add: raise_safe_def returnM_def)

lemma raise_safe_transaction: "raise_safe (transaction m)"
  unfolding raise_safe_def using transaction_rollback by blast

lemma raise_safe_now:
  assumes f: "\<And>t. raise_safe (f t)"
  shows "raise_safe (bindM utc_now f)"
  unfolding raise_safe_def
proof (intro allI impI)
  fix w :: world and e w'
  let ?w = "w\<lparr>w_ticks := Suc (w_ticks w)\<rparr>"
  assume d: "w_depth w = 0" and b: "bindM utc_now f w = (Inl e, w')"
  have "f (w_clock w (w_ticks w)) ?w = (Inl e, w')"
    using b by (simp add: bindM_def utc_now_def)
  moreover have "w_depth ?w = 0" using d by simp
  ultimately have "w_db w' = w_db ?w" using f unfolding raise_safe_def by blast
  then show "w_db w' = w_db w" by simp
qed

lemma raise_safe_terminal_action: "raise_safe (terminal_action st js ss rs action message)"
  unfolding terminal_action_def Let_def by (intro raise_safe_now raise_safe_transaction)

lemmas raise_safe_intros = raise_safe_bind raise_safe_then raise_safe_if raise_safe_return
  raise_safe_terminal_action keeps_guardM keeps_load_for_action keeps_ensure_current
  keeps_ensure_resumable keeps_terminal_intent

lemma raise_safe_operations:
  "raise_safe (reject_job R J)" "raise_safe (cancel R J)" "raise_safe (recover_terminal_intent R J)"
  unfolding reject_job_def cancel_def recover_terminal_intent_def by (intro raise_safe_intros)+

lemma reject_job_returns:
  assumes "reject_job R J w = (Inr out, w')" "schema_ok (w_db w)"
  shows "terminated R J Job_REJECTED (w_db w) (w_db w')"
proof -
  obtain st w1 where st: "load_for_action R J w = (Inr st, w1)" "r_status (ra_run st) = Run_WAITING"
    and rest: "bindM (ensure_current_resumable_job st) (\<lambda>_. terminal_action st Job_REJECTED
       Session_REJECTED Run_CANCELLED ''runtime_job_rejected''
       ''Local approval intent rejected. External ACP was not started.'') w1 = (Inr out, w')"
    using assms(1) unfolding reject_job_def thenM_def bindM_returns guardM_returns by blast
  obtain u w2 where e: "ensure_current_resumable_job st w1 = (Inr u, w2)"
    "terminal_action st Job_REJECTED Session_REJECTED Run_CANCELLED ''runtime_job_rejected''
       ''Local approval intent rejected. External ACP was not started.'' w2 = (Inr out, w')"
    using rest unfolding bindM_returns by blast
  note l = load_for_action_returns [OF st(1)]
  have "w2 = w" using reads_only [OF keeps_ensure_resumable e(1)] l by simp
  then show ?thesis
    using terminal_action_effect [OF e(2), of R] l assms(2) st(2)
    by (simp add: is_terminal_run_status_def)
qed

lemma cancel_returns:
  assumes "cancel R J w = (Inr out, w')" "schema_ok (w_db w)"
  shows "(j_status (ra_job out) = Job_CANCELLED \<and> ra_job out \<in> set (d_jobs (w_db w))
      \<and> j_id (ra_job out) = J \<and> w' = w)
    \<or> terminated R J Job_CANCELLED (w_db w) (w_db w')"
proof -
  obtain st w1 where st: "load_for_action R J w = (Inr st, w1)"
    "\<not> is_terminal_run_status (r_status (ra_run st))"
    and rest: "(if j_status (ra_job st) = Job_CANCELLED then returnM st
     else bindM (ensure_current_resumable_job st) (\<lambda>_.
       terminal_action st Job_CANCELLED Session_CANCELLED Run_CANCELLED ''runtime_job_cancelled''
          ''Local runtime job cancelled. External ACP was not started.'')) w1 = (Inr out, w')"
    using assms(1) unfolding cancel_def thenM_def bindM_returns guardM_returns by blast
  note l = load_for_action_returns [OF st(1)]
  show ?thesis
  proof (cases "j_status (ra_job st) = Job_CANCELLED")
    case True
    then show ?thesis using rest l by (auto simp: returnM_returns loaded_def)
  next
    case False
    then obtain u w2 where e: "ensure_current_resumable_job st w1 = (Inr u, w2)"
      "terminal_action st Job_CANCELLED Session_CANCELLED Run_CANCELLED ''runtime_job_cancelled''
          ''Local runtime job cancelled. External ACP was not started.'' w2 = (Inr out, w')"
      using rest by (simp only: if_False bindM_returns) blast
    have "w2 = w" using reads_only [OF keeps_ensure_resumable e(1)] l by simp
    then show ?thesis using terminal_action_effect [OF e(2), of R] l assms(2) st(2) by simp
  qed
qed

lemma recover_returns:
  assumes "recover_terminal_intent R J w = (Inr out, w')" "schema_ok (w_db w)"
  shows "\<exists>status \<in> {Job_REJECTED, Job_CANCELLED}. terminated R J status (w_db w) (w_db w')
    \<and> (\<exists>j \<in> set (d_jobs (w_db w)). j_id j = J \<and> j_status j = status)"
proof -
  obtain st w1 current w2 u w3 where st: "load_for_action R J w = (Inr st, w1)"
    "r_status (ra_run st) = Run_WAITING" "j_status (ra_job st) \<in> {Job_REJECTED, Job_CANCELLED}"
    and c: "terminal_intent_requiring_recovery (ra_run st) w1 = (Inr current, w2)"
    and e: "ensure_current_approval_job st True w2 = (Inr u, w3)"
    and rest: "(if j_status (ra_job st) = Job_REJECTED then
        terminal_action st Job_REJECTED Session_REJECTED Run_CANCELLED
          ''runtime_job_rejection_recovered''
          ''Recovered a persisted rejection intent left by an interrupted older process.''
      else
        terminal_action st Job_CANCELLED Session_CANCELLED Run_CANCELLED
          ''runtime_job_cancellation_recovered''
          ''Recovered a persisted cancellation intent left by an interrupted older process.'') w3
      = (Inr out, w')"
    using assms(1) unfolding recover_terminal_intent_def thenM_def bindM_returns guardM_returns by blast
  note l = load_for_action_returns [OF st(1)]
  have w3: "w3 = w"
    using reads_only [OF keeps_terminal_intent c] reads_only [OF keeps_ensure_current e] l by simp
  obtain js ss action message where act: "terminal_action st js ss Run_CANCELLED action message w = (Inr out, w')"
    "js = j_status (ra_job st)" "js \<in> {Job_REJECTED, Job_CANCELLED}"
    using rest w3 st(3) by (auto split: if_splits)
  have "terminated R (j_id (ra_job st)) js (w_db w) (w_db w')"
    using terminal_action_effect [OF act(1), of R] l assms(2) st(2) act(3)
    by (auto simp: is_terminal_run_status_def)
  then show ?thesis using l act(2,3) by (auto simp: loaded_def)
qed

subsection \<open>Approval\<close>

definition current_approval_job :: "string \<Rightarrow> runtime_job \<Rightarrow> db \<Rightarrow> bool" where
  "current_approval_job R job d \<longleftrightarrow> j_approval_required job
     \<and> opt_ex (\<lambda>ar. ar_id ar = j_agent_run_id job \<and> \<not> terminal_agent_run ar)
        (last_opt (filter (\<lambda>ar. ar_run_id ar = R \<and> ar_step_name ar = j_step_name job) (d_agent_runs d)))
     \<and> opt_ex (\<lambda>j. j_id j = j_id job)
        (last_opt (filter (\<lambda>j. j_run_id j = R \<and> j_step_name j = j_step_name job
            \<and> j_approval_required j) (d_jobs d)))"

lemma last_opt_SomeD: "last_opt xs = Some x \<Longrightarrow> x \<in> set xs"
  by (auto simp: last_opt_def split: if_splits)

lemma ensure_current_returns:
  assumes "ensure_current_approval_job st False w = (Inr u, w')" "schema_ok (w_db w)"
  shows "w' = w \<and> current_approval_job (r_id (ra_run st)) (ra_job st) (w_db w)"
proof -
  let ?R = "r_id (ra_run st)" and ?job = "ra_job st"
  have dist: "distinct (map ar_id (d_agent_runs (w_db w)))" using assms(2) by (simp add: schema_defs)
  have "w' = w" by (rule reads_only [OF keeps_ensure_current assms(1)])
  moreover have g: "j_approval_required ?job"
    "opt_ex (\<lambda>ar. ar_run_id ar = ?R \<and> ar_step_name ar = j_step_name ?job
        \<and> \<not> (is_terminal_agent_run_status (ar_status ar) \<and> (\<not> False \<or> ar_status ar \<noteq> AgentRun_CANCELLED)))
      (List.find (\<lambda>x. ar_id x = j_agent_run_id ?job) (d_agent_runs (w_db w)))"
    "opt_ex (\<lambda>ar. map_option ar_id (List.find (\<lambda>x. ar_id x = j_agent_run_id ?job) (d_agent_runs (w_db w)))
         = Some (ar_id ar))
      (last_opt (filter (\<lambda>ar. ar_step_name ar = j_step_name ?job)
         (filter (\<lambda>x. ar_run_id x = ?R) (d_agent_runs (w_db w)))))"
    "opt_ex (\<lambda>j. j_id j = j_id ?job)
      (last_opt (filter (\<lambda>j. j_step_name j = j_step_name ?job \<and> j_approval_required j)
         (filter (\<lambda>x. j_run_id x = ?R) (d_jobs (w_db w)))))"
    using assms(1) unfolding ensure_current_approval_job_def Let_def
    by (simp_all only: thenM_returns bindM_returns guardM_returns get_agent_run_def
        list_agent_runs_for_run_def list_runtime_jobs_for_run_def get_model_returns list_models_returns) blast+
  obtain a b where a: "List.find (\<lambda>x. ar_id x = j_agent_run_id ?job) (d_agent_runs (w_db w)) = Some a"
    "\<not> is_terminal_agent_run_status (ar_status a)"
    and b: "last_opt (filter (\<lambda>ar. ar_step_name ar = j_step_name ?job)
         (filter (\<lambda>x. ar_run_id x = ?R) (d_agent_runs (w_db w)))) = Some b" "ar_id b = ar_id a"
    using g(2,3) by (auto simp: opt_ex_def split: option.splits)
  have "b \<in> set (d_agent_runs (w_db w))" using last_opt_SomeD [OF b(1)] by simp
  then have "b = a" using find_SomeD [OF a(1)] b(2) dist by (auto simp: distinct_map inj_on_def)
  ultimately show ?thesis
    using g(1,4) a(2) b(1) find_SomeD [OF a(1)]
    by (simp add: current_approval_job_def opt_ex_def terminal_agent_run_def conj_commute)
qed

definition approved_job :: "timestamp \<Rightarrow> runtime_job \<Rightarrow> runtime_job" where
  "approved_job now job = job\<lparr>j_status := Job_APPROVED, j_approved_at := Some now, j_updated_at := now,
     j_message := ''Local approval intent recorded. External ACP remains not started.'',
     j_metadata := intent_metadata ''approved'' (j_metadata job)\<rparr>"

lemma approve_returns:
  assumes "approve R J w = (Inr out, w')" "schema_ok (w_db w)"
  shows "\<exists>job now. job \<in> set (d_jobs (w_db w)) \<and> j_id job = J \<and> j_run_id job = R
      \<and> j_status job = Job_APPROVAL_REQUIRED \<and> current_approval_job R job (w_db w)
      \<and> r_status (ra_run out) = Run_WAITING
      \<and> d_jobs (w_db w') = replace_row j_id (approved_job now job) (d_jobs (w_db w))
      \<and> d_runs (w_db w') = d_runs (w_db w) \<and> local_change R (w_db w) (w_db w')"
proof -
  obtain st w1 u w2 now w3 where st: "load_for_action R J w = (Inr st, w1)"
    "r_status (ra_run st) = Run_WAITING" "j_status (ra_job st) = Job_APPROVAL_REQUIRED"
    and e: "ensure_current_resumable_job st w1 = (Inr u, w2)" "utc_now w2 = (Inr now, w3)"
    and rest: "bindM (update_runtime_job (approved_job now (ra_job st))) (\<lambda>_.
      bindM (update_optional_session (\<lambda>s. s\<lparr>s_status := Session_ACTIVE, s_updated_at := now,
         s_metadata := intent_metadata ''approved'' (s_metadata s)\<rparr>) (ra_session st)) (\<lambda>updated_session.
      bindM (record_action R (approved_job now (ra_job st)) ''runtime_job_approved'') (\<lambda>_.
      returnM \<lparr>ra_run = ra_run st, ra_session = updated_session, ra_job = approved_job now (ra_job st)\<rparr>))) w3
      = (Inr out, w')"
    using assms(1)
    unfolding approve_def Let_def thenM_def bindM_returns guardM_returns approved_job_def by blast
  note l = load_for_action_returns [OF st(1)]
  let ?job = "ra_job st"
  have w2: "w2 = w" "current_approval_job R ?job (w_db w)"
    using ensure_current_returns [OF e(1) [unfolded ensure_current_resumable_job_def]] l assms(2)
    by (auto simp: loaded_def)
  then have w3: "w_db w3 = w_db w" "schema_ok (w_db w3)"
    using utc_now_returns [OF e(2)] assms(2) by simp_all
  obtain y1 w4 y2 w5 y3 where u4: "update_runtime_job (approved_job now ?job) w3 = (Inr y1, w4)"
    and u5: "update_optional_session (\<lambda>s. s\<lparr>s_status := Session_ACTIVE, s_updated_at := now,
         s_metadata := intent_metadata ''approved'' (s_metadata s)\<rparr>) (ra_session st) w4 = (Inr y2, w5)"
    and u6: "record_action R (approved_job now ?job) ''runtime_job_approved'' w5 = (Inr y3, w')"
    and out: "ra_run out = ra_run st"
    using rest unfolding bindM_returns returnM_returns by auto
  have job: "?job \<in> set (d_jobs (w_db w3))" "j_run_id ?job = R" "j_id ?job = J"
    using l w3 by (simp_all add: loaded_def)
  have w4: "w_db w4 = put_jobs (replace_row j_id (approved_job now ?job) (d_jobs (w_db w3))) (w_db w3)"
    "schema_ok (w_db w4)"
    using update_runtime_job_returns [OF u4] by blast+
  have l4: "local_change R (w_db w3) (w_db w4)"
    unfolding w4(1) by (rule update_row_local(1) [OF w3(2) job(1) _ job(2)])
      (simp_all add: approved_job_def job(2))
  have "local_change R (w_db w4) (w_db w5) \<and> schema_ok (w_db w5) \<and> y2 = map_option (\<lambda>s. s\<lparr>s_status := Session_ACTIVE, s_updated_at := now,
         s_metadata := intent_metadata ''approved'' (s_metadata s)\<rparr>) (ra_session st)
      \<and> (\<exists>ss. w_db w5 = put_sessions ss (w_db w4))"
    by (rule update_optional_session_effect [OF u5 w4(2)])
      (use l w3(1) in \<open>simp add: loaded_def w4(1) put_jobs_def\<close>)
  then obtain ss where w5: "local_change R (w_db w4) (w_db w5)" "w_db w5 = put_sessions ss (w_db w4)"
    by blast
  obtain ev where w6: "ev_run_id ev = R" "w_db w' = put_events (d_events (w_db w5) @ [ev]) (w_db w5)"
    using record_action_returns [OF u6] by blast
  have "local_change R (w_db w5) (w_db w')" unfolding w6(2) by (rule local_changes) (simp add: w6(1))
  then have "local_change R (w_db w) (w_db w')"
    using l4 w5(1) w3(1) local_change_trans by metis
  moreover have "d_jobs (w_db w') = replace_row j_id (approved_job now ?job) (d_jobs (w_db w))"
    "d_runs (w_db w') = d_runs (w_db w)"
    by (simp_all add: w6(2) w5(2) w4(1) w3(1) put_defs)
  ultimately show ?thesis using job st(2,3) w2(2) w3(1) out by auto
qed

section \<open>Properties\<close>

text \<open>
  C2. Rejecting a runtime job is complete, local and all or nothing: when it returns, the job
  is REJECTED, the run's row is CANCELLED, the run has no agent run, session or job left in
  an open status, and no record of another run has changed; when it raises (missing or
  foreign job, a superseded attempt, a storage failure in the middle) the database is as before.
\<close>

theorem rejection_is_complete_and_atomic:
  assumes "reject_job R J w = (r, w')" "schema_ok (w_db w)" "w_depth w = 0"
  shows "case r of Inl _ \<Rightarrow> w_db w' = w_db w
    | Inr _ \<Rightarrow> terminated R J Job_REJECTED (w_db w) (w_db w')"
  using assms reject_job_returns raise_safe_operations(1)
  by (cases r) (auto simp: raise_safe_def)

text \<open>
  C7. Cancelling a runtime job: when it returns, either the job was already cancelled and
  nothing at all happened, or the job and its run are CANCELLED, nothing of the run is left
  open and no other run's record has changed; when it raises, the database is as before.
\<close>

theorem cancellation_is_idempotent_and_atomic:
  assumes "cancel R J w = (r, w')" "schema_ok (w_db w)" "w_depth w = 0"
  shows "case r of Inl _ \<Rightarrow> w_db w' = w_db w
    | Inr out \<Rightarrow> (j_status (ra_job out) = Job_CANCELLED \<and> ra_job out \<in> set (d_jobs (w_db w))
          \<and> j_id (ra_job out) = J \<and> w' = w)
        \<or> terminated R J Job_CANCELLED (w_db w) (w_db w')"
  using assms cancel_returns raise_safe_operations(2)
  by (cases r) (auto simp: raise_safe_def)

text \<open>
  C12. Recovering a terminal intent that an interrupted process left behind finishes exactly
  the persisted decision: the job keeps its REJECTED or CANCELLED status, the waiting run is
  CANCELLED and closed; when it raises, the database is as before.
\<close>

theorem recovery_finishes_the_decision:
  assumes "recover_terminal_intent R J w = (r, w')" "schema_ok (w_db w)" "w_depth w = 0"
  shows "case r of Inl _ \<Rightarrow> w_db w' = w_db w
    | Inr _ \<Rightarrow> (\<exists>status \<in> {Job_REJECTED, Job_CANCELLED}.
        (\<exists>j \<in> set (d_jobs (w_db w)). j_id j = J \<and> j_status j = status)
        \<and> terminated R J status (w_db w) (w_db w'))"
  using assms recover_returns raise_safe_operations(3)
  by (cases r) (fastforce simp: raise_safe_def)+

text \<open>
  C9. Approval only reaches the current job: when approve returns, the run was WAITING, the
  job was its run's APPROVAL_REQUIRED job, the last approval job of its step, attached to the
  last and still open attempt of that step; afterwards exactly its row in the jobs table is
  the approved one, the runs table is unchanged and so is every record of another run.
\<close>

theorem approval_reaches_only_the_current_job:
  assumes "approve R J w = (Inr out, w')" "schema_ok (w_db w)"
  shows "\<exists>job now. job \<in> set (d_jobs (w_db w)) \<and> j_id job = J \<and> j_run_id job = R
      \<and> j_status job = Job_APPROVAL_REQUIRED \<and> current_approval_job R job (w_db w)
      \<and> r_status (ra_run out) = Run_WAITING
      \<and> d_jobs (w_db w') = replace_row j_id (approved_job now job) (d_jobs (w_db w))
      \<and> d_runs (w_db w') = d_runs (w_db w) \<and> local_change R (w_db w) (w_db w')"
  using approve_returns [OF assms] .

section \<open>An example: a run that waits for an approval\<close>

definition waiting_agent :: agent_definition where
  "waiting_agent = \<lparr>a_id = ''agent-1'', a_pack_name = ''demo'', a_role = ''writer'',
     a_system_prompt = ''Write.'', a_model_settings = [], a_tool_permissions = [],
     a_runtime_limits = [], a_effective_skill_ids = []\<rparr>"

definition example_agent_run :: agent_run where
  "example_agent_run = \<lparr>ar_id = ''ar-1'', ar_run_id = ''run-1'', ar_agent_id = ''agent-1'',
     ar_step_name = ''draft'', ar_input_context = [], ar_status = AgentRun_WAITING,
     ar_started_at = Some 1, ar_finished_at = None, ar_output_summary = None\<rparr>"

definition example_session :: agent_session where
  "example_session = \<lparr>s_id = ''sess-1'', s_run_id = ''run-1'', s_agent_run_id = ''ar-1'',
     s_agent_id = ''agent-1'', s_step_name = ''draft'', s_runtime = ''acp'',
     s_status = Session_WAITING_APPROVAL, s_resume_strategy = ''manual'', s_requires_approval = True,
     s_external_ref = None, s_created_at = 1, s_updated_at = 1, s_metadata = []\<rparr>"

definition example_job :: "runtime_job_status \<Rightarrow> runtime_job" where
  "example_job status = \<lparr>j_id = ''job-1'', j_run_id = ''run-1'', j_agent_run_id = ''ar-1'',
     j_agent_session_id = Some ''sess-1'', j_step_name = ''draft'', j_runtime = ''acp'',
     j_status = status, j_approval_required = True, j_approved_at = None, j_external_ref = None,
     j_created_at = 1, j_updated_at = 1, j_message = '''', j_metadata = []\<rparr>"

definition example_waiting_db :: "runtime_job_status \<Rightarrow> db" where
  "example_waiting_db status = empty_db\<lparr>d_tasks := [example_task],
     d_runs := [run_row_of (example_run\<lparr>r_status := Run_WAITING\<rparr>)], d_agents := [waiting_agent],
     d_agent_runs := [example_agent_run], d_sessions := [example_session],
     d_jobs := [example_job status]\<rparr>"

definition returned :: "(exn + 'a) \<times> world \<Rightarrow> bool" where
  "returned p = (case fst p of Inr _ \<Rightarrow> True | Inl _ \<Rightarrow> False)"

lemma returnedE:
  assumes "returned p"
  obtains x where "p = (Inr x, snd p)"
  using assms by (cases p) (auto simp: returned_def split: sum.splits)

lemma example_waiting_ok:
  "schema_ok (w_db (example_world (example_waiting_db Job_APPROVAL_REQUIRED)))"
  "schema_ok (w_db (example_world (example_waiting_db Job_CANCELLED)))"
  "w_depth (example_world d) = 0" "w_db (example_world d) = d"
  by (code_simp, code_simp, simp_all add: example_world_def)

lemma example_operations_return:
  "returned (reject_job ''run-1'' ''job-1'' (example_world (example_waiting_db Job_APPROVAL_REQUIRED)))"
  "returned (cancel ''run-1'' ''job-1'' (example_world (example_waiting_db Job_APPROVAL_REQUIRED)))"
  "returned (approve ''run-1'' ''job-1'' (example_world (example_waiting_db Job_APPROVAL_REQUIRED)))"
  "returned (recover_terminal_intent ''run-1'' ''job-1'' (example_world (example_waiting_db Job_CANCELLED)))"
  by code_simp+

abbreviation after :: "'a io \<Rightarrow> runtime_job_status \<Rightarrow> db" where
  "after m status \<equiv> w_db (snd (m (example_world (example_waiting_db status))))"

theorem rejection_is_complete_and_atomic_witness:
  "terminated ''run-1'' ''job-1'' Job_REJECTED (example_waiting_db Job_APPROVAL_REQUIRED)
     (after (reject_job ''run-1'' ''job-1'') Job_APPROVAL_REQUIRED)"
proof -
  let ?w = "example_world (example_waiting_db Job_APPROVAL_REQUIRED)"
  obtain x where "reject_job ''run-1'' ''job-1'' ?w = (Inr x, snd (reject_job ''run-1'' ''job-1'' ?w))"
    by (rule returnedE [OF example_operations_return(1)])
  from rejection_is_complete_and_atomic [OF this example_waiting_ok(1,3)]
  show ?thesis by (simp add: example_waiting_ok(4))
qed

theorem cancellation_is_idempotent_and_atomic_witness:
  "terminated ''run-1'' ''job-1'' Job_CANCELLED (example_waiting_db Job_APPROVAL_REQUIRED)
     (after (cancel ''run-1'' ''job-1'') Job_APPROVAL_REQUIRED)"
proof -
  let ?w = "example_world (example_waiting_db Job_APPROVAL_REQUIRED)"
  obtain x where x: "cancel ''run-1'' ''job-1'' ?w = (Inr x, snd (cancel ''run-1'' ''job-1'' ?w))"
    by (rule returnedE [OF example_operations_return(2)])
  have "d_jobs (example_waiting_db Job_APPROVAL_REQUIRED) = [example_job Job_APPROVAL_REQUIRED]"
    by (simp add: example_waiting_db_def)
  then show ?thesis
    using cancellation_is_idempotent_and_atomic [OF x example_waiting_ok(1,3)]
    by (auto simp: example_waiting_ok(4) example_job_def)
qed

theorem recovery_finishes_the_decision_witness:
  "\<exists>status. terminated ''run-1'' ''job-1'' status (example_waiting_db Job_CANCELLED)
     (after (recover_terminal_intent ''run-1'' ''job-1'') Job_CANCELLED)"
proof -
  let ?w = "example_world (example_waiting_db Job_CANCELLED)"
  obtain x where "recover_terminal_intent ''run-1'' ''job-1'' ?w
      = (Inr x, snd (recover_terminal_intent ''run-1'' ''job-1'' ?w))"
    by (rule returnedE [OF example_operations_return(4)])
  from recovery_finishes_the_decision [OF this example_waiting_ok(2,3)]
  show ?thesis by (auto simp: example_waiting_ok(4))
qed

theorem approval_reaches_only_the_current_job_witness:
  "\<exists>job now. d_jobs (after (approve ''run-1'' ''job-1'') Job_APPROVAL_REQUIRED)
     = replace_row j_id (approved_job now job) [example_job Job_APPROVAL_REQUIRED]"
proof -
  let ?w = "example_world (example_waiting_db Job_APPROVAL_REQUIRED)"
  obtain x where "approve ''run-1'' ''job-1'' ?w = (Inr x, snd (approve ''run-1'' ''job-1'' ?w))"
    by (rule returnedE [OF example_operations_return(3)])
  from approval_reaches_only_the_current_job [OF this example_waiting_ok(1)]
  show ?thesis by (auto simp: example_waiting_ok(4) example_waiting_db_def)
qed

end
