(* ===== verification/Run_Control.thy ===== *)
theory Run_Control imports Runtime_Control begin

text \<open>
  \<open>RunCoordinator\<close> of \<open>backend/app/core/run_control.py\<close>: queue items, the run lock with
  its heartbeat, exclusive execution. The code to execute is an argument, any action. The
  heartbeat thread is an argument too: \<open>hb k\<close> is the number of its iterations that the
  scheduler runs at the \<open>k\<close>-th point of the coordinator's code where the thread is alive.
\<close>

section \<open>Queue items\<close>

definition RUN_QUEUE_WRITE_ATTEMPTS :: nat where
  "RUN_QUEUE_WRITE_ATTEMPTS = 3"

text \<open>The loop of write attempts; the last failing attempt raises.\<close>

primrec attempt_write :: "nat \<Rightarrow> 'a io \<Rightarrow> unit io" where
  "attempt_write 0 m = returnM ()"
| "attempt_write (Suc n) m = catch_if is_storage_error (thenM m (returnM ()))
     (\<lambda>e. if n = 0 then raiseM e else attempt_write n m)"

definition redact_message :: "string \<Rightarrow> string io" where
  "redact_message m = getsM (\<lambda>w. w_redact w m)"

definition create_queue_item :: "string \<Rightarrow> string \<Rightarrow> bool \<Rightarrow> run_queue_item io" where
  "create_queue_item run_id action background_worker =
    bindM utc_now (\<lambda>now. bindM new_id (\<lambda>i.
    create_run_queue_item \<lparr>q_id = i, q_run_id = run_id, q_action = action,
      q_status = Queue_QUEUED, q_created_at = now, q_updated_at = now,
      q_message = (if background_worker
        then ''Persisted local queue item waiting for the background worker.''
        else ''Local queue intent recorded for synchronous execution.''),
      q_metadata = [(''local_only'', JBool True),
                    (''background_worker_started'', JBool background_worker)]\<rparr>))"

definition update_queue_item ::
  "run_queue_item \<Rightarrow> run_queue_item_status \<Rightarrow> string \<Rightarrow> run_queue_item io" where
  "update_queue_item item status message =
    bindM utc_now (\<lambda>now.
    let updated = item\<lparr>q_status := status, q_updated_at := now, q_message := message\<rparr> in
    thenM (attempt_write RUN_QUEUE_WRITE_ATTEMPTS (update_run_queue_item updated)) (returnM updated))"

fun queue_status_for_run_status :: "run_status \<Rightarrow> run_queue_item_status" where
  "queue_status_for_run_status Run_QUEUED = Queue_QUEUED"
| "queue_status_for_run_status Run_RUNNING = Queue_RUNNING"
| "queue_status_for_run_status Run_WAITING = Queue_WAITING"
| "queue_status_for_run_status Run_COMPLETED = Queue_COMPLETED"
| "queue_status_for_run_status Run_FAILED = Queue_FAILED"
| "queue_status_for_run_status Run_CANCELLED = Queue_CANCELLED"

fun current_run_message :: "run_queue_item_status \<Rightarrow> string" where
  "current_run_message Queue_WAITING = ''Local runner paused for approval.''"
| "current_run_message Queue_COMPLETED = ''Local synchronous runner segment completed.''"
| "current_run_message Queue_FAILED = ''Local synchronous runner segment failed.''"
| "current_run_message Queue_CANCELLED = ''Local synchronous runner segment was cancelled.''"
| "current_run_message Queue_RUNNING = ''Local synchronous runner segment is still running.''"
| "current_run_message Queue_QUEUED = ''Local synchronous runner segment is still queued.''"

definition update_queue_item_for_current_run :: "run_queue_item \<Rightarrow> run_queue_item io" where
  "update_queue_item_for_current_run item =
    bindM (get_run (q_run_id item)) (\<lambda>run. case run of
      None \<Rightarrow> update_queue_item item Queue_FAILED ''Run disappeared during execution.''
    | Some r \<Rightarrow> let status = queue_status_for_run_status (r_status r) in
        update_queue_item item status (current_run_message status))"

definition reconcile_queue_item :: "run_queue_item \<Rightarrow> run_queue_item io" where
  "reconcile_queue_item = update_queue_item_for_current_run"

definition update_queue_item_after_execution_error :: "run_queue_item \<Rightarrow> exn \<Rightarrow> run_queue_item io" where
  "update_queue_item_after_execution_error item exc =
    bindM (get_run (q_run_id item)) (\<lambda>run.
    if opt_ex (\<lambda>r. r_status r \<in> {Run_WAITING, Run_COMPLETED, Run_FAILED, Run_CANCELLED}) run
    then update_queue_item_for_current_run item
    else bindM (redact_message (exn_str exc)) (\<lambda>message. update_queue_item item Queue_FAILED message))"

record run_queue_submission =
  sub_run :: run
  sub_queue_item :: run_queue_item

definition enqueue_new_run :: "run \<Rightarrow> string \<Rightarrow> bool \<Rightarrow> run_queue_submission io" where
  "enqueue_new_run run action background_worker = transaction (
    bindM (create_run run) (\<lambda>created.
    bindM (create_queue_item (r_id run) action background_worker) (\<lambda>item.
    returnM \<lparr>sub_run = created, sub_queue_item = item\<rparr>)))"

definition enqueue_existing_run :: "string \<Rightarrow> string \<Rightarrow> bool \<Rightarrow> run_queue_item io" where
  "enqueue_existing_run run_id action background_worker =
    bindM (get_run run_id) (\<lambda>run.
    thenM (guardM (run \<noteq> None) (RunCoordinationConflict (''Run not found: '' @ run_id)))
    (create_queue_item run_id action background_worker))"

section \<open>The run lock\<close>

definition acquire_lock :: "string \<Rightarrow> string \<Rightarrow> run_lock io" where
  "acquire_lock run_id action =
    bindM utc_now (\<lambda>now.
    catch_if is_storage_error
      (bindM new_id (\<lambda>i. create_run_lock \<lparr>l_id = i, l_run_id = run_id, l_owner = ''api:'' @ action,
         l_status = Lock_ACQUIRED, l_acquired_at = now, l_released_at = None,
         l_metadata = [(''local_only'', JBool True), (''scope'', JStr ''run''),
                       (''heartbeat_at'', JStr (isoformat now))]\<rparr>))
      (\<lambda>e. raiseM (RunCoordinationConflict (exn_str e))))"

text \<open>One iteration of \<open>_maintain_lock_heartbeat\<close>; the result tells whether the loop goes on.\<close>

definition heartbeat_iteration :: "string \<Rightarrow> bool io" where
  "heartbeat_iteration lock_id =
    catch_if is_storage_error
      (bindM (get_run_lock lock_id) (\<lambda>current. case current of
         None \<Rightarrow> returnM False
       | Some l \<Rightarrow>
           if l_status l \<noteq> Lock_ACQUIRED then returnM False
           else bindM utc_now (\<lambda>heartbeat_at.
             thenM (update_run_lock (l\<lparr>l_metadata :=
                jput ''heartbeat_at'' (JStr (isoformat heartbeat_at)) (l_metadata l)\<rparr>))
             (returnM True))))
      (\<lambda>_. returnM True)"

primrec heartbeats :: "nat \<Rightarrow> string \<Rightarrow> unit io" where
  "heartbeats 0 lock_id = returnM ()"
| "heartbeats (Suc n) lock_id =
     bindM (heartbeat_iteration lock_id) (\<lambda>alive. if alive then heartbeats n lock_id else returnM ())"

definition release_lock :: "run_lock \<Rightarrow> run_lock io" where
  "release_lock lock =
    bindM (get_run_lock (l_id lock)) (\<lambda>current. case current of
      None \<Rightarrow> returnM lock
    | Some c \<Rightarrow>
        if l_status c = Lock_RELEASED then returnM lock
        else bindM utc_now (\<lambda>now.
          let released = c\<lparr>l_status := Lock_RELEASED, l_released_at := Some now\<rparr> in
          thenM (attempt_write RUN_QUEUE_WRITE_ATTEMPTS (update_run_lock released)) (returnM released)))"

definition recovered_lock :: "timestamp \<Rightarrow> run_lock \<Rightarrow> run_lock" where
  "recovered_lock now l = l\<lparr>l_status := Lock_RELEASED, l_released_at := Some now,
     l_metadata := jput ''orphaned_lock_recovered'' (JBool True) (l_metadata l)\<rparr>"

definition release_orphaned_locks :: "string \<Rightarrow> run_lock list io" where
  "release_orphaned_locks run_id =
    bindM utc_now (\<lambda>now.
    bindM (list_run_locks_for_run run_id) (\<lambda>locks.
    mapM (filter (\<lambda>l. l_status l = Lock_ACQUIRED) locks) (\<lambda>l. update_run_lock (recovered_lock now l))))"

section \<open>Execution\<close>

definition execute_exclusive ::
  "(nat \<Rightarrow> nat) \<Rightarrow> string \<Rightarrow> string \<Rightarrow> 'a io \<Rightarrow> 'a io" where
  "execute_exclusive hb run_id action execute =
    bindM (acquire_lock run_id action) (\<lambda>lock.
    finallyM
      (bindM (thenM (heartbeats (hb 0) (l_id lock)) execute) (\<lambda>result.
       thenM (heartbeats (hb 1) (l_id lock)) (returnM result)))
      (thenM (heartbeats (hb 2) (l_id lock)) (thenM (release_lock lock) (returnM ()))))"

record 'a run_coordination_result =
  cr_result :: 'a
  cr_queue_item :: run_queue_item
  cr_lock :: run_lock

text \<open>The \<open>except Exception\<close> clause: note the failure on the queue item, then re-raise.\<close>

definition note_queue_failure :: "bool \<Rightarrow> run_queue_item \<Rightarrow> exn \<Rightarrow> unit io" where
  "note_queue_failure execution_started item exc =
    catchM
      (thenM (if execution_started then update_queue_item_after_execution_error item exc
              else bindM (redact_message (exn_str exc)) (\<lambda>message.
                update_queue_item item Queue_FAILED message))
        (returnM ()))
      (\<lambda>_. returnM ())"

definition noting_failure :: "bool \<Rightarrow> run_queue_item \<Rightarrow> 'a io \<Rightarrow> 'a io" where
  "noting_failure execution_started item m =
    catchM m (\<lambda>exc. thenM (note_queue_failure execution_started item exc) (raiseM exc))"

definition running_message :: "run_queue_item \<Rightarrow> string" where
  "running_message item =
    (if jtruthy (jget (q_metadata item) ''background_worker_started'')
     then ''Local background worker segment is executing.''
     else ''Local synchronous runner segment is executing.'')"

text \<open>The statements of the \<open>try\<close> block once the lock is acquired.\<close>

definition queue_segment ::
  "(nat \<Rightarrow> nat) \<Rightarrow> run_queue_item \<Rightarrow> run_lock \<Rightarrow> 'a io \<Rightarrow> 'a run_coordination_result io" where
  "queue_segment hb queue_item lock execute =
    thenM (heartbeats (hb 0) (l_id lock))
      (bindM (noting_failure False queue_item
               (update_queue_item queue_item Queue_RUNNING (running_message queue_item)))
        (\<lambda>running_item.
         noting_failure True running_item
           (thenM (heartbeats (hb 1) (l_id lock))
             (bindM execute (\<lambda>result.
              thenM (heartbeats (hb 2) (l_id lock))
                (bindM (update_queue_item_for_current_run running_item) (\<lambda>final_item.
                 returnM \<lparr>cr_result = result, cr_queue_item = final_item, cr_lock = lock\<rparr>)))))))"

definition execute_queue_item ::
  "(nat \<Rightarrow> nat) \<Rightarrow> string \<Rightarrow> 'a io \<Rightarrow> 'a run_coordination_result io" where
  "execute_queue_item hb queue_item_id execute =
    bindM (get_run_queue_item queue_item_id) (\<lambda>found. case found of
      None \<Rightarrow> raiseM (RunCoordinationConflict (''Run queue item not found: '' @ queue_item_id))
    | Some queue_item \<Rightarrow>
       thenM (guardM (q_status queue_item = Queue_QUEUED)
         (RunCoordinationConflict (''Run queue item is not queued: '' @ q_id queue_item @ '' (''
            @ run_queue_item_status_value (q_status queue_item) @ '')'')))
       (bindM (noting_failure False queue_item
                (acquire_lock (q_run_id queue_item) (q_action queue_item))) (\<lambda>lock.
        finallyM (queue_segment hb queue_item lock execute)
          (thenM (heartbeats (hb 3) (l_id lock)) (thenM (release_lock lock) (returnM ()))))))"

definition coordinator_execute ::
  "(nat \<Rightarrow> nat) \<Rightarrow> string \<Rightarrow> string \<Rightarrow> 'a io \<Rightarrow> 'a run_coordination_result io" where
  "coordinator_execute hb run_id action execute =
    bindM (create_queue_item run_id action False) (\<lambda>item.
    execute_queue_item hb (q_id item) execute)"

definition start_new_run ::
  "(nat \<Rightarrow> nat) \<Rightarrow> run \<Rightarrow> (run \<Rightarrow> 'a io) \<Rightarrow> 'a run_coordination_result io" where
  "start_new_run hb run execute =
    bindM (enqueue_new_run run ''start_run'' False) (\<lambda>submission.
    execute_queue_item hb (q_id (sub_queue_item submission)) (execute run))"

section \<open>Lemmas\<close>

subsection \<open>Storage writes with attempts\<close>

text \<open>
  A storage write either raises a storage error and leaves the database as it was, or returns
  with a known change.
\<close>

definition stores :: "'a io \<Rightarrow> (db \<Rightarrow> db \<Rightarrow> bool) \<Rightarrow> bool" where
  "stores m Q \<longleftrightarrow> (\<forall>w r w'. m w = (r, w') \<longrightarrow>
     (case r of Inl e \<Rightarrow> is_storage_error e \<and> w_db w' = w_db w | Inr _ \<Rightarrow> Q (w_db w) (w_db w')))"

lemma storesI:
  assumes "\<And>w x w'. m w = (Inr x, w') \<Longrightarrow> Q (w_db w) (w_db w')"
    and "\<And>w e w'. m w = (Inl e, w') \<Longrightarrow> is_storage_error e \<and> w_db w' = w_db w"
  shows "stores m Q"
  using assms by (auto simp: stores_def split: sum.splits)

lemma stores_returns: "stores m Q \<Longrightarrow> m w = (Inr x, w') \<Longrightarrow> Q (w_db w) (w_db w')"
  by (fastforce simp: stores_def)

lemma stores_raises: "stores m Q \<Longrightarrow> m w = (Inl e, w') \<Longrightarrow> is_storage_error e \<and> w_db w' = w_db w"
  by (fastforce simp: stores_def)

lemma stores_attempt:
  assumes "stores m Q" "n \<noteq> 0"
  shows "stores (attempt_write n m) Q"
  using assms(2)
proof (induction n)
  case (Suc n)
  show ?case
  proof (rule storesI)
    fix w x w' assume a: "attempt_write (Suc n) m w = (Inr x, w')"
    obtain r w1 where m: "m w = (r, w1)" by fastforce
    show "Q (w_db w) (w_db w')"
    proof (cases r)
      case (Inr y)
      then have "w' = w1" using a m by (simp add: catch_if_def act_defs)
      then show ?thesis using stores_returns [OF assms(1)] m Inr by blast
    next
      case (Inl e)
      then have e: "is_storage_error e" "w_db w1 = w_db w" using stores_raises [OF assms(1)] m by blast+
      then have "n \<noteq> 0" "attempt_write n m w1 = (Inr x, w')"
        using a m Inl by (auto simp: catch_if_def act_defs split: if_splits)
      then show ?thesis using stores_returns [OF Suc.IH] e(2) by metis
    qed
  next
    fix w e w' assume a: "attempt_write (Suc n) m w = (Inl e, w')"
    obtain r w1 where m: "m w = (r, w1)" by fastforce
    then obtain e1 where r: "r = Inl e1" using a by (cases r) (auto simp: catch_if_def act_defs)
    then have e1: "is_storage_error e1" "w_db w1 = w_db w" using stores_raises [OF assms(1)] m by blast+
    show "is_storage_error e \<and> w_db w' = w_db w"
    proof (cases "n = 0")
      case True
      then show ?thesis using a m r e1 by (simp add: catch_if_def act_defs)
    next
      case False
      then have "attempt_write n m w1 = (Inl e, w')"
        using a m r e1 by (simp add: catch_if_def act_defs)
      then show ?thesis using stores_raises [OF Suc.IH [OF False]] e1 by metis
    qed
  qed
qed simp

lemma stores_then_return:
  assumes "stores m Q"
  shows "stores (thenM m (returnM x)) Q"
proof (rule storesI)
  fix w y w' assume "thenM m (returnM x) w = (Inr y, w')"
  then obtain z where "m w = (Inr z, w')" unfolding thenM_returns returnM_returns by blast
  then show "Q (w_db w) (w_db w')" by (rule stores_returns [OF assms])
next
  fix w e w' assume "thenM m (returnM x) w = (Inl e, w')"
  then have "m w = (Inl e, w')" unfolding thenM_def bindM_raises by (simp add: returnM_def)
  then show "is_storage_error e \<and> w_db w' = w_db w" by (rule stores_raises [OF assms])
qed

lemma stores_after_read:
  assumes same: "\<And>w r w'. m w = (r, w') \<Longrightarrow> w_db w' = w_db w"
    and err: "\<And>w e w'. m w = (Inl e, w') \<Longrightarrow> is_storage_error e"
    and f: "\<And>x. stores (f x) Q"
  shows "stores (bindM m f) Q"
proof (rule storesI)
  fix w y w' assume "bindM m f w = (Inr y, w')"
  then obtain x w1 where m: "m w = (Inr x, w1)" "f x w1 = (Inr y, w')"
    unfolding bindM_returns by blast
  show "Q (w_db w) (w_db w')" using stores_returns [OF f m(2)] same [OF m(1)] by simp
next
  fix w e w' assume "bindM m f w = (Inl e, w')"
  then show "is_storage_error e \<and> w_db w' = w_db w"
    unfolding bindM_raises
  proof (elim disjE exE conjE)
    assume "m w = (Inl e, w')"
    then show ?thesis using same err by blast
  next
    fix x w1 assume m: "m w = (Inr x, w1)" "f x w1 = (Inl e, w')"
    show ?thesis using stores_raises [OF f m(2)] same [OF m(1)] by simp
  qed
qed

lemma stores_after_run_exists: "stores m Q \<Longrightarrow> stores (thenM (ensure_run_exists i) m) Q"
  unfolding thenM_def
  by (rule stores_after_read) (auto simp: ensure_run_exists_def act_defs split: if_splits)

lemma stores_guard: "stores m Q \<Longrightarrow> stores (thenM (guardM g (StorageError e)) m) Q"
  by (cases g) (simp_all add: thenM_def bindM_def guardM_def returnM_def raiseM_def stores_def)

definition lock_replaced :: "run_lock \<Rightarrow> db \<Rightarrow> db \<Rightarrow> bool" where
  "lock_replaced l d d' \<longleftrightarrow> d' = put_locks (replace_row l_id l (d_locks d)) d \<and> schema_ok d'
     \<and> l_id l \<in> set (map l_id (d_locks d))"

definition item_replaced :: "run_queue_item \<Rightarrow> db \<Rightarrow> db \<Rightarrow> bool" where
  "item_replaced q d d' \<longleftrightarrow> d' = put_queue (replace_row q_id q (d_queue d)) d \<and> schema_ok d'
     \<and> q_id q \<in> set (map q_id (d_queue d))"

definition lock_added :: "run_lock \<Rightarrow> db \<Rightarrow> db \<Rightarrow> bool" where
  "lock_added l d d' \<longleftrightarrow> d' = put_locks (d_locks d @ [l]) d \<and> schema_ok d'
     \<and> (l_status l = Lock_ACQUIRED \<longrightarrow> active_locks (l_run_id l) d = [])"

lemma stores_update_run_lock: "stores (update_run_lock l) (lock_replaced l)"
proof -
  have upd: "stores (update_model ''run_locks'' d_locks put_locks l_id l) (lock_replaced l)"
  proof (rule storesI)
    fix w x w' assume "update_model ''run_locks'' d_locks put_locks l_id l w = (Inr x, w')"
    then show "lock_replaced l (w_db w) (w_db w')"
      unfolding lock_replaced_def using lock_table.update_returns by blast
  next
    fix w e w' assume "update_model ''run_locks'' d_locks put_locks l_id l w = (Inl e, w')"
    then show "is_storage_error e \<and> w_db w' = w_db w"
      using lock_table.update_cases by fastforce
  qed
  show ?thesis
    unfolding update_run_lock_def
    by (rule stores_after_run_exists, subst thenM_def, rule stores_after_read [OF _ _ stores_then_return [OF upd]])
      (auto simp: get_active_run_lock_def act_defs split: if_splits)
qed

lemma stores_update_queue_row: "stores (update_run_queue_item q) (item_replaced q)"
  unfolding update_run_queue_item_def
proof (rule stores_after_run_exists, rule stores_then_return, rule storesI)
  fix w x w' assume "update_model ''run_queue_items'' d_queue put_queue q_id q w = (Inr x, w')"
  then show "item_replaced q (w_db w) (w_db w')"
    unfolding item_replaced_def using queue_table.update_returns by blast
next
  fix w e w' assume "update_model ''run_queue_items'' d_queue put_queue q_id q w = (Inl e, w')"
  then show "is_storage_error e \<and> w_db w' = w_db w"
    using queue_table.update_cases by fastforce
qed

lemma stores_create_run_lock: "stores (create_run_lock l) (lock_added l)"
proof -
  have ins: "stores (insert_model d_locks put_locks l) (\<lambda>d d'. d' = put_locks (d_locks d @ [l]) d \<and> schema_ok d')"
  proof (rule storesI)
    fix w x w' assume i: "insert_model d_locks put_locks l w = (Inr x, w')"
    show "w_db w' = put_locks (d_locks (w_db w) @ [l]) (w_db w) \<and> schema_ok (w_db w')"
      using lock_table.insert_returns [OF i] by blast
  next
    fix w e w' assume "insert_model d_locks put_locks l w = (Inl e, w')"
    then show "is_storage_error e \<and> w_db w' = w_db w"
      using insert_model_cases by fastforce
  qed
  have "stores (thenM (insert_model d_locks put_locks l) (returnM l))
      (\<lambda>d d'. d' = put_locks (d_locks d @ [l]) d \<and> schema_ok d')"
    by (rule stores_then_return [OF ins])
  then have all: "stores (create_run_lock l) (\<lambda>d d'. d' = put_locks (d_locks d @ [l]) d \<and> schema_ok d')"
    unfolding create_run_lock_def
    by (intro stores_after_run_exists stores_after_read stores_guard)
      (simp_all add: get_active_run_lock_def getsM_def)
  show ?thesis
  proof (rule storesI)
    fix w x w' assume c: "create_run_lock l w = (Inr x, w')"
    then obtain a w1 where "get_active_run_lock (l_run_id l) w = (Inr a, w1)"
      "\<not> (l_status l = Lock_ACQUIRED \<and> a \<noteq> None)"
      unfolding create_run_lock_def ensure_run_exists_def thenM_returns bindM_returns guardM_returns
        getsM_returns by blast
    with get_active_none have "active_locks (l_run_id l) (w_db w) = [] \<or> l_status l \<noteq> Lock_ACQUIRED"
      by metis
    then show "lock_added l (w_db w) (w_db w')"
      using stores_returns [OF all c] by (auto simp: lock_added_def)
  next
    fix w e w' assume "create_run_lock l w = (Inl e, w')"
    then show "is_storage_error e \<and> w_db w' = w_db w" by (rule stores_raises [OF all])
  qed
qed

subsection \<open>What the steps of the coordinator leave alone\<close>

text \<open>
  The coordinator and its heartbeat see the locks as identity, run and status; a heartbeat
  only rewrites the metadata of a lock.
\<close>

definition lock_view :: "db \<Rightarrow> (string \<times> string \<times> run_lock_status) list" where
  "lock_view d = map (\<lambda>l. (l_id l, l_run_id l, l_status l)) (d_locks d)"

definition frame :: "db \<Rightarrow> db \<Rightarrow> bool" where
  "frame d d' \<longleftrightarrow> lock_view d' = lock_view d \<and> d_runs d' = d_runs d"

definition beat_frame :: "db \<Rightarrow> db \<Rightarrow> bool" where
  "beat_frame d d' \<longleftrightarrow> frame d d' \<and> d_queue d' = d_queue d \<and> (schema_ok d \<longrightarrow> schema_ok d')"

lemma frame_trans: "frame d d' \<Longrightarrow> frame d' d'' \<Longrightarrow> frame d d''"
  by (simp add: frame_def)

lemma beat_frame_refl: "beat_frame d d"
  by (simp add: beat_frame_def frame_def)

lemma beat_frame_trans: "beat_frame d d' \<Longrightarrow> beat_frame d' d'' \<Longrightarrow> beat_frame d d''"
  by (auto simp: beat_frame_def frame_def)

lemma active_ids:
  "map l_id (active_locks R d) =
     map fst (filter (\<lambda>(i, r, s). r = R \<and> s = Lock_ACQUIRED) (lock_view d))"
  by (simp add: lock_view_def active_locks_def filter_map o_def)

lemma lock_view_active: "lock_view d' = lock_view d \<Longrightarrow>
    (active_locks R d' = []) = (active_locks R d = [])"
  using active_ids [of R d] active_ids [of R d'] by (metis map_is_Nil_conv)

lemma view_replace_same:
  assumes "distinct (map l_id ls)" "c \<in> set ls" "l_id l = l_id c" "l_run_id l = l_run_id c"
    "l_status l = l_status c"
  shows "map (\<lambda>l. (l_id l, l_run_id l, l_status l)) (replace_row l_id l ls)
    = map (\<lambda>l. (l_id l, l_run_id l, l_status l)) ls"
  unfolding replace_row_def map_map
proof (rule map_cong [OF refl])
  fix x assume "x \<in> set ls"
  then have "l_id x = l_id l \<Longrightarrow> x = c" using assms(1-3) by (auto simp: distinct_map inj_on_def)
  then show "((\<lambda>l. (l_id l, l_run_id l, l_status l)) \<circ> (\<lambda>x. if l_id x = l_id l then l else x)) x
      = (l_id x, l_run_id x, l_status x)"
    using assms(3-5) by auto
qed

lemma heartbeat_iteration_frame:
  assumes "heartbeat_iteration i w = (r, w')" "schema_ok (w_db w)"
  shows "(\<exists>b. r = Inr b) \<and> beat_frame (w_db w) (w_db w')"
proof (cases "List.find (\<lambda>x. l_id x = i) (d_locks (w_db w))")
  case None
  then show ?thesis using assms(1)
    by (auto simp: heartbeat_iteration_def get_run_lock_def get_model_def act_defs catch_if_def
        beat_frame_refl)
next
  case (Some c)
  show ?thesis
  proof (cases "l_status c = Lock_ACQUIRED")
    case False
    then show ?thesis using assms(1) Some
      by (auto simp: heartbeat_iteration_def get_run_lock_def get_model_def act_defs catch_if_def
          beat_frame_refl)
  next
    case True
    obtain now w1 where now: "utc_now w = (Inr now, w1)" "w_db w1 = w_db w"
      by (simp add: utc_now_def)
    let ?l = "c\<lparr>l_metadata := jput ''heartbeat_at'' (JStr (isoformat now)) (l_metadata c)\<rparr>"
    obtain r1 w2 where u: "update_run_lock ?l w1 = (r1, w2)" by fastforce
    have body: "bindM (get_run_lock i) (\<lambda>current. case current of
         None \<Rightarrow> returnM False
       | Some l \<Rightarrow>
           if l_status l \<noteq> Lock_ACQUIRED then returnM False
           else bindM utc_now (\<lambda>heartbeat_at.
             thenM (update_run_lock (l\<lparr>l_metadata :=
                jput ''heartbeat_at'' (JStr (isoformat heartbeat_at)) (l_metadata l)\<rparr>))
             (returnM True))) w = (map_sum id (\<lambda>_. True) r1, w2)"
    proof -
      have get: "get_run_lock i w = (Inr (Some c), w)"
        by (simp add: get_run_lock_def get_model_def getsM_def Some)
      have "thenM (update_run_lock ?l) (returnM True) w1 = (map_sum id (\<lambda>_. True) r1, w2)"
        using u by (cases r1) (simp_all add: thenM_def bindM_def returnM_def)
      then show ?thesis
        unfolding bindM_after [where m = "get_run_lock i", OF get] option.case True
        by (simp only: bindM_after [where m = utc_now, OF now(1)] simp_thms if_False)
    qed
    have "is_storage_error e" if "r1 = Inl e" for e
      using stores_raises [OF stores_update_run_lock u [unfolded that]] by simp
    then have w': "w' = w2 \<and> (\<exists>b. r = Inr b)"
      using assms(1) unfolding heartbeat_iteration_def catch_if_def catchM_def body
      by (cases r1) (auto simp add: returnM_def)
    show ?thesis
    proof (cases r1)
      case (Inl e)
      then have "w_db w2 = w_db w"
        using stores_raises [OF stores_update_run_lock] u now(2) by metis
      then show ?thesis using w' by (simp add: beat_frame_refl)
    next
      case (Inr y)
      then have "lock_replaced ?l (w_db w) (w_db w2)"
        using stores_returns [OF stores_update_run_lock] u now(2) by metis
      then have d: "w_db w2 = put_locks (replace_row l_id ?l (d_locks (w_db w))) (w_db w)"
        "schema_ok (w_db w2)"
        unfolding lock_replaced_def by blast+
      have "lock_view (w_db w2) = lock_view (w_db w)"
        unfolding lock_view_def d(1)
        using view_replace_same [OF lock_table.keys [OF assms(2)], of c ?l] find_SomeD [OF Some]
        by (simp add: put_locks_def)
      then show ?thesis using d w' by (simp add: beat_frame_def frame_def put_locks_def)
    qed
  qed
qed

lemma heartbeats_frame:
  "heartbeats n i w = (r, w') \<Longrightarrow> schema_ok (w_db w) \<Longrightarrow>
    r = Inr () \<and> beat_frame (w_db w) (w_db w')"
proof (induction n arbitrary: w)
  case 0
  then show ?case by (simp add: returnM_def beat_frame_refl)
next
  case (Suc n)
  obtain b w1 where b: "heartbeat_iteration i w = (Inr b, w1)" "beat_frame (w_db w) (w_db w1)"
    using heartbeat_iteration_frame [OF _ Suc.prems(2)] by (metis surj_pair)
  then have rest: "(if b then heartbeats n i else returnM ()) w1 = (r, w')" "schema_ok (w_db w1)"
    using Suc.prems by (simp_all add: bindM_def beat_frame_def)
  show ?case
  proof (cases b)
    case True
    then show ?thesis using Suc.IH [of w1] rest b(2) beat_frame_trans by auto
  next
    case False
    then show ?thesis using rest b(2) by (simp add: returnM_def)
  qed
qed

subsection \<open>Acquiring and releasing\<close>

lemma acquire_lock_cases:
  assumes "acquire_lock R action w = (r, w')"
  shows "case r of
      Inl e \<Rightarrow> (\<exists>m. e = RunCoordinationConflict m) \<and> w_db w' = w_db w
    | Inr lock \<Rightarrow> l_run_id lock = R \<and> l_status lock = Lock_ACQUIRED \<and> lock_added lock (w_db w) (w_db w')"
proof -
  obtain now w0 i w1 where w: "utc_now w = (Inr now, w0)" "new_id w0 = (Inr i, w1)" "w_db w1 = w_db w"
    by (simp add: utc_now_def new_id_def)
  let ?l = "\<lparr>l_id = i, l_run_id = R, l_owner = ''api:'' @ action,
         l_status = Lock_ACQUIRED, l_acquired_at = now, l_released_at = None,
         l_metadata = [(''local_only'', JBool True), (''scope'', JStr ''run''),
                       (''heartbeat_at'', JStr (isoformat now))]\<rparr>"
  obtain r1 w2 where c: "create_run_lock ?l w1 = (r1, w2)" by fastforce
  have a: "catch_if is_storage_error (create_run_lock ?l)
      (\<lambda>e. raiseM (RunCoordinationConflict (exn_str e))) w1 = (r, w')"
    using assms unfolding acquire_lock_def bindM_after [where m = utc_now, OF w(1)] catch_if_def catchM_def
      bindM_after [where m = new_id, OF w(2)] by simp
  show ?thesis
  proof (cases r1)
    case (Inl e)
    then have "is_storage_error e \<and> w_db w2 = w_db w"
      using stores_raises [OF stores_create_run_lock c [unfolded Inl]] w(3) by simp
    then show ?thesis using a c Inl by (auto simp: catch_if_def catchM_def raiseM_def)
  next
    case (Inr y)
    then have "r = Inr y" "w' = w2" using a c by (simp_all add: catch_if_def catchM_def)
    moreover have "y = ?l"
      using c Inr by (auto simp: create_run_lock_def returns_iff)
    moreover have "lock_added ?l (w_db w) (w_db w2)"
      using stores_returns [OF stores_create_run_lock c [unfolded Inr]] w(3) by simp
    ultimately show ?thesis by simp
  qed
qed

text \<open>Only the lock \<open>i\<close> is acquired for the run \<open>R\<close>.\<close>

definition held_by :: "string \<Rightarrow> string \<Rightarrow> db \<Rightarrow> bool" where
  "held_by R i d \<longleftrightarrow> (\<forall>(j, q, s) \<in> set (lock_view d). q = R \<and> s = Lock_ACQUIRED \<longrightarrow> j = i)
     \<and> distinct (map fst (lock_view d))"

lemma held_by_frame: "frame d d' \<Longrightarrow> held_by R i d \<Longrightarrow> held_by R i d'"
  by (simp add: frame_def held_by_def)

lemma lock_view_keys: "map fst (lock_view d) = map l_id (d_locks d)"
  by (simp add: lock_view_def)

lemma held_after_acquire:
  assumes "lock_added l d d'" "l_status l = Lock_ACQUIRED" "l_run_id l = R"
  shows "held_by R (l_id l) d' \<and> active_locks R d = []"
proof -
  have d': "d' = put_locks (d_locks d @ [l]) d" "schema_ok d'" "active_locks R d = []"
    using assms unfolding lock_added_def by blast+
  have "distinct (map fst (lock_view d'))"
    unfolding lock_view_keys by (rule lock_table.keys [OF d'(2)])
  moreover have "j = l_id l" if "(j, R, Lock_ACQUIRED) \<in> set (lock_view d')" for j
  proof -
    have "(j, R, Lock_ACQUIRED) \<notin> set (lock_view d)"
      using d'(3) by (auto simp: lock_view_def active_locks_def filter_empty_conv)
    then show ?thesis using that unfolding d'(1) by (auto simp: lock_view_def put_locks_def)
  qed
  ultimately show ?thesis using d'(3) by (auto simp: held_by_def)
qed

lemma release_lock_effect:
  assumes "release_lock lock w = (r, w')" "held_by R (l_id lock) (w_db w)"
  shows "d_runs (w_db w') = d_runs (w_db w) \<and> d_queue (w_db w') = d_queue (w_db w) \<and>
    (case r of Inl e \<Rightarrow> is_storage_error e | Inr _ \<Rightarrow> active_locks R (w_db w') = [])"
proof (cases "List.find (\<lambda>x. l_id x = l_id lock) (d_locks (w_db w))")
  case None
  then have "r = Inr lock" "w' = w"
    using assms(1) by (simp_all add: release_lock_def get_run_lock_def get_model_def act_defs)
  moreover have "active_locks R (w_db w) = []"
    using assms(2) None
    by (auto simp: held_by_def lock_view_def active_locks_def filter_empty_conv find_None_iff)
  ultimately show ?thesis by simp
next
  case (Some c)
  have dist: "distinct (map l_id (d_locks (w_db w)))"
    using assms(2) by (simp add: held_by_def lock_view_keys)
  have uniq: "x = c" if "x \<in> set (d_locks (w_db w))" "l_id x = l_id lock" for x
    using find_SomeD [OF Some] that dist by (auto simp: distinct_map inj_on_def)
  have only: "x = c" if "x \<in> set (d_locks (w_db w))" "l_run_id x = R" "l_status x = Lock_ACQUIRED" for x
    using assms(2) that uniq [OF that(1)] by (auto simp: held_by_def lock_view_def)
  show ?thesis
  proof (cases "l_status c = Lock_RELEASED")
    case True
    then have "r = Inr lock" "w' = w"
      using assms(1) Some by (simp_all add: release_lock_def get_run_lock_def get_model_def act_defs)
    moreover have "active_locks R (w_db w) = []"
      using only True by (auto simp: active_locks_def filter_empty_conv)
    ultimately show ?thesis by simp
  next
    case False
    obtain now w1 where now: "utc_now w = (Inr now, w1)" "w_db w1 = w_db w"
      by (simp add: utc_now_def)
    let ?l = "c\<lparr>l_status := Lock_RELEASED, l_released_at := Some now\<rparr>"
    let ?m = "thenM (attempt_write RUN_QUEUE_WRITE_ATTEMPTS (update_run_lock ?l)) (returnM ?l)"
    have get: "get_run_lock (l_id lock) w = (Inr (Some c), w)"
      by (simp add: get_run_lock_def get_model_def getsM_def Some)
    have m: "?m w1 = (r, w')"
      using assms(1) False
      unfolding release_lock_def bindM_after [where m = "get_run_lock (l_id lock)", OF get] option.case Let_def
      by (simp only: bindM_after [where m = utc_now, OF now(1)] if_False)
    have st: "stores ?m (lock_replaced ?l)"
      by (intro stores_then_return stores_attempt stores_update_run_lock)
        (simp add: RUN_QUEUE_WRITE_ATTEMPTS_def)
    show ?thesis
    proof (cases r)
      case (Inl e)
      then show ?thesis using stores_raises [OF st m [unfolded Inl]] now(2) by simp
    next
      case (Inr y)
      have d: "w_db w' = put_locks (replace_row l_id ?l (d_locks (w_db w))) (w_db w)"
        using stores_returns [OF st m [unfolded Inr]] now(2) unfolding lock_replaced_def by metis
      have "active_locks R (w_db w') = []"
        using only by (auto simp: active_locks_def d put_locks_def filter_empty_conv replace_row_def)
      then show ?thesis using Inr by (simp add: d put_locks_def)
    qed
  qed
qed

subsection \<open>A release that fails\<close>

text \<open>The number of write statements that failed between two worlds.\<close>

definition failed_writes :: "world \<Rightarrow> world \<Rightarrow> nat" where
  "failed_writes w w' = length (filter (\<lambda>k. w_fault w' k \<noteq> None) [w_ios w..<w_ios w'])"

text \<open>\<open>n\<close> of the write statements from \<open>w\<close> to \<open>w'\<close> failed, the last with \<open>e\<close>, and nothing was stored.\<close>

definition fails_by :: "nat \<Rightarrow> exn \<Rightarrow> world \<Rightarrow> world \<Rightarrow> bool" where
  "fails_by n e w w' \<longleftrightarrow> (\<exists>msg. e = StorageError msg) \<and> w_db w' = w_db w \<and> w_fault w' = w_fault w
     \<and> w_ios w \<le> w_ios w' \<and> failed_writes w w' = n"

lemma fails_by_trans: "fails_by m e0 w w1 \<Longrightarrow> fails_by n e w1 w' \<Longrightarrow> fails_by (m + n) e w w'"
proof -
  assume a: "fails_by m e0 w w1" "fails_by n e w1 w'"
  then have "w_ios w \<le> w_ios w1" "w_ios w1 \<le> w_ios w'" by (simp_all add: fails_by_def)
  then have "[w_ios w..<w_ios w'] = [w_ios w..<w_ios w1] @ [w_ios w1..<w_ios w']"
    by (metis le_Suc_ex upt_add_eq_append)
  then show ?thesis using a by (auto simp: fails_by_def failed_writes_def)
qed

lemma update_model_fails:
  assumes "update_model table rows put rid r w = (Inl e, w')"
    and "schema_ok (put (replace_row rid r (rows (w_db w))) (w_db w))"
    and "rid r \<in> set (map rid (rows (put (replace_row rid r (rows (w_db w))) (w_db w))))"
  shows "fails_by 1 e w w'"
  using assms
  by (auto simp: update_model_def transaction_def write_statement_def sqlite_io_def act_defs Let_def
      fails_by_def failed_writes_def split: if_splits option.splits)


lemma update_run_lock_fails:
  assumes "update_run_lock l w = (Inl e, w')" "l_status l = Lock_RELEASED"
    and "schema_ok (put_locks (replace_row l_id l (d_locks (w_db w))) (w_db w))"
    and "l_id l \<in> set (map l_id (d_locks (w_db w)))"
  shows "fails_by 1 e w w'"
proof -
  have "l_run_id l \<in> set (map rr_id (d_runs (w_db w)))"
    using assms(3,4) by (auto simp: schema_ok_def foreign_keys_ok_def Let_def references_def put_locks_def replace_row_def)
  then have "update_model ''run_locks'' d_locks put_locks l_id l w = (Inl e, w')"
    using assms(1,2) by (auto simp: update_run_lock_def ensure_run_exists_def act_defs split: sum.splits prod.splits if_splits)
  then show ?thesis
    by (rule update_model_fails) (use assms(3,4) in \<open>auto simp: put_locks_def replace_row_def\<close>)
qed

lemma attempts_fail:
  assumes fails: "\<And>w1 e w'. w_db w1 = w_db w \<Longrightarrow> m w1 = (Inl e, w') \<Longrightarrow> fails_by 1 e w1 w'"
  shows "attempt_write (Suc n) m w1 = (Inl e, w') \<Longrightarrow> w_db w1 = w_db w \<Longrightarrow> fails_by (Suc n) e w1 w'"
proof (induction n arbitrary: w1)
  case 0
  then show ?case using fails
    by (auto simp: catch_if_def catchM_def thenM_def bindM_def raiseM_def returnM_def split: sum.splits prod.splits if_splits)
next
  case (Suc n)
  obtain e0 w2 where w2: "m w1 = (Inl e0, w2)"
      "attempt_write (Suc n) m w2 = (Inl e, w') \<or> \<not> is_storage_error e0"
    using Suc.prems(1)
    by (auto simp: catch_if_def catchM_def thenM_def bindM_def raiseM_def returnM_def split: sum.splits prod.splits if_splits)
  have f: "fails_by 1 e0 w1 w2" by (rule fails [OF Suc.prems(2) w2(1)])
  then have "w_db w2 = w_db w" "is_storage_error e0" using Suc.prems(2) by (auto simp: fails_by_def)
  then have "fails_by (Suc n) e w2 w'" using w2(2) Suc.IH by blast
  from fails_by_trans [OF f this] show ?case by simp
qed

lemma release_lock_fails:
  assumes "release_lock lock w = (Inl e, w')" "schema_ok (w_db w)"
  shows "fails_by RUN_QUEUE_WRITE_ATTEMPTS e w w'"
proof -
  obtain c where c: "List.find (\<lambda>x. l_id x = l_id lock) (d_locks (w_db w)) = Some c" "l_status c \<noteq> Lock_RELEASED"
    using assms(1) by (auto simp: release_lock_def get_run_lock_def get_model_def act_defs split: option.splits if_splits)
  obtain now w1 where now: "utc_now w = (Inr now, w1)" "w_db w1 = w_db w" "w_ios w1 = w_ios w" "w_fault w1 = w_fault w"
    by (simp add: utc_now_def)
  let ?l = "c\<lparr>l_status := Lock_RELEASED, l_released_at := Some now\<rparr>"
  have get: "get_run_lock (l_id lock) w = (Inr (Some c), w)"
    by (simp add: get_run_lock_def get_model_def getsM_def c)
  have "thenM (attempt_write RUN_QUEUE_WRITE_ATTEMPTS (update_run_lock ?l)) (returnM ?l) w1 = (Inl e, w')"
    using assms(1) c(2)
    unfolding release_lock_def bindM_after [where m = "get_run_lock (l_id lock)", OF get] option.case Let_def
    by (simp only: bindM_after [where m = utc_now, OF now(1)] if_False)
  then have run: "attempt_write (Suc 2) (update_run_lock ?l) w1 = (Inl e, w')"
    by (auto simp: RUN_QUEUE_WRITE_ATTEMPTS_def thenM_def bindM_def returnM_def numeral_2_eq_2 numeral_3_eq_3 split: sum.splits prod.splits)
  have mem: "c \<in> set (d_locks (w_db w))" using find_SomeD [OF c(1)] by blast
  have "schema_ok (put_locks (replace_row l_id ?l (d_locks (w_db w))) (w_db w))"
  proof -
    have keys: "map l_id (replace_row l_id ?l (d_locks (w_db w))) = map l_id (d_locks (w_db w))"
      by (auto simp: replace_row_def)
    have "set (map l_run_id (replace_row l_id ?l (d_locks (w_db w)))) \<subseteq> set (map l_run_id (d_locks (w_db w)))"
      using mem by (auto simp: replace_row_def)
    also have "\<dots> \<subseteq> set (map rr_id (d_runs (w_db w)))"
      using assms(2) by (simp add: schema_ok_def foreign_keys_ok_def Let_def references_def)
    finally show ?thesis using assms(2) keys
      by (simp add: schema_ok_def primary_keys_ok_def foreign_keys_ok_def unique_roles_ok_def Let_def references_def put_locks_def)
  qed
  then have "fails_by 1 e w2 w3" if "w_db w2 = w_db w" "update_run_lock ?l w2 = (Inl e, w3)" for e w2 w3
    by (intro update_run_lock_fails [OF that(2)]) (use that(1) mem in simp_all)
  from attempts_fail [OF this run now(2)] have "fails_by (Suc 2) e w1 w'" .
  then show ?thesis using now(2-4) by (auto simp: fails_by_def failed_writes_def RUN_QUEUE_WRITE_ATTEMPTS_def)
qed

subsection \<open>Exclusive execution\<close>

text \<open>What is assumed of the executed code: it leaves the locks alone.\<close>

definition leaves_locks :: "'a io \<Rightarrow> bool" where
  "leaves_locks m \<longleftrightarrow> (\<forall>w. lock_view (w_db (snd (m w))) = lock_view (w_db w))"

text \<open>
  Released in a \<open>finally\<close> block: the lock of the run is gone whatever was raised, unless the last
  thing that ran is a release of which every attempt had a write that SQLite failed.
\<close>

definition ends_unlocked :: "string \<Rightarrow> exn + 'a \<Rightarrow> world \<Rightarrow> bool" where
  "ends_unlocked R r w' \<longleftrightarrow> active_locks R (w_db w') = []
     \<or> (\<exists>e lock w1. r = Inl e \<and> l_run_id lock = R \<and> release_lock lock w1 = (Inl e, w')
          \<and> fails_by RUN_QUEUE_WRITE_ATTEMPTS e w1 w')"

text \<open>
  The protected part: an action that keeps the lock view, then the cleanup with its
  heartbeats and the release.
\<close>

lemma protected_ends_unlocked:
  assumes fin: "finallyM m (thenM (heartbeats n (l_id lock)) (thenM (release_lock lock) (returnM ()))) w = (r, w')"
    and m: "\<And>r w1. m w = (r, w1) \<Longrightarrow> lock_view (w_db w1) = lock_view (w_db w)"
    and ok: "\<And>r w1. m w = (r, w1) \<Longrightarrow> schema_ok (w_db w1)"
    and held: "held_by R (l_id lock) (w_db w)" and of_run: "l_run_id lock = R"
  shows "ends_unlocked R r w'
    \<and> (\<forall>x. r = Inr x \<longrightarrow> (\<exists>w1. m w = (Inr x, w1) \<and> d_runs (w_db w') = d_runs (w_db w1)
         \<and> d_queue (w_db w') = d_queue (w_db w1)))"
proof -
  obtain r1 w1 where m1: "m w = (r1, w1)" by fastforce
  obtain u w2 where b: "heartbeats n (l_id lock) w1 = (Inr (), w2)" "beat_frame (w_db w1) (w_db w2)"
    using heartbeats_frame [OF _ ok [OF m1]] by (metis surj_pair)
  obtain r3 w3 where rel: "release_lock lock w2 = (r3, w3)" by fastforce
  have "held_by R (l_id lock) (w_db w2)"
    using held m [OF m1] b(2) by (simp add: held_by_def beat_frame_def frame_def)
  note e = release_lock_effect [OF rel this]
  have "(r, w') = (case r3 of Inl e \<Rightarrow> (Inl e, w3) | Inr _ \<Rightarrow> (r1, w3))"
    using fin m1 b(1) rel
    by (simp add: finallyM_def thenM_def bindM_def returnM_def split: sum.splits)
  then show ?thesis
  proof (cases r3)
    case (Inl x)
    have "fails_by RUN_QUEUE_WRITE_ATTEMPTS x w2 w3"
      using release_lock_fails [OF rel [unfolded Inl]] ok [OF m1] b(2) by (simp add: beat_frame_def)
    then show ?thesis
      using \<open>(r, w') = _\<close> Inl rel of_run by (auto simp: ends_unlocked_def)
  next
    case (Inr x)
    then show ?thesis
      using \<open>(r, w') = _\<close> e m1 b(2) by (auto simp: ends_unlocked_def beat_frame_def frame_def)
  qed
qed

lemma leaves_locksD: "leaves_locks m \<Longrightarrow> m w = (r, w') \<Longrightarrow> lock_view (w_db w') = lock_view (w_db w)"
  by (metis leaves_locks_def snd_conv)

definition keeps_schema :: "'a io \<Rightarrow> bool" where
  "keeps_schema m \<longleftrightarrow> (\<forall>w. schema_ok (w_db w) \<longrightarrow> schema_ok (w_db (snd (m w))))"

lemma keeps_schemaD: "keeps_schema m \<Longrightarrow> m w = (r, w') \<Longrightarrow> schema_ok (w_db w) \<Longrightarrow> schema_ok (w_db w')"
  by (metis keeps_schema_def snd_conv)

text \<open>The lock view survives a sequence of steps that each keep it.\<close>

definition guarded :: "'a io \<Rightarrow> bool" where
  "guarded m \<longleftrightarrow> (\<forall>w r w'. m w = (r, w') \<longrightarrow> schema_ok (w_db w) \<longrightarrow>
     schema_ok (w_db w') \<and> lock_view (w_db w') = lock_view (w_db w))"

lemma guardedD: "guarded m \<Longrightarrow> m w = (r, w') \<Longrightarrow> schema_ok (w_db w)
    \<Longrightarrow> schema_ok (w_db w') \<and> lock_view (w_db w') = lock_view (w_db w)"
  by (simp add: guarded_def)

lemma guardedI: "leaves_locks m \<Longrightarrow> keeps_schema m \<Longrightarrow> guarded m"
  unfolding guarded_def using leaves_locksD keeps_schemaD by blast

lemma guarded_heartbeats: "guarded (heartbeats n i)"
  unfolding guarded_def using heartbeats_frame by (metis beat_frame_def frame_def)

lemma guarded_return: "guarded (returnM x)"
  by (simp add: guarded_def returnM_def)

lemma guarded_raise: "guarded (raiseM e)"
  by (simp add: guarded_def raiseM_def)

lemma guarded_bind:
  assumes "guarded m" "\<And>x. guarded (f x)"
  shows "guarded (bindM m f)"
  unfolding guarded_def
proof (intro allI impI)
  fix w :: world and r w' assume b: "bindM m f w = (r, w')" and ok: "schema_ok (w_db w)"
  obtain r1 w1 where m: "m w = (r1, w1)" by fastforce
  then have 1: "schema_ok (w_db w1)" "lock_view (w_db w1) = lock_view (w_db w)"
    using assms(1) ok unfolding guarded_def by blast+
  show "schema_ok (w_db w') \<and> lock_view (w_db w') = lock_view (w_db w)"
  proof (cases r1)
    case (Inl e)
    then show ?thesis using b m 1 by (simp add: bindM_def)
  next
    case (Inr x)
    then have "f x w1 = (r, w')" using b m by (simp add: bindM_def)
    then show ?thesis using assms(2) 1 unfolding guarded_def by metis
  qed
qed

lemma guarded_then: "guarded m \<Longrightarrow> guarded k \<Longrightarrow> guarded (thenM m k)"
  unfolding thenM_def by (rule guarded_bind)

lemma guarded_catch:
  assumes "guarded m" "\<And>e. guarded (h e)"
  shows "guarded (catchM m h)"
  unfolding guarded_def
proof (intro allI impI)
  fix w :: world and r w' assume b: "catchM m h w = (r, w')" and ok: "schema_ok (w_db w)"
  obtain r1 w1 where m: "m w = (r1, w1)" by fastforce
  then have 1: "schema_ok (w_db w1)" "lock_view (w_db w1) = lock_view (w_db w)"
    using assms(1) ok unfolding guarded_def by blast+
  show "schema_ok (w_db w') \<and> lock_view (w_db w') = lock_view (w_db w)"
  proof (cases r1)
    case (Inr x)
    then show ?thesis using b m 1 by (simp add: catchM_def)
  next
    case (Inl e)
    then have "h e w1 = (r, w')" using b m by (simp add: catchM_def)
    then show ?thesis using assms(2) 1 unfolding guarded_def by metis
  qed
qed

lemma execute_exclusive_ends_unlocked:
  assumes ex: "execute_exclusive hb R action execute w = (r, w')" and ok: "schema_ok (w_db w)"
    and g: "leaves_locks execute" "keeps_schema execute"
  shows "if active_locks R (w_db w) = [] then ends_unlocked R r w'
    else (\<exists>m. r = Inl (RunCoordinationConflict m)) \<and> w_db w' = w_db w"
proof -
  obtain ra wa where a: "acquire_lock R action w = (ra, wa)" by fastforce
  note acq = acquire_lock_cases [OF a]
  show ?thesis
  proof (cases ra)
    case (Inl e)
    then have "r = Inl e" "w' = wa" using ex a by (simp_all add: execute_exclusive_def bindM_def)
    then show ?thesis using acq Inl by (auto simp: ends_unlocked_def)
  next
    case (Inr lock)
    then have l: "l_run_id lock = R" "l_status lock = Lock_ACQUIRED" "lock_added lock (w_db w) (w_db wa)"
      using acq by simp_all
    note held = held_after_acquire [OF l(3,2,1)]
    have ok': "schema_ok (w_db wa)" using l(3) unfolding lock_added_def by blast
    let ?m = "bindM (thenM (heartbeats (hb 0) (l_id lock)) execute) (\<lambda>result.
       thenM (heartbeats (hb 1) (l_id lock)) (returnM result))"
    have gm: "guarded ?m"
      by (intro guarded_bind guarded_then guarded_heartbeats guarded_return guardedI g)
    have "finallyM ?m (thenM (heartbeats (hb 2) (l_id lock)) (thenM (release_lock lock) (returnM ()))) wa
        = (r, w')"
      using ex unfolding execute_exclusive_def bindM_after [where m = "acquire_lock R action", OF a [unfolded Inr]] .
    then have "ends_unlocked R r w' \<and> (\<forall>x. r = Inr x \<longrightarrow> (\<exists>w1. ?m wa = (Inr x, w1)
         \<and> d_runs (w_db w') = d_runs (w_db w1) \<and> d_queue (w_db w') = d_queue (w_db w1)))"
    proof (rule protected_ends_unlocked)
      show "held_by R (l_id lock) (w_db wa)" "l_run_id lock = R" using held l(1) by blast+
      show "lock_view (w_db w1) = lock_view (w_db wa)" if "?m wa = (r1, w1)" for r1 w1
        using gm ok' that unfolding guarded_def by blast
      show "schema_ok (w_db w1)" if "?m wa = (r1, w1)" for r1 w1
        using gm ok' that unfolding guarded_def by blast
    qed
    then show ?thesis using held by simp
  qed
qed

subsection \<open>Execution of a queue item\<close>

lemma update_queue_item_returns:
  assumes "update_queue_item item status message w = (Inr q, w')"
  shows "q_id q = q_id item \<and> q_run_id q = q_run_id item \<and> q_status q = status
    \<and> item_replaced q (w_db w) (w_db w')"
proof -
  obtain now w1 where now: "utc_now w = (Inr now, w1)" "w_db w1 = w_db w"
    by (simp add: utc_now_def)
  let ?q = "item\<lparr>q_status := status, q_updated_at := now, q_message := message\<rparr>"
  obtain u where u: "attempt_write RUN_QUEUE_WRITE_ATTEMPTS (update_run_queue_item ?q) w1 = (Inr u, w')"
    "q = ?q"
    using assms unfolding update_queue_item_def Let_def bindM_after [where m = utc_now, OF now(1)]
      thenM_returns returnM_returns by blast
  have "stores (attempt_write RUN_QUEUE_WRITE_ATTEMPTS (update_run_queue_item ?q)) (item_replaced ?q)"
    by (intro stores_attempt stores_update_queue_row) (simp add: RUN_QUEUE_WRITE_ATTEMPTS_def)
  from stores_returns [OF this u(1)] now(2) u(2) show ?thesis by simp
qed

lemma guarded_stores:
  assumes "stores m Q" "\<And>d d'. Q d d' \<Longrightarrow> schema_ok d' \<and> d_locks d' = d_locks d"
  shows "guarded m"
  unfolding guarded_def
proof (intro allI impI)
  fix w :: world and r w' assume m: "m w = (r, w')" and ok: "schema_ok (w_db w)"
  show "schema_ok (w_db w') \<and> lock_view (w_db w') = lock_view (w_db w)"
  proof (cases r)
    case (Inl e)
    then show ?thesis using stores_raises [OF assms(1) m [unfolded Inl]] ok by simp
  next
    case (Inr x)
    then show ?thesis
      using assms(2) [OF stores_returns [OF assms(1) m [unfolded Inr]]] by (simp add: lock_view_def)
  qed
qed

lemma guarded_utc_now: "guarded utc_now"
  by (simp add: guarded_def utc_now_def)

lemma guarded_read: "(\<And>I. keeps I m) \<Longrightarrow> guarded m"
  unfolding guarded_def using reads_only by metis

lemma guarded_update_item: "guarded (update_queue_item item status message)"
  unfolding update_queue_item_def Let_def
proof (intro guarded_bind guarded_utc_now guarded_then guarded_return)
  fix now
  show "guarded (attempt_write RUN_QUEUE_WRITE_ATTEMPTS (update_run_queue_item
      (item\<lparr>q_status := status, q_updated_at := now, q_message := message\<rparr>)))"
    by (rule guarded_stores, rule stores_attempt, rule stores_update_queue_row)
      (auto simp: RUN_QUEUE_WRITE_ATTEMPTS_def item_replaced_def put_queue_def)
qed

lemma guarded_current_run: "guarded (update_queue_item_for_current_run item)"
  unfolding update_queue_item_for_current_run_def
  by (rule guarded_bind [OF guarded_read [OF keeps_get(1)]])
    (auto simp: Let_def guarded_update_item split: option.split)

lemma guarded_redact: "guarded (redact_message m)"
  by (simp add: redact_message_def guarded_def getsM_def)

lemma guarded_after_error: "guarded (update_queue_item_after_execution_error item e)"
  unfolding update_queue_item_after_execution_error_def
  by (rule guarded_bind [OF guarded_read [OF keeps_get(1)]])
    (simp add: guarded_current_run guarded_bind guarded_redact guarded_update_item)

lemma guarded_noting: "guarded m \<Longrightarrow> guarded (noting_failure b item m)"
  unfolding noting_failure_def note_queue_failure_def
  by (intro guarded_catch guarded_then guarded_raise guarded_return)
    (simp_all add: guarded_after_error guarded_bind guarded_redact guarded_update_item)

lemma note_queue_failure_returns: "fst (note_queue_failure b item e w) = Inr ()"
  by (simp add: note_queue_failure_def catchM_def returnM_def split: prod.split sum.split)

lemma noting_failure_raises:
  "m w = (Inl e, w1) \<Longrightarrow>
    noting_failure b item m w = (Inl e, snd (note_queue_failure b item e w1))"
  using note_queue_failure_returns [of b item e w1]
  by (cases "note_queue_failure b item e w1")
    (simp add: noting_failure_def catchM_def thenM_def bindM_def raiseM_def)

lemma noting_failure_returns:
  "noting_failure b item m w = (Inr x, w') \<longleftrightarrow> m w = (Inr x, w')"
  by (auto simp: noting_failure_def catchM_def thenM_def bindM_def raiseM_def
      split: prod.splits sum.splits)

lemma current_run_status:
  assumes "update_queue_item_for_current_run item w = (Inr q, w')"
  shows "\<exists>run. get_run (q_run_id item) w = (Inr run, w) \<and> q_id q = q_id item
    \<and> q_run_id q = q_run_id item \<and> item_replaced q (w_db w) (w_db w')
    \<and> q_status q = (case run of None \<Rightarrow> Queue_FAILED | Some r \<Rightarrow> queue_status_for_run_status (r_status r))"
proof -
  obtain run w1 where g: "get_run (q_run_id item) w = (Inr run, w1)"
    and u: "(case run of
      None \<Rightarrow> update_queue_item item Queue_FAILED ''Run disappeared during execution.''
    | Some r \<Rightarrow> let status = queue_status_for_run_status (r_status r) in
        update_queue_item item status (current_run_message status)) w1 = (Inr q, w')"
    using assms unfolding update_queue_item_for_current_run_def bindM_returns by blast
  have "w1 = w" by (rule reads_only [OF keeps_get(1) g])
  then show ?thesis using g u update_queue_item_returns
    by (cases run) (auto simp: Let_def)
qed

lemma get_run_same_rows:
  assumes "d_runs (w_db w') = d_runs (w_db w)" "get_run i w = (Inr x, w)"
  shows "get_run i w' = (Inr x, w')"
proof -
  have load: "load_persisted_run i c w = (Inr r, w) \<Longrightarrow> load_persisted_run i c w' = (Inr r, w')" for c r
    by (cases c) (auto simp: returnM_def raiseM_def split: if_splits)
  show ?thesis
  proof (cases "List.find (\<lambda>x. rr_id x = i) (d_runs (w_db w))")
    case None
    then show ?thesis using assms by (simp add: get_run_def get_model_def bindM_def getsM_def returnM_def)
  next
    case (Some row)
    then obtain r w1 where r: "load_persisted_run i (rr_cell row) w = (Inr r, w1)" "x = Some r"
      using assms(2) by (auto simp: get_run_def returns_iff get_model_returns)
    then have "load_persisted_run i (rr_cell row) w' = (Inr r, w')"
      using load load_persisted_run_returns by metis
    then show ?thesis using Some assms(1) r(2)
      by (simp add: get_run_def get_model_def bindM_def getsM_def returnM_def)
  qed
qed

text \<open>What a segment that returned leaves behind.\<close>

definition segment_recorded :: "string \<Rightarrow> run_queue_item \<Rightarrow> world \<Rightarrow> bool" where
  "segment_recorded item_id q w \<longleftrightarrow> q \<in> set (d_queue (w_db w)) \<and> q_id q = item_id
     \<and> active_locks (q_run_id q) (w_db w) = []
     \<and> (\<exists>run. get_run (q_run_id q) w = (Inr run, w)
         \<and> q_status q = (case run of None \<Rightarrow> Queue_FAILED
             | Some r \<Rightarrow> queue_status_for_run_status (r_status r)))"

lemma guarded_segment:
  assumes "leaves_locks execute" "keeps_schema execute"
  shows "guarded (queue_segment hb item lock execute)"
  unfolding queue_segment_def
  by (intro guarded_then guarded_bind guarded_heartbeats guarded_noting guarded_update_item
      guarded_current_run guarded_return guardedI assms)

lemma queue_segment_returns:
  assumes "queue_segment hb item lock execute w = (Inr out, w')" "schema_ok (w_db w)"
  shows "q_id (cr_queue_item out) = q_id item \<and> q_run_id (cr_queue_item out) = q_run_id item
    \<and> cr_queue_item out \<in> set (d_queue (w_db w'))
    \<and> (\<exists>run. get_run (q_run_id item) w' = (Inr run, w')
        \<and> q_status (cr_queue_item out) = (case run of None \<Rightarrow> Queue_FAILED
             | Some r \<Rightarrow> queue_status_for_run_status (r_status r)))"
proof -
  obtain w1 w2 q1 w3 q2 w4 where q1: "update_queue_item item Queue_RUNNING (running_message item) w1 = (Inr q1, w2)"
    and q2: "update_queue_item_for_current_run q1 w3 = (Inr q2, w4)"
    and out: "cr_queue_item out = q2" "w' = w4"
    using assms(1) unfolding queue_segment_def
    by (auto simp: thenM_returns bindM_returns returnM_returns noting_failure_returns)
  note u = update_queue_item_returns [OF q1]
  obtain run where run: "get_run (q_run_id q1) w3 = (Inr run, w3)" "q_id q2 = q_id q1"
    "q_run_id q2 = q_run_id q1" "item_replaced q2 (w_db w3) (w_db w4)"
    "q_status q2 = (case run of None \<Rightarrow> Queue_FAILED | Some r \<Rightarrow> queue_status_for_run_status (r_status r))"
    using current_run_status [OF q2] by blast
  have d: "w_db w4 = put_queue (replace_row q_id q2 (d_queue (w_db w3))) (w_db w3)"
    "q_id q2 \<in> q_id ` set (d_queue (w_db w3))"
    using run(4) unfolding item_replaced_def by auto
  then have "q2 \<in> set (d_queue (w_db w4))" "d_runs (w_db w4) = d_runs (w_db w3)"
    by (simp_all add: put_queue_def replace_row_set)
  then show ?thesis
    using u run out get_run_same_rows [OF _ run(1), of w4] by auto
qed

lemma execute_queue_item_effect:
  assumes ex: "execute_queue_item hb item_id execute w = (r, w')" and ok: "schema_ok (w_db w)"
    and g: "leaves_locks execute" "keeps_schema execute"
    and item: "item \<in> set (d_queue (w_db w))" "q_id item = item_id" "q_status item = Queue_QUEUED"
  shows "if active_locks (q_run_id item) (w_db w) = []
    then ends_unlocked (q_run_id item) r w'
      \<and> (\<forall>out. r = Inr out \<longrightarrow> segment_recorded item_id (cr_queue_item out) w')
    else (\<exists>m. r = Inl (RunCoordinationConflict m)) \<and> lock_view (w_db w') = lock_view (w_db w)"
proof -
  let ?R = "q_run_id item"
  have f: "get_run_queue_item item_id w = (Inr (Some item), w)"
    using find_unique [OF queue_table.keys [OF ok] item(1)] item(2)
    by (simp add: get_run_queue_item_def get_model_def getsM_def)
  let ?acq = "noting_failure False item (acquire_lock ?R (q_action item))"
  let ?fin = "\<lambda>lock. finallyM (queue_segment hb item lock execute)
          (thenM (heartbeats (hb 3) (l_id lock)) (thenM (release_lock lock) (returnM ())))"
  have b: "bindM ?acq ?fin w = (r, w')"
    using ex item(3)
    unfolding execute_queue_item_def bindM_after [where m = "get_run_queue_item item_id", OF f] option.case
    by (simp add: thenM_def bindM_def guardM_def returnM_def)
  obtain ra wa where a: "acquire_lock ?R (q_action item) w = (ra, wa)" by fastforce
  note acq = acquire_lock_cases [OF a]
  show ?thesis
  proof (cases ra)
    case (Inl e)
    obtain m where e: "e = RunCoordinationConflict m" "w_db wa = w_db w" using acq Inl by auto
    have nf: "?acq w = (Inl e, w')" "r = Inl e"
      using b noting_failure_raises [where m = "acquire_lock ?R (q_action item)", OF a [unfolded Inl]]
      by (auto simp: bindM_def)
    have gn: "guarded (thenM (note_queue_failure False item e) (raiseM e :: run_lock io))"
      unfolding note_queue_failure_def
      by (intro guarded_then guarded_catch guarded_raise guarded_return)
        (simp_all add: guarded_bind guarded_redact guarded_update_item)
    have "thenM (note_queue_failure False item e) (raiseM e :: run_lock io) wa = (Inl e, w')"
      using nf(1) a Inl by (simp add: noting_failure_def catchM_def)
    from guardedD [OF gn this] ok e(2) have "lock_view (w_db w') = lock_view (w_db w)" by simp
    with lock_view_active [OF this, of ?R] show ?thesis using nf(2) e(1) by (simp add: ends_unlocked_def)
  next
    case (Inr lock)
    then have l: "l_run_id lock = ?R" "l_status lock = Lock_ACQUIRED" "lock_added lock (w_db w) (w_db wa)"
      using acq by simp_all
    note held = held_after_acquire [OF l(3,2,1)]
    have ok': "schema_ok (w_db wa)" using l(3) unfolding lock_added_def by blast
    have fin: "?fin lock wa = (r, w')"
      using b a Inr by (simp add: bindM_def noting_failure_def catchM_def)
    have seg: "ends_unlocked ?R r w' \<and> (\<forall>x. r = Inr x \<longrightarrow>
        (\<exists>w1. queue_segment hb item lock execute wa = (Inr x, w1)
         \<and> d_runs (w_db w') = d_runs (w_db w1) \<and> d_queue (w_db w') = d_queue (w_db w1)))"
    proof (rule protected_ends_unlocked [OF fin])
      show "held_by ?R (l_id lock) (w_db wa)" "l_run_id lock = ?R" using held l(1) by blast+
      show "lock_view (w_db w1) = lock_view (w_db wa)"
        if "queue_segment hb item lock execute wa = (r1, w1)" for r1 w1
        using guarded_segment [OF g] ok' that unfolding guarded_def by blast
      show "schema_ok (w_db w1)" if "queue_segment hb item lock execute wa = (r1, w1)" for r1 w1
        using guarded_segment [OF g] ok' that unfolding guarded_def by blast
    qed
    have "segment_recorded item_id (cr_queue_item out) w'" if out: "r = Inr out" for out
    proof -
      obtain w1 where w1: "queue_segment hb item lock execute wa = (Inr out, w1)"
        "d_runs (w_db w') = d_runs (w_db w1)" "d_queue (w_db w') = d_queue (w_db w1)"
        using seg out by blast
      note q = queue_segment_returns [OF w1(1) ok']
      then show ?thesis
        using seg out w1(2,3) item(2) get_run_same_rows [OF w1(2)]
        by (auto simp: segment_recorded_def ends_unlocked_def)
    qed
    then show ?thesis using seg held by simp
  qed
qed

subsection \<open>Recovery of orphaned locks and submission\<close>

definition released_lock :: "run_lock \<Rightarrow> bool" where
  "released_lock l \<longleftrightarrow> l_status l \<noteq> Lock_ACQUIRED"

lemma update_run_lock_effect:
  "update_run_lock l w = (Inr y, w') \<Longrightarrow>
    w_db w' = put_locks (replace_row l_id l (d_locks (w_db w))) (w_db w)"
  by (drule stores_returns [OF stores_update_run_lock]) (simp add: lock_replaced_def)

interpretation lock_rows: terminal_table d_locks put_locks l_id l_run_id released_lock update_run_lock
  by unfold_locales (auto simp: put_locks_def dest: update_run_lock_effect)

lemma mapM_terminalizes:
  "mapM (filter (\<lambda>x. \<not> terminal x) xs) (\<lambda>x. update (c x)) w = (Inr ys, w') \<Longrightarrow>
    \<exists>names. terminalize_rows terminal c update step xs w = (Inr names, w')"
proof (induction xs arbitrary: w ys)
  case (Cons x xs)
  show ?case
  proof (cases "terminal x")
    case True
    then show ?thesis using Cons by simp
  next
    case False
    then obtain y w1 zs where y: "update (c x) w = (Inr y, w1)"
      "mapM (filter (\<lambda>x. \<not> terminal x) xs) (\<lambda>x. update (c x)) w1 = (Inr zs, w')"
      using Cons.prems by (auto simp: bindM_returns returnM_returns)
    from Cons.IH [OF this(2)] obtain names where
      "terminalize_rows terminal c update step xs w1 = (Inr names, w')" by blast
    then show ?thesis using False y(1) by (auto simp: thenM_returns bindM_returns returnM_returns)
  qed
qed (simp add: returnM_def)

lemma release_orphaned_effect:
  assumes "release_orphaned_locks R w = (Inr ls, w')" "schema_ok (w_db w)"
  shows "\<exists>now. w_db w' = put_locks (map (\<lambda>l. if l_run_id l = R \<and> l_status l = Lock_ACQUIRED
      then recovered_lock now l else l) (d_locks (w_db w))) (w_db w)"
proof -
  obtain now w1 where now: "utc_now w = (Inr now, w1)" "w_db w1 = w_db w"
    by (simp add: utc_now_def)
  let ?xs = "sort_key (\<lambda>x. (l_acquired_at x, l_id x)) (filter (\<lambda>x. l_run_id x = R) (d_locks (w_db w1)))"
  have "mapM (filter (\<lambda>l. \<not> released_lock l) ?xs) (\<lambda>l. update_run_lock (recovered_lock now l)) w1 = (Inr ls, w')"
    using assms(1)
    unfolding release_orphaned_locks_def list_run_locks_for_run_def bindM_after [where m = utc_now, OF now(1)]
    by (auto simp: bindM_returns list_models_returns returnM_returns released_lock_def)
  then obtain names where t: "terminalize_rows released_lock (recovered_lock now) update_run_lock l_owner ?xs w1
      = (Inr names, w')"
    using mapM_terminalizes by blast
  have dist: "distinct (map l_id (d_locks (w_db w1)))"
    using assms(2) now(2) by (simp add: schema_defs)
  then have dist': "distinct (map l_id ?xs)"
    by (auto simp: distinct_map intro: inj_on_subset)
  have "w_db w' = put_locks (map (\<lambda>y. if y \<in> set ?xs \<and> \<not> released_lock y then recovered_lock now y else y)
      (d_locks (w_db w1))) (w_db w1)"
    by (rule lock_rows.terminalize_effect [OF _ t dist dist']) (auto simp: recovered_lock_def)
  moreover have "map (\<lambda>y. if y \<in> set ?xs \<and> \<not> released_lock y then recovered_lock now y else y) (d_locks (w_db w1))
    = map (\<lambda>l. if l_run_id l = R \<and> l_status l = Lock_ACQUIRED then recovered_lock now l else l) (d_locks (w_db w1))"
    by (rule map_cong) (auto simp: released_lock_def)
  ultimately show ?thesis
    unfolding now(2) [symmetric] by (intro exI [of _ now]) (simp only:)
qed

lemma create_run_returns:
  assumes "create_run r w = (Inr y, w')"
  shows "y = r \<and> w_db w' = put_runs (d_runs (w_db w) @ [run_row_of r]) (w_db w)"
proof -
  obtain w1 u where e: "ensure_final_artifact r w = (Inr (), w1)" "dump_run r w1 = (Inr (), w1)"
    "insert_model d_runs put_runs (run_row_of r) w1 = (Inr u, w')" "y = r"
    using assms by (auto simp: create_run_def returns_iff dump_run_def Let_def)
  have "w1 = w"
    using e(1) by (auto simp: ensure_final_artifact_def ensure_artifact_belongs_to_run_def returns_iff
        split: option.splits dest: belongs_returns)
  then show ?thesis using run_table.insert_returns(1) [OF e(3)] e(4) by simp
qed

lemma create_queue_item_returns:
  assumes "create_queue_item R action b w = (Inr q, w')"
  shows "q_run_id q = R \<and> q_action q = action \<and> q_status q = Queue_QUEUED
    \<and> w_db w' = put_queue (d_queue (w_db w) @ [q]) (w_db w)"
proof -
  obtain now w0 i w1 where w: "utc_now w = (Inr now, w0)" "new_id w0 = (Inr i, w1)" "w_db w1 = w_db w"
    by (simp add: utc_now_def new_id_def)
  obtain q0 where q0: "create_run_queue_item q0 w1 = (Inr q, w')" "q_run_id q0 = R"
    "q_action q0 = action" "q_status q0 = Queue_QUEUED"
    using assms unfolding create_queue_item_def bindM_after [where m = utc_now, OF w(1)]
      bindM_after [where m = new_id, OF w(2)] by fastforce
  obtain u where u: "insert_model d_queue put_queue q0 w1 = (Inr u, w')" "q = q0"
    using q0(1) unfolding create_run_queue_item_def ensure_run_exists_def thenM_returns bindM_returns
      guardM_returns getsM_returns returnM_returns by blast
  show ?thesis using queue_table.insert_returns(1) [OF u(1)] u(2) q0 w(3) by simp
qed

lemma enqueue_new_run_returns:
  assumes "enqueue_new_run run action b w = (Inr sub, w')"
  shows "sub_run sub = run \<and> q_run_id (sub_queue_item sub) = r_id run
    \<and> q_status (sub_queue_item sub) = Queue_QUEUED
    \<and> w_db w' = put_queue (d_queue (w_db w) @ [sub_queue_item sub])
        (put_runs (d_runs (w_db w) @ [run_row_of run]) (w_db w))"
proof -
  obtain w1 w2 where t: "bindM (create_run run) (\<lambda>created.
    bindM (create_queue_item (r_id run) action b) (\<lambda>item.
    returnM \<lparr>sub_run = created, sub_queue_item = item\<rparr>)) w1 = (Inr sub, w2)" "w_db w1 = w_db w"
    "w_depth w1 = Suc (w_depth w)" "w_db w' = w_db w2" "w_depth w' = w_depth w2 - 1"
    by (rule transaction_commit [OF assms [unfolded enqueue_new_run_def]])
  obtain r w3 q where c: "create_run run w1 = (Inr r, w3)"
    "create_queue_item (r_id run) action b w3 = (Inr q, w2)" "sub = \<lparr>sub_run = r, sub_queue_item = q\<rparr>"
    using t(1) unfolding bindM_returns returnM_returns by blast
  show ?thesis
    using create_run_returns [OF c(1)] create_queue_item_returns [OF c(2)] c(3) t(2,4)
    by (simp add: put_defs)
qed

section \<open>Properties\<close>

text \<open>
  C3. Exclusive execution: for any code that leaves the locks and the schema alone, with any
  number of heartbeats at any point and any failing statements, a run that is locked makes
  the coordinator raise a conflict without running the code or changing the database, and a
  run that is not locked is unlocked again at the end whatever the code does and raises, a
  storage error included. The one exception is a release that fails itself: it ran last, its
  error is the one raised, and the three writes that it attempted all failed.
\<close>

theorem exclusive_execution_releases_the_lock:
  assumes "execute_exclusive hb R action execute w = (r, w')" "schema_ok (w_db w)"
    and "leaves_locks execute" "keeps_schema execute"
  shows "if active_locks R (w_db w) = [] then ends_unlocked R r w'
    else (\<exists>m. r = Inl (RunCoordinationConflict m)) \<and> w_db w' = w_db w"
  using execute_exclusive_ends_unlocked [OF assms] .

text \<open>
  C4. A segment of the queue: for a queued item whose run is not locked, the run is unlocked
  at the end (or the last thing that ran is a release of which every write failed), and when
  the segment returns, the item's row has the status that mirrors the status of its run at
  that moment. When the run is locked the segment raises a conflict and leaves the locks alone.
\<close>

theorem queue_segment_mirrors_the_run:
  assumes "execute_queue_item hb item_id execute w = (r, w')" "schema_ok (w_db w)"
    and "leaves_locks execute" "keeps_schema execute"
    and "item \<in> set (d_queue (w_db w))" "q_id item = item_id" "q_status item = Queue_QUEUED"
  shows "if active_locks (q_run_id item) (w_db w) = []
    then ends_unlocked (q_run_id item) r w'
      \<and> (\<forall>out. r = Inr out \<longrightarrow> segment_recorded item_id (cr_queue_item out) w')
    else (\<exists>m. r = Inl (RunCoordinationConflict m)) \<and> lock_view (w_db w') = lock_view (w_db w)"
  using execute_queue_item_effect [OF assms] .

text \<open>
  C10. Submitting a new run stores the run and its queued item together or neither: a
  submission that raises outside a transaction leaves the database as it was.
\<close>

theorem submission_is_atomic:
  assumes "enqueue_new_run run action background_worker w = (r, w')" "w_depth w = 0"
  shows "case r of Inl _ \<Rightarrow> w_db w' = w_db w
    | Inr sub \<Rightarrow> sub_run sub = run \<and> q_run_id (sub_queue_item sub) = r_id run
        \<and> q_status (sub_queue_item sub) = Queue_QUEUED
        \<and> w_db w' = put_queue (d_queue (w_db w) @ [sub_queue_item sub])
            (put_runs (d_runs (w_db w) @ [run_row_of run]) (w_db w))"
proof (cases r)
  case (Inl e)
  then show ?thesis
    using transaction_rollback [OF assms(1) [unfolded enqueue_new_run_def Inl] assms(2)] by simp
next
  case (Inr sub)
  then show ?thesis using enqueue_new_run_returns assms(1) by simp
qed

text \<open>
  C11. Releasing the orphaned locks of a run releases each of its acquired locks, so that the
  run is unlocked, and touches no other lock and no other table.
\<close>

theorem orphaned_locks_are_released:
  assumes "release_orphaned_locks R w = (Inr ls, w')" "schema_ok (w_db w)"
  shows "active_locks R (w_db w') = [] \<and> (\<exists>now. w_db w' = put_locks
      (map (\<lambda>l. if l_run_id l = R \<and> l_status l = Lock_ACQUIRED then recovered_lock now l else l)
        (d_locks (w_db w))) (w_db w))"
proof -
  obtain now where d: "w_db w' = put_locks
      (map (\<lambda>l. if l_run_id l = R \<and> l_status l = Lock_ACQUIRED then recovered_lock now l else l)
        (d_locks (w_db w))) (w_db w)"
    using release_orphaned_effect [OF assms] by blast
  let ?f = "\<lambda>l. if l_run_id l = R \<and> l_status l = Lock_ACQUIRED then recovered_lock now l else l"
  have "\<not> (l_run_id (?f l) = R \<and> l_status (?f l) = Lock_ACQUIRED)" for l
    by (simp add: recovered_lock_def)
  then have "filter (\<lambda>l. l_run_id l = R \<and> l_status l = Lock_ACQUIRED) (map ?f (d_locks (w_db w))) = []"
    by (simp only: filter_map o_def filter_empty_conv map_is_Nil_conv simp_thms ball_simps) (rule ballI, rule TrueI)
  then have "active_locks R (w_db w') = []"
    unfolding d active_locks_def put_locks_def by simp
  with d show ?thesis by blast
qed

section \<open>Examples\<close>

definition example_item :: run_queue_item where
  "example_item = \<lparr>q_id = ''item-1'', q_run_id = ''run-1'', q_action = ''start_run'',
     q_status = Queue_QUEUED, q_created_at = 2, q_updated_at = 2, q_message = ''m'',
     q_metadata = [(''background_worker_started'', JBool True)]\<rparr>"

definition example_queue_db :: db where
  "example_queue_db = empty_db\<lparr>d_tasks := [example_task], d_runs := [run_row_of example_run],
     d_queue := [example_item]\<rparr>"

lemma example_queue_ok:
  "schema_ok (w_db (example_world example_queue_db))"
  "schema_ok (w_db (example_world example_locked_db))"
  "active_locks ''run-1'' (w_db (example_world example_queue_db)) = []"
  "example_item \<in> set (d_queue (w_db (example_world example_queue_db)))"
  by (code_simp, code_simp, code_simp, simp add: example_world_def example_queue_db_def)

lemma return_leaves: "leaves_locks (returnM x)" "keeps_schema (returnM x)"
  by (simp_all add: leaves_locks_def keeps_schema_def returnM_def)

lemma raise_leaves: "leaves_locks (raiseM e)" "keeps_schema (raiseM e)"
  by (simp_all add: leaves_locks_def keeps_schema_def raiseM_def)

text \<open>The code raises a storage error, and no write of the coordinator fails.\<close>

theorem exclusive_execution_releases_the_lock_witness:
  "(\<exists>m. fst (execute_exclusive (\<lambda>_. 2) ''run-1'' ''resume'' (returnM ()) (example_world example_locked_db))
     = Inl (RunCoordinationConflict m))
   \<and> active_locks ''run-1'' (w_db (snd (execute_exclusive (\<lambda>_. 2) ''run-1'' ''resume''
       (raiseM (StorageError ''disk I/O error'') :: unit io) (example_world example_queue_db)))) = []"
proof -
  have locked: "active_locks ''run-1'' (w_db (example_world example_locked_db)) \<noteq> []" by code_simp
  let ?run = "\<lambda>m d. execute_exclusive (\<lambda>_. 2) ''run-1'' ''resume'' (m :: unit io) (example_world d)"
  let ?raise = "?run (raiseM (StorageError ''disk I/O error'')) example_queue_db"
  have split: "?run m d = (fst (?run m d), snd (?run m d))" for m d by simp
  have no_fault: "w_fault (snd ?raise) k = None" for k by code_simp
  have "\<not> fails_by RUN_QUEUE_WRITE_ATTEMPTS e w1 (snd ?raise)" for e w1
    by (simp add: fails_by_def failed_writes_def no_fault RUN_QUEUE_WRITE_ATTEMPTS_def)
  moreover have "ends_unlocked ''run-1'' (fst ?raise) (snd ?raise)"
    using exclusive_execution_releases_the_lock [OF split example_queue_ok(1) raise_leaves] example_queue_ok(3)
    by (simp only: if_True simp_thms)
  ultimately have "active_locks ''run-1'' (w_db (snd ?raise)) = []" by (simp add: ends_unlocked_def)
  then show ?thesis
    using exclusive_execution_releases_the_lock [OF split example_queue_ok(2) return_leaves] locked
    by (simp only: if_False simp_thms)
qed

theorem queue_segment_mirrors_the_run_witness:
  "\<exists>out. segment_recorded ''item-1'' out
     (snd (execute_queue_item (\<lambda>_. 0) ''item-1'' (returnM ()) (example_world example_queue_db)))"
proof -
  let ?run = "execute_queue_item (\<lambda>_. 0) ''item-1'' (returnM ()) (example_world example_queue_db)"
  have "returned ?run" by code_simp
  then obtain out where out: "?run = (Inr out, snd ?run)" by (rule returnedE)
  have "q_id example_item = ''item-1''" "q_status example_item = Queue_QUEUED"
    "q_run_id example_item = ''run-1''" by (simp_all add: example_item_def)
  note ids = this
  have free: "active_locks (q_run_id example_item) (w_db (example_world example_queue_db)) = []"
    unfolding ids(3) by (rule example_queue_ok(3))
  show ?thesis
    using queue_segment_mirrors_the_run [OF out example_queue_ok(1) return_leaves example_queue_ok(4) ids(1,2)]
    unfolding if_P [OF free] by blast
qed

theorem submission_is_atomic_witness:
  "d_runs (w_db (snd (enqueue_new_run example_run ''start_run'' True
     (example_world (empty_db\<lparr>d_tasks := [example_task]\<rparr>))))) = [run_row_of example_run]"
proof -
  let ?w = "example_world (empty_db\<lparr>d_tasks := [example_task]\<rparr>)"
  have "returned (enqueue_new_run example_run ''start_run'' True ?w)" by code_simp
  then obtain sub where "enqueue_new_run example_run ''start_run'' True ?w
      = (Inr sub, snd (enqueue_new_run example_run ''start_run'' True ?w))"
    by (rule returnedE)
  from submission_is_atomic [OF this] show ?thesis
    by (simp add: put_queue_def put_runs_def example_world_def empty_db_def)
qed

theorem orphaned_locks_are_released_witness:
  "active_locks ''run-1''
     (w_db (snd (release_orphaned_locks ''run-1'' (example_world example_locked_db)))) = []"
proof -
  let ?run = "release_orphaned_locks ''run-1'' (example_world example_locked_db)"
  have "returned ?run" by code_simp
  then obtain ls where "?run = (Inr ls, snd ?run)" by (rule returnedE)
  from orphaned_locks_are_released [OF this example_queue_ok(2)] show ?thesis by blast
qed

end
