(* ===== verification/Storage_Frames.thy ===== *)
theory Storage_Frames imports Runtime_Control begin

text \<open>
  What a storage operation cannot touch. The locale \<open>storage_frame\<close> is the contract of an
  assertion on the world that survives the primitives of \<open>Store\<close> (clock, ids, a write
  statement, a transaction); inside it every operation of the storage, the trace logger and
  the closing of open runtime state keeps the assertion. It holds for the constraints of the
  schema and for the part of the world outside the database.
\<close>

locale storage_frame =
  fixes I :: "world \<Rightarrow> bool"
  assumes frame_now: "keeps I utc_now"
    and frame_id: "keeps I new_id"
    and frame_write: "keeps I (write_statement f)"
    and frame_transaction_unit: "\<And>m :: unit io. keeps I m \<Longrightarrow> keeps I (transaction m)"
begin

text \<open>The value that a transaction returns does not matter for the state.\<close>

lemma frame_transaction: "keeps I m \<Longrightarrow> keeps I (transaction m)"
proof -
  assume m: "keeps I m"
  have "snd (transaction m w) = snd (transaction (thenM m (returnM ())) w)" for w
    by (simp add: transaction_def thenM_def bindM_def returnM_def Let_def
        split: prod.split sum.split)
  moreover have "keeps I (transaction (thenM m (returnM ())))"
    by (intro frame_transaction_unit keeps_thenM m keeps_returnM)
  ultimately show ?thesis by (simp add: keeps_def)
qed

lemmas frame_basics = frame_now frame_id frame_write frame_transaction

lemma frame_rows:
  "keeps I (insert_model rows put r)" "keeps I (update_model table rows put rid r)"
  unfolding insert_model_def update_model_def by (intro frame_basics keeps_intros)+

lemma frame_guards:
  "keeps I (ensure_run_exists i)" "keeps I (ensure_belongs_to_run kind rows rid run_of i j)"
  "keeps I (ensure_agent_run_belongs_to_run i j)" "keeps I (ensure_artifact_belongs_to_run i j)"
  "keeps I (ensure_runtime_job_session_matches i job)" "keeps I (ensure_runtime_job_owned job)"
  "keeps I (ensure_final_artifact run)" "keeps I (dump_run run)" "keeps I (ensure_role_free a)"
  "keeps I (get_active_run_lock i)"
  unfolding ensure_run_exists_def ensure_belongs_to_run_def ensure_agent_run_belongs_to_run_def
    ensure_artifact_belongs_to_run_def ensure_runtime_job_session_matches_def
    ensure_runtime_job_owned_def ensure_final_artifact_def dump_run_def ensure_role_free_def
    get_agent_definition_by_pack_role_def get_active_run_lock_def Let_def
  by (intro keeps_intros)+

lemma frame_reads:
  "keeps I (get_task i)" "keeps I (get_run i)" "keeps I (get_agent_definition i)"
  "keeps I (get_agent_definition_by_pack_role p r)" "keeps I (get_agent_run i)"
  "keeps I (get_agent_session i)" "keeps I (get_runtime_job i)" "keeps I (get_artifact i)"
  "keeps I (list_agent_runs_for_run i)" "keeps I (list_agent_sessions_for_run i)"
  "keeps I (list_runtime_jobs_for_run i)" "keeps I (list_artifacts_for_run i)"
  "keeps I (list_trace_events_for_run i)" "keeps I (list_eval_results_for_run i)"
  "keeps I (list_handoffs_for_run i)"
  unfolding get_task_def get_agent_definition_def get_agent_definition_by_pack_role_def
    get_artifact_def list_artifacts_for_run_def list_trace_events_for_run_def
    list_eval_results_for_run_def list_handoffs_for_run_def
  by (intro keeps_intros)+

lemma frame_writes:
  "keeps I (create_task t)" "keeps I (create_run run)" "keeps I (update_run run)"
  "keeps I (create_agent_definition a)" "keeps I (upsert_agent_definition a)"
  "keeps I (create_agent_run x)" "keeps I (update_agent_run x)"
  "keeps I (create_agent_session s)" "keeps I (update_agent_session s)"
  "keeps I (create_runtime_job j)" "keeps I (update_runtime_job j)"
  "keeps I (create_handoff h)" "keeps I (create_artifact art)" "keeps I (delete_artifact i)"
  "keeps I (append_trace_event e)" "keeps I (create_eval_result v)"
  unfolding create_task_def create_run_def update_run_def create_agent_definition_def
    upsert_agent_definition_def get_agent_definition_def create_agent_run_def update_agent_run_def
    create_agent_session_def update_agent_session_def create_runtime_job_def update_runtime_job_def
    create_handoff_def create_artifact_def delete_artifact_def append_trace_event_def
    create_eval_result_def
  by (intro frame_rows frame_guards frame_basics keeps_intros)+

lemma frame_trace: "keeps I (record_trace i t p a d)"
  unfolding record_trace_def by (intro frame_writes frame_basics keeps_intros)

lemma frame_terminalize_rows:
  "(\<And>x. keeps I (update x)) \<Longrightarrow> keeps I (terminalize_rows terminal close update step xs)"
  by (induction xs) (auto intro!: keeps_intros)

lemma frame_terminalize: "keeps I (terminalize_open_runtime_state i reason)"
  unfolding terminalize_open_runtime_state_def Let_def
  by (intro frame_terminalize_rows frame_trace frame_writes frame_reads frame_basics keeps_intros)

lemmas frame_storage = frame_basics frame_rows frame_guards frame_reads frame_writes frame_trace
  frame_terminalize

end

section \<open>The frames of the storage\<close>

text \<open>Everything of the world that the storage does not own.\<close>

definition outside_db :: "world \<Rightarrow> world" where
  "outside_db w = w\<lparr>w_db := empty_db, w_depth := 0, w_ticks := 0, w_ids := 0, w_ios := 0\<rparr>"

lemma outside_db_simps [simp]:
  "outside_db (w\<lparr>w_db := d\<rparr>) = outside_db w" "outside_db (w\<lparr>w_depth := n\<rparr>) = outside_db w"
  "outside_db (w\<lparr>w_ticks := n\<rparr>) = outside_db w" "outside_db (w\<lparr>w_ids := n\<rparr>) = outside_db w"
  "outside_db (w\<lparr>w_ios := n\<rparr>) = outside_db w"
  by (simp_all add: outside_db_def)

lemma outside_db_fields:
  assumes "outside_db w' = outside_db w"
  shows "w_files w' = w_files w" "w_registry w' = w_registry w" "w_syscalls w' = w_syscalls w"
    "w_sha256 w' = w_sha256 w" "w_encode w' = w_encode w" "w_decode w' = w_decode w"
    "w_os_fault w' = w_os_fault w" "w_redact w' = w_redact w" "w_show_float w' = w_show_float w"
  using assms by (cases w; cases w'; simp add: outside_db_def)+

lemma outside_sqlite_io: "outside_db (snd (sqlite_io w)) = outside_db w"
  by (simp add: sqlite_io_def split: option.split)

lemma keeps_transaction_insensitive:
  assumes f: "\<And>w d. f (w\<lparr>w_db := d\<rparr>) = f w" "\<And>w n. f (w\<lparr>w_depth := n\<rparr>) = f w"
    "\<And>w. f (snd (sqlite_io w)) = f w"
    and m: "keeps (\<lambda>w :: world. f w = s) m"
  shows "keeps (\<lambda>w. f w = s) (transaction m)"
proof (rule keepsI)
  fix w assume w: "f w = s"
  have m: "f w2 = s" if "m w1 = (r, w2)" "f w1 = s" for w1 r w2
    using keepsD [OF m] that by blast
  have io: "f w2 = s" if "sqlite_io w1 = (r, w2)" "f w1 = s" for w1 r w2
    using f(3) [of w1] that by simp
  obtain r1 w1 where w1: "(if w_depth w = 0 then sqlite_io w else (Inr (), w)) = (r1, w1)"
    by fastforce
  then have s1: "f w1 = s" using w io [of w] by (auto split: if_splits)
  obtain r2 w2 where w2: "m (w1\<lparr>w_depth := Suc (w_depth w1)\<rparr>) = (r2, w2)" by fastforce
  then have s2: "f w2 = s" using m [OF w2] s1 f by simp
  obtain r3 w3 where w3: "sqlite_io w2 = (r3, w3)" by fastforce
  then have s3: "f w3 = s" using io [OF w3 s2] by simp
  have depth: "f (w'\<lparr>w_db := d, w_depth := n\<rparr>) = f w'" for w' d n using f by simp
  show "f (snd (transaction m w)) = s"
    using s1 s2 s3 by (simp add: transaction_def Let_def w1 w2 w3 f(1,2) depth split: sum.split)
qed

interpretation outside_frame: storage_frame "\<lambda>w. outside_db w = s" for s
proof
  show "keeps (\<lambda>w. outside_db w = s) (transaction m)" if "keeps (\<lambda>w. outside_db w = s) m"
    for m :: "unit io"
    by (rule keeps_transaction_insensitive) (simp_all add: outside_sqlite_io that)
qed (simp_all add: keeps_def utc_now_def new_id_def write_statement_def thenM_def bindM_def
    sqlite_io_def split: option.split sum.split)

interpretation schema_frame: storage_frame "\<lambda>w. schema_ok (w_db w)"
proof
  show "keeps (\<lambda>w. schema_ok (w_db w)) utc_now" by (rule keeps_utc_now)
  show "keeps (\<lambda>w. schema_ok (w_db w)) new_id" by (rule keeps_new_id)
  show "keeps (\<lambda>w. schema_ok (w_db w)) (write_statement f)" for f
    by (rule keeps_write_statement) blast
  show "keeps (\<lambda>w. schema_ok (w_db w)) (transaction m)"
    if "keeps (\<lambda>w. schema_ok (w_db w)) m" for m :: "unit io"
    using that by (rule keeps_transaction)
qed

end
