(* ===== verification/Artifacts.thy ===== *)
theory Artifacts imports Storage_Frames begin

text \<open>
  \<open>ArtifactStore\<close> of \<open>backend/app/core/artifacts.py\<close>: writing an artifact (the file, then the
  record and its trace event, with the cleanup when one of them fails), the idempotent write,
  the verified reads and the path checks. The file tree is \<open>w_files\<close>; a path is the list of
  its segments below the artifact root, so that staying under the root holds by construction.
  Each system call may fail (\<open>os_call\<close>); another process that changes the tree between two
  calls is not modelled.
\<close>

section \<open>System calls\<close>

definition os_call :: "unit io" where
  "os_call = (\<lambda>w. (case w_os_fault w (w_syscalls w) of
      None \<Rightarrow> (Inr (), w\<lparr>w_syscalls := Suc (w_syscalls w)\<rparr>)
    | Some (msg, n) \<Rightarrow> (Inl (OSError msg), w\<lparr>w_syscalls := Suc (w_syscalls w)\<rparr>)))"

definition file_at :: "file_path \<Rightarrow> world \<Rightarrow> file_node option" where
  "file_at p w = (if p = [] then Some Directory else map_of (w_files w) p)"

definition put_file :: "file_path \<Rightarrow> file_node \<Rightarrow> unit io" where
  "put_file p n = modifyM (\<lambda>w. w\<lparr>w_files := jput p n (w_files w)\<rparr>)"

text \<open>A path below something that is a file fails with \<open>NotADirectoryError\<close>.\<close>

definition path_blocked :: "file_path \<Rightarrow> world \<Rightarrow> bool" where
  "path_blocked p w \<longleftrightarrow> (\<exists>n \<in> set [1..<length p]. case file_at (take n p) w of
     Some (Regular _ _) \<Rightarrow> True | _ \<Rightarrow> False)"

definition lstat :: "file_path \<Rightarrow> file_node option io" where
  "lstat p = thenM os_call (bindM (getsM (path_blocked p)) (\<lambda>blocked.
     thenM (guardM (\<not> blocked) (OSError ''Not a directory'')) (getsM (file_at p))))"

definition prefixes_of :: "file_path \<Rightarrow> file_path list" where
  "prefixes_of p = map (\<lambda>n. take n p) [1..<Suc (length p)]"

text \<open>\<open>mkdir(parents=True, exist_ok=True)\<close>.\<close>

definition mkdir_parents :: "file_path \<Rightarrow> unit io" where
  "mkdir_parents p = forM (prefixes_of p) (\<lambda>q. thenM os_call
     (bindM (getsM (file_at q)) (\<lambda>node. case node of
        None \<Rightarrow> put_file q Directory
      | Some Directory \<Rightarrow> returnM ()
      | Some _ \<Rightarrow> raiseM (FileExistsError ''File exists''))))"

text \<open>\<open>open(\"x\")\<close>: creates an empty file, or fails when the name is taken.\<close>

definition open_exclusive :: "file_path \<Rightarrow> unit io" where
  "open_exclusive p = thenM os_call (bindM (getsM (file_at p)) (\<lambda>node.
     thenM (guardM (node = None) (FileExistsError ''File exists''))
     (bindM (getsM (file_at (butlast p))) (\<lambda>parent.
      thenM (guardM (parent = Some Directory) (OSError ''No such file or directory''))
      (put_file p (Regular [] 1))))))"

text \<open>A write that fails has written some of the bytes.\<close>

definition write_bytes :: "file_path \<Rightarrow> string \<Rightarrow> unit io" where
  "write_bytes p bytes = (\<lambda>w. case w_os_fault w (w_syscalls w) of
      None \<Rightarrow> (Inr (), w\<lparr>w_syscalls := Suc (w_syscalls w),
                 w_files := jput p (Regular bytes 1) (w_files w)\<rparr>)
    | Some (msg, n) \<Rightarrow> (Inl (OSError msg), w\<lparr>w_syscalls := Suc (w_syscalls w),
                 w_files := jput p (Regular (take n bytes) 1) (w_files w)\<rparr>))"

definition read_bytes :: "file_path \<Rightarrow> string io" where
  "read_bytes p = thenM os_call (bindM (getsM (file_at p)) (\<lambda>node. case node of
     Some (Regular bytes _) \<Rightarrow> returnM bytes
   | _ \<Rightarrow> raiseM (OSError ''not a readable file'')))"

text \<open>\<open>unlink(missing_ok=True)\<close>.\<close>

definition unlink_file :: "file_path \<Rightarrow> unit io" where
  "unlink_file p = thenM os_call (modifyM (\<lambda>w. w\<lparr>w_files := filter (\<lambda>(q, _). q \<noteq> p) (w_files w)\<rparr>))"

section \<open>Paths\<close>

text \<open>\<open>Path(value).name\<close> and \<open>Path(value).is_absolute()\<close>.\<close>

definition path_name :: "string \<Rightarrow> string" where
  "path_name v = (let parts = path_parts v in if parts = [] then [] else last parts)"

definition is_absolute :: "string \<Rightarrow> bool" where
  "is_absolute v \<longleftrightarrow> v \<noteq> [] \<and> hd v = CHR ''/''"

definition simple_segment :: "string \<Rightarrow> bool" where
  "simple_segment v \<longleftrightarrow> v \<noteq> [] \<and> CHR 0x00 \<notin> set v \<and> CHR '':'' \<notin> set v \<and> path_name v = v
     \<and> v \<noteq> ''.'' \<and> v \<noteq> ''..''"

definition ensure_simple_segment :: "string \<Rightarrow> string \<Rightarrow> unit io" where
  "ensure_simple_segment v field_name =
     guardM (simple_segment v) (ArtifactStoreError (field_name @ '' must be a single path segment''))"

fun ensure_no_reparse_loop :: "bool \<Rightarrow> file_path \<Rightarrow> string list \<Rightarrow> unit io" where
  "ensure_no_reparse_loop allow_missing current [] = returnM ()"
| "ensure_no_reparse_loop allow_missing current (part # parts) =
    bindM (catch_if is_os_error (lstat (current @ [part]))
      (\<lambda>_. raiseM (ArtifactStoreError ''artifact path could not be inspected''))) (\<lambda>node. case node of
      None \<Rightarrow> guardM allow_missing (ArtifactStoreError ''artifact path does not exist'')
    | Some Link \<Rightarrow> raiseM (ArtifactStoreError
        ''artifact path cannot traverse a symbolic link or reparse point'')
    | Some _ \<Rightarrow> ensure_no_reparse_loop allow_missing (current @ [part]) parts)"

definition ensure_no_reparse_components :: "file_path \<Rightarrow> bool \<Rightarrow> unit io" where
  "ensure_no_reparse_components p allow_missing = ensure_no_reparse_loop allow_missing [] p"

definition artifact_path :: "string \<Rightarrow> string \<Rightarrow> file_path io" where
  "artifact_path run_id filename =
    thenM (ensure_simple_segment run_id ''run_id'')
    (thenM (guardM (\<not> is_absolute filename)
       (ArtifactStoreError ''filename must be a simple relative file name''))
    (thenM (ensure_simple_segment filename ''filename'')
    (thenM (ensure_no_reparse_components [run_id, filename] True)
    (returnM [run_id, filename]))))"

definition existing_artifact_path :: "string \<Rightarrow> file_path io" where
  "existing_artifact_path relative_path =
    thenM (guardM (relative_path \<noteq> []) (ArtifactStoreError ''artifact path must be a relative path''))
    (let parts = path_parts relative_path in
     thenM (guardM (\<not> is_absolute relative_path \<and> ''..'' \<notin> set parts)
       (ArtifactStoreError ''artifact path must be a normalized relative path''))
     (thenM (ensure_no_reparse_components parts False) (returnM parts)))"

section \<open>Writing\<close>

text \<open>\<open>Artifact(...)\<close>: the strings of a model are stripped when it is built.\<close>

definition new_artifact ::
  "string \<Rightarrow> string \<Rightarrow> artifact_type \<Rightarrow> string \<Rightarrow> string \<Rightarrow> string list \<Rightarrow> artifact io" where
  "new_artifact run_id agent_run_id artifact_type path content_hash source_refs =
    bindM new_id (\<lambda>i. bindM utc_now (\<lambda>now.
    returnM \<lparr>art_id = i, art_run_id = strip run_id, art_agent_run_id = strip agent_run_id,
      art_type = artifact_type, art_path = strip path, art_content_hash = Some (strip content_hash),
      art_source_refs = map strip source_refs, art_validation_status = Art_UNVALIDATED,
      art_created_at = now\<rparr>))"

definition create_artifact_record :: "artifact \<Rightarrow> file_path \<Rightarrow> bool \<Rightarrow> artifact io" where
  "create_artifact_record a path delete_file_on_error =
    (let cleanup = whenM delete_file_on_error (unlink_file path) in
    bindM (catchM (create_artifact a) (\<lambda>e. thenM cleanup (raiseM e))) (\<lambda>created.
    catchM (thenM (record_trace (art_run_id a) ARTIFACT_CREATED
        [(''artifact_id'', JStr (art_id created)),
         (''artifact_type'', JStr (artifact_type_value (art_type created))),
         (''path'', JStr (art_path created)),
         (''content_hash'', jopt_str (art_content_hash created))] (Some (art_agent_run_id a)) None)
       (returnM created))
      (\<lambda>e. thenM (delete_artifact (art_id created)) (thenM cleanup (raiseM e)))))"

fun is_file_exists :: "exn \<Rightarrow> bool" where
  "is_file_exists (FileExistsError _) = True"
| "is_file_exists _ = False"

text \<open>\<open>write_text\<close>; \<open>write_text_at\<close> is its body once the path is known.\<close>

definition write_text_at ::
  "file_path \<Rightarrow> string \<Rightarrow> string \<Rightarrow> artifact_type \<Rightarrow> string \<Rightarrow> string list \<Rightarrow> artifact io" where
  "write_text_at path run_id agent_run_id artifact_type content source_refs =
    thenM (ensure_agent_run_belongs_to_run agent_run_id run_id)
    (thenM (mkdir_parents (butlast path))
    (bindM (getsM (\<lambda>w. w_encode w content)) (\<lambda>bytes.
     thenM (catch_if is_file_exists (thenM (open_exclusive path) (write_bytes path bytes))
       (\<lambda>_. raiseM (ArtifactStoreError (''artifact already exists: '' @ last path))))
     (bindM (read_bytes path) (\<lambda>written.
      bindM (getsM (\<lambda>w. w_sha256 w written)) (\<lambda>content_hash.
      bindM (new_artifact run_id agent_run_id artifact_type (join ''/'' path) content_hash source_refs)
        (\<lambda>a. create_artifact_record a path True)))))))"

definition write_text ::
  "string \<Rightarrow> string \<Rightarrow> artifact_type \<Rightarrow> string \<Rightarrow> string \<Rightarrow> string list \<Rightarrow> artifact io" where
  "write_text run_id agent_run_id artifact_type filename content source_refs =
    bindM (artifact_path run_id filename) (\<lambda>path.
    write_text_at path run_id agent_run_id artifact_type content source_refs)"

section \<open>Reading\<close>

definition read_text_verified :: "artifact \<Rightarrow> string io" where
  "read_text_verified a =
    bindM (existing_artifact_path (art_path a)) (\<lambda>path.
    bindM (catch_if is_os_error (read_bytes path)
      (\<lambda>_. raiseM (ArtifactStoreError ''artifact content could not be read''))) (\<lambda>content.
    bindM (getsM (\<lambda>w. Some (w_sha256 w content))) (\<lambda>digest.
    thenM (guardM (art_content_hash a = digest)
      (ArtifactStoreError ''artifact content hash does not match durable metadata''))
    (bindM (getsM (\<lambda>w. w_decode w content)) (\<lambda>text. case text of
       None \<Rightarrow> raiseM (ArtifactStoreError ''text artifact is not valid UTF-8'')
     | Some t \<Rightarrow> returnM t)))))"

text \<open>
  The loop of \<open>read_text_excerpt\<close> over the decoded chunks; the incremental decoder gives some
  split of the decoded text. \<open>excerpt[:max_chars]\<close> and the flag are taken at the end.
\<close>

fun excerpt_loop :: "nat \<Rightarrow> string \<Rightarrow> bool \<Rightarrow> string list \<Rightarrow> string \<times> bool" where
  "excerpt_loop max_chars excerpt truncated [] = (excerpt, truncated)"
| "excerpt_loop max_chars excerpt truncated (decoded # rest) =
    (let remaining = max_chars + 1 - length excerpt in
     excerpt_loop max_chars (if remaining > 0 then excerpt @ take remaining decoded else excerpt)
       (truncated \<or> length decoded > remaining) rest)"

definition excerpt_of :: "nat \<Rightarrow> string list \<Rightarrow> string \<times> bool" where
  "excerpt_of max_chars pieces = (case excerpt_loop max_chars [] False pieces of
     (excerpt, truncated) \<Rightarrow> (take max_chars excerpt, truncated \<or> length excerpt > max_chars))"

definition read_text_excerpt :: "artifact \<Rightarrow> int \<Rightarrow> (string \<times> bool) io" where
  "read_text_excerpt a max_chars =
    thenM (guardM (0 \<le> max_chars) (ArtifactStoreError ''max_chars must be non-negative''))
    (bindM (existing_artifact_path (art_path a)) (\<lambda>path.
     bindM (catch_if is_os_error (read_bytes path)
       (\<lambda>_. raiseM (ArtifactStoreError ''artifact content could not be read''))) (\<lambda>content.
     bindM (getsM (\<lambda>w. w_decode w content)) (\<lambda>decoded. case decoded of
       None \<Rightarrow> raiseM (ArtifactStoreError ''text artifact is not valid UTF-8'')
     | Some text \<Rightarrow>
         bindM (getsM (\<lambda>w. Some (w_sha256 w content))) (\<lambda>digest.
         thenM (guardM (art_content_hash a = digest)
           (ArtifactStoreError ''artifact content hash does not match durable metadata''))
         (returnM (excerpt_of (nat max_chars) (chunks 65536 text))))))))"

section \<open>Writing once\<close>

definition assert_regular_unlinked :: "file_node \<Rightarrow> unit io" where
  "assert_regular_unlinked node = (case node of
     Regular _ links \<Rightarrow> guardM (links = 1) (ArtifactStoreError ''staged input cannot be hard-linked'')
   | _ \<Rightarrow> raiseM (ArtifactStoreError ''staged input must be a regular file''))"

definition reuse_durable_copy :: "artifact \<Rightarrow> string \<Rightarrow> artifact_type \<Rightarrow> string \<Rightarrow> string \<Rightarrow> artifact io" where
  "reuse_durable_copy existing agent_run_id artifact_type content_hash content =
    (let expected_path = art_path existing in
    thenM (guardM (art_agent_run_id existing = agent_run_id \<and> art_type existing = artifact_type)
      (ArtifactStoreError (''artifact path is already owned by another attempt: '' @ expected_path)))
    (thenM (guardM (art_content_hash existing = Some content_hash)
      (ArtifactStoreError (''artifact path already contains different content: '' @ expected_path)))
    (bindM (catch_if is_artifact_store_error (read_text_verified existing)
       (\<lambda>_. raiseM (ArtifactStoreError (''durable artifact copy is missing or invalid: '' @ expected_path))))
       (\<lambda>stored.
     thenM (guardM (stored = content)
       (ArtifactStoreError (''durable artifact content does not match metadata: '' @ expected_path)))
     (returnM existing)))))"

definition adopt_orphan_copy ::
  "file_path \<Rightarrow> file_node \<Rightarrow> string \<Rightarrow> string \<Rightarrow> string \<Rightarrow> artifact_type \<Rightarrow> string \<Rightarrow> string
    \<Rightarrow> string list \<Rightarrow> artifact io" where
  "adopt_orphan_copy path node expected_path run_id agent_run_id artifact_type content_hash content
     source_refs =
    thenM (assert_regular_unlinked node)
    (bindM (catch_if is_os_error (read_bytes path)
      (\<lambda>_. raiseM (ArtifactStoreError (''orphan artifact copy could not be read: '' @ expected_path))))
      (\<lambda>orphan.
     bindM (getsM (\<lambda>w. w_encode w content)) (\<lambda>bytes.
     thenM (guardM (orphan = bytes)
       (ArtifactStoreError (''orphan artifact copy contains different content: '' @ expected_path)))
     (bindM (new_artifact run_id agent_run_id artifact_type expected_path content_hash source_refs)
       (\<lambda>a. create_artifact_record a path False)))))"

definition write_text_idempotent ::
  "string \<Rightarrow> string \<Rightarrow> artifact_type \<Rightarrow> string \<Rightarrow> string \<Rightarrow> string list \<Rightarrow> artifact io" where
  "write_text_idempotent run_id agent_run_id artifact_type filename content source_refs =
    bindM (getsM (\<lambda>w. w_sha256 w (w_encode w content))) (\<lambda>content_hash.
    let expected_path = run_id @ ''/'' @ filename in
    bindM (list_artifacts_for_run run_id) (\<lambda>artifacts.
    case filter (\<lambda>a. art_path a = expected_path) artifacts of
      [existing] \<Rightarrow> reuse_durable_copy existing agent_run_id artifact_type content_hash content
    | _ # _ \<Rightarrow> raiseM (ArtifactStoreError
        (''multiple durable artifact records exist for '' @ expected_path))
    | [] \<Rightarrow>
        bindM (artifact_path run_id filename) (\<lambda>path.
        bindM (catch_if is_os_error (lstat path) (\<lambda>_. raiseM (ArtifactStoreError
          (''orphan artifact copy could not be inspected: '' @ expected_path)))) (\<lambda>orphan. case orphan of
          Some node \<Rightarrow> adopt_orphan_copy path node expected_path run_id agent_run_id artifact_type
            content_hash content source_refs
        | None \<Rightarrow> write_text run_id agent_run_id artifact_type filename content source_refs))))"

end
