(* ===== verification/Artifact_Facts.thy ===== *)
theory Artifact_Facts imports Artifacts begin

text \<open>
  What the artifact store guarantees: an existing file is never overwritten or removed by a
  write, a written artifact reads back, writing once is idempotent, an excerpt does not depend
  on the chunks it is read in. The locale \<open>os_frame\<close> is the contract of an assertion that
  survives the system calls, \<open>process_frame\<close> joins it with \<open>storage_frame\<close>.
\<close>

lemma keeps_case_node [keeps_intros]:
  "keeps I m \<Longrightarrow> (\<And>b n. keeps I (f b n)) \<Longrightarrow> keeps I k
    \<Longrightarrow> keeps I (case node of Directory \<Rightarrow> m | Regular b n \<Rightarrow> f b n | Link \<Rightarrow> k)"
  by (cases node) auto

lemma keeps_case_list [keeps_intros]:
  "keeps I m \<Longrightarrow> (\<And>x xs. keeps I (f x xs)) \<Longrightarrow> keeps I (case ys of [] \<Rightarrow> m | x # xs \<Rightarrow> f x xs)"
  by (cases ys) auto

lemma keeps_bind_returns:
  assumes "keeps I m" "\<And>x w w'. m w = (Inr x, w') \<Longrightarrow> keeps I (f x)"
  shows "keeps I (bindM m f)"
proof (rule keepsI)
  fix w assume w: "I w"
  obtain r w' where m: "m w = (r, w')" by fastforce
  then have w': "I w'" using keepsD [OF assms(1)] w by blast
  show "I (snd (bindM m f w))"
  proof (cases r)
    case (Inr x)
    then show ?thesis using m w' assms(2) [of w x w'] by (simp add: bindM_def keeps_def)
  qed (simp add: bindM_def m w')
qed

lemma keeps_then_raises:
  assumes "keeps I m" "\<And>w x w'. I w \<Longrightarrow> m w \<noteq> (Inr x, w')"
  shows "keeps I (thenM m k)"
proof (rule keepsI)
  fix w assume w: "I w"
  obtain r w' where m: "m w = (r, w')" by fastforce
  then have "I w'" using keepsD [OF assms(1)] w by blast
  moreover have "r \<noteq> Inr x" for x using assms(2) [OF w] m by auto
  ultimately show "I (snd (thenM m k w))" using m by (cases r) (auto simp: thenM_def bindM_def)
qed

locale os_frame =
  fixes I :: "world \<Rightarrow> bool"
  assumes frame_os: "keeps I os_call"
    and frame_put_file: "keeps I (put_file p n)"
    and frame_write_bytes: "keeps I (write_bytes p bytes)"
    and frame_unlink: "keeps I (unlink_file p)"
begin

lemma frame_file_reads:
  "keeps I (lstat p)" "keeps I (read_bytes p)" "keeps I (mkdir_parents p)"
  "keeps I (open_exclusive p)" "keeps I (ensure_simple_segment v n)"
  unfolding lstat_def read_bytes_def mkdir_parents_def open_exclusive_def ensure_simple_segment_def
  by (intro frame_os frame_put_file keeps_intros keeps_case_node)+

lemma frame_reparse: "keeps I (ensure_no_reparse_loop b current parts)"
  by (induction b current parts rule: ensure_no_reparse_loop.induct)
    (auto intro!: frame_file_reads keeps_intros)

lemma frame_paths:
  "keeps I (ensure_no_reparse_components p b)" "keeps I (artifact_path run_id filename)"
  "keeps I (existing_artifact_path path)"
  unfolding ensure_no_reparse_components_def artifact_path_def existing_artifact_path_def Let_def
  by (intro frame_reparse frame_file_reads keeps_intros)+

lemma frame_artifact_reads:
  "keeps I (read_text_verified a)" "keeps I (read_text_excerpt a n)"
  "keeps I (assert_regular_unlinked node)"
  unfolding read_text_verified_def read_text_excerpt_def assert_regular_unlinked_def
  by (intro frame_paths frame_file_reads keeps_intros)+

end

locale process_frame = storage_frame I + os_frame I for I
begin

lemma frame_artifact_record:
  "keeps I (new_artifact r ar t p h refs)" "keeps I (create_artifact_record a path b)"
  unfolding new_artifact_def create_artifact_record_def Let_def
  by (intro frame_storage frame_unlink keeps_intros)+

lemma frame_write_text: "keeps I (write_text r ar t f c refs)"
  unfolding write_text_def write_text_at_def
  by (intro frame_artifact_record frame_paths frame_file_reads frame_write_bytes frame_guards
      keeps_intros)

lemma frame_write_text_idempotent: "keeps I (write_text_idempotent r ar t f c refs)"
  unfolding write_text_idempotent_def reuse_durable_copy_def adopt_orphan_copy_def Let_def
  by (intro frame_write_text frame_artifact_record frame_artifact_reads frame_paths
      frame_file_reads frame_reads keeps_intros)

lemmas frame_artifacts = frame_artifact_reads frame_write_text frame_write_text_idempotent

end

lemma schema_os:
  "keeps (\<lambda>w. schema_ok (w_db w)) os_call" "keeps (\<lambda>w. schema_ok (w_db w)) (put_file p n)"
  "keeps (\<lambda>w. schema_ok (w_db w)) (write_bytes p bytes)"
  "keeps (\<lambda>w. schema_ok (w_db w)) (unlink_file p)"
  by (auto simp: keeps_def os_call_def put_file_def write_bytes_def unlink_file_def modifyM_def
      thenM_def bindM_def split: option.split)

interpretation schema_process: process_frame "\<lambda>w. schema_ok (w_db w)"
  by unfold_locales (rule schema_os)+

interpretation db_os: os_frame "\<lambda>w. w_db w = d" for d
  by unfold_locales (auto simp: keeps_def os_call_def put_file_def write_bytes_def unlink_file_def
      modifyM_def thenM_def bindM_def split: option.split)

text \<open>The codec, the digest and the failures to come are fixed.\<close>

definition codec :: "world \<Rightarrow> (string \<Rightarrow> string) \<times> (string \<Rightarrow> string option) \<times> (string \<Rightarrow> string)
    \<times> (nat \<Rightarrow> (string \<times> nat) option)" where
  "codec w = (w_encode w, w_decode w, w_sha256 w, w_os_fault w)"

lemma codec_outside:
  assumes "outside_db w' = outside_db w"
  shows "codec w' = codec w"
  using outside_db_fields(4-7) [OF assms] by (simp add: codec_def)

lemma storage_keeps_codec:
  fixes m :: "'a io"
  assumes "\<And>s. keeps (\<lambda>w. outside_db w = s) m"
  shows "keeps (\<lambda>w. codec w = c) m"
proof (rule keepsI)
  fix w :: world assume c: "codec w = c"
  have "outside_db (snd (m w)) = outside_db w"
    using assms [of "outside_db w"] by (simp add: keeps_def)
  then have "codec (snd (m w)) = codec w" by (rule codec_outside)
  with c show "codec (snd (m w)) = c" by simp
qed

interpretation codec_process: process_frame "\<lambda>w. codec w = c" for c
proof
  show "keeps (\<lambda>w. codec w = c) (transaction m)" if "keeps (\<lambda>w. codec w = c) m" for m :: "unit io"
    by (rule keeps_transaction_insensitive [OF _ _ _ that])
      (simp_all add: codec_def sqlite_io_def split: option.split)
qed (auto simp: keeps_def os_call_def put_file_def write_bytes_def unlink_file_def codec_def
    utc_now_def new_id_def write_statement_def sqlite_io_def modifyM_def thenM_def bindM_def
    split: option.split sum.split)

section \<open>A write leaves existing files alone\<close>

lemma storage_keeps_files:
  fixes m :: "'a io"
  assumes "\<And>s. keeps (\<lambda>w. outside_db w = s) m"
  shows "keeps (\<lambda>w. P (w_files w)) m"
proof (rule keepsI)
  fix w :: world assume "P (w_files w)"
  moreover have "outside_db (snd (m w)) = outside_db w"
    using assms [of "outside_db w"] by (simp add: keeps_def)
  then have "w_files (snd (m w)) = w_files w" by (rule outside_db_fields(1))
  ultimately show "P (w_files (snd (m w)))" by simp
qed

abbreviation node_stays :: "file_path \<Rightarrow> file_node \<Rightarrow> world \<Rightarrow> bool" where
  "node_stays q n \<equiv> \<lambda>w. file_at q w = Some n"

lemma storage_keeps_node:
  fixes m :: "'a io"
  assumes "\<And>s. keeps (\<lambda>w. outside_db w = s) m"
  shows "keeps (node_stays q n) m"
  using storage_keeps_files [OF assms, where P = "\<lambda>fs. (if q = [] then Some Directory else map_of fs q) = Some n"]
  by (simp add: file_at_def)

lemma stays_os: "keeps (node_stays q n) os_call"
  by (auto simp: keeps_def os_call_def file_at_def split: option.split)

lemma stays_put: "q \<noteq> p \<Longrightarrow> keeps (node_stays q n) (put_file p m)"
  by (auto simp: keeps_def put_file_def modifyM_def file_at_def)

lemma stays_put_new: "keeps (node_stays q n)
    (bindM (getsM (file_at p)) (\<lambda>node. case node of None \<Rightarrow> put_file p Directory
      | Some Directory \<Rightarrow> returnM () | Some (Regular b l) \<Rightarrow> raiseM e | Some Link \<Rightarrow> raiseM e))"
  by (auto simp: keeps_def put_file_def modifyM_def file_at_def act_defs split: option.split file_node.split)

lemma stays_mkdir: "keeps (node_stays q n) (mkdir_parents p)"
  unfolding mkdir_parents_def by (intro keeps_forM keeps_thenM stays_os stays_put_new)

lemma os_call_files: "os_call w = (r, w') \<Longrightarrow> w_files w' = w_files w"
  by (auto simp: os_call_def split: option.splits)

lemma open_exclusive_cases:
  assumes "open_exclusive p w = (r, w')"
  shows "case r of Inr _ \<Rightarrow> file_at p w = None \<and> p \<noteq> [] \<and> file_at (butlast p) w = Some Directory
        \<and> file_at p w' = Some (Regular [] 1) \<and> (\<forall>q. q \<noteq> p \<longrightarrow> file_at q w' = file_at q w)
      | Inl _ \<Rightarrow> (\<forall>q. file_at q w' = file_at q w)"
proof (cases "os_call w")
  case (Pair r1 w1)
  note os = os_call_files [OF Pair]
  show ?thesis
  proof (cases r1)
    case (Inl e)
    then show ?thesis using assms Pair os by (auto simp: open_exclusive_def thenM_def bindM_def file_at_def)
  next
    case (Inr u)
    then show ?thesis using assms Pair os
      by (auto simp: open_exclusive_def act_defs put_file_def file_at_def split: if_splits)
  qed
qed

lemma stays_open: "keeps (node_stays q n) (open_exclusive p)"
proof (rule keepsI)
  fix w assume "file_at q w = Some n"
  then show "file_at q (snd (open_exclusive p w)) = Some n"
    using open_exclusive_cases [of p w] by (cases "open_exclusive p w"; cases "fst (open_exclusive p w)")
      (auto, metis option.distinct(1))
qed

lemma stays_write: "q \<noteq> p \<Longrightarrow> keeps (node_stays q n) (write_bytes p bytes)"
  by (auto simp: keeps_def write_bytes_def file_at_def split: option.split)

lemma stays_unlink:
  assumes "q \<noteq> p"
  shows "keeps (node_stays q n) (unlink_file p)"
proof -
  have m: "map_of (filter (\<lambda>(q', _). q' \<noteq> p) fs) q = map_of fs q" for fs :: "(file_path \<times> file_node) list"
    by (induction fs) (use assms in auto)
  show ?thesis
    unfolding unlink_file_def
    by (intro keeps_thenM stays_os) (auto simp: keeps_def modifyM_def file_at_def m)
qed

lemma stays_lstat: "keeps (node_stays q n) (lstat p)"
  unfolding lstat_def by (intro stays_os keeps_intros)

lemma stays_read: "keeps (node_stays q n) (read_bytes p)"
  unfolding read_bytes_def by (intro stays_os keeps_intros)

lemma stays_reparse: "keeps (node_stays q n) (ensure_no_reparse_loop b current parts)"
  by (induction b current parts rule: ensure_no_reparse_loop.induct)
    (auto intro!: stays_lstat keeps_intros)

lemma stays_paths:
  "keeps (node_stays q n) (artifact_path run_id filename)"
  "keeps (node_stays q n) (existing_artifact_path path)"
  unfolding artifact_path_def existing_artifact_path_def Let_def ensure_no_reparse_components_def
    ensure_simple_segment_def
  by (intro stays_reparse keeps_intros)+

lemma artifact_path_returns:
  "artifact_path run_id filename w = (Inr p, w') \<Longrightarrow>
    p = [run_id, filename] \<and> simple_segment run_id \<and> simple_segment filename"
  by (auto simp: artifact_path_def ensure_simple_segment_def returns_iff)

lemma stays_storage:
  "keeps (node_stays q n) (ensure_agent_run_belongs_to_run i j)"
  "keeps (node_stays q n) (create_artifact a)" "keeps (node_stays q n) (delete_artifact i)"
  "keeps (node_stays q n) (record_trace r t p ar d)" "keeps (node_stays q n) utc_now"
  "keeps (node_stays q n) new_id" "keeps (node_stays q n) (list_artifacts_for_run r)"
  by (rule storage_keeps_node, rule outside_frame.frame_storage)+

lemma stays_record:
  "q \<noteq> path \<or> \<not> b \<Longrightarrow> keeps (node_stays q n) (create_artifact_record a path b)"
  "keeps (node_stays q n) (new_artifact r ar t p h refs)"
  unfolding create_artifact_record_def new_artifact_def Let_def
  by (cases b) (auto intro!: stays_storage stays_unlink keeps_intros simp: whenM_def)

lemma stays_write_text_other:
  assumes "q \<noteq> [run_id, filename]"
  shows "keeps (node_stays q n) (write_text run_id agent_run_id ty filename content refs)"
  unfolding write_text_def
proof (rule keeps_bind_returns)
  fix path w w' assume "artifact_path run_id filename w = (Inr path, w')"
  then have "q \<noteq> path" using artifact_path_returns assms by metis
  then show "keeps (node_stays q n) (write_text_at path run_id agent_run_id ty content refs)"
    unfolding write_text_at_def
    by (intro stays_storage stays_mkdir stays_open stays_write stays_read stays_record keeps_intros) auto
qed (rule stays_paths)

lemma stays_write_text_same:
  "keeps (node_stays [run_id, filename] n) (write_text run_id agent_run_id ty filename content refs)"
  unfolding write_text_def
proof (rule keeps_bind_returns)
  fix path w w' assume "artifact_path run_id filename w = (Inr path, w')"
  then have path: "path = [run_id, filename]" using artifact_path_returns by metis
  have fails: "open_exclusive path w1 \<noteq> (Inr x, w2)" if "file_at path w1 = Some n" for w1 x w2
    using open_exclusive_cases [of path w1 "Inr x" w2] that by auto
  have open_write: "keeps (node_stays path n) (thenM (open_exclusive path) (write_bytes path bytes))"
    for bytes
    by (rule keeps_then_raises [OF stays_open]) (rule fails)
  have stops: "catch_if is_file_exists (thenM (open_exclusive path) (write_bytes path bytes))
      (\<lambda>_. raiseM e) w1 \<noteq> (Inr x, w2)" if "file_at path w1 = Some n" for w1 bytes e x w2
    using fails [OF that]
    by (auto simp: catch_if_def act_defs split: prod.splits sum.splits if_splits)
  show "keeps (node_stays [run_id, filename] n) (write_text_at path run_id agent_run_id ty content refs)"
    unfolding path [symmetric] write_text_at_def
    by (intro stays_storage stays_mkdir keeps_thenM keeps_bindM keeps_getsM
        keeps_then_raises [OF keeps_catch_if [OF open_write keeps_raiseM] stops])
qed (rule stays_paths)

lemma stays_write_text: "keeps (node_stays q n) (write_text run_id agent_run_id ty filename content refs)"
  using stays_write_text_other stays_write_text_same by (cases "q = [run_id, filename]") blast+

lemma stays_write_text_idempotent:
  "keeps (node_stays q n) (write_text_idempotent run_id agent_run_id ty filename content refs)"
proof -
  have read: "keeps (node_stays q n) (read_text_verified a)" for a
    unfolding read_text_verified_def by (intro stays_paths stays_read keeps_intros)
  have new: "keeps (node_stays q n) (bindM (new_artifact r ar t p h rs)
      (\<lambda>a. create_artifact_record a path False))" for r ar t p h rs path
    by (intro keeps_bindM stays_record) simp
  have adopt: "keeps (node_stays q n)
      (adopt_orphan_copy path node p run_id agent_run_id ty h content refs)" for path node p h
    unfolding adopt_orphan_copy_def assert_regular_unlinked_def
    by (intro new stays_read keeps_intros)
  have reuse: "keeps (node_stays q n) (reuse_durable_copy existing agent_run_id ty h content)"
    for existing h
    unfolding reuse_durable_copy_def Let_def by (intro read keeps_intros)
  show ?thesis
    unfolding write_text_idempotent_def Let_def
    by (intro stays_write_text stays_storage stays_paths stays_lstat adopt reuse keeps_intros)
qed

section \<open>Excerpts\<close>

lemma excerpt_loop_result:
  "length excerpt \<le> max_chars + 1 \<Longrightarrow>
    excerpt_loop max_chars excerpt truncated pieces =
      (take (max_chars + 1) (excerpt @ concat pieces),
       truncated \<or> length (excerpt @ concat pieces) > max_chars + 1)"
proof (induction max_chars excerpt truncated pieces rule: excerpt_loop.induct)
  case (1 max_chars excerpt truncated)
  then show ?case by simp
next
  case (2 max_chars excerpt truncated decoded rest)
  define remaining where "remaining = max_chars + 1 - length excerpt"
  define e where "e = (if remaining > 0 then excerpt @ take remaining decoded else excerpt)"
  have e: "e = take (max_chars + 1) (excerpt @ decoded)"
    using 2(2) by (auto simp: e_def remaining_def)
  have len: "length e \<le> max_chars + 1" using e by simp
  have step: "excerpt_loop max_chars excerpt truncated (decoded # rest)
      = excerpt_loop max_chars e (truncated \<or> length decoded > remaining) rest"
    by (simp add: Let_def e_def remaining_def)
  have ih: "excerpt_loop max_chars e (truncated \<or> length decoded > remaining) rest =
      (take (max_chars + 1) (e @ concat rest),
       (truncated \<or> length decoded > remaining) \<or> length (e @ concat rest) > max_chars + 1)"
    using 2(1) [OF refl] len unfolding e_def remaining_def by simp
  have "take (max_chars + 1) (e @ concat rest) = take (max_chars + 1) (excerpt @ decoded @ concat rest)"
    using 2(2) by (cases "length decoded \<le> remaining") (auto simp: e remaining_def min_def)
  moreover have "(length decoded > remaining \<or> length (e @ concat rest) > max_chars + 1)
      \<longleftrightarrow> length (excerpt @ decoded @ concat rest) > max_chars + 1"
    using 2(2) by (auto simp: e remaining_def min_def)
  ultimately show ?case unfolding step ih by simp
qed

lemma concat_chunks_text: "concat (chunks 65536 text) = text"
  by (rule concat_chunks) simp

text \<open>
  C19. The excerpt of a text is its prefix and the flag says exactly whether something was cut
  off, whatever the chunks in which the text was decoded; so the chunked loop agrees with
  slicing the whole text.
\<close>

theorem excerpt_is_chunk_independent:
  "excerpt_of max_chars pieces
     = (take max_chars (concat pieces), length (concat pieces) > max_chars)"
  by (auto simp: excerpt_of_def excerpt_loop_result)

section \<open>Segments and paths\<close>

lemma split_slash_no_slash:
  "x \<in> set (split_slash acc cs) \<Longrightarrow> CHR ''/'' \<notin> set acc \<Longrightarrow> CHR ''/'' \<notin> set x"
  by (induction acc cs rule: split_slash.induct) (auto split: if_splits)

lemma split_slash_segment: "CHR ''/'' \<notin> set xs \<Longrightarrow> split_slash acc xs = [rev acc @ xs]"
  by (induction xs arbitrary: acc) auto

lemma split_slash_first: "CHR ''/'' \<notin> set xs \<Longrightarrow>
    split_slash acc (xs @ CHR ''/'' # ys) = (rev acc @ xs) # split_slash [] ys"
  by (induction xs arbitrary: acc) auto

lemma simple_segment_no_slash:
  assumes "simple_segment v"
  shows "CHR ''/'' \<notin> set v"
proof -
  have v: "path_name v = v" "v \<noteq> []" using assms by (simp_all add: simple_segment_def)
  then have "v \<in> set (path_parts v)"
    by (metis path_name_def last_in_set)
  then show ?thesis
    using split_slash_no_slash [of v "[]" v] by (auto simp: path_parts_def)
qed

lemma artifact_path_parts:
  assumes "simple_segment r" "simple_segment f"
  shows "path_parts (r @ ''/'' @ f) = [r, f]" "\<not> is_absolute (r @ ''/'' @ f)" "''..'' \<notin> {r, f}"
proof -
  note ns = simple_segment_no_slash [OF assms(1)] simple_segment_no_slash [OF assms(2)]
  show "path_parts (r @ ''/'' @ f) = [r, f]"
    using assms split_slash_first [OF ns(1), of "[]" f] split_slash_segment [OF ns(2), of "[]"]
    by (simp add: path_parts_def simple_segment_def)
  show "\<not> is_absolute (r @ ''/'' @ f)"
    using ns(1) assms(1) by (cases r) (auto simp: is_absolute_def simple_segment_def)
  show "''..'' \<notin> {r, f}" using assms by (auto simp: simple_segment_def)
qed

section \<open>Reading back\<close>

definition os_ok :: "world \<Rightarrow> bool" where
  "os_ok w \<longleftrightarrow> (\<forall>n \<ge> w_syscalls w. w_os_fault w n = None)"

definition durable_copy :: "artifact \<Rightarrow> string \<Rightarrow> world \<Rightarrow> bool" where
  "durable_copy a content w \<longleftrightarrow> (\<exists>r f links. art_path a = r @ ''/'' @ f
     \<and> simple_segment r \<and> simple_segment f \<and> file_at [r] w = Some Directory
     \<and> file_at [r, f] w = Some (Regular (w_encode w content) links)
     \<and> art_content_hash a = Some (w_sha256 w (w_encode w content)))"

lemma os_call_ok: "os_ok w \<Longrightarrow> os_call w = (Inr (), w\<lparr>w_syscalls := Suc (w_syscalls w)\<rparr>)"
  by (simp add: os_call_def os_ok_def)

lemma os_ok_step: "os_ok w \<Longrightarrow> os_ok (w\<lparr>w_syscalls := Suc (w_syscalls w)\<rparr>)"
  by (simp add: os_ok_def)

lemma file_at_step [simp]: "file_at p (w\<lparr>w_syscalls := n\<rparr>) = file_at p w"
  by (simp add: file_at_def)

lemma lstat_ok:
  assumes "os_ok w" "\<not> path_blocked p w"
  shows "lstat p w = (Inr (file_at p w), w\<lparr>w_syscalls := Suc (w_syscalls w)\<rparr>)"
  using assms by (simp add: lstat_def act_defs os_call_ok path_blocked_def)

lemma read_bytes_ok:
  assumes "os_ok w" "file_at p w = Some (Regular bytes links)"
  shows "read_bytes p w = (Inr bytes, w\<lparr>w_syscalls := Suc (w_syscalls w)\<rparr>)"
  using assms by (simp add: read_bytes_def act_defs os_call_ok)

lemma not_blocked:
  "\<not> path_blocked [r] w"
  "file_at [r] w = Some Directory \<Longrightarrow> \<not> path_blocked [r, f] w"
  by (simp_all add: path_blocked_def upt_rec)

lemma existing_path_ok:
  assumes "os_ok w" "file_at [r] w = Some Directory" "file_at [r, f] w = Some (Regular b links)"
    "simple_segment r" "simple_segment f"
  shows "existing_artifact_path (r @ ''/'' @ f) w
    = (Inr [r, f], w\<lparr>w_syscalls := Suc (Suc (w_syscalls w))\<rparr>)"
proof -
  define w1 where "w1 = w\<lparr>w_syscalls := Suc (w_syscalls w)\<rparr>"
  have ok1: "os_ok w1" using os_ok_step [OF assms(1)] by (simp add: w1_def)
  have l1: "lstat [r] w = (Inr (Some Directory), w1)"
    using lstat_ok [OF assms(1) not_blocked(1), of r] assms(2) by (simp add: w1_def)
  have l2: "lstat [r, f] w1 = (Inr (Some (Regular b links)), w\<lparr>w_syscalls := Suc (Suc (w_syscalls w))\<rparr>)"
    using lstat_ok [OF ok1 not_blocked(2), of r f] assms(2,3) by (simp add: w1_def)
  show ?thesis
    using artifact_path_parts [OF assms(4,5)]
    by (simp add: existing_artifact_path_def ensure_no_reparse_components_def catch_if_def
        act_defs l1 l2 Let_def)
qed

lemma durable_copy_reads:
  assumes "durable_copy a content w" "os_ok w" "w_decode w (w_encode w content) = Some content"
  shows "\<exists>n \<ge> w_syscalls w. read_text_verified a w = (Inr content, w\<lparr>w_syscalls := n\<rparr>)"
proof -
  obtain r f links where d: "art_path a = r @ ''/'' @ f" "simple_segment r" "simple_segment f"
    "file_at [r] w = Some Directory"
    "file_at [r, f] w = Some (Regular (w_encode w content) links)"
    "art_content_hash a = Some (w_sha256 w (w_encode w content))"
    using assms(1) unfolding durable_copy_def by blast
  define n where "n = w_syscalls w"
  have p: "existing_artifact_path (art_path a) w = (Inr [r, f], w\<lparr>w_syscalls := n + 2\<rparr>)"
    using existing_path_ok [OF assms(2) d(4,5,2,3)] d(1) by (simp add: n_def)
  have ok: "os_ok (w\<lparr>w_syscalls := n + 2\<rparr>)" using assms(2) by (simp add: os_ok_def n_def)
  have "read_bytes [r, f] (w\<lparr>w_syscalls := n + 2\<rparr>)
      = (Inr (w_encode w content), w\<lparr>w_syscalls := n + 3\<rparr>)"
    using read_bytes_ok [OF ok] d(5) by (simp add: numeral_eq_Suc)
  then have "read_text_verified a w = (Inr content, w\<lparr>w_syscalls := n + 3\<rparr>)"
    using p d(6) assms(3)
    by (simp add: read_text_verified_def catch_if_def act_defs)
  then show ?thesis unfolding n_def by (intro exI [of _ "w_syscalls w + 3"]) simp
qed

lemma durable_copy_step: "durable_copy a content (w\<lparr>w_syscalls := n\<rparr>) = durable_copy a content w"
  by (simp add: durable_copy_def)

lemma durable_copy_transfer:
  assumes "durable_copy a content w" "codec w' = codec w"
    "\<And>q n. file_at q w = Some n \<Longrightarrow> file_at q w' = Some n"
  shows "durable_copy a content w'"
proof -
  have c: "w_encode w' = w_encode w" "w_sha256 w' = w_sha256 w"
    using assms(2) by (simp_all add: codec_def)
  show ?thesis using assms(1) unfolding durable_copy_def c by (blast intro: assms(3))
qed

section \<open>What a write that returns has done\<close>

lemma mkdir_returns:
  assumes "mkdir_parents [r] w = (Inr u, w')"
  shows "file_at [r] w' = Some Directory"
proof -
  obtain w1 where w1: "os_call w = (Inr (), w1)"
    "(case file_at [r] w1 of None \<Rightarrow> put_file [r] Directory | Some Directory \<Rightarrow> returnM ()
      | Some (Regular b l) \<Rightarrow> raiseM (FileExistsError ''File exists'')
      | Some Link \<Rightarrow> raiseM (FileExistsError ''File exists'')) w1 = (Inr u, w')"
    using assms by (auto simp: mkdir_parents_def prefixes_of_def upt_rec returns_iff)
  then show ?thesis
    by (auto simp: put_file_def modifyM_def returnM_def raiseM_def file_at_def
        split: option.splits file_node.splits)
qed

lemma write_bytes_returns: "write_bytes p bytes w = (Inr u, w') \<Longrightarrow> p \<noteq> [] \<Longrightarrow>
    file_at p w' = Some (Regular bytes 1)"
  by (auto simp: write_bytes_def file_at_def split: option.splits)

lemma read_bytes_returns:
  assumes "read_bytes p w = (Inr b, w')"
  shows "\<exists>l. file_at p w = Some (Regular b l)"
proof -
  obtain w1 where w1: "os_call w = (Inr (), w1)"
    "(case file_at p w1 of Some (Regular bytes l) \<Rightarrow> returnM bytes
      | _ \<Rightarrow> raiseM (OSError ''not a readable file'')) w1 = (Inr b, w')"
    using assms by (auto simp: read_bytes_def returns_iff)
  then have "\<exists>l. file_at p w1 = Some (Regular b l)"
    by (auto simp: returnM_def raiseM_def split: option.splits file_node.splits)
  then show ?thesis using os_call_files [OF w1(1)] by (simp add: file_at_def split: if_splits)
qed

lemma insert_artifact_returns:
  assumes "create_artifact a w = (Inr b, w')"
  shows "b = a \<and> d_artifacts (w_db w') = d_artifacts (w_db w) @ [a]"
proof -
  obtain w1 u where e: "ensure_agent_run_belongs_to_run (art_agent_run_id a) (art_run_id a) w = (Inr (), w1)"
    "insert_model d_artifacts put_artifacts a w1 = (Inr u, w')" "b = a"
    using assms unfolding create_artifact_def by (auto simp: returns_iff)
  have "w1 = w"
    using e(1) unfolding ensure_agent_run_belongs_to_run_def by (auto dest: belongs_returns)
  then show ?thesis
    using artifact_table.insert_returns [OF e(2)] e(3) by (simp add: put_artifacts_def)
qed

lemma trace_leaves_artifacts:
  "record_trace r t p ar d w = (Inr e, w') \<Longrightarrow> d_artifacts (w_db w') = d_artifacts (w_db w)"
  using record_trace_returns by (fastforce simp: put_events_def)

lemma create_record_returns:
  assumes "create_artifact_record a path b w = (Inr c, w')"
  shows "c = a \<and> d_artifacts (w_db w') = d_artifacts (w_db w) @ [a]
    \<and> codec w' = codec w \<and> w_files w' = w_files w"
proof -
  obtain w1 where w1: "create_artifact a w = (Inr c, w1)"
    and t: "\<exists>p e. record_trace (art_run_id a) ARTIFACT_CREATED p (Some (art_agent_run_id a)) None w1 = (Inr e, w')"
    using assms
    by (auto simp: create_artifact_record_def Let_def act_defs split: prod.splits sum.splits)
  then obtain p e where t: "record_trace (art_run_id a) ARTIFACT_CREATED p (Some (art_agent_run_id a)) None w1 = (Inr e, w')"
    by blast
  note storage = outside_frame.frame_writes(13) outside_frame.frame_trace
  have "outside_db w1 = outside_db w" by (rule keepsD [OF storage(1) refl w1])
  moreover have "outside_db w' = outside_db w1" by (rule keepsD [OF storage(2) refl t])
  ultimately have o: "outside_db w' = outside_db w" by simp
  show ?thesis
    using insert_artifact_returns [OF w1] trace_leaves_artifacts [OF t] codec_outside [OF o]
      outside_db_fields(1) [OF o] by simp
qed

lemma new_artifact_returns:
  "new_artifact r ar t p h refs w = (Inr a, w') \<Longrightarrow>
    w_db w' = w_db w \<and> art_path a = strip p \<and> art_content_hash a = Some (strip h) \<and> art_type a = t
    \<and> art_run_id a = strip r \<and> art_agent_run_id a = strip ar"
  by (auto simp: new_artifact_def returns_iff new_id_def utc_now_def)

lemma exclusive_write_returns:
  assumes "catch_if is_file_exists (thenM (open_exclusive p) (write_bytes p bytes)) (\<lambda>_. raiseM e) w
      = (Inr u, w')"
  shows "file_at p w = None \<and> file_at p w' = Some (Regular bytes 1)"
proof -
  obtain w1 where w1: "open_exclusive p w = (Inr (), w1)" "write_bytes p bytes w1 = (Inr u, w')"
    using assms by (auto simp: catch_if_def act_defs split: prod.splits sum.splits if_splits)
  show ?thesis
    using open_exclusive_cases [OF w1(1)] write_bytes_returns [OF w1(2)] by simp
qed

lemma write_text_returns:
  assumes "write_text run_id agent_run_id ty filename content refs w = (Inr a, w')"
    "strip (run_id @ ''/'' @ filename) = run_id @ ''/'' @ filename" "\<And>b. strip (w_sha256 w b) = w_sha256 w b"
  shows "durable_copy a content w' \<and> d_artifacts (w_db w') = d_artifacts (w_db w) @ [a]
    \<and> art_path a = run_id @ ''/'' @ filename \<and> art_agent_run_id a = strip agent_run_id
    \<and> art_run_id a = strip run_id \<and> art_type a = ty"
proof -
  define path where "path = [run_id, filename]"
  define h where "h = w_sha256 w (w_encode w content)"
  obtain w1 where w1: "artifact_path run_id filename w = (Inr path, w1)"
    and seg: "simple_segment run_id" "simple_segment filename"
    and rest: "write_text_at path run_id agent_run_id ty content refs w1 = (Inr a, w')"
    using assms(1) artifact_path_returns unfolding write_text_def bindM_returns path_def by blast
  have parent: "butlast path = [run_id]" by (simp add: path_def)
  obtain w2 w3 w4 w5 w6 written a0 u u1 u2 where s:
    "ensure_agent_run_belongs_to_run agent_run_id run_id w1 = (Inr u1, w2)"
    "mkdir_parents [run_id] w2 = (Inr u2, w3)"
    "catch_if is_file_exists (thenM (open_exclusive path) (write_bytes path (w_encode w3 content)))
       (\<lambda>_. raiseM (ArtifactStoreError (''artifact already exists: '' @ last path))) w3 = (Inr u, w4)"
    "read_bytes path w4 = (Inr written, w5)"
    "new_artifact run_id agent_run_id ty (join ''/'' path) (w_sha256 w5 written) refs w5 = (Inr a0, w6)"
    "create_artifact_record a0 path True w6 = (Inr a, w')"
    using rest unfolding write_text_at_def bindM_returns thenM_returns getsM_returns parent
    by (elim exE conjE) (rule that, assumption+, simp_all only:)
  have w2: "w2 = w1"
    using s(1) unfolding ensure_agent_run_belongs_to_run_def by (auto dest: belongs_returns)
  have writes: "keeps (\<lambda>x. codec x = c) (catch_if is_file_exists (thenM (open_exclusive p) (write_bytes p b)) (\<lambda>_. raiseM e))"
    "keeps (\<lambda>x. w_db x = d) (catch_if is_file_exists (thenM (open_exclusive p) (write_bytes p b)) (\<lambda>_. raiseM e))"
    for c d p b e
    by (intro keeps_intros codec_process.frame_file_reads codec_process.frame_write_bytes
        db_os.frame_file_reads db_os.frame_write_bytes)+
  have codecs: "codec w1 = codec w" "codec w3 = codec w2" "codec w4 = codec w3" "codec w5 = codec w4"
    "codec w6 = codec w5"
    using keepsD [OF codec_process.frame_paths(2), OF refl w1]
      keepsD [OF codec_process.frame_file_reads(3), OF refl s(2)]
      keepsD [OF writes(1), OF refl s(3)]
      keepsD [OF codec_process.frame_file_reads(2), OF refl s(4)]
      keepsD [OF codec_process.frame_artifact_record(1), OF refl s(5)] by simp_all
  then have c: "codec w3 = codec w" "codec w5 = codec w" "codec w6 = codec w" using w2 by simp_all
  then have enc: "w_encode w3 = w_encode w" "w_sha256 w5 = w_sha256 w"
    by (simp_all add: codec_def)
  have dbs: "w_db w1 = w_db w" "w_db w3 = w_db w2" "w_db w4 = w_db w3" "w_db w5 = w_db w4"
    using keepsD [OF db_os.frame_paths(2), OF refl w1]
      keepsD [OF db_os.frame_file_reads(3), OF refl s(2)] keepsD [OF writes(2), OF refl s(3)]
      keepsD [OF db_os.frame_file_reads(2), OF refl s(4)] by simp_all
  note wr = exclusive_write_returns [OF s(3)]
  obtain l where "file_at path w4 = Some (Regular written l)" using read_bytes_returns [OF s(4)] by blast
  then have written: "written = w_encode w content" using wr enc by simp
  note new = new_artifact_returns [OF s(5)]
  note stored = create_record_returns [OF s(6)]
  have path_text: "join ''/'' path = run_id @ ''/'' @ filename" by (simp add: path_def)
  have dir: "file_at [run_id] w3 = Some Directory" by (rule mkdir_returns [OF s(2)])
  have stay: "keeps (node_stays [run_id] Directory)
      (catch_if is_file_exists (thenM (open_exclusive path) (write_bytes path (w_encode w3 content)))
       (\<lambda>_. raiseM (ArtifactStoreError (''artifact already exists: '' @ last path))))"
    by (intro keeps_intros stays_open stays_write) (simp add: path_def)
  have "file_at [run_id] w4 = Some Directory" by (rule keepsD [OF stay dir s(3)])
  then have "file_at [run_id] w5 = Some Directory" "file_at path w5 = Some (Regular (w_encode w content) 1)"
    using keepsD [OF stays_read _ s(4)] wr enc by auto
  then have "file_at [run_id] w6 = Some Directory" "file_at path w6 = Some (Regular (w_encode w content) 1)"
    using keepsD [OF stays_record(2) _ s(5)] by auto
  then have "file_at [run_id] w' = Some Directory" "file_at path w' = Some (Regular (w_encode w content) 1)"
    using stored by (auto simp: file_at_def)
  moreover have "w_encode w' = w_encode w" "w_sha256 w' = w_sha256 w"
    using stored c by (auto simp: codec_def)
  ultimately have "durable_copy a content w'"
    unfolding durable_copy_def
    by (intro exI [of _ run_id] exI [of _ filename] exI [of _ 1])
      (use seg stored new written enc assms(2,3) path_text in \<open>auto simp: path_def\<close>)
  then show ?thesis using stored new dbs w2 path_text assms(2) by auto
qed

section \<open>Repeating a read or a write\<close>

lemma catch_raise_returns:
  "catch_if p m (\<lambda>_. raiseM e) w = (Inr x, w') \<longleftrightarrow> m w = (Inr x, w')"
  by (auto simp: catch_if_def catchM_def raiseM_def split: prod.splits sum.splits if_splits)

lemma lstat_returns:
  "lstat p w = (Inr x, w') \<Longrightarrow> x = file_at p w \<and> \<not> path_blocked p w \<and> w_files w' = w_files w"
  by (auto simp: lstat_def returns_iff file_at_def path_blocked_def dest!: os_call_files)

lemma same_files: "w_files w' = w_files w \<Longrightarrow> file_at p w' = file_at p w"
  "w_files w' = w_files w \<Longrightarrow> path_blocked p w' = path_blocked p w"
  by (simp_all add: file_at_def path_blocked_def)

lemma os_ok_later: "os_ok w \<Longrightarrow> w_syscalls w \<le> n \<Longrightarrow> os_ok (w\<lparr>w_syscalls := n\<rparr>)"
  by (simp add: os_ok_def)

lemma reads_keep_files:
  "keeps (\<lambda>w. w_files w = fs) (lstat p)" "keeps (\<lambda>w. w_files w = fs) (read_bytes p)"
  "keeps (\<lambda>w. w_files w = fs) (ensure_no_reparse_loop b cur parts)"
proof -
  have os: "keeps (\<lambda>w. w_files w = fs) os_call"
    by (auto simp: keeps_def os_call_def split: option.split)
  show l: "keeps (\<lambda>w. w_files w = fs) (lstat p)" for p
    unfolding lstat_def by (intro os keeps_intros)
  show "keeps (\<lambda>w. w_files w = fs) (read_bytes p)"
    unfolding read_bytes_def by (intro os keeps_intros)
  show "keeps (\<lambda>w. w_files w = fs) (ensure_no_reparse_loop b cur parts)"
    by (induction b cur parts rule: ensure_no_reparse_loop.induct) (auto intro!: l keeps_intros)
qed

lemma reparse_again:
  assumes "ensure_no_reparse_loop b cur parts w = (Inr u, w1)" "w_files w2 = w_files w" "os_ok w2"
  shows "\<exists>n \<ge> w_syscalls w2. ensure_no_reparse_loop b cur parts w2 = (Inr (), w2\<lparr>w_syscalls := n\<rparr>)"
  using assms
proof (induction parts arbitrary: cur w w2)
  case Nil
  show ?case by (rule exI [of _ "w_syscalls w2"]) (simp add: returnM_def)
next
  case (Cons part parts)
  obtain node w0 where l: "lstat (cur @ [part]) w = (Inr node, w0)"
    and k: "(case node of None \<Rightarrow> guardM b (ArtifactStoreError ''artifact path does not exist'')
      | Some Link \<Rightarrow> raiseM (ArtifactStoreError ''artifact path cannot traverse a symbolic link or reparse point'')
      | Some _ \<Rightarrow> ensure_no_reparse_loop b (cur @ [part]) parts) w0 = (Inr u, w1)"
    using Cons.prems(1) unfolding ensure_no_reparse_loop.simps bindM_returns catch_raise_returns by blast
  note L = lstat_returns [OF l]
  define w3 where "w3 = w2\<lparr>w_syscalls := Suc (w_syscalls w2)\<rparr>"
  have l2: "lstat (cur @ [part]) w2 = (Inr node, w3)"
    using lstat_ok [OF Cons.prems(3), of "cur @ [part]"] L same_files [OF Cons.prems(2)]
    by (simp add: w3_def)
  have ok3: "os_ok w3" using os_ok_step [OF Cons.prems(3)] by (simp add: w3_def)
  have step: "ensure_no_reparse_loop b cur (part # parts) w2 =
      (case node of None \<Rightarrow> guardM b (ArtifactStoreError ''artifact path does not exist'')
      | Some Link \<Rightarrow> raiseM (ArtifactStoreError ''artifact path cannot traverse a symbolic link or reparse point'')
      | Some _ \<Rightarrow> ensure_no_reparse_loop b (cur @ [part]) parts) w3"
    by (simp add: bindM_def catch_if_def catchM_def l2)
  have continue: "\<exists>n \<ge> w_syscalls w2. ensure_no_reparse_loop b (cur @ [part]) parts w3
      = (Inr (), w2\<lparr>w_syscalls := n\<rparr>)"
    if rest: "ensure_no_reparse_loop b (cur @ [part]) parts w0 = (Inr u, w1)"
  proof -
    have same: "w_files w3 = w_files w0" using L Cons.prems(2) by (simp add: w3_def)
    obtain n where "n \<ge> w_syscalls w3"
      "ensure_no_reparse_loop b (cur @ [part]) parts w3 = (Inr (), w3\<lparr>w_syscalls := n\<rparr>)"
      using Cons.IH [OF rest same ok3] by blast
    then show ?thesis by (intro exI [of _ n]) (simp add: w3_def)
  qed
  show ?case
  proof (cases node)
    case None
    then have b: b using k by (simp add: guardM_returns)
    show ?thesis unfolding step None
      by (rule exI [of _ "Suc (w_syscalls w2)"]) (simp add: guardM_def returnM_def b w3_def)
  next
    case (Some x)
    then show ?thesis using k continue unfolding step by (cases x) (simp_all add: raiseM_def)
  qed
qed

lemma read_verified_again:
  assumes "read_text_verified a w = (Inr t, w')" "w_files w2 = w_files w" "codec w2 = codec w"
    "os_ok w2"
  shows "\<exists>n \<ge> w_syscalls w2. read_text_verified a w2 = (Inr t, w2\<lparr>w_syscalls := n\<rparr>)"
proof -
  define parts where "parts = path_parts (art_path a)"
  obtain w0 b w1 where ok: "art_path a \<noteq> []" "\<not> is_absolute (art_path a)" "''..'' \<notin> set parts"
    and r: "ensure_no_reparse_loop False [] parts w = (Inr (), w0)" "read_bytes parts w0 = (Inr b, w1)"
    and h: "art_content_hash a = Some (w_sha256 w1 b)" "w_decode w1 b = Some t"
    using assms(1)
    by (auto simp: read_text_verified_def existing_artifact_path_def ensure_no_reparse_components_def
        Let_def returns_iff parts_def catch_raise_returns split: option.splits)
  obtain n where n: "n \<ge> w_syscalls w2"
    "ensure_no_reparse_loop False [] parts w2 = (Inr (), w2\<lparr>w_syscalls := n\<rparr>)"
    using reparse_again [OF r(1) assms(2,4)] by blast
  obtain l where "file_at parts w0 = Some (Regular b l)" using read_bytes_returns [OF r(2)] by blast
  moreover have "w_files w0 = w_files w" by (rule keepsD [OF reads_keep_files(3) refl r(1)])
  ultimately have l: "file_at parts (w2\<lparr>w_syscalls := n\<rparr>) = Some (Regular b l)"
    using assms(2) by (simp add: file_at_def split: if_splits)
  have ok2: "os_ok (w2\<lparr>w_syscalls := n\<rparr>)" by (rule os_ok_later [OF assms(4) n(1)])
  have "codec w0 = codec w" by (rule keepsD [OF codec_process.frame_reparse refl r(1)])
  moreover have "codec w1 = codec w0"
    by (rule keepsD [OF codec_process.frame_file_reads(2) refl r(2)])
  ultimately have c: "w_sha256 w2 = w_sha256 w1" "w_decode w2 = w_decode w1"
    using assms(3) by (simp_all add: codec_def)
  have "read_text_verified a w2 = (Inr t, w2\<lparr>w_syscalls := Suc n\<rparr>)"
    using ok n(2) read_bytes_ok [OF ok2 l] h c
    by (simp add: read_text_verified_def existing_artifact_path_def
        ensure_no_reparse_components_def Let_def parts_def [symmetric] catch_if_def act_defs)
  then show ?thesis using n(1) by (intro exI [of _ "Suc n"]) simp
qed

text \<open>What an idempotent write that returns leaves: the only record of the path, readable.\<close>

definition path_records :: "string \<Rightarrow> string \<Rightarrow> db \<Rightarrow> artifact list" where
  "path_records run_id path d = filter (\<lambda>a. art_path a = path)
     (sort_key (\<lambda>x. (art_created_at x, art_id x)) (filter (\<lambda>x. art_run_id x = run_id) (d_artifacts d)))"

lemma list_artifacts_returns:
  "list_artifacts_for_run run_id w = (Inr xs, w') \<longleftrightarrow> w' = w
    \<and> xs = sort_key (\<lambda>x. (art_created_at x, art_id x))
        (filter (\<lambda>x. art_run_id x = run_id) (d_artifacts (w_db w)))"
  by (auto simp: list_artifacts_for_run_def returns_iff list_models_returns)

lemma bind_gets: "bindM (getsM f) k w = k (f w) w"
  by (simp add: bindM_def getsM_def)

lemma bind_list_artifacts: "bindM (list_artifacts_for_run run_id) k w =
    k (sort_key (\<lambda>x. (art_created_at x, art_id x))
        (filter (\<lambda>x. art_run_id x = run_id) (d_artifacts (w_db w)))) w"
  by (simp add: list_artifacts_for_run_def list_models_def bindM_def getsM_def returnM_def)

lemma path_records_append:
  assumes "path_records run_id path d = []" "d_artifacts d' = d_artifacts d @ [a]"
    "art_run_id a = run_id" "art_path a = path"
  shows "path_records run_id path d' = [a]"
proof -
  have "filter (\<lambda>a. art_path a = path) (filter (\<lambda>x. art_run_id x = run_id) (d_artifacts d)) = []"
    using assms(1) unfolding path_records_def filter_sort by simp
  then show ?thesis using assms(2-4) unfolding path_records_def filter_sort by simp
qed

definition settled :: "string \<Rightarrow> string \<Rightarrow> artifact_type \<Rightarrow> string \<Rightarrow> string \<Rightarrow> artifact \<Rightarrow> world \<Rightarrow> bool" where
  "settled run_id agent_run_id ty path content a w \<longleftrightarrow>
     path_records run_id path (w_db w) = [a] \<and> art_agent_run_id a = agent_run_id \<and> art_type a = ty
   \<and> art_content_hash a = Some (w_sha256 w (w_encode w content))
   \<and> (\<forall>w2. w_files w2 = w_files w \<longrightarrow> codec w2 = codec w \<longrightarrow> os_ok w2 \<longrightarrow>
       (\<exists>n \<ge> w_syscalls w2. read_text_verified a w2 = (Inr content, w2\<lparr>w_syscalls := n\<rparr>)))"

lemma settled_again:
  assumes "settled run_id agent_run_id ty (run_id @ ''/'' @ filename) content a w" "os_ok w"
  shows "\<exists>n. write_text_idempotent run_id agent_run_id ty filename content refs w
    = (Inr a, w\<lparr>w_syscalls := n\<rparr>)"
proof -
  have s: "path_records run_id (run_id @ ''/'' @ filename) (w_db w) = [a]"
    "art_agent_run_id a = agent_run_id" "art_type a = ty"
    "art_content_hash a = Some (w_sha256 w (w_encode w content))"
    using assms(1) by (simp_all add: settled_def)
  obtain n where "read_text_verified a w = (Inr content, w\<lparr>w_syscalls := n\<rparr>)"
    using assms unfolding settled_def by blast
  then have "reuse_durable_copy a agent_run_id ty (w_sha256 w (w_encode w content)) content w
      = (Inr a, w\<lparr>w_syscalls := n\<rparr>)"
    using s by (simp add: reuse_durable_copy_def catch_if_def act_defs Let_def)
  moreover have "list_artifacts_for_run run_id w = (Inr (sort_key (\<lambda>x. (art_created_at x, art_id x))
        (filter (\<lambda>x. art_run_id x = run_id) (d_artifacts (w_db w)))), w)"
    by (simp add: list_artifacts_returns)
  ultimately have "write_text_idempotent run_id agent_run_id ty filename content refs w
      = (Inr a, w\<lparr>w_syscalls := n\<rparr>)"
    using s(1) unfolding path_records_def
    by (simp add: write_text_idempotent_def bindM_def getsM_def Let_def)
  then show ?thesis by blast
qed

lemma durable_copy_settles:
  assumes "durable_copy a content w" "w_decode w (w_encode w content) = Some content"
    "path_records run_id path (w_db w) = [a]" "art_agent_run_id a = agent_run_id" "art_type a = ty"
  shows "settled run_id agent_run_id ty path content a w"
proof -
  have "\<exists>n \<ge> w_syscalls w2. read_text_verified a w2 = (Inr content, w2\<lparr>w_syscalls := n\<rparr>)"
    if "w_files w2 = w_files w" "codec w2 = codec w" "os_ok w2" for w2
  proof (rule durable_copy_reads [OF _ that(3)])
    show "durable_copy a content w2"
      by (rule durable_copy_transfer [OF assms(1) that(2)]) (simp add: file_at_def that(1) split: if_splits)
    show "w_decode w2 (w_encode w2 content) = Some content"
      using assms(2) that(2) by (simp add: codec_def)
  qed
  moreover have "art_content_hash a = Some (w_sha256 w (w_encode w content))"
    using assms(1) by (auto simp: durable_copy_def)
  ultimately show ?thesis using assms(3-5) by (simp add: settled_def)
qed

lemma reuse_settles:
  assumes "reuse_durable_copy existing agent_run_id ty (w_sha256 w (w_encode w content)) content w
      = (Inr a, w')" "path_records run_id path (w_db w) = [existing]"
  shows "a = existing \<and> settled run_id agent_run_id ty path content a w'"
proof -
  have r: "read_text_verified existing w = (Inr content, w')" "a = existing"
    "art_agent_run_id existing = agent_run_id" "art_type existing = ty"
    "art_content_hash existing = Some (w_sha256 w (w_encode w content))"
    using assms(1)
    by (auto simp: reuse_durable_copy_def Let_def returns_iff catch_raise_returns)
  have db: "w_db w' = w_db w" by (rule keepsD [OF db_os.frame_artifact_reads(1) refl r(1)])
  have c: "codec w' = codec w" by (rule keepsD [OF codec_process.frame_artifact_reads(1) refl r(1)])
  have "keeps (\<lambda>x. w_files x = w_files w) (read_text_verified existing)"
    unfolding read_text_verified_def existing_artifact_path_def
      ensure_no_reparse_components_def Let_def
    by (intro reads_keep_files keeps_intros)
  then have files: "w_files w' = w_files w"
    using keepsD [where I = "\<lambda>x. w_files x = w_files w"] r(1) by blast
  have "\<exists>n \<ge> w_syscalls w2. read_text_verified existing w2 = (Inr content, w2\<lparr>w_syscalls := n\<rparr>)"
    if "w_files w2 = w_files w'" "codec w2 = codec w'" "os_ok w2" for w2
    using read_verified_again [OF r(1) _ _ that(3)] that(1,2) files c by simp
  moreover have "w_sha256 w' = w_sha256 w" "w_encode w' = w_encode w"
    using c by (simp_all add: codec_def)
  ultimately show ?thesis using r assms(2) db by (simp add: settled_def)
qed

definition tree_ok :: "world \<Rightarrow> bool" where
  "tree_ok w \<longleftrightarrow> (\<forall>p n. file_at p w = Some n \<longrightarrow> p \<noteq> [] \<longrightarrow> file_at (butlast p) w = Some Directory)"

lemma adopt_settles:
  assumes "adopt_orphan_copy path node expected run_id agent_run_id ty h content refs w = (Inr a, w')"
    "path = [run_id, filename]" "expected = run_id @ ''/'' @ filename"
    "simple_segment run_id" "simple_segment filename"
    "file_at path w = Some node" "tree_ok w" "h = w_sha256 w (w_encode w content)"
    "strip expected = expected" "strip run_id = run_id" "strip agent_run_id = agent_run_id" "strip h = h"
    "w_decode w (w_encode w content) = Some content"
    "path_records run_id expected (w_db w) = []"
  shows "settled run_id agent_run_id ty expected content a w'"
proof -
  obtain w1 w2 w3 orphan a0 u where s: "assert_regular_unlinked node w = (Inr u, w1)"
    "read_bytes path w1 = (Inr orphan, w2)" "orphan = w_encode w2 content"
    "new_artifact run_id agent_run_id ty expected h refs w2 = (Inr a0, w3)"
    "create_artifact_record a0 path False w3 = (Inr a, w')"
    using assms(1) unfolding adopt_orphan_copy_def bindM_returns thenM_returns getsM_returns
      guardM_returns catch_raise_returns by blast
  have w1: "w1 = w"
    using s(1) by (auto simp: assert_regular_unlinked_def guardM_returns raiseM_def split: file_node.splits)
  have files: "w_files w2 = w_files w"
    using keepsD [OF reads_keep_files(2), OF refl s(2)] w1 by simp
  have c2: "codec w2 = codec w"
    using keepsD [OF codec_process.frame_file_reads(2), OF refl s(2)] w1 by simp
  have c3: "codec w3 = codec w2"
    using keepsD [OF codec_process.frame_artifact_record(1), OF refl s(4)] by simp
  have d2: "w_db w2 = w_db w"
    using keepsD [OF db_os.frame_file_reads(2), OF refl s(2)] w1 by simp
  obtain l where l: "file_at path w = Some (Regular (w_encode w content) l)"
    using read_bytes_returns [OF s(2)] s(3) w1 c2 by (auto simp: codec_def)
  have dir: "file_at [run_id] w = Some Directory"
    using assms(2,7) l unfolding tree_ok_def by force
  note new = new_artifact_returns [OF s(4)]
  note stored = create_record_returns [OF s(5)]
  have files3: "w_files w3 = w_files w2"
    using s(4) by (auto simp: new_artifact_def returns_iff new_id_def utc_now_def)
  have same: "file_at p w' = file_at p w" for p
    using stored files files3 by (simp add: file_at_def)
  have c': "w_encode w' = w_encode w" "w_sha256 w' = w_sha256 w" "w_decode w' = w_decode w"
    using stored c2 c3 by (auto simp: codec_def)
  have "durable_copy a content w'"
    unfolding durable_copy_def
    by (intro exI [of _ run_id] exI [of _ filename] exI [of _ l])
      (use assms(2-5,8,9,12) l dir new stored same c' in simp)
  moreover have "path_records run_id expected (w_db w') = [a]"
    by (rule path_records_append [of _ _ "w_db w"]) (use assms new stored d2 in simp_all)
  ultimately show ?thesis
    using durable_copy_settles [of a content w' run_id expected agent_run_id ty] assms(9-13) new stored c'
    by simp
qed

lemma fresh_settles:
  assumes "write_text run_id agent_run_id ty filename content refs w = (Inr a, w')"
    "expected = run_id @ ''/'' @ filename" "strip expected = expected" "strip run_id = run_id"
    "strip agent_run_id = agent_run_id" "\<And>b. strip (w_sha256 w b) = w_sha256 w b"
    "w_decode w (w_encode w content) = Some content"
    "path_records run_id expected (w_db w) = []"
  shows "settled run_id agent_run_id ty expected content a w'"
proof -
  have r: "durable_copy a content w' \<and> d_artifacts (w_db w') = d_artifacts (w_db w) @ [a]
    \<and> art_path a = run_id @ ''/'' @ filename \<and> art_agent_run_id a = strip agent_run_id
    \<and> art_run_id a = strip run_id \<and> art_type a = ty"
    by (rule write_text_returns [OF assms(1) _ assms(6)]) (use assms(2,3) in simp)
  have c: "codec w' = codec w"
    by (rule keepsD [OF codec_process.frame_write_text, OF refl assms(1)])
  have "path_records run_id expected (w_db w') = [a]"
    by (rule path_records_append [OF assms(8)]) (use r assms(2-5) in simp_all)
  then show ?thesis
    by (intro durable_copy_settles) (use r c assms(5,7) in \<open>simp_all add: codec_def\<close>)
qed

lemma idempotent_settles:
  assumes "write_text_idempotent run_id agent_run_id ty filename content refs w = (Inr a, w')"
    "expected = run_id @ ''/'' @ filename" "tree_ok w" "strip expected = expected" "strip run_id = run_id"
    "strip agent_run_id = agent_run_id" "\<And>b. strip (w_sha256 w b) = w_sha256 w b"
    "w_decode w (w_encode w content) = Some content"
  shows "settled run_id agent_run_id ty expected content a w'"
proof -
  define h where "h = w_sha256 w (w_encode w content)"
  have body: "(case path_records run_id expected (w_db w) of
      [existing] \<Rightarrow> reuse_durable_copy existing agent_run_id ty h content
    | _ # _ \<Rightarrow> raiseM (ArtifactStoreError
        (''multiple durable artifact records exist for '' @ expected))
    | [] \<Rightarrow> bindM (artifact_path run_id filename) (\<lambda>path.
        bindM (catch_if is_os_error (lstat path) (\<lambda>_. raiseM (ArtifactStoreError
          (''orphan artifact copy could not be inspected: '' @ expected)))) (\<lambda>orphan. case orphan of
          Some node \<Rightarrow> adopt_orphan_copy path node expected run_id agent_run_id ty h content refs
        | None \<Rightarrow> write_text run_id agent_run_id ty filename content refs))) w = (Inr a, w')"
    using assms(1)
    unfolding write_text_idempotent_def Let_def bind_gets bind_list_artifacts path_records_def h_def assms(2) .
  show ?thesis
  proof (cases "path_records run_id expected (w_db w)")
    case (Cons existing rest)
    then have "reuse_durable_copy existing agent_run_id ty h content w = (Inr a, w')" "rest = []"
      using body by (cases rest; simp add: raiseM_def)+
    then show ?thesis using reuse_settles Cons unfolding h_def by blast
  next
    case Nil
    obtain path w1 orphan w2 where s: "artifact_path run_id filename w = (Inr path, w1)"
      "lstat path w1 = (Inr orphan, w2)"
      "(case orphan of Some node \<Rightarrow> adopt_orphan_copy path node expected run_id agent_run_id ty h content refs
        | None \<Rightarrow> write_text run_id agent_run_id ty filename content refs) w2 = (Inr a, w')"
      using body unfolding Nil list.case bindM_returns catch_raise_returns by blast
    note p = artifact_path_returns [OF s(1)]
    have files: "w_files w2 = w_files w"
    proof -
      have "keeps (\<lambda>x. w_files x = w_files w) (artifact_path run_id filename)"
        unfolding artifact_path_def ensure_simple_segment_def ensure_no_reparse_components_def
        by (intro reads_keep_files keeps_intros)
      then have "w_files w1 = w_files w"
        using keepsD [where I = "\<lambda>x. w_files x = w_files w"] s(1) by blast
      then show ?thesis using lstat_returns [OF s(2)] by simp
    qed
    have c: "codec w2 = codec w"
      using keepsD [OF codec_process.frame_paths(2), OF refl s(1)]
        keepsD [OF codec_process.frame_file_reads(1), OF refl s(2)] by simp
    have d: "w_db w2 = w_db w"
      using keepsD [OF db_os.frame_paths(2), OF refl s(1)]
        keepsD [OF db_os.frame_file_reads(1), OF refl s(2)] by simp
    have laws: "\<And>b. strip (w_sha256 w2 b) = w_sha256 w2 b"
      "w_decode w2 (w_encode w2 content) = Some content" "h = w_sha256 w2 (w_encode w2 content)"
      "strip h = h" "path_records run_id expected (w_db w2) = []"
      using assms(7,8) c d Nil by (simp_all add: codec_def h_def)
    have "tree_ok w2" using assms(3) unfolding tree_ok_def same_files(1) [OF files] .
    note laws = laws this
    show ?thesis
    proof (cases orphan)
      case None
      then show ?thesis using s(3) fresh_settles assms(2,4-6) laws by simp
    next
      case (Some node)
      have "file_at path w2 = Some node"
        using lstat_returns [OF s(2)] Some by (simp add: file_at_def)
      then show ?thesis
        using adopt_settles [of path node expected run_id agent_run_id ty h content refs w2 a w' filename]
          s(3) Some p assms(2,4-6) laws by simp
    qed
  qed
qed

section \<open>Properties\<close>

text \<open>
  C22. Writing an artifact never damages what is there: whatever the outcome (returned, name
  taken, failing system call or statement, cleanup), every file and directory that existed
  before the write is still there with the same content, and the same holds for the
  idempotent write.
\<close>

theorem writes_never_touch_existing_files:
  assumes "file_at q w = Some n"
  shows "file_at q (snd (write_text run_id agent_run_id ty filename content refs w)) = Some n
    \<and> file_at q (snd (write_text_idempotent run_id agent_run_id ty filename content refs w)) = Some n"
  using stays_write_text stays_write_text_idempotent assms unfolding keeps_def by blast

text \<open>
  C23. Round trip of an artifact: a write that returns has added exactly its record to the
  database, and as long as the system calls succeed the verified read of that record returns
  the content that was written. The path must not end in white space, because the record
  stores it stripped.
\<close>

theorem written_artifact_reads_back:
  assumes "write_text run_id agent_run_id ty filename content refs w = (Inr a, w')"
    and "strip (run_id @ ''/'' @ filename) = run_id @ ''/'' @ filename"
    and "\<And>b. strip (w_sha256 w b) = w_sha256 w b"
    and "w_decode w (w_encode w content) = Some content" "os_ok w'"
  shows "d_artifacts (w_db w') = d_artifacts (w_db w) @ [a]
    \<and> art_path a = run_id @ ''/'' @ filename
    \<and> (\<exists>w''. read_text_verified a w' = (Inr content, w'') \<and> w_db w'' = w_db w')"
proof -
  have r: "durable_copy a content w' \<and> d_artifacts (w_db w') = d_artifacts (w_db w) @ [a]
    \<and> art_path a = run_id @ ''/'' @ filename"
    using write_text_returns [OF assms(1-3)] by blast
  have "codec w' = codec w" by (rule keepsD [OF codec_process.frame_write_text, OF refl assms(1)])
  then have "w_decode w' (w_encode w' content) = Some content"
    using assms(4) by (simp add: codec_def)
  then obtain n where "read_text_verified a w' = (Inr content, w'\<lparr>w_syscalls := n\<rparr>)"
    using durable_copy_reads r assms(5) by blast
  then show ?thesis using r by simp
qed

text \<open>
  C24. Writing once is idempotent: when the idempotent write returns an artifact (created,
  adopted from an orphan file or reused), the same call made again returns the same artifact
  and changes neither the database nor a file.
\<close>

theorem write_once_is_idempotent:
  assumes "write_text_idempotent run_id agent_run_id ty filename content refs w = (Inr a, w')"
    and "tree_ok w" "os_ok w'"
    and "strip (run_id @ ''/'' @ filename) = run_id @ ''/'' @ filename"
    and "strip run_id = run_id" "strip agent_run_id = agent_run_id"
    and "\<And>b. strip (w_sha256 w b) = w_sha256 w b" "w_decode w (w_encode w content) = Some content"
  shows "\<exists>w''. write_text_idempotent run_id agent_run_id ty filename content refs w' = (Inr a, w'')
    \<and> w_db w'' = w_db w' \<and> w_files w'' = w_files w'"
proof -
  have "settled run_id agent_run_id ty (run_id @ ''/'' @ filename) content a w'"
    by (rule idempotent_settles [OF assms(1) refl assms(2,4-8)])
  then obtain n where "write_text_idempotent run_id agent_run_id ty filename content refs w'
      = (Inr a, w'\<lparr>w_syscalls := n\<rparr>)"
    using settled_again assms(3) by blast
  then show ?thesis by simp
qed

definition example_artifact_world :: world where
  "example_artifact_world = (example_world (example_waiting_db Job_APPROVED))
     \<lparr>w_files := [([''run-1''], Directory), ([''run-1'', ''old.md''], Regular ''old'' 1)],
      w_sha256 := (\<lambda>_. ''cafe'')\<rparr>"

definition example_write :: "artifact io" where
  "example_write = write_text ''run-1'' ''ar-1'' PATCH ''new.md'' ''text'' []"

definition example_write_once :: "artifact io" where
  "example_write_once = write_text_idempotent ''run-1'' ''ar-1'' PATCH ''old.md'' ''old'' []"

lemma example_writes_return:
  "returned (example_write example_artifact_world)"
  "returned (example_write_once example_artifact_world)"
  by code_simp+

lemma example_artifact_laws:
  "os_ok (snd (m example_artifact_world)) \<longleftrightarrow> True" if "\<And>c. keeps (\<lambda>w. codec w = c) m" for m :: "artifact io"
proof -
  have "codec (snd (m example_artifact_world)) = codec example_artifact_world"
    using that [of "codec example_artifact_world"] by (simp add: keeps_def)
  then have "w_os_fault (snd (m example_artifact_world)) = (\<lambda>_. None)"
    by (simp add: codec_def example_artifact_world_def example_world_def)
  then show ?thesis by (simp add: os_ok_def)
qed

lemma example_artifact_strips:
  "strip (''run-1'' @ ''/'' @ ''new.md'') = ''run-1'' @ ''/'' @ ''new.md''"
  "strip (''run-1'' @ ''/'' @ ''old.md'') = ''run-1'' @ ''/'' @ ''old.md''"
  "strip ''run-1'' = ''run-1''" "strip ''ar-1'' = ''ar-1''" "strip ''cafe'' = ''cafe''"
  by code_simp+

theorem writes_never_touch_existing_files_witness:
  "file_at [''run-1'', ''old.md''] (snd (write_text ''run-1'' ''ar-1'' PATCH ''old.md'' ''new'' []
     example_artifact_world)) = Some (Regular ''old'' 1)"
proof -
  have "file_at [''run-1'', ''old.md''] example_artifact_world = Some (Regular ''old'' 1)"
    by (simp add: file_at_def example_artifact_world_def)
  then show ?thesis using writes_never_touch_existing_files by blast
qed

theorem written_artifact_reads_back_witness:
  "\<exists>a w''. read_text_verified a (snd (example_write example_artifact_world)) = (Inr ''text'', w'')"
proof -
  obtain a where a: "example_write example_artifact_world = (Inr a, snd (example_write example_artifact_world))"
    by (rule returnedE [OF example_writes_return(1)])
  have ok: "os_ok (snd (example_write example_artifact_world))"
    unfolding example_write_def
    using example_artifact_laws [OF codec_process.frame_write_text] by blast
  show ?thesis
    using written_artifact_reads_back [OF a [unfolded example_write_def] example_artifact_strips(1) _ _
        ok [unfolded example_write_def]] example_artifact_strips(5)
    by (simp add: example_write_def example_artifact_world_def example_world_def) blast
qed

theorem write_once_is_idempotent_witness:
  "\<exists>a w''. example_write_once (snd (example_write_once example_artifact_world)) = (Inr a, w'')
     \<and> w_files w'' = w_files (snd (example_write_once example_artifact_world))"
proof -
  obtain a where a: "example_write_once example_artifact_world = (Inr a, snd (example_write_once example_artifact_world))"
    by (rule returnedE [OF example_writes_return(2)])
  have ok: "os_ok (snd (example_write_once example_artifact_world))"
    unfolding example_write_once_def
    using example_artifact_laws [OF codec_process.frame_write_text_idempotent] by blast
  have tree: "tree_ok example_artifact_world"
    by (auto simp: tree_ok_def file_at_def example_artifact_world_def split: if_splits)
  show ?thesis
    using write_once_is_idempotent [OF a [unfolded example_write_once_def] tree
        ok [unfolded example_write_once_def] example_artifact_strips(2-4)] example_artifact_strips(5)
    by (simp add: example_write_once_def example_artifact_world_def example_world_def) blast
qed

text \<open>
  A name that ends in a space is accepted by the path check, but the record stores the path
  stripped, so the artifact that was just written does not read back.
\<close>

lemma trailing_space_loses_the_artifact:
  "(case write_text ''run-1'' ''ar-1'' PATCH ''new.md '' ''text'' [] example_artifact_world of
      (Inr a, w') \<Rightarrow> art_path a = ''run-1/new.md''
        \<and> fst (read_text_verified a w') = Inl (ArtifactStoreError ''artifact path does not exist'')
    | _ \<Rightarrow> False)"
  by code_simp

end
