(* ===== verification/Step_Gates.thy ===== *)
theory Step_Gates imports Scheduling Artifact_Facts "HOL-Library.Sublist" begin

text \<open>
  The checks of \<open>WorkflowRunner\<close> around a step (\<open>backend/app/core/runner.py\<close>): its inputs and
  upstream artifacts before it runs, its outputs, return contract, acceptance criteria and
  evaluation gate after it ran, the evaluation of the Pack and the choice of the final
  artifact at the end; and the output of an executor that they judge.
\<close>

section \<open>The output of an executor\<close>

record artifact_output =
  ao_type :: string
  ao_filename :: string
  ao_content :: string
  ao_source_refs :: "string list"

text \<open>
  The requests and responses of \<open>backend/app/core/model_runtime.py\<close> that an output carries; the
  callback \<open>provider_attempt_recorder\<close> of a request, which no comparison sees, is left out.
\<close>

record model_tool_definition =
  td_name :: string
  td_description :: string
  td_input_schema :: jobj

record model_tool_call =
  tc_id :: string
  tc_name :: string
  tc_arguments :: jobj

record model_message =
  mm_role :: string
  mm_content :: "string + jobj list"
  mm_tool_call_id :: "string option"
  mm_tool_calls :: "model_tool_call list"

record model_request =
  mq_provider :: string
  mq_model :: string
  mq_system_prompt :: string
  mq_messages :: "model_message list"
  mq_temperature :: "rat option"
  mq_max_tokens :: "int option"
  mq_max_continuations :: int
  mq_reasoning_effort :: "string option"
  mq_timeout_seconds :: "rat option"
  mq_tools_allowed :: "string list"
  mq_tools :: "model_tool_definition list"
  mq_fallbacks :: "jobj list"
  mq_input_usd_per_million :: "rat option"
  mq_output_usd_per_million :: "rat option"
  mq_metadata :: jobj

record model_response =
  mr_text :: string
  mr_usage :: "(string \<times> int) list"
  mr_latency_ms :: int
  mr_finish_reason :: string
  mr_raw_provider :: string
  mr_adapter :: string
  mr_mocked :: bool
  mr_tool_calls :: "model_tool_call list"
  mr_route_receipt :: "jobj list"
  mr_provider_attempts :: "jobj list"
  mr_partial :: bool
  mr_continuation_count :: int
  mr_selected_provider :: "string option"
  mr_selected_model :: "string option"
  mr_selected_input_usd_per_million :: "rat option"
  mr_selected_output_usd_per_million :: "rat option"

record agent_step_output =
  so_summary :: string
  so_artifacts :: "artifact_output list"
  so_open_questions :: "string list"
  so_risk_notes :: "string list"
  so_eval_results :: "eval_result list"
  so_model_request :: "model_request option"
  so_model_response :: "model_response option"

definition runner_guard :: "bool \<Rightarrow> string \<Rightarrow> exn + unit" where
  "runner_guard ok message = guardE ok (WorkflowRunnerError message)"

definition liftE :: "exn + 'a \<Rightarrow> ('s, 'a) act" where
  "liftE r = (case r of Inl e \<Rightarrow> raiseM e | Inr x \<Rightarrow> returnM x)"

definition runner_artifact_type :: "string \<Rightarrow> exn + artifact_type" where
  "runner_artifact_type v =
     of_option (WorkflowRunnerError (''Unsupported artifact type: '' @ v)) (artifact_type_of v)"

section \<open>Before the step\<close>

definition builtin_inputs :: "string list" where
  "builtin_inputs = [''title'', ''goal'', ''constraints'', ''acceptance_criteria'', ''created_by'']"

definition validate_step_inputs :: "task \<Rightarrow> workflow_step \<Rightarrow> exn + unit" where
  "validate_step_inputs t s =
    (let missing = filter (\<lambda>n. n \<notin> set (map fst (t_inputs t)) \<and> n \<notin> set builtin_inputs)
                     (ws_required_inputs s) in
     runner_guard (missing = [])
       (''Step '' @ ws_name s @ '' is missing required inputs: '' @ join '', '' missing))"

text \<open>
  The types present in the run, then the types that the attempts of the transitively upstream
  steps produced.
\<close>

definition upstream_artifact_types ::
  "workflow_pack \<Rightarrow> workflow_step \<Rightarrow> agent_run list \<Rightarrow> artifact list \<Rightarrow> string list" where
  "upstream_artifact_types pack s agent_runs artifacts =
    (let upstream = pack_upstream_steps (ws_name s) (wp_steps pack) in
     concat (map (\<lambda>ar. map (artifact_type_value \<circ> art_type)
         (filter (\<lambda>a. art_agent_run_id a = ar_id ar) artifacts))
       (filter (\<lambda>ar. ar_step_name ar \<in> set upstream) agent_runs)))"

definition validate_step_artifacts :: "run \<Rightarrow> workflow_step \<Rightarrow> workflow_pack \<Rightarrow> unit io" where
  "validate_step_artifacts run s pack =
    bindM (list_artifacts_for_run (r_id run)) (\<lambda>artifacts.
    let missing = filter (\<lambda>t. t \<notin> set (map (artifact_type_value \<circ> art_type) artifacts))
                    (ws_required_artifacts s) in
    thenM (liftE (runner_guard (missing = [])
      (''Step '' @ ws_name s @ '' is missing required artifacts: '' @ join '', '' missing)))
    (if ws_requires_artifact s = [] then returnM ()
     else bindM (list_artifacts_for_run (r_id run)) (\<lambda>artifacts.
       bindM (list_agent_runs_for_run (r_id run)) (\<lambda>agent_runs.
       let missing = filter (\<lambda>t. t \<notin> set (upstream_artifact_types pack s agent_runs artifacts))
                       (ws_requires_artifact s) in
       liftE (runner_guard (missing = [])
         (''Step '' @ ws_name s @ '' is missing upstream gate artifacts: '' @ join '', '' missing))))))"

section \<open>Outputs and contract\<close>

definition validate_step_outputs :: "workflow_step \<Rightarrow> artifact_type list \<Rightarrow> exn + unit" where
  "validate_step_outputs s types = (case ws_produces_artifact_type s of
     None \<Rightarrow> Inr ()
   | Some v \<Rightarrow> if v = [] then Inr () else
       bindE (runner_artifact_type v) (\<lambda>expected.
       runner_guard (expected \<in> set types)
         (''Step '' @ ws_name s @ '' declared produced artifact type '' @ artifact_type_value expected
           @ '' but executor did not return it.'')))"

primrec missing_types :: "artifact_type list \<Rightarrow> string list \<Rightarrow> exn + string list" where
  "missing_types types [] = Inr []"
| "missing_types types (v # vs) =
    bindE (runner_artifact_type v) (\<lambda>t.
    bindE (missing_types types vs) (\<lambda>rest. Inr (if t \<in> set types then rest else v # rest)))"

definition validate_return_contract ::
  "workflow_step \<Rightarrow> agent_step_output \<Rightarrow> artifact_type list \<Rightarrow> exn + unit" where
  "validate_return_contract s out types = (case ws_return_contract s of
     None \<Rightarrow> Inr ()
   | Some c \<Rightarrow>
       bindE (runner_guard (\<not> (rc_require_summary c \<and> strip (so_summary out) = []))
         (''Step '' @ ws_name s @ '' return contract requires a summary.'')) (\<lambda>_.
       bindE (missing_types types (rc_required_artifact_types c)) (\<lambda>missing.
       bindE (runner_guard (missing = [])
         (''Step '' @ ws_name s @ '' return contract missing artifact types: '' @ join '', '' missing)) (\<lambda>_.
       bindE (runner_guard (\<not> (rc_require_open_questions c \<and> so_open_questions out = []))
         (''Step '' @ ws_name s @ '' return contract requires open_questions.'')) (\<lambda>_.
       runner_guard (\<not> (rc_require_risk_notes c \<and> so_risk_notes out = []))
         (''Step '' @ ws_name s @ '' return contract requires risk_notes.''))))))"

section \<open>The evaluation gate\<close>

definition validate_step_eval_gate :: "workflow_step \<Rightarrow> eval_result list \<Rightarrow> exn + unit" where
  "validate_step_eval_gate s results =
    (if \<not> ws_requires_eval_pass s then Inr ()
     else
       let matching = (\<lambda>c. filter (\<lambda>r. er_check_name r = c) results);
           missing = filter (\<lambda>c. matching c = []) (ws_required_eval_checks s);
           ambiguous = filter (\<lambda>c. matching c \<noteq> [] \<and> length (matching c) \<noteq> 1) (ws_required_eval_checks s);
           non_pass = map er_check_name (filter (\<lambda>r. er_status r \<noteq> Eval_PASS) results) in
       bindE (runner_guard (results \<noteq> []) (''Step '' @ ws_name s @ '' requires eval_results to pass.'')) (\<lambda>_.
       bindE (runner_guard (missing = [])
         (''Step '' @ ws_name s @ '' is missing required eval results: '' @ join '', '' missing)) (\<lambda>_.
       bindE (runner_guard (ambiguous = [])
         (''Step '' @ ws_name s @ '' has ambiguous required eval results: '' @ join '', '' ambiguous)) (\<lambda>_.
       runner_guard (non_pass = [])
         (''Step '' @ ws_name s @ '' requires passing eval results: '' @ join '', '' non_pass)))))"

section \<open>Evaluation results\<close>

fun eval_status_value :: "eval_status \<Rightarrow> string" where
  "eval_status_value Eval_PASS = ''pass''"
| "eval_status_value Eval_WARN = ''warn''"
| "eval_status_value Eval_FAIL = ''fail''"

definition new_eval_result ::
  "string \<Rightarrow> string option \<Rightarrow> string \<Rightarrow> eval_status \<Rightarrow> string \<Rightarrow> eval_result io" where
  "new_eval_result run_id artifact_id check_name status message =
    bindM new_id (\<lambda>i. bindM utc_now (\<lambda>now.
    returnM \<lparr>er_id = i, er_run_id = run_id, er_artifact_id = artifact_id,
      er_check_name = strip check_name, er_status = status, er_message = strip message,
      er_created_at = now\<rparr>))"

text \<open>
  \<open>_bound_pack_eval_result\<close>: the events that bind a stored result of the check; every stored
  result must be bound by some event, and this attempt may have bound at most one.
\<close>

definition bound_result_id :: "string list \<Rightarrow> trace_event \<Rightarrow> string option" where
  "bound_result_id ids e = (case jget (ev_payload e) ''eval_result_id'' of
     JStr i \<Rightarrow> if i \<in> set ids then Some i else None | _ \<Rightarrow> None)"

definition attempt_bindings ::
  "string list \<Rightarrow> string \<Rightarrow> string \<Rightarrow> trace_event list \<Rightarrow> (string \<times> trace_event) list" where
  "attempt_bindings ids agent_run_id check_name events =
     List.map_filter (\<lambda>e. map_option (\<lambda>i. (i, e)) (bound_result_id ids e))
       (filter (\<lambda>e. ev_event_type e = EVAL_RESULT \<and> ev_agent_run_id e = Some agent_run_id
          \<and> jget (ev_payload e) ''scope'' = JStr ''pack''
          \<and> jget (ev_payload e) ''check_name'' = JStr check_name) events)"

definition bound_pack_eval_result ::
  "run \<Rightarrow> agent_run \<Rightarrow> string \<Rightarrow> eval_status \<Rightarrow> string \<Rightarrow> string option \<Rightarrow> eval_result option io" where
  "bound_pack_eval_result run agent_run check_name status message artifact_id =
    bindM (list_eval_results_for_run (r_id run)) (\<lambda>results0.
    let results = filter (\<lambda>r. er_check_name r = check_name) results0; ids = map er_id results in
    bindM (list_trace_events_for_run (r_id run)) (\<lambda>events.
    let counted = List.map_filter (bound_result_id ids)
                    (filter (\<lambda>e. ev_event_type e = EVAL_RESULT) events);
        bindings = attempt_bindings ids (ar_id agent_run) check_name events in
    thenM (guardM (set ids \<subseteq> set counted)
      (WorkflowRunnerError (''Pack evaluation evidence has an unbound durable result: '' @ check_name)))
    (case bindings of
       [] \<Rightarrow> returnM None
     | [(i, event)] \<Rightarrow> (case List.find (\<lambda>r. er_id r = i) results of
         None \<Rightarrow> returnM None
       | Some result \<Rightarrow>
           thenM (guardM (er_status result = status \<and> er_message result = message
               \<and> er_artifact_id result = artifact_id
               \<and> jget (ev_payload event) ''status'' = JStr (eval_status_value (er_status result)))
             (WorkflowRunnerError
               (''Pack evaluation evidence conflicts with the recovered result: '' @ check_name)))
           (returnM (Some result)))
     | _ \<Rightarrow> raiseM (WorkflowRunnerError
         (''Pack evaluation evidence is ambiguous for terminal attempt: '' @ check_name)))))"

definition stored_eval_result ::
  "run \<Rightarrow> agent_run option \<Rightarrow> string \<Rightarrow> eval_status \<Rightarrow> string \<Rightarrow> string option \<Rightarrow> string
    \<Rightarrow> eval_result io" where
  "stored_eval_result run agent_run check_name status message artifact_id scope = transaction (
    bindM (new_eval_result (r_id run) artifact_id check_name status message) (\<lambda>r0.
    bindM (create_eval_result r0) (\<lambda>result.
    thenM (record_trace (r_id run) EVAL_RESULT
      [(''eval_result_id'', JStr (er_id result)), (''check_name'', JStr (er_check_name result)),
       (''status'', JStr (eval_status_value (er_status result))), (''scope'', JStr scope)]
      (map_option ar_id agent_run) None)
    (returnM result))))"

definition record_eval_result ::
  "run \<Rightarrow> agent_run option \<Rightarrow> string \<Rightarrow> eval_status \<Rightarrow> string \<Rightarrow> string option \<Rightarrow> string
    \<Rightarrow> eval_result io" where
  "record_eval_result run agent_run check_name status message artifact_id scope =
    bindM (case agent_run of
        Some ar \<Rightarrow> if scope = ''pack''
          then bound_pack_eval_result run ar check_name status message artifact_id else returnM None
      | None \<Rightarrow> returnM None) (\<lambda>existing. case existing of
      Some r \<Rightarrow> returnM r
    | None \<Rightarrow> stored_eval_result run agent_run check_name status message artifact_id scope)"

definition evaluate_check :: "run \<Rightarrow> agent_run option \<Rightarrow> eval_check \<Rightarrow> eval_result io" where
  "evaluate_check run agent_run check =
    bindM (list_artifacts_for_run (r_id run)) (\<lambda>artifacts.
    let missing = filter (\<lambda>t. t \<notin> set (map (artifact_type_value \<circ> art_type) artifacts))
                    (ec_required_artifact_types check) in
    if missing = [] then
      record_eval_result run agent_run (ec_name check) Eval_PASS ''Required artifact types are present.''
        None ''pack''
    else
      record_eval_result run agent_run (ec_name check)
        (if ec_severity check = Blocker then Eval_FAIL else Eval_WARN)
        (''Missing artifact types: '' @ join '', '' missing) None ''pack'')"

definition evaluate_pack :: "run \<Rightarrow> agent_run option \<Rightarrow> workflow_pack \<Rightarrow> eval_result list io" where
  "evaluate_pack run agent_run pack =
    bindM (mapM (wp_eval_checks pack) (evaluate_check run agent_run)) (\<lambda>results.
    returnM (filter (\<lambda>r. er_status r = Eval_FAIL) results))"

section \<open>Acceptance criteria\<close>

definition evaluate_artifact_criterion ::
  "step_acceptance_criterion \<Rightarrow> string \<Rightarrow> artifact \<Rightarrow> (bool \<times> string \<times> string option) io" where
  "evaluate_artifact_criterion c content a =
    (if sc_kind c = Artifact_nonempty then
       let passed = strip content \<noteq> [] in
       returnM (passed, if passed then ''Artifact content is non-empty.'' else ''Artifact content is empty.'',
         Some (art_id a))
     else if sc_kind c = Artifact_min_chars then
       returnM (opt_ex (\<lambda>n. n \<le> int (length content)) (sc_min_chars c),
         ''Artifact contains '' @ show_nat (length content) @ '' characters.'', Some (art_id a))
     else if sc_kind c = Artifact_contains then
       let passed = opt_ex (\<lambda>m. sublist m content) (sc_marker c) in
       returnM (passed, if passed then ''Required artifact marker is present.''
         else ''Required artifact marker is missing.'', Some (art_id a))
     else raiseM (WorkflowRunnerError ''Unsupported acceptance criterion kind''))"

definition evaluate_step_acceptance_criterion ::
  "step_acceptance_criterion \<Rightarrow> artifact list \<Rightarrow> eval_result list
    \<Rightarrow> (bool \<times> string \<times> string option) io" where
  "evaluate_step_acceptance_criterion c artifacts results =
    (if sc_kind c = Executor_eval_pass then
       let matches = filter (\<lambda>r. Some (er_check_name r) = sc_check_name c) results;
           passed = (map er_status matches = [Eval_PASS]) in
       returnM (passed, if passed then ''Required executor eval passed.''
         else ''Required executor eval did not pass.'', None)
     else
       let matching = filter (\<lambda>a. Some (art_type a) = sc_artifact_type c) artifacts in
       if matching = [] then
         returnM (False, ''Required artifact was not produced by this step.'', None)
       else let a = last matching in
         if sc_kind c = Source_refs_present then
           let passed = art_source_refs a \<noteq> [] in
           returnM (passed, if passed then ''Artifact source references are present.''
             else ''Artifact source references are missing.'', Some (art_id a))
         else
           bindM (catch_if is_artifact_store_error
               (bindM (read_text_verified a) (\<lambda>content. returnM (Some content))) (\<lambda>_. returnM None))
             (\<lambda>content. case content of
               None \<Rightarrow> returnM (False, ''Artifact content verification failed.'', Some (art_id a))
             | Some text \<Rightarrow> evaluate_artifact_criterion c text a))"

primrec check_acceptance_criteria ::
  "run \<Rightarrow> agent_run \<Rightarrow> workflow_step \<Rightarrow> artifact list \<Rightarrow> eval_result list
    \<Rightarrow> step_acceptance_criterion list \<Rightarrow> unit io" where
  "check_acceptance_criteria run agent_run s artifacts results [] = returnM ()"
| "check_acceptance_criteria run agent_run s artifacts results (c # cs) =
    bindM (evaluate_step_acceptance_criterion c artifacts results) (\<lambda>(passed, message, artifact_id).
    thenM (record_eval_result run (Some agent_run) (ws_name s @ '':acceptance:'' @ sc_name c)
       (if passed then Eval_PASS else Eval_FAIL) message artifact_id ''step_acceptance'')
    (thenM (guardM passed (WorkflowRunnerError
       (''Step '' @ ws_name s @ '' failed acceptance criterion: '' @ sc_name c)))
    (check_acceptance_criteria run agent_run s artifacts results cs)))"

definition validate_step_acceptance_criteria ::
  "run \<Rightarrow> agent_run \<Rightarrow> workflow_step \<Rightarrow> artifact list \<Rightarrow> eval_result list \<Rightarrow> unit io" where
  "validate_step_acceptance_criteria run agent_run s artifacts results =
     check_acceptance_criteria run agent_run s artifacts results (ws_acceptance_criteria s)"

section \<open>The final artifact\<close>

text \<open>\<open>artifacts_by_step\<close> is a dictionary in insertion order.\<close>

definition artifacts_of_step :: "(string \<times> artifact list) list \<Rightarrow> string \<Rightarrow> artifact list" where
  "artifacts_of_step by_step n = (case map_of by_step n of None \<Rightarrow> [] | Some xs \<Rightarrow> xs)"

definition select_final_artifact ::
  "workflow_pack \<Rightarrow> artifact_type \<Rightarrow> (string \<times> artifact list) list \<Rightarrow> exn + artifact" where
  "select_final_artifact pack final by_step =
    (let producers = map ws_name (filter (\<lambda>s. ws_produces_artifact_type s = Some (artifact_type_value final))
                       (wp_steps pack));
         anything = filter (\<lambda>a. art_type a = final) (concat (map snd by_step));
         produced = concat (map (\<lambda>s. filter (\<lambda>a. art_type a = final) (artifacts_of_step by_step (ws_name s)))
                      (filter (\<lambda>s. ws_name s \<in> set producers) (wp_steps pack))) in
     if producers = [] \<and> (\<forall>s \<in> set (wp_steps pack). \<not> opt_ex nonempty (ws_produces_artifact_type s))
        \<and> anything \<noteq> [] then Inr (last anything)
     else if produced = [] then
       Inl (WorkflowRunnerError (''Final artifact type not produced: '' @ artifact_type_value final))
     else Inr (last produced))"

section \<open>File names\<close>

text \<open>\<open>str.isalnum\<close> and \<open>str.lower\<close> of a character up to code point 255.\<close>

definition py_isalnum :: "char \<Rightarrow> bool" where
  "py_isalnum c \<longleftrightarrow> is_alnum c \<or> (let n = of_char c :: nat in
     n \<in> {170, 178, 179, 181, 185, 186, 188, 189, 190} \<or> (192 \<le> n \<and> n \<noteq> 215 \<and> n \<noteq> 247))"

definition py_lower :: "char \<Rightarrow> char" where
  "py_lower c = (let n = of_char c :: nat in
     if (65 \<le> n \<and> n \<le> 90) \<or> (192 \<le> n \<and> n \<le> 222 \<and> n \<noteq> 215) then char_of (n + 32) else c)"

definition strip_marks :: "string \<Rightarrow> string" where
  "strip_marks v = rev (dropWhile (\<lambda>c. c \<in> set ''-._'') (rev (dropWhile (\<lambda>c. c \<in> set ''-._'') v)))"

definition slug :: "string \<Rightarrow> string" where
  "slug v = (let allowed = map (\<lambda>c. if py_isalnum c \<or> c \<in> set ''-_.'' then py_lower c else CHR ''-'') v;
                 stripped = strip_marks allowed in
             if stripped = [] then ''step'' else stripped)"

text \<open>
  The number of the attempt: the position of this agent run among the runs of the step, or
  their number when it is not listed.
\<close>

definition attempt_number :: "agent_run list \<Rightarrow> string \<Rightarrow> nat" where
  "attempt_number attempts i =
    (if i \<in> set (map ar_id attempts) then Suc (index_of i (map ar_id attempts)) else length attempts)"

definition step_scoped_filename ::
  "string \<Rightarrow> agent_run \<Rightarrow> workflow_step \<Rightarrow> nat \<Rightarrow> string \<Rightarrow> string io" where
  "step_scoped_filename run_id agent_run s index filename =
    thenM (guardM (\<not> (is_absolute filename \<or> path_name filename \<noteq> filename
              \<or> filename \<in> {'''', ''.'', ''..''}))
      (WorkflowRunnerError ''Artifact filename must be a simple relative file name.''))
    (bindM (list_agent_runs_for_run run_id) (\<lambda>agent_runs.
     let attempt = attempt_number (filter (\<lambda>x. ar_step_name x = ws_name s) agent_runs) (ar_id agent_run);
         prefix = (if attempt > 1 then slug (ws_name s) @ ''-attempt-'' @ show_nat attempt
                   else slug (ws_name s)) in
     returnM (prefix @ ''-'' @ show_nat (index + 1) @ ''-'' @ filename)))"

section \<open>Lemmas\<close>

lemma runner_guard_Inr [simp]: "runner_guard b m = Inr u \<longleftrightarrow> b"
  by (simp add: runner_guard_def)

lemma liftE_returns: "liftE r w = (Inr x, w') \<longleftrightarrow> r = Inr x \<and> w' = w"
  by (cases r) (auto simp: liftE_def returnM_def raiseM_def)

lemma keeps_liftE [keeps_intros]: "keeps I (liftE r)"
  by (cases r) (simp_all add: liftE_def keeps_raiseM keeps_returnM)

lemma runner_artifact_type_Inr [simp]: "runner_artifact_type v = Inr t \<longleftrightarrow> v = artifact_type_value t"
  by (auto simp: runner_artifact_type_def artifact_type_of_Some)

lemma length_filter_one_iff: "length xs = 1 \<longleftrightarrow> (\<exists>x. xs = [x])"
  by (cases xs) auto

section \<open>Pack evaluations are recorded once\<close>

lemma map_filter_as_map: "List.map_filter f xs = map (\<lambda>x. the (f x)) (filter (\<lambda>x. f x \<noteq> None) xs)"
  by (simp add: List.map_filter_def comp_def)

definition binds :: "string list \<Rightarrow> string \<Rightarrow> string \<Rightarrow> trace_event \<Rightarrow> bool" where
  "binds ids agent_run_id check_name e \<longleftrightarrow> ev_event_type e = EVAL_RESULT
     \<and> ev_agent_run_id e = Some agent_run_id \<and> jget (ev_payload e) ''scope'' = JStr ''pack''
     \<and> jget (ev_payload e) ''check_name'' = JStr check_name \<and> bound_result_id ids e \<noteq> None"

lemma attempt_bindings_eq:
  "attempt_bindings ids ar cn events =
     map (\<lambda>e. (the (bound_result_id ids e), e)) (filter (binds ids ar cn) events)"
  unfolding attempt_bindings_def map_filter_as_map filter_filter
  by (intro map_cong filter_cong refl) (auto simp: binds_def)

definition run_events :: "string \<Rightarrow> db \<Rightarrow> trace_event list" where
  "run_events run_id d = sort_key (\<lambda>x. (ev_created_at x, ev_id x))
     (filter (\<lambda>x. ev_run_id x = run_id) (d_events d))"

definition check_results :: "string \<Rightarrow> string \<Rightarrow> db \<Rightarrow> eval_result list" where
  "check_results run_id check_name d = filter (\<lambda>r. er_check_name r = check_name)
     (sort_key (\<lambda>x. (er_created_at x, er_id x)) (filter (\<lambda>x. er_run_id x = run_id) (d_evals d)))"

definition result_event_ids :: "string list \<Rightarrow> trace_event list \<Rightarrow> string list" where
  "result_event_ids ids events = List.map_filter (bound_result_id ids)
     (filter (\<lambda>e. ev_event_type e = EVAL_RESULT) events)"

lemma bound_pack_eval_unfold:
  "bound_pack_eval_result run ar cn st msg art w =
    (let results = check_results (r_id run) cn (w_db w); ids = map er_id results;
         events = run_events (r_id run) (w_db w); bindings = attempt_bindings ids (ar_id ar) cn events in
     thenM (guardM (set ids \<subseteq> set (result_event_ids ids events))
      (WorkflowRunnerError (''Pack evaluation evidence has an unbound durable result: '' @ cn)))
    (case bindings of
       [] \<Rightarrow> returnM None
     | [(i, event)] \<Rightarrow> (case List.find (\<lambda>r. er_id r = i) results of
         None \<Rightarrow> returnM None
       | Some result \<Rightarrow>
           thenM (guardM (er_status result = st \<and> er_message result = msg
               \<and> er_artifact_id result = art
               \<and> jget (ev_payload event) ''status'' = JStr (eval_status_value (er_status result)))
             (WorkflowRunnerError
               (''Pack evaluation evidence conflicts with the recovered result: '' @ cn)))
           (returnM (Some result)))
     | _ \<Rightarrow> raiseM (WorkflowRunnerError
         (''Pack evaluation evidence is ambiguous for terminal attempt: '' @ cn))) w)"
  by (simp add: bound_pack_eval_result_def list_eval_results_for_run_def
      list_trace_events_for_run_def bindM_def list_models_def getsM_def returnM_def Let_def
      check_results_def run_events_def result_event_ids_def)

lemma set_result_event_ids:
  "set (result_event_ids ids events) =
     {i. \<exists>e \<in> set events. ev_event_type e = EVAL_RESULT \<and> bound_result_id ids e = Some i}"
  by (auto simp: result_event_ids_def map_filter_set)

lemma bound_result_id_Some:
  "bound_result_id ids e = Some i \<longleftrightarrow> jget (ev_payload e) ''eval_result_id'' = JStr i \<and> i \<in> set ids"
  by (auto simp: bound_result_id_def split: jval.splits)

text \<open>The record and the event that \<open>_record_eval_result\<close> adds.\<close>

lemma stored_eval_returns:
  assumes "stored_eval_result run ar cn st msg art scope w = (Inr r, w')"
  shows "\<exists>e. d_evals (w_db w') = d_evals (w_db w) @ [r] \<and> d_events (w_db w') = d_events (w_db w) @ [e]
    \<and> er_run_id r = r_id run \<and> er_artifact_id r = art \<and> er_check_name r = strip cn \<and> er_status r = st
    \<and> er_message r = strip msg \<and> ev_run_id e = r_id run \<and> ev_event_type e = EVAL_RESULT
    \<and> ev_agent_run_id e = map_option ar_id ar
    \<and> ev_payload e = [(''eval_result_id'', JStr (er_id r)), (''check_name'', JStr (er_check_name r)),
       (''status'', JStr (eval_status_value st)), (''scope'', JStr scope)]
    \<and> schema_ok (w_db w')"
proof -
  obtain w1 w2 where t: "(bindM (new_eval_result (r_id run) art cn st msg) (\<lambda>r0.
    bindM (create_eval_result r0) (\<lambda>result.
    thenM (record_trace (r_id run) EVAL_RESULT
      [(''eval_result_id'', JStr (er_id result)), (''check_name'', JStr (er_check_name result)),
       (''status'', JStr (eval_status_value (er_status result))), (''scope'', JStr scope)]
      (map_option ar_id ar) None) (returnM result)))) w1 = (Inr r, w2)"
    "w_db w1 = w_db w" "w_db w' = w_db w2"
    by (rule transaction_commit [OF assms [unfolded stored_eval_result_def]])
  obtain r0 w3 w4 y where s: "new_eval_result (r_id run) art cn st msg w1 = (Inr r0, w3)"
    "create_eval_result r0 w3 = (Inr r, w4)"
    "record_trace (r_id run) EVAL_RESULT
      [(''eval_result_id'', JStr (er_id r)), (''check_name'', JStr (er_check_name r)),
       (''status'', JStr (eval_status_value (er_status r))), (''scope'', JStr scope)]
      (map_option ar_id ar) None w4 = (Inr y, w2)"
    using t(1) unfolding bindM_returns thenM_returns returnM_returns by blast
  have n: "w_db w3 = w_db w1" "er_run_id r0 = r_id run" "er_artifact_id r0 = art"
    "er_check_name r0 = strip cn" "er_status r0 = st" "er_message r0 = strip msg"
    using s(1) by (auto simp: new_eval_result_def returns_iff new_id_def utc_now_def)
  obtain w5 u where c: "insert_model d_evals put_evals r0 w5 = (Inr u, w4)" "w_db w5 = w_db w3" "r = r0"
    using s(2) by (auto simp: create_eval_result_def returns_iff ensure_artifact_belongs_to_run_def
        split: option.splits dest: belongs_returns)
  have d4: "w_db w4 = put_evals (d_evals (w_db w3) @ [r]) (w_db w3)"
    using eval_table.insert_returns [OF c(1)] c by simp
  obtain i now w6 w7 where tr: "new_id w4 = (Inr i, w6)" "utc_now w6 = (Inr now, w7)"
    "append_trace_event \<lparr>ev_id = i, ev_run_id = r_id run, ev_agent_run_id = map_option ar_id ar,
      ev_event_type = EVAL_RESULT,
      ev_payload = [(''eval_result_id'', JStr (er_id r)), (''check_name'', JStr (er_check_name r)),
       (''status'', JStr (eval_status_value (er_status r))), (''scope'', JStr scope)],
      ev_duration_ms = None, ev_created_at = now\<rparr> w7 = (Inr y, w2)"
    using s(3) unfolding record_trace_def bindM_returns by blast
  have d7: "w_db w7 = w_db w4" using tr(1,2) by (auto simp: new_id_def utc_now_def)
  have "w_db w2 = put_events (d_events (w_db w7) @ [y]) (w_db w7)
    \<and> ev_run_id y = r_id run \<and> ev_event_type y = EVAL_RESULT
    \<and> ev_agent_run_id y = map_option ar_id ar
    \<and> ev_payload y = [(''eval_result_id'', JStr (er_id r)), (''check_name'', JStr (er_check_name r)),
       (''status'', JStr (eval_status_value (er_status r))), (''scope'', JStr scope)]
    \<and> schema_ok (w_db w2)"
    using tr(3) event_table.insert_returns(1,2)
    by (auto simp: append_trace_event_def returns_iff ensure_agent_run_belongs_to_run_def
        split: option.splits dest!: belongs_returns)
  then show ?thesis using d7 d4 n c(3) t(2,3) by (auto simp: put_evals_def put_events_def)
qed

lemma find_distinct:
  assumes "distinct (map f xs)" "x \<in> set xs"
  shows "List.find (\<lambda>y. f y = f x) xs = Some x"
  using assms by (induction xs) (auto simp: image_iff)

lemma bound_pack_eval_reads: "keeps I (bound_pack_eval_result run ar cn st msg art)"
  unfolding bound_pack_eval_result_def Let_def list_eval_results_for_run_def
    list_trace_events_for_run_def
  by (intro keeps_intros)

lemma filter_run_events: "filter P (run_events run_id d) =
    sort_key (\<lambda>x. (ev_created_at x, ev_id x)) (filter (\<lambda>e. ev_run_id e = run_id \<and> P e) (d_events d))"
  by (simp add: run_events_def filter_sort conj_commute)

lemma set_run_events: "e \<in> set (run_events run_id d) \<longleftrightarrow> e \<in> set (d_events d) \<and> ev_run_id e = run_id"
  by (auto simp: run_events_def)

lemma set_check_results: "r \<in> set (check_results run_id cn d) \<longleftrightarrow>
    r \<in> set (d_evals d) \<and> er_run_id r = run_id \<and> er_check_name r = cn"
  by (auto simp: check_results_def)

lemma bound_none:
  assumes "bound_pack_eval_result run ar cn st msg art w = (Inr None, w')"
  defines "ids \<equiv> map er_id (check_results (r_id run) cn (w_db w))"
  shows "set ids \<subseteq> set (result_event_ids ids (run_events (r_id run) (w_db w)))
    \<and> filter (binds ids (ar_id ar) cn) (run_events (r_id run) (w_db w)) = []"
proof -
  define bs where "bs = attempt_bindings ids (ar_id ar) cn (run_events (r_id run) (w_db w))"
  have r: "set ids \<subseteq> set (result_event_ids ids (run_events (r_id run) (w_db w)))"
    "(case bs of [] \<Rightarrow> returnM None
     | [(i, event)] \<Rightarrow> (case List.find (\<lambda>r. er_id r = i) (check_results (r_id run) cn (w_db w)) of
         None \<Rightarrow> returnM None
       | Some result \<Rightarrow>
           thenM (guardM (er_status result = st \<and> er_message result = msg
               \<and> er_artifact_id result = art
               \<and> jget (ev_payload event) ''status'' = JStr (eval_status_value (er_status result)))
             (WorkflowRunnerError
               (''Pack evaluation evidence conflicts with the recovered result: '' @ cn)))
           (returnM (Some result)))
     | _ \<Rightarrow> raiseM (WorkflowRunnerError
         (''Pack evaluation evidence is ambiguous for terminal attempt: '' @ cn))) w = (Inr None, w')"
    using assms(1) unfolding bound_pack_eval_unfold Let_def thenM_returns guardM_returns
      ids_def [symmetric] bs_def by blast+
  have "bs = []"
  proof (cases bs)
    case (Cons b rest)
    obtain i e where b: "b = (i, e)" by fastforce
    show ?thesis
    proof (cases rest)
      case Nil
      have "b \<in> set bs" using Cons by simp
      then have "bound_result_id ids e = Some i"
        unfolding bs_def attempt_bindings_eq b by (auto simp: binds_def)
      then have "i \<in> set ids" by (simp add: bound_result_id_Some)
      then have "List.find (\<lambda>r. er_id r = i) (check_results (r_id run) cn (w_db w)) \<noteq> None"
        by (auto simp: ids_def find_None_iff)
      then show ?thesis using r(2) Cons Nil b
        by (auto simp: thenM_returns guardM_returns returnM_returns)
    next
      case (Cons c rest')
      then show ?thesis using r(2) \<open>bs = b # rest\<close> b by (simp add: raiseM_def)
    qed
  qed simp
  then show ?thesis using r(1) by (simp add: bs_def attempt_bindings_eq)
qed

lemma pack_eval_again:
  assumes before: "bound_pack_eval_result run ar cn st msg art w = (Inr None, w1)"
    and stored: "stored_eval_result run (Some ar) cn st msg art ''pack'' w1 = (Inr r, w')"
    and strips: "strip cn = cn" "strip msg = msg"
    and fresh: "\<forall>e \<in> set (d_events (w_db w)). jget (ev_payload e) ''eval_result_id'' \<noteq> JStr (er_id r)"
  shows "bound_pack_eval_result run ar cn st msg art w' = (Inr (Some r), w')"
proof -
  have w1: "w1 = w" by (rule reads_only [OF bound_pack_eval_reads before])
  obtain e where e: "d_evals (w_db w') = d_evals (w_db w) @ [r]" "d_events (w_db w') = d_events (w_db w) @ [e]"
    "er_run_id r = r_id run" "er_artifact_id r = art" "er_check_name r = cn" "er_status r = st"
    "er_message r = msg" "ev_run_id e = r_id run" "ev_event_type e = EVAL_RESULT"
    "ev_agent_run_id e = Some (ar_id ar)"
    "ev_payload e = [(''eval_result_id'', JStr (er_id r)), (''check_name'', JStr (er_check_name r)),
       (''status'', JStr (eval_status_value st)), (''scope'', JStr ''pack'')]" "schema_ok (w_db w')"
    using stored_eval_returns [OF stored] strips w1 by auto
  have payload: "jget (ev_payload e) ''eval_result_id'' = JStr (er_id r)"
    "jget (ev_payload e) ''check_name'' = JStr cn" "jget (ev_payload e) ''scope'' = JStr ''pack''"
    "jget (ev_payload e) ''status'' = JStr (eval_status_value st)"
    by (simp_all add: e(5,11) jget_def)
  define ids where "ids = map er_id (check_results (r_id run) cn (w_db w))"
  define ids' where "ids' = map er_id (check_results (r_id run) cn (w_db w'))"
  have ids': "set ids' = insert (er_id r) (set ids)"
    using e(1,3,5) by (auto simp: ids_def ids'_def set_check_results image_iff)
  note none = bound_none [OF before, folded ids_def]
  have bound_old: "bound_result_id ids' x = bound_result_id ids x" if "x \<in> set (d_events (w_db w))" for x
    using fresh that ids' by (auto simp: bound_result_id_def split: jval.split)
  have bound_new: "bound_result_id ids' e = Some (er_id r)"
    using payload(1) ids' by (simp add: bound_result_id_Some)
  have guard: "set ids' \<subseteq> set (result_event_ids ids' (run_events (r_id run) (w_db w')))"
  proof
    fix i assume "i \<in> set ids'"
    then consider "i = er_id r" | "i \<in> set ids" using ids' by blast
    then show "i \<in> set (result_event_ids ids' (run_events (r_id run) (w_db w')))"
    proof cases
      case 1
      then show ?thesis using e(2,8,9) bound_new by (auto simp: set_result_event_ids set_run_events)
    next
      case 2
      then obtain x where x: "x \<in> set (run_events (r_id run) (w_db w))" "ev_event_type x = EVAL_RESULT"
        "bound_result_id ids x = Some i"
        using none by (auto simp: set_result_event_ids)
      then have "x \<in> set (d_events (w_db w))" "ev_run_id x = r_id run" by (simp_all add: set_run_events)
      then show ?thesis using x e(2) bound_old
        by (auto simp: set_result_event_ids set_run_events)
    qed
  qed
  have old_unbound: "filter (\<lambda>x. ev_run_id x = r_id run \<and> binds ids' (ar_id ar) cn x) (d_events (w_db w)) = []"
  proof -
    have "binds ids' (ar_id ar) cn x \<longleftrightarrow> binds ids (ar_id ar) cn x" if "x \<in> set (d_events (w_db w))" for x
      using bound_old [OF that] by (simp add: binds_def)
    then show ?thesis
      using none by (auto simp: filter_empty_conv set_run_events)
  qed
  have "binds ids' (ar_id ar) cn e"
    using e(9,10) payload bound_new by (simp add: binds_def)
  then have "filter (binds ids' (ar_id ar) cn) (run_events (r_id run) (w_db w')) = [e]"
    using old_unbound e(2,8) by (simp add: filter_run_events)
  then have bindings: "attempt_bindings ids' (ar_id ar) cn (run_events (r_id run) (w_db w')) = [(er_id r, e)]"
    by (simp add: attempt_bindings_eq bound_new)
  have "distinct (map er_id (d_evals (w_db w')))"
    using e(12) by (simp add: schema_ok_def primary_keys_ok_def)
  then have "distinct (map er_id (check_results (r_id run) cn (w_db w')))"
    by (auto simp: check_results_def distinct_map inj_on_def)
  moreover have "r \<in> set (check_results (r_id run) cn (w_db w'))"
    using e(1,3,5) by (simp add: set_check_results)
  ultimately have "List.find (\<lambda>x. er_id x = er_id r) (check_results (r_id run) cn (w_db w')) = Some r"
    by (rule find_distinct)
  then show ?thesis
    using guard bindings e(4,6,7) payload(4)
    by (simp add: bound_pack_eval_unfold Let_def ids'_def thenM_def bindM_def guardM_def returnM_def)
qed

section \<open>Numbers in file names\<close>

definition undigits :: "string \<Rightarrow> int" where
  "undigits ds = foldl (\<lambda>a c. a * 10 + (of_char c - 48)) 0 ds"

lemma digit_char: "of_char (char_of (48 + n mod 10 :: int) :: char) = (48 + n mod 10 :: int)"
proof -
  have "0 \<le> n mod 10" "n mod 10 < 10" by simp_all
  then show ?thesis by simp
qed

lemma undigits_pad: "0 \<le> n \<Longrightarrow> undigits (pad_digits k n) = n mod 10 ^ k"
proof (induction k arbitrary: n)
  case (Suc k)
  have "undigits (pad_digits (Suc k) n) = (n div 10 mod 10 ^ k) * 10 + n mod 10"
    using Suc.IH [of "n div 10"] Suc.prems by (simp add: undigits_def digit_char)
  also have "\<dots> = n mod 10 ^ Suc k"
    by (simp add: mod_mult2_eq zmod_zmult2_eq mult.commute)
  finally show ?case .
qed (simp add: undigits_def)

lemma below_digit_count: "n < 10 ^ digit_count n"
proof (induction n rule: digit_count.induct)
  case (1 n)
  show ?case
  proof (cases "n < 10")
    case True
    then show ?thesis by (simp add: digit_count.simps)
  next
    case False
    then have "n div 10 < 10 ^ digit_count (n div 10)" by (rule 1)
    then have "n < 10 * 10 ^ digit_count (n div 10)" by linarith
    then show ?thesis using False by (subst digit_count.simps) simp
  qed
qed

lemma undigits_show_nat: "undigits (show_nat n) = int n"
  using below_digit_count [of "int n"] by (simp add: show_nat_def show_int_def undigits_pad)

lemma pad_digits_no_dash: "CHR ''-'' \<notin> set (pad_digits k n)"
proof (induction k arbitrary: n)
  case (Suc k)
  have "char_of (48 + n mod 10 :: int) \<noteq> CHR ''-''"
  proof
    assume "char_of (48 + n mod 10 :: int) = CHR ''-''"
    then have "(of_char (char_of (48 + n mod 10 :: int) :: char) :: int) = of_char CHR ''-''" by simp
    then have "48 + n mod 10 = (45 :: int)" unfolding digit_char by simp
    then show False by presburger
  qed
  then show ?case using Suc.IH by simp
qed simp

lemma show_nat_no_dash: "CHR ''-'' \<notin> set (show_nat n)"
  by (simp add: show_nat_def show_int_def pad_digits_no_dash)

lemma split_at_dash:
  assumes "CHR ''-'' \<notin> set xs" "CHR ''-'' \<notin> set ys" "xs @ CHR ''-'' # f = ys @ CHR ''-'' # g"
  shows "xs = ys"
proof -
  have "takeWhile (\<lambda>c. c \<noteq> CHR ''-'') (xs @ CHR ''-'' # f) = xs"
    using assms(1) by (simp add: takeWhile_append takeWhile_eq_all_conv; metis)
  moreover have "takeWhile (\<lambda>c. c \<noteq> CHR ''-'') (ys @ CHR ''-'' # g) = ys"
    using assms(2) by (simp add: takeWhile_append takeWhile_eq_all_conv; metis)
  ultimately show ?thesis using assms(3) by metis
qed

lemma numbered_name_inj:
  assumes "p @ ''-'' @ show_nat (i + 1) @ ''-'' @ f = p @ ''-'' @ show_nat (j + 1) @ ''-'' @ g"
  shows "i = j"
proof -
  have "show_nat (i + 1) @ CHR ''-'' # f = show_nat (j + 1) @ CHR ''-'' # g" using assms by simp
  then have "show_nat (i + 1) = show_nat (j + 1)"
    using split_at_dash show_nat_no_dash by blast
  then have "undigits (show_nat (i + 1)) = undigits (show_nat (j + 1))" by simp
  then show ?thesis by (simp add: undigits_show_nat)
qed

lemma step_scoped_filename_returns:
  assumes "step_scoped_filename run_id ar s index filename w = (Inr name, w')"
  shows "w' = w \<and> path_name filename = filename \<and> \<not> is_absolute filename
    \<and> filename \<notin> {'''', ''.'', ''..''}
    \<and> (\<exists>prefix. name = prefix @ ''-'' @ show_nat (index + 1) @ ''-'' @ filename
        \<and> prefix = (let attempt = attempt_number (filter (\<lambda>x. ar_step_name x = ws_name s)
            (filter (\<lambda>x. ar_run_id x = run_id) (d_agent_runs (w_db w)))) (ar_id ar) in
           if attempt > 1 then slug (ws_name s) @ ''-attempt-'' @ show_nat attempt
           else slug (ws_name s)))"
  using assms
  by (auto simp: step_scoped_filename_def returns_iff list_agent_runs_for_run_def list_models_returns
      Let_def)

section \<open>Properties\<close>

text \<open>
  C25. The evaluation gate of a step passes exactly when the step needs no evaluation, or the
  executor reported evaluations, all of them passed, and every required check was reported
  exactly once: neither a missing nor a repeated nor a warning result gets through.
\<close>

theorem eval_gate_is_exact:
  "validate_step_eval_gate s results = Inr () \<longleftrightarrow> \<not> ws_requires_eval_pass s
     \<or> (results \<noteq> [] \<and> list_all (\<lambda>r. er_status r = Eval_PASS) results
        \<and> list_all (\<lambda>c. length (filter (\<lambda>r. er_check_name r = c) results) = 1) (ws_required_eval_checks s))"
proof -
  have "(\<forall>c \<in> set cs. filter (\<lambda>r. er_check_name r = c) results \<noteq> [])
      \<and> (\<forall>c \<in> set cs. filter (\<lambda>r. er_check_name r = c) results = []
            \<or> length (filter (\<lambda>r. er_check_name r = c) results) = 1)
    \<longleftrightarrow> (\<forall>c \<in> set cs. length (filter (\<lambda>r. er_check_name r = c) results) = 1)" for cs
    by fastforce
  then show ?thesis
    by (auto simp: validate_step_eval_gate_def Let_def list_all_iff filter_empty_conv)
qed

text \<open>
  C26. The Pack evaluation is recorded once per terminal attempt: after recording the result of
  a check, recording it again for the same attempt (as the recovery of an interrupted run does)
  returns the same stored result and writes nothing, provided no earlier event happened to
  name the fresh id of the result.
\<close>

theorem pack_evaluation_recorded_once:
  assumes "record_eval_result run (Some ar) cn st msg art ''pack'' w = (Inr r, w')"
    "strip cn = cn" "strip msg = msg"
    "list_all (\<lambda>e. jget (ev_payload e) ''eval_result_id'' \<noteq> JStr (er_id r)) (d_events (w_db w))
       \<or> r \<in> set (d_evals (w_db w))"
    "distinct (map er_id (d_evals (w_db w')))"
  shows "record_eval_result run (Some ar) cn st msg art ''pack'' w' = (Inr r, w')"
proof -
  obtain ex w1 where b: "bound_pack_eval_result run ar cn st msg art w = (Inr ex, w1)"
    and k: "(case ex of Some r \<Rightarrow> returnM r
      | None \<Rightarrow> stored_eval_result run (Some ar) cn st msg art ''pack'') w1 = (Inr r, w')"
    using assms(1) unfolding record_eval_result_def bindM_returns by auto
  have w1: "w1 = w" by (rule reads_only [OF bound_pack_eval_reads b])
  have "bound_pack_eval_result run ar cn st msg art w' = (Inr (Some r), w')"
  proof (cases ex)
    case (Some x)
    then show ?thesis using k b w1 by (auto simp: returnM_returns)
  next
    case None
    then have s: "stored_eval_result run (Some ar) cn st msg art ''pack'' w1 = (Inr r, w')"
      using k by simp
    have "d_evals (w_db w') = d_evals (w_db w) @ [r]" using stored_eval_returns [OF s] w1 by auto
    then have "r \<notin> set (d_evals (w_db w))" using assms(5) by auto
    then show ?thesis
      using pack_eval_again [OF b [unfolded None] s assms(2,3)] assms(4) by (simp add: list_all_iff)
  qed
  then show ?thesis by (simp add: record_eval_result_def bindM_def returnM_def)
qed

text \<open>The artifacts of the final type that declared producers of it have produced.\<close>

definition produced_final ::
  "workflow_pack \<Rightarrow> artifact_type \<Rightarrow> (string \<times> artifact list) list \<Rightarrow> artifact set" where
  "produced_final pack final by_step = {a. art_type a = final
     \<and> (\<exists>s \<in> set (wp_steps pack). ws_produces_artifact_type s = Some (artifact_type_value final)
          \<and> a \<in> set (artifacts_of_step by_step (ws_name s)))}"

text \<open>
  C27. The final artifact is one that a declared producer of the final type has produced; only a
  Pack in which no step declares what it produces falls back to any artifact of that type. The
  choice fails only when no declared producer has produced one.
\<close>

theorem final_artifact_comes_from_a_producer:
  "case select_final_artifact pack final by_step of
      Inr a \<Rightarrow> a \<in> produced_final pack final by_step
        \<or> (art_type a = final \<and> a \<in> set (concat (map snd by_step))
           \<and> filter (\<lambda>s. opt_ex nonempty (ws_produces_artifact_type s)) (wp_steps pack) = [])
    | Inl e \<Rightarrow> produced_final pack final by_step = {}"
proof -
  define producers where "producers = map ws_name (filter (\<lambda>s. ws_produces_artifact_type s
    = Some (artifact_type_value final)) (wp_steps pack))"
  define produced where "produced = concat (map (\<lambda>s. filter (\<lambda>a. art_type a = final)
      (artifacts_of_step by_step (ws_name s))) (filter (\<lambda>s. ws_name s \<in> set producers) (wp_steps pack)))"
  define anything where "anything = filter (\<lambda>a. art_type a = final) (concat (map snd by_step))"
  have set_produced: "set produced = produced_final pack final by_step"
    by (auto simp: produced_def produced_final_def producers_def image_iff; metis)
  have "select_final_artifact pack final by_step =
     (if producers = [] \<and> (\<forall>s \<in> set (wp_steps pack). \<not> opt_ex nonempty (ws_produces_artifact_type s))
        \<and> anything \<noteq> [] then Inr (last anything)
      else if produced = [] then
        Inl (WorkflowRunnerError (''Final artifact type not produced: '' @ artifact_type_value final))
      else Inr (last produced))"
    unfolding select_final_artifact_def producers_def produced_def anything_def Let_def ..
  moreover have "last anything \<in> set anything" if "anything \<noteq> []" using that by simp
  moreover have "last produced \<in> set produced" if "produced \<noteq> []" using that by simp
  ultimately show ?thesis
    using set_produced by (auto simp: anything_def filter_empty_conv)
qed

text \<open>
  File names never collide within an attempt: two artifacts of one step attempt that get
  the same scoped name have the same index, whatever file names the executor chose, and the
  accepted file name is a single path segment.
\<close>

theorem scoped_filenames_do_not_collide:
  assumes "step_scoped_filename run_id ar s i f w = (Inr name, w')"
    "step_scoped_filename run_id ar s j g w = (Inr name, w'')"
  shows "i = j \<and> f = g \<and> path_name f = f \<and> \<not> is_absolute f"
proof -
  define p where "p = (let attempt = attempt_number (filter (\<lambda>x. ar_step_name x = ws_name s)
      (filter (\<lambda>x. ar_run_id x = run_id) (d_agent_runs (w_db w)))) (ar_id ar) in
     if attempt > 1 then slug (ws_name s) @ ''-attempt-'' @ show_nat attempt else slug (ws_name s))"
  have name: "name = p @ ''-'' @ show_nat (i + 1) @ ''-'' @ f"
    "name = p @ ''-'' @ show_nat (j + 1) @ ''-'' @ g"
    using step_scoped_filename_returns [OF assms(1)] step_scoped_filename_returns [OF assms(2)]
    unfolding p_def by auto
  then have "i = j" using numbered_name_inj by metis
  then show ?thesis using name step_scoped_filename_returns [OF assms(1)] by auto
qed

text \<open>
  The prefix of a file name does not tell every two steps apart: the slug folds case and
  punctuation.
\<close>

lemma slugs_of_distinct_steps_may_agree: "slug ''Plan A'' = slug ''plan-a''"
  by code_simp

definition example_eval_world :: world where
  "example_eval_world = example_world (example_waiting_db Job_APPROVED)"

definition example_pack_eval :: "eval_result io" where
  "example_pack_eval = record_eval_result example_run (Some example_agent_run) ''has_patch'' Eval_PASS ''ok''
     None ''pack''"

lemma example_pack_eval_ok:
  "returned (example_pack_eval example_eval_world)"
  "d_events (w_db example_eval_world) = []"
  "distinct (map er_id (d_evals (w_db (snd (example_pack_eval example_eval_world)))))"
  "strip ''has_patch'' = ''has_patch''" "strip ''ok'' = ''ok''"
  by code_simp+

theorem pack_evaluation_recorded_once_witness:
  "\<exists>r. example_pack_eval (snd (example_pack_eval example_eval_world))
    = (Inr r, snd (example_pack_eval example_eval_world))"
proof -
  obtain r where r: "example_pack_eval example_eval_world = (Inr r, snd (example_pack_eval example_eval_world))"
    by (rule returnedE [OF example_pack_eval_ok(1)])
  show ?thesis
    using pack_evaluation_recorded_once [OF r [unfolded example_pack_eval_def] example_pack_eval_ok(4,5)
        _ example_pack_eval_ok(3) [unfolded example_pack_eval_def]] example_pack_eval_ok(2)
    by (auto simp: example_pack_eval_def)
qed

theorem scoped_filenames_do_not_collide_witness:
  "\<exists>name. step_scoped_filename ''run-1'' example_agent_run (example_step ''draft'' ''writer'' [] PATCH) 0 ''a.md''
     example_eval_world = (Inr name, example_eval_world) \<and> path_name ''a.md'' = ''a.md''"
proof -
  have "step_scoped_filename ''run-1'' example_agent_run (example_step ''draft'' ''writer'' [] PATCH) 0
      ''a.md'' example_eval_world = (Inr ''draft-1-a.md'', example_eval_world)"
  proof -
    have "returned (step_scoped_filename ''run-1'' example_agent_run (example_step ''draft'' ''writer'' [] PATCH) 0
      ''a.md'' example_eval_world)"
      "case fst (step_scoped_filename ''run-1'' example_agent_run (example_step ''draft'' ''writer'' [] PATCH) 0
      ''a.md'' example_eval_world) of Inr n \<Rightarrow> n = ''draft-1-a.md'' | _ \<Rightarrow> False"
      by code_simp+
    then show ?thesis
      using step_scoped_filename_returns by (cases "step_scoped_filename ''run-1'' example_agent_run
        (example_step ''draft'' ''writer'' [] PATCH) 0 ''a.md'' example_eval_world")
        (fastforce split: sum.splits)
  qed
  then show ?thesis using scoped_filenames_do_not_collide by blast
qed


definition example_gated_step :: workflow_step where
  "example_gated_step = (example_step ''draft'' ''writer'' [] PATCH)
     \<lparr>ws_requires_eval_pass := True, ws_required_eval_checks := [''tests'']\<rparr>"

definition example_check_result :: "eval_status \<Rightarrow> eval_result" where
  "example_check_result status = \<lparr>er_id = ''eval-1'', er_run_id = ''run-1'', er_artifact_id = None,
     er_check_name = ''tests'', er_status = status, er_message = ''ok'', er_created_at = 0\<rparr>"

theorem eval_gate_is_exact_witness:
  "validate_step_eval_gate example_gated_step [example_check_result Eval_PASS] = Inr ()
   \<and> validate_step_eval_gate example_gated_step [example_check_result Eval_WARN] \<noteq> Inr ()"
  unfolding eval_gate_is_exact by (simp add: example_gated_step_def example_check_result_def)

end
