(* ===== verification/Task_Intake.thy ===== *)
theory Task_Intake imports Context_Injection "HOL-Library.Sublist" begin

text \<open>
  \<open>analyze_task_intake\<close> of \<open>backend/app/core/task_intake.py\<close>: the classification of a task by
  the terms its text contains, and the Pack and constraints that it recommends. In this theory
  a text is searched as its UTF-8 bytes (\<open>encode\<close>) and the texts of a result are bytes: \<open>cjk\<close>
  encodes the Chinese terms; substring search and the order of strings agree with those on code
  points. \<open>lower()\<close> lowers the ASCII letters; the letters
  beyond them occur in no term. Scores are rationals.
\<close>

section \<open>Terms\<close>

text \<open>Code points from \<open>0x800\<close> to \<open>0xFFFF\<close> in three bytes.\<close>

definition cjk :: "nat list \<Rightarrow> string" where
  "cjk points = concat (map (\<lambda>n. [char_of (224 + n div 4096), char_of (128 + n div 64 mod 64),
     char_of (128 + n mod 64)]) points)"

definition TASK_TYPE_TERMS :: "(string \<times> string list) list" where
  "TASK_TYPE_TERMS =
     [
      (''bug'', [
         ''broken'', ''bug'', ''error'', ''exception'', ''failure'', ''fix'',
         cjk [0x4FEE, 0x590D], cjk [0x62A5, 0x9519], cjk [0x9519, 0x8BEF]]),
      (''review'', [
         ''audit'', ''inspect'', ''review'', cjk [0x590D, 0x6838], cjk [0x5BA1, 0x67E5],
         cjk [0x5BA1, 0x6838], cjk [0x8BC4, 0x5BA1]]),
      (''research'', [
         ''analyze'', ''compare'', ''investigate'', ''research'', cjk [0x5206, 0x6790],
         cjk [0x5BF9, 0x6BD4], cjk [0x7814, 0x7A76], cjk [0x8C03, 0x7814]]),
      (''refactor'', [
         ''cleanup'', ''refactor'', ''restructure'', cjk [0x6574, 0x7406, 0x4EE3, 0x7801],
         cjk [0x91CD, 0x6784]]),
      (''test'', [
         ''coverage'', ''pytest'', ''test'', cjk [0x6D4B, 0x8BD5], cjk [0x9A8C, 0x6536]]),
      (''documentation'', [
         ''doc'', ''docs'', ''document'', ''readme'', cjk [0x6587, 0x6863], cjk [0x8BF4, 0x660E]]),
      (''feature'', [
         ''add'', ''build'', ''create'', ''implement'', cjk [0x5B9E, 0x73B0],
         cjk [0x5F00, 0x53D1], cjk [0x65B0, 0x589E], cjk [0x6DFB, 0x52A0]])]"

definition DOMAIN_TERMS :: "(string \<times> string list) list" where
  "DOMAIN_TERMS =
     [
      (''security'', [
         ''auth'', ''jwt'', ''oauth'', ''permission'', ''secret'', ''token'',
         cjk [0x5B89, 0x5168], cjk [0x5BC6, 0x94A5], cjk [0x6388, 0x6743], cjk [0x6743, 0x9650],
         cjk [0x8BA4, 0x8BC1]]),
      (''performance'', [
         ''cache'', ''latency'', ''performance'', ''slow'', cjk [0x4F18, 0x5316],
         cjk [0x5EF6, 0x8FDF], cjk [0x6027, 0x80FD], cjk [0x7F13, 0x5B58]]),
      (''database'', [
         ''database'', ''migration'', ''mysql'', ''postgres'', ''schema'', ''sqlite'',
         cjk [0x6570, 0x636E, 0x5E93], cjk [0x8868, 0x7ED3, 0x6784], cjk [0x8FC1, 0x79FB]]),
      (''testing'', [
         ''coverage'', ''e2e'', ''pytest'', ''test'', cjk [0x6D4B, 0x8BD5],
         cjk [0x8986, 0x76D6, 0x7387], cjk [0x9A8C, 0x6536]]),
      (''web_ui'', [
         ''css'', ''frontend'', ''html'', ''react'', ''ui'', ''ux'', cjk [0x524D, 0x7AEF],
         cjk [0x6837, 0x5F0F], cjk [0x754C, 0x9762]]),
      (''ai_model'', [
         ''agent'', ''deepseek'', ''llm'', ''model'', ''openai'', ''prompt'',
         cjk [0x63D0, 0x793A, 0x8BCD], cjk [0x667A, 0x80FD, 0x4F53], cjk [0x6A21, 0x578B]]),
      (''documentation'', [
         ''docx'', ''pdf'', ''pptx'', ''readme'', ''xlsx'', cjk [0x62A5, 0x544A],
         cjk [0x6587, 0x6863], cjk [0x6F14, 0x793A], cjk [0x8868, 0x683C]])]"

definition HIGH_RISK_TERMS :: "string list" where
  "HIGH_RISK_TERMS = [
     ''auth'', ''delete'', ''jwt'', ''migration'', ''oauth'', ''payment'', ''permission'',
     ''schema'', ''secret'', ''token'', ''writeback'', cjk [0x5220, 0x9664],
     cjk [0x5B89, 0x5168], cjk [0x5BC6, 0x94A5], cjk [0x6388, 0x6743], cjk [0x652F, 0x4ED8],
     cjk [0x6743, 0x9650], cjk [0x8BA4, 0x8BC1], cjk [0x8FC1, 0x79FB]]"

definition MEDIUM_RISK_TERMS :: "string list" where
  "MEDIUM_RISK_TERMS = [
     ''api'', ''cache'', ''concurrency'', ''database'', ''parallel'', ''performance'',
     cjk [0x5E76, 0x53D1], cjk [0x6027, 0x80FD], cjk [0x63A5, 0x53E3],
     cjk [0x6570, 0x636E, 0x5E93]]"

definition LARGE_TERMS :: "string list" where
  "LARGE_TERMS = [
     ''architecture'', ''cross-module'', ''multi'', ''workflow'', cjk [0x591A, 0x6A21, 0x5757],
     cjk [0x5DE5, 0x4F5C, 0x6D41], cjk [0x67B6, 0x6784], cjk [0x8DE8, 0x6A21, 0x5757]]"

definition SMALL_TERMS :: "string list" where
  "SMALL_TERMS = [
     ''copy'', ''one file'', ''rename'', ''typo'', cjk [0x5355, 0x6587, 0x4EF6],
     cjk [0x5C0F, 0x6539], cjk [0x6539, 0x540D], cjk [0x9519, 0x5B57]]"

section \<open>Searching terms\<close>

text \<open>A code point from \<open>0x4E00\<close> to \<open>0x9FFF\<close>: the bytes \<open>E4 B8\<close> to \<open>E9 BF\<close> begin it.\<close>

fun contains_cjk :: "string \<Rightarrow> bool" where
  "contains_cjk (a # b # rest) =
     ((0xE5 \<le> (of_char a :: nat) \<and> (of_char a :: nat) \<le> 0xE9)
      \<or> ((of_char a :: nat) = 0xE4 \<and> 0xB8 \<le> (of_char b :: nat)) \<or> contains_cjk (b # rest))"
| "contains_cjk _ = False"

text \<open>The character class \<open>[a-z0-9]\<close> and the pattern \<open>(?<![a-z0-9])term(?![a-z0-9])\<close>.\<close>

definition is_word_char :: "char \<Rightarrow> bool" where
  "is_word_char c \<longleftrightarrow> (CHR ''a'' \<le> c \<and> c \<le> CHR ''z'') \<or> (CHR ''0'' \<le> c \<and> c \<le> CHR ''9'')"

definition word_starts :: "string \<Rightarrow> string \<Rightarrow> bool" where
  "word_starts term text \<longleftrightarrow> take (length term) text = term
     \<and> \<not> (drop (length term) text \<noteq> [] \<and> is_word_char (hd (drop (length term) text)))"

primrec word_occurs :: "bool \<Rightarrow> string \<Rightarrow> string \<Rightarrow> bool" where
  "word_occurs after_word term [] = (\<not> after_word \<and> word_starts term [])"
| "word_occurs after_word term (c # text) =
     (\<not> after_word \<and> word_starts term (c # text) \<or> word_occurs (is_word_char c) term text)"

definition contains_term :: "string \<Rightarrow> string \<Rightarrow> bool" where
  "contains_term text term =
    (if contains_cjk term then sublist term text
     else if (let plain = filter (\<lambda>c. c \<noteq> CHR ''-'' \<and> c \<noteq> CHR ''_'') term in
              plain \<noteq> [] \<and> list_all is_alnum plain)
     then word_occurs False term text
     else sublist term text)"

definition matching_terms :: "string \<Rightarrow> string list \<Rightarrow> string list" where
  "matching_terms text terms = sort (filter (contains_term text) terms)"

definition listed :: "string list \<Rightarrow> string" where
  "listed matches = join '', '' (take 3 matches)"

section \<open>Requests and results\<close>

record intake_request =
  in_title :: string
  in_goal :: string
  in_inputs :: jobj
  in_constraints :: "string list"
  in_acceptance_criteria :: "string list"

record intake_result =
  it_task_type :: string
  it_complexity :: string
  it_risk :: string
  it_domain :: string
  it_recommended_pack :: string
  it_confidence :: rat
  it_reasons :: "string list"
  it_constraints :: "string list"

definition intake_of_task :: "task \<Rightarrow> intake_request" where
  "intake_of_task t = \<lparr>in_title = t_title t, in_goal = t_goal t, in_inputs = t_inputs t,
     in_constraints = t_constraints t, in_acceptance_criteria = t_acceptance_criteria t\<rparr>"

definition route_text ::
  "(string \<Rightarrow> string) \<Rightarrow> (rat \<Rightarrow> string) \<Rightarrow> intake_request \<Rightarrow> string" where
  "route_text encode show_float r = lower (encode (join '' '' [in_title r, in_goal r,
     json_text '', '' '': '' (sort_key fst) show_float (JObj (in_inputs r)),
     join '' '' (in_constraints r), join '' '' (in_acceptance_criteria r)]))"

section \<open>Classification\<close>

definition task_type_order :: "string list" where
  "task_type_order = [''bug'', ''review'', ''research'', ''refactor'', ''test'', ''documentation'', ''feature'']"

definition terms_of :: "(string \<times> string list) list \<Rightarrow> string \<Rightarrow> string list" where
  "terms_of table name = (case map_of table name of None \<Rightarrow> [] | Some terms \<Rightarrow> terms)"

primrec first_task_type :: "string \<Rightarrow> string list \<Rightarrow> string \<times> string" where
  "first_task_type text [] = (''feature'', cjk [0x672A, 0x547D, 0x4E2D, 0x66F4, 0x5177, 0x4F53, 0x4EFB, 0x52A1, 0x7C7B, 0x578B, 0xFF0C, 0x9ED8, 0x8BA4, 0x6309] @ '' feature '' @ cjk [0x5904, 0x7406])"
| "first_task_type text (n # ns) =
    (let matches = matching_terms text (terms_of TASK_TYPE_TERMS n) in
     if matches \<noteq> [] then (n, cjk [0x4EFB, 0x52A1, 0x6587, 0x672C, 0x547D, 0x4E2D] @ '' '' @ n @ '' '' @ cjk [0x4FE1, 0x53F7] @ '': '' @ listed matches)
     else first_task_type text ns)"

definition classify_task_type :: "string \<Rightarrow> string \<times> string" where
  "classify_task_type text = first_task_type text task_type_order"

text \<open>The first domain with the most matching terms; \<open>code\<close> when none matches.\<close>

fun best_domain :: "string \<Rightarrow> string \<times> string list \<Rightarrow> (string \<times> string list) list \<Rightarrow> string \<times> string list" where
  "best_domain text best [] = best"
| "best_domain text best ((domain, terms) # rest) =
    (let matches = matching_terms text terms in
     best_domain text (if length matches > length (snd best) then (domain, matches) else best) rest)"

definition classify_domain :: "string \<Rightarrow> string \<times> string" where
  "classify_domain text = (case best_domain text (''code'', []) DOMAIN_TERMS of (domain, matches) \<Rightarrow>
     (domain, if matches \<noteq> [] then cjk [0x4EFB, 0x52A1, 0x6587, 0x672C, 0x547D, 0x4E2D] @ '' '' @ domain @ '' '' @ cjk [0x9886, 0x57DF, 0x4FE1, 0x53F7] @ '': '' @ listed matches
              else cjk [0x672A, 0x547D, 0x4E2D, 0x7279, 0x5B9A, 0x9886, 0x57DF, 0x4FE1, 0x53F7, 0xFF0C, 0x9ED8, 0x8BA4, 0x6309] @ '' code '' @ cjk [0x9886, 0x57DF, 0x5904, 0x7406]))"

definition classify_risk :: "string \<Rightarrow> string \<Rightarrow> string \<times> string" where
  "classify_risk text domain =
    (let high = matching_terms text HIGH_RISK_TERMS; medium = matching_terms text MEDIUM_RISK_TERMS in
     if high \<noteq> [] \<or> domain \<in> {''security'', ''database''} then
       (''high'', if high \<noteq> [] then cjk [0x547D, 0x4E2D, 0x9AD8, 0x98CE, 0x9669, 0x4FE1, 0x53F7] @ '': '' @ listed high
                  else domain @ '' '' @ cjk [0x9886, 0x57DF, 0x9ED8, 0x8BA4, 0x9AD8, 0x98CE, 0x9669])
     else if medium \<noteq> [] \<or> domain \<in> {''performance'', ''ai_model''} then
       (''medium'', if medium \<noteq> [] then cjk [0x547D, 0x4E2D, 0x4E2D, 0x98CE, 0x9669, 0x4FE1, 0x53F7] @ '': '' @ listed medium
                    else domain @ '' '' @ cjk [0x9886, 0x57DF, 0x9ED8, 0x8BA4, 0x4E2D, 0x98CE, 0x9669])
     else (''low'', cjk [0x672A, 0x547D, 0x4E2D, 0x9AD8] @ ''/'' @ cjk [0x4E2D, 0x98CE, 0x9669, 0x4FE1, 0x53F7]))"

definition classify_complexity ::
  "intake_request \<Rightarrow> string \<Rightarrow> string \<Rightarrow> string \<Rightarrow> string \<times> string" where
  "classify_complexity r text risk domain =
    (if list_ex (contains_term text) SMALL_TERMS then
       (''S'', cjk [0x547D, 0x4E2D, 0x5C0F, 0x6539] @ ''/'' @ cjk [0x5355, 0x6587, 0x4EF6, 0x4FE1, 0x53F7])
     else if risk = ''high'' \<or> domain \<in> {''security'', ''database''} then
       (''L'', cjk [0x9AD8, 0x98CE, 0x9669, 0x6216, 0x5173, 0x952E, 0x9886, 0x57DF, 0x4EFB, 0x52A1, 0x9ED8, 0x8BA4, 0x6309] @ '' L '' @ cjk [0x7EA7, 0x5904, 0x7406])
     else if list_ex (contains_term text) LARGE_TERMS then
       (''L'', cjk [0x547D, 0x4E2D, 0x67B6, 0x6784] @ ''/'' @ cjk [0x591A, 0x6A21, 0x5757, 0x590D, 0x6742, 0x5EA6, 0x4FE1, 0x53F7])
     else if length (in_inputs r) + length (in_constraints r) + length (in_acceptance_criteria r) \<ge> 4 then
       (''M'', cjk [0x4EFB, 0x52A1, 0x8F93, 0x5165, 0x3001, 0x7EA6, 0x675F, 0x6216, 0x9A8C, 0x6536, 0x6761, 0x4EF6, 0x8F83, 0x591A, 0xFF0C, 0x6309] @ '' M '' @ cjk [0x7EA7, 0x5904, 0x7406])
     else (''M'', cjk [0x9ED8, 0x8BA4, 0x6309] @ '' M '' @ cjk [0x7EA7, 0x5904, 0x7406, 0xFF0C, 0x4FDD, 0x7559, 0x89C4, 0x5212, 0x548C, 0x9A8C, 0x6536, 0x7A7A, 0x95F4]))"

section \<open>Recommendation\<close>

definition pack_available :: "string \<Rightarrow> string list option \<Rightarrow> bool" where
  "pack_available name available = opt_all (\<lambda>packs. name \<in> set packs) available"

definition recommend_pack ::
  "string \<Rightarrow> string \<Rightarrow> string \<Rightarrow> string \<Rightarrow> string list option \<Rightarrow> string \<times> string" where
  "recommend_pack task_type complexity risk domain available =
    (if task_type = ''research'' \<and> pack_available ''research'' available then
       (''research'', cjk [0x7814, 0x7A76] @ ''/'' @ cjk [0x5206, 0x6790, 0x4EFB, 0x52A1, 0x6620, 0x5C04, 0x5230] @ '' research pack'')
     else if domain = ''documentation'' \<and> task_type \<in> {''research'', ''documentation''}
         \<and> pack_available ''research'' available then
       (''research'', cjk [0x6587, 0x6863] @ ''/'' @ cjk [0x8D44, 0x6599, 0x4EFB, 0x52A1, 0x4F18, 0x5148, 0x6620, 0x5C04, 0x5230] @ '' research pack'')
     else if (complexity = ''L'' \<or> risk = ''high'') \<and> pack_available ''code_rd_institutional'' available then
       (''code_rd_institutional'', ''L '' @ cjk [0x7EA7, 0x6216, 0x9AD8, 0x98CE, 0x9669, 0x4EE3, 0x7801, 0x4EFB, 0x52A1, 0x6620, 0x5C04, 0x5230] @ '' code_rd_institutional pack'')
     else if pack_available ''code_rd'' available then
       (''code_rd'', cjk [0x9ED8, 0x8BA4, 0x4EE3, 0x7801, 0x4EFB, 0x52A1, 0x6620, 0x5C04, 0x5230] @ '' code_rd pack'')
     else (case available of
         Some packs \<Rightarrow> if packs \<noteq> [] then let fallback = hd (sort packs) in
             (fallback, cjk [0x9ED8, 0x8BA4] @ '' pack '' @ cjk [0x4E0D, 0x53EF, 0x7528, 0xFF0C, 0x56DE, 0x9000, 0x5230] @ '' '' @ fallback)
           else (''code_rd'', cjk [0x672A, 0x63D0, 0x4F9B] @ '' pack '' @ cjk [0x5217, 0x8868, 0xFF0C, 0x9ED8, 0x8BA4, 0x63A8, 0x8350] @ '' code_rd'')
       | None \<Rightarrow> (''code_rd'', cjk [0x672A, 0x63D0, 0x4F9B] @ '' pack '' @ cjk [0x5217, 0x8868, 0xFF0C, 0x9ED8, 0x8BA4, 0x63A8, 0x8350] @ '' code_rd'')))"

text \<open>\<open>list(dict.fromkeys(xs))\<close>: the first occurrence of each element.\<close>

definition unique_in_order :: "'a list \<Rightarrow> 'a list" where
  "unique_in_order xs = rev (remdups (rev xs))"

definition HIGH_RISK_CONSTRAINT :: string where
  "HIGH_RISK_CONSTRAINT = cjk [0x9AD8, 0x98CE, 0x9669, 0x4EFB, 0x52A1, 0xFF1A, 0x9700, 0x8981, 0x4FDD, 0x7559, 0x4EBA, 0x5DE5, 0x786E, 0x8BA4, 0x70B9, 0x548C, 0x660E, 0x786E, 0x9A8C, 0x8BC1, 0x8BC1, 0x636E, 0x3002]"

definition LARGE_TASK_CONSTRAINT :: string where
  "LARGE_TASK_CONSTRAINT = ''L '' @ cjk [0x7EA7, 0x4EFB, 0x52A1, 0xFF1A, 0x9700, 0x8981, 0x5148, 0x4EA7, 0x51FA, 0x8BA1, 0x5212, 0xFF0C, 0x518D, 0x6267, 0x884C, 0x5B9E, 0x73B0, 0x548C, 0x590D, 0x6838, 0x3002]"

definition SECURITY_CONSTRAINT :: string where
  "SECURITY_CONSTRAINT = cjk [0x5B89, 0x5168, 0x76F8, 0x5173, 0xFF1A, 0x4E0D, 0x5F97, 0x6CC4, 0x6F0F, 0x5BC6, 0x94A5, 0x3001] @ ''token '' @ cjk [0x6216, 0x8BA4, 0x8BC1, 0x7EC6, 0x8282, 0x5230] @ '' trace/artifact'' @ cjk [0x3002]"

definition DATABASE_CONSTRAINT :: string where
  "DATABASE_CONSTRAINT = cjk [0x6570, 0x636E, 0x5E93, 0x76F8, 0x5173, 0xFF1A] @ ''schema '' @ cjk [0x6216, 0x8FC1, 0x79FB, 0x53D8, 0x66F4, 0x5FC5, 0x987B, 0x5355, 0x72EC, 0x786E, 0x8BA4, 0x3002]"

definition RESEARCH_CONSTRAINT :: string where
  "RESEARCH_CONSTRAINT = cjk [0x7814, 0x7A76, 0x4EFB, 0x52A1, 0xFF1A, 0x7ED3, 0x8BBA, 0x9700, 0x8981, 0x4FDD, 0x7559, 0x6765, 0x6E90, 0x6216, 0x8BC1, 0x636E, 0x8BF4, 0x660E, 0x3002]"

definition recommended_constraints ::
  "string list \<Rightarrow> string \<Rightarrow> string \<Rightarrow> string \<Rightarrow> string \<Rightarrow> string list" where
  "recommended_constraints existing task_type complexity risk domain =
    (let kept = unique_in_order (filter (\<lambda>v. strip v \<noteq> []) existing);
         additions = (if risk = ''high'' then [HIGH_RISK_CONSTRAINT] else [])
           @ (if complexity = ''L'' then [LARGE_TASK_CONSTRAINT] else [])
           @ (if domain = ''security'' then [SECURITY_CONSTRAINT] else [])
           @ (if domain = ''database'' then [DATABASE_CONSTRAINT] else [])
           @ (if task_type = ''research'' then [RESEARCH_CONSTRAINT] else []) in
     unique_in_order (kept @ additions))"

definition intake_confidence ::
  "string \<Rightarrow> string \<Rightarrow> string \<Rightarrow> string \<Rightarrow> string \<Rightarrow> string list option \<Rightarrow> rat" where
  "intake_confidence task_type domain risk complexity recommended available =
     min (11/20 + (if task_type \<noteq> ''feature'' then 1/10 else 0) + (if domain \<noteq> ''code'' then 1/10 else 0)
       + (if risk \<noteq> ''low'' then 1/20 else 0) + (if complexity \<in> {''S'', ''L''} then 1/20 else 0)
       + (if pack_available recommended available then 1/10 else 0)) (9/10)"

text \<open>The strings of the result are stripped when it is built.\<close>

definition analyze_task_intake ::
  "(string \<Rightarrow> string) \<Rightarrow> (rat \<Rightarrow> string) \<Rightarrow> intake_request \<Rightarrow> string list option \<Rightarrow> intake_result" where
  "analyze_task_intake encode show_float r available =
    (let text = route_text encode show_float r in
     case classify_task_type text of (task_type, type_reason) \<Rightarrow>
     case classify_domain text of (domain, domain_reason) \<Rightarrow>
     case classify_risk text domain of (risk, risk_reason) \<Rightarrow>
     case classify_complexity r text risk domain of (complexity, complexity_reason) \<Rightarrow>
     case recommend_pack task_type complexity risk domain available of (pack, pack_reason) \<Rightarrow>
     \<lparr>it_task_type = task_type, it_complexity = complexity, it_risk = risk, it_domain = domain,
       it_recommended_pack = strip pack,
       it_confidence = intake_confidence task_type domain risk complexity pack available,
       it_reasons = map strip (filter (\<lambda>v. v \<noteq> []) [type_reason, domain_reason, risk_reason,
         complexity_reason, pack_reason]),
       it_constraints = map strip
         (recommended_constraints (map encode (in_constraints r)) task_type complexity risk domain)\<rparr>)"

section \<open>Lemmas\<close>

lemma set_unique_in_order [simp]: "set (unique_in_order xs) = set xs"
  by (simp add: unique_in_order_def)

lemma unique_in_order_append:
  "\<exists>ys. unique_in_order (xs @ zs) = unique_in_order xs @ ys"
proof -
  have *: "\<exists>ys. remdups (as @ bs) = ys @ remdups bs" for as bs :: "'a list"
    by (induction as) auto
  show ?thesis unfolding unique_in_order_def using * [of "rev zs" "rev xs"] by auto
qed

lemma unique_in_order_distinct: "distinct xs \<Longrightarrow> unique_in_order xs = xs"
  by (simp add: unique_in_order_def distinct_remdups_id)

lemma distinct_unique_in_order [simp]: "distinct (unique_in_order xs)"
  by (simp add: unique_in_order_def)

text \<open>What the caller asked for stays, in its order, before what the analysis adds.\<close>

lemma recommended_constraints_keep:
  "\<exists>ys. recommended_constraints existing tt cx risk domain
     = unique_in_order (filter (\<lambda>v. strip v \<noteq> []) existing) @ ys"
  unfolding recommended_constraints_def Let_def
  using unique_in_order_append [of "unique_in_order (filter (\<lambda>v. strip v \<noteq> []) existing)"]
  by (simp add: unique_in_order_distinct)

lemma strip_id: "v \<noteq> [] \<Longrightarrow> \<not> is_space (hd v) \<Longrightarrow> \<not> is_space (last v) \<Longrightarrow> strip v = v"
proof -
  assume v: "v \<noteq> []" "\<not> is_space (hd v)" "\<not> is_space (last v)"
  have "dropWhile is_space v = v" "dropWhile is_space (rev v) = rev v"
    using v by (simp_all add: dropWhile_eq_self_iff hd_rev)
  then show ?thesis by (simp add: strip_def)
qed

lemma strip_high_risk: "strip HIGH_RISK_CONSTRAINT = HIGH_RISK_CONSTRAINT"
  "strip ''code_rd_institutional'' = ''code_rd_institutional''"
proof -
  have "HIGH_RISK_CONSTRAINT \<noteq> []" "\<not> is_space (hd HIGH_RISK_CONSTRAINT)"
    "\<not> is_space (last HIGH_RISK_CONSTRAINT)"
    by (simp_all add: HIGH_RISK_CONSTRAINT_def cjk_def is_space_def char_of_eq_iff take_bit_eq_mod)
  then show "strip HIGH_RISK_CONSTRAINT = HIGH_RISK_CONSTRAINT" by (rule strip_id)
  show "strip ''code_rd_institutional'' = ''code_rd_institutional''"
    by (rule strip_id) (simp_all add: is_space_def)
qed

lemma confidence_bounds:
  "11/20 \<le> intake_confidence tt domain risk cx pack available"
  "intake_confidence tt domain risk cx pack available \<le> 9/10"
  by (simp_all add: intake_confidence_def min_def)

lemma classify_risk_high:
  "fst (classify_risk text domain) = ''high'' \<longleftrightarrow>
     matching_terms text HIGH_RISK_TERMS \<noteq> [] \<or> domain = ''security'' \<or> domain = ''database''"
  by (simp add: classify_risk_def Let_def)

lemma matching_terms_Nil: "matching_terms text terms = [] \<longleftrightarrow> \<not> list_ex (contains_term text) terms"
  by (simp add: matching_terms_def filter_empty_conv list_ex_iff)

lemma recommend_pack_member:
  assumes "available = Some packs" "packs \<noteq> []"
  shows "fst (recommend_pack tt cx risk domain available) \<in> set packs"
proof -
  have "hd (sort packs) \<in> set packs"
    using assms(2) by (metis hd_in_set set_sort sort_Nil_iff)
  then show ?thesis
    using assms by (simp add: recommend_pack_def pack_available_def opt_all_def Let_def)
qed

lemma analyze_parts:
  assumes "res = analyze_task_intake encode f r available"
  shows "it_risk res = fst (classify_risk (route_text encode f r) (it_domain res))"
    "it_confidence res = intake_confidence (it_task_type res) (it_domain res) (it_risk res)
       (it_complexity res) (fst (recommend_pack (it_task_type res) (it_complexity res) (it_risk res)
         (it_domain res) available)) available"
    "it_recommended_pack res = strip (fst (recommend_pack (it_task_type res) (it_complexity res)
       (it_risk res) (it_domain res) available))"
    "it_constraints res = map strip (recommended_constraints (map encode (in_constraints r))
       (it_task_type res) (it_complexity res) (it_risk res) (it_domain res))"
  using assms by (simp_all add: analyze_task_intake_def Let_def split_beta)

text \<open>The analysis as rules: the Packs in the order in which they are preferred.\<close>

definition preferred_packs :: "string \<Rightarrow> string \<Rightarrow> string \<Rightarrow> string \<Rightarrow> string list" where
  "preferred_packs task_type complexity risk domain =
     (if task_type = ''research'' \<or> (task_type = ''documentation'' \<and> domain = ''documentation'') then [''research''] else [])
     @ (if complexity = ''L'' \<or> risk = ''high'' then [''code_rd_institutional''] else []) @ [''code_rd'']"

lemma hd_sort_Min: "xs \<noteq> [] \<Longrightarrow> hd (sort xs) = Min (set xs)" for xs :: "'a :: linorder list"
proof -
  assume "xs \<noteq> []"
  then obtain y ys where y: "sort xs = y # ys" by (metis list.exhaust sort_Nil_iff)
  then have "sorted (y # ys)" "set xs = set (y # ys)" by (metis sorted_sort, metis set_sort)
  then show ?thesis unfolding y by (auto intro: Min_eqI [symmetric])
qed

lemma same_first_choice:
  "(a \<or> b) = c \<Longrightarrow> (if a then x else if b then x else r) = (if c then x else r)"
  by auto

lemma find_of_three:
  "(case List.find P ((if a then [x] else []) @ (if b then [y] else []) @ [z]) of Some p \<Rightarrow> p | None \<Rightarrow> d)
     = (if a \<and> P x then x else if b \<and> P y then y else if P z then z else d)"
  by auto

lemma recommend_pack_preferred:
  "fst (recommend_pack tt cx risk domain available) =
     (case List.find (\<lambda>p. pack_available p available) (preferred_packs tt cx risk domain) of
        Some p \<Rightarrow> p
      | None \<Rightarrow> (case available of None \<Rightarrow> ''code_rd'' | Some packs \<Rightarrow> if packs = [] then ''code_rd'' else Min (set packs)))"
proof -
  let ?ok = "\<lambda>p. pack_available p available"
  let ?rest = "case available of None \<Rightarrow> ''code_rd'' | Some packs \<Rightarrow> if packs = [] then ''code_rd'' else Min (set packs)"
  have rest: "fst (case available of
         Some packs \<Rightarrow> if packs \<noteq> [] then (hd (sort packs), f packs) else (''code_rd'', m)
       | None \<Rightarrow> (''code_rd'', n)) = ?rest" for f :: "string list \<Rightarrow> string" and m n :: string
    by (cases available) (simp_all add: hd_sort_Min)
  have "fst (recommend_pack tt cx risk domain available) =
      (if tt = ''research'' \<and> ?ok ''research'' then ''research''
       else if domain = ''documentation'' \<and> tt \<in> {''research'', ''documentation''} \<and> ?ok ''research'' then ''research''
       else if (cx = ''L'' \<or> risk = ''high'') \<and> ?ok ''code_rd_institutional'' then ''code_rd_institutional''
       else if ?ok ''code_rd'' then ''code_rd'' else ?rest)"
    by (simp only: recommend_pack_def Let_def if_distrib [of fst] fst_conv rest)
  also have "\<dots> = (if (tt = ''research'' \<or> (tt = ''documentation'' \<and> domain = ''documentation'')) \<and> ?ok ''research'' then ''research''
       else if (cx = ''L'' \<or> risk = ''high'') \<and> ?ok ''code_rd_institutional'' then ''code_rd_institutional''
       else if ?ok ''code_rd'' then ''code_rd'' else ?rest)"
    by (rule same_first_choice) (simp only: insert_iff empty_iff simp_thms, blast)
  finally show ?thesis
    by (simp only: preferred_packs_def find_of_three)
qed

lemma first_task_type_find:
  "fst (first_task_type text ns) =
     (case List.find (\<lambda>n. list_ex (contains_term text) (terms_of TASK_TYPE_TERMS n)) ns of Some n \<Rightarrow> n | None \<Rightarrow> ''feature'')"
  by (induction ns) (simp_all add: Let_def matching_terms_Nil)

text \<open>How many terms of a list a text contains; the domain with the most, the earlier one of two.\<close>

definition term_count :: "string \<Rightarrow> string list \<Rightarrow> nat" where
  "term_count text terms = length (filter (contains_term text) terms)"

definition domain_wins :: "string \<Rightarrow> string \<Rightarrow> (string \<times> string list) list \<Rightarrow> bool" where
  "domain_wins text domain table \<longleftrightarrow> (\<exists>terms earlier later. table = earlier @ (domain, terms) # later
     \<and> 0 < term_count text terms
     \<and> (\<forall>(_, ts) \<in> set earlier. term_count text ts < term_count text terms)
     \<and> (\<forall>(_, ts) \<in> set later. term_count text ts \<le> term_count text terms))"

lemma length_matching: "length (matching_terms text terms) = term_count text terms"
  by (simp add: matching_terms_def term_count_def)

lemma best_domain_wins:
  "(best_domain text best table = best \<and> (\<forall>(_, ts) \<in> set table. term_count text ts \<le> length (snd best)))
    \<or> (\<exists>terms earlier later. table = earlier @ (fst (best_domain text best table), terms) # later
        \<and> length (snd best) < term_count text terms
        \<and> (\<forall>(_, ts) \<in> set earlier. term_count text ts < term_count text terms)
        \<and> (\<forall>(_, ts) \<in> set later. term_count text ts \<le> term_count text terms))"
proof (induction table arbitrary: best)
  case (Cons row table)
  obtain domain terms where row: "row = (domain, terms)" by (cases row)
  let ?best = "if term_count text terms > length (snd best) then (domain, matching_terms text terms) else best"
  have step: "best_domain text best ((domain, terms) # table) = best_domain text ?best table"
    by (simp add: Let_def length_matching)
  show ?case
  proof (cases "term_count text terms > length (snd best)")
    case True
    from Cons.IH [of ?best] show ?thesis
    proof (elim disjE)
      assume "best_domain text ?best table = ?best \<and> (\<forall>(_, ts) \<in> set table. term_count text ts \<le> length (snd ?best))"
      with True show ?thesis unfolding row step
        by (intro disjI2 exI [of _ terms] exI [of _ "[]"] exI [of _ table]) (simp add: length_matching)
    next
      assume "\<exists>terms' earlier later. table = earlier @ (fst (best_domain text ?best table), terms') # later
        \<and> length (snd ?best) < term_count text terms'
        \<and> (\<forall>(_, ts) \<in> set earlier. term_count text ts < term_count text terms')
        \<and> (\<forall>(_, ts) \<in> set later. term_count text ts \<le> term_count text terms')"
      then obtain terms' earlier later where w: "table = earlier @ (fst (best_domain text ?best table), terms') # later"
        "term_count text terms < term_count text terms'"
        "\<forall>(_, ts) \<in> set earlier. term_count text ts < term_count text terms'"
        "\<forall>(_, ts) \<in> set later. term_count text ts \<le> term_count text terms'"
        using True by (auto simp: length_matching)
      have "(domain, terms) # table = ((domain, terms) # earlier) @ (fst (best_domain text ?best table), terms') # later"
        by (simp only: append_Cons w(1) [symmetric])
      moreover have "length (snd best) < term_count text terms'" "\<forall>(_, ts) \<in> set ((domain, terms) # earlier).
          term_count text ts < term_count text terms'"
        using w(2,3) True by auto
      ultimately show ?thesis unfolding row step using w(4) by blast
    qed
  next
    case False
    from Cons.IH [of best] show ?thesis
    proof (elim disjE)
      assume "best_domain text best table = best \<and> (\<forall>(_, ts) \<in> set table. term_count text ts \<le> length (snd best))"
      with False show ?thesis unfolding row step if_not_P [OF False] by (intro disjI1) auto
    next
      assume "\<exists>terms' earlier later. table = earlier @ (fst (best_domain text best table), terms') # later
        \<and> length (snd best) < term_count text terms'
        \<and> (\<forall>(_, ts) \<in> set earlier. term_count text ts < term_count text terms')
        \<and> (\<forall>(_, ts) \<in> set later. term_count text ts \<le> term_count text terms')"
      then obtain terms' earlier later where w: "table = earlier @ (fst (best_domain text best table), terms') # later"
        "length (snd best) < term_count text terms'"
        "\<forall>(_, ts) \<in> set earlier. term_count text ts < term_count text terms'"
        "\<forall>(_, ts) \<in> set later. term_count text ts \<le> term_count text terms'" by auto
      have "(domain, terms) # table = ((domain, terms) # earlier) @ (fst (best_domain text best table), terms') # later"
        by (simp only: append_Cons w(1) [symmetric])
      moreover have "length (snd best) < term_count text terms'" "\<forall>(_, ts) \<in> set ((domain, terms) # earlier).
          term_count text ts < term_count text terms'"
        using w(2,3) False by auto
      ultimately show ?thesis unfolding row step if_not_P [OF False] using w(4) by blast
    qed
  qed
qed simp


lemma analyze_classes:
  assumes "res = analyze_task_intake encode f r available"
  shows "it_task_type res = fst (classify_task_type (route_text encode f r))"
    "it_domain res = fst (classify_domain (route_text encode f r))"
    "it_complexity res = fst (classify_complexity r (route_text encode f r) (it_risk res) (it_domain res))"
  using assms by (simp_all add: analyze_task_intake_def Let_def split_beta)

section \<open>Properties\<close>

text \<open>
  C35. What the analysis of a task decides. The task type is the first of the seven, in their order,
  of which the text contains a term, and feature when there is none; the domain is the one with
  the most terms, the earlier of two, and code when there is none; the risk is high exactly when the
  text contains a high-risk term or the domain is security or databases; the complexity is S exactly
  for a term of small changes, and otherwise L for high risk or a term of large ones. The
  recommended Pack is the first available one of research (for research, and for documents in
  the domain of documents), the institutional Pack (for complexity L or high risk) and code_rd, in
  this order, and without any of them the least available one; it is one of those available. The confidence lies
  between 0.55 and 0.9; a task of high risk carries the constraint that keeps a human confirmation; and the
  constraints of the task stay, in order, in front of those that are added.
\<close>

theorem task_intake_is_conservative:
  assumes "res = analyze_task_intake encode f r available" "text = route_text encode f r"
  shows "it_task_type res = (case List.find (\<lambda>t. list_ex (contains_term text) (terms_of TASK_TYPE_TERMS t))
        [''bug'', ''review'', ''research'', ''refactor'', ''test'', ''documentation'', ''feature''] of
        Some t \<Rightarrow> t | None \<Rightarrow> ''feature'')
    \<and> (domain_wins text (it_domain res) DOMAIN_TERMS
        \<or> it_domain res = ''code'' \<and> (\<forall>(_, terms) \<in> set DOMAIN_TERMS. \<not> list_ex (contains_term text) terms))
    \<and> (it_risk res = ''high'' \<longleftrightarrow> list_ex (contains_term text) HIGH_RISK_TERMS
        \<or> it_domain res = ''security'' \<or> it_domain res = ''database'')
    \<and> it_complexity res = (if list_ex (contains_term text) SMALL_TERMS then ''S''
        else if it_risk res = ''high'' \<or> list_ex (contains_term text) LARGE_TERMS then ''L'' else ''M'')
    \<and> it_recommended_pack res = strip (case List.find (\<lambda>p. pack_available p available)
          (preferred_packs (it_task_type res) (it_complexity res) (it_risk res) (it_domain res)) of
        Some p \<Rightarrow> p
      | None \<Rightarrow> (case available of None \<Rightarrow> ''code_rd'' | Some packs \<Rightarrow> if packs = [] then ''code_rd'' else Min (set packs)))
    \<and> (\<forall>packs. available = Some packs \<and> packs \<noteq> [] \<longrightarrow> it_recommended_pack res \<in> strip ` set packs)
    \<and> 11/20 \<le> it_confidence res \<and> it_confidence res \<le> 9/10
    \<and> (it_risk res = ''high'' \<longrightarrow> HIGH_RISK_CONSTRAINT \<in> set (it_constraints res))
    \<and> (\<exists>added. it_constraints res = map strip (unique_in_order
         (filter (\<lambda>v. strip v \<noteq> []) (map encode (in_constraints r)))) @ added)"
proof (intro conjI impI allI)
  note parts = analyze_parts [OF assms(1), folded assms(2)] and classify = analyze_classes [OF assms(1), folded assms(2)]
  show "it_task_type res = (case List.find (\<lambda>t. list_ex (contains_term text) (terms_of TASK_TYPE_TERMS t))
        [''bug'', ''review'', ''research'', ''refactor'', ''test'', ''documentation'', ''feature''] of
        Some t \<Rightarrow> t | None \<Rightarrow> ''feature'')"
    unfolding classify(1) classify_task_type_def first_task_type_find task_type_order_def ..
  have winner: "it_domain res = fst (best_domain text (''code'', []) DOMAIN_TERMS)"
    unfolding classify(2) classify_domain_def by (simp only: case_prod_unfold fst_conv)
  have none: "term_count text terms \<le> 0 \<longleftrightarrow> \<not> list_ex (contains_term text) terms" for terms
    by (simp add: term_count_def list_ex_iff filter_empty_conv)
  show "domain_wins text (it_domain res) DOMAIN_TERMS
      \<or> it_domain res = ''code'' \<and> (\<forall>(_, terms) \<in> set DOMAIN_TERMS. \<not> list_ex (contains_term text) terms)"
    using best_domain_wins [of "text" "(''code'', [])" DOMAIN_TERMS]
    unfolding winner domain_wins_def snd_conv list.size none by (metis fst_conv)
  show high: "it_risk res = ''high'' \<longleftrightarrow> list_ex (contains_term text) HIGH_RISK_TERMS
        \<or> it_domain res = ''security'' \<or> it_domain res = ''database''"
    using parts(1) classify_risk_high matching_terms_Nil by metis
  show "it_complexity res = (if list_ex (contains_term text) SMALL_TERMS then ''S''
        else if it_risk res = ''high'' \<or> list_ex (contains_term text) LARGE_TERMS then ''L'' else ''M'')"
    unfolding classify(3) using high by (simp only: classify_complexity_def) auto
  show "it_recommended_pack res = strip (case List.find (\<lambda>p. pack_available p available)
          (preferred_packs (it_task_type res) (it_complexity res) (it_risk res) (it_domain res)) of
        Some p \<Rightarrow> p
      | None \<Rightarrow> (case available of None \<Rightarrow> ''code_rd'' | Some packs \<Rightarrow> if packs = [] then ''code_rd'' else Min (set packs)))"
    unfolding parts(3) recommend_pack_preferred ..
  show "it_recommended_pack res \<in> strip ` set packs" if "available = Some packs \<and> packs \<noteq> []" for packs
    unfolding parts(3) using recommend_pack_member that by blast
  show "11/20 \<le> it_confidence res" "it_confidence res \<le> 9/10"
    unfolding parts(2) by (rule confidence_bounds)+
  show "HIGH_RISK_CONSTRAINT \<in> set (it_constraints res)" if "it_risk res = ''high''"
  proof -
    have "HIGH_RISK_CONSTRAINT \<in> set (recommended_constraints (map encode (in_constraints r))
        (it_task_type res) (it_complexity res) (it_risk res) (it_domain res))"
      using that by (simp add: recommended_constraints_def Let_def)
    then show ?thesis unfolding parts(4) set_map using strip_high_risk(1) by (metis image_eqI)
  qed
  show "\<exists>added. it_constraints res = map strip (unique_in_order
         (filter (\<lambda>v. strip v \<noteq> []) (map encode (in_constraints r)))) @ added"
    unfolding parts(4) using recommended_constraints_keep by (metis map_append)
qed

section \<open>Witness\<close>

definition example_intake :: "string \<Rightarrow> intake_request" where
  "example_intake title = \<lparr>in_title = title, in_goal = ''g'', in_inputs = [], in_constraints = [],
     in_acceptance_criteria = []\<rparr>"

definition example_packs :: "string list option" where
  "example_packs = Some [''code_rd'', ''code_rd_institutional'', ''research'']"

definition example_analysis :: "string \<Rightarrow> intake_result" where
  "example_analysis title = analyze_task_intake id (\<lambda>_. ''0'') (example_intake title) example_packs"

lemma word_occurs_head: "word_occurs b (c # cs) v \<Longrightarrow> c \<in> set v"
  by (induction v arbitrary: b) (auto simp: word_starts_def)

lemma sublist_head: "sublist (c # cs) v \<Longrightarrow> c \<in> set v"
  by (metis list.set_intros(1) set_mono_sublist subsetD)

lemma contains_term_head: "contains_term v (c # cs) \<Longrightarrow> c \<in> set v"
  unfolding contains_term_def by (auto split: if_splits dest: word_occurs_head sublist_head)

text \<open>A term that begins with such a code point is in no ASCII text.\<close>

lemma no_cjk_term:
  assumes "list_all (\<lambda>c. of_char c < (128 :: nat)) v" "n < 65536"
  shows "\<not> contains_term v (cjk (n # ns))"
proof -
  have "n div 4096 < 16" using assms(2) by simp
  then have "(of_char (char_of (224 + n div 4096) :: char) :: nat) \<ge> 128" by simp
  then have "char_of (224 + n div 4096) \<notin> set v" using assms(1) by (auto simp: list_all_iff)
  moreover obtain cs where "cjk (n # ns) = char_of (224 + n div 4096) # cs" by (simp add: cjk_def)
  ultimately show ?thesis
    using contains_term_head by metis
qed

text \<open>A research task that touches authentication, and a fix that does.\<close>

theorem task_intake_is_conservative_witness:
  "it_task_type (example_analysis ''compare auth'') = ''research'' \<and> it_risk (example_analysis ''compare auth'') = ''high''
   \<and> it_recommended_pack (example_analysis ''compare auth'') = ''research''
   \<and> it_recommended_pack (example_analysis ''fix auth'') = ''code_rd_institutional''"
proof -
  let ?order = "[''bug'', ''review'', ''research'', ''refactor'', ''test'', ''documentation'', ''feature'']"
  have texts: "route_text id (\<lambda>_. ''0'') (example_intake ''compare auth'') = ''compare auth g {}  ''"
    "route_text id (\<lambda>_. ''0'') (example_intake ''fix auth'') = ''fix auth g {}  ''" by code_simp+
  have ascii: "list_all (\<lambda>c. of_char c < (128 :: nat)) ''compare auth g {}  ''" by simp
  have absent: "list_all (\<lambda>t. \<not> contains_term ''compare auth g {}  '' t)
      [''broken'', ''bug'', ''error'', ''exception'', ''failure'', ''fix'', ''audit'', ''inspect'', ''review'']" by code_simp
  have there: "contains_term ''compare auth g {}  '' ''compare''" "contains_term ''compare auth g {}  '' ''auth''"
    "contains_term ''fix auth g {}  '' ''fix''" "contains_term ''fix auth g {}  '' ''auth''" by code_simp+
  have types: "List.find (\<lambda>t. list_ex (contains_term ''compare auth g {}  '') (terms_of TASK_TYPE_TERMS t)) ?order = Some ''research''"
    "List.find (\<lambda>t. list_ex (contains_term ''fix auth g {}  '') (terms_of TASK_TYPE_TERMS t)) ?order = Some ''bug''"
    using absent there by (simp_all add: terms_of_def TASK_TYPE_TERMS_def no_cjk_term [OF ascii])
  have high: "list_ex (contains_term ''compare auth g {}  '') HIGH_RISK_TERMS"
    "list_ex (contains_term ''fix auth g {}  '') HIGH_RISK_TERMS"
    using there by (simp_all add: HIGH_RISK_TERMS_def)
  have strips: "strip ''research'' = ''research''" "strip ''code_rd_institutional'' = ''code_rd_institutional''" by code_simp+
  have packs: "pack_available p example_packs \<longleftrightarrow> p \<in> {''code_rd'', ''code_rd_institutional'', ''research''}" for p
    by (simp add: pack_available_def example_packs_def opt_all_def)
  note intake = task_intake_is_conservative [OF _ refl, of _ id "\<lambda>_. ''0''" _ example_packs, folded example_analysis_def]
  have research: "it_task_type (example_analysis ''compare auth'') = ''research''" "it_risk (example_analysis ''compare auth'') = ''high''"
    using intake [of "example_analysis ''compare auth''" "example_intake ''compare auth''"]
    unfolding example_analysis_def texts types by (simp_all only: high option.case simp_thms)
  have bug: "it_task_type (example_analysis ''fix auth'') = ''bug''" "it_risk (example_analysis ''fix auth'') = ''high''"
    using intake [of "example_analysis ''fix auth''" "example_intake ''fix auth''"]
    unfolding example_analysis_def texts types by (simp_all only: high option.case simp_thms)
  have "it_recommended_pack (example_analysis ''compare auth'') = strip ''research''"
    using intake [of "example_analysis ''compare auth''" "example_intake ''compare auth''"] research
    unfolding example_analysis_def by (simp add: preferred_packs_def packs)
  moreover have "it_recommended_pack (example_analysis ''fix auth'') = strip ''code_rd_institutional''"
    using intake [of "example_analysis ''fix auth''" "example_intake ''fix auth''"] bug
    unfolding example_analysis_def by (simp add: preferred_packs_def packs)
  ultimately show ?thesis using research strips by simp
qed

end
