(* ===== verification/Runner_State.thy ===== *)
theory Runner_State imports Step_Gates Task_Intake Execution_Plan begin

text \<open>
  The durable state of a run as \<open>WorkflowRunner\<close> (\<open>backend/app/core/runner.py\<close>) reads and
  writes it around the steps: starting, pausing, failing and requeueing a run, registering the
  agents of the Pack, the attempts of a step with their sessions and jobs, the handoffs and
  artifacts of completed steps, and the checks that decide which completed attempts a resumed
  run may rely on. \<open>runner_env\<close> holds what is outside the modelled code.
\<close>

section \<open>The environment\<close>

text \<open>
  \<open>re_execute\<close> is the executor and \<open>re_parallel\<close> its \<open>supports_parallel_execution\<close>;
  \<open>re_schedule\<close> decides which running future completes next and \<open>re_cancels\<close> whether a
  queued one can still be cancelled; \<open>re_environ\<close> are the environment variables;
  \<open>re_load_plan\<close> reads the JSON of a persisted plan into its record (pydantic),
  \<open>re_plan_hash\<close> is the SHA-256 of its canonical JSON and \<open>re_plan_error\<close> the text of a
  validation error.
\<close>

record runner_env =
  re_execute :: "task \<Rightarrow> run \<Rightarrow> workflow_step \<Rightarrow> agent_definition \<Rightarrow> jobj \<Rightarrow> agent_step_output io"
  re_parallel :: "task \<Rightarrow> workflow_step list \<Rightarrow> bool"
  re_schedule :: "nat list \<Rightarrow> nat"
  re_cancels :: "nat \<Rightarrow> bool"
  re_environ :: "string \<Rightarrow> string option"
  re_load_plan :: "jobj \<Rightarrow> execution_plan option"
  re_plan_hash :: "execution_plan \<Rightarrow> string"
  re_plan_error :: "plan_error \<Rightarrow> string"

section \<open>Dictionaries\<close>

text \<open>\<open>d.setdefault(k, []).append(v)\<close>, and a dictionary built by successive assignments.\<close>

definition dict_list :: "('k \<times> 'v list) list \<Rightarrow> 'k \<Rightarrow> 'v list" where
  "dict_list d k = (case map_of d k of None \<Rightarrow> [] | Some xs \<Rightarrow> xs)"

definition dict_append :: "'k \<Rightarrow> 'v \<Rightarrow> ('k \<times> 'v list) list \<Rightarrow> ('k \<times> 'v list) list" where
  "dict_append k v d = jput k (dict_list d k @ [v]) d"

definition dict_of :: "('v \<Rightarrow> 'k) \<Rightarrow> 'v list \<Rightarrow> ('k \<times> 'v) list" where
  "dict_of key xs = fold (\<lambda>x d. jput (key x) x d) xs []"

definition dict_group :: "('v \<Rightarrow> 'k) \<Rightarrow> 'v list \<Rightarrow> ('k \<times> 'v list) list" where
  "dict_group key xs = fold (\<lambda>x d. dict_append (key x) x d) xs []"

text \<open>\<open>d[k]\<close> raises \<open>KeyError\<close> when the key is missing.\<close>

definition dict_get :: "(string \<times> 'v) list \<Rightarrow> string \<Rightarrow> ('s, 'v) act" where
  "dict_get d k = (case map_of d k of None \<Rightarrow> raiseM (OtherError k) | Some v \<Rightarrow> returnM v)"

section \<open>Starting and pausing\<close>

definition start_run :: "run \<Rightarrow> bool \<Rightarrow> run io" where
  "start_run run resume_waiting =
    bindM (get_run (r_id run)) (\<lambda>existing. case existing of
      None \<Rightarrow>
        thenM (guardM (\<not> resume_waiting) (WorkflowRunnerError (''Run not found: '' @ r_id run)))
        (bindM utc_now (\<lambda>now.
         let started = run\<lparr>r_status := Run_RUNNING, r_current_step := None, r_started_at := Some now,
               r_finished_at := None, r_final_artifact_id := None\<rparr> in
         thenM (create_run started) (returnM started)))
    | Some e \<Rightarrow>
        if resume_waiting \<and> r_status e = Run_WAITING then
          let resumed = e\<lparr>r_status := Run_RUNNING, r_finished_at := None\<rparr> in
          thenM (update_run resumed) (returnM resumed)
        else
          thenM (guardM (r_status e = Run_QUEUED)
            (WorkflowRunnerError (''Run is not queued and cannot be started: '' @ r_id e)))
          (bindM (case r_started_at e of Some t \<Rightarrow> returnM t | None \<Rightarrow> utc_now) (\<lambda>start_time.
           let started = e\<lparr>r_status := Run_RUNNING, r_current_step := None, r_started_at := Some start_time,
                 r_finished_at := None, r_final_artifact_id := None\<rparr> in
           thenM (update_run started) (returnM started))))"

definition task_for_run :: "run \<Rightarrow> task io" where
  "task_for_run run = bindM (get_task (r_task_id run)) (\<lambda>t. case t of
     None \<Rightarrow> raiseM (WorkflowRunnerError (''Task not found for run: '' @ r_task_id run))
   | Some x \<Rightarrow> returnM x)"

definition wait_run :: "run \<Rightarrow> string \<Rightarrow> run io" where
  "wait_run run current_step =
    (let waiting = run\<lparr>r_status := Run_WAITING, r_current_step := Some current_step,
           r_finished_at := None\<rparr> in
    thenM (update_run waiting)
    (thenM (record_trace (r_id run) RUNTIME_EVENT
       [(''action'', JStr ''run_waiting_for_local_approval''), (''step_name'', JStr current_step),
        (''external_runtime_started'', JBool False)] None None)
    (returnM waiting)))"

text \<open>
  \<open>_terminalize_open_runtime_state\<close> repeats the method of \<open>RuntimeController\<close> word by word.
\<close>

definition runner_terminalize_open_state :: "string \<Rightarrow> string \<Rightarrow> unit io" where
  "runner_terminalize_open_state run_id reason = terminalize_open_runtime_state run_id reason"

section \<open>Agents\<close>

text \<open>Equality of two agent definitions: the order of the keys of a dictionary does not count.\<close>

definition agent_eq :: "agent_definition \<Rightarrow> agent_definition \<Rightarrow> bool" where
  "agent_eq a b \<longleftrightarrow> jobj_eq (a_model_settings a) (a_model_settings b)
     \<and> jobj_eq (a_runtime_limits a) (a_runtime_limits b)
     \<and> a\<lparr>a_model_settings := [], a_runtime_limits := []\<rparr>
       = b\<lparr>a_model_settings := [], a_runtime_limits := []\<rparr>"

definition agent_identity :: "agent_definition option \<Rightarrow> string" where
  "agent_identity x = (case x of None \<Rightarrow> ''none''
     | Some a \<Rightarrow> a_id a @ ''/'' @ a_pack_name a @ ''/'' @ a_role a)"

definition registry_lookup :: "string \<Rightarrow> string \<Rightarrow> agent_definition option io" where
  "registry_lookup pack_name role =
     bindM (getsM w_registry) (\<lambda>g. liftE (get_agent_for_role pack_name role g))"

definition register_in_world :: "agent_definition \<Rightarrow> unit io" where
  "register_in_world a = bindM (getsM w_registry) (\<lambda>g. bindM (liftE (register_agent a g))
     (\<lambda>g'. modifyM (\<lambda>w. w\<lparr>w_registry := g'\<rparr>)))"

definition register_pack_agent :: "agent_definition \<Rightarrow> unit io" where
  "register_pack_agent a =
    bindM (getsM (\<lambda>w. get_agent (a_id a) (w_registry w))) (\<lambda>by_id.
    bindM (registry_lookup (a_pack_name a) (a_role a)) (\<lambda>by_role.
    thenM (if by_id = None \<and> by_role = None then register_in_world a
           else guardM (opt_ex (\<lambda>x. agent_eq x a) by_id \<and> opt_ex (\<lambda>x. agent_eq x a) by_role)
             (WorkflowRunnerError (''Agent registry conflict for '' @ a_pack_name a @ ''/'' @ a_role a)))
    (bindM (get_agent_definition (a_id a)) (\<lambda>stored.
     bindM (get_agent_definition_by_pack_role (a_pack_name a) (a_role a)) (\<lambda>stored_by_role.
     catchM (thenM (upsert_agent_definition a) (returnM ()))
       (\<lambda>_. raiseM (WorkflowRunnerError (''Stored agent definition conflict: incoming=''
          @ agent_identity (Some a) @ '', stored_by_id='' @ agent_identity stored
          @ '', stored_by_role='' @ agent_identity stored_by_role))))))))"

definition runner_register_pack_agents :: "workflow_pack \<Rightarrow> unit io" where
  "runner_register_pack_agents pack = forM (wp_agents pack) register_pack_agent"

definition agent_for_step :: "workflow_pack \<Rightarrow> workflow_step \<Rightarrow> agent_definition io" where
  "agent_for_step pack s = bindM (registry_lookup (wp_name pack) (ws_agent_role s)) (\<lambda>a. case a of
     None \<Rightarrow> raiseM (WorkflowRunnerError
       (''No agent registered for step '' @ ws_name s @ '': '' @ ws_agent_role s))
   | Some x \<Rightarrow> returnM x)"

section \<open>Attempts\<close>

definition step_input_context :: "workflow_step \<Rightarrow> jobj" where
  "step_input_context s =
     [(''required_inputs'', jstr_list (ws_required_inputs s)),
      (''required_artifacts'', jstr_list (ws_required_artifacts s)),
      (''allowed_tools'', jstr_list (ws_allowed_tools s)), (''depends_on'', jstr_list (ws_depends_on s)),
      (''phase'', jopt_str (ws_phase s)),
      (''coordination_role'', jopt (JStr \<circ> coordination_role_value) (ws_coordination_role s)),
      (''controller_step'', jopt_str (ws_controller_step s)),
      (''return_contract'', jopt return_contract_json (ws_return_contract s)),
      (''runtime'', JStr (step_runtime_value (ws_runtime s))),
      (''session_policy'', session_policy_json (ws_session_policy s)),
      (''requires_eval_pass'', JBool (ws_requires_eval_pass s)),
      (''required_eval_checks'', jstr_list (ws_required_eval_checks s)),
      (''requires_artifact'', jstr_list (ws_requires_artifact s)),
      (''ownership'', ownership_json s)]"

definition start_agent_run ::
  "run \<Rightarrow> agent_definition \<Rightarrow> workflow_step \<Rightarrow> agent_run_status \<Rightarrow> agent_run io" where
  "start_agent_run run agent s status = bindM new_id (\<lambda>i. bindM utc_now (\<lambda>now.
     create_agent_run \<lparr>ar_id = i, ar_run_id = r_id run, ar_agent_id = a_id agent,
       ar_step_name = ws_name s, ar_input_context = step_input_context s, ar_status = status,
       ar_started_at = Some now, ar_finished_at = None, ar_output_summary = None\<rparr>))"

definition activate_agent_run :: "agent_run \<Rightarrow> agent_run io" where
  "activate_agent_run x = (let activated = x\<lparr>ar_status := AgentRun_RUNNING\<rparr> in
     thenM (update_agent_run activated) (returnM activated))"

definition agent_run_for_step :: "string \<Rightarrow> string \<Rightarrow> agent_run option io" where
  "agent_run_for_step run_id step_name = bindM (list_agent_runs_for_run run_id) (\<lambda>xs.
     returnM (last_opt (filter (\<lambda>x. ar_step_name x = step_name) xs)))"

definition agent_session_for_agent_run :: "string \<Rightarrow> string \<Rightarrow> agent_session option io" where
  "agent_session_for_agent_run run_id agent_run_id = bindM (list_agent_sessions_for_run run_id) (\<lambda>xs.
     returnM (last_opt (filter (\<lambda>x. s_agent_run_id x = agent_run_id) xs)))"

definition runtime_job_for_agent_run :: "string \<Rightarrow> string \<Rightarrow> runtime_job option io" where
  "runtime_job_for_agent_run run_id agent_run_id = bindM (list_runtime_jobs_for_run run_id) (\<lambda>xs.
     returnM (last_opt (filter (\<lambda>x. j_agent_run_id x = agent_run_id) xs)))"

section \<open>Sessions and jobs\<close>

definition new_session ::
  "run \<Rightarrow> agent_run \<Rightarrow> agent_definition \<Rightarrow> workflow_step \<Rightarrow> timestamp \<Rightarrow> agent_session io" where
  "new_session run agent_run agent s now = bindM new_id (\<lambda>i. returnM
     \<lparr>s_id = i, s_run_id = r_id run, s_agent_run_id = ar_id agent_run, s_agent_id = a_id agent,
      s_step_name = ws_name s, s_runtime = step_runtime_value (ws_runtime s),
      s_status = (if sp_requires_approval (ws_session_policy s) then Session_WAITING_APPROVAL
                  else Session_ACTIVE),
      s_resume_strategy = resume_strategy_value (sp_resume_strategy (ws_session_policy s)),
      s_requires_approval = sp_requires_approval (ws_session_policy s), s_external_ref = None,
      s_created_at = now, s_updated_at = now,
      s_metadata = [(''phase'', jopt_str (ws_phase s)),
        (''coordination_role'', jopt (JStr \<circ> coordination_role_value) (ws_coordination_role s)),
        (''persistent'', JBool (sp_persistent (ws_session_policy s))), (''local_only'', JBool True),
        (''external_runtime_started'', JBool False)]\<rparr>)"

definition new_runtime_job ::
  "run \<Rightarrow> agent_run \<Rightarrow> agent_session \<Rightarrow> workflow_step \<Rightarrow> timestamp \<Rightarrow> runtime_job io" where
  "new_runtime_job run agent_run session s now = bindM new_id (\<lambda>i. returnM
     \<lparr>j_id = i, j_run_id = r_id run, j_agent_run_id = ar_id agent_run,
      j_agent_session_id = Some (s_id session), j_step_name = ws_name s,
      j_runtime = step_runtime_value (ws_runtime s),
      j_status = (if sp_requires_approval (ws_session_policy s) then Job_APPROVAL_REQUIRED
                  else Job_RECORDED),
      j_approval_required = sp_requires_approval (ws_session_policy s), j_approved_at = None,
      j_external_ref = None, j_created_at = now, j_updated_at = now,
      j_message = (if sp_requires_approval (ws_session_policy s)
        then ''External ACP execution is not launched in Phase 23; approval intent is recorded locally.''
        else ''Persistent runtime intent recorded locally; no live child session is launched in Phase 23.''),
      j_metadata = [(''resume_strategy'',
          JStr (resume_strategy_value (sp_resume_strategy (ws_session_policy s)))),
        (''local_only'', JBool True), (''external_runtime_started'', JBool False)]\<rparr>)"

text \<open>The event that records or completes a runtime job.\<close>

definition job_event :: "string \<Rightarrow> runtime_job \<Rightarrow> unit io" where
  "job_event action j = thenM (record_trace (j_run_id j) RUNTIME_EVENT
     [(''action'', JStr action), (''runtime'', JStr (j_runtime j)),
      (''agent_session_id'', jopt_str (j_agent_session_id j)), (''runtime_job_id'', JStr (j_id j)),
      (''job_status'', JStr (runtime_job_status_value (j_status j))),
      (''approval_required'', JBool (j_approval_required j)),
      (''external_runtime_started'', JBool False)] (Some (j_agent_run_id j)) None) (returnM ())"

definition record_runtime_state_if_needed ::
  "run \<Rightarrow> agent_run \<Rightarrow> agent_definition \<Rightarrow> workflow_step
    \<Rightarrow> (agent_session option \<times> runtime_job option) io" where
  "record_runtime_state_if_needed run agent_run agent s =
    (let policy = ws_session_policy s in
     if ws_runtime s = Runtime_model \<and> \<not> sp_persistent policy \<and> \<not> sp_requires_approval policy
     then returnM (None, None)
     else
       bindM utc_now (\<lambda>now.
       bindM (new_session run agent_run agent s now) (\<lambda>s0.
       bindM (create_agent_session s0) (\<lambda>session.
       bindM (new_runtime_job run agent_run session s now) (\<lambda>j0.
       bindM (create_runtime_job j0) (\<lambda>job.
       thenM (job_event ''runtime_recorded'' job)
       (returnM (Some session, Some job))))))))"

definition complete_agent_session :: "agent_session \<Rightarrow> agent_session io" where
  "complete_agent_session s =
    (if s_status s = Session_WAITING_APPROVAL then returnM s
     else bindM utc_now (\<lambda>now.
       let completed = s\<lparr>s_status := Session_COMPLETED, s_updated_at := now\<rparr> in
       thenM (update_agent_session completed) (returnM completed)))"

definition activate_approved_agent_session :: "agent_session \<Rightarrow> agent_session io" where
  "activate_approved_agent_session s = bindM utc_now (\<lambda>now.
     let active = s\<lparr>s_status := Session_ACTIVE, s_updated_at := now,
           s_metadata := intent_metadata ''approved'' (s_metadata s)\<rparr> in
     thenM (update_agent_session active) (returnM active))"

definition complete_runtime_job :: "runtime_job \<Rightarrow> runtime_job io" where
  "complete_runtime_job j =
    (if j_status j = Job_APPROVAL_REQUIRED then returnM j
     else bindM utc_now (\<lambda>now.
       let completed = j\<lparr>j_status := Job_COMPLETED, j_updated_at := now\<rparr> in
       thenM (update_runtime_job completed)
       (thenM (job_event ''runtime_job_completed'' completed) (returnM completed))))"

definition pending_approval_step_names :: "string \<Rightarrow> string list io" where
  "pending_approval_step_names run_id = bindM (list_runtime_jobs_for_run run_id) (\<lambda>jobs.
     returnM (map j_step_name (filter (\<lambda>j. j_status j = Job_APPROVAL_REQUIRED) jobs)))"

section \<open>What completed steps left\<close>

definition completed_attempts :: "agent_run list \<Rightarrow> agent_run list" where
  "completed_attempts xs = filter (\<lambda>x. ar_status x = AgentRun_COMPLETED) xs"

text \<open>Only the handoffs of the latest completed attempt of their source step count.\<close>

definition current_handoff :: "(string \<times> agent_run) list \<Rightarrow> handoff \<Rightarrow> bool io" where
  "current_handoff latest h = bindM (get_agent_run (h_from_agent_run_id h)) (\<lambda>source.
     returnM (opt_ex (\<lambda>s. ar_status s = AgentRun_COMPLETED
       \<and> opt_ex (\<lambda>l. ar_id l = ar_id s) (map_of latest (ar_step_name s))) source))"

primrec collect_handoffs ::
  "(string \<times> agent_run) list \<Rightarrow> (string \<times> handoff list) list \<Rightarrow> handoff list
    \<Rightarrow> (string \<times> handoff list) list io" where
  "collect_handoffs latest by_target [] = returnM by_target"
| "collect_handoffs latest by_target (h # hs) =
    bindM (current_handoff latest h) (\<lambda>current.
    collect_handoffs latest (if current then dict_append (h_next_objective h) h by_target else by_target) hs)"

definition handoffs_by_target_step :: "string \<Rightarrow> (string \<times> handoff list) list io" where
  "handoffs_by_target_step run_id =
    bindM (list_agent_runs_for_run run_id) (\<lambda>agent_runs.
    bindM (list_handoffs_for_run run_id) (\<lambda>handoffs.
    collect_handoffs (dict_of ar_step_name (completed_attempts agent_runs)) [] handoffs))"

definition completed_step_state ::
  "string \<Rightarrow> workflow_step list \<Rightarrow> ((string \<times> agent_run) list \<times> (string \<times> artifact list) list) io" where
  "completed_step_state run_id ordered =
    bindM (list_agent_runs_for_run run_id) (\<lambda>agent_runs.
    bindM (list_artifacts_for_run run_id) (\<lambda>artifacts.
    let completed = dict_of ar_step_name (filter (\<lambda>x. ar_step_name x \<in> set (map ws_name ordered))
                      (completed_attempts agent_runs));
        by_agent_run = dict_group art_agent_run_id artifacts in
    returnM (completed, map (\<lambda>(n, x). (n, dict_list by_agent_run (ar_id x))) completed)))"

definition last_ordered_agent_run ::
  "workflow_step list \<Rightarrow> (string \<times> agent_run) list \<Rightarrow> agent_run option" where
  "last_ordered_agent_run ordered by_step =
     last_opt (List.map_filter (\<lambda>s. map_of by_step (ws_name s)) ordered)"

section \<open>Handoffs between steps\<close>

definition dependency_error :: "workflow_step \<Rightarrow> string \<Rightarrow> string \<Rightarrow> string \<Rightarrow> exn" where
  "dependency_error consumer middle dependency_name rest = WorkflowRunnerError
     (''Step '' @ ws_name consumer @ middle @ dependency_name @ rest)"

definition validated_dependency_handoff ::
  "string \<Rightarrow> string \<Rightarrow> workflow_step \<Rightarrow> agent_run \<Rightarrow> workflow_step \<Rightarrow> agent_definition \<Rightarrow> handoff list
    \<Rightarrow> handoff io" where
  "validated_dependency_handoff run_id dependency_name dependency_step attempt consumer agent handoffs =
    (case filter (\<lambda>h. h_from_agent_run_id h = ar_id attempt \<and> h_next_objective h = ws_name consumer)
            handoffs of
       [handoff] \<Rightarrow>
         thenM (guardM (h_run_id handoff = run_id \<and> h_to_agent_id handoff = a_id agent)
           (dependency_error consumer '' handoff from '' dependency_name '' targets a different run or agent.''))
         (thenM (guardM (distinct (h_artifact_refs handoff))
           (dependency_error consumer '' handoff from '' dependency_name '' has duplicate artifact references.''))
         (bindM (mapM (h_artifact_refs handoff) get_artifact) (\<lambda>referenced.
          thenM (guardM (list_all (opt_ex (\<lambda>a. art_run_id a = run_id \<and> art_agent_run_id a = ar_id attempt))
              referenced)
            (dependency_error consumer '' handoff artifacts do not belong to the current '' dependency_name
              '' attempt.''))
          (let produced_type = ws_produces_artifact_type dependency_step;
               produced = filter (\<lambda>a. Some (artifact_type_value (art_type a)) = produced_type)
                            (List.map_filter id referenced) in
           thenM (guardM (produced_type = None \<or> produced \<noteq> [])
             (dependency_error consumer '' handoff from '' dependency_name
               ('' must reference a '' @ (case produced_type of None \<Rightarrow> [] | Some v \<Rightarrow> v) @ '' artifact.'')))
           (thenM (guardM (\<not> (produced_type = Some (artifact_type_value PATCH)
                \<and> artifact_type_value PATCH \<in> set (ws_required_artifacts consumer)
                \<and> length produced \<noteq> 1))
             (dependency_error consumer '' handoff from '' dependency_name
               '' requires exactly one patch artifact.''))
           (returnM handoff))))))
     | _ \<Rightarrow> raiseM (dependency_error consumer '' requires exactly one current handoff from ''
         dependency_name ''.''))"

definition lineage_entry :: "handoff \<Rightarrow> jval" where
  "lineage_entry h = JObj [(''handoff_id'', JStr (h_id h)),
     (''from_agent_run_id'', JStr (h_from_agent_run_id h))]"

definition current_attempt :: "string \<Rightarrow> string \<Rightarrow> agent_run \<Rightarrow> bool" where
  "current_attempt run_id dependency_name x \<longleftrightarrow> ar_run_id x = run_id
     \<and> ar_step_name x = dependency_name \<and> ar_status x = AgentRun_COMPLETED"

primrec dependency_handoffs ::
  "string \<Rightarrow> (string \<times> workflow_step) list \<Rightarrow> workflow_step \<Rightarrow> agent_definition \<Rightarrow> handoff list
    \<Rightarrow> (string \<times> agent_run) list \<Rightarrow> string list \<Rightarrow> (string \<times> handoff) list io" where
  "dependency_handoffs run_id steps_by_name s agent candidates by_step [] = returnM []"
| "dependency_handoffs run_id steps_by_name s agent candidates by_step (d # ds) =
    (case map_of by_step d of
       Some attempt \<Rightarrow>
         thenM (guardM (current_attempt run_id d attempt)
           (dependency_error s '' is missing the completed dependency attempt: '' d []))
         (bindM (dict_get steps_by_name d) (\<lambda>dependency_step.
          bindM (validated_dependency_handoff run_id d dependency_step attempt s agent candidates) (\<lambda>h.
          bindM (dependency_handoffs run_id steps_by_name s agent candidates by_step ds) (\<lambda>rest.
          returnM ((d, h) # rest)))))
     | None \<Rightarrow> raiseM (dependency_error s '' is missing the completed dependency attempt: '' d []))"

text \<open>
  \<open>_dependency_context_for_step\<close>: the handoffs to pass on and the lineage to record. Without
  any declared dependency the previous step of the order hands over, and no lineage is recorded.
\<close>

definition dependency_context_for_step ::
  "string \<Rightarrow> workflow_pack \<Rightarrow> workflow_step \<Rightarrow> agent_definition \<Rightarrow> handoff list
    \<Rightarrow> (string \<times> agent_run) list \<Rightarrow> (handoff list \<times> jobj) io" where
  "dependency_context_for_step run_id pack s agent candidates by_step =
    (if ws_depends_on s = [] \<and> \<not> has_explicit_dependencies pack then
       bindM (liftE (ordered_steps pack)) (\<lambda>ordered.
       let step_index = index_of (ws_name s) (map ws_name ordered) in
       if step_index \<ge> length ordered then raiseM (OtherError ''StopIteration'')
       else if step_index = 0 then returnM ([], [])
       else let dependency_step = ordered ! (step_index - 1) in
         (case map_of by_step (ws_name dependency_step) of
            None \<Rightarrow> raiseM (dependency_error s '' is missing the completed previous attempt: ''
                      (ws_name dependency_step) [])
          | Some attempt \<Rightarrow>
              bindM (validated_dependency_handoff run_id (ws_name dependency_step) dependency_step
                       attempt s agent candidates) (\<lambda>h. returnM ([h], []))))
     else
       bindM (dependency_handoffs run_id (dict_of ws_name (wp_steps pack)) s agent candidates by_step
                (ws_depends_on s)) (\<lambda>found.
       returnM (map snd found, map (\<lambda>(d, h). (d, lineage_entry h)) (map snd (dict_of fst found)))))"

section \<open>Recovery checkpoints\<close>

text \<open>
  What \<open>_invalidate_incomplete_checkpoints\<close> reads once before its loop; \<open>cp_agents\<close> are the
  agents by role, \<open>cp_latest\<close> the latest completed attempts by step.
\<close>

record checkpoint_view =
  cp_run_id :: string
  cp_pack :: workflow_pack
  cp_ordered :: "workflow_step list"
  cp_steps :: "(string \<times> workflow_step) list"
  cp_agents :: "(string \<times> agent_definition) list"
  cp_handoffs :: "handoff list"
  cp_eval_events :: "trace_event list"
  cp_artifacts :: "(string \<times> artifact list) list"
  cp_latest :: "(string \<times> agent_run) list"

definition payload_is :: "trace_event \<Rightarrow> string \<Rightarrow> jval \<Rightarrow> bool" where
  "payload_is e key v \<longleftrightarrow> jget (ev_payload e) key = v"

text \<open>An artifact of the attempt that does not read back.\<close>

definition artifact_reasons :: "artifact list \<Rightarrow> string list io" where
  "artifact_reasons artifacts = bindM (mapM artifacts (\<lambda>a.
     catch_if is_artifact_store_error
       (thenM (read_text_excerpt a 0) (returnM []))
       (\<lambda>_. returnM [''checkpoint artifact content is missing, invalid, or does not match durable metadata: ''
          @ art_id a]))) (\<lambda>rs. returnM (concat rs))"

definition attempt_lineage :: "agent_run \<Rightarrow> jobj option" where
  "attempt_lineage x = (case jget (ar_input_context x) ''dependency_lineage'' of
     JObj d \<Rightarrow> Some d | _ \<Rightarrow> None)"

definition lineage_reasons :: "workflow_step \<Rightarrow> agent_run \<Rightarrow> string list" where
  "lineage_reasons s x =
    (if ws_depends_on s = [] then
       (if ''dependency_lineage'' \<in> set (map fst (ar_input_context x))
        then [''step without dependencies must not declare dependency lineage''] else [])
     else if \<not> opt_ex (\<lambda>d. set (map fst d) = set (ws_depends_on s)) (attempt_lineage x)
     then [''checkpoint dependency lineage keys do not exactly match depends_on''] else [])"

definition lineage_matches :: "jobj option \<Rightarrow> string \<Rightarrow> handoff \<Rightarrow> agent_run \<Rightarrow> bool" where
  "lineage_matches lineage d h attempt \<longleftrightarrow> opt_ex (\<lambda>l. case jget l d of
     JObj entry \<Rightarrow> jget entry ''handoff_id'' = JStr (h_id h)
       \<and> jget entry ''from_agent_run_id'' = JStr (ar_id attempt)
   | _ \<Rightarrow> False) lineage"

definition consumer_agent :: "checkpoint_view \<Rightarrow> workflow_step \<Rightarrow> agent_definition io" where
  "consumer_agent v s = dict_get (cp_agents v) (ws_agent_role s)"

definition dependency_reasons ::
  "checkpoint_view \<Rightarrow> string list \<Rightarrow> workflow_step \<Rightarrow> agent_run \<Rightarrow> string \<Rightarrow> string list io" where
  "dependency_reasons v invalidated s x d = (case map_of (cp_latest v) d of
     Some attempt \<Rightarrow>
       if d \<in> set invalidated
       then returnM [''completed dependency attempt is missing for: '' @ d]
       else catch_if is_runner_error
         (bindM (dict_get (cp_steps v) d) (\<lambda>dependency_step.
          bindM (consumer_agent v s) (\<lambda>agent.
          bindM (validated_dependency_handoff (cp_run_id v) d dependency_step attempt s agent
                   (cp_handoffs v)) (\<lambda>h.
          returnM (if lineage_matches (attempt_lineage x) d h attempt then []
            else [''checkpoint dependency provenance does not match the current '' @ d @ '' attempt''])))))
         (\<lambda>e. returnM [exn_str e])
   | None \<Rightarrow> returnM [''completed dependency attempt is missing for: '' @ d])"

definition structural_check :: "workflow_step \<Rightarrow> string" where
  "structural_check s = ws_name s @ '':artifacts_created''"

definition pack_check_names :: "workflow_pack \<Rightarrow> string list" where
  "pack_check_names pack = map ec_name (wp_eval_checks pack)"

definition structural_events :: "workflow_pack \<Rightarrow> workflow_step \<Rightarrow> trace_event list \<Rightarrow> trace_event list" where
  "structural_events pack s events = filter (\<lambda>e.
     payload_is e ''check_name'' (JStr (structural_check s))
   \<and> payload_is e ''status'' (JStr (eval_status_value Eval_PASS))
   \<and> (payload_is e ''scope'' (JStr ''step_structural'')
      \<or> (payload_is e ''scope'' JNull \<and> structural_check s \<notin> set (pack_check_names pack)))) events"

definition gate_events :: "workflow_pack \<Rightarrow> workflow_step \<Rightarrow> trace_event list \<Rightarrow> trace_event list" where
  "gate_events pack s events = filter (\<lambda>e.
     \<not> payload_is e ''check_name'' (JStr (structural_check s))
   \<and> \<not> payload_is e ''scope'' (JStr ''pack'')
   \<and> \<not> (payload_is e ''scope'' JNull
        \<and> jget (ev_payload e) ''check_name'' \<in> JStr ` set (pack_check_names pack))) events"

definition required_check_reasons :: "trace_event list \<Rightarrow> string \<Rightarrow> string list" where
  "required_check_reasons events check =
    (let found = filter (\<lambda>e. payload_is e ''check_name'' (JStr check)
                   \<and> payload_is e ''scope'' (JStr ''step_executor'')) events in
     if length found \<noteq> 1 then [''required evaluation is missing or ambiguous: '' @ check]
     else if \<not> payload_is (hd found) ''status'' (JStr (eval_status_value Eval_PASS))
     then [''required evaluation did not pass: '' @ check] else [])"

definition evaluation_reasons :: "workflow_pack \<Rightarrow> workflow_step \<Rightarrow> trace_event list \<Rightarrow> string list" where
  "evaluation_reasons pack s events =
    (let gates = gate_events pack s events in
     (if length (structural_events pack s events) \<noteq> 1
      then [''passing structural evaluation is missing or ambiguous''] else [])
     @ (if ws_requires_eval_pass s then
          (if gates = [] then [''required evaluation gate is missing'']
           else if \<exists>e \<in> set gates. \<not> payload_is e ''status'' (JStr (eval_status_value Eval_PASS))
           then [''required evaluation gate did not pass''] else [])
          @ concat (map (required_check_reasons events) (ws_required_eval_checks s))
        else []))"

definition outgoing_reasons :: "checkpoint_view \<Rightarrow> workflow_step \<Rightarrow> agent_run \<Rightarrow> string list io" where
  "outgoing_reasons v s x =
    (let targets = next_steps (cp_pack v) (cp_ordered v) s;
         outgoing = filter (\<lambda>h. h_from_agent_run_id h = ar_id x) (cp_handoffs v) in
     if sort (map h_next_objective outgoing) \<noteq> sort (map ws_name targets)
     then returnM [''outgoing handoffs do not exactly match the declared dependency edges'']
     else bindM (mapM targets (\<lambda>t. catch_if is_runner_error
         (bindM (consumer_agent v t) (\<lambda>agent.
          thenM (validated_dependency_handoff (cp_run_id v) (ws_name s) s x t agent outgoing)
          (returnM [])))
         (\<lambda>e. returnM [exn_str e]))) (\<lambda>rs. returnM (concat rs)))"

definition checkpoint_reasons ::
  "checkpoint_view \<Rightarrow> string list \<Rightarrow> workflow_step \<Rightarrow> agent_run \<Rightarrow> string list io" where
  "checkpoint_reasons v invalidated s x =
    bindM (artifact_reasons (dict_list (cp_artifacts v) (ar_id x))) (\<lambda>artifact.
    bindM (mapM (ws_depends_on s) (dependency_reasons v invalidated s x)) (\<lambda>dependency.
    bindM (outgoing_reasons v s x) (\<lambda>outgoing.
    returnM (artifact @ lineage_reasons s x @ concat dependency
      @ evaluation_reasons (cp_pack v) s (filter (\<lambda>e. ev_agent_run_id e = Some (ar_id x)) (cp_eval_events v))
      @ outgoing))))"

text \<open>The trace of an invalidation may fail without harm.\<close>

definition invalidate_attempt :: "string \<Rightarrow> workflow_step \<Rightarrow> string list \<Rightarrow> agent_run \<Rightarrow> unit io" where
  "invalidate_attempt run_id s reasons x =
    thenM (update_agent_run (x\<lparr>ar_status := AgentRun_CANCELLED,
      ar_output_summary := Some (''Incomplete recovery checkpoint: '' @ join ''; '' reasons @ ''.'')\<rparr>))
    (catchM (thenM (record_trace run_id RUNTIME_EVENT
       [(''action'', JStr ''incomplete_checkpoint_invalidated''), (''step_name'', JStr (ws_name s)),
        (''reasons'', jstr_list reasons)] (Some (ar_id x)) None) (returnM ()))
      (\<lambda>_. returnM ()))"

primrec invalidate_loop ::
  "checkpoint_view \<Rightarrow> agent_run list \<Rightarrow> string list \<Rightarrow> workflow_step list \<Rightarrow> unit io" where
  "invalidate_loop v agent_runs invalidated [] = returnM ()"
| "invalidate_loop v agent_runs invalidated (s # ss) =
    (case map_of (cp_latest v) (ws_name s) of
       None \<Rightarrow> invalidate_loop v agent_runs invalidated ss
     | Some x \<Rightarrow>
         bindM (checkpoint_reasons v invalidated s x) (\<lambda>reasons.
         if reasons = [] then invalidate_loop v agent_runs invalidated ss
         else thenM (forM (filter (\<lambda>c. ar_step_name c = ws_name s \<and> ar_status c = AgentRun_COMPLETED)
                             agent_runs) (invalidate_attempt (cp_run_id v) s reasons))
           (invalidate_loop v agent_runs (ws_name s # invalidated) ss)))"

definition invalidate_incomplete_checkpoints :: "string \<Rightarrow> workflow_pack \<Rightarrow> unit io" where
  "invalidate_incomplete_checkpoints run_id pack =
    bindM (liftE (ordered_steps pack)) (\<lambda>ordered.
    bindM (list_handoffs_for_run run_id) (\<lambda>handoffs.
    bindM (list_trace_events_for_run run_id) (\<lambda>events.
    bindM (list_agent_runs_for_run run_id) (\<lambda>agent_runs.
    bindM (list_artifacts_for_run run_id) (\<lambda>artifacts.
    invalidate_loop
      \<lparr>cp_run_id = run_id, cp_pack = pack, cp_ordered = ordered, cp_steps = dict_of ws_name ordered,
       cp_agents = dict_of a_role (wp_agents pack), cp_handoffs = handoffs,
       cp_eval_events = filter (\<lambda>e. ev_event_type e = EVAL_RESULT) events,
       cp_artifacts = dict_group art_agent_run_id artifacts,
       cp_latest = dict_of ar_step_name (filter (\<lambda>x. ar_step_name x \<in> set (map ws_name ordered))
                     (completed_attempts agent_runs))\<rparr>
      agent_runs [] ordered)))))"

section \<open>Failing and requeueing\<close>

definition safe_error_message :: "exn \<Rightarrow> string io" where
  "safe_error_message e = (case e of
     ModelRuntimeError _ _ \<Rightarrow> returnM ''Model runtime call failed. See structured error metadata.''
   | _ \<Rightarrow> getsM (\<lambda>w. w_redact w (exn_str e)))"

definition error_evidence :: "exn \<Rightarrow> jobj" where
  "error_evidence e = (case e of ModelRuntimeError _ payload \<Rightarrow> payload | _ \<Rightarrow> [])"

text \<open>\<open>d.update(e)\<close>.\<close>

definition dict_update :: "('k \<times> 'v) list \<Rightarrow> ('k \<times> 'v) list \<Rightarrow> ('k \<times> 'v) list" where
  "dict_update d e = fold (\<lambda>(k, v). jput k v) e d"

definition fail_job :: "exn \<Rightarrow> runtime_job option \<Rightarrow> unit io" where
  "fail_job e j = (case j of None \<Rightarrow> returnM ()
     | Some x \<Rightarrow> whenM (\<not> terminal_job x) (bindM utc_now (\<lambda>now. bindM (safe_error_message e) (\<lambda>m.
         thenM (update_runtime_job (x\<lparr>j_status := Job_FAILED, j_updated_at := now, j_message := m\<rparr>))
         (returnM ())))))"

definition fail_session :: "agent_session option \<Rightarrow> unit io" where
  "fail_session s = (case s of None \<Rightarrow> returnM ()
     | Some x \<Rightarrow> whenM (\<not> terminal_session x) (bindM utc_now (\<lambda>now.
         thenM (update_agent_session (x\<lparr>s_status := Session_FAILED, s_updated_at := now\<rparr>))
         (returnM ()))))"

definition fail_agent_run :: "agent_run option \<Rightarrow> unit io" where
  "fail_agent_run a = (case a of None \<Rightarrow> returnM ()
     | Some x \<Rightarrow> whenM (\<not> terminal_agent_run x) (bindM utc_now (\<lambda>now.
         thenM (update_agent_run (x\<lparr>ar_status := AgentRun_FAILED, ar_finished_at := Some now\<rparr>))
         (returnM ()))))"

definition fail_run ::
  "run \<Rightarrow> agent_run option \<Rightarrow> workflow_step option \<Rightarrow> agent_definition option \<Rightarrow> exn
    \<Rightarrow> agent_session option \<Rightarrow> runtime_job option \<Rightarrow> run io" where
  "fail_run run agent_run step agent e session job =
    thenM (fail_job e job)
    (thenM (fail_session session)
    (thenM (fail_agent_run agent_run)
    (bindM utc_now (\<lambda>now.
     let failed = run\<lparr>r_status := Run_FAILED, r_finished_at := Some now\<rparr> in
     thenM (update_run failed)
     (bindM (safe_error_message e) (\<lambda>m.
      thenM (record_trace (r_id run) ERROR
        (dict_update [(''step_name'', jopt (JStr \<circ> ws_name) step),
           (''agent_id'', jopt (JStr \<circ> a_id) agent), (''error_type'', JStr (exn_class e)),
           (''message'', JStr m)] (error_evidence e)) (map_option ar_id agent_run) None)
      (returnM failed)))))))"

definition requeue_interrupted_run :: "string \<Rightarrow> workflow_pack option \<Rightarrow> run io" where
  "requeue_interrupted_run run_id pack =
    bindM (get_run run_id) (\<lambda>found. case found of
      None \<Rightarrow> raiseM (WorkflowRunnerError (''Run not found: '' @ run_id))
    | Some run \<Rightarrow>
        thenM (guardM (r_status run = Run_RUNNING)
          (WorkflowRunnerError (''Run is not interrupted and cannot be requeued: '' @ r_id run)))
        (thenM (case pack of None \<Rightarrow> returnM ()
                | Some p \<Rightarrow> invalidate_incomplete_checkpoints (r_id run) p)
        (thenM (runner_terminalize_open_state (r_id run) ''worker_process_interrupted'')
        (let requeued = run\<lparr>r_status := Run_QUEUED, r_finished_at := None\<rparr> in
         thenM (update_run requeued)
         (bindM (list_agent_runs_for_run (r_id run)) (\<lambda>xs.
          thenM (record_trace (r_id run) RUNTIME_EVENT
            [(''action'', JStr ''interrupted_run_requeued''),
             (''last_completed_step_count'', JInt (int (length (completed_attempts xs))))] None None)
          (returnM requeued)))))))"

end
