(* ===== verification/Model_Trace.thy ===== *)
theory Model_Trace imports Step_Gates begin

text \<open>
  What the runner traces of a model call: the reasoning effort that
  \<open>backend/app/core/model_runtime.py\<close> sends, maps or ignores for a provider and model, and the
  two events of \<open>_record_model_runtime_trace\<close> in \<open>core/runner.py\<close>. \<open>environ\<close> are the
  environment variables.
\<close>

section \<open>Which models take a reasoning effort\<close>

definition REAL_MODEL_PROVIDERS :: "string list" where
  "REAL_MODEL_PROVIDERS = [''openai'', ''gpt_relay'', ''deepseek'', ''litellm_proxy'']"

definition default_reasoning_effort_for_model :: "string \<Rightarrow> string option" where
  "default_reasoning_effort_for_model provider =
     (if provider \<in> set REAL_MODEL_PROVIDERS then Some ''xhigh'' else None)"

definition is_litellm_gpt_reasoning_model :: "string \<Rightarrow> bool" where
  "is_litellm_gpt_reasoning_model model \<longleftrightarrow>
     strip (lower model) \<in> {''gpt5.5'', ''gpt5.6-sol'', ''gpt-5.5'', ''gpt-5.6-sol''}"

definition starts_with :: "string \<Rightarrow> string \<Rightarrow> bool" where
  "starts_with mark v \<longleftrightarrow> take (length mark) v = mark"

definition is_known_openai_reasoning_model :: "string \<Rightarrow> bool" where
  "is_known_openai_reasoning_model model \<longleftrightarrow> (let normalized = strip (lower model) in
     normalized = ''gpt5.5'' \<or> normalized = ''gpt5.6-sol'' \<or> starts_with ''gpt-5'' normalized
     \<or> starts_with ''gpt5'' normalized \<or> starts_with ''o1'' normalized
     \<or> starts_with ''o3'' normalized \<or> starts_with ''o4'' normalized)"

definition supports_xhigh_reasoning_effort :: "(string \<Rightarrow> string option) \<Rightarrow> model_request \<Rightarrow> bool" where
  "supports_xhigh_reasoning_effort environ q =
    (if \<not> is_litellm_gpt_reasoning_model (mq_model q) then False
     else if mq_provider q = ''gpt_relay'' then environ ''TEAM_AGENT_GPT_RELAY_XHIGH_PASSTHROUGH'' = Some ''1''
     else if mq_provider q \<noteq> ''litellm_proxy'' then False
     else environ ''TEAM_AGENT_LITELLM_XHIGH_REASONING_PASSTHROUGH'' = Some ''1'')"

definition supports_openai_reasoning_effort :: "model_request \<Rightarrow> bool" where
  "supports_openai_reasoning_effort q =
    (if mq_provider q = ''openai'' then is_known_openai_reasoning_model (mq_model q)
     else mq_provider q \<in> {''gpt_relay'', ''litellm_proxy''} \<and> is_litellm_gpt_reasoning_model (mq_model q))"

record reasoning_effort_transport =
  rx_configured :: "string option"
  rx_sent :: "string option"
  rx_effort_sent :: bool
  rx_ignored :: bool
  rx_mapping :: "string option"
  rx_ignore_reason :: "string option"

definition no_transport :: reasoning_effort_transport where
  "no_transport = \<lparr>rx_configured = None, rx_sent = None, rx_effort_sent = False, rx_ignored = False,
     rx_mapping = None, rx_ignore_reason = None\<rparr>"

text \<open>\<open>request.reasoning_effort or default_reasoning_effort_for_model(...)\<close>.\<close>

definition configured_reasoning_effort :: "model_request \<Rightarrow> string option" where
  "configured_reasoning_effort q = (case mq_reasoning_effort q of
     Some e \<Rightarrow> if e = [] then default_reasoning_effort_for_model (mq_provider q) else Some e
   | None \<Rightarrow> default_reasoning_effort_for_model (mq_provider q))"

definition reasoning_effort_transport ::
  "(string \<Rightarrow> string option) \<Rightarrow> model_request \<Rightarrow> reasoning_effort_transport" where
  "reasoning_effort_transport environ q = (case configured_reasoning_effort q of
     None \<Rightarrow> no_transport
   | Some e \<Rightarrow>
       if supports_xhigh_reasoning_effort environ q then
         no_transport\<lparr>rx_configured := Some e, rx_sent := Some e, rx_effort_sent := True\<rparr>
       else if supports_openai_reasoning_effort q then
         let sent = (if e = ''xhigh'' then ''high'' else e) in
         no_transport\<lparr>rx_configured := Some e, rx_sent := Some sent, rx_effort_sent := True,
           rx_mapping := (if sent \<noteq> e then Some (e @ ''->'' @ sent) else None)\<rparr>
       else no_transport\<lparr>rx_configured := Some e, rx_ignored := True, rx_ignore_reason :=
           Some ''provider_or_model_not_known_to_support_reasoning_effort''\<rparr>)"

definition reasoning_effort_trace_payload :: "(string \<Rightarrow> string option) \<Rightarrow> model_request \<Rightarrow> jobj" where
  "reasoning_effort_trace_payload environ q =
    (let t = reasoning_effort_transport environ q in
     if rx_configured t = None then []
     else filter (\<lambda>(k, v). v \<noteq> JNull)
       [(''reasoning_effort'', jopt_str (rx_configured t)),
        (''configured_reasoning_effort'', jopt_str (rx_configured t)),
        (''sent_reasoning_effort'', jopt_str (rx_sent t)),
        (''reasoning_effort_sent'', JBool (rx_effort_sent t)),
        (''reasoning_effort_ignored'', JBool (rx_ignored t)),
        (''reasoning_effort_mapping'', jopt_str (rx_mapping t)),
        (''reasoning_effort_ignore_reason'', jopt_str (rx_ignore_reason t))])"

section \<open>The events of a model call\<close>

definition or_str :: "string option \<Rightarrow> string \<Rightarrow> string" where
  "or_str x d = (case x of Some v \<Rightarrow> if v = [] then d else v | None \<Rightarrow> d)"

text \<open>\<open>request_metadata.get("context_keys", [])\<close>.\<close>

definition context_keys_of :: "jobj \<Rightarrow> jval" where
  "context_keys_of d = (case map_of d ''context_keys'' of None \<Rightarrow> JList [] | Some v \<Rightarrow> v)"

definition model_request_payload ::
  "(string \<Rightarrow> string option) \<Rightarrow> model_request \<Rightarrow> model_response option \<Rightarrow> jobj" where
  "model_request_payload environ q response =
     [(''action'', JStr ''model_request''), (''provider'', JStr (mq_provider q)),
      (''model'', JStr (mq_model q)), (''agent_id'', jget (mq_metadata q) ''agent_id''),
      (''step_name'', jget (mq_metadata q) ''step_name'')]
     @ reasoning_effort_trace_payload environ q
     @ [(''tools_allowed'', jstr_list (mq_tools_allowed q)),
        (''adapter'', jopt_str (map_option mr_adapter response)),
        (''mocked'', (case response of None \<Rightarrow> JNull | Some r \<Rightarrow> JBool (mr_mocked r))),
        (''context_keys'', context_keys_of (mq_metadata q))]"

definition model_response_payload ::
  "(string \<Rightarrow> string option) \<Rightarrow> model_request option \<Rightarrow> model_response \<Rightarrow> jobj" where
  "model_response_payload environ request r =
    (let metadata = (case request of None \<Rightarrow> [] | Some q \<Rightarrow> mq_metadata q) in
     [(''action'', JStr ''model_response''),
      (''provider'', JStr (or_str (mr_selected_provider r) (mr_raw_provider r))),
      (''model'', (case mr_selected_model r of
          Some m \<Rightarrow> if m = [] then jopt_str (map_option mq_model request) else JStr m
        | None \<Rightarrow> jopt_str (map_option mq_model request))),
      (''agent_id'', jget metadata ''agent_id''), (''step_name'', jget metadata ''step_name'')]
     @ (case request of None \<Rightarrow> [] | Some q \<Rightarrow> reasoning_effort_trace_payload environ q)
     @ [(''adapter'', JStr (mr_adapter r)), (''mocked'', JBool (mr_mocked r)),
        (''usage'', JObj (map (\<lambda>(k, n). (k, JInt n)) (mr_usage r))),
        (''latency_ms'', JInt (mr_latency_ms r)), (''finish_reason'', JStr (mr_finish_reason r)),
        (''output_length'', JInt (int (length (mr_text r)))),
        (''continuation_count'', JInt (mr_continuation_count r)),
        (''route_receipt'', JList (map JObj (mr_route_receipt r)))])"

definition record_model_runtime_trace ::
  "(string \<Rightarrow> string option) \<Rightarrow> run \<Rightarrow> agent_run \<Rightarrow> agent_step_output \<Rightarrow> unit io" where
  "record_model_runtime_trace environ run agent_run out =
    thenM (case so_model_request out of None \<Rightarrow> returnM ()
      | Some q \<Rightarrow> thenM (record_trace (r_id run) MODEL_ACTION
          (model_request_payload environ q (so_model_response out)) (Some (ar_id agent_run)) None)
          (returnM ()))
    (case so_model_response out of None \<Rightarrow> returnM ()
      | Some r \<Rightarrow> thenM (record_trace (r_id run) MODEL_ACTION
          (model_response_payload environ (so_model_request out) r) (Some (ar_id agent_run))
          (Some (mr_latency_ms r))) (returnM ()))"

end
