(* ===== verification/Runner_Steps.thy ===== *)
theory Runner_Steps imports Runner_State Model_Trace begin

text \<open>
  One step of a run as \<open>WorkflowRunner\<close> (\<open>backend/app/core/runner.py\<close>) performs it: preparing
  its attempt and context, executing a batch of prepared steps in a thread pool or one after the
  other, and committing an output. The local variables of \<open>_run\<close> that the exception handlers
  read are part of the state, in \<open>run_locals\<close>.
\<close>

section \<open>The local variables of a run\<close>

text \<open>
  \<open>lo_run\<close> is \<open>active_run\<close>; \<open>lo_step\<close> to \<open>lo_job\<close> are \<open>current_step\<close>, \<open>current_agent\<close>,
  \<open>current_agent_run\<close>, \<open>current_agent_session\<close> and \<open>current_runtime_job\<close>; the dictionaries are in
  insertion order and \<open>lo_completed\<close> is the set \<open>completed_steps\<close>. A step function that fails
  raises an exception which carries its own variables, and the caller copies them into these; the
  model lets the step functions write them directly.
\<close>

record run_locals =
  lo_run :: run
  lo_last :: "agent_run option"
  lo_step :: "workflow_step option"
  lo_agent :: "agent_definition option"
  lo_agent_run :: "agent_run option"
  lo_session :: "agent_session option"
  lo_job :: "runtime_job option"
  lo_handoffs :: "(string \<times> handoff list) list"
  lo_by_step :: "(string \<times> agent_run) list"
  lo_artifacts :: "(string \<times> artifact list) list"
  lo_completed :: "string list"

type_synonym 'a run_act = "(world \<times> run_locals, 'a) act"

definition liftW :: "'a io \<Rightarrow> 'a run_act" where
  "liftW m = (\<lambda>(w, l). case m w of (r, w') \<Rightarrow> (r, (w', l)))"

definition getL :: "(run_locals \<Rightarrow> 'a) \<Rightarrow> 'a run_act" where
  "getL f = getsM (\<lambda>(w, l). f l)"

definition modL :: "(run_locals \<Rightarrow> run_locals) \<Rightarrow> unit run_act" where
  "modL f = modifyM (\<lambda>(w, l). (w, f l))"

record prepared_step =
  pr_step :: workflow_step
  pr_agent :: agent_definition
  pr_agent_run :: agent_run
  pr_session :: "agent_session option"
  pr_job :: "runtime_job option"
  pr_context :: "jobj option"

definition waits_for_approval :: "runtime_job option \<Rightarrow> bool" where
  "waits_for_approval j = opt_ex (\<lambda>x. j_status x = Job_APPROVAL_REQUIRED) j"

section \<open>The context of a step\<close>

definition read_excerpts :: "int \<Rightarrow> artifact list \<Rightarrow> (string \<times> string \<times> bool) list io" where
  "read_excerpts max_chars artifacts = mapM artifacts (\<lambda>a. bindM (read_text_excerpt a max_chars)
     (\<lambda>(text, truncated). returnM (art_id a, text, truncated)))"

definition build_context ::
  "task \<Rightarrow> run \<Rightarrow> workflow_step \<Rightarrow> agent_run \<Rightarrow> agent_run option \<Rightarrow> handoff option \<Rightarrow> handoff list
    \<Rightarrow> agent_session option \<Rightarrow> runtime_job option \<Rightarrow> jobj io" where
  "build_context t run s agent_run previous_agent_run previous_handoff upstream session job =
    bindM (list_agent_runs_for_run (r_id run)) (\<lambda>agent_runs.
    bindM (list_artifacts_for_run (r_id run)) (\<lambda>all_artifacts.
    let artifacts = filter (\<lambda>a. art_agent_run_id a \<in> set (map ar_id (completed_attempts agent_runs)))
                      all_artifacts;
        policy = ws_context_policy s; max_artifacts = nat (cp_max_artifacts policy);
        selected = drop (length artifacts - max_artifacts) artifacts in
    bindM (if cp_artifact_excerpt_chars policy \<noteq> 0
           then read_excerpts (cp_artifact_excerpt_chars policy) selected else returnM []) (\<lambda>texts.
    bindM (getsM w_encode) (\<lambda>encode. bindM (getsM w_show_float) (\<lambda>show_float.
    bindM (liftE (build_injected_context encode show_float
      \<lparr>cx_task = t, cx_run = run, cx_step = s, cx_agent_run = agent_run,
       cx_previous_agent_run = previous_agent_run, cx_previous_handoff = previous_handoff,
       cx_upstream_handoffs = upstream, cx_agent_session = session, cx_runtime_job = job,
       cx_artifacts = selected, cx_total_artifacts = artifacts,
       cx_artifact_texts = map snd (dict_of fst (map (\<lambda>(i, text, _). (i, text)) texts)),
       cx_truncated_ids = map fst (filter (\<lambda>(_, _, truncated). truncated) texts)\<rparr>))
      (\<lambda>(ctx, summary).
    thenM (record_trace (r_id run) WORKFLOW_EVENT summary (Some (ar_id agent_run)) None)
    (returnM (jput ''real_model_access_confirmed'' (JBool (r_real_model_access_confirmed run))
       (jput ''run_id'' (JStr (r_id run)) ctx)))))))))"

definition previous_context_for_step ::
  "workflow_step \<Rightarrow> handoff list \<Rightarrow> (string \<times> agent_run) list
    \<Rightarrow> (agent_run option \<times> handoff option) io" where
  "previous_context_for_step s upstream by_step =
    (case upstream of
       [h] \<Rightarrow> bindM (get_agent_run (h_from_agent_run_id h)) (\<lambda>x. returnM (x, Some h))
     | _ \<Rightarrow> (case ws_depends_on s of
         [d] \<Rightarrow> returnM (map_of by_step d, None)
       | _ \<Rightarrow> returnM (None, None)))"

section \<open>Preparing\<close>

text \<open>The attempt of the step: the last one, or a new one when there is none or it was given up.\<close>

definition given_up :: "agent_run option \<Rightarrow> bool" where
  "given_up x \<longleftrightarrow> opt_all (\<lambda>a. ar_status a \<in> {AgentRun_CANCELLED, AgentRun_FAILED}) x"

definition attempt_of_step :: "run \<Rightarrow> agent_definition \<Rightarrow> workflow_step \<Rightarrow> agent_run run_act" where
  "attempt_of_step run agent s =
    bindM (liftW (agent_run_for_step (r_id run) (ws_name s))) (\<lambda>found.
    thenM (modL (\<lambda>l. l\<lparr>lo_agent_run := found\<rparr>))
    (case (if given_up found then None else found) of
       Some x \<Rightarrow>
         bindM (liftW (agent_session_for_agent_run (r_id run) (ar_id x))) (\<lambda>session.
         thenM (modL (\<lambda>l. l\<lparr>lo_session := session\<rparr>))
         (bindM (liftW (runtime_job_for_agent_run (r_id run) (ar_id x))) (\<lambda>job.
          thenM (modL (\<lambda>l. l\<lparr>lo_job := job\<rparr>)) (returnM x))))
     | None \<Rightarrow>
         bindM (liftW (start_agent_run run agent s
             (if sp_requires_approval (ws_session_policy s) then AgentRun_WAITING
              else AgentRun_RUNNING))) (\<lambda>x.
         thenM (modL (\<lambda>l. l\<lparr>lo_agent_run := Some x\<rparr>))
         (bindM (liftW (record_runtime_state_if_needed run x agent s)) (\<lambda>(session, job).
          thenM (modL (\<lambda>l. l\<lparr>lo_session := session, lo_job := job\<rparr>)) (returnM x))))))"

definition activate_approved :: "unit run_act" where
  "activate_approved = bindM (getL lo_session) (\<lambda>session. bindM (getL lo_job) (\<lambda>job.
     case session of
       Some s \<Rightarrow>
         if s_status s = Session_WAITING_APPROVAL \<and> opt_ex (\<lambda>j. j_status j = Job_APPROVED) job
         then bindM (liftW (activate_approved_agent_session s)) (\<lambda>s'.
           modL (\<lambda>l. l\<lparr>lo_session := Some s'\<rparr>))
         else returnM ()
     | None \<Rightarrow> returnM ()))"

definition activated_attempt :: "workflow_step \<Rightarrow> agent_run \<Rightarrow> agent_run run_act" where
  "activated_attempt s x =
    (if ar_status x \<in> {AgentRun_WAITING, AgentRun_QUEUED} then
       bindM (liftW (activate_agent_run x)) (\<lambda>x'.
       thenM (modL (\<lambda>l. l\<lparr>lo_agent_run := Some x'\<rparr>)) (returnM x'))
     else if ar_status x \<in> {AgentRun_COMPLETED, AgentRun_FAILED, AgentRun_CANCELLED} then
       raiseM (WorkflowRunnerError (''Step '' @ ws_name s @ '' cannot run from agent_run status ''
         @ agent_run_status_value (ar_status x) @ ''.''))
     else returnM x)"

definition with_lineage :: "jobj \<Rightarrow> agent_run \<Rightarrow> agent_run run_act" where
  "with_lineage lineage x =
    (if lineage = [] then returnM x
     else let x' = x\<lparr>ar_input_context := jput ''dependency_lineage'' (JObj lineage) (ar_input_context x)\<rparr> in
       thenM (modL (\<lambda>l. l\<lparr>lo_agent_run := Some x'\<rparr>))
       (thenM (liftW (update_agent_run x')) (returnM x')))"

text \<open>The part of \<open>_prepare_step_execution\<close> after the approval check: the executable context.\<close>

definition executable_step ::
  "task \<Rightarrow> workflow_pack \<Rightarrow> workflow_step \<Rightarrow> run \<Rightarrow> agent_definition \<Rightarrow> agent_run
    \<Rightarrow> prepared_step run_act" where
  "executable_step t pack s run agent x0 =
    bindM (activated_attempt s x0) (\<lambda>x1.
    bindM (getL lo_handoffs) (\<lambda>handoffs. bindM (getL lo_by_step) (\<lambda>by_step.
    bindM (liftW (dependency_context_for_step (r_id run) pack s agent
        (dict_list handoffs (ws_name s)) by_step)) (\<lambda>(upstream, lineage).
    bindM (with_lineage lineage x1) (\<lambda>x.
    bindM (liftW (previous_context_for_step s upstream by_step)) (\<lambda>(previous, handoff).
    bindM (getL lo_session) (\<lambda>session. bindM (getL lo_job) (\<lambda>job.
    bindM (liftW (build_context t run s x previous handoff upstream session job)) (\<lambda>ctx.
    returnM \<lparr>pr_step = s, pr_agent = agent, pr_agent_run = x, pr_session = session, pr_job = job,
      pr_context = Some ctx\<rparr>)))))))))"

definition prepare_body ::
  "task \<Rightarrow> workflow_pack \<Rightarrow> workflow_step \<Rightarrow> run \<Rightarrow> prepared_step run_act" where
  "prepare_body t pack s run =
    bindM (liftW (agent_for_step pack s)) (\<lambda>agent.
    thenM (modL (\<lambda>l. l\<lparr>lo_agent := Some agent\<rparr>))
    (bindM (attempt_of_step run agent s) (\<lambda>x.
     thenM activate_approved
     (thenM (liftE (validate_step_inputs t s))
     (thenM (liftW (validate_step_artifacts run s pack))
     (bindM (getL lo_session) (\<lambda>session. bindM (getL lo_job) (\<lambda>job.
      if waits_for_approval job then
        returnM \<lparr>pr_step = s, pr_agent = agent, pr_agent_run = x, pr_session = session, pr_job = job,
          pr_context = None\<rparr>
      else executable_step t pack s run agent x))))))))"

text \<open>
  \<open>_prepare_step_execution\<close> with the handler of its caller: the run is marked with the step
  before the guarded part, and once more before the exception goes on.
\<close>

definition prepare_step_execution ::
  "task \<Rightarrow> workflow_pack \<Rightarrow> workflow_step \<Rightarrow> prepared_step run_act" where
  "prepare_step_execution t pack s =
    bindM (getL lo_run) (\<lambda>run0.
    let run = run0\<lparr>r_current_step := Some (ws_name s)\<rparr> in
    thenM (liftW (update_run run))
    (thenM (modL (\<lambda>l. l\<lparr>lo_run := run, lo_step := Some s, lo_agent := None, lo_agent_run := None,
        lo_session := None, lo_job := None\<rparr>))
    (catchM (prepare_body t pack s run)
       (\<lambda>e. thenM (liftW (update_run run)) (raiseM e)))))"

section \<open>Executing\<close>

definition execute_prepared_step ::
  "runner_env \<Rightarrow> run \<Rightarrow> task \<Rightarrow> prepared_step \<Rightarrow> agent_step_output io" where
  "execute_prepared_step env run t p = (case pr_context p of
     None \<Rightarrow> raiseM (WorkflowRunnerError
       (''Step '' @ ws_name (pr_step p) @ '' has no executable context.''))
   | Some ctx \<Rightarrow> re_execute env t run (pr_step p) (pr_agent p) ctx)"

text \<open>\<open>try: ... except Exception as exc: output = exc\<close>.\<close>

definition attempt :: "'a io \<Rightarrow> (exn + 'a) io" where
  "attempt m = (\<lambda>w. case m w of (r, w') \<Rightarrow> (Inr r, w'))"

type_synonym step_result = "exn + agent_step_output"

primrec execute_serial ::
  "runner_env \<Rightarrow> run \<Rightarrow> task \<Rightarrow> prepared_step list \<Rightarrow> (prepared_step \<times> step_result) list io" where
  "execute_serial env run t [] = returnM []"
| "execute_serial env run t (p # ps) =
    bindM (attempt (execute_prepared_step env run t p)) (\<lambda>r. case r of
      Inl e \<Rightarrow> returnM [(p, Inl e)]
    | Inr out \<Rightarrow> bindM (execute_serial env run t ps) (\<lambda>rest. returnM ((p, Inr out) # rest)))"

text \<open>
  The thread pool: \<open>po_running\<close> are the indexes of the submitted futures that have not completed,
  \<open>po_next\<close> is the next one to submit, \<open>po_outputs\<close> the outputs by index. Which future completes
  next and whether a sibling can still be cancelled is decided by the environment; an execution
  takes effect at once when it completes.
\<close>

record pool =
  po_running :: "nat list"
  po_next :: nat
  po_failed :: "nat option"
  po_outputs :: "(nat \<times> step_result) list"
  po_cancelled :: "nat list"

definition cancelled_output :: "prepared_step list \<Rightarrow> nat \<Rightarrow> nat \<times> step_result" where
  "cancelled_output ps i = (i, Inl (CancelledError
     (''Parallel step cancelled before execution: '' @ ws_name (pr_step (ps ! i)))))"

text \<open>One future has completed with the given result.\<close>

definition pool_completed ::
  "runner_env \<Rightarrow> prepared_step list \<Rightarrow> nat \<Rightarrow> step_result \<Rightarrow> pool \<Rightarrow> pool" where
  "pool_completed env ps i r p =
    (let rest = remove1 i (po_running p); outputs = po_outputs p @ [(i, r)] in
     case r of
       Inr out \<Rightarrow>
         if po_failed p = None \<and> po_next p < length ps
         then p\<lparr>po_running := rest @ [po_next p], po_next := Suc (po_next p), po_outputs := outputs\<rparr>
         else p\<lparr>po_running := rest, po_outputs := outputs\<rparr>
     | Inl e \<Rightarrow>
         let failed = (case po_failed p of None \<Rightarrow> i | Some j \<Rightarrow> min j i);
             cancelled = filter (\<lambda>j. failed < j \<and> re_cancels env j) rest in
         p\<lparr>po_running := filter (\<lambda>j. j \<notin> set cancelled) rest, po_failed := Some failed,
           po_outputs := outputs @ map (cancelled_output ps) cancelled,
           po_cancelled := po_cancelled p @ cancelled\<rparr>)"

text \<open>\<open>while futures\<close>: every turn completes a future, so the number of steps bounds the turns.\<close>

primrec pool_loop ::
  "runner_env \<Rightarrow> run \<Rightarrow> task \<Rightarrow> prepared_step list \<Rightarrow> nat \<Rightarrow> pool \<Rightarrow> pool io" where
  "pool_loop env run t ps 0 p = returnM p"
| "pool_loop env run t ps (Suc fuel) p =
    (if po_running p = [] then returnM p
     else let i = po_running p ! (re_schedule env (po_running p) mod length (po_running p)) in
       bindM (attempt (execute_prepared_step env run t (ps ! i))) (\<lambda>r.
       pool_loop env run t ps fuel (pool_completed env ps i r p)))"

definition start_pool :: "prepared_step list \<Rightarrow> int \<Rightarrow> pool" where
  "start_pool ps max_parallel_steps =
    (let worker_count = nat (min (int (length ps)) max_parallel_steps) in
     \<lparr>po_running = [0..<worker_count], po_next = worker_count, po_failed = None, po_outputs = [],
      po_cancelled = []\<rparr>)"

definition pool_outputs :: "prepared_step list \<Rightarrow> pool \<Rightarrow> (nat \<times> step_result) list" where
  "pool_outputs ps p = po_outputs p @ map (cancelled_output ps) [po_next p..<length ps]"

definition batch_event :: "run \<Rightarrow> prepared_step list \<Rightarrow> unit io" where
  "batch_event run ps = thenM (record_trace (r_id run) WORKFLOW_EVENT
     [(''action'', JStr ''parallel_step_batch_executed''),
      (''steps'', jstr_list (map (ws_name \<circ> pr_step) ps)),
      (''ownership'', JObj (map (\<lambda>p. (ws_name (pr_step p), ownership_json (pr_step p))) ps)),
      (''true_parallel_execution'', JBool True)] None None) (returnM ())"

definition execute_parallel ::
  "runner_env \<Rightarrow> run \<Rightarrow> task \<Rightarrow> prepared_step list \<Rightarrow> int \<Rightarrow> (prepared_step \<times> step_result) list io" where
  "execute_parallel env run t ps max_parallel_steps =
    thenM (batch_event run ps)
    (bindM (pool_loop env run t ps (length ps) (start_pool ps max_parallel_steps)) (\<lambda>p.
     let cancelled = po_cancelled p @ [po_next p..<length ps] in
     thenM (whenM (cancelled \<noteq> []) (thenM (record_trace (r_id run) WORKFLOW_EVENT
       [(''action'', JStr ''parallel_step_pending_cancelled''),
        (''steps'', jstr_list (map (\<lambda>i. ws_name (pr_step (ps ! i))) cancelled))] None None) (returnM ())))
     (returnM (map (\<lambda>i. (ps ! i, the (map_of (pool_outputs ps p) i))) [0..<length ps]))))"

definition execute_prepared_steps ::
  "runner_env \<Rightarrow> run \<Rightarrow> task \<Rightarrow> prepared_step list \<Rightarrow> bool \<Rightarrow> int
    \<Rightarrow> (prepared_step \<times> step_result) list io" where
  "execute_prepared_steps env run t ps allow_parallel max_parallel_steps =
    (if allow_parallel \<and> length ps > 1 then execute_parallel env run t ps max_parallel_steps
     else execute_serial env run t ps)"

definition can_run_batch_in_parallel :: "runner_env \<Rightarrow> task \<Rightarrow> workflow_step list \<Rightarrow> bool" where
  "can_run_batch_in_parallel env t steps \<longleftrightarrow> length steps > 1 \<and> re_parallel env t steps
     \<and> list_all (\<lambda>s. \<not> sp_requires_approval (ws_session_policy s) \<and> ws_ownership s \<noteq> []) steps
     \<and> batch_ownership_conflicts steps = []"

section \<open>Committing\<close>

primrec write_outputs ::
  "run \<Rightarrow> agent_run \<Rightarrow> workflow_step \<Rightarrow> nat \<Rightarrow> (artifact_type \<times> artifact_output) list \<Rightarrow> artifact list io"
where
  "write_outputs run agent_run s index [] = returnM []"
| "write_outputs run agent_run s index (x # xs) =
    bindM (step_scoped_filename (r_id run) agent_run s index (ao_filename (snd x))) (\<lambda>filename.
    bindM (write_text (r_id run) (ar_id agent_run) (fst x) filename (ao_content (snd x))
             (ao_source_refs (snd x))) (\<lambda>a.
    bindM (write_outputs run agent_run s (Suc index) xs) (\<lambda>rest. returnM (a # rest))))"

definition record_executor_eval :: "run \<Rightarrow> agent_run \<Rightarrow> workflow_step \<Rightarrow> eval_result \<Rightarrow> unit io" where
  "record_executor_eval run agent_run s v =
    thenM (guardM (er_run_id v = r_id run)
      (WorkflowRunnerError ''Executor returned eval result for a different run.''))
    (thenM (guardM (er_check_name v \<noteq> structural_check s)
      (WorkflowRunnerError ''Executor eval results cannot reuse the structural artifact check name.''))
    (thenM (create_eval_result v)
    (thenM (record_trace (r_id run) EVAL_RESULT
      [(''eval_result_id'', JStr (er_id v)), (''check_name'', JStr (er_check_name v)),
       (''status'', JStr (eval_status_value (er_status v))), (''scope'', JStr ''step_executor'')]
      (Some (ar_id agent_run)) None)
    (guardM (er_status v \<noteq> Eval_FAIL)
      (WorkflowRunnerError (''Executor evaluation failed: '' @ er_check_name v))))))"

text \<open>\<open>Handoff(...)\<close>: strings are stripped, the summary may not be blank.\<close>

definition new_handoff ::
  "run \<Rightarrow> agent_run \<Rightarrow> agent_definition \<Rightarrow> task \<Rightarrow> agent_step_output \<Rightarrow> artifact list \<Rightarrow> workflow_step
    \<Rightarrow> handoff io" where
  "new_handoff run agent_run agent t out artifacts next_step =
    bindM new_id (\<lambda>i.
    thenM (guardM (strip (so_summary out) \<noteq> []) (OtherError ''summary: String should have at least 1 character''))
    (returnM \<lparr>h_id = i, h_run_id = r_id run, h_from_agent_run_id = ar_id agent_run,
      h_to_agent_id = a_id agent, h_summary = strip (so_summary out),
      h_artifact_refs = map art_id artifacts, h_open_questions = map strip (so_open_questions out),
      h_next_objective = ws_name next_step, h_constraints_to_preserve = map strip (t_constraints t),
      h_risk_notes = map strip (so_risk_notes out)\<rparr>))"

definition hand_over ::
  "workflow_pack \<Rightarrow> run \<Rightarrow> agent_run \<Rightarrow> task \<Rightarrow> agent_step_output \<Rightarrow> artifact list \<Rightarrow> workflow_step
    \<Rightarrow> unit run_act" where
  "hand_over pack run agent_run t out artifacts next_step =
    bindM (liftW (agent_for_step pack next_step)) (\<lambda>agent.
    bindM (liftW (new_handoff run agent_run agent t out artifacts next_step)) (\<lambda>h.
    bindM (liftW (create_handoff h)) (\<lambda>stored.
    thenM (modL (\<lambda>l. l\<lparr>lo_handoffs := dict_append (ws_name next_step) stored (lo_handoffs l)\<rparr>))
    (thenM (liftW (record_trace (r_id run) HANDOFF
       [(''handoff_id'', JStr (h_id stored)), (''to_agent_id'', JStr (h_to_agent_id stored))]
       (Some (ar_id agent_run)) None)) (returnM ())))))"

definition complete_runtime_state :: "unit run_act" where
  "complete_runtime_state =
    bindM (getL lo_session) (\<lambda>session.
    thenM (case session of None \<Rightarrow> returnM ()
      | Some s \<Rightarrow> bindM (liftW (complete_agent_session s)) (\<lambda>s'. modL (\<lambda>l. l\<lparr>lo_session := Some s'\<rparr>)))
    (bindM (getL lo_job) (\<lambda>job. case job of None \<Rightarrow> returnM ()
      | Some j \<Rightarrow> bindM (liftW (complete_runtime_job j)) (\<lambda>j'. modL (\<lambda>l. l\<lparr>lo_job := Some j'\<rparr>)))))"

definition completed_attempt :: "timestamp \<Rightarrow> string \<Rightarrow> agent_run \<Rightarrow> agent_run" where
  "completed_attempt now summary x = x\<lparr>ar_status := AgentRun_COMPLETED, ar_finished_at := Some now,
     ar_output_summary := Some summary\<rparr>"

definition complete_attempt ::
  "workflow_step \<Rightarrow> agent_run \<Rightarrow> agent_step_output \<Rightarrow> artifact list \<Rightarrow> agent_run run_act" where
  "complete_attempt s agent_run out artifacts =
    bindM (liftW utc_now) (\<lambda>now.
    let completed = completed_attempt now (so_summary out) agent_run in
    thenM (modL (\<lambda>l. l\<lparr>lo_agent_run := Some completed\<rparr>))
    (thenM (liftW (update_agent_run completed))
    (thenM (modL (\<lambda>l. l\<lparr>lo_by_step := jput (ws_name s) completed (lo_by_step l),
        lo_completed := List.insert (ws_name s) (lo_completed l),
        lo_artifacts := jput (ws_name s) artifacts (lo_artifacts l)\<rparr>))
    (returnM completed))))"

text \<open>What is recorded of the output before the handoffs: the artifacts that were written.\<close>

definition record_output ::
  "runner_env \<Rightarrow> run \<Rightarrow> workflow_step \<Rightarrow> agent_run \<Rightarrow> agent_step_output \<Rightarrow> artifact list io" where
  "record_output env run s agent_run out =
    thenM (record_model_runtime_trace (re_environ env) run agent_run out)
    (bindM (liftE (mapE (\<lambda>a. runner_artifact_type (ao_type a)) (so_artifacts out))) (\<lambda>types.
     thenM (liftE (validate_step_outputs s types))
     (thenM (liftE (validate_return_contract s out types))
     (bindM (write_outputs run agent_run s 0 (zip types (so_artifacts out))) (\<lambda>artifacts.
      thenM (record_eval_result run (Some agent_run) (structural_check s)
        (if artifacts \<noteq> [] then Eval_PASS else Eval_WARN)
        (if artifacts \<noteq> [] then ''Step created one or more artifacts.''
         else ''Step completed without artifacts.'')
        (if artifacts \<noteq> [] then Some (art_id (last artifacts)) else None) ''step_structural'')
      (thenM (forM (so_eval_results out) (record_executor_eval run agent_run s))
      (thenM (validate_step_acceptance_criteria run agent_run s artifacts (so_eval_results out))
      (thenM (liftE (validate_step_eval_gate s (so_eval_results out)))
      (returnM artifacts)))))))))"

definition commit_body ::
  "runner_env \<Rightarrow> task \<Rightarrow> workflow_pack \<Rightarrow> workflow_step list \<Rightarrow> prepared_step \<Rightarrow> agent_step_output
    \<Rightarrow> agent_run run_act" where
  "commit_body env t pack ordered p out =
    bindM (getL lo_run) (\<lambda>run.
    let s = pr_step p; agent_run = pr_agent_run p in
    bindM (liftW (record_output env run s agent_run out)) (\<lambda>artifacts.
    thenM (forM (next_steps pack ordered s) (hand_over pack run agent_run t out artifacts))
    (thenM complete_runtime_state
    (complete_attempt s agent_run out artifacts))))"

section \<open>Cancelling what was not committed\<close>

definition aborted_message :: string where
  "aborted_message = ''Parallel batch aborted before this step output was committed.''"

definition or_else :: "'a option \<Rightarrow> 'a \<Rightarrow> 'a" where
  "or_else x d = (case x of None \<Rightarrow> d | Some y \<Rightarrow> y)"

definition cancel_uncommitted_agent_run :: "prepared_step \<Rightarrow> timestamp \<Rightarrow> bool io" where
  "cancel_uncommitted_agent_run p now =
    bindM (get_agent_run (ar_id (pr_agent_run p))) (\<lambda>found.
    let x = or_else found (pr_agent_run p) in
    if terminal_agent_run x then returnM False
    else thenM (update_agent_run (cancel_agent_run now aborted_message x)) (returnM True))"

definition cancel_uncommitted_agent_session :: "prepared_step \<Rightarrow> timestamp \<Rightarrow> unit io" where
  "cancel_uncommitted_agent_session p now = (case pr_session p of None \<Rightarrow> returnM ()
   | Some s0 \<Rightarrow> bindM (get_agent_session (s_id s0)) (\<lambda>found.
       let s = or_else found s0 in
       whenM (\<not> terminal_session s) (thenM (update_agent_session
         (s\<lparr>s_status := Session_CANCELLED, s_updated_at := now\<rparr>)) (returnM ()))))"

definition cancel_uncommitted_runtime_job :: "prepared_step \<Rightarrow> timestamp \<Rightarrow> unit io" where
  "cancel_uncommitted_runtime_job p now = (case pr_job p of None \<Rightarrow> returnM ()
   | Some j0 \<Rightarrow> bindM (get_runtime_job (j_id j0)) (\<lambda>found.
       let j = or_else found j0 in
       whenM (\<not> terminal_job j) (thenM (update_runtime_job
         (j\<lparr>j_status := Job_CANCELLED, j_updated_at := now, j_message := aborted_message\<rparr>))
         (returnM ()))))"

definition cancel_uncommitted_prepared_step :: "prepared_step \<Rightarrow> timestamp \<Rightarrow> bool io" where
  "cancel_uncommitted_prepared_step p now =
    bindM (cancel_uncommitted_agent_run p now) (\<lambda>cancelled.
    thenM (cancel_uncommitted_agent_session p now)
    (thenM (cancel_uncommitted_runtime_job p now) (returnM cancelled)))"

primrec cancel_others :: "string \<Rightarrow> timestamp \<Rightarrow> prepared_step list \<Rightarrow> string list io" where
  "cancel_others failed now [] = returnM []"
| "cancel_others failed now (p # ps) =
    (if ws_name (pr_step p) = failed then cancel_others failed now ps
     else bindM (cancel_uncommitted_prepared_step p now) (\<lambda>cancelled.
       bindM (cancel_others failed now ps) (\<lambda>names.
       returnM (if cancelled then ws_name (pr_step p) # names else names))))"

definition cancel_uncommitted_prepared_steps ::
  "run \<Rightarrow> prepared_step list \<Rightarrow> prepared_step \<Rightarrow> string \<Rightarrow> unit io" where
  "cancel_uncommitted_prepared_steps run ps failed reason =
    (if length ps \<le> 1 then returnM ()
     else bindM utc_now (\<lambda>now.
       bindM (cancel_others (ws_name (pr_step failed)) now ps) (\<lambda>names.
       whenM (names \<noteq> []) (thenM (record_trace (r_id run) WORKFLOW_EVENT
         [(''action'', JStr ''parallel_step_batch_aborted''),
          (''failed_step'', JStr (ws_name (pr_step failed))),
          (''cancelled_uncommitted_steps'', jstr_list names), (''reason'', JStr reason)] None None)
         (returnM ())))))"

end
