(* ===== verification/Runner.thy ===== *)
theory Runner imports Runner_Steps begin

text \<open>
  The main loop of \<open>WorkflowRunner\<close> (\<open>backend/app/core/runner.py\<close>): preparing, executing and
  committing the ready steps until every step is completed, the run waits for an approval or an
  exception ends it, and what \<open>_run\<close>, \<open>run_task\<close>, \<open>run\<close> and \<open>resume_run\<close> do around the loop.
\<close>

section \<open>A turn of the loop\<close>

definition unresolved :: "workflow_step list \<Rightarrow> string list \<Rightarrow> exn" where
  "unresolved ordered completed = WorkflowRunnerError
     (''Workflow did not complete; unresolved steps: ''
       @ join '', '' (filter (\<lambda>n. n \<notin> set completed) (map ws_name ordered)))"

text \<open>No step can go on: the run waits for the first pending approval, or it is stuck.\<close>

definition wait_or_stuck :: "workflow_step list \<Rightarrow> run run_act" where
  "wait_or_stuck ordered =
    bindM (getL lo_run) (\<lambda>run.
    bindM (liftW (pending_approval_step_names (r_id run))) (\<lambda>pending.
    bindM (getL lo_completed) (\<lambda>completed.
    if pending \<noteq> [] then liftW (wait_run run (hd pending)) else raiseM (unresolved ordered completed))))"

definition steps_to_prepare :: "bool \<Rightarrow> workflow_step list \<Rightarrow> workflow_step list" where
  "steps_to_prepare parallel_candidate ready =
    (if parallel_candidate \<or> (\<exists>s \<in> set ready. sp_requires_approval (ws_session_policy s)) then ready
     else take 1 ready)"

text \<open>The prepared steps, without those that wait for an approval.\<close>

primrec prepare_steps ::
  "task \<Rightarrow> workflow_pack \<Rightarrow> workflow_step list \<Rightarrow> prepared_step list run_act" where
  "prepare_steps t pack [] = returnM []"
| "prepare_steps t pack (s # ss) =
    bindM (prepare_step_execution t pack s) (\<lambda>p.
    thenM (modL (\<lambda>l. l\<lparr>lo_step := Some (pr_step p), lo_agent := Some (pr_agent p),
        lo_agent_run := Some (pr_agent_run p), lo_session := pr_session p, lo_job := pr_job p\<rparr>))
    (bindM (prepare_steps t pack ss) (\<lambda>rest.
     returnM (if waits_for_approval (pr_job p) then rest else p # rest))))"

definition abort_batch :: "prepared_step list \<Rightarrow> prepared_step \<Rightarrow> string \<Rightarrow> exn \<Rightarrow> agent_run run_act" where
  "abort_batch ps p reason e =
    thenM (modL (\<lambda>l. l\<lparr>lo_run := (lo_run l)\<lparr>r_current_step := Some (ws_name (pr_step p))\<rparr>\<rparr>))
    (bindM (getL lo_run) (\<lambda>run.
     thenM (liftW (update_run run))
     (thenM (liftW (cancel_uncommitted_prepared_steps run ps p reason)) (raiseM e))))"

definition commit_executed ::
  "runner_env \<Rightarrow> task \<Rightarrow> workflow_pack \<Rightarrow> workflow_step list \<Rightarrow> prepared_step list
    \<Rightarrow> prepared_step \<times> step_result \<Rightarrow> unit run_act" where
  "commit_executed env t pack ordered ps x = (case x of (p, result) \<Rightarrow>
    thenM (modL (\<lambda>l. l\<lparr>lo_step := Some (pr_step p), lo_agent := Some (pr_agent p),
        lo_agent_run := Some (pr_agent_run p), lo_session := pr_session p, lo_job := pr_job p\<rparr>))
    (bindM (case result of
        Inl e \<Rightarrow> abort_batch ps p ''parallel_step_failed'' e
      | Inr out \<Rightarrow> catchM (commit_body env t pack ordered p out)
          (abort_batch ps p ''parallel_step_commit_failed'')) (\<lambda>completed.
     modL (\<lambda>l. l\<lparr>lo_last := Some completed\<rparr>))))"

text \<open>One turn: the run that waits, or \<open>None\<close> to go on.\<close>

definition run_turn ::
  "runner_env \<Rightarrow> task \<Rightarrow> workflow_pack \<Rightarrow> workflow_step list \<Rightarrow> run option run_act" where
  "run_turn env t pack ordered =
    bindM (getL lo_completed) (\<lambda>completed.
    let explicit = has_explicit_dependencies pack; ready = ready_steps ordered completed explicit in
    if ready = [] then bindM (wait_or_stuck ordered) (\<lambda>r. returnM (Some r))
    else
      let parallel_candidate = (explicit \<and> can_run_batch_in_parallel env t ready) in
      bindM (prepare_steps t pack (steps_to_prepare parallel_candidate ready)) (\<lambda>ps.
      if ps = [] then bindM (wait_or_stuck ordered) (\<lambda>r. returnM (Some r))
      else
        bindM (getL lo_run) (\<lambda>run.
        bindM (liftW (execute_prepared_steps env run t ps
            (parallel_candidate \<and> can_run_batch_in_parallel env t (map pr_step ps))
            (wp_max_parallel_steps pack))) (\<lambda>executed.
        thenM (forM executed (commit_executed env t pack ordered ps)) (returnM None)))))"

text \<open>
  \<open>while len(completed_steps) < len(ordered_steps)\<close>: every turn that goes on completes a step, so
  the number of steps is enough fuel; \<open>None\<close> would be a loop that ran out of it.
\<close>

datatype loop_end = Paused run | All_completed

primrec run_loop ::
  "runner_env \<Rightarrow> task \<Rightarrow> workflow_pack \<Rightarrow> workflow_step list \<Rightarrow> nat \<Rightarrow> loop_end option run_act" where
  "run_loop env t pack ordered 0 = returnM None"
| "run_loop env t pack ordered (Suc fuel) =
    bindM (getL lo_completed) (\<lambda>completed.
    if length (remdups completed) \<ge> length ordered then returnM (Some All_completed)
    else bindM (run_turn env t pack ordered) (\<lambda>paused. case paused of
        Some r \<Rightarrow> returnM (Some (Paused r))
      | None \<Rightarrow> run_loop env t pack ordered fuel))"

section \<open>Around the loop\<close>

definition check_plan_pair :: "run \<Rightarrow> exn + unit" where
  "check_plan_pair run = runner_guard ((r_execution_plan run = None) = (r_execution_plan_hash run = None))
     ''Persisted execution plan and hash are incomplete.''"

definition load_plan :: "runner_env \<Rightarrow> jobj \<Rightarrow> exn + execution_plan" where
  "load_plan env j =
    (let invalid = WorkflowRunnerError ''Persisted execution plan is invalid.'' in
     case re_load_plan env j of
       None \<Rightarrow> Inl invalid
     | Some p \<Rightarrow> (case execution_plan_model_validate p of Inl e \<Rightarrow> Inl invalid | Inr q \<Rightarrow> Inr q))"

fun plan_source_value :: "execution_source \<Rightarrow> string" where
  "plan_source_value Source_workflow_pack = ''workflow_pack''"
| "plan_source_value Source_planner = ''planner''"
| "plan_source_value Source_operator = ''operator''"

definition plan_pack ::
  "runner_env \<Rightarrow> run \<Rightarrow> workflow_pack \<Rightarrow> jobj \<Rightarrow> exn + (execution_plan \<times> workflow_pack)" where
  "plan_pack env run pack j =
    bindE (load_plan env j) (\<lambda>plan.
    bindE (runner_guard (ep_agent_snapshots plan \<noteq> [])
      ''Persisted execution plan is missing agent snapshots.'') (\<lambda>_.
    bindE (runner_guard (r_execution_plan_hash run = Some (re_plan_hash env plan))
      ''Persisted execution plan hash does not match its content.'') (\<lambda>_.
    case workflow_pack_from_execution_plan plan pack True of
      Inl e \<Rightarrow> Inl (WorkflowRunnerError (re_plan_error env e))
    | Inr resolved \<Rightarrow> Inr (plan, resolved))))"

definition resolved_execution_plan_pack :: "runner_env \<Rightarrow> run \<Rightarrow> workflow_pack \<Rightarrow> workflow_pack io" where
  "resolved_execution_plan_pack env run pack =
    thenM (liftE (check_plan_pair run))
    (case r_execution_plan run of
       None \<Rightarrow> returnM pack
     | Some j \<Rightarrow> bindM (liftE (plan_pack env run pack j)) (\<lambda>(plan, resolved).
         thenM (record_trace (r_id run) WORKFLOW_EVENT
           [(''action'', JStr ''execution_plan_loaded''),
            (''schema_version'', JStr ''execution-plan-v1''),
            (''source'', JStr (plan_source_value (ep_source plan))),
            (''plan_hash'', JStr (re_plan_hash env plan)),
            (''step_count'', JInt (int (length (ep_steps plan)))),
            (''max_parallel_steps'', JInt (ep_max_parallel_steps plan))] None None)
         (returnM resolved)))"

text \<open>The texts of the analysis are bytes that decode.\<close>

definition decoded :: "world \<Rightarrow> string \<Rightarrow> string" where
  "decoded w v = or_else (w_decode w v) v"

definition record_task_intake_trace :: "task \<Rightarrow> run \<Rightarrow> workflow_pack \<Rightarrow> unit io" where
  "record_task_intake_trace t run pack =
    bindM (getsM (\<lambda>w. (analyze_task_intake (w_encode w) (w_show_float w) (intake_of_task t) None, decoded w)))
      (\<lambda>(result, text).
    thenM (record_trace (r_id run) WORKFLOW_EVENT
      [(''action'', JStr ''task_intake_analyzed''), (''task_type'', JStr (it_task_type result)),
       (''complexity'', JStr (it_complexity result)), (''risk'', JStr (it_risk result)),
       (''domain'', JStr (it_domain result)), (''recommended_pack'', JStr (it_recommended_pack result)),
       (''actual_pack'', JStr (t_workflow_pack t)), (''confidence'', JFloat (it_confidence result)),
       (''reasons'', jstr_list (map text (it_reasons result))),
       (''constraints'', jstr_list (map text (it_constraints result)))] None None) (returnM ()))"

definition batch_json :: "workflow_step list \<Rightarrow> jval" where
  "batch_json batch = JObj [(''steps'', jstr_list (map ws_name batch)),
     (''parallel_candidate'', JBool (length batch > 1)),
     (''ownership'', JObj (map (\<lambda>s. (ws_name s, ownership_json s)) (filter (\<lambda>s. ws_ownership s \<noteq> []) batch)))]"

definition record_ready_batch_trace :: "run \<Rightarrow> workflow_step list list \<Rightarrow> unit io" where
  "record_ready_batch_trace run batches = thenM (record_trace (r_id run) WORKFLOW_EVENT
     [(''action'', JStr ''ready_batches_planned''), (''batches'', JList (map batch_json batches)),
      (''true_parallel_execution'', JBool False)] None None) (returnM ())"

definition initial_locals :: "run \<Rightarrow> run_locals" where
  "initial_locals run = \<lparr>lo_run = run, lo_last = None, lo_step = None, lo_agent = None,
     lo_agent_run = None, lo_session = None, lo_job = None, lo_handoffs = [], lo_by_step = [],
     lo_artifacts = [], lo_completed = []\<rparr>"

text \<open>The preparation of the loop, up to the state of the steps that are completed already.\<close>

definition enter_loop ::
  "runner_env \<Rightarrow> task \<Rightarrow> workflow_pack \<Rightarrow> run
    \<Rightarrow> (workflow_pack \<times> artifact_type \<times> workflow_step list) run_act" where
  "enter_loop env t pack0 run =
    thenM (liftE (runner_guard (t_workflow_pack t = wp_name pack0)
      (''Run task expects workflow pack '' @ t_workflow_pack t @ '', got '' @ wp_name pack0)))
    (bindM (liftW (resolved_execution_plan_pack env run pack0)) (\<lambda>pack.
     bindM (liftE (runner_artifact_type (wp_final_artifact_type pack))) (\<lambda>final_type.
     thenM (liftW (runner_register_pack_agents pack))
     (thenM (liftW (invalidate_incomplete_checkpoints (r_id run) pack))
     (thenM (liftW (record_task_intake_trace t run pack))
     (bindM (liftE (ready_batches pack)) (\<lambda>batches.
      thenM (liftE (validate_ready_batch_ownership batches))
      (thenM (liftW (record_ready_batch_trace run batches))
      (bindM (liftE (ordered_steps pack)) (\<lambda>ordered.
       bindM (liftW (handoffs_by_target_step (r_id run))) (\<lambda>handoffs.
       bindM (liftW (completed_step_state (r_id run) ordered)) (\<lambda>(by_step, artifacts).
       thenM (modL (\<lambda>l. l\<lparr>lo_handoffs := handoffs, lo_by_step := by_step, lo_artifacts := artifacts,
           lo_completed := map fst by_step,
           lo_last := (if by_step \<noteq> [] then last_ordered_agent_run ordered by_step else lo_last l)\<rparr>))
       (returnM (pack, final_type, ordered))))))))))))))"

definition finish_run :: "workflow_pack \<Rightarrow> artifact_type \<Rightarrow> run run_act" where
  "finish_run pack final_type =
    bindM (getL lo_artifacts) (\<lambda>artifacts. bindM (getL lo_run) (\<lambda>run. bindM (getL lo_last) (\<lambda>last_run.
    bindM (liftE (select_final_artifact pack final_type artifacts)) (\<lambda>final.
    bindM (liftW (evaluate_pack run last_run pack)) (\<lambda>failures.
    thenM (guardM (failures = []) (WorkflowRunnerError
      (''Blocking evaluation failed: '' @ join '', '' (map er_check_name failures))))
    (thenM (liftW (runner_terminalize_open_state (r_id run) ''run_completed''))
    (bindM (liftW utc_now) (\<lambda>now.
     let final_run = run\<lparr>r_status := Run_COMPLETED, r_current_step := None, r_finished_at := Some now,
           r_final_artifact_id := Some (art_id final)\<rparr> in
     thenM (liftW (update_run final_run)) (returnM final_run)))))))))"

definition run_body :: "runner_env \<Rightarrow> task \<Rightarrow> workflow_pack \<Rightarrow> run \<Rightarrow> run run_act" where
  "run_body env t pack0 run =
    bindM (enter_loop env t pack0 run) (\<lambda>(pack, final_type, ordered).
    bindM (run_loop env t pack ordered (Suc (length ordered))) (\<lambda>outcome. case outcome of
      Some (Paused r) \<Rightarrow> returnM r
    | Some All_completed \<Rightarrow> finish_run pack final_type
    | None \<Rightarrow> raiseM (OtherError ''the loop ran out of fuel'')))"

text \<open>The exception handler of \<open>_run\<close>.\<close>

definition run_failed :: "run_locals \<Rightarrow> exn \<Rightarrow> run io" where
  "run_failed l e =
    (if is_plain_storage_error e then raiseM e
     else
       bindM (fail_run (lo_run l) (lo_agent_run l) (lo_step l) (lo_agent l) e (lo_session l) (lo_job l))
         (\<lambda>failed.
       thenM (runner_terminalize_open_state (r_id failed) ''run_failed'')
       (if is_runner_error e then raiseM e
        else bindM (safe_error_message e) (\<lambda>m. raiseM (WorkflowRunnerError m)))))"

definition guarded_run :: "runner_env \<Rightarrow> task \<Rightarrow> workflow_pack \<Rightarrow> run \<Rightarrow> run io" where
  "guarded_run env t pack run = (\<lambda>w. case run_body env t pack run (w, initial_locals run) of
     (Inr r, (w', l)) \<Rightarrow> (Inr r, w')
   | (Inl e, (w', l)) \<Rightarrow> run_failed l e w')"

definition run_pack :: "runner_env \<Rightarrow> run \<Rightarrow> workflow_pack \<Rightarrow> bool \<Rightarrow> run io" where
  "run_pack env run pack resume_waiting =
    thenM (liftE (check_plan_pair run))
    (bindM (start_run run resume_waiting) (\<lambda>active.
     bindM (task_for_run active) (\<lambda>t. guarded_run env t pack active)))"

section \<open>Entry points\<close>

definition resume_run :: "runner_env \<Rightarrow> string \<Rightarrow> workflow_pack \<Rightarrow> run io" where
  "resume_run env run_id pack = bindM (get_run run_id) (\<lambda>found. case found of
     None \<Rightarrow> raiseM (WorkflowRunnerError (''Run not found: '' @ run_id))
   | Some run \<Rightarrow> run_pack env run pack True)"

text \<open>\<open>Run(task_id=task.id)\<close> with the defaults of the model.\<close>

definition new_run :: "string \<Rightarrow> run io" where
  "new_run task_id = bindM new_id (\<lambda>i. returnM
     \<lparr>r_legacy_real_web_snapshot_run_id = None, r_id = i, r_task_id = task_id,
      r_real_model_access_confirmed = False, r_real_web_access_confirmed = False,
      r_confirmed_real_web_tools = Some [], r_confirmed_real_web_tool_routes = Some [],
      r_content_block_snapshot = [], r_content_block_snapshot_hash = None,
      r_content_block_snapshot_files = [], r_allow_external_model_inputs_snapshot = False,
      r_vision_preprocess_snapshot = None, r_approved_side_effect_tools = [],
      r_execution_plan = None, r_execution_plan_hash = None, r_execution_plan_redacted = False,
      r_status = Run_QUEUED, r_current_step = None, r_started_at = None, r_finished_at = None,
      r_final_artifact_id = None\<rparr>)"

definition run_task :: "runner_env \<Rightarrow> string \<Rightarrow> (string \<times> workflow_pack) list \<Rightarrow> run io" where
  "run_task env task_id packs = bindM (get_task task_id) (\<lambda>found. case found of
     None \<Rightarrow> raiseM (WorkflowRunnerError (''Task not found: '' @ task_id))
   | Some t \<Rightarrow>
       bindM (new_run (t_id t)) (\<lambda>run. case map_of packs (t_workflow_pack t) of
         None \<Rightarrow>
           bindM (start_run run False) (\<lambda>active.
           let e = WorkflowRunnerError (''Workflow pack not found: '' @ t_workflow_pack t) in
           thenM (fail_run active None None None e None None) (raiseM e))
       | Some pack \<Rightarrow> run_pack env run pack False))"

end
