(* ===== verification/Runner_Facts.thy ===== *)
theory Runner_Facts imports Runner begin

text \<open>
  What the runner keeps. The locale \<open>runner_frame\<close> is the contract of an assertion on the world
  that survives the storage, the files and the registry: inside it every operation of the runner
  keeps the assertion, as long as the executor does. \<open>on_world\<close> and \<open>on_locals\<close> lift assertions
  to the state of a run; \<open>raises_only\<close> bounds the exceptions of an action.
\<close>

section \<open>Assertions on the state of a run\<close>

definition on_world :: "(world \<Rightarrow> bool) \<Rightarrow> world \<times> run_locals \<Rightarrow> bool" where
  "on_world I s \<longleftrightarrow> I (fst s)"

definition on_locals :: "(run_locals \<Rightarrow> bool) \<Rightarrow> world \<times> run_locals \<Rightarrow> bool" where
  "on_locals P s \<longleftrightarrow> P (snd s)"

lemma keeps_liftW_world: "keeps I m \<Longrightarrow> keeps (on_world I) (liftW m)"
  by (auto simp: keeps_def liftW_def on_world_def split: prod.split)

lemma keeps_liftW_locals: "keeps (on_locals P) (liftW m)"
  by (auto simp: keeps_def liftW_def on_locals_def split: prod.split)

lemma keeps_getL: "keeps Q (getL f)"
  by (simp add: getL_def keeps_getsM)

lemma keeps_modL_world: "keeps (on_world I) (modL f)"
  by (auto simp: keeps_def modL_def modifyM_def on_world_def split: prod.split)

lemma keeps_modL_locals: "(\<And>l. P l \<Longrightarrow> P (f l)) \<Longrightarrow> keeps (on_locals P) (modL f)"
  by (auto simp: keeps_def modL_def modifyM_def on_locals_def split: prod.split)

lemma keeps_case_exn [keeps_intros]:
  "(\<And>e. keeps I (f e)) \<Longrightarrow> (\<And>x. keeps I (g x)) \<Longrightarrow> keeps I (case r of Inl e \<Rightarrow> f e | Inr x \<Rightarrow> g x)"
  by (cases r) auto

lemma keeps_case_end [keeps_intros]:
  "(\<And>r. keeps I (f r)) \<Longrightarrow> keeps I g \<Longrightarrow> keeps I (case x of Paused r \<Rightarrow> f r | All_completed \<Rightarrow> g)"
  by (cases x) auto

lemma keeps_attempt [keeps_intros]: "keeps I m \<Longrightarrow> keeps I (attempt m)"
  by (auto simp: keeps_def attempt_def split: prod.split)

lemma keeps_safe_error_message: "keeps I (safe_error_message e)"
  by (cases e) (simp_all add: safe_error_message_def keeps_returnM keeps_getsM)

lemma keeps_dict_get: "keeps I (dict_get d k)"
  unfolding dict_get_def by (intro keeps_intros)

section \<open>Frames\<close>

locale runner_frame = process_frame I for I +
  assumes frame_register: "keeps I (modifyM (\<lambda>w. w\<lparr>w_registry := g\<rparr>))"
begin

lemma frame_step_gates:
  "keeps I (validate_step_artifacts run s pack)"
  "keeps I (record_eval_result run ar cn st msg art scope)"
  "keeps I (step_scoped_filename i x s n f)"
  unfolding validate_step_artifacts_def record_eval_result_def stored_eval_result_def
    new_eval_result_def step_scoped_filename_def bound_pack_eval_result_def Let_def
  by (intro frame_storage keeps_intros keeps_case_list)+

lemma frame_evaluations:
  "keeps I (evaluate_pack run x pack)"
  "keeps I (evaluate_step_acceptance_criterion c artifacts results)"
  unfolding evaluate_pack_def evaluate_check_def evaluate_step_acceptance_criterion_def
    evaluate_artifact_criterion_def Let_def
  by (intro frame_step_gates frame_storage frame_artifacts keeps_intros)+

lemma frame_acceptance:
  "keeps I (check_acceptance_criteria run x s artifacts results cs)"
  by (induction cs) (auto intro!: frame_evaluations frame_step_gates keeps_intros)

lemma frame_start:
  "keeps I (start_run run b)" "keeps I (task_for_run run)" "keeps I (wait_run run n)"
  "keeps I (runner_terminalize_open_state i r)"
  unfolding start_run_def task_for_run_def wait_run_def runner_terminalize_open_state_def Let_def
  by (intro frame_storage keeps_intros)+

lemma frame_agents:
  "keeps I (registry_lookup p r)" "keeps I (runner_register_pack_agents pack)"
  "keeps I (agent_for_step pack s)"
  unfolding registry_lookup_def runner_register_pack_agents_def register_pack_agent_def
    register_in_world_def agent_for_step_def
  by (intro frame_register frame_storage keeps_intros)+

lemma frame_attempts:
  "keeps I (start_agent_run run a s st)" "keeps I (activate_agent_run x)"
  "keeps I (agent_run_for_step i n)" "keeps I (agent_session_for_agent_run i j)"
  "keeps I (runtime_job_for_agent_run i j)"
  unfolding start_agent_run_def activate_agent_run_def agent_run_for_step_def
    agent_session_for_agent_run_def runtime_job_for_agent_run_def Let_def
  by (intro frame_storage keeps_intros)+

lemma frame_runtime_state:
  "keeps I (record_runtime_state_if_needed run x a s)" "keeps I (complete_agent_session se)"
  "keeps I (activate_approved_agent_session se)" "keeps I (complete_runtime_job j)"
  "keeps I (pending_approval_step_names i)"
  unfolding record_runtime_state_if_needed_def new_session_def new_runtime_job_def job_event_def
    complete_agent_session_def activate_approved_agent_session_def complete_runtime_job_def
    pending_approval_step_names_def Let_def
  by (intro frame_storage keeps_intros)+

lemma frame_collect: "keeps I (collect_handoffs latest d hs)"
  by (induction hs arbitrary: d)
    (auto simp: current_handoff_def intro!: frame_storage keeps_intros)

lemma frame_completed:
  "keeps I (handoffs_by_target_step i)" "keeps I (completed_step_state i ordered)"
  unfolding handoffs_by_target_step_def completed_step_state_def Let_def
  by (intro frame_collect frame_storage keeps_intros)+

lemma frame_validated: "keeps I (validated_dependency_handoff i d ds x c a hs)"
  unfolding validated_dependency_handoff_def Let_def by (intro frame_storage keeps_intros)

lemma frame_dependency_handoffs: "keeps I (dependency_handoffs i names s a hs d ds)"
  by (induction ds) (auto intro!: frame_validated keeps_dict_get keeps_intros)

lemma frame_dependency_context: "keeps I (dependency_context_for_step i pack s a hs d)"
  unfolding dependency_context_for_step_def Let_def
  by (intro frame_dependency_handoffs frame_validated keeps_intros)

lemma frame_checkpoint_reasons: "keeps I (checkpoint_reasons v gone s x)"
  unfolding checkpoint_reasons_def artifact_reasons_def dependency_reasons_def outgoing_reasons_def
    consumer_agent_def Let_def
  by (intro frame_validated frame_artifacts keeps_dict_get keeps_intros)

lemma frame_invalidate_loop: "keeps I (invalidate_loop v xs gone ss)"
  by (induction ss arbitrary: gone)
    (auto simp: invalidate_attempt_def intro!: frame_checkpoint_reasons frame_storage keeps_intros)

lemma frame_invalidate: "keeps I (invalidate_incomplete_checkpoints i pack)"
  unfolding invalidate_incomplete_checkpoints_def
  by (intro frame_invalidate_loop frame_storage keeps_intros)

lemma frame_fail_run: "keeps I (fail_run run x s a e se j)"
  unfolding fail_run_def fail_job_def fail_session_def fail_agent_run_def Let_def
  by (intro keeps_safe_error_message frame_storage keeps_intros)

lemma frame_requeue: "keeps I (requeue_interrupted_run i pack)"
  unfolding requeue_interrupted_run_def Let_def
  by (intro frame_invalidate frame_start frame_storage keeps_intros)

lemmas frame_runner_state = frame_start frame_agents frame_attempts frame_runtime_state
  frame_completed frame_dependency_context frame_invalidate frame_fail_run frame_step_gates
  frame_evaluations frame_acceptance frame_storage frame_artifacts

lemma frame_build_context: "keeps I (build_context t run s x p h u se j)"
  unfolding build_context_def read_excerpts_def Let_def
  by (intro frame_runner_state keeps_intros)

lemma frame_write_outputs: "keeps I (write_outputs run x s n xs)"
  by (induction xs arbitrary: n) (auto intro!: frame_runner_state keeps_intros)

lemma frame_record_output: "keeps I (record_output env run s x out)"
  unfolding record_output_def record_model_runtime_trace_def record_executor_eval_def
    validate_step_acceptance_criteria_def
  by (intro frame_write_outputs frame_runner_state keeps_intros)

lemma frame_cancel_step: "keeps I (cancel_uncommitted_prepared_step p now)"
  unfolding cancel_uncommitted_prepared_step_def cancel_uncommitted_agent_run_def
    cancel_uncommitted_agent_session_def cancel_uncommitted_runtime_job_def Let_def
  by (intro frame_storage keeps_intros)

lemma frame_cancel_others: "keeps I (cancel_others n now ps)"
  by (induction ps) (auto intro!: frame_cancel_step keeps_intros)

lemma frame_cancel: "keeps I (cancel_uncommitted_prepared_steps run ps p reason)"
  unfolding cancel_uncommitted_prepared_steps_def
  by (intro frame_cancel_others frame_storage keeps_intros)

lemma frame_previous: "keeps I (previous_context_for_step s u d)"
  unfolding previous_context_for_step_def by (intro frame_storage keeps_intros)

lemmas frame_lift = keeps_liftW_world keeps_getL keeps_modL_world

lemma frame_prepare: "keeps (on_world I) (prepare_step_execution t pack s)"
  unfolding prepare_step_execution_def prepare_body_def executable_step_def attempt_of_step_def
    activate_approved_def activated_attempt_def with_lineage_def Let_def
  by (intro frame_lift frame_build_context frame_previous frame_runner_state keeps_intros)

lemma frame_prepare_steps: "keeps (on_world I) (prepare_steps t pack ss)"
  by (induction ss) (auto intro!: frame_prepare frame_lift keeps_intros)

lemma frame_commit: "keeps (on_world I) (commit_executed env t pack ordered ps x)"
  unfolding commit_executed_def commit_body_def abort_batch_def hand_over_def new_handoff_def
    complete_runtime_state_def complete_attempt_def Let_def
  by (intro frame_lift frame_record_output frame_cancel frame_runner_state keeps_intros)

lemma frame_intake:
  "keeps I (record_task_intake_trace t run pack)" "keeps I (record_ready_batch_trace run batches)"
  "keeps I (resolved_execution_plan_pack env run pack)"
  unfolding record_task_intake_trace_def record_ready_batch_trace_def
    resolved_execution_plan_pack_def
  by (intro frame_storage keeps_intros)+

lemma frame_enter: "keeps (on_world I) (enter_loop env t pack run)"
  unfolding enter_loop_def
  by (intro frame_lift frame_intake frame_runner_state keeps_intros)

lemma frame_finish: "keeps (on_world I) (finish_run pack final_type)"
  unfolding finish_run_def Let_def by (intro frame_lift frame_runner_state keeps_intros)

lemma frame_wait_or_stuck: "keeps (on_world I) (wait_or_stuck ordered)"
  unfolding wait_or_stuck_def by (intro frame_lift frame_runner_state keeps_intros)

lemma frame_run_failed: "keeps I (run_failed l e)"
  unfolding run_failed_def by (intro keeps_safe_error_message frame_runner_state keeps_intros)

text \<open>The executor is the only part whose effects are not those of the modelled code.\<close>

lemma frame_execute:
  assumes exec: "\<And>t r s a c. keeps I (re_execute env t r s a c)"
  shows "keeps I (execute_prepared_steps env run t ps b n)"
proof -
  have step: "keeps I (execute_prepared_step env run t p)" for p
    unfolding execute_prepared_step_def by (intro exec keeps_intros)
  have serial: "keeps I (execute_serial env run t ps)"
    by (induction ps) (auto intro!: step keeps_intros)
  have pool: "keeps I (pool_loop env run t ps fuel p)" for fuel p
    by (induction fuel arbitrary: p) (auto simp: Let_def intro!: step keeps_intros)
  show ?thesis
    unfolding execute_prepared_steps_def execute_parallel_def batch_event_def Let_def
    by (intro serial pool frame_storage keeps_intros)
qed

lemma frame_run_turn:
  assumes "\<And>t r s a c. keeps I (re_execute env t r s a c)"
  shows "keeps (on_world I) (run_turn env t pack ordered)"
  unfolding run_turn_def Let_def
  by (intro frame_lift frame_execute [OF assms] frame_prepare_steps frame_commit frame_wait_or_stuck
      keeps_intros)

lemma frame_run_loop:
  assumes "\<And>t r s a c. keeps I (re_execute env t r s a c)"
  shows "keeps (on_world I) (run_loop env t pack ordered fuel)"
  by (induction fuel) (auto intro!: frame_lift frame_run_turn [OF assms] keeps_intros)

lemma frame_run_body:
  assumes "\<And>t r s a c. keeps I (re_execute env t r s a c)"
  shows "keeps (on_world I) (run_body env t pack run)"
  unfolding run_body_def
  by (intro frame_enter frame_run_loop [OF assms] frame_finish keeps_intros)

lemma frame_guarded_run:
  assumes "\<And>t r s a c. keeps I (re_execute env t r s a c)"
  shows "keeps I (guarded_run env t pack run)"
proof (rule keepsI)
  fix w assume w: "I w"
  obtain r w' l where b: "run_body env t pack run (w, initial_locals run) = (r, (w', l))"
    using prod_cases3 by metis
  have "on_world I (w', l)"
    by (rule keepsD [OF frame_run_body [OF assms] _ b]) (simp add: on_world_def w)
  then have "I w'" by (simp add: on_world_def)
  then show "I (snd (guarded_run env t pack run w))"
    using frame_run_failed [of l] by (cases r) (auto simp: guarded_run_def b keeps_def)
qed

lemma frame_run_pack:
  assumes "\<And>t r s a c. keeps I (re_execute env t r s a c)"
  shows "keeps I (run_pack env run pack b)"
  unfolding run_pack_def
  by (intro frame_guarded_run [OF assms] frame_runner_state keeps_intros)

lemma frame_entry_points:
  assumes "\<And>t r s a c. keeps I (re_execute env t r s a c)"
  shows "keeps I (resume_run env i pack)" "keeps I (run_task env i packs)"
  unfolding resume_run_def run_task_def new_run_def Let_def
  by (intro frame_run_pack [OF assms] frame_runner_state keeps_intros)+

end

interpretation schema_runner: runner_frame "\<lambda>w. schema_ok (w_db w)"
  by unfold_locales (simp add: keeps_def modifyM_def)

section \<open>The local variables\<close>

text \<open>An assertion on the locals, of which a value read from them may be used.\<close>

lemma keeps_bind_getL:
  assumes "\<And>l. P l \<Longrightarrow> keeps (on_locals P) (g (f l))"
  shows "keeps (on_locals P) (bindM (getL f) g)"
  using assms by (auto simp: keeps_def bindM_def getL_def getsM_def on_locals_def)

lemmas locals_lift = keeps_liftW_locals keeps_bind_getL keeps_getL keeps_modL_locals

lemma locals_prepare:
  assumes run: "\<And>l f. P l \<Longrightarrow> P (l\<lparr>lo_run := (lo_run l)\<lparr>r_current_step := f\<rparr>, lo_step := Some s,
      lo_agent := None, lo_agent_run := None, lo_session := None, lo_job := None\<rparr>)"
    and vars: "\<And>l a. P l \<Longrightarrow> P (l\<lparr>lo_agent := a\<rparr>)" "\<And>l a. P l \<Longrightarrow> P (l\<lparr>lo_agent_run := a\<rparr>)"
      "\<And>l a. P l \<Longrightarrow> P (l\<lparr>lo_session := a\<rparr>)" "\<And>l a b. P l \<Longrightarrow> P (l\<lparr>lo_session := a, lo_job := b\<rparr>)"
      "\<And>l a. P l \<Longrightarrow> P (l\<lparr>lo_job := a\<rparr>)"
  shows "keeps (on_locals P) (prepare_step_execution t pack s)"
proof -
  have body: "keeps (on_locals P) (prepare_body t pack s r)" for r
    unfolding prepare_body_def executable_step_def attempt_of_step_def
      activate_approved_def activated_attempt_def with_lineage_def Let_def
    by (intro keeps_liftW_locals keeps_getL keeps_modL_locals vars keeps_intros; assumption)
  have marked: "keeps (on_locals P) (catchM (prepare_body t pack s r) (\<lambda>e. thenM (liftW m) (raiseM e)))"
    for r and m :: "run io"
    by (intro body keeps_liftW_locals keeps_intros)
  show ?thesis
  proof (rule keepsI)
    fix x :: "world \<times> run_locals" assume x: "on_locals P x"
    obtain w l where l: "x = (w, l)" by (cases x)
    define r where "r = (lo_run l)\<lparr>r_current_step := Some (ws_name s)\<rparr>"
    define l' where "l' = l\<lparr>lo_run := r, lo_step := Some s, lo_agent := None, lo_agent_run := None,
      lo_session := None, lo_job := None\<rparr>"
    have "P l'" using run [of l "Some (ws_name s)"] x by (simp add: l l'_def r_def on_locals_def)
    then have "on_locals P (snd (catchM (prepare_body t pack s r)
        (\<lambda>e. thenM (liftW (update_run r)) (raiseM e)) (w', l')))" for w'
      using marked [of r "update_run r"] by (simp add: keeps_def on_locals_def)
    moreover have "prepare_step_execution t pack s x = (case update_run r w of
        (Inl e, w') \<Rightarrow> (Inl e, (w', l))
      | (Inr y, w') \<Rightarrow> catchM (prepare_body t pack s r)
          (\<lambda>e. thenM (liftW (update_run r)) (raiseM e)) (w', l'))"
      by (auto simp: prepare_step_execution_def Let_def l bindM_def thenM_def getL_def getsM_def
          liftW_def modL_def modifyM_def r_def l'_def split: prod.split sum.split)
    ultimately show "on_locals P (snd (prepare_step_execution t pack s x))"
      using x by (auto simp: on_locals_def l split: prod.split sum.split)
  qed
qed

end
