(* ===== verification/Runner_Loop.thy ===== *)
theory Runner_Loop imports Runner_Facts begin

text \<open>
  The main loop of the runner makes progress: a turn that goes on commits a step that was not
  completed before, so the loop ends, and it ends with every step of the order completed, with a
  run that waits, or with an exception.
\<close>

section \<open>Actions on the locals that return\<close>

lemma liftW_returns:
  "liftW m s = (Inr x, s') \<longleftrightarrow> (\<exists>w'. m (fst s) = (Inr x, w') \<and> s' = (w', snd s))"
  by (auto simp: liftW_def split: prod.splits)

lemma getL_returns: "getL f s = (Inr x, s') \<longleftrightarrow> x = f (snd s) \<and> s' = s"
  by (auto simp: getL_def getsM_def split: prod.splits)

lemma modL_returns: "modL f s = (Inr u, s') \<longleftrightarrow> s' = (fst s, f (snd s))"
  by (auto simp: modL_def modifyM_def split: prod.splits)

lemmas run_returns = liftW_returns getL_returns modL_returns returns_iff

lemma on_locals_returns: "keeps (on_locals P) m \<Longrightarrow> P (snd s) \<Longrightarrow> m s = (r, s') \<Longrightarrow> P (snd s')"
  using keepsD [of "on_locals P" m s r s'] by (simp add: on_locals_def)

lemma bindM_getL: "bindM (getL f) k x = k (f (snd x)) x"
  by (simp add: bindM_def getL_def getsM_def case_prod_beta)

section \<open>Preparing\<close>

abbreviation completed_are :: "string list \<Rightarrow> run_locals \<Rightarrow> bool" where
  "completed_are C l \<equiv> lo_completed l = C"

lemma prepare_keeps_completed: "keeps (on_locals (completed_are C)) (prepare_step_execution t pack s)"
  by (rule locals_prepare) simp_all

lemma prepare_steps_keeps_completed: "keeps (on_locals (completed_are C)) (prepare_steps t pack ss)"
  by (induction ss) (auto intro!: prepare_keeps_completed keeps_modL_locals keeps_intros)

lemma prepared_step_is:
  assumes "prepare_step_execution t pack s x = (Inr p, x')"
  shows "pr_step p = s \<and> (pr_context p = None \<longleftrightarrow> waits_for_approval (pr_job p))"
proof -
  obtain r y where "catchM (prepare_body t pack s r) (\<lambda>e. thenM (liftW (update_run r)) (raiseM e)) y
      = (Inr p, x')"
    using assms unfolding prepare_step_execution_def Let_def by (auto simp: bindM_returns thenM_returns)
  then have "prepare_body t pack s r y = (Inr p, x')"
    by (auto simp: catchM_def thenM_def bindM_def raiseM_def split: prod.splits sum.splits)
  then obtain agent xa session job z where b: "(if waits_for_approval job then
        returnM \<lparr>pr_step = s, pr_agent = agent, pr_agent_run = xa, pr_session = session, pr_job = job,
          pr_context = None\<rparr>
      else executable_step t pack s r agent xa) z = (Inr p, x')" and z: "job = lo_job (snd z)"
    unfolding prepare_body_def by (auto simp: bindM_returns thenM_returns getL_returns)
  show ?thesis
  proof (cases "waits_for_approval job")
    case True
    with b show ?thesis by (auto simp: returnM_returns)
  next
    case False
    have same: "keeps (on_locals (\<lambda>l. lo_job l = job)) (activated_attempt s xa)"
      "keeps (on_locals (\<lambda>l. lo_job l = job)) (with_lineage lineage x1)" for lineage x1
      unfolding activated_attempt_def with_lineage_def Let_def
      by (intro keeps_liftW_locals keeps_modL_locals keeps_intros; simp)+
    from False b obtain x1 z1 lineage x2 z2 z3 ctx where e:
      "activated_attempt s xa z = (Inr x1, z1)" "with_lineage lineage x1 z2 = (Inr x2, z3)"
      "snd z2 = snd z1"
      "p = \<lparr>pr_step = s, pr_agent = agent, pr_agent_run = x2, pr_session = lo_session (snd z3),
        pr_job = lo_job (snd z3), pr_context = Some ctx\<rparr>"
      unfolding executable_step_def
      by (auto simp: bindM_returns getL_returns liftW_returns returnM_returns split: prod.splits)
    have "lo_job (snd z1) = job" using on_locals_returns [OF same(1) _ e(1)] z by simp
    then have "lo_job (snd z3) = job" using on_locals_returns [OF same(2) _ e(2)] e(3) by simp
    with e(4) False show ?thesis by simp
  qed
qed

lemma prepare_steps_are:
  assumes "prepare_steps t pack ss x = (Inr ps, x')"
  shows "\<forall>p \<in> set ps. pr_step p \<in> set ss \<and> pr_context p \<noteq> None"
  using assms
proof (induction ss arbitrary: x ps x')
  case (Cons s ss)
  then obtain p y z rest where e: "prepare_step_execution t pack s x = (Inr p, y)"
    "prepare_steps t pack ss z = (Inr rest, x')"
    "ps = (if waits_for_approval (pr_job p) then rest else p # rest)"
    by (auto simp: bindM_returns thenM_returns returnM_returns)
  from prepared_step_is [OF e(1)] Cons.IH [OF e(2)] e(3) show ?case by (auto split: if_splits)
qed (simp add: returnM_returns)

section \<open>Executing\<close>

lemma execute_serial_results:
  assumes "execute_serial env run t ps w = (Inr xs, w')"
  shows "map fst xs = take (length xs) ps \<and> (ps \<noteq> [] \<longrightarrow> xs \<noteq> [])
    \<and> (\<forall>i < length xs. (\<exists>e. snd (xs ! i) = Inl e) \<longrightarrow> Suc i = length xs)
    \<and> (length xs < length ps \<longrightarrow> (\<exists>e. snd (last xs) = Inl e))"
  using assms
proof (induction ps arbitrary: w xs w')
  case (Cons p ps)
  then obtain r w1 where e: "attempt (execute_prepared_step env run t p) w = (Inr r, w1)"
    "(case r of Inl e \<Rightarrow> returnM [(p, Inl e)]
     | Inr out \<Rightarrow> bindM (execute_serial env run t ps) (\<lambda>rest. returnM ((p, Inr out) # rest))) w1 = (Inr xs, w')"
    by (auto simp: bindM_returns)
  show ?case
  proof (cases r)
    case (Inl e)
    with e(2) show ?thesis by (auto simp: returnM_returns)
  next
    case (Inr out)
    with e(2) obtain rest w2 where "execute_serial env run t ps w1 = (Inr rest, w2)"
      and xs: "xs = (p, Inr out) # rest"
      by (auto simp: bindM_returns returnM_returns)
    from Cons.IH [OF this(1)] xs show ?thesis by (auto simp: nth_Cons split: nat.splits) 
  qed
qed (simp add: returnM_returns)

lemma execute_parallel_results:
  assumes "execute_parallel env run t ps n w = (Inr xs, w')"
  shows "map fst xs = ps"
proof -
  obtain p where "xs = map (\<lambda>i. (ps ! i, the (map_of (pool_outputs ps p) i))) [0..<length ps]"
    using assms unfolding execute_parallel_def Let_def
    by (auto simp: thenM_returns bindM_returns returnM_returns)
  then show ?thesis by (simp add: map_nth comp_def)
qed

lemma executed_are_prepared:
  assumes "execute_prepared_steps env run t ps b n w = (Inr xs, w')" "ps \<noteq> []"
  shows "xs \<noteq> [] \<and> fst ` set xs \<subseteq> set ps"
proof (cases "b \<and> length ps > 1")
  case True
  with assms have "map fst xs = ps"
    using execute_parallel_results [of env run t ps n w xs w'] by (simp add: execute_prepared_steps_def)
  then have "set ps = fst ` set xs" by (metis set_map)
  with assms(2) show ?thesis by auto
next
  case False
  with assms have *: "map fst xs = take (length xs) ps" "xs \<noteq> []"
    using execute_serial_results [of env run t ps w xs w'] by (auto simp: execute_prepared_steps_def)
  have "fst ` set xs = set (take (length xs) ps)" using *(1) by (metis set_map)
  with *(2) set_take_subset [of "length xs" ps] show ?thesis by simp
qed

section \<open>Committing\<close>

abbreviation completed_within :: "string set \<Rightarrow> string set \<Rightarrow> run_locals \<Rightarrow> bool" where
  "completed_within A B l \<equiv> A \<subseteq> set (lo_completed l) \<and> set (lo_completed l) \<subseteq> B"

lemma completed_same:
  "keeps (on_locals (completed_are C)) (hand_over pack run x t out artifacts s)"
  "keeps (on_locals (completed_are C)) complete_runtime_state"
  unfolding hand_over_def complete_runtime_state_def
  by (intro keeps_liftW_locals keeps_getL keeps_modL_locals keeps_intros; simp)+

lemma commit_body_returns:
  assumes "commit_body env t pack ordered p out x = (Inr c, x')"
  shows "lo_completed (snd x') = List.insert (ws_name (pr_step p)) (lo_completed (snd x))
    \<and> ar_status c = AgentRun_COMPLETED"
proof -
  obtain run artifacts y y1 z where e:
    "snd y = snd x"
    "forM (next_steps pack ordered (pr_step p)) (hand_over pack run (pr_agent_run p) t out artifacts) y
       = (Inr (), y1)"
    "complete_runtime_state y1 = (Inr (), z)"
    "complete_attempt (pr_step p) (pr_agent_run p) out artifacts z = (Inr c, x')"
    using assms unfolding commit_body_def Let_def
    by (auto simp: run_returns)
  have "lo_completed (snd y1) = lo_completed (snd x)"
    by (rule on_locals_returns [OF keeps_forM [OF completed_same(1)] _ e(2)]) (simp add: e(1))
  then have "lo_completed (snd z) = lo_completed (snd x)"
    by (rule on_locals_returns [OF completed_same(2) _ e(3)])
  with e(4) show ?thesis
    unfolding complete_attempt_def Let_def by (auto simp: run_returns completed_attempt_def)
qed

lemma commit_body_within:
  assumes "ws_name (pr_step p) \<in> B"
  shows "keeps (on_locals (completed_within A B)) (commit_body env t pack ordered p out)"
proof -
  have *: "keeps (on_locals (completed_within A B)) (hand_over pack run x t out artifacts s)"
    "keeps (on_locals (completed_within A B)) complete_runtime_state" for run x out artifacts s
    unfolding hand_over_def complete_runtime_state_def
    by (intro keeps_liftW_locals keeps_getL keeps_modL_locals keeps_intros; simp)+
  show ?thesis
    unfolding commit_body_def complete_attempt_def Let_def
    by (intro * keeps_liftW_locals keeps_getL keeps_modL_locals keeps_intros) (auto simp: assms)
qed

lemma abort_batch_within: "keeps (on_locals (completed_within A B)) (abort_batch ps p reason e)"
  unfolding abort_batch_def
  by (intro keeps_liftW_locals keeps_getL keeps_modL_locals keeps_intros; simp)

lemma commit_executed_within:
  assumes "ws_name (pr_step (fst x)) \<in> B"
  shows "keeps (on_locals (completed_within A B)) (commit_executed env t pack ordered ps x)"
  using assms unfolding commit_executed_def
  by (cases x; auto split: sum.split
      intro!: commit_body_within abort_batch_within keeps_modL_locals keeps_intros)

lemma abort_batch_raises: "abort_batch ps p reason e x \<noteq> (Inr c, x')"
  by (auto simp: abort_batch_def bindM_returns thenM_returns raiseM_returns)

lemma commit_executed_returns:
  assumes "commit_executed env t pack ordered ps (p, r) x = (Inr u, x')"
  shows "lo_completed (snd x') = List.insert (ws_name (pr_step p)) (lo_completed (snd x))"
proof -
  define y where "y = (fst x, (snd x)\<lparr>lo_step := Some (pr_step p), lo_agent := Some (pr_agent p),
    lo_agent_run := Some (pr_agent_run p), lo_session := pr_session p, lo_job := pr_job p\<rparr>)"
  have y: "lo_completed (snd y) = lo_completed (snd x)" by (simp add: y_def)
  obtain c z where e: "(case r of Inl e \<Rightarrow> abort_batch ps p ''parallel_step_failed'' e
      | Inr out \<Rightarrow> catchM (commit_body env t pack ordered p out)
          (abort_batch ps p ''parallel_step_commit_failed'')) y = (Inr c, z)"
    "lo_completed (snd x') = lo_completed (snd z)"
    using assms unfolding commit_executed_def y_def [symmetric] prod.case
    by (auto simp: run_returns y_def [symmetric])
  from e(1) obtain out where "r = Inr out" "commit_body env t pack ordered p out y = (Inr c, z)"
    by (auto simp: abort_batch_raises catchM_def split: sum.splits prod.splits)
  with commit_body_returns [of env t pack ordered p out y c z] e(2) y show ?thesis by simp
qed

section \<open>A turn\<close>

lemma ready_steps_open:
  "set (ready_steps ordered completed b) \<subseteq> {s \<in> set ordered. ws_name s \<notin> set completed}"
  by (auto simp: ready_steps_def find_Some_iff split: if_splits option.splits
      dest!: sym [of "Some _"])

lemma commit_all_grows:
  assumes "forM xs (commit_executed env t pack ordered ps) x = (Inr u, x')"
  shows "set (lo_completed (snd x')) = ws_name ` pr_step ` fst ` set xs \<union> set (lo_completed (snd x))"
  using assms
proof (induction xs arbitrary: x)
  case (Cons y xs)
  then obtain z where e: "commit_executed env t pack ordered ps (fst y, snd y) x = (Inr (), z)"
    "forM xs (commit_executed env t pack ordered ps) z = (Inr u, x')"
    by (auto simp: thenM_returns)
  from commit_executed_returns [OF e(1)] Cons.IH [OF e(2)] show ?case by auto
qed (simp add: returnM_returns)

text \<open>
  A turn commits steps of the order; when it goes on, at least one that was not completed before.
\<close>

lemma wait_or_stuck_same: "keeps (on_locals P) (wait_or_stuck ordered)"
  unfolding wait_or_stuck_def by (intro keeps_liftW_locals keeps_getL keeps_intros)

lemma wait_or_stuck_completed:
  "wait_or_stuck ordered x = (r, x') \<Longrightarrow> lo_completed (snd x') = lo_completed (snd x)"
  by (rule on_locals_returns [OF wait_or_stuck_same]) auto

lemma run_turn_completed:
  assumes "run_turn env t pack ordered x = (Inr v, x')"
  shows "set (lo_completed (snd x)) \<subseteq> set (lo_completed (snd x'))
    \<and> set (lo_completed (snd x')) \<subseteq> set (lo_completed (snd x)) \<union> set (map ws_name ordered)
    \<and> (v = None \<longrightarrow> set (lo_completed (snd x)) \<noteq> set (lo_completed (snd x')))"
proof -
  define completed where "completed = lo_completed (snd x)"
  define ready where "ready = ready_steps ordered completed (has_explicit_dependencies pack)"
  define parallel where
    "parallel \<longleftrightarrow> has_explicit_dependencies pack \<and> can_run_batch_in_parallel env t ready"
  note open_steps = ready_steps_open [of ordered completed "has_explicit_dependencies pack", folded ready_def]
  have waits: ?thesis if "lo_completed (snd y) = completed"
    "bindM (wait_or_stuck ordered) (\<lambda>r. returnM (Some r)) y = (Inr v, x')" for y
    using that by (auto simp: bindM_returns returnM_returns completed_def dest!: wait_or_stuck_completed)
  show ?thesis
  proof (cases "ready = []")
    case True
    with assms waits [of x] show ?thesis
      by (simp add: run_turn_def bindM_getL completed_def [symmetric] Let_def ready_def [symmetric])
  next
    case False
    obtain ps y where p: "prepare_steps t pack (steps_to_prepare parallel ready) x = (Inr ps, y)"
      and rest: "(if ps = [] then bindM (wait_or_stuck ordered) (\<lambda>r. returnM (Some r))
        else bindM (getL lo_run) (\<lambda>run.
          bindM (liftW (execute_prepared_steps env run t ps
              (parallel \<and> can_run_batch_in_parallel env t (map pr_step ps))
              (wp_max_parallel_steps pack))) (\<lambda>executed.
          thenM (forM executed (commit_executed env t pack ordered ps)) (returnM None)))) y = (Inr v, x')"
      using assms False
      by (auto simp: run_turn_def bindM_getL completed_def [symmetric] Let_def ready_def [symmetric]
          parallel_def [symmetric] bindM_returns)
    have y: "lo_completed (snd y) = completed"
      using on_locals_returns [OF prepare_steps_keeps_completed _ p, of completed] by (simp add: completed_def)
    show ?thesis
    proof (cases "ps = []")
      case True
      with rest waits [OF y] show ?thesis by simp
    next
      case False
      with rest obtain run b executed z where x: "execute_prepared_steps env run t ps b
            (wp_max_parallel_steps pack) (fst y) = (Inr executed, fst z)" "snd z = snd y"
          "forM executed (commit_executed env t pack ordered ps) z = (Inr (), x')" "v = None"
        by (auto simp: run_returns)
      have "pr_step p \<in> set ready" if "p \<in> fst ` set executed" for p
      proof -
        have "pr_step p \<in> set (steps_to_prepare parallel ready)"
          using executed_are_prepared [OF x(1) False] prepare_steps_are [OF p] that by blast
        then show ?thesis by (auto simp: steps_to_prepare_def dest: in_set_takeD split: if_splits)
      qed
      then have new: "pr_step p \<in> set ordered" "ws_name (pr_step p) \<notin> set completed"
        if "p \<in> fst ` set executed" for p
        using open_steps that by blast+
      have after: "set (lo_completed (snd x')) = ws_name ` pr_step ` fst ` set executed \<union> set completed"
        using commit_all_grows [OF x(3)] x(2) y by simp
      obtain p0 where p0: "p0 \<in> fst ` set executed"
        using executed_are_prepared [OF x(1) False] by fastforce
      have "ws_name (pr_step p0) \<in> set (lo_completed (snd x'))" using p0 after by blast
      then have "set completed \<noteq> set (lo_completed (snd x'))" using new(2) [OF p0] by metis
      moreover have "ws_name ` pr_step ` fst ` set executed \<subseteq> set (map ws_name ordered)"
        using new(1) by force
      then have "set (lo_completed (snd x')) \<subseteq> set completed \<union> set (map ws_name ordered)"
        unfolding after by (rule Un_least [OF le_supI2]) simp
      moreover have "set completed \<subseteq> set (lo_completed (snd x'))" unfolding after by simp
      ultimately show ?thesis unfolding completed_def [symmetric] by simp
    qed
  qed
qed

section \<open>The loop\<close>

text \<open>Fuel for one turn more than there are steps is enough.\<close>

lemma run_loop_fuel:
  assumes "run_loop env t pack ordered fuel x = (Inr None, x')" "0 < fuel"
  shows "card (set (lo_completed (snd x))) + fuel \<le> length ordered"
  using assms
proof (induction fuel arbitrary: x)
  case (Suc fuel)
  have less: "card (set (lo_completed (snd x))) < length ordered"
    using Suc.prems(1) by (auto simp: bindM_getL returnM_returns length_remdups_card_conv split: if_splits)
  then obtain y where t: "run_turn env t pack ordered x = (Inr None, y)"
    "run_loop env t pack ordered fuel y = (Inr None, x')"
    using Suc.prems(1)
    by (auto simp: bindM_getL bindM_returns returnM_returns length_remdups_card_conv split: option.splits)
  have "set (lo_completed (snd x)) \<subset> set (lo_completed (snd y))"
    using run_turn_completed [OF t(1)] by blast
  then have "card (set (lo_completed (snd x))) < card (set (lo_completed (snd y)))"
    by (intro psubset_card_mono) simp_all
  with Suc.IH [OF t(2)] less show ?case by (cases fuel) simp_all
qed simp

lemma run_loop_ends: "run_loop env t pack ordered (Suc (length ordered)) x \<noteq> (Inr None, x')"
  using run_loop_fuel [of env t pack ordered "Suc (length ordered)" x x'] by auto

lemma run_loop_more_fuel:
  assumes "run_loop env t pack ordered fuel x = (r, x')" "r \<noteq> Inr None"
  shows "run_loop env t pack ordered (fuel + k) x = (r, x')"
  using assms
proof (induction fuel arbitrary: x)
  case 0
  then show ?case by (simp add: returnM_def)
next
  case (Suc fuel)
  then show ?case
    by (auto simp: bindM_def getL_def getsM_def returnM_def split: prod.splits sum.splits option.splits
        if_splits)
qed

lemma run_loop_completed:
  assumes "run_loop env t pack ordered fuel x = (Inr (Some All_completed), x')"
    and "set (lo_completed (snd x)) \<subseteq> set (map ws_name ordered)"
  shows "set (lo_completed (snd x')) = set (map ws_name ordered)"
  using assms
proof (induction fuel arbitrary: x)
  case (Suc fuel)
  show ?case
  proof (cases "length ordered \<le> length (remdups (lo_completed (snd x)))")
    case True
    then have "x' = x" using Suc.prems(1) by (auto simp: bindM_getL returnM_returns)
    moreover have "card (set (map ws_name ordered)) \<le> card (set (lo_completed (snd x)))"
      using True card_length [of "map ws_name ordered"] by (simp add: length_remdups_card_conv)
    ultimately show ?thesis
      using card_subset_eq [OF _ Suc.prems(2)] card_mono [OF _ Suc.prems(2)] by simp
  next
    case False
    then obtain y where t: "run_turn env t pack ordered x = (Inr None, y)"
      "run_loop env t pack ordered fuel y = (Inr (Some All_completed), x')"
      using Suc.prems(1) by (auto simp: bindM_getL bindM_returns returnM_returns split: option.splits)
    have "set (lo_completed (snd y)) \<subseteq> set (map ws_name ordered)"
      using run_turn_completed [OF t(1)] Suc.prems(2) by auto
    from Suc.IH [OF t(2) this] show ?thesis .
  qed
qed (simp add: returnM_returns)

end
