(* ===== verification/Runner_Guarantees.thy ===== *)
theory Runner_Guarantees imports Runner_Loop begin

text \<open>
  How a run of \<open>core/runner.py\<close> ends: completed with everything closed and every step done,
  waiting for an approval that is really pending, or failed, with the failure persisted. The
  judgement \<open>raises_only\<close> bounds the exceptions of an action.
\<close>

named_theorems raises_intros

section \<open>The exceptions of an action\<close>

definition raises_only :: "(exn \<Rightarrow> bool) \<Rightarrow> ('s, 'a) act \<Rightarrow> bool" where
  "raises_only Q m \<longleftrightarrow> (\<forall>s e s'. m s = (Inl e, s') \<longrightarrow> Q e)"

lemma raises_onlyD: "raises_only Q m \<Longrightarrow> m s = (Inl e, s') \<Longrightarrow> Q e"
  by (auto simp: raises_only_def)

lemma raises_returnM [raises_intros]: "raises_only Q (returnM x)"
  by (simp add: raises_only_def returnM_def)

lemma raises_getsM [raises_intros]: "raises_only Q (getsM f)"
  by (simp add: raises_only_def getsM_def)

lemma raises_raiseM [raises_intros]: "Q e \<Longrightarrow> raises_only Q (raiseM e)"
  by (simp add: raises_only_def raiseM_def)

lemma raises_guardM [raises_intros]: "Q e \<Longrightarrow> raises_only Q (guardM b e)"
  by (simp add: guardM_def raises_returnM raises_raiseM)

lemma raises_bindM [raises_intros]:
  "raises_only Q m \<Longrightarrow> (\<And>x. raises_only Q (f x)) \<Longrightarrow> raises_only Q (bindM m f)"
  unfolding raises_only_def bindM_raises by blast

lemma raises_thenM [raises_intros]: "raises_only Q m \<Longrightarrow> raises_only Q k \<Longrightarrow> raises_only Q (thenM m k)"
  by (simp add: thenM_def raises_bindM)

lemma raises_whenM [raises_intros]: "raises_only Q m \<Longrightarrow> raises_only Q (whenM b m)"
  by (simp add: whenM_def raises_returnM)

lemma raises_if [raises_intros]:
  "raises_only Q m \<Longrightarrow> raises_only Q k \<Longrightarrow> raises_only Q (if b then m else k)"
  by simp

lemma raises_case_option [raises_intros]:
  "raises_only Q m \<Longrightarrow> (\<And>x. raises_only Q (f x)) \<Longrightarrow> raises_only Q (case v of None \<Rightarrow> m | Some x \<Rightarrow> f x)"
  by (cases v) auto

lemma raises_storage_basics [raises_intros]:
  "raises_only is_storage_error utc_now" "raises_only is_storage_error new_id"
  "raises_only is_storage_error sqlite_io" "raises_only is_storage_error (write_statement f)"
  by (auto simp: raises_only_def utc_now_def new_id_def write_statement_def sqlite_io_def thenM_def
      bindM_def split: option.splits if_splits sum.splits prod.splits)

lemma raises_transaction [raises_intros]:
  assumes "raises_only is_storage_error m"
  shows "raises_only is_storage_error (transaction m)"
  using assms raises_storage_basics(3) unfolding raises_only_def transaction_def Let_def
  by (fastforce split: sum.splits prod.splits if_splits)

lemma raises_rows [raises_intros]:
  "raises_only is_storage_error (insert_model rows put r)"
  "raises_only is_storage_error (update_model table rows put rid r)"
  "raises_only is_storage_error (get_model rows rid i)"
  "raises_only is_storage_error (list_models rows p)"
  unfolding insert_model_def update_model_def get_model_def list_models_def
  by (intro raises_intros; simp)+

lemma raises_guards [raises_intros]:
  "raises_only is_storage_error (ensure_belongs_to_run kind rows rid run_of i run_id)"
  "raises_only is_storage_error (ensure_runtime_job_session_matches i j)"
  unfolding ensure_belongs_to_run_def ensure_runtime_job_session_matches_def
  by (intro raises_intros; simp)+

lemma raises_updates [raises_intros]:
  "raises_only is_storage_error (update_run r)"
  "raises_only is_storage_error (update_agent_run x)"
  "raises_only is_storage_error (update_agent_session s)"
  "raises_only is_storage_error (update_runtime_job j)"
  unfolding update_run_def update_agent_run_def update_agent_session_def update_runtime_job_def
    ensure_final_artifact_def ensure_artifact_belongs_to_run_def dump_run_def Let_def
    ensure_agent_run_belongs_to_run_def ensure_runtime_job_owned_def
  by (intro raises_intros; simp)+

lemma raises_trace [raises_intros]: "raises_only is_storage_error (record_trace i t p a d)"
  unfolding record_trace_def append_trace_event_def ensure_agent_run_belongs_to_run_def
  by (intro raises_intros)

lemma raises_terminalize_rows:
  "(\<And>x. raises_only Q (update x)) \<Longrightarrow> raises_only Q (terminalize_rows terminal close update step xs)"
  by (induction xs) (auto intro!: raises_intros)

lemma raises_terminalize [raises_intros]:
  "raises_only is_storage_error (runner_terminalize_open_state i reason)"
  unfolding runner_terminalize_open_state_def terminalize_open_runtime_state_def Let_def
    list_agent_runs_for_run_def list_agent_sessions_for_run_def list_runtime_jobs_for_run_def
  by (intro raises_terminalize_rows raises_intros)

lemma raises_safe_error_message [raises_intros]: "raises_only Q (safe_error_message e)"
  by (cases e) (simp_all add: safe_error_message_def raises_returnM raises_getsM)

lemma raises_fail_run: "raises_only is_storage_error (fail_run run x s a e se j)"
  unfolding fail_run_def fail_job_def fail_session_def fail_agent_run_def Let_def
  by (intro raises_intros)

text \<open>What leaves the exception handler is a storage error or a runner error.\<close>

lemma run_failed_raises:
  assumes "run_failed l e w = (r, w')"
  obtains e' where "r = Inl e'" "is_storage_error e' \<or> is_runner_error e'"
proof -
  have "raises_only (\<lambda>e. is_storage_error e \<or> is_runner_error e) (run_failed l e)"
  proof -
    have *: "raises_only is_storage_error m \<Longrightarrow> raises_only (\<lambda>e. is_storage_error e \<or> is_runner_error e) m"
      for m :: "'z io" by (auto simp: raises_only_def)
    show ?thesis
      unfolding run_failed_def
      by (cases e) (auto intro!: raises_intros * [OF raises_fail_run] * [OF raises_terminalize])
  qed
  moreover have "r \<noteq> Inr v" for v
    using assms unfolding run_failed_def
    by (auto simp: bindM_returns thenM_returns raiseM_returns split: if_splits)
  then obtain e' where "r = Inl e'" by (cases r) auto
  ultimately show ?thesis using assms that by (auto dest: raises_onlyD)
qed

section \<open>What an action yields\<close>

text \<open>The result of an action from a given state, with what each part returned as a premise.\<close>

definition yields :: "('a \<Rightarrow> 's \<Rightarrow> bool) \<Rightarrow> ('s, 'a) act \<Rightarrow> 's \<Rightarrow> bool" where
  "yields Q m s \<longleftrightarrow> (\<forall>x s'. m s = (Inr x, s') \<longrightarrow> Q x s')"

lemma yieldsD: "yields Q m s \<Longrightarrow> m s = (Inr x, s') \<Longrightarrow> Q x s'"
  by (simp add: yields_def)

lemma yields_bindM: "(\<And>x s'. m s = (Inr x, s') \<Longrightarrow> yields Q (k x) s') \<Longrightarrow> yields Q (bindM m k) s"
  by (auto simp: yields_def bindM_returns)

lemma yields_thenM: "(\<And>x s'. m s = (Inr x, s') \<Longrightarrow> yields Q k s') \<Longrightarrow> yields Q (thenM m k) s"
  by (auto simp: yields_def thenM_returns)

lemma yields_returnM: "Q x s \<Longrightarrow> yields Q (returnM x) s"
  by (simp add: yields_def returnM_returns)

lemma yields_case_prod: "(\<And>x y. p = (x, y) \<Longrightarrow> yields Q (f x y) s) \<Longrightarrow> yields Q (case p of (x, y) \<Rightarrow> f x y) s"
  by (cases p) simp

lemmas yields_intros = yields_bindM yields_thenM yields_returnM yields_case_prod

section \<open>The run of the locals\<close>

text \<open>The identity of the active run never changes.\<close>

abbreviation run_is :: "string \<Rightarrow> run_locals \<Rightarrow> bool" where
  "run_is R l \<equiv> r_id (lo_run l) = R"

lemma run_is_prepare: "keeps (on_locals (run_is R)) (prepare_step_execution t pack s)"
  by (rule locals_prepare) simp_all

lemma run_is_prepare_steps: "keeps (on_locals (run_is R)) (prepare_steps t pack ss)"
  by (induction ss) (auto intro!: run_is_prepare keeps_modL_locals keeps_intros)

lemma run_is_commit: "keeps (on_locals (run_is R)) (commit_executed env t pack ordered ps x)"
  unfolding commit_executed_def commit_body_def abort_batch_def hand_over_def
    complete_runtime_state_def complete_attempt_def Let_def
  by (intro keeps_liftW_locals keeps_getL keeps_modL_locals keeps_intros; simp)

lemma run_is_turn: "keeps (on_locals (run_is R)) (run_turn env t pack ordered)"
  unfolding run_turn_def Let_def
  by (intro keeps_liftW_locals keeps_getL run_is_prepare_steps run_is_commit wait_or_stuck_same
      keeps_intros)

lemma run_is_loop: "keeps (on_locals (run_is R)) (run_loop env t pack ordered fuel)"
  by (induction fuel) (auto intro!: keeps_getL run_is_turn keeps_intros)

lemma run_is_enter: "keeps (on_locals (run_is R)) (enter_loop env t pack run)"
  unfolding enter_loop_def
  by (intro keeps_liftW_locals keeps_modL_locals keeps_liftE keeps_intros; simp)

lemma run_is_body: "keeps (on_locals (run_is R)) (run_body env t pack run)"
  unfolding run_body_def finish_run_def Let_def
  by (intro run_is_enter run_is_loop keeps_liftW_locals keeps_getL keeps_liftE keeps_intros)

section \<open>The three ends\<close>

text \<open>Peeling the first action off a sequence that returned.\<close>

lemma bind_E:
  assumes "bindM m k x = (Inr r, x')"
  obtains v y where "m x = (Inr v, y)" "k v y = (Inr r, x')"
  using assms by (auto simp: bindM_returns)

lemma then_E:
  assumes "thenM m k x = (Inr r, x')"
  obtains v y where "m x = (Inr v, y)" "k y = (Inr r, x')"
  using assms by (auto simp: thenM_returns)

lemma bind_liftWE:
  assumes "bindM (liftW m) k x = (Inr r, x')"
  obtains v w where "m (fst x) = (Inr v, w)" "k v (w, snd x) = (Inr r, x')"
  using assms by (auto simp: bindM_returns liftW_returns)

lemma then_liftWE:
  assumes "thenM (liftW m) k x = (Inr r, x')"
  obtains v w where "m (fst x) = (Inr v, w)" "k (w, snd x) = (Inr r, x')"
  using assms by (auto simp: thenM_returns liftW_returns)

lemma bind_liftEE:
  assumes "bindM (liftE m) k x = (Inr r, x')"
  obtains v where "k v x = (Inr r, x')"
  using assms by (auto simp: bindM_returns liftE_returns)

lemma then_guardE:
  assumes "thenM (guardM b e) k x = (Inr r, x')"
  obtains "b" "k x = (Inr r, x')"
  using assms by (auto simp: thenM_returns guardM_returns)

text \<open>
  A run that is stored as completed, with nothing of it open and an artifact of its own as final
  artifact; one that is stored as waiting for an approval that is pending; one that failed.
\<close>

definition completed_in :: "run \<Rightarrow> db \<Rightarrow> bool" where
  "completed_in r d \<longleftrightarrow> r_status r = Run_COMPLETED \<and> r_current_step r = None
     \<and> run_row_of r \<in> set (d_runs d) \<and> \<not> open_state (r_id r) d
     \<and> (\<exists>a \<in> set (d_artifacts d). r_final_artifact_id r = Some (art_id a) \<and> art_run_id a = r_id r)"

definition waiting_in :: "run \<Rightarrow> db \<Rightarrow> bool" where
  "waiting_in r d \<longleftrightarrow> r_status r = Run_WAITING \<and> run_row_of r \<in> set (d_runs d)
     \<and> (\<exists>j \<in> set (d_jobs d). j_run_id j = r_id r \<and> j_status j = Job_APPROVAL_REQUIRED
          \<and> r_current_step r = Some (j_step_name j))"

definition failed_in :: "string \<Rightarrow> db \<Rightarrow> bool" where
  "failed_in R d \<longleftrightarrow> (\<exists>x \<in> set (d_runs d). rr_id x = R) \<and> \<not> open_state R d
     \<and> (\<forall>x \<in> set (d_runs d). rr_id x = R \<longrightarrow> rr_status x = Run_FAILED)"

lemma update_run_final:
  assumes "update_run r w = (Inr y, w')" "r_final_artifact_id r = Some i"
  shows "\<exists>a \<in> set (d_artifacts (w_db w)). art_id a = i \<and> art_run_id a = r_id r"
  using assms
  by (auto simp: update_run_def ensure_final_artifact_def ensure_artifact_belongs_to_run_def returns_iff
      dest!: belongs_returns)

lemma replaced_run_row:
  assumes "w_db w' = put_runs (replace_row rr_id (run_row_of r) (d_runs (w_db w))) (w_db w)"
    "r_id r \<in> set (map rr_id (d_runs (w_db w)))"
  shows "run_row_of r \<in> set (d_runs (w_db w'))" "open_state R (w_db w') = open_state R (w_db w)"
    "d_artifacts (w_db w') = d_artifacts (w_db w)" "d_jobs (w_db w') = d_jobs (w_db w)"
  using assms by (auto simp: put_runs_def replace_row_set run_row_of_def open_state_def)

lemma finish_run_returns:
  assumes "finish_run pack ft x = (Inr r, x')" "schema_ok (w_db (fst x))"
  shows "completed_in r (w_db (fst x')) \<and> r_id r = r_id (lo_run (snd x)) \<and> snd x' = snd x"
proof -
  let ?run = "lo_run (snd x)"
  obtain final :: artifact where s: "bindM (liftW (evaluate_pack ?run (lo_last (snd x)) pack)) (\<lambda>failures.
    thenM (guardM (failures = []) (WorkflowRunnerError
      (''Blocking evaluation failed: '' @ join '', '' (map er_check_name failures))))
    (thenM (liftW (runner_terminalize_open_state (r_id ?run) ''run_completed''))
    (bindM (liftW utc_now) (\<lambda>now.
     let final_run = ?run\<lparr>r_status := Run_COMPLETED, r_current_step := None, r_finished_at := Some now,
           r_final_artifact_id := Some (art_id final)\<rparr> in
     thenM (liftW (update_run final_run)) (returnM final_run))))) x = (Inr r, x')"
    using assms(1) unfolding finish_run_def bindM_getL by (elim bind_liftEE)
  obtain failures w1 where e1: "evaluate_pack ?run (lo_last (snd x)) pack (fst x) = (Inr failures, w1)"
    and s: "thenM (liftW (runner_terminalize_open_state (r_id ?run) ''run_completed''))
    (bindM (liftW utc_now) (\<lambda>now.
     let final_run = ?run\<lparr>r_status := Run_COMPLETED, r_current_step := None, r_finished_at := Some now,
           r_final_artifact_id := Some (art_id final)\<rparr> in
     thenM (liftW (update_run final_run)) (returnM final_run))) (w1, snd x) = (Inr r, x')"
    using s by (elim bind_liftWE then_guardE)
  obtain u w2 where e2: "runner_terminalize_open_state (r_id ?run) ''run_completed'' w1 = (Inr u, w2)"
    and s: "bindM (liftW utc_now) (\<lambda>now.
     let final_run = ?run\<lparr>r_status := Run_COMPLETED, r_current_step := None, r_finished_at := Some now,
           r_final_artifact_id := Some (art_id final)\<rparr> in
     thenM (liftW (update_run final_run)) (returnM final_run)) (w2, snd x) = (Inr r, x')"
    using s by (elim then_liftWE) simp
  obtain now w3 where e3: "utc_now w2 = (Inr now, w3)"
    and s: "(let final_run = ?run\<lparr>r_status := Run_COMPLETED, r_current_step := None,
           r_finished_at := Some now, r_final_artifact_id := Some (art_id final)\<rparr> in
     thenM (liftW (update_run final_run)) (returnM final_run)) (w3, snd x) = (Inr r, x')"
    using s by (elim bind_liftWE) simp
  have e4: "r = ?run\<lparr>r_status := Run_COMPLETED, r_current_step := None, r_finished_at := Some now,
       r_final_artifact_id := Some (art_id final)\<rparr>"
    using s unfolding Let_def by (elim then_liftWE, unfold returnM_returns) (elim conjE)
  obtain y where u: "update_run r w3 = (Inr y, fst x')" and l: "snd x' = snd x"
    using s unfolding Let_def e4 [symmetric] by (elim then_liftWE) (auto simp: returnM_returns)
  note e = e1 e2 e3 e4
  have "schema_ok (w_db w1)"
    by (rule keepsD [OF schema_runner.frame_evaluations(1) assms(2) e(1)])
  then have t: "\<not> open_state (r_id ?run) (w_db w2)"
    using terminalize_open_effect [OF e(2) [unfolded runner_terminalize_open_state_def]] by blast
  note row = replaced_run_row [OF conjunct1 [OF conjunct2 [OF update_run_returns [OF u]]]]
  have id: "r_id r \<in> set (map rr_id (d_runs (w_db w3)))" using update_run_returns [OF u] by blast
  have "r_final_artifact_id r = Some (art_id final)" using e(4) by simp
  from update_run_final [OF u this] obtain a where "a \<in> set (d_artifacts (w_db w3))"
    "art_id a = art_id final" "art_run_id a = r_id r" by blast
  with e(4) t row [OF id] l utc_now_returns [OF e(3)] show ?thesis
    by (auto simp: completed_in_def intro!: bexI [of _ a])
qed

lemma wait_or_stuck_returns:
  assumes "wait_or_stuck ordered x = (Inr r, x')"
  shows "waiting_in r (w_db (fst x')) \<and> r_id r = r_id (lo_run (snd x))"
proof -
  let ?run = "lo_run (snd x)"
  define jobs where "jobs = filter (\<lambda>j. j_status j = Job_APPROVAL_REQUIRED)
    (filter (\<lambda>j. j_run_id j = r_id ?run) (d_jobs (w_db (fst x))))"
  have jobs: "jobs \<noteq> []" and w: "wait_run ?run (hd (map j_step_name jobs)) (fst x) = (Inr r, fst x')"
    using assms unfolding wait_or_stuck_def pending_approval_step_names_def list_runtime_jobs_for_run_def
      list_models_def jobs_def
    by (auto simp: run_returns split: if_splits)
  define waiting where "waiting = ?run\<lparr>r_status := Run_WAITING,
    r_current_step := Some (hd (map j_step_name jobs)), r_finished_at := None\<rparr>"
  obtain y w1 where u: "update_run waiting (fst x) = (Inr y, w1)"
    and t: "\<exists>z. record_trace (r_id ?run) RUNTIME_EVENT
       [(''action'', JStr ''run_waiting_for_local_approval''),
        (''step_name'', JStr (hd (map j_step_name jobs))),
        (''external_runtime_started'', JBool False)] None None w1 = (Inr z, fst x')" and r: "r = waiting"
    using w unfolding wait_run_def Let_def waiting_def [symmetric] by (auto simp: returns_iff)
  have d: "w_db w1 = put_runs (replace_row rr_id (run_row_of waiting) (d_runs (w_db (fst x)))) (w_db (fst x))"
    "r_id waiting \<in> set (map rr_id (d_runs (w_db (fst x))))"
    using update_run_returns [OF u] by blast+
  have same: "d_runs (w_db (fst x')) = d_runs (w_db w1)" "d_jobs (w_db (fst x')) = d_jobs (w_db w1)"
    using t by (auto simp: put_events_def dest!: record_trace_returns)
  have "hd jobs \<in> set jobs" using jobs by simp
  then have "hd jobs \<in> set (d_jobs (w_db (fst x')))" "j_run_id (hd jobs) = r_id ?run"
    "j_status (hd jobs) = Job_APPROVAL_REQUIRED"
    using same replaced_run_row(4) [OF d] by (auto simp: jobs_def)
  moreover have "hd (map j_step_name jobs) = j_step_name (hd jobs)" using jobs by (simp add: hd_map)
  ultimately show ?thesis
    using same replaced_run_row(1) [OF d] by (auto simp: r waiting_def waiting_in_def)
qed

lemma run_turn_waits:
  assumes "run_turn env t pack ordered x = (Inr (Some r), x')"
  shows "waiting_in r (w_db (fst x')) \<and> r_id r = r_id (lo_run (snd x))"
proof -
  have waits: ?thesis if "bindM (wait_or_stuck ordered) (\<lambda>r. returnM (Some r)) y = (Inr (Some r), x')"
    "r_id (lo_run (snd y)) = r_id (lo_run (snd x))" for y
    using that wait_or_stuck_returns [of ordered y] by (auto simp: bindM_returns returnM_returns)
  define ready where
    "ready = ready_steps ordered (lo_completed (snd x)) (has_explicit_dependencies pack)"
  show ?thesis
  proof (cases "ready = []")
    case True
    with assms show ?thesis by (intro waits [of x]) (simp_all add: run_turn_def bindM_getL ready_def)
  next
    case False
    then obtain ss ps y where p: "prepare_steps t pack ss x = (Inr ps, y)"
      and rest: "ps = [] \<Longrightarrow> bindM (wait_or_stuck ordered) (\<lambda>r. returnM (Some r)) y = (Inr (Some r), x')"
        "ps = []"
      using assms unfolding run_turn_def bindM_getL
      by (auto simp: Let_def ready_def [symmetric] bindM_returns thenM_returns returnM_returns split: if_splits)
    have "r_id (lo_run (snd y)) = r_id (lo_run (snd x))"
      by (rule on_locals_returns [OF run_is_prepare_steps _ p]) simp
    with rest show ?thesis by (intro waits [of y]) simp_all
  qed
qed

lemma run_loop_waits:
  assumes "run_loop env t pack ordered fuel x = (Inr (Some (Paused r)), x')"
  shows "waiting_in r (w_db (fst x')) \<and> r_id r = r_id (lo_run (snd x))"
  using assms
proof (induction fuel arbitrary: x)
  case (Suc fuel)
  then obtain v y where t: "run_turn env t pack ordered x = (Inr v, y)"
    and rest: "(case v of Some r \<Rightarrow> returnM (Some (Paused r)) | None \<Rightarrow> run_loop env t pack ordered fuel) y
      = (Inr (Some (Paused r)), x')"
    by (auto simp: bindM_getL bindM_returns returnM_returns split: if_splits)
  show ?case
  proof (cases v)
    case None
    have "r_id (lo_run (snd y)) = r_id (lo_run (snd x))"
      by (rule on_locals_returns [OF run_is_turn _ t]) simp
    with rest None Suc.IH [of y] show ?thesis by simp
  next
    case (Some r')
    with rest run_turn_waits [of env t pack ordered x r' y] t show ?thesis
      by (auto simp: returnM_returns)
  qed
qed (simp add: returnM_returns)

lemma run_body_parts:
  assumes "run_body env t pack0 run x = (Inr r, x')"
  obtains (waits) pack ft ordered y where
      "enter_loop env t pack0 run x = (Inr (pack, ft, ordered), y)"
      "run_loop env t pack ordered (Suc (length ordered)) y = (Inr (Some (Paused r)), x')"
    | (completes) pack ft ordered y z where
      "enter_loop env t pack0 run x = (Inr (pack, ft, ordered), y)"
      "run_loop env t pack ordered (Suc (length ordered)) y = (Inr (Some All_completed), z)"
      "finish_run pack ft z = (Inr r, x')"
proof -
  obtain pack ft ordered y where e: "enter_loop env t pack0 run x = (Inr (pack, ft, ordered), y)"
    and b: "bindM (run_loop env t pack ordered (Suc (length ordered))) (\<lambda>outcome. case outcome of
      Some (Paused r) \<Rightarrow> returnM r
    | Some All_completed \<Rightarrow> finish_run pack ft
    | None \<Rightarrow> raiseM (OtherError ''the loop ran out of fuel'')) y = (Inr r, x')"
  proof -
    obtain v y where v: "enter_loop env t pack0 run x = (Inr v, y)" and k: "(case v of (pack, ft, ordered) \<Rightarrow>
        bindM (run_loop env t pack ordered (Suc (length ordered))) (\<lambda>outcome. case outcome of
          Some (Paused r) \<Rightarrow> returnM r
        | Some All_completed \<Rightarrow> finish_run pack ft
        | None \<Rightarrow> raiseM (OtherError ''the loop ran out of fuel''))) y = (Inr r, x')"
      using assms unfolding run_body_def bindM_returns by blast
    obtain pack ft ordered where "v = (pack, ft, ordered)" by (cases v)
    with v k show thesis by (intro that [of pack ft ordered y]) simp_all
  qed
  from b obtain oc z where l: "run_loop env t pack ordered (Suc (length ordered)) y = (Inr oc, z)"
    and o: "(case oc of Some (Paused r) \<Rightarrow> returnM r | Some All_completed \<Rightarrow> finish_run pack ft
      | None \<Rightarrow> raiseM (OtherError ''the loop ran out of fuel'')) z = (Inr r, x')"
    unfolding bindM_returns by blast
  show thesis
  proof (cases oc)
    case None
    with o show thesis by (simp add: raiseM_returns)
  next
    case (Some v)
    then show thesis
      using o l waits [OF e] completes [OF e] by (cases v) (auto simp: returnM_returns)
  qed
qed

lemma run_body_ends:
  assumes "run_body env t pack run x = (Inr r, x')" "schema_ok (w_db (fst x))"
    and exec: "\<And>t r s a c. keeps (\<lambda>w. schema_ok (w_db w)) (re_execute env t r s a c)"
  shows "completed_in r (w_db (fst x')) \<or> waiting_in r (w_db (fst x'))"
    and "r_id r = r_id (lo_run (snd x))"
proof -
  have id: "r_id (lo_run (snd y)) = r_id (lo_run (snd x))"
    if "enter_loop env t pack run x = (v, y)" for v y
    by (rule on_locals_returns [OF run_is_enter _ that]) simp
  have "(completed_in r (w_db (fst x')) \<or> waiting_in r (w_db (fst x'))) \<and> r_id r = r_id (lo_run (snd x))"
    using assms(1)
  proof (cases rule: run_body_parts)
    case (waits p ft ordered y)
    from run_loop_waits [OF waits(2)] id [OF waits(1)] show ?thesis by simp
  next
    case (completes p ft ordered y z)
    have "schema_ok (w_db (fst y))"
      using keepsD [OF schema_runner.frame_enter _ completes(1)] assms(2) by (simp add: on_world_def)
    then have "schema_ok (w_db (fst z))"
      using keepsD [OF schema_runner.frame_run_loop [OF exec] _ completes(2)] by (simp add: on_world_def)
    moreover have "r_id (lo_run (snd z)) = r_id (lo_run (snd y))"
      by (rule on_locals_returns [OF run_is_loop _ completes(2)]) simp
    ultimately show ?thesis using finish_run_returns [OF completes(3)] id [OF completes(1)] by simp
  qed
  then show "completed_in r (w_db (fst x')) \<or> waiting_in r (w_db (fst x'))"
    "r_id r = r_id (lo_run (snd x))" by simp_all
qed

lemma fail_run_returns:
  assumes "fail_run run x s a e se j w = (Inr failed, w')"
  shows "r_id failed = r_id run \<and> (\<exists>x \<in> set (d_runs (w_db w')). rr_id x = r_id run)
    \<and> (\<forall>x \<in> set (d_runs (w_db w')). rr_id x = r_id run \<longrightarrow> rr_status x = Run_FAILED)"
proof -
  obtain w0 where "bindM utc_now (\<lambda>now.
     let failed = run\<lparr>r_status := Run_FAILED, r_finished_at := Some now\<rparr> in
     thenM (update_run failed)
     (bindM (safe_error_message e) (\<lambda>m.
      thenM (record_trace (r_id run) ERROR
        (dict_update [(''step_name'', jopt (JStr \<circ> ws_name) s),
           (''agent_id'', jopt (JStr \<circ> a_id) a), (''error_type'', JStr (exn_class e)),
           (''message'', JStr m)] (error_evidence e)) (map_option ar_id x) None)
      (returnM failed)))) w0 = (Inr failed, w')"
    using assms unfolding fail_run_def by (elim then_E)
  then obtain now w1 where s: "thenM (update_run (run\<lparr>r_status := Run_FAILED, r_finished_at := Some now\<rparr>))
     (bindM (safe_error_message e) (\<lambda>m.
      thenM (record_trace (r_id run) ERROR
        (dict_update [(''step_name'', jopt (JStr \<circ> ws_name) s),
           (''agent_id'', jopt (JStr \<circ> a_id) a), (''error_type'', JStr (exn_class e)),
           (''message'', JStr m)] (error_evidence e)) (map_option ar_id x) None)
      (returnM (run\<lparr>r_status := Run_FAILED, r_finished_at := Some now\<rparr>)))) w1 = (Inr failed, w')"
    unfolding Let_def by (elim bind_E)
  let ?f = "run\<lparr>r_status := Run_FAILED, r_finished_at := Some now\<rparr>"
  obtain y w2 where u: "update_run ?f w1 = (Inr y, w2)"
    and s: "bindM (safe_error_message e) (\<lambda>m.
      thenM (record_trace (r_id run) ERROR
        (dict_update [(''step_name'', jopt (JStr \<circ> ws_name) s),
           (''agent_id'', jopt (JStr \<circ> a_id) a), (''error_type'', JStr (exn_class e)),
           (''message'', JStr m)] (error_evidence e)) (map_option ar_id x) None)
      (returnM ?f)) w2 = (Inr failed, w')"
    using s by (elim then_E)
  obtain m w3 p z w4 where tr: "safe_error_message e w2 = (Inr m, w3)"
      "record_trace (r_id run) ERROR p (map_option ar_id x) None w3 = (Inr z, w4)"
      "returnM ?f w4 = (Inr failed, w')"
    using s by (elim bind_E then_E)
  have "w3 = w2"
    using tr(1) by (cases e) (auto simp: safe_error_message_def returnM_def getsM_def)
  have f: "failed = ?f" "w' = w4" using tr(3) by (simp_all only: returnM_returns)
  have d: "w_db w2 = put_runs (replace_row rr_id (run_row_of ?f) (d_runs (w_db w1))) (w_db w1)"
    "r_id run \<in> set (map rr_id (d_runs (w_db w1)))"
    using update_run_returns [OF u] by simp_all
  have "d_runs (w_db w') = replace_row rr_id (run_row_of ?f) (d_runs (w_db w1))"
    using record_trace_returns [OF tr(2)] d(1) \<open>w3 = w2\<close> by (auto simp: f(2) put_events_def put_runs_def)
  moreover have row: "rr_id (run_row_of ?f) = r_id run" "rr_status (run_row_of ?f) = Run_FAILED"
    by (simp_all add: run_row_of_def)
  ultimately have "set (d_runs (w_db w'))
      = {x \<in> set (d_runs (w_db w1)). rr_id x \<noteq> r_id run} \<union> {run_row_of ?f}"
    using d(2) by (simp add: replace_row_set)
  moreover have "r_id failed = r_id run" unfolding f(1) by simp
  ultimately show ?thesis using row by blast
qed

lemma run_failed_closes:
  assumes "run_failed l e w = (Inl e', w')" "schema_ok (w_db w)" "is_runner_error e'"
  shows "failed_in (r_id (lo_run l)) (w_db w')"
proof -
  have notplain: "\<not> is_plain_storage_error e"
    using assms(1,3) by (cases e; cases e') (auto simp: run_failed_def raiseM_def)
  then have run: "bindM (fail_run (lo_run l) (lo_agent_run l) (lo_step l) (lo_agent l) e (lo_session l) (lo_job l))
      (\<lambda>failed. thenM (runner_terminalize_open_state (r_id failed) ''run_failed'')
        (if is_runner_error e then raiseM e
         else bindM (safe_error_message e) (\<lambda>m. raiseM (WorkflowRunnerError m)))) w = (Inl e' :: exn + run, w')"
    using assms(1) by (simp only: run_failed_def if_False)
  have "\<not> is_storage_error e'" using assms(3) by (cases e') simp_all
  then obtain failed w1 u w2 where f: "fail_run (lo_run l) (lo_agent_run l) (lo_step l) (lo_agent l) e
        (lo_session l) (lo_job l) w = (Inr failed, w1)"
      and t: "runner_terminalize_open_state (r_id failed) ''run_failed'' w1 = (Inr u, w2)"
      and k: "(if is_runner_error e then raiseM e
         else bindM (safe_error_message e) (\<lambda>m. raiseM (WorkflowRunnerError m))) w2 = (Inl e' :: exn + run, w')"
    using run raises_onlyD [OF raises_fail_run] raises_onlyD [OF raises_terminalize]
    unfolding bindM_raises thenM_def by blast
  have w': "w' = w2"
    using k by (cases e) (auto simp: raiseM_def bindM_def safe_error_message_def getsM_def returnM_def)
  have "schema_ok (w_db w1)"
    by (rule keepsD [OF schema_runner.frame_fail_run assms(2) f])
  from terminalize_open_effect [OF t [unfolded runner_terminalize_open_state_def] this]
  show ?thesis using fail_run_returns [OF f] by (auto simp: failed_in_def w')
qed

lemma start_run_returns:
  assumes "start_run run b w = (Inr active, w')"
  shows "r_id active = r_id run \<and> r_status active = Run_RUNNING"
proof -
  obtain existing w1 where g: "get_run (r_id run) w = (Inr existing, w1)"
    and k: "(case existing of
      None \<Rightarrow>
        thenM (guardM (\<not> b) (WorkflowRunnerError (''Run not found: '' @ r_id run)))
        (bindM utc_now (\<lambda>now.
         let started = run\<lparr>r_status := Run_RUNNING, r_current_step := None, r_started_at := Some now,
               r_finished_at := None, r_final_artifact_id := None\<rparr> in
         thenM (create_run started) (returnM started)))
    | Some e \<Rightarrow>
        if b \<and> r_status e = Run_WAITING then
          let resumed = e\<lparr>r_status := Run_RUNNING, r_finished_at := None\<rparr> in
          thenM (update_run resumed) (returnM resumed)
        else
          thenM (guardM (r_status e = Run_QUEUED)
            (WorkflowRunnerError (''Run is not queued and cannot be started: '' @ r_id e)))
          (bindM (case r_started_at e of Some t \<Rightarrow> returnM t | None \<Rightarrow> utc_now) (\<lambda>start_time.
           let started = e\<lparr>r_status := Run_RUNNING, r_current_step := None, r_started_at := Some start_time,
                 r_finished_at := None, r_final_artifact_id := None\<rparr> in
           thenM (update_run started) (returnM started)))) w1 = (Inr active, w')"
    using assms unfolding start_run_def by (elim bind_E)
  show ?thesis
  proof (cases existing)
    case None
    with k show ?thesis unfolding Let_def by (auto simp: returnM_returns elim!: then_E bind_E)
  next
    case (Some e)
    have "r_id e = r_id run" using get_run_returns [OF g] Some by simp
    with k Some show ?thesis
      unfolding Let_def by (auto simp: returnM_returns elim!: then_E bind_E split: if_splits)
  qed
qed

section \<open>The completed attempts\<close>

text \<open>Every completed step has an attempt that completed.\<close>

definition attempts_done :: "run_locals \<Rightarrow> bool" where
  "attempts_done l \<longleftrightarrow> (\<forall>n \<in> set (lo_completed l).
     \<exists>x. map_of (lo_by_step l) n = Some x \<and> ar_status x = AgentRun_COMPLETED)"

lemma map_of_fold_jput:
  "map_of (fold (\<lambda>x d. jput (key x) x d) xs d) n = Some x
    \<Longrightarrow> (x \<in> set xs \<and> key x = n) \<or> map_of d n = Some x"
  by (induction xs arbitrary: d) (fastforce split: if_splits)+

lemma map_of_dict_of: "map_of (dict_of key xs) n = Some x \<Longrightarrow> x \<in> set xs \<and> key x = n"
  unfolding dict_of_def by (drule map_of_fold_jput) simp

lemma dict_of_keys: "n \<in> set (map fst (dict_of key xs)) \<Longrightarrow> \<exists>x \<in> set xs. key x = n
    \<and> map_of (dict_of key xs) n = Some x"
  using map_of_dict_of by (metis map_of_eq_None_iff list.set_map not_None_eq)

lemma completed_state_returns:
  assumes "completed_step_state i ordered w = (Inr (by_step, artifacts), w')"
  shows "(\<forall>l. lo_by_step l = by_step \<longrightarrow> lo_completed l = map fst by_step \<longrightarrow> attempts_done l)
    \<and> fst ` set by_step \<subseteq> set (map ws_name ordered)"
proof -
  obtain xs where b: "by_step = dict_of ar_step_name (filter (\<lambda>x. ar_step_name x \<in> set (map ws_name ordered))
      (completed_attempts xs))"
    using assms unfolding completed_step_state_def Let_def by (auto simp: returns_iff)
  have "\<exists>x. map_of by_step n = Some x \<and> ar_status x = AgentRun_COMPLETED \<and> n \<in> set (map ws_name ordered)"
    if "n \<in> fst ` set by_step" for n
  proof -
    have "n \<in> set (map fst by_step)" using that by simp
    then obtain x where "x \<in> set (filter (\<lambda>x. ar_step_name x \<in> set (map ws_name ordered)) (completed_attempts xs))"
      "ar_step_name x = n" "map_of by_step n = Some x"
      unfolding b using dict_of_keys by metis
    then show ?thesis by (auto simp: completed_attempts_def)
  qed
  then show ?thesis unfolding attempts_done_def by (simp add: subset_iff) blast
qed

lemma attempts_enter:
  assumes "enter_loop env t pack0 run x = (Inr (pack, ft, ordered), y)"
  shows "attempts_done (snd y) \<and> set (lo_completed (snd y)) \<subseteq> set (map ws_name ordered)
    \<and> ordered_steps pack = Inr ordered
    \<and> fst (resolved_execution_plan_pack env run pack0 (fst x)) = Inr pack"
proof -
  define Q where "Q = (\<lambda>(pack, ft :: artifact_type, ordered) (y :: world \<times> run_locals). attempts_done (snd y)
    \<and> set (lo_completed (snd y)) \<subseteq> set (map ws_name ordered) \<and> ordered_steps pack = Inr ordered
    \<and> fst (resolved_execution_plan_pack env run pack0 (fst x)) = Inr pack)"
  have "yields Q (enter_loop env t pack0 run) x"
    unfolding enter_loop_def
    by (intro yields_intros)
      (auto simp: Q_def liftE_returns liftW_returns guardM_returns modL_returns
        dest!: completed_state_returns)
  then show ?thesis using assms unfolding yields_def Q_def by blast
qed

lemma attempts_commit: "keeps (on_locals attempts_done) (commit_executed env t pack ordered ps x)"
proof -
  have "attempts_done (l\<lparr>lo_by_step := jput n (completed_attempt now m y) (lo_by_step l),
      lo_completed := List.insert n (lo_completed l), lo_artifacts := z\<rparr>)" if "attempts_done l" for l n now m y z
    using that by (auto simp: attempts_done_def completed_attempt_def)
  moreover have "attempts_done (f l) \<longleftrightarrow> attempts_done l"
    if "lo_completed (f l) = lo_completed l" "lo_by_step (f l) = lo_by_step l" for f l
    using that by (simp add: attempts_done_def)
  ultimately show ?thesis
    unfolding commit_executed_def commit_body_def abort_batch_def hand_over_def
      complete_runtime_state_def complete_attempt_def Let_def
    by (intro keeps_liftW_locals keeps_getL keeps_modL_locals keeps_intros) (auto)
qed

lemma attempts_turn: "keeps (on_locals attempts_done) (run_turn env t pack ordered)"
proof -
  have "keeps (on_locals attempts_done) (prepare_step_execution t pack s)" for s
    by (rule locals_prepare) (simp_all add: attempts_done_def)
  then have "keeps (on_locals attempts_done) (prepare_steps t pack ss)" for ss
    by (induction ss) (auto intro!: keeps_modL_locals keeps_intros simp: attempts_done_def)
  then show ?thesis
    unfolding run_turn_def Let_def
    by (intro keeps_liftW_locals keeps_getL attempts_commit wait_or_stuck_same keeps_intros)
qed

lemma attempts_loop: "keeps (on_locals attempts_done) (run_loop env t pack ordered fuel)"
  by (induction fuel) (auto intro!: keeps_getL attempts_turn keeps_intros)

section \<open>The guarantees\<close>

lemma finish_same: "keeps (on_locals P) (finish_run pack ft)"
  unfolding finish_run_def Let_def by (intro keeps_liftW_locals keeps_getL keeps_liftE keeps_intros)

text \<open>What starting and running a run come to.\<close>

lemma run_pack_parts:
  assumes "run_pack env run pack b w = (Inr r, w')" "schema_ok (w_db w)"
    and exec: "\<And>t r s a c. keeps (\<lambda>w. schema_ok (w_db w)) (re_execute env t r s a c)"
  shows "(completed_in r (w_db w') \<or> waiting_in r (w_db w')) \<and> r_id r = r_id run"
proof -
  obtain active t w1 w2 where a: "start_run run b w = (Inr active, w1)"
    "task_for_run active w1 = (Inr t, w2)" "guarded_run env t pack active w2 = (Inr r, w')"
    using assms(1) unfolding run_pack_def by (auto simp: bindM_returns thenM_returns liftE_returns)
  have "schema_ok (w_db w2)"
    using keepsD [OF schema_runner.frame_start(2) keepsD [OF schema_runner.frame_start(1) assms(2) a(1)] a(2)] .
  moreover obtain l where "run_body env t pack active (w2, initial_locals active) = (Inr r, (w', l))"
    using a(3) by (auto simp: guarded_run_def dest: run_failed_raises split: sum.splits prod.splits)
  ultimately show ?thesis
    using run_body_ends [of env t pack active "(w2, initial_locals active)" r "(w', l)", OF _ _ exec]
      start_run_returns [OF a(1)] by (simp add: initial_locals_def)
qed

lemma failed_run_closes:
  assumes "check_plan_pair run = Inr ()" "start_run run b w = (Inr active, w1)"
    "task_for_run active w1 = (Inr t, w2)" "schema_ok (w_db w)"
    and run: "run_pack env run pack b w = (Inl e, w')"
    and exec: "\<And>t r s a c. keeps (\<lambda>w. schema_ok (w_db w)) (re_execute env t r s a c)"
  shows "is_storage_error e \<or> (is_runner_error e \<and> failed_in (r_id run) (w_db w'))"
proof -
  have g: "guarded_run env t pack active w2 = (Inl e, w')"
    using assms(1-3) run by (simp add: run_pack_def thenM_def bindM_def liftE_def returnM_def)
  have schema: "schema_ok (w_db w2)"
    using keepsD [OF schema_runner.frame_start(2) keepsD [OF schema_runner.frame_start(1) assms(4,2)] assms(3)] .
  obtain e0 w3 l where body: "run_body env t pack active (w2, initial_locals active) = (Inl e0, (w3, l))"
    and fail: "run_failed l e0 w3 = (Inl e, w')"
    using g by (auto simp: guarded_run_def split: sum.splits prod.splits)
  have "on_world (\<lambda>w. schema_ok (w_db w)) (w3, l)"
    by (rule keepsD [OF schema_runner.frame_run_body [OF exec] _ body]) (simp add: on_world_def schema)
  then have "schema_ok (w_db w3)" by (simp add: on_world_def)
  moreover have "r_id (lo_run l) = r_id run"
    using on_locals_returns [OF run_is_body _ body, of "r_id run"] start_run_returns [OF assms(2)]
    by (simp add: initial_locals_def)
  moreover have "is_storage_error e \<or> is_runner_error e"
    by (rule run_failed_raises [OF fail]) simp
  ultimately show ?thesis using run_failed_closes [OF fail] by auto
qed

text \<open>
  C29. The main loop ends: with one turn more than there are steps it never runs out of turns,
  whatever the executor, the approvals and the storage do, and more turns do not change what it
  does.
\<close>

theorem runner_loop_terminates:
  "fst (run_loop env t pack ordered (Suc (length ordered)) x) \<noteq> Inr None
    \<and> run_loop env t pack ordered (Suc (length ordered) + k) x
      = run_loop env t pack ordered (Suc (length ordered)) x"
proof -
  obtain r x' where r: "run_loop env t pack ordered (Suc (length ordered)) x = (r, x')" by (meson surj_pair)
  then have "r \<noteq> Inr None" using run_loop_ends by metis
  with r run_loop_more_fuel [OF r] show ?thesis by simp
qed

text \<open>
  C30. The loop only ends as completed when the work is done: each step of the order is among the
  completed ones and has an attempt that completed, if that holds of the steps it was entered with.
\<close>

theorem completed_loop_did_every_step:
  assumes "run_loop env t pack ordered fuel x = (Inr (Some All_completed), x')"
    and "set (lo_completed (snd x)) \<subseteq> set (map ws_name ordered)" "attempts_done (snd x)"
  shows "set (lo_completed (snd x')) = set (map ws_name ordered)
    \<and> (\<forall>s \<in> set ordered. \<exists>a. map_of (lo_by_step (snd x')) (ws_name s) = Some a
         \<and> ar_status a = AgentRun_COMPLETED)"
proof -
  have "set (lo_completed (snd x')) = set (map ws_name ordered)"
    by (rule run_loop_completed [OF assms(1,2)])
  moreover have "attempts_done (snd x')"
    by (rule on_locals_returns [OF attempts_loop assms(3,1)])
  ultimately show ?thesis by (fastforce simp: attempts_done_def)
qed

text \<open>
  C31. However a started run ends, what is stored says so. When it returns, it is stored as
  completed, with no attempt, session or job left open and a final artifact that is stored and its
  own, or it is stored as waiting at a step whose job requires an approval. When it raises, the
  exception is a storage error, or it is a runner error and the run is stored as failed with
  nothing left open. The executor is arbitrary as long as it respects the constraints of the
  database.
\<close>

theorem run_outcome_is_persisted:
  assumes "check_plan_pair run = Inr ()" "start_run run b w = (Inr active, w1)"
    and "task_for_run active w1 = (Inr t, w2)" "schema_ok (w_db w)"
    and "\<And>t r s a c. keeps (\<lambda>w. schema_ok (w_db w)) (re_execute env t r s a c)"
  shows "case run_pack env run pack b w of
      (Inr r, w') \<Rightarrow> r_id r = r_id run \<and> (completed_in r (w_db w') \<or> waiting_in r (w_db w'))
    | (Inl e, w') \<Rightarrow> is_storage_error e \<or> (is_runner_error e \<and> failed_in (r_id run) (w_db w'))"
proof (cases "run_pack env run pack b w")
  case (Pair v w')
  show ?thesis
  proof (cases v)
    case (Inl e)
    with Pair failed_run_closes [OF assms(1-4) _ assms(5)] show ?thesis by simp
  next
    case (Inr r)
    with Pair run_pack_parts [OF _ assms(4,5)] show ?thesis by simp
  qed
qed

section \<open>Examples\<close>

text \<open>
  An executor that writes one artifact of the type its step declares, and a queued run.
\<close>

definition example_output :: "string \<Rightarrow> agent_step_output" where
  "example_output kind = \<lparr>so_summary = ''done'', so_artifacts = [\<lparr>ao_type = kind, ao_filename = ''out.md'',
     ao_content = ''text'', ao_source_refs = []\<rparr>], so_open_questions = [], so_risk_notes = [],
     so_eval_results = [], so_model_request = None, so_model_response = None\<rparr>"

definition example_env :: runner_env where
  "example_env = \<lparr>re_execute = (\<lambda>t r s a c. returnM (example_output
       (case ws_produces_artifact_type s of None \<Rightarrow> ''patch'' | Some k \<Rightarrow> k))),
     re_parallel = (\<lambda>_ _. True), re_schedule = (\<lambda>_. 0), re_cancels = (\<lambda>_. False),
     re_environ = (\<lambda>_. None), re_load_plan = (\<lambda>_. None), re_plan_hash = (\<lambda>_. ''hash''),
     re_plan_error = (\<lambda>_. ''error'')\<rparr>"

definition example_queued :: world where
  "example_queued = example_world (empty_db\<lparr>d_tasks := [example_task],
     d_runs := [run_row_of (example_run\<lparr>r_status := Run_QUEUED\<rparr>)]\<rparr>)"

lemma example_starts:
  "check_plan_pair example_run = Inr ()" "schema_ok (w_db example_queued)"
  "returned (start_run example_run False example_queued)"
  "returned (bindM (start_run example_run False) task_for_run example_queued)"
  by code_simp+

lemma example_executor:
  "keeps (\<lambda>w. schema_ok (w_db w)) (re_execute example_env t r s a c)"
  by (simp add: example_env_def keeps_returnM)

theorem run_outcome_is_persisted_witness:
  "case run_pack example_env example_run example_pack False example_queued of
      (Inr r, w') \<Rightarrow> r_id r = ''run-1'' \<and> (completed_in r (w_db w') \<or> waiting_in r (w_db w'))
    | (Inl e, w') \<Rightarrow> is_storage_error e \<or> (is_runner_error e \<and> failed_in ''run-1'' (w_db w'))"
proof -
  obtain t where "bindM (start_run example_run False) task_for_run example_queued
      = (Inr t, snd (bindM (start_run example_run False) task_for_run example_queued))"
    by (rule returnedE [OF example_starts(4)])
  then obtain active w1 w2 where "start_run example_run False example_queued = (Inr active, w1)"
    "task_for_run active w1 = (Inr t, w2)" unfolding bindM_returns by blast
  from run_outcome_is_persisted [OF example_starts(1) this example_starts(2) example_executor]
  have "case run_pack example_env example_run example_pack False example_queued of
      (Inr r, w') \<Rightarrow> r_id r = r_id example_run \<and> (completed_in r (w_db w') \<or> waiting_in r (w_db w'))
    | (Inl e, w') \<Rightarrow> is_storage_error e \<or> (is_runner_error e \<and> failed_in (r_id example_run) (w_db w'))" .
  moreover have "r_id example_run = ''run-1''" by (simp add: example_run_def)
  ultimately show ?thesis by (simp only:)
qed

section \<open>A run of one step\<close>

text \<open>
  An upper bound of the length of a JSON text that is quick to evaluate; a float takes at most
  three characters here.
\<close>

primrec json_size :: "jval \<Rightarrow> int" where
  "json_size JNull = 4"
| "json_size (JBool b) = 5"
| "json_size (JInt n) = int (length (show_int n))"
| "json_size (JFloat q) = 3"
| "json_size JNan = 3"
| "json_size JPosInf = 8"
| "json_size JNegInf = 9"
| "json_size (JStr s) = 6 * int (length s) + 2"
| "json_size (JList xs) = 2 + sum_list (map (\<lambda>n. n + 1) (map json_size xs))"
| "json_size (JObj d) = 2 + sum_list (map (\<lambda>(k, n). 6 * int (length k) + n + 4) (map (map_prod id json_size) d))"

lemma length_json_string: "int (length (json_string v)) \<le> 6 * int (length v) + 2"
proof -
  have "length (json_escape c) \<le> 6" for c by (simp add: json_escape_def)
  then have "length (concat (map json_escape v)) \<le> 6 * length v"
    by (induction v) (auto intro: add_mono)
  then show ?thesis by (simp add: json_string_def)
qed

lemma length_join: "int (length (join '','' xs)) \<le> sum_list (map (\<lambda>x. int (length x) + 1) xs)"
  by (induction "'',''::string" xs rule: join.induct) auto

lemma sum_list_bound: "(\<And>x. x \<in> set xs \<Longrightarrow> f x \<le> (g x :: int)) \<Longrightarrow> sum_list (map f xs) \<le> sum_list (map g xs)"
  by (induction xs) (auto intro: add_mono)

lemma compact_json_size:
  assumes "\<And>q. length (f q) \<le> 3"
  shows "int (length (compact_json f v)) \<le> json_size v"
proof (induction v)
  case (JFloat q)
  then show ?case using assms by (simp add: compact_json_def)
next
  case (JStr s)
  then show ?case using length_json_string [of s] by (simp add: compact_json_def)
next
  case (JList xs)
  have "sum_list (map (\<lambda>x. int (length (compact_json f x)) + 1) xs) \<le> sum_list (map (\<lambda>x. json_size x + 1) xs)"
    by (rule sum_list_bound) (use JList in auto)
  then show ?case
    using length_join [of "map (compact_json f) xs"] by (simp add: compact_json_def comp_def)
next
  case (JObj d)
  let ?member = "\<lambda>(k, v). json_string k @ '':'' @ compact_json f v"
  have "sum_list (map (\<lambda>x. int (length (?member x)) + 1) d)
      \<le> sum_list (map (\<lambda>(k, v). 6 * int (length k) + json_size v + 4) d)"
  proof (rule sum_list_bound)
    fix x assume x: "x \<in> set d"
    obtain k v where kv: "x = (k, v)" by (cases x)
    have "int (length (compact_json f v)) \<le> json_size v"
      using JObj [of x v] x kv by simp
    then show "int (length (?member x)) + 1 \<le> (case x of (k, v) \<Rightarrow> 6 * int (length k) + json_size v + 4)"
      using length_json_string [of k] kv by simp
  qed
  then show ?case
    using length_join [of "map ?member d"]
    by (simp add: compact_json_def comp_def case_prod_unfold map_prod_def)
qed (simp_all add: compact_json_def)

text \<open>A Pack of one step that writes no artifact.\<close>

definition example_plan_only :: workflow_step where
  "example_plan_only = (example_step ''plan'' ''planner'' [] DESIGN_DOC)\<lparr>ws_produces_artifact_type := None\<rparr>"

definition example_short_pack :: workflow_pack where
  "example_short_pack = example_pack\<lparr>wp_agents := [example_agent ''planner''], wp_steps := [example_plan_only]\<rparr>"

definition example_silent_env :: runner_env where
  "example_silent_env = example_env\<lparr>re_execute := (\<lambda>t r s a c. returnM ((example_output ''patch'')\<lparr>so_artifacts := []\<rparr>))\<rparr>"

definition example_active :: run where
  "example_active = example_run\<lparr>r_status := Run_RUNNING, r_current_step := Some ''plan''\<rparr>"

text \<open>The run is stored and the agent of its one step is registered.\<close>

definition example_loop_db :: db where
  "example_loop_db = empty_db\<lparr>d_tasks := [example_task], d_agents := [example_agent ''planner''],
     d_runs := [run_row_of example_active]\<rparr>"

definition example_registry :: agent_registry where
  "example_registry = (case register_agent (example_agent ''planner'') empty_registry of Inr g \<Rightarrow> g)"

definition example_entered :: "world \<times> run_locals" where
  "example_entered = ((example_world example_loop_db)\<lparr>w_registry := example_registry\<rparr>, initial_locals example_active)"

definition example_marked :: "world \<times> run_locals" where
  "example_marked = (snd (update_run example_active (fst example_entered)),
     (initial_locals example_active)\<lparr>lo_step := Some example_plan_only, lo_agent := Some (example_agent ''planner'')\<rparr>)"

text \<open>What the first attempt of the step leaves.\<close>

definition example_attempt :: agent_run where
  "example_attempt = \<lparr>ar_id = ''id-'', ar_run_id = ''run-1'', ar_agent_id = ''agent-planner'', ar_step_name = ''plan'',
     ar_input_context = step_input_context example_plan_only, ar_status = AgentRun_RUNNING,
     ar_started_at = Some 1000, ar_finished_at = None, ar_output_summary = None\<rparr>"

definition example_attempt_world :: world where
  "example_attempt_world = (example_world (example_loop_db\<lparr>d_agent_runs := [example_attempt]\<rparr>))
     \<lparr>w_registry := example_registry, w_ticks := 1, w_ids := 1, w_ios := 6\<rparr>"

definition example_attempt_locals :: run_locals where
  "example_attempt_locals = (snd example_marked)\<lparr>lo_agent_run := Some example_attempt\<rparr>"

definition example_attempted :: "(exn + agent_run) \<times> world \<times> run_locals" where
  "example_attempted = attempt_of_step example_active (example_agent ''planner'') example_plan_only example_marked"

text \<open>Worlds are compared field by field, those that are functions at an arbitrary argument.\<close>

definition same_fields :: "nat \<Rightarrow> string \<Rightarrow> rat \<Rightarrow> world \<Rightarrow> world \<Rightarrow> bool" where
  "same_fields n v q w w' \<longleftrightarrow> w_db w = w_db w' \<and> w_depth w = w_depth w' \<and> w_ticks w = w_ticks w' \<and> w_ids w = w_ids w'
     \<and> w_ios w = w_ios w' \<and> w_clock w n = w_clock w' n \<and> w_fresh w n = w_fresh w' n \<and> w_fault w n = w_fault w' n
     \<and> w_redact w v = w_redact w' v \<and> w_registry w = w_registry w' \<and> w_files w = w_files w'
     \<and> w_syscalls w = w_syscalls w' \<and> w_os_fault w n = w_os_fault w' n \<and> w_sha256 w v = w_sha256 w' v
     \<and> w_encode w v = w_encode w' v \<and> w_decode w v = w_decode w' v \<and> w_show_float w q = w_show_float w' q"

lemma same_fieldsD: "(\<And>n v q. same_fields n v q w w') \<Longrightarrow> w = w'"
  by (rule world.equality) (auto simp: same_fields_def)

lemma example_attempted_world: "case example_attempted of (r, w, l) \<Rightarrow>
    r = Inr example_attempt \<and> same_fields n v q w example_attempt_world \<and> l = example_attempt_locals"
  by code_simp

lemma example_attempted_is: "example_attempted = (Inr example_attempt, example_attempt_world, example_attempt_locals)"
proof -
  obtain r w l where e: "example_attempted = (r, w, l)" by (cases example_attempted)
  have same: "r = Inr example_attempt \<and> same_fields n v q w example_attempt_world \<and> l = example_attempt_locals" for n v q
    using example_attempted_world [of n v q] unfolding e by simp
  then have "w = example_attempt_world" by (intro same_fieldsD) blast
  with e same show ?thesis by simp
qed

definition example_context_parts :: context_parts where
  "example_context_parts = \<lparr>cx_task = example_task, cx_run = example_active, cx_step = example_plan_only,
     cx_agent_run = example_attempt, cx_previous_agent_run = None, cx_previous_handoff = None,
     cx_upstream_handoffs = [], cx_agent_session = None, cx_runtime_job = None, cx_artifacts = [],
     cx_total_artifacts = [], cx_artifact_texts = [], cx_truncated_ids = []\<rparr>"

definition example_prepared_step :: "jobj \<Rightarrow> prepared_step" where
  "example_prepared_step C = \<lparr>pr_step = example_plan_only, pr_agent = example_agent ''planner'',
     pr_agent_run = example_attempt, pr_session = None, pr_job = None, pr_context = Some C\<rparr>"

definition example_recorded :: "jobj \<Rightarrow> world" where
  "example_recorded P = snd (record_trace ''run-1'' WORKFLOW_EVENT P (Some (ar_id example_attempt)) None example_attempt_world)"

definition example_step_started :: "jobj \<Rightarrow> world \<times> run_locals" where
  "example_step_started P = (example_recorded P, example_attempt_locals\<lparr>lo_session := None, lo_job := None\<rparr>)"

text \<open>The rest of the turn, for any context and any payload of its trace event.\<close>

definition example_turn_rest :: "jobj \<Rightarrow> jobj \<Rightarrow> (exn + unit) \<times> world \<times> run_locals" where
  "example_turn_rest C P = bindM (liftW (execute_prepared_steps example_silent_env example_active example_task
       [example_prepared_step C] False 2))
     (\<lambda>executed. forM executed (commit_executed example_silent_env example_task example_short_pack [example_plan_only]
        [example_prepared_step C])) (example_step_started P)"

definition example_committed :: "(exn + unit) \<times> world \<times> run_locals \<Rightarrow> bool" where
  "example_committed = (\<lambda>(r, w, l). r = Inr () \<and> lo_completed l = [''plan''])"

lemma example_commits: "example_committed (example_turn_rest C P)"
  by code_simp

lemma example_context_small: "json_size (JObj (injected_context (\<lambda>v. v) example_context_parts)) \<le> 100000"
  by code_simp

lemma example_recordable: "returned (record_trace ''run-1'' WORKFLOW_EVENT P (Some (ar_id example_attempt)) None example_attempt_world)"
  by code_simp

lemma example_marks:
  "returned (update_run example_active (fst example_entered))"
  "fst (agent_for_step example_short_pack example_plan_only (fst example_marked)) = Inr (example_agent ''planner'')"
  "ordered_steps example_short_pack = Inr [example_plan_only]" "\<not> has_explicit_dependencies example_short_pack"
  "validate_step_inputs example_task example_plan_only = Inr ()"
  by code_simp+

lemma example_plan_only_fields:
  "ws_name example_plan_only = ''plan''" "ws_depends_on example_plan_only = []" "ws_required_artifacts example_plan_only = []"
  "ws_requires_artifact example_plan_only = []" "ws_context_policy example_plan_only = default_context_policy"
  by (simp_all add: example_plan_only_def example_step_def)

lemma example_attempt_fields:
  "lo_session example_attempt_locals = None" "lo_job example_attempt_locals = None" "lo_handoffs example_attempt_locals = []"
  "lo_by_step example_attempt_locals = []" "d_artifacts (w_db example_attempt_world) = []"
  "w_encode example_attempt_world = (\<lambda>v. v)" "w_show_float example_attempt_world = (\<lambda>_. ''0.5'')"
  "ar_status example_attempt = AgentRun_RUNNING" "r_id example_active = ''run-1''"
  by (simp_all add: example_attempt_locals_def example_marked_def initial_locals_def example_attempt_world_def
      example_world_def example_loop_db_def empty_db_def example_attempt_def example_active_def example_run_def)

lemma example_context_built:
  "\<exists>C P. build_context example_task example_active example_plan_only example_attempt None None [] None None example_attempt_world
     = (Inr C, example_recorded P)"
proof -
  define ctx where "ctx = injected_context (\<lambda>v. v) example_context_parts"
  have "int (length (compact_json (\<lambda>_. ''0.5'') (JObj ctx))) \<le> 100000"
    using compact_json_size [of "\<lambda>_. ''0.5''" "JObj ctx"] example_context_small by (simp only: ctx_def) simp
  then obtain P where built: "build_injected_context (\<lambda>v. v) (\<lambda>_. ''0.5'') example_context_parts = Inr (ctx, P)"
    by (simp add: build_injected_context_def Let_def bindE_def guardE_def ctx_def
        example_context_parts_def example_plan_only_fields default_context_policy_def)
  obtain ev where recorded: "record_trace ''run-1'' WORKFLOW_EVENT P (Some (ar_id example_attempt)) None example_attempt_world
      = (Inr ev, example_recorded P)"
    using returnedE [OF example_recordable [of P]] by (metis example_recorded_def)
  obtain runs where lists: "list_artifacts_for_run ''run-1'' example_attempt_world = (Inr [], example_attempt_world)"
      "list_agent_runs_for_run ''run-1'' example_attempt_world = (Inr runs, example_attempt_world)"
    by (simp add: list_artifacts_for_run_def list_agent_runs_for_run_def list_models_def act_defs example_attempt_fields)
  show ?thesis
    using lists built recorded
    by (simp add: build_context_def bindM_def thenM_def getsM_def returnM_def liftE_def Let_def example_plan_only_fields
        example_attempt_fields default_context_policy_def example_context_parts_def dict_of_def) blast
qed

lemma example_prepares:
  "\<exists>C P. prepare_steps example_task example_short_pack [example_plan_only] example_entered
    = (Inr [example_prepared_step C], example_step_started P)"
proof -
  let ?S = example_plan_only and ?R = example_active and ?ag = "example_agent ''planner''"
    and ?w = example_attempt_world and ?l = example_attempt_locals
  note runs = bindM_def thenM_def liftW_def modL_def modifyM_def getL_def getsM_def returnM_def liftE_def Let_def
  obtain C P where made: "build_context example_task ?R ?S example_attempt None None [] None None ?w = (Inr C, example_recorded P)"
    using example_context_built by blast
  have executable: "executable_step example_task example_short_pack ?S ?R ?ag example_attempt (?w, ?l)
      = (Inr (example_prepared_step C), (example_recorded P, ?l))"
    using made example_marks(3,4)
    by (simp add: executable_step_def activated_attempt_def dependency_context_for_step_def previous_context_for_step_def
        with_lineage_def runs example_plan_only_fields example_attempt_fields dict_list_def index_of_def example_prepared_step_def)
  have agent: "agent_for_step example_short_pack ?S (fst example_marked) = (Inr ?ag, fst example_marked)"
    using example_marks(2)
    by (auto simp: agent_for_step_def registry_lookup_def act_defs liftE_returns split: option.splits if_splits sum.splits prod.splits)
  have artifacts: "validate_step_artifacts ?R ?S example_short_pack ?w = (Inr (), ?w)"
    by (simp add: validate_step_artifacts_def list_artifacts_for_run_def list_models_def runs example_plan_only_fields
        example_attempt_fields runner_guard_def guardE_def)
  have attempted: "attempt_of_step ?R ?ag ?S example_marked = (Inr example_attempt, ?w, ?l)"
    using example_attempted_is by (simp add: example_attempted_def)
  have body: "prepare_body example_task example_short_pack ?S ?R (fst example_marked, (snd example_marked)\<lparr>lo_agent := None\<rparr>)
      = (Inr (example_prepared_step C), (example_recorded P, ?l))"
  proof -
    have "(fst example_marked, (snd example_marked)\<lparr>lo_agent := Some ?ag\<rparr>) = example_marked"
      by (simp add: example_marked_def initial_locals_def)
    then show ?thesis
      using agent attempted artifacts executable example_marks(5)
      by (simp add: prepare_body_def runs activate_approved_def waits_for_approval_def opt_ex_def example_attempt_fields)
  qed
  obtain u where u: "update_run ?R (fst example_entered) = (Inr u, fst example_marked)"
    using returnedE [OF example_marks(1)] by (metis example_marked_def fst_conv)
  have start: "snd example_entered = initial_locals ?R" "lo_run (initial_locals ?R) = ?R" "?R\<lparr>r_current_step := Some ''plan''\<rparr> = ?R"
    by (simp_all add: example_entered_def initial_locals_def example_active_def)
  have locals: "(initial_locals ?R)\<lparr>lo_run := ?R, lo_step := Some ?S, lo_agent := None, lo_agent_run := None, lo_session := None,
      lo_job := None\<rparr> = (snd example_marked)\<lparr>lo_agent := None\<rparr>"
    by (simp add: example_marked_def initial_locals_def)
  have "prepare_step_execution example_task example_short_pack ?S example_entered
      = (Inr (example_prepared_step C), (example_recorded P, ?l))"
    using u body start locals
    by (simp add: prepare_step_execution_def runs catchM_def example_plan_only_fields case_prod_unfold)
  moreover have "?l\<lparr>lo_step := Some ?S, lo_agent := Some ?ag, lo_agent_run := Some example_attempt, lo_session := None,
      lo_job := None\<rparr> = ?l\<lparr>lo_session := None, lo_job := None\<rparr>"
    by (simp add: example_attempt_locals_def example_marked_def)
  ultimately have "prepare_steps example_task example_short_pack [?S] example_entered
      = (Inr [example_prepared_step C], example_step_started P)"
    by (simp add: runs example_prepared_step_def waits_for_approval_def opt_ex_def example_step_started_def)
  then show ?thesis by blast
qed

lemma example_turns:
  "\<exists>x. run_loop example_silent_env example_task example_short_pack [example_plan_only] 2 example_entered
    = (Inr (Some All_completed), x)"
proof -
  let ?S = example_plan_only
  obtain C P where p: "prepare_steps example_task example_short_pack [?S] example_entered
      = (Inr [example_prepared_step C], example_step_started P)"
    using example_prepares by blast
  obtain x where x: "example_turn_rest C P = (Inr (), x)" "lo_completed (snd x) = [''plan'']"
    using example_commits [of C P] by (cases "example_turn_rest C P") (auto simp: example_committed_def)
  have ready: "ready_steps [?S] [] False = [?S]"
    by (simp add: ready_steps_def example_plan_only_fields)
  have pack: "wp_max_parallel_steps example_short_pack = 2" by (simp add: example_short_pack_def example_pack_def)
  have start: "lo_completed (snd example_entered) = []" "lo_run (snd (example_step_started P)) = example_active"
    by (simp_all add: example_entered_def initial_locals_def example_step_started_def example_attempt_locals_def example_marked_def)
  have "run_turn example_silent_env example_task example_short_pack [?S] example_entered = (Inr None, x)"
  proof -
    have "getL lo_completed example_entered = (Inr [], example_entered)"
      using start by (simp add: getL_def getsM_def case_prod_unfold)
    moreover have "getL lo_run (example_step_started P) = (Inr example_active, example_step_started P)"
      using start by (simp add: getL_def getsM_def case_prod_unfold)
    moreover have "bindM (liftW (execute_prepared_steps example_silent_env example_active example_task
        [example_prepared_step C] False 2)) (\<lambda>executed. thenM (forM executed (commit_executed example_silent_env example_task
          example_short_pack [?S] [example_prepared_step C])) (returnM None)) (example_step_started P) = (Inr None, x)"
      using x(1) unfolding example_turn_rest_def thenM_def
      by (auto simp: bindM_def returnM_def split: prod.splits sum.splits)
    ultimately show ?thesis
      using p ready example_marks(4) pack
      by (simp add: run_turn_def bindM_after steps_to_prepare_def Let_def)
  qed
  then show ?thesis
    using start(1) x(2) by (simp add: numeral_2_eq_2 bindM_def getL_def getsM_def returnM_def case_prod_unfold)
qed

text \<open>The loop is entered with nothing completed and takes one turn.\<close>

theorem completed_loop_did_every_step_witness:
  "\<exists>x a. run_loop example_silent_env example_task example_short_pack [example_plan_only] 2 example_entered
      = (Inr (Some All_completed), x)
    \<and> lo_completed (snd example_entered) = [] \<and> set (lo_completed (snd x)) = {''plan''}
    \<and> map_of (lo_by_step (snd x)) ''plan'' = Some a \<and> ar_status a = AgentRun_COMPLETED"
proof -
  obtain x where x: "run_loop example_silent_env example_task example_short_pack [example_plan_only] 2 example_entered
      = (Inr (Some All_completed), x)"
    using example_turns by blast
  have start: "lo_completed (snd example_entered) = []"
    by (simp add: example_entered_def initial_locals_def)
  from completed_loop_did_every_step [OF x] show ?thesis
    using start x by (simp add: attempts_done_def example_plan_only_fields)
qed

end
