(* ===== verification/Parallel_Execution.thy ===== *)
theory Parallel_Execution imports Runner_Guarantees begin

text \<open>
  The thread pool that executes a batch of prepared steps (\<open>_execute_prepared_steps\<close> of
  \<open>backend/app/core/runner.py\<close>): its state machine, the invariant of its reachable states, the
  end of its loop, and its agreement with the serial execution.
\<close>

section \<open>The pool as a state machine\<close>

text \<open>Whichever running future completes next, with whatever result.\<close>

inductive pool_reachable :: "runner_env \<Rightarrow> prepared_step list \<Rightarrow> int \<Rightarrow> pool \<Rightarrow> bool"
  for env ps n where
  pool_starts: "pool_reachable env ps n (start_pool ps n)"
| pool_completes: "pool_reachable env ps n p \<Longrightarrow> i \<in> set (po_running p)
    \<Longrightarrow> pool_reachable env ps n (pool_completed env ps i r p)"

text \<open>
  Running futures are distinct, have no output yet, and together with the outputs are the futures
  that were submitted; never more than the workers run at once.
\<close>

definition pool_ok :: "prepared_step list \<Rightarrow> int \<Rightarrow> pool \<Rightarrow> bool" where
  "pool_ok ps n p \<longleftrightarrow> distinct (po_running p @ map fst (po_outputs p))
     \<and> set (po_running p @ map fst (po_outputs p)) = {..<po_next p} \<and> po_next p \<le> length ps
     \<and> length (po_running p) \<le> nat (min (int (length ps)) n)
     \<and> (po_failed p = None \<longrightarrow> (\<forall>x \<in> set (po_outputs p). \<exists>out. snd x = Inr out)
          \<and> (po_next p < length ps \<longrightarrow> length (po_running p) = nat (min (int (length ps)) n)))"

lemma pool_ok_count: "pool_ok ps n p \<Longrightarrow> length (po_running p) + length (po_outputs p) = po_next p"
  using distinct_card [of "po_running p @ map fst (po_outputs p)"] by (simp add: pool_ok_def)

lemma start_pool_ok: "pool_ok ps n (start_pool ps n)"
  by (auto simp: pool_ok_def start_pool_def Let_def)

lemma fst_cancelled: "map fst (map (cancelled_output ps) xs) = xs"
  by (induction xs) (simp_all add: cancelled_output_def)

lemma pool_completed_ok:
  assumes ok: "pool_ok ps n p" and i: "i \<in> set (po_running p)"
  shows "pool_ok ps n (pool_completed env ps i r p)"
proof -
  define rest where "rest = remove1 i (po_running p)"
  define keys where "keys = map fst (po_outputs p)"
  have p: "distinct (po_running p)" "distinct keys" "set (po_running p) \<inter> set keys = {}"
    "set (po_running p) \<union> set keys = {..<po_next p}" "po_next p \<le> length ps"
    "length (po_running p) \<le> nat (min (int (length ps)) n)"
    using ok by (simp_all add: pool_ok_def keys_def)
  have rest: "distinct rest" "set rest = set (po_running p) - {i}"
    "length (po_running p) = Suc (length rest)"
    using p(1) i length_pos_if_in_set [OF i] by (simp_all add: rest_def length_remove1)
  have fresh: "i \<notin> set keys" "i \<notin> set rest" "i < po_next p" "set rest \<inter> set keys = {}"
    "insert i (set rest \<union> set keys) = {..<po_next p}"
    using p(3,4) i rest(2) by auto
  then have next_fresh: "po_next p \<notin> set rest" "po_next p \<notin> set keys" by auto
  show ?thesis
  proof (cases r)
    case (Inr out)
    show ?thesis
    proof (cases "po_failed p = None \<and> po_next p < length ps")
      case True
      then have "pool_completed env ps i r p = p\<lparr>po_running := rest @ [po_next p],
          po_next := Suc (po_next p), po_outputs := po_outputs p @ [(i, r)]\<rparr>"
        by (simp add: pool_completed_def Let_def Inr rest_def)
      then show ?thesis
        using ok True p rest fresh next_fresh
        by (auto simp: pool_ok_def keys_def [symmetric] lessThan_Suc Inr)
    next
      case False
      then have c: "pool_completed env ps i r p = p\<lparr>po_running := rest, po_outputs := po_outputs p @ [(i, r)]\<rparr>"
        by (auto simp: pool_completed_def Let_def Inr rest_def)
      show ?thesis
        using ok False p rest fresh unfolding c
        by (auto simp: pool_ok_def keys_def [symmetric] Inr)
    qed
  next
    case (Inl e)
    define failed where "failed = (case po_failed p of None \<Rightarrow> i | Some j \<Rightarrow> min j i)"
    define cancelled where "cancelled = filter (\<lambda>j. failed < j \<and> re_cancels env j) rest"
    have c: "pool_completed env ps i r p = p\<lparr>po_running := filter (\<lambda>j. j \<notin> set cancelled) rest,
        po_failed := Some failed, po_outputs := (po_outputs p @ [(i, r)]) @ map (cancelled_output ps) cancelled,
        po_cancelled := po_cancelled p @ cancelled\<rparr>"
      by (simp add: pool_completed_def Let_def Inl rest_def failed_def cancelled_def)
    define left where "left = filter (\<lambda>j. j \<notin> set cancelled) rest"
    have cancelled: "distinct cancelled" "set cancelled \<subseteq> set rest" using rest(1) by (auto simp: cancelled_def)
    have left: "distinct left" "set left = set rest - set cancelled" "length left \<le> length rest"
      using rest(1) by (auto simp: left_def length_filter_le)
    have dist: "distinct (left @ keys @ i # cancelled)"
      using left(1,2) cancelled p(2) fresh(1,2,4) by auto
    have "set (left @ keys @ i # cancelled) = insert i (set rest \<union> set keys)"
      using left(2) cancelled(2) by auto
    with dist show ?thesis
      using p(5,6) rest(3) left(3) fresh(5) unfolding c left_def [symmetric]
      by (simp add: pool_ok_def keys_def [symmetric] fst_cancelled del: map_map)
  qed
qed

lemma pool_reachable_ok: "pool_reachable env ps n p \<Longrightarrow> pool_ok ps n p"
  by (induction rule: pool_reachable.induct) (simp_all add: start_pool_ok pool_completed_ok)

section \<open>The loop of the pool\<close>

lemma attempt_returns: "attempt m w = (r, w') \<Longrightarrow> \<exists>x. r = Inr x \<and> m w = (x, w')"
  by (auto simp: attempt_def split: prod.splits)

lemma pool_completed_outputs: "length (po_outputs p) < length (po_outputs (pool_completed env ps i r p))"
  by (auto simp: pool_completed_def Let_def split: sum.split)

lemma pool_loop_ends:
  assumes "pool_reachable env ps n p" "length ps \<le> length (po_outputs p) + fuel"
  obtains q w' where "pool_loop env run t ps fuel p w = (Inr q, w')" "pool_reachable env ps n q"
    "po_running q = []"
proof -
  have "\<exists>q w'. pool_loop env run t ps fuel p w = (Inr q, w') \<and> pool_reachable env ps n q \<and> po_running q = []"
    using assms
  proof (induction fuel arbitrary: p w)
    case 0
    have ok: "pool_ok ps n p" by (rule pool_reachable_ok [OF 0(1)])
    then have "po_next p \<le> length ps" by (simp add: pool_ok_def)
    with pool_ok_count [OF ok] 0(2) have "length (po_running p) = 0" by linarith
    with 0 show ?case by (auto simp: returnM_def)
  next
    case (Suc fuel)
    show ?case
    proof (cases "po_running p = []")
      case True
      with Suc.prems show ?thesis by (auto simp: returnM_def)
    next
      case False
      define i where "i = po_running p ! (re_schedule env (po_running p) mod length (po_running p))"
      have i: "i \<in> set (po_running p)" using False by (simp add: i_def)
      obtain r w1 where r: "attempt (execute_prepared_step env run t (ps ! i)) w = (Inr r, w1)"
        using attempt_returns by (metis surj_pair)
      have "pool_loop env run t ps (Suc fuel) p w
          = pool_loop env run t ps fuel (pool_completed env ps i r p) w1"
        using False r by (simp add: Let_def i_def [symmetric] bindM_def)
      moreover have "length ps \<le> length (po_outputs (pool_completed env ps i r p)) + fuel"
        using Suc.prems(2) pool_completed_outputs [of p env ps i r] by simp
      ultimately show ?thesis
        using Suc.IH [OF pool_completes [OF Suc.prems(1) i]] by metis
    qed
  qed
  then show thesis using that by blast
qed

lemma map_of_defined: "i \<in> fst ` set xs \<Longrightarrow> \<exists>v. map_of xs i = Some v"
  by (meson map_of_eq_None_iff not_None_eq)

lemma pool_outputs_cover:
  assumes "pool_reachable env ps n p" "po_running p = []"
  shows "distinct (map fst (pool_outputs ps p)) \<and> set (map fst (pool_outputs ps p)) = {..<length ps}"
proof -
  have "pool_ok ps n p" by (rule pool_reachable_ok [OF assms(1)])
  then show ?thesis using assms(2)
    by (auto simp: pool_ok_def pool_outputs_def fst_cancelled simp del: map_map)
qed

text \<open>With an executor that succeeds on every step, without effects of its own.\<close>

lemma pool_loop_pure:
  assumes pure: "\<And>p v. p \<in> set ps \<Longrightarrow> execute_prepared_step env run t p v = (Inr (f p), v)"
    and "pool_loop env run t ps fuel p w = (Inr q, w')"
    and "pool_reachable env ps n p" "po_failed p = None"
    and "\<forall>(i, r) \<in> set (po_outputs p). r = Inr (f (ps ! i))"
  shows "w' = w \<and> pool_reachable env ps n q \<and> po_failed q = None
    \<and> (\<forall>(i, r) \<in> set (po_outputs q). r = Inr (f (ps ! i)))"
  using assms(2-)
proof (induction fuel arbitrary: p)
  case (Suc fuel)
  show ?case
  proof (cases "po_running p = []")
    case True
    with Suc.prems show ?thesis by (simp add: returnM_def)
  next
    case False
    define i where "i = po_running p ! (re_schedule env (po_running p) mod length (po_running p))"
    have i: "i \<in> set (po_running p)" using False by (simp add: i_def)
    have ok: "pool_ok ps n p" by (rule pool_reachable_ok [OF Suc.prems(2)])
    then have "i \<in> {..<po_next p}" using i unfolding pool_ok_def by auto
    then have "i < length ps" using ok by (simp add: pool_ok_def)
    then have "attempt (execute_prepared_step env run t (ps ! i)) w = (Inr (Inr (f (ps ! i))), w)"
      by (simp add: attempt_def pure)
    then have "pool_loop env run t ps fuel (pool_completed env ps i (Inr (f (ps ! i))) p) w = (Inr q, w')"
      using Suc.prems(1) False by (simp add: Let_def i_def [symmetric] bindM_def)
    moreover have "po_failed (pool_completed env ps i (Inr (f (ps ! i))) p) = None"
      using Suc.prems(3) by (simp add: pool_completed_def Let_def)
    moreover have "\<forall>(j, r) \<in> set (po_outputs (pool_completed env ps i (Inr (f (ps ! i))) p)). r = Inr (f (ps ! j))"
      using Suc.prems(4) by (auto simp: pool_completed_def Let_def)
    ultimately show ?thesis using Suc.IH pool_completes [OF Suc.prems(2) i] by blast
  qed
qed (simp add: returnM_def)

lemma execute_serial_pure:
  assumes "\<And>p v. p \<in> set ps \<Longrightarrow> execute_prepared_step env run t p v = (Inr (f p), v)"
  shows "execute_serial env run t ps w = (Inr (map (\<lambda>p. (p, Inr (f p))) ps), w)"
  using assms by (induction ps) (simp_all add: bindM_def attempt_def returnM_def)

section \<open>The properties\<close>

text \<open>
  C32. In every state that the pool reaches, whichever futures complete, fail or can be cancelled,
  no more steps run than there are workers, no step is submitted or completes twice, and as long as
  nothing failed the workers are kept busy until every step is submitted.
\<close>

theorem pool_stays_within_bounds:
  assumes "pool_reachable env ps n p"
  shows "length (po_running p) \<le> nat (min (int (length ps)) n)
    \<and> distinct (po_running p @ map fst (po_outputs p))
    \<and> set (po_running p @ map fst (po_outputs p)) = {..<po_next p} \<and> po_next p \<le> length ps
    \<and> (po_failed p \<noteq> None \<or> po_next p = length ps
        \<or> length (po_running p) = nat (min (int (length ps)) n))"
  using pool_reachable_ok [OF assms] unfolding pool_ok_def by (metis le_less)

text \<open>
  C33. The pool always empties: a batch has one result for each prepared step, in the order of the
  steps, unless recording the batch fails.
\<close>

theorem parallel_execution_is_complete:
  "\<exists>p w'. pool_loop env run t ps (length ps) (start_pool ps n) w = (Inr p, w') \<and> po_running p = []
    \<and> distinct (map fst (pool_outputs ps p)) \<and> set (map fst (pool_outputs ps p)) = {..<length ps}"
proof -
  obtain p w' where p: "pool_loop env run t ps (length ps) (start_pool ps n) w = (Inr p, w')"
    "pool_reachable env ps n p" "po_running p = []"
    by (rule pool_loop_ends [OF pool_starts [of env ps n], of "length ps" run t w]) simp
  with pool_outputs_cover [OF p(2,3)] show ?thesis by blast
qed

text \<open>
  C34. Executing a batch in parallel and one step after the other is the same, for every order in
  which the futures complete, when the executor succeeds on each step and depends on nothing but
  the step.
\<close>

theorem parallel_execution_agrees_with_serial:
  assumes "\<And>p v. p \<in> set ps \<Longrightarrow> execute_prepared_step env run t p v = (Inr (f p), v)"
    and "1 \<le> n" "execute_parallel env run t ps n w = (Inr xs, w')"
  shows "execute_serial env run t ps w = (Inr xs, w)"
proof -
  obtain w1 p w2 where p: "pool_loop env run t ps (length ps) (start_pool ps n) w1 = (Inr p, w2)"
    and xs: "xs = map (\<lambda>i. (ps ! i, the (map_of (pool_outputs ps p) i))) [0..<length ps]"
    using assms(3) unfolding execute_parallel_def Let_def
    by (auto simp: thenM_returns bindM_returns returnM_returns)
  have "po_failed (start_pool ps n) = None" "po_outputs (start_pool ps n) = []"
    by (simp_all add: start_pool_def Let_def)
  then have q: "pool_reachable env ps n p" "po_failed p = None"
    "\<forall>(i, r) \<in> set (po_outputs p). r = Inr (f (ps ! i))"
    using pool_loop_pure [OF assms(1) p pool_starts] by auto
  have empty: "po_running p = []"
    by (rule pool_loop_ends [OF pool_starts [of env ps n], of "length ps" run t w1]) (simp_all add: p)
  have "po_next p = length ps"
  proof (rule ccontr)
    assume "po_next p \<noteq> length ps"
    then have "nat (min (int (length ps)) n) = 0" "ps \<noteq> []"
      using pool_reachable_ok [OF q(1)] q(2) empty by (auto simp: pool_ok_def)
    with assms(2) show False by (cases ps) auto
  qed
  then have outputs: "pool_outputs ps p = po_outputs p" by (simp add: pool_outputs_def)
  have "the (map_of (pool_outputs ps p) i) = Inr (f (ps ! i))" if "i < length ps" for i
  proof -
    have "i \<in> fst ` set (pool_outputs ps p)" using pool_outputs_cover [OF q(1) empty] that by auto
    then obtain v where "map_of (pool_outputs ps p) i = Some v" using map_of_defined by metis
    with q(3) outputs show ?thesis by (auto dest: map_of_SomeD)
  qed
  then have "xs = map (\<lambda>i. (\<lambda>p. (p, Inr (f p))) (ps ! i)) [0..<length ps]" by (simp add: xs)
  also have "\<dots> = map (\<lambda>p. (p, Inr (f p))) (map (nth ps) [0..<length ps])" by simp
  finally show ?thesis using execute_serial_pure [OF assms(1)] by (simp add: map_nth)
qed

section \<open>Examples\<close>

definition example_prepared :: "string \<Rightarrow> prepared_step" where
  "example_prepared n = \<lparr>pr_step = example_step n ''writer'' [] PATCH, pr_agent = example_agent ''writer'',
     pr_agent_run = example_agent_run, pr_session = None, pr_job = None, pr_context = Some []\<rparr>"

definition example_batch :: "prepared_step list" where
  "example_batch = [example_prepared ''a'', example_prepared ''b'', example_prepared ''c'']"

theorem pool_stays_within_bounds_witness:
  "length (po_running (pool_completed example_env example_batch 0 (Inr (example_output ''patch''))
      (start_pool example_batch 2))) \<le> 2"
proof -
  have "pool_reachable example_env example_batch 2
      (pool_completed example_env example_batch 0 (Inr (example_output ''patch'')) (start_pool example_batch 2))"
    by (intro pool_completes pool_starts) (simp add: start_pool_def example_batch_def)
  from pool_stays_within_bounds [OF this] show ?thesis by (simp add: example_batch_def)
qed

lemma example_batch_executes:
  "returned (execute_parallel example_env example_run example_task example_batch 2 example_queued)"
  by code_simp

theorem parallel_execution_agrees_with_serial_witness:
  "fst (execute_parallel example_env example_run example_task example_batch 2 example_queued)
    = fst (execute_serial example_env example_run example_task example_batch example_queued)"
proof -
  obtain xs where xs: "execute_parallel example_env example_run example_task example_batch 2 example_queued
      = (Inr xs, snd (execute_parallel example_env example_run example_task example_batch 2 example_queued))"
    by (rule returnedE [OF example_batch_executes])
  have pure: "execute_prepared_step example_env example_run example_task p v = (Inr (example_output ''patch''), v)"
    if "p \<in> set example_batch" for p v
    using that by (auto simp: example_batch_def example_prepared_def execute_prepared_step_def example_env_def
        example_step_def returnM_def)
  have "execute_serial example_env example_run example_task example_batch example_queued = (Inr xs, example_queued)"
    by (rule parallel_execution_agrees_with_serial [OF pure _ xs]) simp_all
  then have "fst (execute_serial example_env example_run example_task example_batch example_queued) = Inr xs"
    by simp
  moreover have "fst (execute_parallel example_env example_run example_task example_batch 2 example_queued) = Inr xs"
    using arg_cong [OF xs, of fst] by simp
  ultimately show ?thesis by simp
qed

end
