(* ===== verification/Model_Capabilities.thy ===== *)
theory Model_Capabilities imports Prelude begin

text \<open>
  \<open>backend/app/core/model_capabilities.py\<close>: what a model is known to support, found by the
  provider and the most specific matching pattern of its name. The registry that is loaded
  from a file is not modelled; the built-in one is. \<open>fnmatch.fnmatchcase\<close> is the one of the
  standard library.
\<close>

section \<open>Shell patterns\<close>

text \<open>
  The text between the brackets is cut at the hyphens that stand for a range: a hyphen after
  the first character of the set, or after the first one that follows a range. \<open>split_ranges\<close>
  gives the pieces between those hyphens; \<open>lead\<close> is how many characters still come before a
  hyphen may stand for a range.
\<close>

fun split_ranges :: "nat \<Rightarrow> string \<Rightarrow> string \<Rightarrow> string list" where
  "split_ranges lead acc [] = [rev acc]"
| "split_ranges (Suc n) acc (c # cs) = split_ranges n (c # acc) cs"
| "split_ranges 0 acc (c # cs) =
    (if c = CHR ''-'' then rev acc # split_ranges 2 [] cs else split_ranges 0 (c # acc) cs)"

definition set_chunks :: "string \<Rightarrow> string list" where
  "set_chunks v = (let chunks = split_ranges (if take 1 v = ''!'' then 2 else 1) [] v in
     if length chunks > 1 \<and> last chunks = [] then
       butlast (butlast chunks) @ [last (butlast chunks) @ ''-'']
     else chunks)"

text \<open>A range that runs backwards is removed, from the last to the first.\<close>

fun drop_empty_ranges :: "string list \<Rightarrow> string list" where
  "drop_empty_ranges (a # cs) = (case drop_empty_ranges cs of
       [] \<Rightarrow> [a]
     | b # rest \<Rightarrow> if a \<noteq> [] \<and> b \<noteq> [] \<and> (of_char (last a) :: nat) > of_char (hd b)
         then (butlast a @ tl b) # rest else a # b # rest)"
| "drop_empty_ranges [] = []"

datatype set_token = Member char | Range_hyphen

fun set_tokens :: "string list \<Rightarrow> set_token list" where
  "set_tokens [] = []"
| "set_tokens [a] = map Member a"
| "set_tokens (a # b # cs) = map Member a @ Range_hyphen # set_tokens (b # cs)"

fun in_set :: "set_token list \<Rightarrow> char \<Rightarrow> bool" where
  "in_set (Member a # Range_hyphen # Member b # ts) c =
     (((of_char a :: nat) \<le> of_char c \<and> (of_char c :: nat) \<le> of_char b) \<or> in_set ts c)"
| "in_set (Member a # ts) c = (a = c \<or> in_set ts c)"
| "in_set (Range_hyphen # ts) c = (c = CHR ''-'' \<or> in_set ts c)"
| "in_set [] c = False"

definition char_in_brackets :: "string \<Rightarrow> char \<Rightarrow> bool" where
  "char_in_brackets v c = (case set_tokens (drop_empty_ranges (set_chunks v)) of
       Member a # ts \<Rightarrow> if a = CHR ''!'' then \<not> in_set ts c else in_set (Member a # ts) c
     | ts \<Rightarrow> in_set ts c)"

text \<open>
  The text up to the closing bracket, which is not the first character of the set, and what
  follows it; without one the opening bracket stands for itself.
\<close>

definition bracket_body :: "string \<Rightarrow> (string \<times> string) option" where
  "bracket_body v =
    (let neg = (if take 1 v = ''!'' then 1 else 0);
         start = (if take 1 (drop neg v) = '']'' then neg + 1 else neg);
         body = takeWhile (\<lambda>c. c \<noteq> CHR '']'') (drop start v);
         rest = drop (start + length body) v in
     if rest = [] then None else Some (take (start + length body) v, tl rest))"

lemma bracket_body_length: "bracket_body v = Some (b, r) \<Longrightarrow> length r < length v"
  by (auto simp: bracket_body_def Let_def split: if_splits)

function fnmatchcase :: "string \<Rightarrow> string \<Rightarrow> bool" where
  "fnmatchcase name [] = (name = [])"
| "fnmatchcase [] (p # ps) = (if p = CHR ''*'' then fnmatchcase [] ps else False)"
| "fnmatchcase (c # cs) (p # ps) =
    (if p = CHR ''*'' then (if fnmatchcase (c # cs) ps then True else fnmatchcase cs (p # ps))
     else if p = CHR ''?'' then fnmatchcase cs ps
     else case (if p = CHR ''['' then bracket_body ps else None) of
         None \<Rightarrow> if c = p then fnmatchcase cs ps else False
       | Some (b, r) \<Rightarrow> if char_in_brackets b c then fnmatchcase cs r else False)"
  by pat_completeness auto
termination
  by (relation "measure (\<lambda>(name, ps). length name + length ps)")
    (auto dest: bracket_body_length split: if_splits)

lemma fnmatchcase_star [simp]: "fnmatchcase name ''*''"
  by (induction name) simp_all

lemma fnmatchcase_examples:
  "fnmatchcase ''gpt-5.5'' ''gpt*''" "\<not> fnmatchcase ''o4'' ''gpt*''"
  "fnmatchcase ''o4-mini'' ''o[1-4]*''" "\<not> fnmatchcase ''o5'' ''o[!5-9]''"
  "fnmatchcase ''a[b'' ''a[b''" "fnmatchcase ''-'' ''[a-]''"
  by code_simp+

section \<open>Capabilities\<close>

record model_capability =
  mc_provider :: string
  mc_model_pattern :: string
  mc_protocol :: string
  mc_model_family :: "string option"
  mc_supports_tools :: bool
  mc_supports_streaming :: bool
  mc_supports_vision :: bool
  mc_supports_reasoning :: bool
  mc_context_window :: "int option"
  mc_max_output_tokens :: "int option"
  mc_input_price :: "rat option"
  mc_output_price :: "rat option"
  mc_supports_web_sidecar :: bool
  mc_schema_version :: int

definition CAPABILITY_SCHEMA_VERSION :: int where
  "CAPABILITY_SCHEMA_VERSION = 1"

text \<open>\<open>ModelCapability.__post_init__\<close>; a price that is not finite has no place in the type.\<close>

definition capability_post_init :: "model_capability \<Rightarrow> exn + model_capability" where
  "capability_post_init c =
    bindE (guardE (strip (mc_provider c) \<noteq> [] \<and> strip (mc_model_pattern c) \<noteq> [] \<and> strip (mc_protocol c) \<noteq> [])
      (ValueError ''provider, model_pattern, and protocol must be non-empty'')) (\<lambda>_.
    bindE (guardE (mc_schema_version c = CAPABILITY_SCHEMA_VERSION)
      (ValueError (''Unsupported capability schema_version: '' @ show_int (mc_schema_version c)))) (\<lambda>_.
    bindE (guardE (\<not> (mc_provider c = ''mock'' \<and> mc_supports_vision c))
      (ValueError ''The mock provider cannot declare vision support'')) (\<lambda>_.
    bindE (guardE (mc_model_family c \<in> {None, Some ''gpt'', Some ''deepseek''})
      (ValueError ''model_family must be gpt, deepseek, or null'')) (\<lambda>_.
    bindE (forE (\<lambda>(name, v). guardE (case v of None \<Rightarrow> True | Some n \<Rightarrow> n > 0)
        (ValueError (name @ '' must be a positive integer or null'')))
      [(''context_window'', mc_context_window c), (''max_output_tokens'', mc_max_output_tokens c)]) (\<lambda>_.
    bindE (forE (\<lambda>(name, v). guardE (case v of None \<Rightarrow> True | Some q \<Rightarrow> q \<ge> 0)
        (ValueError (name @ '' must be a finite non-negative number or null'')))
      [(''input_price'', mc_input_price c), (''output_price'', mc_output_price c)]) (\<lambda>_.
    Inr c))))))"

definition capability_matches :: "model_capability \<Rightarrow> string \<Rightarrow> string \<Rightarrow> bool" where
  "capability_matches c provider model \<longleftrightarrow> mc_provider c = provider \<and> fnmatchcase model (mc_model_pattern c)"

record capability_match =
  cm_provider :: string
  cm_model :: string
  cm_capability :: "model_capability option"
  cm_source :: string

definition capability_known :: "capability_match \<Rightarrow> bool" where
  "capability_known m \<longleftrightarrow> cm_capability m \<noteq> None"

record capability_registry =
  cr_capabilities :: "model_capability list"
  cr_source :: string

definition new_capability_registry :: "model_capability list \<Rightarrow> string \<Rightarrow> exn + capability_registry" where
  "new_capability_registry capabilities source =
    bindE (guardE (capabilities \<noteq> []) (ValueError ''Capability registry must contain at least one entry''))
    (\<lambda>_. Inr \<lparr>cr_capabilities = capabilities, cr_source = source\<rparr>)"

definition pattern_specificity :: "string \<Rightarrow> int \<times> int" where
  "pattern_specificity v =
    (let wildcard_count = int (count_list v (CHR ''*'') + count_list v (CHR ''?'') + count_list v (CHR ''['')) in
     (int (length v) - wildcard_count, int (length v)))"

text \<open>
  \<open>sorted(candidates, key=..., reverse=True)[0]\<close>: of the most specific patterns the first,
  since a reversed sort is stable too.
\<close>

definition resolve_capability :: "capability_registry \<Rightarrow> string \<Rightarrow> string \<Rightarrow> capability_match" where
  "resolve_capability g provider model =
    (let candidates = filter (\<lambda>c. capability_matches c provider model) (cr_capabilities g) in
     if candidates = [] then
       \<lparr>cm_provider = provider, cm_model = model, cm_capability = None, cm_source = ''unknown''\<rparr>
     else
       \<lparr>cm_provider = provider, cm_model = model,
        cm_capability = Some (hd (sort_key (\<lambda>c. case pattern_specificity (mc_model_pattern c) of
            (a, b) \<Rightarrow> (- a, - b)) candidates)),
        cm_source = cr_source g\<rparr>)"

record route_requirements =
  rq_tools :: bool
  rq_vision :: bool
  rq_reasoning :: bool
  rq_web_sidecar :: bool

text \<open>The dictionaries \<open>required\<close> and \<open>supported\<close> of \<open>CapabilityRegistry.require\<close>.\<close>

definition required_flags :: "route_requirements \<Rightarrow> (string \<times> bool) list" where
  "required_flags q = [(''tools'', rq_tools q), (''vision'', rq_vision q),
     (''reasoning'', rq_reasoning q), (''web_sidecar'', rq_web_sidecar q)]"

definition supported_flags :: "model_capability \<Rightarrow> (string \<times> bool) list" where
  "supported_flags c = [(''tools'', mc_supports_tools c), (''vision'', mc_supports_vision c),
     (''reasoning'', mc_supports_reasoning c), (''web_sidecar'', mc_supports_web_sidecar c)]"

definition missing_flags :: "route_requirements \<Rightarrow> model_capability \<Rightarrow> string list" where
  "missing_flags q c = map fst (filter (\<lambda>(name, enabled). enabled \<and> map_of (supported_flags c) name \<noteq> Some True)
     (required_flags q))"

definition require_capability ::
  "capability_registry \<Rightarrow> string \<Rightarrow> string \<Rightarrow> route_requirements \<Rightarrow> exn + capability_match" where
  "require_capability g provider model q =
    (let m = resolve_capability g provider model; names = map fst (filter snd (required_flags q)) in
     if names = [] then Inr m
     else case cm_capability m of
       None \<Rightarrow> Inl (CapabilityError (''Capabilities are unknown for '' @ provider @ ''/'' @ model
         @ ''; required: '' @ join '', '' names))
     | Some c \<Rightarrow>
         if missing_flags q c \<noteq> [] then
           Inl (CapabilityError (''Model '' @ provider @ ''/'' @ model
             @ '' does not support required capabilities: '' @ join '', '' (missing_flags q c)))
         else Inr m)"

section \<open>The built-in registry\<close>

definition plain_capability :: "string \<Rightarrow> string \<Rightarrow> string \<Rightarrow> model_capability" where
  "plain_capability provider pattern protocol =
     \<lparr>mc_provider = provider, mc_model_pattern = pattern, mc_protocol = protocol, mc_model_family = None,
      mc_supports_tools = True, mc_supports_streaming = True, mc_supports_vision = False,
      mc_supports_reasoning = False, mc_context_window = None, mc_max_output_tokens = None,
      mc_input_price = None, mc_output_price = None, mc_supports_web_sidecar = False,
      mc_schema_version = CAPABILITY_SCHEMA_VERSION\<rparr>"

definition gpt_capability :: "model_capability \<Rightarrow> model_capability" where
  "gpt_capability c = c\<lparr>mc_supports_vision := True, mc_supports_reasoning := True,
     mc_supports_web_sidecar := True\<rparr>"

definition deepseek_capability :: "model_capability \<Rightarrow> model_capability" where
  "deepseek_capability c = c\<lparr>mc_supports_reasoning := True, mc_context_window := Some 128000,
     mc_max_output_tokens := Some 8000, mc_input_price := Some (14 / 100),
     mc_output_price := Some (28 / 100)\<rparr>"

definition large_window :: "model_capability \<Rightarrow> model_capability" where
  "large_window c = c\<lparr>mc_context_window := Some 400000, mc_max_output_tokens := Some 128000\<rparr>"

definition default_model_capability_registry :: capability_registry where
  "default_model_capability_registry = \<lparr>cr_capabilities =
     [(plain_capability ''mock'' ''*'' ''mock'')\<lparr>mc_supports_reasoning := True,
        mc_context_window := Some 200000, mc_max_output_tokens := Some 200000,
        mc_input_price := Some 0, mc_output_price := Some 0, mc_supports_web_sidecar := True\<rparr>,
      large_window (gpt_capability (plain_capability ''openai'' ''gpt*'' ''responses'')),
      (large_window (gpt_capability (plain_capability ''gpt_relay'' ''gpt-5.6-sol''
         ''configurable_openai_compatible'')))\<lparr>mc_model_family := Some ''gpt''\<rparr>,
      (large_window (gpt_capability (plain_capability ''gpt_relay'' ''gpt-5.5''
         ''configurable_openai_compatible'')))\<lparr>mc_model_family := Some ''gpt''\<rparr>,
      deepseek_capability (plain_capability ''deepseek'' ''deepseek-v4-flash'' ''chat_completions''),
      deepseek_capability (plain_capability ''deepseek'' ''deepseek-*'' ''chat_completions''),
      (gpt_capability (plain_capability ''litellm_proxy'' ''gpt5.6-sol'' ''chat_completions''))
         \<lparr>mc_model_family := Some ''gpt''\<rparr>,
      (gpt_capability (plain_capability ''litellm_proxy'' ''gpt5.5'' ''chat_completions''))
         \<lparr>mc_model_family := Some ''gpt''\<rparr>,
      (plain_capability ''litellm_proxy'' ''deepseek-v4-pro'' ''chat_completions'')
         \<lparr>mc_model_family := Some ''deepseek''\<rparr>,
      plain_capability ''litellm_proxy'' ''*'' ''chat_completions''],
     cr_source = ''builtin''\<rparr>"

text \<open>Every built-in entry passes the checks of its own constructor.\<close>

lemma default_registry_is_valid:
  "mapE capability_post_init (cr_capabilities default_model_capability_registry)
     = Inr (cr_capabilities default_model_capability_registry)"
  by code_simp

section \<open>Resolution\<close>

lemma resolve_unknown_iff:
  "cm_capability (resolve_capability g p m) = None \<longleftrightarrow>
     (\<forall>c \<in> set (cr_capabilities g). \<not> capability_matches c p m)"
  by (auto simp: resolve_capability_def Let_def filter_empty_conv)

lemma hd_sort_key_min:
  assumes "xs \<noteq> []" "x \<in> set xs"
  shows "f (hd (sort_key f xs)) \<le> f x"
proof -
  obtain y ys where s: "sort_key f xs = y # ys"
    using assms(1) by (cases "sort_key f xs") simp_all
  have "sorted (map f (y # ys))" using sorted_sort_key [of f xs] s by simp
  moreover have "x \<in> set (y # ys)" using assms(2) s by (metis set_sort)
  ultimately show ?thesis using s by auto
qed

lemma resolve_is_most_specific:
  assumes c: "cm_capability (resolve_capability g p m) = Some c"
  shows "c \<in> set (cr_capabilities g)" "capability_matches c p m"
    and "\<And>d. d \<in> set (cr_capabilities g) \<Longrightarrow> capability_matches d p m \<Longrightarrow>
      pattern_specificity (mc_model_pattern d) \<le> pattern_specificity (mc_model_pattern c)"
proof -
  let ?xs = "filter (\<lambda>c. capability_matches c p m) (cr_capabilities g)"
  let ?f = "\<lambda>c. case pattern_specificity (mc_model_pattern c) of (a, b) \<Rightarrow> (- a, - b)"
  have ne: "?xs \<noteq> []" and c': "c = hd (sort_key ?f ?xs)"
    using c by (auto simp: resolve_capability_def Let_def split: if_splits)
  have "c \<in> set ?xs" using ne c' by (metis hd_in_set set_sort sort_Nil_iff)
  then show "c \<in> set (cr_capabilities g)" "capability_matches c p m" by auto
  fix d assume "d \<in> set (cr_capabilities g)" "capability_matches d p m"
  then have "?f c \<le> ?f d" using hd_sort_key_min [OF ne, of d ?f] c' by simp
  then show "pattern_specificity (mc_model_pattern d) \<le> pattern_specificity (mc_model_pattern c)"
    by (auto split: prod.splits)
qed

text \<open>A requirement that is met: the model is known and has every capability asked for.\<close>

lemma require_capability_ok:
  assumes "require_capability g p m q = Inr r"
  shows "r = resolve_capability g p m"
    and "\<And>name. (name, True) \<in> set (required_flags q) \<Longrightarrow>
      \<exists>c. cm_capability r = Some c \<and> map_of (supported_flags c) name = Some True"
proof -
  show r: "r = resolve_capability g p m"
    using assms by (auto simp: require_capability_def Let_def split: if_splits option.splits)
  fix name assume n: "(name, True) \<in> set (required_flags q)"
  then have "map fst (filter snd (required_flags q)) \<noteq> []" by (force simp: filter_empty_conv)
  then obtain c where c: "cm_capability r = Some c" "missing_flags q c = []"
    using assms by (auto simp: require_capability_def Let_def split: if_splits option.splits)
  from c(2) n have "map_of (supported_flags c) name = Some True"
    by (auto simp: missing_flags_def filter_empty_conv)
  with c(1) show "\<exists>c. cm_capability r = Some c \<and> map_of (supported_flags c) name = Some True" by blast
qed

end
