(* ===== verification/Provider_Health.thy ===== *)
theory Provider_Health imports Prelude begin

text \<open>
  \<open>ProviderHealthRegistry\<close> of \<open>backend/app/core/provider_health.py\<close>: the circuit breaker of the
  model gateway. A method that reads the monotonic clock takes the time it reads, in seconds, as
  the argument \<open>now\<close>; floating-point numbers are rationals. The lock of the registry makes each
  method one step.
\<close>

record provider_health_state =
  hs_consecutive_failures :: int
  hs_last_error_class :: "string option"
  hs_last_latency_ms :: "int option"
  hs_average_latency_ms :: "rat option"
  hs_opened_at :: "rat option"

record provider_health_snapshot =
  hp_provider :: string
  hp_consecutive_failures :: int
  hp_last_error_class :: "string option"
  hp_last_latency_ms :: "int option"
  hp_average_latency_ms :: "rat option"
  hp_circuit_open :: bool
  hp_cooldown_remaining_seconds :: rat

record provider_health_registry =
  hr_failure_threshold :: int
  hr_cooldown_seconds :: rat
  hr_states :: "(string \<times> provider_health_state) list"

definition fresh_health :: provider_health_state where
  "fresh_health = \<lparr>hs_consecutive_failures = 0, hs_last_error_class = None,
     hs_last_latency_ms = None, hs_average_latency_ms = None, hs_opened_at = None\<rparr>"

definition new_health_registry :: "int \<Rightarrow> rat \<Rightarrow> exn + provider_health_registry" where
  "new_health_registry failure_threshold cooldown_seconds =
    bindE (guardE (failure_threshold > 0) (ValueError ''failure_threshold must be a positive integer'')) (\<lambda>_.
    bindE (guardE (cooldown_seconds > 0) (ValueError ''cooldown_seconds must be a positive number'')) (\<lambda>_.
    Inr \<lparr>hr_failure_threshold = failure_threshold, hr_cooldown_seconds = cooldown_seconds,
      hr_states = []\<rparr>))"

text \<open>\<open>self._states.get(provider, _ProviderHealthState())\<close> and \<open>setdefault\<close>.\<close>

definition health_of :: "provider_health_registry \<Rightarrow> string \<Rightarrow> provider_health_state" where
  "health_of g provider = (case map_of (hr_states g) provider of None \<Rightarrow> fresh_health | Some s \<Rightarrow> s)"

definition set_health ::
  "string \<Rightarrow> provider_health_state \<Rightarrow> provider_health_registry \<Rightarrow> provider_health_registry" where
  "set_health provider s g = g\<lparr>hr_states := jput provider s (hr_states g)\<rparr>"

definition record_success ::
  "string \<Rightarrow> int option \<Rightarrow> provider_health_registry \<Rightarrow> provider_health_registry" where
  "record_success provider latency_ms g =
    (let s = (health_of g provider)\<lparr>hs_consecutive_failures := 0, hs_last_error_class := None,
               hs_opened_at := None\<rparr> in
     set_health provider (case latency_ms of None \<Rightarrow> s
       | Some n \<Rightarrow> (let latency = max 0 n in
           s\<lparr>hs_last_latency_ms := Some latency,
             hs_average_latency_ms := Some (case hs_average_latency_ms s of
                 None \<Rightarrow> of_int latency
               | Some a \<Rightarrow> a * (8 / 10) + of_int latency * (2 / 10))\<rparr>)) g)"

definition record_failure ::
  "rat \<Rightarrow> string \<Rightarrow> string option \<Rightarrow> bool \<Rightarrow> provider_health_registry \<Rightarrow> provider_health_registry" where
  "record_failure now provider error_class retryable g =
    (if \<not> retryable then g
     else let s = health_of g provider; n = hs_consecutive_failures s + 1;
              s' = s\<lparr>hs_consecutive_failures := n, hs_last_error_class := Some (case error_class of
                  Some c \<Rightarrow> if c = [] then ''provider_error'' else c | None \<Rightarrow> ''provider_error'')\<rparr> in
       set_health provider
         (if n \<ge> hr_failure_threshold g \<and> hs_opened_at s = None then s'\<lparr>hs_opened_at := Some now\<rparr>
          else s') g)"

definition cooldown_remaining :: "rat \<Rightarrow> provider_health_registry \<Rightarrow> provider_health_state \<Rightarrow> rat" where
  "cooldown_remaining now g s = (case hs_opened_at s of None \<Rightarrow> 0
     | Some t \<Rightarrow> max 0 (hr_cooldown_seconds g - (now - t)))"

text \<open>
  A snapshot closes a circuit whose cooldown is over. A provider without an entry has nothing
  to close, and the fresh state made for it is not stored.
\<close>

definition health_snapshot ::
  "rat \<Rightarrow> string \<Rightarrow> provider_health_registry \<Rightarrow> provider_health_snapshot \<times> provider_health_registry" where
  "health_snapshot now provider g =
    (let s = health_of g provider; remaining = cooldown_remaining now g s; circuit_open = remaining > 0;
         closing = hs_opened_at s \<noteq> None \<and> \<not> circuit_open;
         s' = (if closing then s\<lparr>hs_opened_at := None, hs_consecutive_failures := 0\<rparr> else s) in
     (\<lparr>hp_provider = provider, hp_consecutive_failures = hs_consecutive_failures s',
       hp_last_error_class = hs_last_error_class s', hp_last_latency_ms = hs_last_latency_ms s',
       hp_average_latency_ms = hs_average_latency_ms s', hp_circuit_open = circuit_open,
       hp_cooldown_remaining_seconds = remaining\<rparr>,
      if closing then set_health provider s' g else g))"

definition is_circuit_open ::
  "rat \<Rightarrow> string \<Rightarrow> provider_health_registry \<Rightarrow> bool \<times> provider_health_registry" where
  "is_circuit_open now provider g =
    (case health_snapshot now provider g of (p, g') \<Rightarrow> (hp_circuit_open p, g'))"

text \<open>\<open>clock i\<close> is the time that the snapshot of the \<open>i\<close>-th provider reads.\<close>

fun snapshot_all ::
  "(nat \<Rightarrow> rat) \<Rightarrow> nat \<Rightarrow> string list \<Rightarrow> provider_health_registry
    \<Rightarrow> provider_health_snapshot list \<times> provider_health_registry" where
  "snapshot_all clock i [] g = ([], g)"
| "snapshot_all clock i (p # ps) g =
    (case health_snapshot (clock i) p g of (x, g') \<Rightarrow>
     case snapshot_all clock (Suc i) ps g' of (xs, g'') \<Rightarrow> (x # xs, g''))"

definition health_snapshots ::
  "(nat \<Rightarrow> rat) \<Rightarrow> string list \<Rightarrow> provider_health_registry
    \<Rightarrow> provider_health_snapshot list \<times> provider_health_registry" where
  "health_snapshots clock providers g = snapshot_all clock 0 (sorted_set providers) g"

section \<open>The circuit\<close>

text \<open>
  What the methods keep of the registry: a circuit is marked open exactly when the provider
  failed as often in a row as the threshold allows.
\<close>

definition health_ok :: "provider_health_registry \<Rightarrow> bool" where
  "health_ok g \<longleftrightarrow> hr_failure_threshold g > 0 \<and> hr_cooldown_seconds g > 0
     \<and> (\<forall>p. hs_opened_at (health_of g p) \<noteq> None
          \<longleftrightarrow> hs_consecutive_failures (health_of g p) \<ge> hr_failure_threshold g)
     \<and> (\<forall>p. hs_consecutive_failures (health_of g p) \<ge> 0)"

lemma health_of_set_health [simp]:
  "health_of (set_health p s g) q = (if q = p then s else health_of g q)"
  by (simp add: health_of_def set_health_def)

lemma set_health_fields [simp]:
  "hr_failure_threshold (set_health p s g) = hr_failure_threshold g"
  "hr_cooldown_seconds (set_health p s g) = hr_cooldown_seconds g"
  by (simp_all add: set_health_def)

lemma health_ok_set:
  assumes "health_ok g"
    and "hs_opened_at s \<noteq> None \<longleftrightarrow> hs_consecutive_failures s \<ge> hr_failure_threshold g"
    and "hs_consecutive_failures s \<ge> 0"
  shows "health_ok (set_health p s g)"
  using assms by (simp add: health_ok_def)

lemma health_ok_new: "new_health_registry n c = Inr g \<Longrightarrow> health_ok g"
  by (auto simp: new_health_registry_def bindE_def guardE_def health_ok_def health_of_def
      fresh_health_def split: if_splits)

lemma health_ok_success:
  assumes "health_ok g" shows "health_ok (record_success p l g)"
  unfolding record_success_def Let_def
  using assms by (intro health_ok_set [OF assms]) (auto simp: health_ok_def split: option.split)

lemma health_ok_failure:
  assumes ok: "health_ok g" shows "health_ok (record_failure now p c r g)"
proof -
  let ?s = "health_of g p"
  have *: "hs_opened_at ?s \<noteq> None \<longleftrightarrow> hs_consecutive_failures ?s \<ge> hr_failure_threshold g"
    "hs_consecutive_failures ?s \<ge> 0"
    using ok by (simp_all add: health_ok_def)
  show ?thesis
    unfolding record_failure_def Let_def
    using ok * by (auto intro!: health_ok_set [OF ok])
qed

lemma health_ok_snapshot:
  assumes ok: "health_ok g" shows "health_ok (snd (health_snapshot now p g))"
  using ok unfolding health_snapshot_def Let_def
  by (auto intro!: health_ok_set [OF ok] simp: health_ok_def)

lemma health_ok_circuit:
  "health_ok g \<Longrightarrow> health_ok (snd (is_circuit_open now p g))"
  using health_ok_snapshot [of g now p] by (simp add: is_circuit_open_def case_prod_beta)

text \<open>The circuit of a provider is open exactly within the cooldown after it was opened.\<close>

lemma circuit_open_iff:
  "fst (is_circuit_open now p g) \<longleftrightarrow>
     (\<exists>t. hs_opened_at (health_of g p) = Some t \<and> now - t < hr_cooldown_seconds g)"
  by (auto simp: is_circuit_open_def health_snapshot_def cooldown_remaining_def Let_def
      split: option.splits)

lemma circuit_other_provider:
  "q \<noteq> p \<Longrightarrow> health_of (snd (is_circuit_open now p g)) q = health_of g q"
  by (simp add: is_circuit_open_def health_snapshot_def Let_def)

end
