(* ===== verification/Route_Policy.thy ===== *)
theory Route_Policy imports Model_Capabilities Provider_Health begin

text \<open>
  \<open>backend/app/core/route_policy.py\<close>: the candidates of a model route, read from a request and
  its fallbacks, and the choice of the first usable one with the reason why each before it was
  passed over.
\<close>

section \<open>Candidates\<close>

text \<open>A price is the JSON number it was configured with; \<open>JNull\<close> is none.\<close>

record route_candidate =
  cd_provider :: string
  cd_model :: string
  cd_reason :: string
  cd_allow_real_calls :: bool
  cd_input_usd_per_million :: jval
  cd_output_usd_per_million :: jval

fun price_ok :: "jval \<Rightarrow> bool" where
  "price_ok JNull = True"
| "price_ok (JInt n) = (n \<ge> 0)"
| "price_ok (JFloat q) = (q \<ge> 0)"
| "price_ok _ = False"

definition candidate_post_init :: "route_candidate \<Rightarrow> exn + route_candidate" where
  "candidate_post_init c =
    bindE (guardE (strip (cd_provider c) \<noteq> [] \<and> strip (cd_model c) \<noteq> [])
      (ValueError ''Route candidate provider and model must be non-empty'')) (\<lambda>_.
    bindE (guardE ((cd_input_usd_per_million c = JNull) = (cd_output_usd_per_million c = JNull))
      (ValueError ''Route candidate prices must be configured as an input/output pair'')) (\<lambda>_.
    bindE (guardE (price_ok (cd_input_usd_per_million c) \<and> price_ok (cd_output_usd_per_million c))
      (ValueError ''Route candidate prices must be non-negative numbers'')) (\<lambda>_.
    Inr c)))"

definition nonblank_or :: "string \<Rightarrow> string \<Rightarrow> string" where
  "nonblank_or v d = (if v = [] then d else v)"

text \<open>\<open>value.get(key, default)\<close>.\<close>

definition jget_or :: "jobj \<Rightarrow> string \<Rightarrow> jval \<Rightarrow> jval" where
  "jget_or d k v = (case map_of d k of None \<Rightarrow> v | Some x \<Rightarrow> x)"

definition candidate_from_mapping :: "string \<Rightarrow> jval \<Rightarrow> exn + route_candidate" where
  "candidate_from_mapping default_reason v = (case v of
     JObj d \<Rightarrow> (case (jget d ''provider'', jget d ''model'') of
       (JStr provider, JStr model) \<Rightarrow>
         (case (jget_or d ''reason'' (JStr default_reason), jget_or d ''allow_real_calls'' (JBool False)) of
           (JStr reason, JBool allow) \<Rightarrow> candidate_post_init
             \<lparr>cd_provider = strip provider, cd_model = strip model,
              cd_reason = nonblank_or (strip reason) default_reason, cd_allow_real_calls = allow,
              cd_input_usd_per_million = jget d ''input_usd_per_million'',
              cd_output_usd_per_million = jget d ''output_usd_per_million''\<rparr>
         | _ \<Rightarrow> Inl (RoutePolicyError ''Route candidate reason and allow_real_calls are invalid''))
     | _ \<Rightarrow> Inl (RoutePolicyError ''Route candidate provider and model must be strings''))
   | _ \<Rightarrow> Inl (RoutePolicyError ''Route candidate must be an object''))"

definition candidate_dict :: "route_candidate \<Rightarrow> jobj" where
  "candidate_dict c =
     [(''provider'', JStr (cd_provider c)), (''model'', JStr (cd_model c)),
      (''reason'', JStr (cd_reason c)), (''allow_real_calls'', JBool (cd_allow_real_calls c))]
     @ (if cd_input_usd_per_million c = JNull then []
        else [(''input_usd_per_million'', cd_input_usd_per_million c),
              (''output_usd_per_million'', cd_output_usd_per_million c)])"

definition route_candidates_from_request ::
  "string \<Rightarrow> string \<Rightarrow> jval list \<Rightarrow> jval \<Rightarrow> jval \<Rightarrow> exn + route_candidate list" where
  "route_candidates_from_request provider model fallbacks input_price output_price =
    bindE (candidate_post_init \<lparr>cd_provider = provider, cd_model = model, cd_reason = ''primary'',
        cd_allow_real_calls = False, cd_input_usd_per_million = input_price,
        cd_output_usd_per_million = output_price\<rparr>) (\<lambda>primary.
    bindE (mapE (candidate_from_mapping ''fallback'') fallbacks) (\<lambda>rest. Inr (primary # rest)))"

section \<open>The choice\<close>

record route_rejection =
  rj_candidate :: route_candidate
  rj_reason :: string

record route_decision =
  rd_selected :: "route_candidate option"
  rd_considered :: "route_candidate list"
  rd_rejected :: "route_rejection list"
  rd_requirements :: route_requirements

definition route_usable :: "route_decision \<Rightarrow> bool" where
  "route_usable d \<longleftrightarrow> rd_selected d \<noteq> None"

definition requirements_dict :: "route_requirements \<Rightarrow> jobj" where
  "requirements_dict q = map (\<lambda>(name, b). (name, JBool b)) (required_flags q)"

definition rejection_dict :: "route_rejection \<Rightarrow> jobj" where
  "rejection_dict r = [(''candidate'', JObj (candidate_dict (rj_candidate r))), (''reason'', JStr (rj_reason r))]"

definition decision_dict :: "route_decision \<Rightarrow> jobj" where
  "decision_dict d =
     [(''selected'', (case rd_selected d of None \<Rightarrow> JNull | Some c \<Rightarrow> JObj (candidate_dict c))),
      (''considered'', JList (map (\<lambda>c. JObj (candidate_dict c)) (rd_considered d))),
      (''rejected'', JList (map (\<lambda>r. JObj (rejection_dict r)) (rd_rejected d))),
      (''requirements'', JObj (requirements_dict (rd_requirements d)))]"

text \<open>
  The arguments of \<open>explain_route\<close>. \<open>rp_clock i\<close> is the time at which the circuit of the
  \<open>i\<close>-th candidate is looked at.
\<close>

record route_policy =
  rp_requirements :: route_requirements
  rp_capabilities :: capability_registry
  rp_configured_providers :: "string list"
  rp_allow_mock_fallback :: bool
  rp_provider_ready :: "(route_candidate \<Rightarrow> bool) option"
  rp_clock :: "nat \<Rightarrow> rat"

definition capability_mismatch :: "route_policy \<Rightarrow> route_candidate \<Rightarrow> bool" where
  "capability_mismatch p c =
    (case require_capability (rp_capabilities p) (cd_provider c) (cd_model c) (rp_requirements p) of
       Inl e \<Rightarrow> True | Inr m \<Rightarrow> False)"

definition circuit_of ::
  "route_policy \<Rightarrow> nat \<Rightarrow> route_candidate \<Rightarrow> provider_health_registry option
    \<Rightarrow> bool \<times> provider_health_registry option" where
  "circuit_of p i c h = (case h of None \<Rightarrow> (False, None)
     | Some g \<Rightarrow> (case is_circuit_open (rp_clock p i) (cd_provider c) g of (b, g') \<Rightarrow> (b, Some g')))"

text \<open>Why a candidate is passed over, if it is, with the health registry that the look leaves.\<close>

definition reject_reason ::
  "route_policy \<Rightarrow> nat \<Rightarrow> route_candidate \<Rightarrow> provider_health_registry option
    \<Rightarrow> string option \<times> provider_health_registry option" where
  "reject_reason p i c h =
    (if cd_provider c \<notin> set (rp_configured_providers p) then (Some ''provider_not_configured'', h)
     else if cd_provider c = ''mock'' \<and> i > 0 \<and> \<not> rp_allow_mock_fallback p then
       (Some ''mock_fallback_disabled'', h)
     else case circuit_of p i c h of (is_open, h') \<Rightarrow>
       if is_open then (Some ''provider_circuit_open'', h')
       else if (case rp_provider_ready p of None \<Rightarrow> False | Some ready \<Rightarrow> \<not> ready c) then
         (Some ''provider_not_ready'', h')
       else if capability_mismatch p c then (Some ''capability_mismatch'', h')
       else (None, h'))"

fun route_loop ::
  "route_policy \<Rightarrow> nat \<Rightarrow> route_candidate list \<Rightarrow> provider_health_registry option
    \<Rightarrow> (route_candidate option \<times> route_rejection list) \<times> provider_health_registry option" where
  "route_loop p i [] h = ((None, []), h)"
| "route_loop p i (c # cs) h = (case reject_reason p i c h of
       (None, h') \<Rightarrow> ((Some c, []), h')
     | (Some reason, h') \<Rightarrow> (case route_loop p (Suc i) cs h' of
         ((selected, rejected), h'') \<Rightarrow>
           ((selected, \<lparr>rj_candidate = c, rj_reason = reason\<rparr> # rejected), h'')))"

definition explain_route ::
  "route_policy \<Rightarrow> route_candidate list \<Rightarrow> provider_health_registry option
    \<Rightarrow> route_decision \<times> provider_health_registry option" where
  "explain_route p candidates h = (case route_loop p 0 candidates h of ((selected, rejected), h') \<Rightarrow>
     (\<lparr>rd_selected = selected, rd_considered = candidates, rd_rejected = rejected,
       rd_requirements = rp_requirements p\<rparr>, h'))"

section \<open>What a decision means\<close>

text \<open>
  A look at a circuit closes it only when the cooldown is over, and then it is over at every
  later look as well: what a candidate is told does not depend on the looks before it.
\<close>

lemma circuit_look_stable:
  assumes m: "t \<le> t'"
  shows "fst (is_circuit_open t' q (snd (is_circuit_open t p g))) = fst (is_circuit_open t' q g)"
proof (cases "q = p")
  case False
  have "hr_cooldown_seconds (snd (is_circuit_open t p g)) = hr_cooldown_seconds g"
    by (simp add: is_circuit_open_def health_snapshot_def Let_def)
  then show ?thesis
    by (simp only: circuit_open_iff circuit_other_provider [OF False])
next
  case True
  show ?thesis
    using m by (auto simp: True is_circuit_open_def health_snapshot_def cooldown_remaining_def Let_def
        split: option.splits)
qed

lemma circuit_of_stable:
  assumes "rp_clock p i \<le> rp_clock p j"
  shows "fst (circuit_of p j c (snd (circuit_of p i c' h))) = fst (circuit_of p j c h)"
  using circuit_look_stable [OF assms]
  by (auto simp: circuit_of_def split: option.split prod.split) (metis fst_conv snd_conv)+

lemma reject_reason_circuit:
  assumes "fst (circuit_of p i c h) = fst (circuit_of p i c h')"
  shows "fst (reject_reason p i c h) = fst (reject_reason p i c h')"
  using assms by (auto simp: reject_reason_def split: prod.splits)

lemma reject_reason_health:
  "snd (reject_reason p i c h) = h \<or> snd (reject_reason p i c h) = snd (circuit_of p i c h)"
  by (auto simp: reject_reason_def split: prod.splits)

definition verdict :: "route_policy \<Rightarrow> provider_health_registry option \<Rightarrow> nat \<times> route_candidate \<Rightarrow> string option" where
  "verdict p h x = fst (reject_reason p (fst x) (snd x) h)"

lemma route_loop_verdicts:
  assumes "mono (rp_clock p)"
    and "\<And>j c. i \<le> j \<Longrightarrow> fst (circuit_of p j c h) = fst (circuit_of p j c h0)"
  shows "fst (route_loop p i cs h) =
    (map_option snd (find (\<lambda>x. verdict p h0 x = None) (enumerate i cs)),
     map (\<lambda>x. \<lparr>rj_candidate = snd x, rj_reason = the (verdict p h0 x)\<rparr>)
       (takeWhile (\<lambda>x. verdict p h0 x \<noteq> None) (enumerate i cs)))"
  using assms(2)
proof (induction cs arbitrary: i h)
  case Nil
  then show ?case by simp
next
  case (Cons c cs)
  have v: "fst (reject_reason p i c h) = verdict p h0 (i, c)"
    using Cons.prems by (simp add: verdict_def reject_reason_circuit [of p i c h h0])
  obtain r h1 where rr: "reject_reason p i c h = (r, h1)" by (metis surj_pair)
  have step: "fst (circuit_of p j c' h1) = fst (circuit_of p j c' h0)" if "Suc i \<le> j" for j c'
  proof -
    have "rp_clock p i \<le> rp_clock p j" using that assms(1) by (simp add: monoD)
    then have "fst (circuit_of p j c' h1) = fst (circuit_of p j c' h)"
      using reject_reason_health [of p i c h] rr circuit_of_stable [of p i j c' c h] by auto
    then show ?thesis using Cons.prems that by simp
  qed
  show ?case
    using Cons.IH [of "Suc i" h1] step v rr by (cases r) (auto split: prod.splits)
qed

text \<open>
  C40. The choice of a route is the stateless one: on a clock that does not run backwards, the
  candidate that \<open>explain_route\<close> selects is the first one that, judged on its own against the
  health registry as it was before, has no reason to be passed over, and the rejections are the
  candidates before it, each with the reason that it has on its own. That looking at a circuit
  may close it has no effect on the decision.
\<close>

theorem route_choice_is_stateless:
  assumes "mono (rp_clock p)"
  shows "rd_selected (fst (explain_route p cs h))
      = map_option snd (find (\<lambda>x. verdict p h x = None) (enumerate 0 cs))
    \<and> rd_rejected (fst (explain_route p cs h))
      = map (\<lambda>x. \<lparr>rj_candidate = snd x, rj_reason = the (verdict p h x)\<rparr>)
          (takeWhile (\<lambda>x. verdict p h x \<noteq> None) (enumerate 0 cs))"
proof -
  have "fst (route_loop p 0 cs h) = (rd_selected (fst (explain_route p cs h)),
      rd_rejected (fst (explain_route p cs h)))"
    by (simp add: explain_route_def split: prod.split)
  with route_loop_verdicts [OF assms, of 0 h h cs] show ?thesis by simp
qed

definition example_candidate :: "string \<Rightarrow> string \<Rightarrow> route_candidate" where
  "example_candidate provider model = \<lparr>cd_provider = provider, cd_model = model, cd_reason = ''fallback'',
     cd_allow_real_calls = True, cd_input_usd_per_million = JNull, cd_output_usd_per_million = JNull\<rparr>"

definition example_candidates :: "route_candidate list" where
  "example_candidates = [example_candidate ''openai'' ''gpt-5.5'', example_candidate ''deepseek'' ''deepseek-v4-pro'',
     example_candidate ''openai'' ''gpt-5.5'']"

text \<open>Two failures have opened the circuit of the first provider, and its cooldown ends at time 12.\<close>

definition example_health :: provider_health_registry where
  "example_health = record_failure 2 ''openai'' None True (record_failure 1 ''openai'' None True
     \<lparr>hr_failure_threshold = 2, hr_cooldown_seconds = 10, hr_states = []\<rparr>)"

definition example_policy :: "(nat \<Rightarrow> rat) \<Rightarrow> route_policy" where
  "example_policy clock = \<lparr>rp_requirements = \<lparr>rq_tools = True, rq_vision = True, rq_reasoning = False,
      rq_web_sidecar = False\<rparr>, rp_capabilities = default_model_capability_registry,
     rp_configured_providers = [''openai'', ''deepseek''], rp_allow_mock_fallback = False,
     rp_provider_ready = None, rp_clock = clock\<rparr>"

lemma example_verdicts:
  "map (verdict (example_policy (\<lambda>i. 10 + of_nat i)) (Some example_health)) (enumerate 0 example_candidates)
     = [Some ''provider_circuit_open'', Some ''capability_mismatch'', None]"
  by code_simp

theorem route_choice_is_stateless_witness:
  "rd_selected (fst (explain_route (example_policy (\<lambda>i. 10 + of_nat i)) example_candidates (Some example_health)))
     = Some (example_candidate ''openai'' ''gpt-5.5'')"
proof -
  have "mono (rp_clock (example_policy (\<lambda>i. 10 + of_nat i)))"
    by (simp add: example_policy_def mono_def)
  from route_choice_is_stateless [OF this] example_verdicts
  show ?thesis by (simp add: example_candidates_def)
qed

end
