(* ===== verification/Run_Worker.thy ===== *)
theory Run_Worker imports Runner Run_Control begin

text \<open>
  \<open>RunWorker\<close> of \<open>backend/app/core/run_worker.py\<close>: the background thread that executes queued
  runs one after the other, the submissions that feed it, the recovery at its start and what it
  does with a run that fails. \<open>worker\<close> is the state in memory; the durable state is the world.
  The thread of the worker and the threads that call \<open>submit\<close>, \<open>approve_and_resume\<close> and
  \<open>stop\<close> interleave at the points where the worker waits or executes: \<open>we_other k\<close> lists the
  requests that other threads make at the \<open>k\<close>-th of these points. A lock-protected block is
  one step.
\<close>

section \<open>State\<close>

text \<open>
  A wake item is a queue item id and its run id; \<open>None\<close> in the queue is the wake that \<open>stop\<close>
  sends. \<open>wk_thread\<close> is the thread, with whether it is alive.
\<close>

type_synonym wake = "string \<times> string"

record worker =
  wk_queue :: "wake option list"
  wk_scheduled :: "string set"
  wk_pending :: "(string \<times> wake) list"
  wk_inflight :: nat
  wk_thread :: "bool option"
  wk_stop_requested :: bool
  wk_active :: "string option"
  wk_accepting :: bool

definition new_worker :: worker where
  "new_worker = \<lparr>wk_queue = [], wk_scheduled = {}, wk_pending = [], wk_inflight = 0, wk_thread = None,
     wk_stop_requested = False, wk_active = None, wk_accepting = False\<rparr>"

type_synonym 'a worker_act = "(worker \<times> world, 'a) act"

definition durable :: "'a io \<Rightarrow> 'a worker_act" where
  "durable m = (\<lambda>(k, w). case m w of (r, w') \<Rightarrow> (r, (k, w')))"

definition workerly :: "(worker \<Rightarrow> worker) \<Rightarrow> unit worker_act" where
  "workerly f = modifyM (\<lambda>(k, w). (f k, w))"

definition look :: "(worker \<Rightarrow> 'a) \<Rightarrow> 'a worker_act" where
  "look f = getsM (\<lambda>(k, w). f k)"

text \<open>The outcome of a statement as a value: what its \<open>except\<close> clauses look at.\<close>

definition outcome_of :: "('s, 'a) act \<Rightarrow> ('s, exn + 'a) act" where
  "outcome_of m = (\<lambda>s. case m s of (r, s') \<Rightarrow> (Inr r, s'))"

datatype worker_request =
    Submit_run run
  | Approve_job string string
  | Stop_worker

record worker_env =
  we_packs :: "(string \<times> workflow_pack) list"
  we_runner :: runner_env
  we_hb :: "nat \<Rightarrow> nat"
  we_plan_hash :: "jobj \<Rightarrow> string option"
  we_other :: "nat \<Rightarrow> worker_request list"

record background_approval_submission =
  bs_run :: run
  bs_session :: "agent_session option"
  bs_job :: runtime_job
  bs_queue_item :: "run_queue_item option"

definition RUN_QUEUE_READ_ATTEMPTS :: nat where
  "RUN_QUEUE_READ_ATTEMPTS = 3"

section \<open>Trace and scheduling\<close>

definition record_worker_event :: "string \<Rightarrow> string \<Rightarrow> string \<Rightarrow> string option \<Rightarrow> unit io" where
  "record_worker_event action run_id queue_item_id outcome =
    catchM (thenM (record_trace run_id RUNTIME_EVENT
        ([(''action'', JStr action), (''queue_item_id'', JStr queue_item_id)]
         @ (case outcome of None \<Rightarrow> [] | Some v \<Rightarrow> [(''outcome'', JStr v)])) None None) (returnM ()))
      (\<lambda>_. returnM ())"

definition put_wake :: "wake option \<Rightarrow> worker \<Rightarrow> worker" where
  "put_wake x k = k\<lparr>wk_queue := wk_queue k @ [x]\<rparr>"

definition schedule_wake :: "run_queue_item \<Rightarrow> worker \<Rightarrow> worker" where
  "schedule_wake item k =
    (let wake = (q_id item, q_run_id item) in
     if q_run_id item \<in> wk_scheduled k then k\<lparr>wk_pending := jput (q_run_id item) wake (wk_pending k)\<rparr>
     else put_wake (Some wake) (k\<lparr>wk_scheduled := insert (q_run_id item) (wk_scheduled k)\<rparr>))"

text \<open>The \<open>finally\<close> block of the loop: a pending wake takes the place of the one that ended.\<close>

definition release_wake :: "string \<Rightarrow> worker \<Rightarrow> worker" where
  "release_wake run_id k = (case map_of (wk_pending k) run_id of
     None \<Rightarrow> k\<lparr>wk_scheduled := wk_scheduled k - {run_id}\<rparr>
   | Some wake \<Rightarrow> put_wake (Some wake)
       (k\<lparr>wk_pending := filter (\<lambda>(i, _). i \<noteq> run_id) (wk_pending k)\<rparr>))"

section \<open>Admission\<close>

definition begin_admission :: "unit worker_act" where
  "begin_admission =
    bindM (look (\<lambda>k. wk_accepting k \<and> \<not> wk_stop_requested k)) (\<lambda>ok.
    thenM (guardM ok (RunWorkerError ''Background run worker is not accepting submissions.''))
    (workerly (\<lambda>k. k\<lparr>wk_inflight := wk_inflight k + 1\<rparr>)))"

definition finish_admission :: "unit worker_act" where
  "finish_admission = workerly (\<lambda>k. k\<lparr>wk_inflight := wk_inflight k - 1\<rparr>)"

definition worker_submit :: "run \<Rightarrow> run worker_act" where
  "worker_submit run =
    thenM begin_admission
    (finallyM
      (bindM (durable (enqueue_new_run run ''background_start_run'' True)) (\<lambda>submission.
       let item = sub_queue_item submission in
       thenM (durable (record_worker_event ''background_run_queued'' (r_id run) (q_id item) None))
       (thenM (workerly (schedule_wake item)) (returnM (sub_run submission)))))
      finish_admission)"

section \<open>Approval and resumption\<close>

definition background_approval_submission ::
  "runtime_action_result \<Rightarrow> run_queue_item option \<Rightarrow> background_approval_submission" where
  "background_approval_submission st item = \<lparr>bs_run = ra_run st, bs_session = ra_session st,
     bs_job = ra_job st, bs_queue_item = item\<rparr>"

definition started_in_background :: "run_queue_item \<Rightarrow> bool" where
  "started_in_background q \<longleftrightarrow> jget (q_metadata q) ''background_worker_started'' = JBool True"

definition active_background_queue_item :: "string \<Rightarrow> run_queue_item option io" where
  "active_background_queue_item run_id =
    bindM (list_run_queue_items_for_run run_id) (\<lambda>items.
    returnM (last_opt (filter (\<lambda>q. q_status q \<in> {Queue_QUEUED, Queue_RUNNING}
       \<and> started_in_background q) items)))"

definition prepare_background_approval :: "string \<Rightarrow> string \<Rightarrow> background_approval_submission io" where
  "prepare_background_approval run_id job_id =
    bindM (get_action_state run_id job_id) (\<lambda>st0.
    if j_status (ra_job st0) = Job_COMPLETED then returnM (background_approval_submission st0 None)
    else thenM (ensure_current_resumable_job st0)
    (bindM (if j_status (ra_job st0) = Job_APPROVAL_REQUIRED then approve run_id job_id
            else if j_status (ra_job st0) \<noteq> Job_APPROVED then
              raiseM (RuntimeControlConflict (''Runtime job is not resumable after approval: ''
                @ runtime_job_status_value (j_status (ra_job st0))))
            else returnM st0) (\<lambda>st.
     transaction (
      bindM (get_run run_id) (\<lambda>found. case found of
        None \<Rightarrow> raiseM (RunWorkerError (''Run not found: '' @ run_id))
      | Some run0 \<Rightarrow>
         bindM (if r_status run0 = Run_WAITING then
                  update_run (run0\<lparr>r_status := Run_QUEUED, r_finished_at := None\<rparr>)
                else if r_status run0 \<noteq> Run_QUEUED then
                  raiseM (RuntimeControlConflict (''Approved runtime job cannot resume run from status: ''
                    @ run_status_value (r_status run0)))
                else returnM run0) (\<lambda>run.
         bindM (active_background_queue_item (r_id run)) (\<lambda>active.
         bindM (case active of None \<Rightarrow> enqueue_existing_run (r_id run) ''background_approved_resume'' True
                | Some q \<Rightarrow> returnM q) (\<lambda>item.
         returnM \<lparr>bs_run = run, bs_session = ra_session st, bs_job = ra_job st,
           bs_queue_item = Some item\<rparr>)))))))) "

definition existing_background_approval ::
  "string \<Rightarrow> string \<Rightarrow> background_approval_submission option io" where
  "existing_background_approval run_id job_id =
    bindM (get_action_state run_id job_id) (\<lambda>st.
    if j_status (ra_job st) = Job_COMPLETED then returnM (Some (background_approval_submission st None))
    else if j_status (ra_job st) \<noteq> Job_APPROVED then returnM None
    else thenM (ensure_current_resumable_job st)
    (if r_status (ra_run st) \<notin> {Run_QUEUED, Run_RUNNING} then returnM None
     else bindM (active_background_queue_item run_id) (\<lambda>item.
       returnM (case item of None \<Rightarrow> None
         | Some q \<Rightarrow> Some (background_approval_submission st (Some q))))))"

definition approve_and_resume ::
  "worker_env \<Rightarrow> string \<Rightarrow> string \<Rightarrow> background_approval_submission worker_act" where
  "approve_and_resume env run_id job_id =
    thenM begin_admission
    (finallyM
      (bindM (durable (existing_background_approval run_id job_id)) (\<lambda>existing. case existing of
         Some s \<Rightarrow> returnM s
       | None \<Rightarrow>
          bindM (outcome_of (durable (execute_exclusive (we_hb env) run_id ''background_approve_runtime_job''
              (prepare_background_approval run_id job_id)))) (\<lambda>r. case r of
            Inl e \<Rightarrow>
              if is_coordination_conflict e then
                bindM (durable (existing_background_approval run_id job_id)) (\<lambda>again. case again of
                  Some s \<Rightarrow> returnM s | None \<Rightarrow> raiseM e)
              else raiseM e
          | Inr submission \<Rightarrow>
              thenM (case bs_queue_item submission of None \<Rightarrow> returnM ()
                | Some item \<Rightarrow> thenM (durable (record_worker_event ''background_run_queued''
                      (r_id (bs_run submission)) (q_id item) (Some ''approved_resume'')))
                    (workerly (schedule_wake item)))
              (returnM submission))))
      finish_admission)"

section \<open>Stopping\<close>

text \<open>
  \<open>stop\<close> up to its first wait; a worker without a thread is stopped at once. \<open>worker_stop_finish\<close>
  is the rest: \<open>drained\<close> tells whether the submissions in flight ended in time, \<open>joined\<close>
  whether the thread did.
\<close>

definition worker_stop_request :: "bool worker_act" where
  "worker_stop_request =
    bindM (look wk_thread) (\<lambda>thread. case thread of
      None \<Rightarrow> thenM (workerly (\<lambda>k. k\<lparr>wk_accepting := False\<rparr>)) (returnM True)
    | Some _ \<Rightarrow> thenM (workerly (\<lambda>k. put_wake None (k\<lparr>wk_accepting := False, wk_stop_requested := True\<rparr>)))
        (returnM False))"

definition worker_stop_finish :: "bool \<Rightarrow> bool \<Rightarrow> bool worker_act" where
  "worker_stop_finish drained joined =
    (if \<not> drained \<or> \<not> joined then returnM False
     else thenM (workerly (\<lambda>k. k\<lparr>wk_thread := None, wk_scheduled := {}, wk_pending := []\<rparr>)) (returnM True))"

text \<open>What another thread does; an exception goes to its caller.\<close>

fun perform_request :: "worker_env \<Rightarrow> worker_request \<Rightarrow> unit worker_act" where
  "perform_request env (Submit_run r) = thenM (outcome_of (worker_submit r)) (returnM ())"
| "perform_request env (Approve_job run_id job_id) =
     thenM (outcome_of (approve_and_resume env run_id job_id)) (returnM ())"
| "perform_request env Stop_worker = thenM worker_stop_request (returnM ())"

definition other_threads :: "worker_env \<Rightarrow> nat \<Rightarrow> unit worker_act" where
  "other_threads env point = forM (we_other env point) (perform_request env)"

section \<open>Runs that cannot go on\<close>

definition fail_open_items :: "string \<Rightarrow> timestamp \<Rightarrow> string \<Rightarrow> unit io" where
  "fail_open_items run_id now message =
    bindM (list_run_queue_items_for_run run_id) (\<lambda>items.
    forM (filter (\<lambda>q. q_status q \<in> {Queue_QUEUED, Queue_RUNNING}) items) (\<lambda>q.
      thenM (update_run_queue_item (q\<lparr>q_status := Queue_FAILED, q_updated_at := now, q_message := message\<rparr>))
        (returnM ())))"

definition terminalize_incomplete_pair :: "worker_env \<Rightarrow> string \<Rightarrow> string \<Rightarrow> unit io" where
  "terminalize_incomplete_pair env run_id queue_item_id =
    bindM (transaction (
      bindM (terminalize_incomplete_execution_plan_pair (we_plan_hash env) run_id) (\<lambda>failed.
      thenM (terminalize_open_runtime_state run_id ''incomplete_execution_plan_pair'')
      (bindM utc_now (\<lambda>now.
       thenM (fail_open_items run_id now
         ''Background run stopped because its frozen execution plan is incomplete.'')
       (thenM (release_orphaned_locks run_id) (returnM failed))))))) (\<lambda>failed.
    record_worker_event ''background_run_failed'' (r_id failed) queue_item_id
      (Some ''execution_plan_integrity''))"

definition terminalize_invalid_run_record :: "worker_env \<Rightarrow> string \<Rightarrow> string \<Rightarrow> string \<Rightarrow> unit io" where
  "terminalize_invalid_run_record env run_id reason queue_item_id =
    (if reason = ''incomplete_execution_plan_pair'' then terminalize_incomplete_pair env run_id queue_item_id
     else thenM (transaction (
         thenM (terminalize_open_runtime_state run_id ''invalid_run_record'')
         (bindM utc_now (\<lambda>now.
          thenM (fail_open_items run_id now
            ''Background run stopped because its persisted Run record is invalid.'')
          (thenM (release_orphaned_locks run_id) (quarantine_invalid_run_record run_id))))))
       (record_worker_event ''background_run_failed'' run_id queue_item_id (Some ''run_record_integrity'')))"

definition requeue_interrupted_segment ::
  "worker_env \<Rightarrow> run \<Rightarrow> run_queue_item \<Rightarrow> (run \<times> run_queue_item) io" where
  "requeue_interrupted_segment env run queue_item =
    bindM (get_task (r_task_id run)) (\<lambda>task.
    bindM (transaction (
      bindM (requeue_interrupted_run (r_id run) (case task of None \<Rightarrow> None
          | Some t \<Rightarrow> map_of (we_packs env) (t_workflow_pack t))) (\<lambda>requeued_run.
      bindM (get_run_queue_item (q_id queue_item)) (\<lambda>current. case current of
        None \<Rightarrow> raiseM (RunWorkerError (''Run queue item disappeared during storage recovery: '' @ q_id queue_item))
      | Some c \<Rightarrow> bindM utc_now (\<lambda>now.
          bindM (update_run_queue_item (c\<lparr>q_status := Queue_QUEUED, q_updated_at := now,
              q_message := ''Retrying local worker segment after a transient storage failure.''\<rparr>)) (\<lambda>item.
          returnM (requeued_run, item))))))) (\<lambda>result.
    thenM (record_worker_event ''background_run_storage_retry'' (r_id run) (q_id queue_item) None)
    (returnM result)))"

definition terminalize_unhandled_failure :: "run_queue_item \<Rightarrow> unit io" where
  "terminalize_unhandled_failure queue_item =
    bindM utc_now (\<lambda>now. transaction (
      thenM (terminalize_open_runtime_state (q_run_id queue_item) ''background_worker_internal_error'')
      (bindM (get_run_queue_item (q_id queue_item)) (\<lambda>current.
       thenM (case current of None \<Rightarrow> returnM ()
         | Some q \<Rightarrow> whenM (q_status q \<in> {Queue_QUEUED, Queue_RUNNING})
             (thenM (update_run_queue_item (q\<lparr>q_status := Queue_FAILED, q_updated_at := now,
                 q_message := ''Background worker stopped this queue segment after an internal error.''\<rparr>))
               (returnM ())))
       (bindM (get_run (q_run_id queue_item)) (\<lambda>current_run. case current_run of None \<Rightarrow> returnM ()
         | Some r \<Rightarrow> whenM (r_status r \<in> {Run_QUEUED, Run_RUNNING, Run_WAITING})
             (thenM (update_run (r\<lparr>r_status := Run_FAILED, r_finished_at := Some now\<rparr>)) (returnM ()))))))))"

section \<open>One queue item\<close>

definition settle_queue_item :: "run \<Rightarrow> run_queue_item \<Rightarrow> unit io" where
  "settle_queue_item run queue_item =
    thenM (whenM (r_status run \<in> {Run_WAITING, Run_COMPLETED, Run_FAILED, Run_CANCELLED})
       (thenM (release_orphaned_locks (r_id run)) (returnM ())))
    (whenM (q_status queue_item \<in> {Queue_QUEUED, Queue_RUNNING})
       (thenM (reconcile_queue_item queue_item) (returnM ())))"

definition fail_without_configuration :: "run \<Rightarrow> run_queue_item \<Rightarrow> unit io" where
  "fail_without_configuration run queue_item =
    bindM utc_now (\<lambda>now.
    thenM (transaction (
      thenM (terminalize_open_runtime_state (r_id run) ''background_run_configuration_unavailable'')
      (thenM (update_run (run\<lparr>r_status := Run_FAILED, r_finished_at := Some now\<rparr>))
      (thenM (update_run_queue_item (queue_item\<lparr>q_status := Queue_FAILED, q_updated_at := now,
          q_message := ''Background run configuration is unavailable.''\<rparr>)) (returnM ())))))
    (record_worker_event ''background_run_failed'' (r_id run) (q_id queue_item) (Some ''configuration'')))"

definition execute_segment :: "worker_env \<Rightarrow> run \<Rightarrow> workflow_pack \<Rightarrow> run_queue_item \<Rightarrow> unit io" where
  "execute_segment env run pack queue_item =
    thenM (record_worker_event ''background_run_started'' (r_id run) (q_id queue_item) None)
    (bindM (outcome_of (execute_queue_item (we_hb env) (q_id queue_item) (run_pack (we_runner env) run pack False)))
      (\<lambda>r. case r of
        Inl e \<Rightarrow>
          if is_storage_error e then raiseM e
          else thenM (terminalize_unhandled_failure queue_item)
            (record_worker_event ''background_run_failed'' (r_id run) (q_id queue_item) (Some (exn_class e)))
      | Inr x \<Rightarrow> record_worker_event ''background_run_completed'' (r_id run) (q_id queue_item)
          (Some (run_status_value (r_status (cr_result x))))))"

definition execute_wake :: "worker_env \<Rightarrow> run_queue_item \<Rightarrow> unit io" where
  "execute_wake env queue_item0 =
    bindM (outcome_of (get_run (q_run_id queue_item0))) (\<lambda>r. case r of
      Inl (RunRecordIntegrityError _ reason) \<Rightarrow>
        terminalize_invalid_run_record env (q_run_id queue_item0) reason (q_id queue_item0)
    | Inl e \<Rightarrow> raiseM e
    | Inr None \<Rightarrow> returnM ()
    | Inr (Some run0) \<Rightarrow>
        bindM (if r_status run0 = Run_RUNNING \<and> q_status queue_item0 \<in> {Queue_RUNNING, Queue_FAILED}
               then requeue_interrupted_segment env run0 queue_item0 else returnM (run0, queue_item0))
        (\<lambda>(run, queue_item).
          if r_status run \<noteq> Run_QUEUED then settle_queue_item run queue_item
          else bindM (get_task (r_task_id run)) (\<lambda>task.
            case (case task of None \<Rightarrow> None | Some t \<Rightarrow> map_of (we_packs env) (t_workflow_pack t)) of
              None \<Rightarrow> fail_without_configuration run queue_item
            | Some pack \<Rightarrow> execute_segment env run pack queue_item)))"

section \<open>The loop\<close>

text \<open>The wait before another attempt is a point where other threads go on.\<close>

primrec get_queue_item_with_retry ::
  "worker_env \<Rightarrow> string \<Rightarrow> nat \<Rightarrow> run_queue_item option worker_act" where
  "get_queue_item_with_retry env queue_item_id 0 = returnM None"
| "get_queue_item_with_retry env queue_item_id (Suc n) =
    bindM (outcome_of (durable (get_run_queue_item queue_item_id))) (\<lambda>r. case r of
      Inr item \<Rightarrow> returnM item
    | Inl e \<Rightarrow>
        if \<not> is_storage_error e then raiseM e
        else bindM (look wk_stop_requested) (\<lambda>stop.
          if n = 0 \<or> stop then raiseM e
          else thenM (other_threads env (Suc n)) (get_queue_item_with_retry env queue_item_id n)))"

text \<open>The wake goes back to the queue unless the worker stops; the result is \<open>keep_scheduled\<close>.\<close>

definition requeue_wake :: "worker_env \<Rightarrow> wake \<Rightarrow> bool worker_act" where
  "requeue_wake env wake =
    bindM (look wk_stop_requested) (\<lambda>stop.
    if stop then returnM False
    else thenM (workerly (put_wake (Some wake))) (thenM (other_threads env 6) (returnM True)))"

definition handle_failure :: "worker_env \<Rightarrow> wake \<Rightarrow> run_queue_item \<Rightarrow> exn \<Rightarrow> bool worker_act" where
  "handle_failure env wake queue_item e =
    (if is_storage_error e then requeue_wake env wake
     else bindM (outcome_of (durable (terminalize_unhandled_failure queue_item))) (\<lambda>r. case r of
       Inl terminal_exc \<Rightarrow>
         thenM (durable (record_worker_event ''background_run_terminalization_retry'' (q_run_id queue_item)
             (q_id queue_item) (Some (exn_class terminal_exc))))
           (requeue_wake env wake)
     | Inr _ \<Rightarrow>
         thenM (durable (record_worker_event ''background_run_failed'' (q_run_id queue_item)
             (q_id queue_item) (Some (exn_class e))))
           (returnM False)))"

text \<open>The \<open>try\<close> statement of an iteration: whether the loop returns, and \<open>keep_scheduled\<close>.\<close>

definition process_wake :: "worker_env \<Rightarrow> wake \<Rightarrow> (bool \<times> bool) worker_act" where
  "process_wake env wake =
    bindM (look wk_stop_requested) (\<lambda>stop.
    if stop then returnM (True, False)
    else bindM (outcome_of (get_queue_item_with_retry env (fst wake) RUN_QUEUE_READ_ATTEMPTS)) (\<lambda>r. case r of
      Inl e \<Rightarrow>
        if is_storage_error e then bindM (requeue_wake env wake) (\<lambda>keep. returnM (False, keep))
        else returnM (False, False)
    | Inr None \<Rightarrow> returnM (False, False)
    | Inr (Some queue_item) \<Rightarrow>
        bindM (look wk_stop_requested) (\<lambda>stop.
        if stop then returnM (True, False)
        else thenM (workerly (\<lambda>k. k\<lparr>wk_active := Some (q_id queue_item)\<rparr>))
          (thenM (other_threads env 4)
          (bindM (outcome_of (durable (execute_wake env queue_item))) (\<lambda>r.
           thenM (workerly (\<lambda>k. if wk_active k = Some (q_id queue_item) then k\<lparr>wk_active := None\<rparr> else k))
           (case r of
             Inr _ \<Rightarrow> returnM (False, False)
           | Inl e \<Rightarrow> bindM (handle_failure env wake queue_item e) (\<lambda>keep. returnM (False, keep)))))))))"

datatype loop_progress = Loop_waits | Loop_returned | Loop_goes_on

definition take_wake :: "wake option list \<Rightarrow> unit worker_act" where
  "take_wake rest = workerly (\<lambda>k. k\<lparr>wk_queue := rest\<rparr>)"

definition run_loop_iteration :: "worker_env \<Rightarrow> loop_progress worker_act" where
  "run_loop_iteration env =
    bindM (look wk_stop_requested) (\<lambda>stop.
    if stop then returnM Loop_returned
    else bindM (look wk_queue) (\<lambda>queue. case queue of
      [] \<Rightarrow> returnM Loop_waits
    | None # rest \<Rightarrow> thenM (take_wake rest) (returnM Loop_returned)
    | Some wake # rest \<Rightarrow>
        thenM (take_wake rest)
        (thenM (other_threads env 0)
        (bindM (process_wake env wake) (\<lambda>(exits, keep).
         thenM (if keep then returnM () else workerly (release_wake (snd wake)))
         (returnM (if exits then Loop_returned else Loop_goes_on)))))))"

text \<open>The thread ends when \<open>_run_loop\<close> returns.\<close>

definition run_loop_step :: "worker_env \<Rightarrow> loop_progress worker_act" where
  "run_loop_step env = bindM (run_loop_iteration env) (\<lambda>p.
     thenM (whenM (p = Loop_returned)
        (workerly (\<lambda>k. k\<lparr>wk_thread := map_option (\<lambda>_. False) (wk_thread k)\<rparr>)))
       (returnM p))"

section \<open>Starting\<close>

definition cancel_interrupted_queue_items ::
  "run_queue_item list \<Rightarrow> run_queue_item_status list \<Rightarrow> unit io" where
  "cancel_interrupted_queue_items items statuses =
    forM (filter (\<lambda>q. q_status q \<in> set statuses) items) (\<lambda>q. bindM utc_now (\<lambda>now.
      thenM (update_run_queue_item (q\<lparr>q_status := Queue_CANCELLED, q_updated_at := now,
          q_message := ''Worker process ended before this queue segment completed.''\<rparr>)) (returnM ())))"

text \<open>\<open>get_action_state\<close> is inside the \<open>try\<close> of the loop over the jobs.\<close>

primrec any_resumable_job :: "string \<Rightarrow> runtime_job list \<Rightarrow> bool io" where
  "any_resumable_job run_id [] = returnM False"
| "any_resumable_job run_id (j # js) =
    (if j_status j \<noteq> Job_APPROVED then any_resumable_job run_id js
     else bindM (outcome_of (bindM (get_action_state run_id (j_id j)) ensure_current_resumable_job))
       (\<lambda>r. case r of
         Inl e \<Rightarrow> if is_control_conflict e then any_resumable_job run_id js else raiseM e
       | Inr _ \<Rightarrow> returnM True))"

definition has_approved_runtime_job :: "run \<Rightarrow> bool io" where
  "has_approved_runtime_job run =
    bindM (list_runtime_jobs_for_run (r_id run)) (\<lambda>jobs. any_resumable_job (r_id run) jobs)"

definition reconcile_open_items :: "run_queue_item list \<Rightarrow> unit io" where
  "reconcile_open_items items = forM (filter (\<lambda>q. q_status q \<in> {Queue_QUEUED, Queue_RUNNING}) items)
     (\<lambda>q. thenM (reconcile_queue_item q) (returnM ()))"

definition recover_waiting_run :: "run \<Rightarrow> run_queue_item list \<Rightarrow> unit io" where
  "recover_waiting_run run items =
    bindM (terminal_intent_requiring_recovery run) (\<lambda>terminal_job. case terminal_job of
      Some job \<Rightarrow> transaction (
        thenM (cancel_interrupted_queue_items items [Queue_QUEUED, Queue_RUNNING])
          (thenM (recover_terminal_intent (r_id run) (j_id job)) (returnM ())))
    | None \<Rightarrow> bindM (has_approved_runtime_job run) (\<lambda>approved.
        if approved then
          thenM (cancel_interrupted_queue_items items [Queue_QUEUED, Queue_RUNNING])
          (thenM (update_run (run\<lparr>r_status := Run_QUEUED, r_finished_at := None\<rparr>))
          (record_worker_event ''approved_waiting_run_requeued'' (r_id run) ''startup-recovery'' None))
        else reconcile_open_items items))"

definition recover_run :: "worker_env \<Rightarrow> run \<Rightarrow> unit io" where
  "recover_run env run =
    thenM (release_orphaned_locks (r_id run))
    (bindM (list_run_queue_items_for_run (r_id run)) (\<lambda>items. case r_status run of
      Run_QUEUED \<Rightarrow> cancel_interrupted_queue_items items [Queue_RUNNING]
    | Run_RUNNING \<Rightarrow>
        thenM (cancel_interrupted_queue_items items [Queue_QUEUED, Queue_RUNNING])
        (bindM (get_task (r_task_id run)) (\<lambda>task.
         thenM (requeue_interrupted_run (r_id run) (case task of None \<Rightarrow> None
             | Some t \<Rightarrow> map_of (we_packs env) (t_workflow_pack t))) (returnM ())))
    | Run_WAITING \<Rightarrow> recover_waiting_run run items
    | _ \<Rightarrow> reconcile_open_items items))"

definition recover_run_id :: "worker_env \<Rightarrow> string set \<Rightarrow> string \<Rightarrow> unit io" where
  "recover_run_id env recovery_run_ids run_id =
    bindM (outcome_of (get_run run_id)) (\<lambda>r. case r of
      Inl (RunRecordIntegrityError _ reason) \<Rightarrow>
        terminalize_invalid_run_record env run_id reason ''startup-recovery''
    | Inl e \<Rightarrow> raiseM e
    | Inr None \<Rightarrow> returnM ()
    | Inr (Some run) \<Rightarrow> if run_id \<notin> recovery_run_ids then returnM () else recover_run env run)"

definition recover_interrupted_runs :: "worker_env \<Rightarrow> unit io" where
  "recover_interrupted_runs env =
    bindM list_run_ids_requiring_worker_recovery (\<lambda>recovery.
    bindM list_run_ids (\<lambda>ids. forM ids (recover_run_id env (set recovery))))"

definition schedule_persisted_run :: "run \<Rightarrow> unit worker_act" where
  "schedule_persisted_run run =
    bindM (durable (list_run_queue_items_for_run (r_id run))) (\<lambda>items.
    bindM (case last_opt (filter (\<lambda>q. q_status q = Queue_QUEUED \<and> started_in_background q) items) of
        Some q \<Rightarrow> returnM q
      | None \<Rightarrow> durable (enqueue_existing_run (r_id run) ''background_recovered_queued_run'' True)) (\<lambda>item.
    workerly (schedule_wake item)))"

definition schedule_persisted_queued_runs :: "unit worker_act" where
  "schedule_persisted_queued_runs =
    bindM (durable (list_runs_by_statuses [Run_QUEUED])) (\<lambda>runs. forM runs schedule_persisted_run)"

definition worker_is_running :: "worker \<Rightarrow> bool" where
  "worker_is_running k \<longleftrightarrow> wk_thread k = Some True"

definition worker_start :: "worker_env \<Rightarrow> unit worker_act" where
  "worker_start env =
    bindM (look worker_is_running) (\<lambda>running.
    if running then returnM ()
    else thenM (workerly (\<lambda>k. k\<lparr>wk_queue := [], wk_scheduled := {}, wk_pending := []\<rparr>))
      (bindM (look wk_inflight) (\<lambda>inflight.
       thenM (guardM (inflight = 0) (RunWorkerError ''Background run worker still has an in-flight submission.''))
       (thenM (workerly (\<lambda>k. k\<lparr>wk_stop_requested := False, wk_active := None, wk_accepting := False\<rparr>))
       (thenM (durable (recover_interrupted_runs env))
       (thenM (workerly (\<lambda>k. k\<lparr>wk_thread := Some True\<rparr>))
       (thenM schedule_persisted_queued_runs
       (workerly (\<lambda>k. k\<lparr>wk_accepting := True\<rparr>)))))))))"

end
