(* ===== verification/Worker_Guarantees.thy ===== *)
theory Worker_Guarantees imports Run_Worker Runner_Guarantees begin

text \<open>
  What \<open>RunWorker\<close> promises whatever the runner, the storage and the other threads do: its loop
  never ends with an exception, every scheduled run has exactly one wake item, and a wake that
  arrives while its run executes is not lost.
\<close>

section \<open>Wake items\<close>

definition wakes :: "worker \<Rightarrow> wake list" where
  "wakes k = List.map_filter id (wk_queue k)"

definition busy_runs :: "string option \<Rightarrow> string list" where
  "busy_runs b = (case b of None \<Rightarrow> [] | Some r \<Rightarrow> [r])"

text \<open>\<open>b\<close> is the run that the loop is working on.\<close>

definition wakes_ok :: "string option \<Rightarrow> worker \<Rightarrow> bool" where
  "wakes_ok b k \<longleftrightarrow> distinct (busy_runs b @ map snd (wakes k))
     \<and> wk_scheduled k = set (busy_runs b @ map snd (wakes k))
     \<and> (\<forall>p \<in> set (wk_pending k). snd (snd p) = fst p \<and> fst p \<in> wk_scheduled k)"

lemma wakes_put [simp]:
  "wakes (put_wake x k) = wakes k @ (case x of None \<Rightarrow> [] | Some y \<Rightarrow> [y])"
  by (auto simp: wakes_def put_wake_def map_filter_def split: option.split)

lemma put_wake_fields [simp]:
  "wk_scheduled (put_wake x k) = wk_scheduled k" "wk_pending (put_wake x k) = wk_pending k"
  "wk_thread (put_wake x k) = wk_thread k" "wk_accepting (put_wake x k) = wk_accepting k"
  "wk_stop_requested (put_wake x k) = wk_stop_requested k"
  by (simp_all add: put_wake_def)

lemma wakes_update [simp]:
  "wakes (wk_scheduled_update f k) = wakes k" "wakes (wk_pending_update g k) = wakes k"
  "wakes (wk_inflight_update h k) = wakes k" "wakes (wk_thread_update t k) = wakes k"
  "wakes (wk_stop_requested_update u k) = wakes k" "wakes (wk_active_update a k) = wakes k"
  "wakes (wk_accepting_update c k) = wakes k"
  by (simp_all add: wakes_def)

lemma set_jput_subset: "set (jput k v d) \<subseteq> insert (k, v) (set d)"
  by (induction k v d rule: jput.induct) auto

lemma wakes_ok_schedule:
  assumes ok: "wakes_ok b k" shows "wakes_ok b (schedule_wake item k)"
proof (cases "q_run_id item \<in> wk_scheduled k")
  case True
  have "\<forall>p \<in> set (jput (q_run_id item) (q_id item, q_run_id item) (wk_pending k)).
      snd (snd p) = fst p \<and> fst p \<in> wk_scheduled k"
    using ok True set_jput_subset [of "q_run_id item" "(q_id item, q_run_id item)" "wk_pending k"]
    unfolding wakes_ok_def by (metis (no_types, lifting) fst_conv insertE snd_conv subsetD)
  then show ?thesis
    using ok True by (simp add: schedule_wake_def wakes_ok_def)
next
  case False
  then show ?thesis
    using ok by (auto simp: schedule_wake_def wakes_ok_def)
qed

lemma wakes_ok_put:
  "wakes_ok (Some (snd x)) k \<Longrightarrow> wakes_ok None (put_wake (Some x) k)"
  by (auto simp: wakes_ok_def busy_runs_def)

lemma wakes_ok_release:
  assumes ok: "wakes_ok (Some r) k" shows "wakes_ok None (release_wake r k)"
proof (cases "map_of (wk_pending k) r")
  case None
  then have "\<forall>p \<in> set (wk_pending k). fst p \<noteq> r" by (metis map_of_eq_None_iff imageI)
  then show ?thesis
    using ok None by (auto simp: wakes_ok_def busy_runs_def release_wake_def)
next
  case (Some x)
  then have "snd x = r" using ok by (auto simp: wakes_ok_def dest!: map_of_SomeD)
  then show ?thesis
    using ok Some by (auto simp: wakes_ok_def busy_runs_def release_wake_def)
qed

lemma wakes_ok_take:
  "wakes_ok None k \<Longrightarrow> wk_queue k = x # rest \<Longrightarrow>
     wakes_ok (map_option snd x) (k\<lparr>wk_queue := rest\<rparr>)"
  by (cases x) (auto simp: wakes_ok_def busy_runs_def wakes_def map_filter_simps)

lemma wakes_ok_update [simp]:
  "wakes_ok b (wk_inflight_update h k) = wakes_ok b k"
  "wakes_ok b (wk_thread_update t k) = wakes_ok b k"
  "wakes_ok b (wk_stop_requested_update u k) = wakes_ok b k"
  "wakes_ok b (wk_active_update a k) = wakes_ok b k"
  "wakes_ok b (wk_accepting_update c k) = wakes_ok b k"
  by (simp_all add: wakes_ok_def)

section \<open>Actions of the worker\<close>

definition in_memory :: "(worker \<Rightarrow> bool) \<Rightarrow> worker \<times> world \<Rightarrow> bool" where
  "in_memory P s \<longleftrightarrow> P (fst s)"

lemma keeps_durable [keeps_intros]: "keeps (in_memory P) (durable m)"
  by (auto simp: keeps_def durable_def in_memory_def split: prod.split)

lemma keeps_memoryD:
  "keeps (in_memory P) m \<Longrightarrow> P (fst s) \<Longrightarrow> P (fst (snd (m s)))"
  by (simp add: keeps_def in_memory_def del: split_paired_All)

lemma keeps_look [keeps_intros]: "keeps I (look f)"
  by (simp add: look_def keeps_getsM)

lemma keeps_outcome [keeps_intros]: "keeps I m \<Longrightarrow> keeps I (outcome_of m)"
  by (auto simp: keeps_def outcome_of_def split: prod.split)

lemma keeps_workerly: "(\<And>k. P k \<Longrightarrow> P (f k)) \<Longrightarrow> keeps (in_memory P) (workerly f)"
  by (auto simp: keeps_def workerly_def modifyM_def in_memory_def)

lemma keeps_case_sum [keeps_intros]:
  "(\<And>e. keeps I (f e)) \<Longrightarrow> (\<And>x. keeps I (g x)) \<Longrightarrow> keeps I (case r of Inl e \<Rightarrow> f e | Inr x \<Rightarrow> g x)"
  by (cases r) auto

text \<open>Actions that return from every state satisfying the first predicate.\<close>

abbreviation surely :: "('s \<Rightarrow> bool) \<Rightarrow> ('s, 'a) act \<Rightarrow> ('a \<Rightarrow> 's \<Rightarrow> bool) \<Rightarrow> bool" where
  "surely P m Q \<equiv> triple P m Q (\<lambda>_ _. False)"

definition no_raise :: "('s, 'a) act \<Rightarrow> bool" where
  "no_raise m \<longleftrightarrow> (\<forall>s. \<exists>x s'. m s = (Inr x, s'))"

lemma no_raise_attempt [intro, simp]: "no_raise (outcome_of m)"
  by (auto simp: no_raise_def outcome_of_def split: prod.split)

lemma no_raise_returnM [intro, simp]: "no_raise (returnM x)"
  by (simp add: no_raise_def returnM_def)

lemma no_raise_look [intro, simp]: "no_raise (look f)"
  by (simp add: no_raise_def look_def getsM_def)

lemma no_raise_workerly [intro, simp]: "no_raise (workerly f)"
  by (simp add: no_raise_def workerly_def modifyM_def)

lemma no_raise_bindM [intro]: "no_raise m \<Longrightarrow> (\<And>x. no_raise (f x)) \<Longrightarrow> no_raise (bindM m f)"
  unfolding no_raise_def by (metis bindM_returns)

lemma no_raise_thenM [intro]: "no_raise m \<Longrightarrow> no_raise k \<Longrightarrow> no_raise (thenM m k)"
  unfolding thenM_def by (rule no_raise_bindM)

lemma no_raise_forM [intro]: "(\<And>x. no_raise (f x)) \<Longrightarrow> no_raise (forM xs f)"
  by (induction xs) auto

lemma no_raise_event [intro, simp]: "no_raise (durable (record_worker_event a r q out))"
  by (auto simp: no_raise_def durable_def record_worker_event_def catchM_def returnM_def
      split: prod.split sum.split)

lemma surely_keeps:
  assumes "no_raise m" "keeps I m" shows "surely I m (\<lambda>_. I)"
  unfolding triple_def
proof (intro allI impI)
  fix s assume "I s"
  obtain x s' where m: "m s = (Inr x, s')" using assms(1) unfolding no_raise_def by blast
  have "I s'" by (rule keepsD [OF assms(2) \<open>I s\<close> m])
  with m show "case m s of (Inr x, s') \<Rightarrow> I s' | (Inl e, s') \<Rightarrow> False" by simp
qed

lemma surely_bind:
  "surely P m R \<Longrightarrow> (\<And>x. surely (R x) (f x) Q) \<Longrightarrow> surely P (bindM m f) Q"
  by (rule triple_bindM)

lemma surely_return: "(\<And>s. P s \<Longrightarrow> Q x s) \<Longrightarrow> surely P (returnM x) Q"
  by (simp add: triple_def returnM_def)

lemma surely_workerly:
  "(\<And>k. P k \<Longrightarrow> P' (f k)) \<Longrightarrow> surely (in_memory P) (workerly f) (\<lambda>_. in_memory P')"
  by (auto simp: triple_def workerly_def modifyM_def in_memory_def)

lemma surely_then: "surely P m (\<lambda>_. R) \<Longrightarrow> surely R k Q \<Longrightarrow> surely P (thenM m k) Q"
  by (rule triple_thenM)

section \<open>Requests of other threads\<close>

lemma keeps_admission:
  "keeps (in_memory (wakes_ok b)) begin_admission" "keeps (in_memory (wakes_ok b)) finish_admission"
  unfolding begin_admission_def finish_admission_def
  by (intro keeps_intros keeps_workerly; simp)+

lemma keeps_schedule: "keeps (in_memory (wakes_ok b)) (workerly (schedule_wake item))"
  by (intro keeps_workerly wakes_ok_schedule)

lemma keeps_submit: "keeps (in_memory (wakes_ok b)) (worker_submit r)"
  unfolding worker_submit_def Let_def by (intro keeps_intros keeps_admission keeps_schedule)

lemma keeps_approve: "keeps (in_memory (wakes_ok b)) (approve_and_resume env i j)"
  unfolding approve_and_resume_def by (intro keeps_intros keeps_admission keeps_schedule)

lemma wakes_ok_put_stop [simp]: "wakes_ok b (put_wake None k) = wakes_ok b k"
  by (simp add: wakes_ok_def)

lemma keeps_stop: "keeps (in_memory (wakes_ok b)) worker_stop_request"
  unfolding worker_stop_request_def
  by (intro keeps_intros keeps_workerly) simp_all

lemma keeps_request: "keeps (in_memory (wakes_ok b)) (perform_request env q)"
  by (cases q) (auto intro!: keeps_intros keeps_submit keeps_approve keeps_stop)

lemma no_raise_request: "no_raise (perform_request env q)"
proof (cases q)
  case Stop_worker
  have "no_raise worker_stop_request"
    unfolding worker_stop_request_def
    by (intro no_raise_bindM no_raise_look) (auto split: option.split)
  then show ?thesis using Stop_worker by auto
qed auto

lemma others_keep_wakes:
  "surely (in_memory (wakes_ok b)) (other_threads env n) (\<lambda>_. in_memory (wakes_ok b))"
  unfolding other_threads_def
  by (intro surely_keeps no_raise_forM keeps_forM keeps_request no_raise_request)

section \<open>An iteration of the loop\<close>

lemma surely_keep_event:
  "surely (in_memory P) (durable (record_worker_event a r q out)) (\<lambda>_. in_memory P)"
  by (intro surely_keeps no_raise_event keeps_durable)

lemma surely_attempt_durable: "surely (in_memory P) (outcome_of (durable m)) (\<lambda>_. in_memory P)"
  by (intro surely_keeps no_raise_attempt keeps_outcome keeps_durable)

lemma surely_look: "surely I (look f) (\<lambda>_. I)"
  by (intro surely_keeps no_raise_look keeps_look)

lemma surely_if: "surely P m Q \<Longrightarrow> surely P k Q \<Longrightarrow> surely P (if b then m else k) Q"
  by simp

lemma surely_sum:
  "(\<And>e. surely P (f e) Q) \<Longrightarrow> (\<And>x. surely P (g x) Q)
    \<Longrightarrow> surely P (case r of Inl e \<Rightarrow> f e | Inr x \<Rightarrow> g x) Q"
  by (cases r) auto

lemma surely_option:
  "surely P m Q \<Longrightarrow> (\<And>x. surely P (f x) Q) \<Longrightarrow> surely P (case v of None \<Rightarrow> m | Some x \<Rightarrow> f x) Q"
  by (cases v) auto

lemma keeps_others: "keeps (in_memory (wakes_ok b)) (other_threads env n)"
  unfolding other_threads_def by (intro keeps_forM keeps_request)

lemma keeps_read_item:
  "keeps (in_memory (wakes_ok b)) (get_queue_item_with_retry env i n)"
  by (induction n) (auto intro!: keeps_intros keeps_others)

text \<open>After the \<open>try\<close> statement the run is still the loop's exactly when it was not kept.\<close>

definition kept :: "string \<Rightarrow> bool \<Rightarrow> worker \<times> world \<Rightarrow> bool" where
  "kept run_id keep = in_memory (wakes_ok (if keep then None else Some run_id))"

lemma kept_False: "kept r False = in_memory (wakes_ok (Some r))"
  by (simp add: kept_def)

lemma surely_put:
  "surely (in_memory (wakes_ok (Some (snd x)))) (workerly (put_wake (Some x))) (\<lambda>_. in_memory (wakes_ok None))"
  by (rule surely_workerly) (rule wakes_ok_put)

lemma surely_release:
  "surely (in_memory (wakes_ok (Some r))) (workerly (release_wake r)) (\<lambda>_. in_memory (wakes_ok None))"
  by (rule surely_workerly) (rule wakes_ok_release)

lemma surely_requeue:
  "surely (in_memory (wakes_ok (Some (snd x)))) (requeue_wake env x) (kept (snd x))"
  unfolding requeue_wake_def
  by (rule surely_bind [OF surely_look], rule surely_if)
    (auto intro!: surely_return surely_then [OF surely_put]
      surely_then [OF others_keep_wakes] simp: kept_def)

lemma surely_failure:
  "surely (in_memory (wakes_ok (Some (snd x)))) (handle_failure env x item e) (kept (snd x))"
  unfolding handle_failure_def
  by (rule surely_if [OF surely_requeue], rule surely_bind [OF surely_attempt_durable], rule surely_sum;
      rule surely_then [OF surely_keep_event])
    (auto intro!: surely_requeue surely_return simp: kept_def)

abbreviation kept_of :: "wake \<Rightarrow> bool \<times> bool \<Rightarrow> worker \<times> world \<Rightarrow> bool" where
  "kept_of x r \<equiv> kept (snd x) (snd r)"

lemma surely_done: "surely (in_memory (wakes_ok (Some (snd x)))) (returnM (b, False)) (kept_of x)"
  by (intro surely_return) (simp add: kept_def)

lemma surely_keep_flag:
  "surely P m (kept (snd x)) \<Longrightarrow> surely P (bindM m (\<lambda>keep. returnM (b, keep))) (kept_of x)"
  by (erule surely_bind) (simp add: surely_return)

lemma surely_process:
  "surely (in_memory (wakes_ok (Some (snd x)))) (process_wake env x) (kept_of x)"
proof -
  let ?I = "in_memory (wakes_ok (Some (snd x)))"
  have read: "surely ?I (outcome_of (get_queue_item_with_retry env (fst x) n)) (\<lambda>_. ?I)" for n
    by (intro surely_keeps no_raise_attempt keeps_outcome keeps_read_item)
  have activate: "surely ?I (workerly f) (\<lambda>_. ?I)"
    if "\<And>k. wakes_ok (Some (snd x)) k \<Longrightarrow> wakes_ok (Some (snd x)) (f k)" for f
    by (rule surely_workerly) (rule that)
  have run: "surely ?I (bindM (outcome_of (durable (execute_wake env item))) (\<lambda>r.
           thenM (workerly (\<lambda>k. if wk_active k = Some (q_id item) then k\<lparr>wk_active := None\<rparr> else k))
           (case r of Inr _ \<Rightarrow> returnM (False, False)
           | Inl e \<Rightarrow> bindM (handle_failure env x item e) (\<lambda>keep. returnM (False, keep))))) (kept_of x)" for item
    by (rule surely_bind [OF surely_attempt_durable], rule surely_then [OF activate], simp, rule surely_sum)
      (intro surely_keep_flag surely_failure surely_done)+
  show ?thesis
    unfolding process_wake_def
    by (rule surely_bind [OF surely_look], rule surely_if [OF surely_done], rule surely_bind [OF read],
        rule surely_sum, rule surely_if, rule surely_keep_flag [OF surely_requeue], rule surely_done,
        rule surely_option, rule surely_done, rule surely_bind [OF surely_look],
        rule surely_if [OF surely_done], rule surely_then [OF activate], simp,
        rule surely_then [OF others_keep_wakes], rule run)
qed

lemma surely_iteration:
  "surely (in_memory (wakes_ok None)) (run_loop_iteration env) (\<lambda>_. in_memory (wakes_ok None))"
proof (rule tripleI)
  have step: "surely (in_memory (wakes_ok (Some (snd x)))) (thenM (other_threads env 0)
        (bindM (process_wake env x) (\<lambda>(exits, keep).
         thenM (if keep then returnM () else workerly (release_wake (snd x)))
         (returnM (if exits then Loop_returned else Loop_goes_on))))) (\<lambda>_. in_memory (wakes_ok None))" for x
  proof (rule surely_then [OF others_keep_wakes], rule surely_bind [OF surely_process], clarify)
    fix exits keep
    show "surely (kept_of x (exits, keep)) (thenM (if keep then returnM () else workerly (release_wake (snd x)))
         (returnM (if exits then Loop_returned else Loop_goes_on))) (\<lambda>_. in_memory (wakes_ok None))"
    proof (cases keep)
      case True
      then show ?thesis
        by (simp add: kept_def triple_def thenM_def bindM_def returnM_def)
    next
      case False
      then show ?thesis
        by (auto intro!: surely_then [OF surely_release] surely_return simp: kept_def)
    qed
  qed
  have all: "\<exists>p s'. run_loop_iteration env (k, w) = (Inr p, s') \<and> in_memory (wakes_ok None) s'"
    if ok: "wakes_ok None k" for k w
  proof (cases "wk_stop_requested k \<or> wk_queue k = []")
    case True
    then show ?thesis
      using ok by (auto simp: run_loop_iteration_def look_def getsM_def bindM_def returnM_def in_memory_def)
  next
    case False
    then obtain x rest where q: "wk_queue k = x # rest" "\<not> wk_stop_requested k" by (cases "wk_queue k") auto
    have ok': "in_memory (wakes_ok (map_option snd x)) (k\<lparr>wk_queue := rest\<rparr>, w)"
      using wakes_ok_take [OF ok q(1)] by (simp add: in_memory_def)
    show ?thesis
    proof (cases x)
      case None
      then show ?thesis
        using q ok' by (simp add: run_loop_iteration_def look_def getsM_def bindM_def thenM_def returnM_def
            take_wake_def workerly_def modifyM_def)
    next
      case (Some y)
      let ?m = "thenM (other_threads env 0) (bindM (process_wake env y) (\<lambda>(exits, keep).
         thenM (if keep then returnM () else workerly (release_wake (snd y)))
         (returnM (if exits then Loop_returned else Loop_goes_on))))"
      have "run_loop_iteration env (k, w) = ?m (k\<lparr>wk_queue := rest\<rparr>, w)"
        using q Some by (simp add: run_loop_iteration_def look_def getsM_def bindM_def thenM_def returnM_def
            take_wake_def workerly_def modifyM_def)
      moreover have "case ?m (k\<lparr>wk_queue := rest\<rparr>, w) of
          (Inr p, s') \<Rightarrow> in_memory (wakes_ok None) s' | (Inl e, s') \<Rightarrow> False"
        using step [of y] ok' Some by (simp add: triple_def)
      ultimately show ?thesis by (auto split: prod.splits sum.splits)
    qed
  qed
  show "in_memory (wakes_ok None) s'"
    if "in_memory (wakes_ok None) s" "run_loop_iteration env s = (Inr p, s')" for s p s'
    using all [of "fst s" "snd s"] that by (auto simp: in_memory_def)
  show False
    if "in_memory (wakes_ok None) s" "run_loop_iteration env s = (Inl e, s')" for s e s'
    using all [of "fst s" "snd s"] that by (auto simp: in_memory_def)
qed

section \<open>Reachable states\<close>

lemma wakes_ok_empty:
  "wakes_ok None (k\<lparr>wk_queue := [], wk_scheduled := {}, wk_pending := []\<rparr>)"
  by (simp add: wakes_ok_def busy_runs_def wakes_def map_filter_simps)

lemma keeps_schedule_persisted:
  "keeps (in_memory (wakes_ok b)) schedule_persisted_queued_runs"
  unfolding schedule_persisted_queued_runs_def schedule_persisted_run_def
  by (intro keeps_intros keeps_schedule)

text \<open>
  A worker whose thread is gone keeps no promise about its queue, since \<open>stop\<close> forgets what is
  scheduled and leaves the queue to the next start, which replaces it.
\<close>

definition worker_ok :: "worker \<Rightarrow> bool" where
  "worker_ok k \<longleftrightarrow> wk_thread k \<noteq> None \<longrightarrow> wakes_ok None k"

text \<open>\<open>worker_start\<close> after it has emptied the queue.\<close>

definition start_rest :: "worker_env \<Rightarrow> unit worker_act" where
  "start_rest env = bindM (look wk_inflight) (\<lambda>inflight.
       thenM (guardM (inflight = 0) (RunWorkerError ''Background run worker still has an in-flight submission.''))
       (thenM (workerly (\<lambda>k. k\<lparr>wk_stop_requested := False, wk_active := None, wk_accepting := False\<rparr>))
       (thenM (durable (recover_interrupted_runs env))
       (thenM (workerly (\<lambda>k. k\<lparr>wk_thread := Some True\<rparr>))
       (thenM schedule_persisted_queued_runs
       (workerly (\<lambda>k. k\<lparr>wk_accepting := True\<rparr>)))))))"

lemma keeps_start_rest: "keeps (in_memory (wakes_ok None)) (start_rest env)"
  unfolding start_rest_def
  by (intro keeps_intros keeps_schedule_persisted keeps_workerly; simp)

lemma worker_start_ok: "keeps (in_memory worker_ok) (worker_start env)"
proof (rule keepsI)
  fix s assume ok: "in_memory worker_ok s"
  obtain k w where s: "s = (k, w)" by (cases s)
  show "in_memory worker_ok (snd (worker_start env s))"
  proof (cases "worker_is_running k")
    case True
    then show ?thesis
      using ok s by (simp add: worker_start_def look_def getsM_def bindM_def returnM_def)
  next
    case False
    let ?k = "k\<lparr>wk_queue := [], wk_scheduled := {}, wk_pending := []\<rparr>"
    have "worker_start env s = start_rest env (?k, w)"
      using False s by (simp add: worker_start_def start_rest_def look_def getsM_def bindM_def thenM_def
          workerly_def modifyM_def)
    moreover have "in_memory (wakes_ok None) (snd (start_rest env (?k, w)))"
      using keeps_start_rest [of env] wakes_ok_empty [of k] by (simp add: keeps_def in_memory_def)
    ultimately show ?thesis by (simp add: in_memory_def worker_ok_def)
  qed
qed

text \<open>No request changes whether there is a thread.\<close>

lemma keeps_thread: "keeps (in_memory (\<lambda>k. wk_thread k = t)) (perform_request env q)"
proof -
  have "keeps (in_memory (\<lambda>k. wk_thread k = t)) (workerly (schedule_wake item))" for item
    by (intro keeps_workerly) (simp add: schedule_wake_def Let_def)
  moreover have "keeps (in_memory (\<lambda>k. wk_thread k = t)) begin_admission"
    "keeps (in_memory (\<lambda>k. wk_thread k = t)) finish_admission"
    unfolding begin_admission_def finish_admission_def by (intro keeps_intros keeps_workerly; simp)+
  moreover have "keeps (in_memory (\<lambda>k. wk_thread k = t)) worker_stop_request"
    unfolding worker_stop_request_def by (intro keeps_intros keeps_workerly) simp_all
  ultimately show ?thesis
    by (cases q) (auto intro!: keeps_intros simp: worker_submit_def approve_and_resume_def Let_def)
qed

lemma request_ok: "keeps (in_memory worker_ok) (perform_request env q)"
proof (rule keepsI)
  fix s assume ok: "in_memory worker_ok s"
  have "wk_thread (fst (snd (perform_request env q s))) = wk_thread (fst s)"
    by (rule keeps_memoryD [OF keeps_thread]) simp
  then show "in_memory worker_ok (snd (perform_request env q s))"
    using keeps_memoryD [OF keeps_request, of None s env q] ok by (auto simp: in_memory_def worker_ok_def)
qed

lemma surelyD: "surely P m Q \<Longrightarrow> P s \<Longrightarrow> \<exists>x s'. m s = (Inr x, s') \<and> Q x s'"
  unfolding triple_def by (cases "m s"; cases "fst (m s)") fastforce+

lemma loop_step_returns:
  assumes "wakes_ok None (fst s)"
  shows "\<exists>p s'. run_loop_step env s = (Inr p, s') \<and> wakes_ok None (fst s')"
proof -
  have "in_memory (wakes_ok None) s" using assms by (simp add: in_memory_def)
  from surelyD [OF surely_iteration [of env] this]
  obtain p k w where i: "run_loop_iteration env s = (Inr p, k, w)" "wakes_ok None k"
    by (auto simp: in_memory_def)
  then show ?thesis
    by (simp add: run_loop_step_def bindM_def thenM_def whenM_def workerly_def modifyM_def returnM_def)
qed

text \<open>
  The states a worker can reach, with any runner, packs and scheduling of the other threads in
  each step, and any changes of the durable state by other processes in between.
\<close>

inductive worker_reachable :: "worker \<times> world \<Rightarrow> bool" where
  created: "worker_reachable (new_worker, w)"
| started: "worker_reachable s \<Longrightarrow> worker_reachable (snd (worker_start env s))"
| requested: "worker_reachable s \<Longrightarrow> worker_reachable (snd (perform_request env q s))"
| looped: "worker_reachable s \<Longrightarrow> worker_is_running (fst s) \<Longrightarrow>
    worker_reachable (snd (run_loop_step env s))"
| stopped: "worker_reachable s \<Longrightarrow> worker_reachable (snd (worker_stop_finish drained joined s))"
| outside: "worker_reachable (k, w) \<Longrightarrow> worker_reachable (k, w')"

lemma worker_reachable_ok: "worker_reachable s \<Longrightarrow> worker_ok (fst s)"
proof (induction rule: worker_reachable.induct)
  case (created w)
  then show ?case by (simp add: worker_ok_def new_worker_def)
next
  case (started s env)
  then show ?case by (intro keeps_memoryD [OF worker_start_ok])
next
  case (requested s env q)
  then show ?case by (intro keeps_memoryD [OF request_ok])
next
  case (looped s env)
  then have "wakes_ok None (fst s)" by (auto simp: worker_ok_def worker_is_running_def)
  from loop_step_returns [OF this, of env] show ?case by (auto simp: worker_ok_def)
next
  case (stopped s drained joined)
  obtain k w where "s = (k, w)" by (cases s)
  with stopped show ?case
    by (simp add: worker_stop_finish_def thenM_def bindM_def workerly_def modifyM_def returnM_def
        worker_ok_def)
qed simp

text \<open>
  C36. The background loop survives everything: in every reachable state with a live thread, an
  iteration of the loop returns (no exception of the runner, the storage or the recording of a
  failure ends the thread), each scheduled run has exactly one wake item in the queue, and the
  wakes that arrived while their run was scheduled are for scheduled runs, one per run.
\<close>

theorem worker_loop_survives:
  assumes "worker_reachable (k, w)" "worker_is_running k"
  shows "(\<exists>p s'. run_loop_step env (k, w) = (Inr p, s'))
    \<and> distinct (map snd (wakes k)) \<and> wk_scheduled k = set (map snd (wakes k))
    \<and> fst ` set (wk_pending k) \<subseteq> wk_scheduled k"
proof -
  have ok: "wakes_ok None k"
    using worker_reachable_ok [OF assms(1)] assms(2) by (auto simp: worker_ok_def worker_is_running_def)
  have "\<exists>p s'. run_loop_step env (k, w) = (Inr p, s')"
    using loop_step_returns [of "(k, w)" env] ok by auto
  with ok show ?thesis by (auto simp: wakes_ok_def busy_runs_def)
qed

definition example_worker_env :: worker_env where
  "example_worker_env = \<lparr>we_packs = [], we_runner = example_env, we_hb = (\<lambda>_. 0),
     we_plan_hash = (\<lambda>_. None), we_other = (\<lambda>_. [])\<rparr>"

definition example_started :: "worker \<times> world" where
  "example_started = snd (worker_start example_worker_env
     (new_worker, example_world (empty_db\<lparr>d_tasks := [example_task]\<rparr>)))"

definition example_submitted :: "worker \<times> world" where
  "example_submitted = snd (perform_request example_worker_env
     (Submit_run (example_run\<lparr>r_status := Run_QUEUED\<rparr>)) example_started)"

lemma example_submitted_state:
  "wk_thread (fst example_submitted) = Some True"
  "wk_scheduled (fst example_submitted) = {r_id example_run}"
  by code_simp+

theorem worker_loop_survives_witness:
  "worker_is_running (fst example_submitted) \<and> length (wakes (fst example_submitted)) = 1"
proof -
  have r: "worker_reachable (fst example_submitted, snd example_submitted)"
    unfolding example_submitted_def example_started_def prod.collapse
    by (intro worker_reachable.requested worker_reachable.started worker_reachable.created)
  have run: "worker_is_running (fst example_submitted)"
    by (simp add: worker_is_running_def example_submitted_state)
  from worker_loop_survives [OF r run] example_submitted_state(2)
  have "distinct (map snd (wakes (fst example_submitted)))"
    "set (map snd (wakes (fst example_submitted))) = {r_id example_run}" by simp_all
  then have "length (map snd (wakes (fst example_submitted))) = 1"
    by (metis One_nat_def card.empty card_insert_disjoint distinct_card empty_iff finite.emptyI)
  with run show ?thesis by simp
qed

end
