(* ===== verification/Tool_Summaries.thy ===== *)
theory Tool_Summaries imports Artifacts "HOL-Library.Sublist" begin

text \<open>
  What the tool gateway traces of a call: the summaries of inputs and outputs and the redaction
  of messages in \<open>backend/app/core/web_tools.py\<close> and \<open>backend/app/core/browser_tools.py\<close>.
  \<open>te_environ\<close> are the environment variables; \<open>te_str\<close> is Python's \<open>str\<close> of a JSON value that
  is no string, \<open>te_int\<close> its \<open>int\<close> of a string, and \<open>te_safe_url\<close> the scheme, host and port
  that \<open>urllib\<close> reads from a URL (or \<open>[invalid-url]\<close>).
\<close>

record tool_env =
  te_environ :: "string \<Rightarrow> string option"
  te_str :: "jval \<Rightarrow> string"
  te_int :: "string \<Rightarrow> int option"
  te_safe_url :: "string \<Rightarrow> string"

section \<open>Strings\<close>

text \<open>\<open>v.find(mark)\<close>: the length of what comes before the first occurrence.\<close>

fun find_text :: "string \<Rightarrow> string \<Rightarrow> nat option" where
  "find_text mark [] = (if mark = [] then Some 0 else None)"
| "find_text mark (c # cs) =
    (if take (length mark) (c # cs) = mark then Some 0 else map_option Suc (find_text mark cs))"

text \<open>\<open>v.replace(old, new)\<close> for a non-empty \<open>old\<close>; \<open>skip\<close> characters of a match are still to be dropped.\<close>

fun replace_from :: "nat \<Rightarrow> string \<Rightarrow> string \<Rightarrow> string \<Rightarrow> string" where
  "replace_from skip old new [] = []"
| "replace_from (Suc n) old new (c # cs) = replace_from n old new cs"
| "replace_from 0 old new (c # cs) =
    (if take (length old) (c # cs) = old then new @ replace_from (length old - 1) old new cs
     else c # replace_from 0 old new cs)"

definition replace_text :: "string \<Rightarrow> string \<Rightarrow> string \<Rightarrow> string" where
  "replace_text old new v = replace_from 0 old new v"

lemma replace_text_examples:
  "replace_text ''ab'' ''X'' ''aababab'' = ''aXXX''" "find_text ''ab'' ''aab'' = Some 1"
  by code_simp+

definition py_str :: "tool_env \<Rightarrow> jval \<Rightarrow> string" where
  "py_str env v = (case v of JStr s \<Rightarrow> s | _ \<Rightarrow> te_str env v)"

definition dict_value :: "jobj \<Rightarrow> string \<Rightarrow> jval \<Rightarrow> jval" where
  "dict_value d k v = (case map_of d k of None \<Rightarrow> v | Some x \<Rightarrow> x)"

section \<open>Redaction\<close>

definition redact_after_marker :: "string \<Rightarrow> string \<Rightarrow> string" where
  "redact_after_marker message marker = (case find_text marker (lower message) of
     None \<Rightarrow> message
   | Some i \<Rightarrow>
       let before = take (i + length marker) message; after = drop (i + length marker) message in
       case after of
         [] \<Rightarrow> message
       | c # _ \<Rightarrow> if c \<in> set ''=: '' then before @ [c] @ ''[REDACTED]'' else message)"

definition redact_tool_message :: "tool_env \<Rightarrow> string \<Rightarrow> string" where
  "redact_tool_message env message =
    (let redacted = foldl redact_after_marker message
           [''api_key'', ''apikey'', ''token'', ''secret'', ''password''];
         redacted = (case find_text ''Bearer '' redacted of None \<Rightarrow> redacted
           | Some i \<Rightarrow> take i redacted @ ''Bearer [REDACTED]'') in
     case te_environ env ''TAVILY_API_KEY'' of
       None \<Rightarrow> redacted
     | Some key \<Rightarrow> if key = [] then redacted else replace_text key ''[REDACTED]'' redacted)"

text \<open>
  What follows the first marker and its separator is gone, whatever it is.
\<close>

lemma redact_after_marker_hides:
  assumes "find_text marker (lower message) = Some i" "i + length marker < length message"
    "message ! (i + length marker) \<in> set ''=: ''"
  shows "redact_after_marker message marker = take (Suc (i + length marker)) message @ ''[REDACTED]''"
proof -
  obtain c r where d: "drop (i + length marker) message = c # r"
    using assms(2) by (cases "drop (i + length marker) message") auto
  then have "c = message ! (i + length marker)" by (metis hd_drop_conv_nth assms(2) list.sel(1))
  then show ?thesis
    using assms d by (simp add: redact_after_marker_def Let_def take_Suc_conv_app_nth)
qed

section \<open>Summaries\<close>

definition web_hash :: "string \<Rightarrow> world \<Rightarrow> string" where
  "web_hash v w = take 16 (w_sha256 w (w_encode w v))"

definition contains_any :: "string list \<Rightarrow> string \<Rightarrow> bool" where
  "contains_any markers v \<longleftrightarrow> (\<exists>m \<in> set markers. sublist m v)"

fun is_string :: "jval \<Rightarrow> bool" where
  "is_string (JStr _) = True"
| "is_string _ = False"

fun text_length :: "jval \<Rightarrow> int" where
  "text_length (JStr s) = int (length s)"
| "text_length _ = 0"

definition summary_entry :: "string \<Rightarrow> jval \<Rightarrow> string \<times> jval" where
  "summary_entry key v =
    (let normalized = lower key in
     if normalized \<in> {''content'', ''body'', ''raw'', ''headers''} \<and> is_string v then
       (key @ ''_length'', JInt (text_length v))
     else if contains_any [''key'', ''token'', ''secret'', ''password'', ''authorization''] normalized then
       (key, JStr ''[REDACTED]'')
     else if is_string v \<and> text_length v > 500 then (key @ ''_length'', JInt (text_length v))
     else (key, v))"

definition generic_safe_summary :: "jobj \<Rightarrow> jobj" where
  "generic_safe_summary d = foldl (\<lambda>acc (k, v). jput (fst (summary_entry k v)) (snd (summary_entry k v)) acc) [] d"

text \<open>\<open>int(value)\<close>, \<open>None\<close> when it raises.\<close>

fun py_int :: "tool_env \<Rightarrow> jval \<Rightarrow> int option" where
  "py_int env (JInt n) = Some n"
| "py_int env (JBool b) = Some (if b then 1 else 0)"
| "py_int env (JFloat q) = Some (if q \<ge> 0 then \<lfloor>q\<rfloor> else \<lceil>q\<rceil>)"
| "py_int env (JStr s) = te_int env s"
| "py_int env _ = None"

definition safe_max_results_for_trace :: "tool_env \<Rightarrow> jval \<Rightarrow> jval" where
  "safe_max_results_for_trace env v = (case py_int env v of
     None \<Rightarrow> JStr ''[invalid]''
   | Some n \<Rightarrow> if n < 1 \<or> n > 10 then JStr ''[invalid]'' else JInt n)"

definition hash_unless_empty :: "string \<Rightarrow> world \<Rightarrow> jval" where
  "hash_unless_empty v w = JStr (if v = [] then [] else web_hash v w)"

definition or_default :: "string option \<Rightarrow> string \<Rightarrow> string" where
  "or_default x d = (case x of None \<Rightarrow> d | Some v \<Rightarrow> v)"

definition search_input_summary :: "tool_env \<Rightarrow> jobj \<Rightarrow> string \<Rightarrow> world \<Rightarrow> jobj" where
  "search_input_summary env d provider w =
    (let query = py_str env (dict_value d ''query'' (JStr [])) in
     [(''query_hash'', hash_unless_empty query w), (''query_length'', JInt (int (length query))),
      (''max_results'', safe_max_results_for_trace env (dict_value d ''max_results'' (JInt 5))),
      (''provider'', JStr provider)])"

definition fetch_input_summary :: "tool_env \<Rightarrow> jobj \<Rightarrow> world \<Rightarrow> jobj" where
  "fetch_input_summary env d w =
     [(''url_hash'', hash_unless_empty (py_str env (dict_value d ''url'' (JStr []))) w)]"

definition safe_tool_input_summary :: "tool_env \<Rightarrow> string \<Rightarrow> jobj \<Rightarrow> world \<Rightarrow> jobj" where
  "safe_tool_input_summary env tool_name d w =
    (if tool_name \<in> {''web_search'', ''web_search_mock''} then
       search_input_summary env d (if tool_name = ''web_search_mock'' then ''mock''
         else or_default (te_environ env ''TEAM_AGENT_WEB_SEARCH_PROVIDER'') ''mock'') w
     else if tool_name \<in> {''fetch_page'', ''fetch_page_mock''} then fetch_input_summary env d w
     else generic_safe_summary d)"

definition safe_browser_tool_input_summary :: "tool_env \<Rightarrow> string \<Rightarrow> jobj \<Rightarrow> world \<Rightarrow> jobj" where
  "safe_browser_tool_input_summary env tool_name d w =
    (if tool_name = ''browser_search'' then
       search_input_summary env d (or_default (te_environ env ''TEAM_AGENT_BROWSER_PROVIDER'') ''mock'') w
       @ [(''search_engine'', JStr (or_default (te_environ env ''TEAM_AGENT_BROWSER_SEARCH_ENGINE'') ''bing''))]
     else if tool_name = ''browser_fetch'' then fetch_input_summary env d w
     else generic_safe_summary d)"

text \<open>\<open>for item in results\<close>: what cannot be iterated raises \<open>TypeError\<close>.\<close>

fun result_items :: "jval \<Rightarrow> exn + jval list" where
  "result_items (JList xs) = Inr xs"
| "result_items (JObj d) = Inr (map (\<lambda>(k, _). JStr k) d)"
| "result_items (JStr s) = Inr (map (\<lambda>c. JStr [c]) s)"
| "result_items _ = Inl (OtherError ''object is not iterable'')"

definition result_urls :: "tool_env \<Rightarrow> jval list \<Rightarrow> string list" where
  "result_urls env items = concat (map (\<lambda>x. case x of
      JObj d \<Rightarrow> [te_safe_url env (py_str env (dict_value d ''url'' (JStr [])))] | _ \<Rightarrow> []) items)"

definition list_length :: "jval \<Rightarrow> int" where
  "list_length v = (case v of JList xs \<Rightarrow> int (length xs) | _ \<Rightarrow> 0)"

definition search_output_summary :: "tool_env \<Rightarrow> jobj \<Rightarrow> jobj \<Rightarrow> exn + jobj" where
  "search_output_summary env extra d =
    (let results = dict_value d ''results'' (JList []) in
     bindE (result_items results) (\<lambda>items. Inr (
       [(''provider'', dict_value d ''provider'' (JStr ''mock'')),
        (''mocked'', JBool (jtruthy (dict_value d ''mocked'' (JBool True))))] @ extra
       @ [(''result_count'', JInt (list_length results)),
          (''urls'', jstr_list (result_urls env items)),
          (''latency_ms'', dict_value d ''latency_ms'' (JInt 0))])))"

definition fetch_output_summary :: "tool_env \<Rightarrow> jobj \<Rightarrow> jobj" where
  "fetch_output_summary env d =
     [(''provider'', dict_value d ''provider'' (JStr ''mock'')),
      (''mocked'', JBool (jtruthy (dict_value d ''mocked'' (JBool True)))),
      (''url'', JStr (te_safe_url env (py_str env (dict_value d ''url'' (JStr []))))),
      (''status_code'', dict_value d ''status_code'' (JInt 0)),
      (''content_length'', JInt (int (length (py_str env (dict_value d ''content'' (JStr [])))))),
      (''latency_ms'', dict_value d ''latency_ms'' (JInt 0))]"

definition safe_tool_output_summary :: "tool_env \<Rightarrow> string \<Rightarrow> jobj \<Rightarrow> exn + jobj" where
  "safe_tool_output_summary env tool_name d =
    (if tool_name \<in> {''web_search'', ''web_search_mock''} then search_output_summary env [] d
     else if tool_name \<in> {''fetch_page'', ''fetch_page_mock''} then Inr (fetch_output_summary env d)
     else Inr (generic_safe_summary d))"

definition safe_browser_tool_output_summary :: "tool_env \<Rightarrow> string \<Rightarrow> jobj \<Rightarrow> exn + jobj" where
  "safe_browser_tool_output_summary env tool_name d =
    (if tool_name = ''browser_search'' then
       search_output_summary env [(''search_engine'', dict_value d ''search_engine'' (JStr ''bing''))] d
     else if tool_name = ''browser_fetch'' then Inr (fetch_output_summary env d)
     else Inr (generic_safe_summary d))"

text \<open>A value under a key that names a secret does not reach the trace.\<close>

lemma generic_summary_redacts:
  assumes "contains_any [''key'', ''token'', ''secret'', ''password'', ''authorization''] (lower k)"
    "(k, v) \<in> set (generic_safe_summary d)"
    "\<forall>(k', v') \<in> set d. k' @ ''_length'' \<noteq> k"
  shows "v = JStr ''[REDACTED]''"
proof -
  let ?step = "\<lambda>acc (k, v). jput (fst (summary_entry k v)) (snd (summary_entry k v)) acc"
  have put: "\<And>acc k' v'. (k, v) \<in> set (jput k' v' acc) \<Longrightarrow> (k, v) \<in> set acc \<or> (k' = k \<and> v' = v)"
    subgoal for acc k' v' by (induction k' v' acc rule: jput.induct) (auto split: if_splits)
    done
  have entry: "fst (summary_entry k' v') = k \<Longrightarrow> k' @ ''_length'' \<noteq> k \<Longrightarrow>
      snd (summary_entry k' v') = JStr ''[REDACTED]''" for k' v'
    using assms(1) by (auto simp: summary_entry_def Let_def split: if_splits)
  have "(k, v) \<in> set (foldl ?step acc d) \<Longrightarrow> \<forall>(k', v') \<in> set d. k' @ ''_length'' \<noteq> k \<Longrightarrow>
      (k, v) \<in> set acc \<or> v = JStr ''[REDACTED]''" for acc
  proof (induction d arbitrary: acc)
    case (Cons x d)
    obtain k' v' where x: "x = (k', v')" by (cases x)
    have "(k, v) \<in> set (jput (fst (summary_entry k' v')) (snd (summary_entry k' v')) acc)
        \<or> v = JStr ''[REDACTED]''"
      using Cons.IH [of "jput (fst (summary_entry k' v')) (snd (summary_entry k' v')) acc"] Cons.prems x by simp
    then show ?case using put entry [of k' v'] Cons.prems(2) x by auto
  qed simp
  from this [of "[]"] show ?thesis using assms(2,3) by (simp add: generic_safe_summary_def)
qed

end
