(* ===== verification/Tool_Gateway.thy ===== *)
theory Tool_Gateway imports Tool_Summaries Step_Gates begin

text \<open>
  \<open>ToolGateway\<close> of \<open>backend/app/core/tool_gateway.py\<close>: the registered tools, the permission and
  schema checks of a call, its trace events, and the tools that \<open>create_mock_gateway\<close> registers.
  A handler is any action. The providers of web, browser and workspace access are arguments.
\<close>

section \<open>Tools\<close>

datatype side_effect = Effect_none | Local_write | Local_execute | External_write

text \<open>
  \<open>tl_real_web_call_enabled\<close> and \<open>tl_real_web_provider\<close> are callbacks; the provider's may
  return anything.
\<close>

record tool_definition =
  tl_name :: string
  tl_description :: string
  tl_required_fields :: "string list"
  tl_handler :: "jobj \<Rightarrow> jobj io"
  tl_input_schema :: "jobj option"
  tl_side_effect :: side_effect
  tl_real_web_call_enabled :: "(world \<Rightarrow> bool) option"
  tl_real_web_provider :: "(world \<Rightarrow> jval) option"

record tool_context =
  tx_run_id :: string
  tx_agent_run_id :: string
  tx_agent :: agent_definition
  tx_allowed_tools :: "string list"
  tx_real_web_access_confirmed :: bool
  tx_confirmed_real_web_tools :: "string list option"
  tx_confirmed_real_web_tool_routes :: "(string \<times> string) list option"
  tx_enforce_side_effect_approval :: bool
  tx_approved_side_effect_tools :: "string list"

record tool_gateway =
  tg_tools :: "(string \<times> tool_definition) list"
  tg_env :: tool_env

definition register_tool :: "tool_definition \<Rightarrow> tool_gateway \<Rightarrow> exn + tool_gateway" where
  "register_tool d g =
    bindE (guardE (map_of (tg_tools g) (tl_name d) = None)
      (ToolGatewayError (''Tool already registered: '' @ tl_name d)))
    (\<lambda>_. Inr (g\<lparr>tg_tools := tg_tools g @ [(tl_name d, d)]\<rparr>))"

definition list_tools :: "tool_gateway \<Rightarrow> tool_definition list" where
  "list_tools g = map snd (tg_tools g)"

definition get_tool :: "tool_gateway \<Rightarrow> string \<Rightarrow> exn + tool_definition" where
  "get_tool g name = of_option (ToolValidationError (''Unknown tool: '' @ name)) (map_of (tg_tools g) name)"

section \<open>Schemas\<close>

definition object_schema :: "(string \<times> jval) list \<Rightarrow> string list \<Rightarrow> jobj" where
  "object_schema properties required =
     [(''type'', JStr ''object''), (''properties'', JObj properties),
      (''required'', jstr_list (sorted_set required)), (''additionalProperties'', JBool False)]"

definition string_schema :: "int \<Rightarrow> jval" where
  "string_schema max_length = JObj [(''type'', JStr ''string''), (''maxLength'', JInt max_length)]"

definition integer_schema :: "int \<Rightarrow> int \<Rightarrow> jval" where
  "integer_schema low high = JObj [(''type'', JStr ''integer''), (''minimum'', JInt low), (''maximum'', JInt high)]"

definition fetch_schema :: jobj where
  "fetch_schema = object_schema [(''url'', string_schema 4096), (''max_bytes'', integer_schema 1 1000000)] [''url'']"

definition tool_input_schema :: "tool_definition \<Rightarrow> jobj" where
  "tool_input_schema d = (case tl_input_schema d of
     Some schema \<Rightarrow> schema
   | None \<Rightarrow> object_schema (map (\<lambda>k. (k, JObj [])) (sorted_set (tl_required_fields d))) (tl_required_fields d))"

definition model_tool_specs :: "tool_gateway \<Rightarrow> string list \<Rightarrow> exn + model_tool_definition list" where
  "model_tool_specs g allowed_tools = mapE (\<lambda>name. bindE (get_tool g name) (\<lambda>d.
     Inr \<lparr>td_name = tl_name d, td_description = tl_description d, td_input_schema = tool_input_schema d\<rparr>))
     (sorted_set allowed_tools)"

text \<open>\<open>isinstance(x, int)\<close>, which holds of the booleans too.\<close>

fun int_bound :: "jval \<Rightarrow> int option" where
  "int_bound (JInt n) = Some n"
| "int_bound (JBool b) = Some (if b then 1 else 0)"
| "int_bound _ = None"

fun type_matches :: "jval \<Rightarrow> jval \<Rightarrow> bool" where
  "type_matches JNull v = True"
| "type_matches (JStr t) v =
    (t = ''string'' \<and> is_string v
   \<or> t = ''integer'' \<and> (case v of JInt _ \<Rightarrow> True | _ \<Rightarrow> False)
   \<or> t = ''boolean'' \<and> (case v of JBool _ \<Rightarrow> True | _ \<Rightarrow> False)
   \<or> t = ''array'' \<and> (case v of JList _ \<Rightarrow> True | _ \<Rightarrow> False))"
| "type_matches _ v = False"

definition within_bound :: "(int \<Rightarrow> int \<Rightarrow> bool) \<Rightarrow> int \<Rightarrow> jval \<Rightarrow> bool" where
  "within_bound r n v = (case int_bound v of None \<Rightarrow> True | Some m \<Rightarrow> r n m)"

definition field_error :: "string \<Rightarrow> string \<Rightarrow> string \<Rightarrow> exn" where
  "field_error message tool field = ToolValidationError (message @ tool @ ''.'' @ field)"

fun validate_schema_value :: "string \<Rightarrow> string \<Rightarrow> jval \<Rightarrow> jobj \<Rightarrow> exn + unit"
  and validate_schema_items :: "string \<Rightarrow> string \<Rightarrow> nat \<Rightarrow> jval list \<Rightarrow> jobj \<Rightarrow> exn + unit" where
  "validate_schema_value tool field (JStr s) schema =
    bindE (guardE (type_matches (jget schema ''type'') (JStr s)) (field_error ''Invalid field type for '' tool field)) (\<lambda>_.
    guardE (within_bound (\<le>) (int (length s)) (jget schema ''maxLength'')) (field_error ''Field is too long for '' tool field))"
| "validate_schema_value tool field (JInt n) schema =
    bindE (guardE (type_matches (jget schema ''type'') (JInt n)) (field_error ''Invalid field type for '' tool field)) (\<lambda>_.
    bindE (guardE (within_bound (\<ge>) n (jget schema ''minimum'')) (field_error ''Field is below minimum for '' tool field)) (\<lambda>_.
    guardE (within_bound (\<le>) n (jget schema ''maximum'')) (field_error ''Field exceeds maximum for '' tool field)))"
| "validate_schema_value tool field (JList xs) schema =
    bindE (guardE (type_matches (jget schema ''type'') (JList xs)) (field_error ''Invalid field type for '' tool field)) (\<lambda>_.
    bindE (guardE (within_bound (\<le>) (int (length xs)) (jget schema ''maxItems'')) (field_error ''Too many items for '' tool field)) (\<lambda>_.
    case jget schema ''items'' of JObj s \<Rightarrow> validate_schema_items tool field 0 xs s | _ \<Rightarrow> Inr ()))"
| "validate_schema_value tool field v schema =
    guardE (type_matches (jget schema ''type'') v) (field_error ''Invalid field type for '' tool field)"
| "validate_schema_items tool field i [] schema = Inr ()"
| "validate_schema_items tool field i (x # xs) schema =
    bindE (validate_schema_value tool (field @ ''['' @ show_nat i @ '']'') x schema)
      (\<lambda>_. validate_schema_items tool field (Suc i) xs schema)"

definition validate_input_schema :: "string \<Rightarrow> jobj \<Rightarrow> jobj \<Rightarrow> exn + unit" where
  "validate_input_schema tool payload schema = (case (jget schema ''type'', jget schema ''properties'') of
     (JStr t, JObj properties) \<Rightarrow>
       if t \<noteq> ''object'' then Inl (ToolValidationError (''Invalid input schema for tool: '' @ tool))
       else
         let unexpected = sorted_set (filter (\<lambda>k. k \<notin> set (map fst properties)) (map fst payload)) in
         bindE (guardE (jget schema ''additionalProperties'' \<noteq> JBool False \<or> unexpected = [])
           (ToolValidationError (''Unexpected fields for '' @ tool @ '': '' @ join '', '' unexpected))) (\<lambda>_.
         forE (\<lambda>(k, v). case jget properties k of JObj s \<Rightarrow> validate_schema_value tool k v s | _ \<Rightarrow> Inr ()) payload)
   | _ \<Rightarrow> Inl (ToolValidationError (''Invalid input schema for tool: '' @ tool)))"

definition validate_payload :: "tool_definition \<Rightarrow> jval \<Rightarrow> exn + jobj" where
  "validate_payload d v = (case v of
     JObj payload \<Rightarrow>
       let missing = sorted_set (filter (\<lambda>k. k \<notin> set (map fst payload)) (tl_required_fields d)) in
       bindE (guardE (missing = [])
         (ToolValidationError (''Missing required fields for '' @ tl_name d @ '': '' @ join '', '' missing))) (\<lambda>_.
       bindE (validate_input_schema (tl_name d) payload (tool_input_schema d)) (\<lambda>_. Inr payload))
   | _ \<Rightarrow> Inl (ToolValidationError (''Tool payload must be an object: '' @ tl_name d)))"

section \<open>Permissions\<close>

definition permit :: "bool \<Rightarrow> string \<Rightarrow> exn + unit" where
  "permit ok message = guardE ok (ToolPermissionError message)"

text \<open>The provider named by the callback, \<open>None\<close> when it is missing, no string or blank.\<close>

definition web_provider :: "tool_definition \<Rightarrow> world \<Rightarrow> string option" where
  "web_provider d w = (case tl_real_web_provider d of
     None \<Rightarrow> None
   | Some f \<Rightarrow> (case f w of JStr s \<Rightarrow> if strip s = [] then None else Some (lower (strip s)) | _ \<Rightarrow> None))"

definition check_web_permission :: "tool_context \<Rightarrow> tool_definition \<Rightarrow> world \<Rightarrow> exn + unit" where
  "check_web_permission ctx d w =
    bindE (permit (tx_real_web_access_confirmed ctx)
      (''Persisted real web access confirmation is required for tool: '' @ tl_name d)) (\<lambda>_.
    case (tx_confirmed_real_web_tools ctx, tx_confirmed_real_web_tool_routes ctx) of
      (None, None) \<Rightarrow> Inr ()
    | (Some tools, Some routes) \<Rightarrow> (case web_provider d w of
          None \<Rightarrow> Inl (ToolPermissionError (''Real web provider identity is unavailable for tool: '' @ tl_name d))
        | Some provider \<Rightarrow> permit (tl_name d \<in> set tools \<and> (tl_name d, provider) \<in> set routes)
            (''Tool is not present in the persisted run tool snapshot: '' @ tl_name d))
    | _ \<Rightarrow> Inl (ToolPermissionError (''Persisted real web tool snapshot is incomplete for tool: '' @ tl_name d)))"

definition real_web_call :: "tool_definition \<Rightarrow> world \<Rightarrow> bool" where
  "real_web_call d w = (case tl_real_web_call_enabled d of None \<Rightarrow> False | Some f \<Rightarrow> f w)"

definition check_permission :: "tool_context \<Rightarrow> tool_definition \<Rightarrow> world \<Rightarrow> exn + unit" where
  "check_permission ctx d w =
    bindE (permit (tl_name d \<in> set (tx_allowed_tools ctx))
      (''Tool not allowed by workflow step: '' @ tl_name d)) (\<lambda>_.
    bindE (permit (tl_name d \<in> set (a_tool_permissions (tx_agent ctx)))
      (''Tool not allowed for agent '' @ a_role (tx_agent ctx) @ '': '' @ tl_name d)) (\<lambda>_.
    bindE (permit (\<not> (tx_enforce_side_effect_approval ctx \<and> tl_side_effect d \<noteq> Effect_none
        \<and> tl_name d \<notin> set (tx_approved_side_effect_tools ctx)))
      (''Explicit side effect approval is required for tool: '' @ tl_name d)) (\<lambda>_.
    if real_web_call d w then check_web_permission ctx d w else Inr ())))"

section \<open>Calls\<close>

definition browser_tool :: "string \<Rightarrow> bool" where
  "browser_tool name \<longleftrightarrow> name \<in> {''browser_search'', ''browser_fetch''}"

definition summarize_tool_input :: "tool_env \<Rightarrow> string \<Rightarrow> jobj \<Rightarrow> world \<Rightarrow> jobj" where
  "summarize_tool_input env name d w = (if browser_tool name then safe_browser_tool_input_summary env name d w
     else safe_tool_input_summary env name d w)"

definition summarize_tool_output :: "tool_env \<Rightarrow> string \<Rightarrow> jobj \<Rightarrow> exn + jobj" where
  "summarize_tool_output env name d = (if browser_tool name then safe_browser_tool_output_summary env name d
     else safe_tool_output_summary env name d)"

definition with_context_payload :: "string \<Rightarrow> jobj \<Rightarrow> tool_context \<Rightarrow> jobj" where
  "with_context_payload name payload ctx = (if name \<noteq> ''write_artifact'' then payload
     else jput ''agent_run_id'' (JStr (tx_agent_run_id ctx)) (jput ''run_id'' (JStr (tx_run_id ctx)) payload))"

text \<open>The checks of a call: the tool with its validated payload.\<close>

definition tool_checks ::
  "tool_gateway \<Rightarrow> tool_context \<Rightarrow> string \<Rightarrow> jval \<Rightarrow> world \<Rightarrow> exn + (tool_definition \<times> jobj)" where
  "tool_checks g ctx name payload w =
    bindE (get_tool g name) (\<lambda>d.
    bindE (check_permission ctx d w) (\<lambda>_.
    bindE (validate_payload d payload) (\<lambda>p. Inr (d, p))))"

definition trace_tool ::
  "tool_context \<Rightarrow> trace_event_type \<Rightarrow> jobj \<Rightarrow> unit io" where
  "trace_tool ctx event_type payload =
    thenM (record_trace (tx_run_id ctx) event_type payload (Some (tx_agent_run_id ctx)) None) (returnM ())"

definition trace_tool_error :: "tool_gateway \<Rightarrow> tool_context \<Rightarrow> string \<Rightarrow> exn \<Rightarrow> unit io" where
  "trace_tool_error g ctx name e = trace_tool ctx ERROR
     [(''tool'', JStr name), (''error_type'', JStr (exn_class e)),
      (''message'', JStr (redact_tool_message (tg_env g) (exn_str e)))]"

definition tool_failure :: "tool_gateway \<Rightarrow> tool_context \<Rightarrow> string \<Rightarrow> exn \<Rightarrow> 'a io" where
  "tool_failure g ctx name e = thenM (trace_tool_error g ctx name e)
     (raiseM (if is_tool_gateway_error e then e
        else ToolValidationError (''Tool handler failed: '' @ name)))"

definition call_tool :: "tool_gateway \<Rightarrow> tool_context \<Rightarrow> string \<Rightarrow> jval \<Rightarrow> jobj io" where
  "call_tool g ctx name payload =
    bindM (getsM (tool_checks g ctx name payload)) (\<lambda>checked. case checked of
      Inl e \<Rightarrow> thenM (trace_tool_error g ctx name e) (raiseM e)
    | Inr (d, p) \<Rightarrow>
        bindM (getsM (summarize_tool_input (tg_env g) name p)) (\<lambda>input.
        thenM (trace_tool ctx TOOL_CALL [(''tool'', JStr name), (''input'', JObj input)])
        (bindM (catchM (tl_handler d (with_context_payload name p ctx)) (tool_failure g ctx name)) (\<lambda>result.
         bindM (liftE (summarize_tool_output (tg_env g) name result)) (\<lambda>output.
         thenM (trace_tool ctx TOOL_RESULT [(''tool'', JStr name), (''output'', JObj output)])
         (returnM result))))))"

section \<open>The registered tools\<close>

text \<open>
  What \<open>create_mock_gateway\<close> is given: the reads of the workspace, the two providers with
  their configuration, and whether there is an artifact store.
\<close>

record tool_providers =
  tp_read_workspace_file :: "string \<Rightarrow> string io"
  tp_list_workspace_files :: "jobj io"
  tp_search_workspace_files :: "string \<Rightarrow> jobj io"
  tp_web_search :: "jobj \<Rightarrow> jobj io"
  tp_web_fetch :: "jobj \<Rightarrow> jobj io"
  tp_web_provider_name :: "world \<Rightarrow> string"
  tp_web_real_calls :: "world \<Rightarrow> bool"
  tp_browser_search :: "jobj \<Rightarrow> jobj io"
  tp_browser_fetch :: "jobj \<Rightarrow> jobj io"
  tp_browser_provider_name :: "world \<Rightarrow> string"
  tp_browser_real_calls :: "world \<Rightarrow> bool"
  tp_artifact_store :: bool

text \<open>The text of a field that the schema has checked to be a string.\<close>

definition text_field :: "jobj \<Rightarrow> string \<Rightarrow> string" where
  "text_field d k = (case jget d k of JStr s \<Rightarrow> s | _ \<Rightarrow> [])"

definition text_fields :: "jval \<Rightarrow> string list" where
  "text_fields v = (case v of JList xs \<Rightarrow> map (\<lambda>x. case x of JStr s \<Rightarrow> s | _ \<Rightarrow> []) xs | _ \<Rightarrow> [])"

definition run_test_command_mock :: "jobj \<Rightarrow> jobj io" where
  "run_test_command_mock d = (let command = text_field d ''command'' in
     thenM (guardM (command \<in> {''pytest'', ''pytest -q'', ''python -m pytest'', ''python -m pytest -q''})
       (ToolPermissionError (''Test command is not in allowlist: '' @ command)))
     (returnM [(''status'', JStr ''mocked''), (''command'', JStr command)]))"

text \<open>
  \<open>ArtifactStore.write_text\<close> with a type that is no artifact type: the file is written and the
  model of the artifact then refuses the type.
\<close>

definition write_untyped :: "string \<Rightarrow> string \<Rightarrow> string \<Rightarrow> string \<Rightarrow> artifact io" where
  "write_untyped run_id agent_run_id filename content =
    bindM (artifact_path run_id filename) (\<lambda>path.
    thenM (ensure_agent_run_belongs_to_run agent_run_id run_id)
    (thenM (mkdir_parents (butlast path))
    (bindM (getsM (\<lambda>w. w_encode w content)) (\<lambda>bytes.
     thenM (catch_if is_file_exists (thenM (open_exclusive path) (write_bytes path bytes))
       (\<lambda>_. raiseM (ArtifactStoreError (''artifact already exists: '' @ last path))))
     (thenM (read_bytes path)
     (raiseM (ValueError ''Input should be a valid artifact type'')))))))"

definition write_artifact_tool :: "bool \<Rightarrow> jobj \<Rightarrow> jobj io" where
  "write_artifact_tool has_store d =
    thenM (guardM has_store (ToolValidationError ''write_artifact requires an ArtifactStore''))
    (let run_id = text_field d ''run_id''; agent_run_id = text_field d ''agent_run_id'';
         filename = text_field d ''filename''; content = text_field d ''content'' in
     bindM (case artifact_type_of (case map_of d ''artifact_type'' of None \<Rightarrow> ''final_report''
               | Some _ \<Rightarrow> text_field d ''artifact_type'') of
         None \<Rightarrow> write_untyped run_id agent_run_id filename content
       | Some t \<Rightarrow> write_text run_id agent_run_id t filename content (text_fields (jget d ''source_refs''))) (\<lambda>a.
     returnM [(''artifact_id'', JStr (art_id a)), (''content_hash'', jopt_str (art_content_hash a))]))"

definition simple_tool ::
  "string \<Rightarrow> string \<Rightarrow> string list \<Rightarrow> (string \<times> jval) list \<Rightarrow> (jobj \<Rightarrow> jobj io) \<Rightarrow> tool_definition" where
  "simple_tool name description required properties handler =
     \<lparr>tl_name = name, tl_description = description, tl_required_fields = required, tl_handler = handler,
      tl_input_schema = Some (object_schema properties required), tl_side_effect = Effect_none,
      tl_real_web_call_enabled = None, tl_real_web_provider = None\<rparr>"

definition web_call :: "(world \<Rightarrow> string) \<Rightarrow> (world \<Rightarrow> bool) \<Rightarrow> tool_definition \<Rightarrow> tool_definition" where
  "web_call name enabled d = d\<lparr>tl_real_web_call_enabled := Some (\<lambda>w. name w \<noteq> ''mock'' \<and> enabled w),
     tl_real_web_provider := Some (\<lambda>w. JStr (name w))\<rparr>"

definition query_field :: "string \<times> jval" where
  "query_field = (''query'', string_schema 10000)"

definition mock_tools :: "tool_providers \<Rightarrow> tool_definition list" where
  "mock_tools p =
    (let web = web_call (tp_web_provider_name p) (tp_web_real_calls p);
         browser = web_call (tp_browser_provider_name p) (tp_browser_real_calls p);
         max_results = (''max_results'', integer_schema 1 10) in
     [simple_tool ''read_file'' ''Read a UTF-8 text file within the workspace.'' [''path'']
        [(''path'', string_schema 4096)]
        (\<lambda>d. bindM (tp_read_workspace_file p (text_field d ''path'')) (\<lambda>c. returnM [(''content'', JStr c)])),
      simple_tool ''list_files'' ''List source files under the workspace root, excluding sensitive and generated paths.''
        [] [] (\<lambda>_. tp_list_workspace_files p),
      simple_tool ''search_files'' ''Search bounded workspace source files by substring, excluding sensitive paths.''
        [''query''] [query_field] (\<lambda>d. tp_search_workspace_files p (text_field d ''query'')),
      (simple_tool ''run_test_command'' ''Mock test command execution.'' [''command'']
        [(''command'', string_schema 200)] run_test_command_mock)\<lparr>tl_side_effect := Local_execute\<rparr>,
      simple_tool ''web_search_mock'' ''Mock web search.'' [''query''] [query_field]
        (\<lambda>d. returnM [(''results'', JList [JObj [(''title'', JStr ''Mock result''), (''query'', jget d ''query'')]])]),
      web (simple_tool ''web_search'' ''Search the public web through the configured provider.''
        [''query''] [query_field, max_results] (tp_web_search p)),
      simple_tool ''fetch_page_mock'' ''Mock page fetch.'' [''url''] [(''url'', string_schema 4096)]
        (\<lambda>d. returnM [(''url'', jget d ''url''), (''content'', JStr ''mock page content'')]),
      web ((simple_tool ''fetch_page'' ''Fetch a public http(s) page through the configured provider.''
        [''url''] [] (tp_web_fetch p))\<lparr>tl_input_schema := Some fetch_schema\<rparr>),
      browser (simple_tool ''browser_search'' ''Search the public web through the configured local browser bridge.''
        [''query''] [query_field, max_results] (tp_browser_search p)),
      browser ((simple_tool ''browser_fetch'' ''Fetch a public http(s) page through the configured local browser bridge.''
        [''url''] [] (tp_browser_fetch p))\<lparr>tl_input_schema := Some fetch_schema\<rparr>),
      (simple_tool ''write_artifact'' ''Write an artifact through ArtifactStore.'' [''filename'', ''content'']
        [(''filename'', string_schema 255), (''content'', string_schema 1000000),
         (''artifact_type'', string_schema 100),
         (''source_refs'', JObj [(''type'', JStr ''array''), (''items'', string_schema 4096), (''maxItems'', JInt 64)])]
        (write_artifact_tool (tp_artifact_store p)))\<lparr>tl_side_effect := Local_write\<rparr>])"

fun register_tools :: "tool_definition list \<Rightarrow> tool_gateway \<Rightarrow> exn + tool_gateway" where
  "register_tools [] g = Inr g"
| "register_tools (d # ds) g = bindE (register_tool d g) (register_tools ds)"

definition create_mock_gateway :: "tool_env \<Rightarrow> tool_providers \<Rightarrow> exn + tool_gateway" where
  "create_mock_gateway env p = register_tools (mock_tools p) \<lparr>tg_tools = [], tg_env = env\<rparr>"

section \<open>Sensitive paths of the workspace\<close>

definition IGNORED_WORKSPACE_DIRECTORIES :: "string list" where
  "IGNORED_WORKSPACE_DIRECTORIES = [''.git'', ''.hg'', ''.mypy_cache'', ''.pytest_cache'', ''.ruff_cache'',
     ''.svn'', ''.venv'', ''__pycache__'', ''node_modules'', ''venv'']"

definition SENSITIVE_WORKSPACE_DIRECTORIES :: "string list" where
  "SENSITIVE_WORKSPACE_DIRECTORIES = [''.aws'', ''.azure'', ''.credentials'', ''.gnupg'', ''.secrets'', ''.ssh'',
     ''credentials'', ''secrets'']"

definition SENSITIVE_WORKSPACE_FILENAMES :: "string list" where
  "SENSITIVE_WORKSPACE_FILENAMES = [''.git-credentials'', ''.htpasswd'', ''.netrc'', ''.npmrc'', ''.pypirc'',
     ''credentials.json'', ''id_dsa'', ''id_ecdsa'', ''id_ed25519'', ''id_rsa'', ''service-account.json'',
     ''service_account.json'']"

definition SENSITIVE_WORKSPACE_STEMS :: "string list" where
  "SENSITIVE_WORKSPACE_STEMS = [''api_key'', ''api_keys'', ''apikey'', ''apikeys'', ''credential'', ''credentials'',
     ''passwd'', ''password'', ''passwords'', ''private_key'', ''private_keys'', ''secret'', ''secrets'', ''token'',
     ''tokens'']"

definition SENSITIVE_WORKSPACE_SUFFIXES :: "string list" where
  "SENSITIVE_WORKSPACE_SUFFIXES = [''.jks'', ''.kdbx'', ''.key'', ''.keystore'', ''.p12'', ''.pem'', ''.pfx'', ''.ppk'']"

text \<open>\<open>filename.lstrip(".").split(".", 1)[0]\<close>, and \<open>Path(filename).suffix\<close>.\<close>

definition filename_stem :: "string \<Rightarrow> string" where
  "filename_stem v = takeWhile (\<lambda>c. c \<noteq> CHR ''.'') (dropWhile (\<lambda>c. c = CHR ''.'') v)"

definition path_suffix :: "string \<Rightarrow> string" where
  "path_suffix v =
    (let tail = takeWhile (\<lambda>c. c \<noteq> CHR ''.'') (rev v); i = length v - length tail in
     if CHR ''.'' \<in> set v \<and> 1 < i \<and> tail \<noteq> [] then CHR ''.'' # rev tail else [])"

text \<open>\<open>parts\<close> are the parts of the path below the workspace root, \<open>None\<close> for a path outside it.\<close>

definition is_sensitive_workspace_path :: "string list option \<Rightarrow> bool" where
  "is_sensitive_workspace_path relative = (case relative of
     None \<Rightarrow> True
   | Some parts0 \<Rightarrow>
       let parts = map lower parts0; filename = (if parts = [] then [] else last parts) in
       (\<exists>part \<in> set (butlast parts). part \<in> set SENSITIVE_WORKSPACE_DIRECTORIES)
     \<or> (\<exists>part \<in> set (butlast parts). part \<in> set IGNORED_WORKSPACE_DIRECTORIES)
     \<or> filename = ''.env'' \<or> take 5 filename = ''.env.''
     \<or> filename \<in> set SENSITIVE_WORKSPACE_FILENAMES
     \<or> filename_stem filename \<in> set SENSITIVE_WORKSPACE_STEMS
     \<or> lower (path_suffix filename) \<in> set SENSITIVE_WORKSPACE_SUFFIXES)"

text \<open>\<open>resolve\<close> is \<open>Path.resolve\<close>, which follows links, relative to the root.\<close>

definition workspace_path :: "(string list \<Rightarrow> string list option) \<Rightarrow> string \<Rightarrow> exn + string list" where
  "workspace_path resolve raw_path =
    bindE (permit (\<not> is_absolute raw_path) ''Path must be relative to workspace root'') (\<lambda>_.
    let path = path_parts raw_path in
    bindE (permit (resolve path \<noteq> None) ''Path must stay within workspace root'') (\<lambda>_.
    bindE (permit (\<not> is_sensitive_workspace_path (Some path) \<and> \<not> is_sensitive_workspace_path (resolve path))
      ''Sensitive workspace paths are not available to agents'') (\<lambda>_. Inr path)))"

lemma sensitive_path_examples:
  "is_sensitive_workspace_path (Some [''src'', ''Secrets'', ''a.txt''])"
  "is_sensitive_workspace_path (Some [''.ENV.local''])"
  "is_sensitive_workspace_path (Some [''keys'', ''server.PEM''])"
  "is_sensitive_workspace_path (Some [''.token.txt''])"
  "\<not> is_sensitive_workspace_path (Some [''src'', ''main.py''])"
  by code_simp+

section \<open>What a call needs\<close>

text \<open>The permission of a call, stated without the order of the checks.\<close>

definition web_confirmed :: "tool_context \<Rightarrow> tool_definition \<Rightarrow> world \<Rightarrow> bool" where
  "web_confirmed ctx d w \<longleftrightarrow> tx_real_web_access_confirmed ctx
     \<and> (tx_confirmed_real_web_tools ctx = None \<and> tx_confirmed_real_web_tool_routes ctx = None
      \<or> (\<exists>tools routes provider. tx_confirmed_real_web_tools ctx = Some tools
          \<and> tx_confirmed_real_web_tool_routes ctx = Some routes \<and> web_provider d w = Some provider
          \<and> tl_name d \<in> set tools \<and> (tl_name d, provider) \<in> set routes))"

definition permitted :: "tool_context \<Rightarrow> tool_definition \<Rightarrow> world \<Rightarrow> bool" where
  "permitted ctx d w \<longleftrightarrow> tl_name d \<in> set (tx_allowed_tools ctx)
     \<and> tl_name d \<in> set (a_tool_permissions (tx_agent ctx))
     \<and> (tx_enforce_side_effect_approval ctx \<and> tl_side_effect d \<noteq> Effect_none \<longrightarrow>
          tl_name d \<in> set (tx_approved_side_effect_tools ctx))
     \<and> (real_web_call d w \<longrightarrow> web_confirmed ctx d w)"

definition payload_conforms :: "tool_definition \<Rightarrow> jval \<Rightarrow> bool" where
  "payload_conforms d v \<longleftrightarrow> (\<exists>payload properties. v = JObj payload
     \<and> set (tl_required_fields d) \<subseteq> fst ` set payload
     \<and> jget (tool_input_schema d) ''type'' = JStr ''object''
     \<and> jget (tool_input_schema d) ''properties'' = JObj properties
     \<and> (jget (tool_input_schema d) ''additionalProperties'' = JBool False \<longrightarrow>
          fst ` set payload \<subseteq> fst ` set properties)
     \<and> (\<forall>k x s. (k, x) \<in> set payload \<and> jget properties k = JObj s \<longrightarrow>
          validate_schema_value (tl_name d) k x s = Inr ()))"

lemma permit_iff [simp]: "permit b m = Inr u \<longleftrightarrow> b"
  by (simp add: permit_def)

lemma check_web_permission_iff: "check_web_permission ctx d w = Inr u \<longleftrightarrow> web_confirmed ctx d w"
  by (auto simp: check_web_permission_def web_confirmed_def split: option.splits)

lemma check_permission_iff: "check_permission ctx d w = Inr u \<longleftrightarrow> permitted ctx d w"
  using check_web_permission_iff [of ctx d w "()"]
  by (auto simp: check_permission_def permitted_def)

lemma filter_sorted_Nil: "sorted_set (filter P xs) = [] \<longleftrightarrow> (\<forall>x \<in> set xs. \<not> P x)"
  by (simp add: filter_empty_conv)

lemma validate_input_schema_iff:
  "validate_input_schema tool payload schema = Inr u \<longleftrightarrow>
     (\<exists>properties. jget schema ''type'' = JStr ''object'' \<and> jget schema ''properties'' = JObj properties
      \<and> (jget schema ''additionalProperties'' = JBool False \<longrightarrow> fst ` set payload \<subseteq> fst ` set properties)
      \<and> (\<forall>k x s. (k, x) \<in> set payload \<and> jget properties k = JObj s \<longrightarrow>
           validate_schema_value tool k x s = Inr ()))"
proof (cases "\<exists>properties. jget schema ''type'' = JStr ''object'' \<and> jget schema ''properties'' = JObj properties")
  case False
  then show ?thesis
    by (auto simp: validate_input_schema_def split: jval.splits)
next
  case True
  then obtain ps where p: "jget schema ''type'' = JStr ''object''" "jget schema ''properties'' = JObj ps" by blast
  have each: "(case (k, x) of (k, v) \<Rightarrow> case jget ps k of JObj s \<Rightarrow> validate_schema_value tool k v s | _ \<Rightarrow> Inr ()) = Inr ()
      \<longleftrightarrow> (\<forall>s. jget ps k = JObj s \<longrightarrow> validate_schema_value tool k x s = Inr ())" for k x
    by (cases "jget ps k") auto
  have keys: "sorted_set (filter (\<lambda>k. k \<notin> set (map fst ps)) (map fst payload)) = []
      \<longleftrightarrow> fst ` set payload \<subseteq> fst ` set ps"
    by (auto simp: filter_sorted_Nil simp del: sorted_set_Nil_iff)
  show ?thesis
    using p each keys by (auto simp: validate_input_schema_def Let_def simp del: sorted_set_Nil_iff)
qed

lemma validate_payload_iff: "(\<exists>p. validate_payload d v = Inr p) \<longleftrightarrow> payload_conforms d v"
  by (cases v) (auto simp: validate_payload_def payload_conforms_def Let_def validate_input_schema_iff
      filter_empty_conv)

text \<open>Everything the checks raise is an error of the gateway.\<close>

definition gateway_errors :: "exn + 'a \<Rightarrow> bool" where
  "gateway_errors r \<longleftrightarrow> (\<forall>e. r = Inl e \<longrightarrow> is_tool_gateway_error e)"

lemma gateway_errors_Inr [simp]: "gateway_errors (Inr x)"
  by (simp add: gateway_errors_def)

lemma gateway_errors_Inl [simp]: "gateway_errors (Inl e) \<longleftrightarrow> is_tool_gateway_error e"
  by (simp add: gateway_errors_def)

lemma gateway_errors_bindE [intro!]:
  "gateway_errors r \<Longrightarrow> (\<And>x. gateway_errors (f x)) \<Longrightarrow> gateway_errors (bindE r f)"
  by (cases r) (simp_all add: bindE_def)

lemma gateway_errors_guardE [simp]: "is_tool_gateway_error e \<Longrightarrow> gateway_errors (guardE b e)"
  by (simp add: guardE_def)

lemma gateway_errors_permit [simp]: "gateway_errors (permit b m)"
  by (simp add: permit_def)

lemma gateway_errors_forE [intro!]: "(\<And>x. gateway_errors (f x)) \<Longrightarrow> gateway_errors (forE f xs)"
  by (induction xs) auto

lemma gateway_errors_value:
  "gateway_errors (validate_schema_value tool field v schema)"
  "gateway_errors (validate_schema_items tool field i xs schema)"
  by (induction tool field v schema and tool field i xs schema
      rule: validate_schema_value_validate_schema_items.induct)
    (auto simp: field_error_def split: jval.split)

lemma gateway_errors_checks: "gateway_errors (tool_checks g ctx name payload w)"
proof -
  have tool: "gateway_errors (get_tool g name)"
    by (auto simp: get_tool_def of_option_def split: option.split)
  have web: "gateway_errors (check_web_permission ctx d w)" for d
    by (auto simp: check_web_permission_def split: option.split)
  have schema: "gateway_errors (validate_input_schema t p s)" for t p s
    unfolding validate_input_schema_def Let_def
    by (auto intro!: gateway_errors_bindE gateway_errors_forE simp: gateway_errors_value split: jval.split)
  have "gateway_errors (check_permission ctx d w)" for d
    using web by (auto simp: check_permission_def)
  moreover have "gateway_errors (validate_payload d payload)" for d
    using schema by (auto simp: validate_payload_def Let_def split: jval.split)
  ultimately show ?thesis using tool by (auto simp: tool_checks_def)
qed

definition with_handlers :: "(tool_definition \<Rightarrow> jobj \<Rightarrow> jobj io) \<Rightarrow> tool_gateway \<Rightarrow> tool_gateway" where
  "with_handlers h g = g\<lparr>tg_tools := map (\<lambda>(i, d). (i, d\<lparr>tl_handler := h d\<rparr>)) (tg_tools g)\<rparr>"

lemma with_handlers_get:
  "map_of (tg_tools (with_handlers h g)) name
     = map_option (\<lambda>d. d\<lparr>tl_handler := h d\<rparr>) (map_of (tg_tools g) name)"
  by (simp add: with_handlers_def map_of_map)

lemma handler_not_checked:
  "permitted ctx (d\<lparr>tl_handler := f\<rparr>) w = permitted ctx d w"
  "payload_conforms (d\<lparr>tl_handler := f\<rparr>) v = payload_conforms d v"
  "check_permission ctx (d\<lparr>tl_handler := f\<rparr>) w = check_permission ctx d w"
  "validate_payload (d\<lparr>tl_handler := f\<rparr>) v = validate_payload d v"
proof -
  have *: "tool_input_schema (d\<lparr>tl_handler := f\<rparr>) = tool_input_schema d"
    "real_web_call (d\<lparr>tl_handler := f\<rparr>) w = real_web_call d w"
    "web_provider (d\<lparr>tl_handler := f\<rparr>) w = web_provider d w"
    by (simp_all add: tool_input_schema_def real_web_call_def web_provider_def cong: option.case_cong)
  then show web: "permitted ctx (d\<lparr>tl_handler := f\<rparr>) w = permitted ctx d w"
    by (simp add: permitted_def web_confirmed_def)
  have "check_web_permission ctx (d\<lparr>tl_handler := f\<rparr>) w = check_web_permission ctx d w"
    using * by (simp add: check_web_permission_def cong: option.case_cong)
  then show "check_permission ctx (d\<lparr>tl_handler := f\<rparr>) w = check_permission ctx d w"
    using * by (simp add: check_permission_def)
  show "payload_conforms (d\<lparr>tl_handler := f\<rparr>) v = payload_conforms d v"
    "validate_payload (d\<lparr>tl_handler := f\<rparr>) v = validate_payload d v"
    using * by (simp_all add: payload_conforms_def validate_payload_def cong: jval.case_cong)
qed

lemma tool_checks_returns:
  "(\<exists>r. tool_checks g ctx name payload w = Inr r) \<longleftrightarrow>
     (\<exists>d. map_of (tg_tools g) name = Some d \<and> permitted ctx d w \<and> payload_conforms d payload)"
  by (auto simp: tool_checks_def get_tool_def check_permission_iff validate_payload_iff [symmetric])

lemma refused_checks:
  assumes "tool_checks g ctx name payload w = Inl e"
  shows "tool_checks (with_handlers h g) ctx name payload w = Inl e"
  using assms by (cases "map_of (tg_tools g) name")
    (auto simp: tool_checks_def get_tool_def of_option_def with_handlers_get handler_not_checked bindE_def
      split: sum.splits)

text \<open>
  C37. A tool runs only when it may: a call of a tool that is not registered, not allowed by the
  step, not allowed for the agent, has a side effect that was not approved, would reach the real
  web without the confirmed provider, or whose payload does not conform to its schema, does
  nothing but record one error event and raise an error of the gateway, whatever the handlers
  are. So no handler runs for it.
\<close>

theorem refused_call_runs_no_handler:
  assumes "\<not> (\<exists>d. map_of (tg_tools g) name = Some d \<and> permitted ctx d w \<and> payload_conforms d payload)"
  shows "\<exists>e. is_tool_gateway_error e
    \<and> call_tool (with_handlers h g) ctx name payload w = thenM (trace_tool_error g ctx name e) (raiseM e) w"
proof -
  obtain e where e: "tool_checks g ctx name payload w = Inl e"
    using assms tool_checks_returns [of g ctx name payload w]
    by (cases "tool_checks g ctx name payload w") blast+
  have "is_tool_gateway_error e"
    using gateway_errors_checks [of g ctx name payload w] e by simp
  moreover have "tg_env (with_handlers h g) = tg_env g" by (simp add: with_handlers_def)
  ultimately show ?thesis
    using refused_checks [OF e, of h]
    by (auto simp: call_tool_def bindM_def getsM_def trace_tool_error_def)
qed

definition example_providers :: tool_providers where
  "example_providers = \<lparr>tp_read_workspace_file = (\<lambda>_. returnM ''text''), tp_list_workspace_files = returnM [],
     tp_search_workspace_files = (\<lambda>_. returnM []), tp_web_search = returnM, tp_web_fetch = returnM,
     tp_web_provider_name = (\<lambda>_. ''tavily''), tp_web_real_calls = (\<lambda>_. True),
     tp_browser_search = returnM, tp_browser_fetch = returnM, tp_browser_provider_name = (\<lambda>_. ''mock''),
     tp_browser_real_calls = (\<lambda>_. False), tp_artifact_store = True\<rparr>"

definition example_tool_env :: tool_env where
  "example_tool_env = \<lparr>te_environ = (\<lambda>_. None), te_str = (\<lambda>_. []), te_int = (\<lambda>_. None), te_safe_url = id\<rparr>"

definition example_gateway :: tool_gateway where
  "example_gateway = \<lparr>tg_tools = map (\<lambda>d. (tl_name d, d)) (mock_tools example_providers), tg_env = example_tool_env\<rparr>"

lemma mock_tool_names:
  "map tl_name (mock_tools p) = [''read_file'', ''list_files'', ''search_files'', ''run_test_command'',
     ''web_search_mock'', ''web_search'', ''fetch_page_mock'', ''fetch_page'', ''browser_search'',
     ''browser_fetch'', ''write_artifact'']"
  by (simp add: mock_tools_def simple_tool_def web_call_def Let_def)

lemma register_tools_distinct:
  assumes "distinct (map fst (tg_tools g) @ map tl_name ds)"
  shows "register_tools ds g = Inr (g\<lparr>tg_tools := tg_tools g @ map (\<lambda>d. (tl_name d, d)) ds\<rparr>)"
  using assms
proof (induction ds arbitrary: g)
  case (Cons d ds)
  then have "map_of (tg_tools g) (tl_name d) = None" by (auto simp: map_of_eq_None_iff)
  with Cons show ?case by (simp add: register_tool_def bindE_def guardE_def)
qed simp

lemma example_gateway_created:
  "create_mock_gateway example_tool_env example_providers = Inr example_gateway"
  unfolding create_mock_gateway_def
  by (subst register_tools_distinct) (simp_all add: mock_tool_names example_gateway_def)

text \<open>An agent that may run the test command, in a run that has not approved its side effect.\<close>

definition example_context :: tool_context where
  "example_context = \<lparr>tx_run_id = ''run-1'', tx_agent_run_id = ''ar-1'',
     tx_agent = waiting_agent\<lparr>a_tool_permissions := [''run_test_command'']\<rparr>,
     tx_allowed_tools = [''run_test_command''], tx_real_web_access_confirmed = False,
     tx_confirmed_real_web_tools = None, tx_confirmed_real_web_tool_routes = None,
     tx_enforce_side_effect_approval = True, tx_approved_side_effect_tools = []\<rparr>"

theorem refused_call_runs_no_handler_witness:
  "fst (call_tool (with_handlers (\<lambda>_. returnM) example_gateway) example_context ''run_test_command''
      (JObj [(''command'', JStr ''pytest'')]) (example_world empty_db)) \<noteq> Inr []"
proof -
  have tool: "map_of (tg_tools example_gateway) ''run_test_command''
      = Some ((simple_tool ''run_test_command'' ''Mock test command execution.'' [''command'']
        [(''command'', string_schema 200)] run_test_command_mock)\<lparr>tl_side_effect := Local_execute\<rparr>)"
    by (simp add: example_gateway_def mock_tools_def simple_tool_def web_call_def Let_def)
  have "\<not> (\<exists>d. map_of (tg_tools example_gateway) ''run_test_command'' = Some d
      \<and> permitted example_context d (example_world empty_db)
      \<and> payload_conforms d (JObj [(''command'', JStr ''pytest'')]))"
    unfolding tool by (simp add: permitted_def example_context_def simple_tool_def)
  from refused_call_runs_no_handler [OF this, of "\<lambda>_. returnM"]
  obtain e where e: "call_tool (with_handlers (\<lambda>_. returnM) example_gateway) example_context ''run_test_command''
      (JObj [(''command'', JStr ''pytest'')]) (example_world empty_db)
      = thenM (trace_tool_error example_gateway example_context ''run_test_command'' e) (raiseM e)
          (example_world empty_db)" by blast
  show ?thesis unfolding e by (auto simp: thenM_def bindM_def raiseM_def split: prod.split sum.split)
qed

section \<open>Artifacts of an unknown type\<close>

text \<open>
  The tool takes any short text as the type of an artifact. With one that is no artifact type
  it leaves the file behind, without a record, and the same call made again finds the file in
  its way.
\<close>

definition untyped_world :: world where
  "untyped_world = example_world (example_waiting_db Job_APPROVED)"

lemma untyped_artifact_leaves_its_file:
  "(case write_artifact_tool True [(''filename'', JStr ''a.txt''), (''content'', JStr ''x''),
        (''artifact_type'', JStr ''notes''), (''run_id'', JStr (r_id example_run)),
        (''agent_run_id'', JStr (ar_id example_agent_run))] untyped_world of
      (r, w) \<Rightarrow> (case r of Inl e \<Rightarrow> exn_class e | Inr _ \<Rightarrow> []) = ''ValueError''
        \<and> map_of (w_files w) [r_id example_run, ''a.txt''] = Some (Regular ''x'' 1)
        \<and> d_artifacts (w_db w) = [])"
  by code_simp

lemma untyped_write_never_returns: "write_untyped r a f c w \<noteq> (Inr x, w')"
  by (auto simp: write_untyped_def bindM_returns thenM_returns raiseM_returns)

end
