(* ===== verification/Model_Errors.thy ===== *)
theory Model_Errors imports Route_Policy Model_Trace Context_Injection "HOL-Library.Sublist" begin

text \<open>
  The exceptions of \<open>backend/app/core/model_runtime.py\<close> and what may be said in them:
  \<open>ModelRuntimeError\<close> and \<open>_LocalModelRouteRejection\<close> with the sanitising of their fields, the
  evidence of provider attempts, the entries of a route receipt, and which error may be retried.
  \<open>contains_secret_like_text\<close> is the argument \<open>secret\<close>; floating-point numbers are rationals.
\<close>

section \<open>Text\<close>

text \<open>\<open>s.split(c)\<close> and \<open>s.partition(c)\<close> for a one-character separator.\<close>

fun split_char :: "char \<Rightarrow> string \<Rightarrow> string list" where
  "split_char c [] = [[]]"
| "split_char c (x # xs) = (if x = c then [] # split_char c xs
     else case split_char c xs of [] \<Rightarrow> [[x]] | y # ys \<Rightarrow> (x # y) # ys)"

definition partition_char :: "char \<Rightarrow> string \<Rightarrow> string \<times> bool \<times> string" where
  "partition_char c v = (takeWhile (\<lambda>x. x \<noteq> c) v, c \<in> set v, drop 1 (dropWhile (\<lambda>x. x \<noteq> c) v))"

definition is_digit :: "char \<Rightarrow> bool" where
  "is_digit c \<longleftrightarrow> 48 \<le> (of_char c :: nat) \<and> (of_char c :: nat) \<le> 57"

definition int_of_digits :: "string \<Rightarrow> int" where
  "int_of_digits v = fold (\<lambda>c n. 10 * n + ((of_char c :: int) - 48)) v 0"

definition MODEL_RESPONSE_IDENTIFIER_CHARS :: string where
  "MODEL_RESPONSE_IDENTIFIER_CHARS =
     ''abcdefghijklmnopqrstuvwxyzABCDEFGHIJKLMNOPQRSTUVWXYZ0123456789._:-''"

definition MAX_MODEL_RESPONSE_IDENTIFIER_LENGTH :: nat where
  "MAX_MODEL_RESPONSE_IDENTIFIER_LENGTH = 128"

definition identifier_text :: "string \<Rightarrow> bool" where
  "identifier_text v \<longleftrightarrow> v \<noteq> [] \<and> length v \<le> MAX_MODEL_RESPONSE_IDENTIFIER_LENGTH
     \<and> list_all (\<lambda>c. c \<in> set MODEL_RESPONSE_IDENTIFIER_CHARS) v"

text \<open>A value that is no text has the empty text here, and gets the fallback as in the code.\<close>

definition safe_model_identifier :: "(string \<Rightarrow> bool) \<Rightarrow> string \<Rightarrow> string \<Rightarrow> string" where
  "safe_model_identifier secret v fallback =
    (let normalized = strip v in
     if identifier_text normalized \<and> \<not> secret normalized then normalized else fallback)"

definition safe_model_error_class :: "(string \<Rightarrow> bool) \<Rightarrow> string \<Rightarrow> string" where
  "safe_model_error_class secret v = safe_model_identifier secret v ''ProviderError''"

section \<open>Error summaries\<close>

definition COMPLETE_RESPONSE_STATES :: "string list" where
  "COMPLETE_RESPONSE_STATES = [''stop'', ''completed'']"

definition KNOWN_INCOMPLETE_RESPONSE_STATES :: "string list" where
  "KNOWN_INCOMPLETE_RESPONSE_STATES = [''length'', ''content_filter'', ''failed'', ''incomplete'',
     ''tool_calls'', ''function_call'', ''cancelled'', ''canceled'']"

definition MODEL_ERROR_SUMMARY_ALLOWED_VALUES :: "(string \<times> string list) list" where
  "MODEL_ERROR_SUMMARY_ALLOWED_VALUES =
    [(''classification'', [''authentication_or_permission_error'', ''rate_limit_error'',
        ''timeout_error'', ''upstream_service_error'', ''connection_error'', ''transient_provider_error'',
        ''provider_error'', ''capability_error'', ''unclassified_model_runtime_error'']),
     (''retryable'', [''true'', ''false'']),
     (''response_type'', [''invalid'']),
     (''response_shape'', [''tool_call'', ''refusal'']),
     (''response_text_type'', [''non_string'']),
     (''response_text'', [''missing'', ''empty'']),
     (''finish_reason'', KNOWN_INCOMPLETE_RESPONSE_STATES @ [''missing'', ''unsupported'']),
     (''finish_reason_type'', [''non_string''])]"

definition MODEL_ERROR_SUMMARY_RESPONSE_KEYS :: "string list" where
  "MODEL_ERROR_SUMMARY_RESPONSE_KEYS = [''response_type'', ''response_shape'', ''response_text_type'',
     ''response_text'', ''finish_reason'', ''finish_reason_type'']"

definition UNCLASSIFIED_MODEL_ERROR_SUMMARY :: string where
  "UNCLASSIFIED_MODEL_ERROR_SUMMARY = ''classification=unclassified_model_runtime_error''"

text \<open>The keys of the parts of a summary, \<open>None\<close> when a part is refused.\<close>

fun summary_keys :: "string list \<Rightarrow> string list \<Rightarrow> string list option" where
  "summary_keys parsed [] = Some parsed"
| "summary_keys parsed (part # parts) = (case partition_char (CHR ''='') part of (key, separated, item) \<Rightarrow>
     if \<not> separated \<or> key \<in> set parsed then None
     else if key = ''status_code'' then
       (if item = [] \<or> \<not> list_all is_digit item \<or> \<not> (100 \<le> int_of_digits item \<and> int_of_digits item \<le> 599)
        then None else summary_keys (parsed @ [key]) parts)
     else (case map_of MODEL_ERROR_SUMMARY_ALLOWED_VALUES key of
         None \<Rightarrow> None
       | Some allowed \<Rightarrow> if item \<in> set allowed then summary_keys (parsed @ [key]) parts else None))"

definition summary_accepted :: "string \<Rightarrow> bool" where
  "summary_accepted v \<longleftrightarrow> v \<noteq> [] \<and> length v \<le> 500 \<and> (case summary_keys [] (split_char (CHR '';'') v) of
       None \<Rightarrow> False
     | Some keys \<Rightarrow>
         if ''classification'' \<in> set keys then set keys \<subseteq> {''classification'', ''status_code'', ''retryable''}
         else length keys = 1 \<and> set keys \<subseteq> set MODEL_ERROR_SUMMARY_RESPONSE_KEYS)"

definition normalize_model_error_summary :: "string option \<Rightarrow> string option" where
  "normalize_model_error_summary value = (case value of None \<Rightarrow> None
     | Some v \<Rightarrow> Some (if summary_accepted v then v else UNCLASSIFIED_MODEL_ERROR_SUMMARY))"

section \<open>Receipts\<close>

definition round_half_even :: "rat \<Rightarrow> int" where
  "round_half_even q = (let n = \<lfloor>q\<rfloor>; f = q - of_int n in
     if f < 1 / 2 then n else if f > 1 / 2 then n + 1 else if even n then n else n + 1)"

definition round8 :: "rat \<Rightarrow> rat" where
  "round8 q = of_int (round_half_even (q * 100000000)) / 100000000"

record receipt_fields =
  re_attempt :: int
  re_provider :: string
  re_model :: string
  re_outcome :: string
  re_reason :: string
  re_error_class :: "string option"
  re_error_summary :: "string option"
  re_mocked :: "bool option"
  re_latency_ms :: "int option"
  re_usage :: "(string \<times> int) list option"
  re_cost_usd :: "rat option"
  re_provider_attempt :: "int option"
  re_usage_known :: "bool option"

definition present :: "'a option \<Rightarrow> string \<Rightarrow> ('a \<Rightarrow> jval) \<Rightarrow> jobj" where
  "present x k f = (case x of None \<Rightarrow> [] | Some v \<Rightarrow> [(k, f v)])"

definition usage_json :: "(string \<times> int) list \<Rightarrow> jval" where
  "usage_json usage = JObj (map (\<lambda>(k, n). (k, JInt n)) usage)"

definition route_receipt_entry :: "(string \<Rightarrow> bool) \<Rightarrow> receipt_fields \<Rightarrow> jobj" where
  "route_receipt_entry secret e =
    [(''attempt'', JInt (if re_attempt e > 0 then re_attempt e else 1)),
     (''provider'', JStr (safe_model_identifier secret (re_provider e) ''unknown_provider'')),
     (''model'', JStr (safe_model_identifier secret (re_model e) ''unknown_model'')),
     (''outcome'', JStr (if re_outcome e \<in> {''rejected'', ''failed'', ''succeeded''} then re_outcome e
        else ''failed'')),
     (''reason'', JStr (safe_model_identifier secret (re_reason e) ''invalid_evidence''))]
    @ present (re_error_class e) ''error_class'' (\<lambda>c. JStr (safe_model_error_class secret c))
    @ present (re_error_summary e) ''error_summary'' (\<lambda>v. jopt_str (normalize_model_error_summary (Some v)))
    @ present (re_mocked e) ''mocked'' JBool
    @ present (re_latency_ms e) ''latency_ms'' (\<lambda>n. JInt (max 0 n))
    @ (case re_usage e of None \<Rightarrow> [] | Some u \<Rightarrow> if u = [] then [] else [(''usage'', usage_json u)])
    @ present (re_cost_usd e) ''cost_usd'' (\<lambda>q. JFloat (round8 (max 0 q)))
    @ (case re_provider_attempt e of None \<Rightarrow> [] | Some n \<Rightarrow> if n > 0 then [(''provider_attempt'', JInt n)] else [])
    @ present (re_usage_known e) ''usage_known'' JBool"

definition plain_receipt :: "int \<Rightarrow> string \<Rightarrow> string \<Rightarrow> string \<Rightarrow> string \<Rightarrow> receipt_fields" where
  "plain_receipt attempt provider model outcome reason =
    \<lparr>re_attempt = attempt, re_provider = provider, re_model = model, re_outcome = outcome,
     re_reason = reason, re_error_class = None, re_error_summary = None, re_mocked = None,
     re_latency_ms = None, re_usage = None, re_cost_usd = None, re_provider_attempt = None,
     re_usage_known = None\<rparr>"

text \<open>
  \<open>_safe_route_receipt\<close> reads an entry and writes it anew. An entry whose outcome is a list or a
  dictionary, or whose summary is neither text nor empty, makes the code raise; the gateway
  writes no such entry.
\<close>

definition MODEL_RESPONSE_USAGE_KEYS :: "string list" where
  "MODEL_RESPONSE_USAGE_KEYS = [''input_tokens'', ''output_tokens'', ''total_tokens'']"

fun text_of :: "jval \<Rightarrow> string" where
  "text_of (JStr s) = s"
| "text_of _ = []"

fun int_of_json :: "jval \<Rightarrow> int option" where
  "int_of_json (JInt n) = Some n"
| "int_of_json _ = None"

fun bool_of_json :: "jval \<Rightarrow> bool option" where
  "bool_of_json (JBool b) = Some b"
| "bool_of_json _ = None"

fun number_of :: "jval \<Rightarrow> rat" where
  "number_of (JInt n) = of_int n"
| "number_of (JFloat q) = q"
| "number_of _ = 0"

fun is_number :: "jval \<Rightarrow> bool" where
  "is_number (JInt n) = True"
| "is_number (JFloat q) = True"
| "is_number _ = False"

definition text_if_present :: "jval \<Rightarrow> string option" where
  "text_if_present v = (if v = JNull then None else Some (text_of v))"

definition safe_usage :: "jval \<Rightarrow> (string \<times> int) list option" where
  "safe_usage v = (case v of
     JObj d \<Rightarrow> Some (List.map_filter (\<lambda>(k, x). case int_of_json x of None \<Rightarrow> None
       | Some n \<Rightarrow> if k \<in> set MODEL_RESPONSE_USAGE_KEYS \<and> n \<ge> 0 then Some (k, n) else None) d)
   | _ \<Rightarrow> None)"

definition receipt_of_json :: "jobj \<Rightarrow> receipt_fields" where
  "receipt_of_json raw =
    \<lparr>re_attempt = (case int_of_json (jget raw ''attempt'') of None \<Rightarrow> 1 | Some n \<Rightarrow> n),
     re_provider = text_of (jget raw ''provider''), re_model = text_of (jget raw ''model''),
     re_outcome = text_of (jget raw ''outcome''), re_reason = text_of (jget raw ''reason''),
     re_error_class = text_if_present (jget raw ''error_class''),
     re_error_summary = text_if_present (jget raw ''error_summary''),
     re_mocked = bool_of_json (jget raw ''mocked''),
     re_latency_ms = (case int_of_json (jget raw ''latency_ms'') of None \<Rightarrow> None
        | Some n \<Rightarrow> if n \<ge> 0 then Some n else None),
     re_usage = safe_usage (jget raw ''usage''),
     re_cost_usd = (if is_number (jget raw ''cost_usd'') then Some (number_of (jget raw ''cost_usd'')) else None),
     re_provider_attempt = int_of_json (jget raw ''provider_attempt''),
     re_usage_known = bool_of_json (jget raw ''usage_known'')\<rparr>"

definition safe_route_receipt :: "(string \<Rightarrow> bool) \<Rightarrow> jobj list \<Rightarrow> jobj list" where
  "safe_route_receipt secret receipt = map (\<lambda>raw. route_receipt_entry secret (receipt_of_json raw)) receipt"

section \<open>Errors\<close>

text \<open>\<open>me_local_reason\<close> is the reason of a \<open>_LocalModelRouteRejection\<close>.\<close>

record model_runtime_error =
  me_message :: string
  me_provider :: "string option"
  me_model :: "string option"
  me_adapter :: "string option"
  me_error_class :: "string option"
  me_error_summary :: "string option"
  me_elapsed_ms :: "int option"
  me_route_receipt :: "jobj list"
  me_provider_attempts :: "jobj list"
  me_local_reason :: "string option"

definition plain_runtime_error :: "string \<Rightarrow> model_runtime_error" where
  "plain_runtime_error message = \<lparr>me_message = message, me_provider = None, me_model = None,
     me_adapter = None, me_error_class = None, me_error_summary = None, me_elapsed_ms = None,
     me_route_receipt = [], me_provider_attempts = [], me_local_reason = None\<rparr>"

definition invalid_metadata :: model_runtime_error where
  "invalid_metadata = (plain_runtime_error ''Model adapter returned invalid response metadata.'')
     \<lparr>me_error_class := Some ''InvalidModelResponse'', me_error_summary := Some ''response_type=invalid''\<rparr>"

definition validated_model_response_identifier :: "jval \<Rightarrow> model_runtime_error + string" where
  "validated_model_response_identifier v = (case v of
     JStr s \<Rightarrow> if identifier_text (strip s) then Inr (strip s) else Inl invalid_metadata
   | _ \<Rightarrow> Inl invalid_metadata)"

text \<open>
  \<open>_normalize_model_error_summary\<close> of a value of any type: what has no length or cannot be
  split raises, which the caller turns into the same error.
\<close>

fun summary_of_json :: "jval \<Rightarrow> model_runtime_error + string option" where
  "summary_of_json JNull = Inr None"
| "summary_of_json (JStr s) = Inr (normalize_model_error_summary (Some s))"
| "summary_of_json v =
     (if \<not> jtruthy v \<or> (case v of JList xs \<Rightarrow> length xs > 500 | JObj d \<Rightarrow> length d > 500 | _ \<Rightarrow> False)
      then Inr (Some UNCLASSIFIED_MODEL_ERROR_SUMMARY) else Inl invalid_metadata)"

definition ATTEMPT_KEYS :: "string list" where
  "ATTEMPT_KEYS = [''provider_attempt'', ''outcome'', ''reason'', ''error_class'', ''error_summary'', ''usage_known'']"

definition validated_attempt :: "int \<Rightarrow> jval \<Rightarrow> model_runtime_error + jobj" where
  "validated_attempt index v = (case v of
     JObj d \<Rightarrow>
       bindE (guardE (set (map fst d) = set ATTEMPT_KEYS) invalid_metadata) (\<lambda>_.
       bindE (guardE (jnorm (jget d ''provider_attempt'') = jnorm (JInt index)
           \<and> jget d ''outcome'' = JStr ''failed''
           \<and> jget d ''reason'' \<in> {JStr ''retryable_error'', JStr ''non_retryable_error''}
           \<and> jget d ''usage_known'' = JBool False) invalid_metadata) (\<lambda>_.
       bindE (validated_model_response_identifier (jget d ''error_class'')) (\<lambda>error_class.
       bindE (summary_of_json (jget d ''error_summary'')) (\<lambda>summary.
       Inr [(''provider_attempt'', JInt index), (''outcome'', JStr ''failed''),
            (''reason'', jget d ''reason''), (''error_class'', JStr error_class),
            (''error_summary'', JStr (case summary of None \<Rightarrow> UNCLASSIFIED_MODEL_ERROR_SUMMARY
               | Some x \<Rightarrow> if x = [] then UNCLASSIFIED_MODEL_ERROR_SUMMARY else x)),
            (''usage_known'', JBool False)]))))
   | _ \<Rightarrow> Inl invalid_metadata)"

definition validated_provider_attempts :: "jval \<Rightarrow> model_runtime_error + jobj list" where
  "validated_provider_attempts v = (case v of
     JList xs \<Rightarrow> mapE (\<lambda>(i, x). validated_attempt (int i) x) (enumerate 1 xs)
   | _ \<Rightarrow> Inl invalid_metadata)"

text \<open>
  The error that \<open>raise ModelRuntimeError(...)\<close> raises: the constructor sanitises its fields,
  and raises another error when the evidence of provider attempts is not in order.
\<close>

definition raised_model_error :: "(string \<Rightarrow> bool) \<Rightarrow> model_runtime_error \<Rightarrow> model_runtime_error" where
  "raised_model_error secret e =
    (case validated_provider_attempts (JList (map JObj (me_provider_attempts e))) of
       Inl f \<Rightarrow> f
     | Inr attempts \<Rightarrow> e\<lparr>
         me_provider := map_option (\<lambda>v. safe_model_identifier secret v ''unknown_provider'') (me_provider e),
         me_model := map_option (\<lambda>v. safe_model_identifier secret v ''unknown_model'') (me_model e),
         me_adapter := map_option (\<lambda>v. safe_model_identifier secret v ''unknown_adapter'') (me_adapter e),
         me_error_class := map_option (safe_model_error_class secret) (me_error_class e),
         me_error_summary := normalize_model_error_summary (me_error_summary e),
         me_route_receipt := safe_route_receipt secret (me_route_receipt e),
         me_provider_attempts := attempts\<rparr>)"

definition routed_error :: "(string \<Rightarrow> bool) \<Rightarrow> string \<Rightarrow> string \<Rightarrow> string \<Rightarrow> string \<Rightarrow> string \<Rightarrow> jobj list \<Rightarrow> model_runtime_error" where
  "routed_error secret message provider model error_class summary receipt = raised_model_error secret
    ((plain_runtime_error message)\<lparr>me_provider := Some provider, me_model := Some model,
      me_error_class := Some error_class, me_error_summary := Some summary, me_route_receipt := receipt\<rparr>)"

definition LOCAL_ROUTE_REJECTION_REASONS :: "string list" where
  "LOCAL_ROUTE_REJECTION_REASONS = [''capability_mismatch'', ''invalid_request'',
     ''provider_capacity_timeout'', ''provider_not_configured'', ''provider_not_ready'',
     ''provider_attempt_record_failed'', ''route_timeout_budget_exhausted'']"

definition local_rejection ::
  "(string \<Rightarrow> bool) \<Rightarrow> string \<Rightarrow> string \<Rightarrow> string option \<Rightarrow> string option \<Rightarrow> string \<Rightarrow> string option \<Rightarrow> model_runtime_error" where
  "local_rejection secret message reason provider model error_class summary =
    (raised_model_error secret ((plain_runtime_error message)\<lparr>me_provider := provider, me_model := model,
      me_error_class := Some error_class, me_error_summary := summary\<rparr>))\<lparr>me_local_reason := Some reason\<rparr>"

definition provider_attempt_evidence ::
  "(string \<Rightarrow> bool) \<Rightarrow> int \<Rightarrow> string \<Rightarrow> string option \<Rightarrow> bool \<Rightarrow> jobj" where
  "provider_attempt_evidence secret provider_attempt error_class summary retryable =
    [(''provider_attempt'', JInt provider_attempt), (''outcome'', JStr ''failed''),
     (''reason'', JStr (if retryable then ''retryable_error'' else ''non_retryable_error'')),
     (''error_class'', JStr (safe_model_error_class secret error_class)),
     (''error_summary'', JStr (case normalize_model_error_summary summary of
         None \<Rightarrow> UNCLASSIFIED_MODEL_ERROR_SUMMARY
       | Some x \<Rightarrow> if x = [] then UNCLASSIFIED_MODEL_ERROR_SUMMARY else x)),
     (''usage_known'', JBool False)]"

definition TRANSIENT_MARKERS :: "string list" where
  "TRANSIENT_MARKERS = [''connection error'', ''connection reset'', ''connection aborted'', ''timeout'',
     ''timed out'', ''temporarily unavailable'', ''service unavailable'', ''internalservererror'',
     ''internal server error'', ''bad gateway'', ''gateway timeout'', ''http 500'', ''http 502'',
     ''http 503'', ''http 504'', ''status code: 500'', ''status code: 502'', ''status code: 503'',
     ''status code: 504'']"

definition NON_TRANSIENT_MARKERS :: "string list" where
  "NON_TRANSIENT_MARKERS = [''401'', ''403'', ''unauthorized'', ''forbidden'', ''invalid api key'',
     ''invalid_api_key'', ''authentication'', ''permission denied'', ''insufficient quota'', ''billing'']"

definition is_transient_model_error :: "int option \<Rightarrow> string \<Rightarrow> bool" where
  "is_transient_model_error status_code message = (case status_code of
     Some n \<Rightarrow> n \<in> {408, 429} \<or> (500 \<le> n \<and> n \<le> 599)
   | None \<Rightarrow> (let text = lower message in
       list_ex (\<lambda>marker. sublist marker text) TRANSIENT_MARKERS
       \<and> \<not> list_ex (\<lambda>marker. sublist marker text) NON_TRANSIENT_MARKERS))"

definition model_error_is_retryable :: "model_runtime_error \<Rightarrow> bool" where
  "model_error_is_retryable e = (case me_error_summary e of
     Some v \<Rightarrow> if sublist ''retryable=true'' v then True
       else if sublist ''retryable=false'' v then False
       else is_transient_model_error None (me_message e)
   | None \<Rightarrow> is_transient_model_error None (me_message e))"

text \<open>\<open>model_runtime_error_payload\<close> of such an error.\<close>

definition model_runtime_error_payload :: "(string \<Rightarrow> bool) \<Rightarrow> model_runtime_error \<Rightarrow> jobj" where
  "model_runtime_error_payload secret e =
    present (me_provider e) ''provider'' (\<lambda>v. JStr (safe_model_identifier secret v ''unknown_provider''))
    @ present (me_model e) ''model'' (\<lambda>v. JStr (safe_model_identifier secret v ''unknown_model''))
    @ present (me_adapter e) ''adapter'' (\<lambda>v. JStr (safe_model_identifier secret v ''unknown_adapter''))
    @ present (me_error_class e) ''error_class'' (\<lambda>v. JStr (safe_model_error_class secret v))
    @ present (normalize_model_error_summary (me_error_summary e)) ''error_summary'' JStr
    @ present (case me_elapsed_ms e of None \<Rightarrow> None | Some n \<Rightarrow> if n \<ge> 0 then Some n else None) ''elapsed_ms'' JInt
    @ (if me_route_receipt e = [] then []
       else [(''route_receipt'', JList (map JObj (safe_route_receipt secret (me_route_receipt e))))])"

end
