(* ===== verification/Model_Responses.thy ===== *)
theory Model_Responses imports Model_Errors begin

text \<open>
  What the model gateway of \<open>backend/app/core/model_runtime.py\<close> makes of the answer of an
  adapter: the validation of a response, whose fields may hold anything, and the assembly of a
  response from the parts that continuations add.
\<close>

section \<open>Answers of adapters\<close>

text \<open>
  The fields of a \<open>ModelResponse\<close> as an adapter made it. A tool call is \<open>None\<close> when it is no
  \<open>ModelToolCall\<close>, the list of them when it is no list.
\<close>

record raw_tool_call =
  rw_id :: jval
  rw_name :: jval
  rw_arguments :: jval

record raw_response =
  rr_text :: jval
  rr_usage :: jval
  rr_latency_ms :: jval
  rr_finish_reason :: jval
  rr_raw_provider :: jval
  rr_adapter :: jval
  rr_mocked :: jval
  rr_tool_calls :: "raw_tool_call option list option"
  rr_provider_attempts :: jval
  rr_partial :: jval
  rr_continuation_count :: jval
  rr_selected_provider :: jval
  rr_selected_model :: jval

definition MAX_MODEL_RESPONSE_COUNTER :: int where
  "MAX_MODEL_RESPONSE_COUNTER = 2 ^ 63 - 1"

definition MAX_TOOL_CALLS_PER_RESPONSE :: nat where
  "MAX_TOOL_CALLS_PER_RESPONSE = 16"

definition MAX_TOOL_ARGUMENT_CHARS :: nat where
  "MAX_TOOL_ARGUMENT_CHARS = 100000"

section \<open>Validation\<close>

definition validated_model_response_counter :: "jval \<Rightarrow> model_runtime_error + int" where
  "validated_model_response_counter v = (case v of
     JInt n \<Rightarrow> if 0 \<le> n \<and> n \<le> MAX_MODEL_RESPONSE_COUNTER then Inr n else Inl invalid_metadata
   | _ \<Rightarrow> Inl invalid_metadata)"

definition validated_model_response_usage :: "jval \<Rightarrow> model_runtime_error + (string \<times> int) list" where
  "validated_model_response_usage v = (case v of
     JObj d \<Rightarrow>
       bindE (guardE (set (map fst d) \<subseteq> set MODEL_RESPONSE_USAGE_KEYS) invalid_metadata) (\<lambda>_.
       mapE (\<lambda>k. bindE (validated_model_response_counter (jget d k)) (\<lambda>n. Inr (k, n)))
         (filter (\<lambda>k. map_of d k \<noteq> None) MODEL_RESPONSE_USAGE_KEYS))
   | _ \<Rightarrow> Inl invalid_metadata)"

definition unsupported_response_shape :: "string \<Rightarrow> model_runtime_error" where
  "unsupported_response_shape shape =
    (plain_runtime_error ''Model response included unsupported tool or refusal content.'')
      \<lparr>me_error_class := Some ''InvalidModelResponse'',
       me_error_summary := normalize_model_error_summary (Some (''response_shape='' @ shape))\<rparr>"

fun validated_calls ::
  "(rat \<Rightarrow> string) \<Rightarrow> string list \<Rightarrow> raw_tool_call option list \<Rightarrow> model_runtime_error + model_tool_call list" where
  "validated_calls show ids [] = Inr []"
| "validated_calls show ids (None # items) = Inl invalid_metadata"
| "validated_calls show ids (Some c # items) = (case rw_arguments c of
     JObj arguments \<Rightarrow>
       bindE (validated_model_response_identifier (rw_id c)) (\<lambda>call_id.
       bindE (validated_model_response_identifier (rw_name c)) (\<lambda>name.
       bindE (guardE (call_id \<notin> set ids) invalid_metadata) (\<lambda>_.
       bindE (guardE (length (compact_json show (JObj arguments)) \<le> MAX_TOOL_ARGUMENT_CHARS) invalid_metadata) (\<lambda>_.
       bindE (validated_calls show (call_id # ids) items) (\<lambda>calls.
       Inr (\<lparr>tc_id = call_id, tc_name = name, tc_arguments = arguments\<rparr> # calls))))))
   | _ \<Rightarrow> Inl invalid_metadata)"

definition validated_model_tool_calls ::
  "(rat \<Rightarrow> string) \<Rightarrow> raw_tool_call option list option \<Rightarrow> model_runtime_error + model_tool_call list" where
  "validated_model_tool_calls show v = (case v of
     None \<Rightarrow> Inl invalid_metadata
   | Some items \<Rightarrow>
       if length items > MAX_TOOL_CALLS_PER_RESPONSE then Inl invalid_metadata
       else validated_calls show [] items)"

definition ensure_tool_calls_allowed :: "model_tool_call list \<Rightarrow> string list \<Rightarrow> model_runtime_error + unit" where
  "ensure_tool_calls_allowed calls allowed =
     guardE (sorted_set (filter (\<lambda>n. n \<notin> set allowed) (map tc_name calls)) = [])
       (unsupported_response_shape ''tool_call'')"

definition finish_reason_error :: "string \<Rightarrow> string \<Rightarrow> string \<Rightarrow> model_runtime_error" where
  "finish_reason_error message error_class summary = (plain_runtime_error message)
     \<lparr>me_error_class := Some error_class, me_error_summary := normalize_model_error_summary (Some summary)\<rparr>"

definition validated_finish_reason :: "jval \<Rightarrow> bool \<Rightarrow> bool \<Rightarrow> model_runtime_error + string" where
  "validated_finish_reason v allow_tool_calls allow_incomplete =
    (if strip (text_of v) = [] then
       Inl (finish_reason_error ''Model response did not include a valid completion status.''
         ''InvalidModelResponse''
         (case v of JNull \<Rightarrow> ''finish_reason=missing'' | JStr s \<Rightarrow> ''finish_reason=missing''
          | _ \<Rightarrow> ''finish_reason_type=non_string''))
     else let finish_reason = lower (strip (text_of v)) in
       if finish_reason = ''tool_calls'' \<and> allow_tool_calls then Inr finish_reason
       else if finish_reason \<in> {''length'', ''incomplete''} \<and> allow_incomplete then Inr finish_reason
       else if finish_reason \<notin> set COMPLETE_RESPONSE_STATES then
         Inl (finish_reason_error ''Model response did not complete successfully.'' ''IncompleteModelResponse''
           (if finish_reason \<in> set KNOWN_INCOMPLETE_RESPONSE_STATES then ''finish_reason='' @ finish_reason
            else ''finish_reason=unsupported''))
       else Inr finish_reason)"

definition response_text_error :: "string \<Rightarrow> model_runtime_error" where
  "response_text_error summary =
     finish_reason_error ''Model response did not contain non-empty text.'' ''InvalidModelResponse'' summary"

definition validated_response_text :: "jval \<Rightarrow> bool \<Rightarrow> model_runtime_error + string" where
  "validated_response_text v allow_empty = (case v of
     JStr s \<Rightarrow> if strip s = [] \<and> \<not> allow_empty then Inl (response_text_error ''response_text=empty'') else Inr s
   | JNull \<Rightarrow> if allow_empty then Inr [] else Inl (response_text_error ''response_text_type=non_string'')
   | _ \<Rightarrow> Inl (response_text_error ''response_text_type=non_string''))"

text \<open>The first \<open>try\<close> of \<open>_validate_model_response\<close>; every exception of it becomes one error.\<close>

definition selected_agrees :: "jval \<Rightarrow> string \<Rightarrow> model_runtime_error + unit" where
  "selected_agrees v expected = (if v = JNull then Inr ()
     else bindE (validated_model_response_identifier v) (\<lambda>s. guardE (s = expected) invalid_metadata))"

definition valid_metadata ::
  "raw_response \<Rightarrow> string \<Rightarrow> string \<Rightarrow> bool \<Rightarrow>
    model_runtime_error + ((string \<times> int) list \<times> int \<times> string \<times> string \<times> jobj list \<times> bool \<times> bool \<times> int)" where
  "valid_metadata r provider model allow_provider_attempts =
    bindE (validated_model_response_usage (rr_usage r)) (\<lambda>usage.
    bindE (validated_model_response_counter (rr_latency_ms r)) (\<lambda>latency_ms.
    bindE (validated_model_response_identifier (rr_raw_provider r)) (\<lambda>raw_provider.
    bindE (validated_model_response_identifier (rr_adapter r)) (\<lambda>adapter.
    bindE (validated_provider_attempts (rr_provider_attempts r)) (\<lambda>attempts.
    bindE (guardE (attempts = [] \<or> allow_provider_attempts) invalid_metadata) (\<lambda>_.
    bindE (selected_agrees (rr_selected_provider r) provider) (\<lambda>_.
    bindE (selected_agrees (rr_selected_model r) model) (\<lambda>_.
    bindE (guardE (raw_provider = provider) invalid_metadata) (\<lambda>_.
    case (rr_mocked r, rr_partial r, rr_continuation_count r) of
      (JBool mocked, JBool partial, JInt continued) \<Rightarrow>
        bindE (guardE (continued \<ge> 0) invalid_metadata) (\<lambda>_.
        Inr (usage, latency_ms, raw_provider, adapter, attempts, mocked, partial, continued))
    | _ \<Rightarrow> Inl invalid_metadata)))))))))"

text \<open>The second \<open>try\<close>: the tool calls, the finish reason and the text.\<close>

definition valid_content ::
  "(rat \<Rightarrow> string) \<Rightarrow> raw_response \<Rightarrow> string list \<Rightarrow> bool \<Rightarrow>
    model_runtime_error + (model_tool_call list \<times> string \<times> string)" where
  "valid_content show r allowed partial =
    bindE (validated_model_tool_calls show (rr_tool_calls r)) (\<lambda>calls.
    bindE (ensure_tool_calls_allowed calls allowed) (\<lambda>_.
    bindE (validated_finish_reason (rr_finish_reason r) (calls \<noteq> []) partial) (\<lambda>finish_reason.
    bindE (validated_response_text (rr_text r) (calls \<noteq> [])) (\<lambda>text.
    bindE (guardE (\<not> (partial \<and> strip text = []))
      (finish_reason_error ''Partial model response did not contain usable text.'' ''InvalidModelResponse''
        ''response_text=empty'')) (\<lambda>_.
    Inr (calls, finish_reason, text))))))"

definition response_error ::
  "(string \<Rightarrow> bool) \<Rightarrow> string \<Rightarrow> string \<Rightarrow> string \<Rightarrow> string \<Rightarrow> string option \<Rightarrow> int option \<Rightarrow> model_runtime_error" where
  "response_error secret message provider model error_class summary elapsed = raised_model_error secret
    ((plain_runtime_error message)\<lparr>me_provider := Some provider, me_model := Some model,
      me_error_class := Some error_class, me_error_summary := summary, me_elapsed_ms := elapsed\<rparr>)"

text \<open>\<open>None\<close> is an answer that is no \<open>ModelResponse\<close>.\<close>

definition validate_model_response ::
  "(string \<Rightarrow> bool) \<Rightarrow> (rat \<Rightarrow> string) \<Rightarrow> string \<Rightarrow> string \<Rightarrow> string list \<Rightarrow> bool \<Rightarrow> raw_response option
    \<Rightarrow> model_runtime_error + model_response" where
  "validate_model_response secret show provider model allowed allow_provider_attempts response =
    (case response of
      None \<Rightarrow> Inl (response_error secret ''Model adapter returned an invalid response.'' provider model
        ''InvalidModelResponse'' (Some ''response_type=invalid'') None)
    | Some r \<Rightarrow> (case valid_metadata r provider model allow_provider_attempts of
        Inl _ \<Rightarrow> Inl (response_error secret ''Model adapter returned invalid response metadata.'' provider model
          ''InvalidModelResponse'' (Some ''response_type=invalid'') None)
      | Inr (usage, latency_ms, raw_provider, adapter, attempts, mocked, partial, continued) \<Rightarrow>
          (case valid_content show r allowed partial of
            Inl e \<Rightarrow> Inl (response_error secret (me_message e) provider model
              (or_str (me_error_class e) ''InvalidModelResponse'') (me_error_summary e) (Some latency_ms))
          | Inr (calls, finish_reason, text) \<Rightarrow> Inr
              \<lparr>mr_text = text, mr_usage = usage, mr_latency_ms = latency_ms,
               mr_finish_reason = finish_reason, mr_raw_provider = raw_provider, mr_adapter = adapter,
               mr_mocked = mocked, mr_tool_calls = calls, mr_route_receipt = [],
               mr_provider_attempts = attempts, mr_partial = partial, mr_continuation_count = continued,
               mr_selected_provider = Some provider, mr_selected_model = Some model,
               mr_selected_input_usd_per_million = None, mr_selected_output_usd_per_million = None\<rparr>)))"

section \<open>Continuations\<close>

definition CONTINUATION_PROMPT :: string where
  "CONTINUATION_PROMPT = ''Continue the previous response from exactly where it stopped. ''
     @ ''Do not repeat any text already present. Preserve the same structure ''
     @ ''and finish the requested deliverable.''"

definition text_message :: "string \<Rightarrow> string \<Rightarrow> model_message" where
  "text_message role content =
     \<lparr>mm_role = role, mm_content = Inl content, mm_tool_call_id = None, mm_tool_calls = []\<rparr>"

definition continuation_request :: "model_request \<Rightarrow> string \<Rightarrow> nat \<Rightarrow> rat \<Rightarrow> model_request" where
  "continuation_request q assembled index timeout = q\<lparr>
     mq_messages := mq_messages q @ [text_message ''assistant'' assembled,
       text_message ''user'' CONTINUATION_PROMPT],
     mq_timeout_seconds := Some timeout,
     mq_metadata := jput ''continuation_attempt'' (JInt (int index)) (mq_metadata q)\<rparr>"

definition MAX_OVERLAP :: nat where
  "MAX_OVERLAP = 2000"

text \<open>The longest overlap first.\<close>

primrec merge_overlap :: "string \<Rightarrow> string \<Rightarrow> nat \<Rightarrow> string option" where
  "merge_overlap existing continuation 0 = None"
| "merge_overlap existing continuation (Suc n) =
    (if suffix (take (Suc n) continuation) existing then Some (existing @ drop (Suc n) continuation)
     else merge_overlap existing continuation n)"

definition merge_continuation_text :: "string \<Rightarrow> string \<Rightarrow> string" where
  "merge_continuation_text existing continuation =
    (let c = dropWhile is_space continuation in
     if c = [] then existing
     else case merge_overlap existing c (min MAX_OVERLAP (min (length existing) (length c))) of
       Some merged \<Rightarrow> merged
     | None \<Rightarrow> existing @ [CHR 0x0A] @ c)"

definition usage_of :: "string \<Rightarrow> model_response \<Rightarrow> int" where
  "usage_of k r = (case map_of (mr_usage r) k of None \<Rightarrow> 0 | Some n \<Rightarrow> n)"

definition sum_model_usage :: "model_response list \<Rightarrow> (string \<times> int) list" where
  "sum_model_usage responses =
    (if list_ex (\<lambda>r. list_ex (\<lambda>k. map_of (mr_usage r) k = None) MODEL_RESPONSE_USAGE_KEYS) responses then []
     else map (\<lambda>k. (k, sum_list (map (usage_of k) responses))) MODEL_RESPONSE_USAGE_KEYS)"

end
