(* ===== verification/Model_Gateway.thy ===== *)
theory Model_Gateway imports Model_Responses begin

text \<open>
  \<open>ModelGateway\<close> of \<open>backend/app/core/model_runtime.py\<close>: a request is tried on the candidates of
  its route in order, under the confirmations of the run, the circuit breaker, the capabilities,
  the concurrency limit and the time left; an answer is validated, continued while it is partial
  and asked for once more when it is invalid; every step is an entry of the route receipt.

  The provider behind an adapter is \<open>ge_reply\<close>; \<open>ge_reply env k q\<close> is its answer when the
  gateway looks at its environment for the \<open>k\<close>-th time, as are the readings \<open>ge_clock env k\<close> of
  the two clocks and the outcome \<open>ge_acquire env k\<close> of waiting for a slot of a provider, for
  which other threads compete. \<open>gs_sent\<close> are the requests that were handed to an adapter and
  \<open>gs_held\<close> the slots that this call holds.
\<close>

section \<open>State and effects\<close>

datatype gateway_exn = Model_error model_runtime_error | Other_exn exn

datatype adapter_kind = Mock_adapter | Provider_stub | Openai_compatible | Other_adapter

text \<open>What \<open>urlparse\<close> says of a URL; an absent part is the empty text.\<close>

record url_parts =
  up_scheme :: string
  up_netloc :: string
  up_username :: string
  up_password :: string
  up_query :: string
  up_fragment :: string
  up_hostname :: string

record gateway_env =
  ge_adapters :: "(string \<times> adapter_kind) list"
  ge_reply :: "nat \<Rightarrow> model_request \<Rightarrow> gateway_exn + raw_response option"
  ge_capabilities :: capability_registry
  ge_clock :: "nat \<Rightarrow> rat"
  ge_health_clock :: "nat \<Rightarrow> rat"
  ge_acquire :: "nat \<Rightarrow> bool"
  ge_environ :: "string \<Rightarrow> string option"
  ge_float :: "string \<Rightarrow> rat option option"
  ge_urlparse :: "string \<Rightarrow> url_parts option"
  ge_loopback_ip :: "string \<Rightarrow> bool"
  ge_secret :: "string \<Rightarrow> bool"
  ge_show_float :: "rat \<Rightarrow> string"
  ge_py_str :: "jval \<Rightarrow> string"
  ge_utf8_length :: "string \<Rightarrow> nat"

record gateway_state =
  gs_health :: provider_health_registry
  gs_sent :: "model_request list"
  gs_held :: "string list"
  gs_ticks :: nat

type_synonym 'a gateway_act = "gateway_state \<Rightarrow> (gateway_exn + 'a) \<times> gateway_state"

definition returnG :: "'a \<Rightarrow> 'a gateway_act" where
  "returnG x = (\<lambda>s. (Inr x, s))"

definition raiseG :: "gateway_exn \<Rightarrow> 'a gateway_act" where
  "raiseG e = (\<lambda>s. (Inl e, s))"

definition bindG :: "'a gateway_act \<Rightarrow> ('a \<Rightarrow> 'b gateway_act) \<Rightarrow> 'b gateway_act" where
  "bindG m f = (\<lambda>s. case m s of (Inl e, s') \<Rightarrow> (Inl e, s') | (Inr x, s') \<Rightarrow> f x s')"

definition liftG :: "gateway_exn + 'a \<Rightarrow> 'a gateway_act" where
  "liftG r = (\<lambda>s. (r, s))"

definition outcomeG :: "'a gateway_act \<Rightarrow> (gateway_exn + 'a) gateway_act" where
  "outcomeG m = (\<lambda>s. case m s of (r, s') \<Rightarrow> (Inr r, s'))"

definition finallyG :: "'a gateway_act \<Rightarrow> (gateway_state \<Rightarrow> gateway_state) \<Rightarrow> 'a gateway_act" where
  "finallyG m f = (\<lambda>s. case m s of (r, s') \<Rightarrow> (r, f s'))"

text \<open>A look at the environment: the number of the look.\<close>

definition tick :: "nat gateway_act" where
  "tick = (\<lambda>s. (Inr (gs_ticks s), s\<lparr>gs_ticks := Suc (gs_ticks s)\<rparr>))"

definition perf_counter :: "gateway_env \<Rightarrow> rat gateway_act" where
  "perf_counter env = bindG tick (\<lambda>k. returnG (ge_clock env k))"

definition on_health :: "(provider_health_registry \<Rightarrow> 'a \<times> provider_health_registry) \<Rightarrow> 'a gateway_act" where
  "on_health f = (\<lambda>s. case f (gs_health s) of (x, g) \<Rightarrow> (Inr x, s\<lparr>gs_health := g\<rparr>))"

section \<open>Prices\<close>

record model_route_price =
  mp_provider :: string
  mp_model :: string
  mp_input_usd_per_million :: rat
  mp_output_usd_per_million :: rat
  mp_source :: string

definition route_price :: "capability_registry \<Rightarrow> route_candidate \<Rightarrow> model_route_price option" where
  "route_price capabilities c =
    (if cd_input_usd_per_million c \<noteq> JNull then
       Some \<lparr>mp_provider = cd_provider c, mp_model = cd_model c,
         mp_input_usd_per_million = number_of (cd_input_usd_per_million c),
         mp_output_usd_per_million = number_of (cd_output_usd_per_million c), mp_source = ''route_override''\<rparr>
     else case cm_capability (resolve_capability capabilities (cd_provider c) (cd_model c)) of
       None \<Rightarrow> None
     | Some capability \<Rightarrow> (case (mc_input_price capability, mc_output_price capability) of
         (Some i, Some out) \<Rightarrow> Some \<lparr>mp_provider = cd_provider c, mp_model = cd_model c,
           mp_input_usd_per_million = i, mp_output_usd_per_million = out, mp_source = ''capability_registry''\<rparr>
       | _ \<Rightarrow> None))"

definition price_value :: "rat option \<Rightarrow> jval" where
  "price_value p = (case p of None \<Rightarrow> JNull | Some q \<Rightarrow> JFloat q)"

definition request_candidates :: "model_request \<Rightarrow> exn + route_candidate list" where
  "request_candidates q = route_candidates_from_request (mq_provider q) (mq_model q)
     (map JObj (mq_fallbacks q)) (price_value (mq_input_usd_per_million q))
     (price_value (mq_output_usd_per_million q))"

definition route_prices :: "capability_registry \<Rightarrow> model_request \<Rightarrow> exn + model_route_price option list" where
  "route_prices capabilities q = (case request_candidates q of
     Inl e \<Rightarrow> Inl (ModelRuntimeError ''Model request contains an invalid route candidate.'' [])
   | Inr cs \<Rightarrow> Inr (map (route_price capabilities) cs))"

definition estimate_route_cost :: "model_route_price option \<Rightarrow> (string \<times> int) list \<Rightarrow> rat option" where
  "estimate_route_cost price usage = (case (price, map_of usage ''input_tokens'', map_of usage ''output_tokens'') of
     (Some p, Some i, Some out) \<Rightarrow>
       Some ((of_int i * mp_input_usd_per_million p + of_int out * mp_output_usd_per_million p) / 1000000)
   | _ \<Rightarrow> None)"

section \<open>Configuration\<close>

definition environ_flag :: "gateway_env \<Rightarrow> string \<Rightarrow> bool" where
  "environ_flag env name \<longleftrightarrow> ge_environ env name \<notin> {None, Some []}"

definition environ_or :: "gateway_env \<Rightarrow> string \<Rightarrow> string \<Rightarrow> string" where
  "environ_or env name d = (case ge_environ env name of None \<Rightarrow> d | Some v \<Rightarrow> v)"

definition configuration_error :: "string \<Rightarrow> gateway_exn" where
  "configuration_error message = Model_error (plain_runtime_error message)"

definition positive_float_env :: "gateway_env \<Rightarrow> string \<Rightarrow> rat \<Rightarrow> gateway_exn + rat" where
  "positive_float_env env name d = (case ge_environ env name of
     None \<Rightarrow> Inr d
   | Some raw \<Rightarrow> if strip raw = [] then Inr d
       else (case ge_float env raw of
         None \<Rightarrow> Inl (configuration_error (name @ '' must be a positive number.''))
       | Some None \<Rightarrow> Inl (configuration_error (name @ '' must be a positive finite number.''))
       | Some (Some q) \<Rightarrow> if q \<le> 0 then Inl (configuration_error (name @ '' must be a positive finite number.''))
           else Inr q))"

definition model_timeout :: "gateway_env \<Rightarrow> gateway_exn + rat" where
  "model_timeout env = positive_float_env env ''TEAM_AGENT_MODEL_TIMEOUT_SECONDS'' 180"

definition real_model_calls_allowed :: "gateway_env \<Rightarrow> bool" where
  "real_model_calls_allowed env \<longleftrightarrow> ge_environ env ''TEAM_AGENT_ALLOW_REAL_MODEL_CALLS'' = Some ''1''"

definition gpt_relay_protocol :: "gateway_env \<Rightarrow> gateway_exn + string" where
  "gpt_relay_protocol env =
    (let v = lower (strip (environ_or env ''TEAM_AGENT_GPT_RELAY_PROTOCOL'' ''chat_completions'')) in
     if v \<notin> {''chat_completions'', ''responses''} then
       Inl (configuration_error ''TEAM_AGENT_GPT_RELAY_PROTOCOL must be chat_completions or responses.'')
     else Inr v)"

definition official_openai_api_key :: "gateway_env \<Rightarrow> string option" where
  "official_openai_api_key env =
    (if environ_flag env ''OPENAI_OFFICIAL_API_KEY'' then ge_environ env ''OPENAI_OFFICIAL_API_KEY''
     else if environ_flag env ''OPENAI_API_BASE'' then None
     else if environ_flag env ''OPENAI_API_KEY'' then ge_environ env ''OPENAI_API_KEY'' else None)"

definition is_loopback_host :: "gateway_env \<Rightarrow> string \<Rightarrow> bool" where
  "is_loopback_host env hostname \<longleftrightarrow> lower hostname = ''localhost'' \<or> ge_loopback_ip env hostname"

definition rstrip_slash :: "string \<Rightarrow> string" where
  "rstrip_slash v = rev (dropWhile (\<lambda>c. c = CHR ''/'') (rev v))"

text \<open>\<open>urlparse\<close> raises \<open>ValueError\<close> when there is no result.\<close>

definition gpt_relay_base_url :: "gateway_env \<Rightarrow> gateway_exn + string" where
  "gpt_relay_base_url env =
    (let v = rstrip_slash (strip (environ_or env ''OPENAI_API_BASE'' [])) in
     case ge_urlparse env v of
       None \<Rightarrow> Inl (Other_exn (ValueError ''Invalid URL''))
     | Some u \<Rightarrow>
         if v = [] \<or> up_scheme u \<notin> {''http'', ''https''} \<or> up_netloc u = [] then
           Inl (configuration_error ''OPENAI_API_BASE must be an http(s) URL for gpt_relay.'')
         else if up_username u \<noteq> [] \<or> up_password u \<noteq> [] \<or> up_query u \<noteq> [] \<or> up_fragment u \<noteq> [] then
           Inl (configuration_error ''OPENAI_API_BASE must not include credentials, query, or fragment.'')
         else if \<not> is_loopback_host env (up_hostname u) \<and> up_scheme u \<noteq> ''https'' then
           Inl (configuration_error ''Remote GPT relay URLs must use https.'')
         else Inr v)"

definition litellm_base_url :: "gateway_env \<Rightarrow> gateway_exn + string" where
  "litellm_base_url env =
    (let v = strip (environ_or env ''LITELLM_BASE_URL'' ''http://127.0.0.1:4000/v1'') in
     case ge_urlparse env v of
       None \<Rightarrow> Inl (Other_exn (ValueError ''Invalid URL''))
     | Some u \<Rightarrow>
         if v = [] \<or> up_scheme u \<notin> {''http'', ''https''} \<or> up_netloc u = [] then
           Inl (configuration_error ''LITELLM_BASE_URL must be an http(s) URL.'')
         else if up_username u \<noteq> [] \<or> up_password u \<noteq> [] \<or> up_query u \<noteq> [] \<or> up_fragment u \<noteq> [] then
           Inl (configuration_error ''LITELLM_BASE_URL must not include credentials, query, or fragment.'')
         else if is_loopback_host env (up_hostname u) then Inr v
         else if ge_environ env ''TEAM_AGENT_ALLOW_REMOTE_LITELLM_PROXY'' \<noteq> Some ''1'' then
           Inl (configuration_error (''Remote LiteLLM Proxy URLs are disabled. ''
             @ ''Use a loopback URL or set TEAM_AGENT_ALLOW_REMOTE_LITELLM_PROXY=1 for a trusted HTTPS proxy.''))
         else if up_scheme u \<noteq> ''https'' then
           Inl (configuration_error ''Remote LiteLLM Proxy URLs must use https.'')
         else Inr v)"

text \<open>No accepted URL carries credentials or reaches another host in the clear.\<close>

lemma relay_url_is_safe:
  "gpt_relay_base_url env = Inr v \<Longrightarrow> \<exists>u. ge_urlparse env v = Some u \<and> up_username u = [] \<and> up_password u = []
     \<and> (up_scheme u = ''https'' \<or> is_loopback_host env (up_hostname u))"
  by (auto simp: gpt_relay_base_url_def Let_def split: option.splits if_splits)

lemma litellm_url_is_safe:
  "litellm_base_url env = Inr v \<Longrightarrow> \<exists>u. ge_urlparse env v = Some u \<and> up_username u = [] \<and> up_password u = []
     \<and> (up_scheme u = ''https'' \<or> is_loopback_host env (up_hostname u))"
  by (auto simp: litellm_base_url_def Let_def split: option.splits if_splits)

record model_provider_info =
  pi_name :: string
  pi_adapter :: string
  pi_enabled :: bool
  pi_real_calls :: bool
  pi_real_calls_configured :: bool
  pi_requires_credentials :: bool
  pi_description :: string
  pi_protocol :: string

definition stub_info :: "string \<Rightarrow> bool \<Rightarrow> string \<Rightarrow> model_provider_info" where
  "stub_info name credentials description = \<lparr>pi_name = name, pi_adapter = ''provider_stub'',
     pi_enabled = False, pi_real_calls = False, pi_real_calls_configured = False,
     pi_requires_credentials = credentials, pi_description = description, pi_protocol = ''unknown''\<rparr>"

definition real_info :: "string \<Rightarrow> string \<Rightarrow> bool \<Rightarrow> bool \<Rightarrow> string \<Rightarrow> string \<Rightarrow> model_provider_info" where
  "real_info name adapter enabled configured description protocol = \<lparr>pi_name = name, pi_adapter = adapter,
     pi_enabled = enabled, pi_real_calls = True, pi_real_calls_configured = configured,
     pi_requires_credentials = True, pi_description = description, pi_protocol = protocol\<rparr>"

text \<open>
  The protocol of the relay is read for its own entry whichever provider is asked for, so an
  unknown protocol makes the whole catalog raise.
\<close>

definition relay_ready :: "gateway_env \<Rightarrow> gateway_exn + bool" where
  "relay_ready env =
    (if \<not> (environ_flag env ''OPENAI_API_KEY'' \<and> environ_flag env ''OPENAI_API_BASE'') then Inr False
     else case bindE (gpt_relay_base_url env) (\<lambda>_. gpt_relay_protocol env) of
       Inr _ \<Rightarrow> Inr True
     | Inl (Model_error _) \<Rightarrow> Inr False
     | Inl e \<Rightarrow> Inl e)"

definition model_provider_catalog :: "gateway_env \<Rightarrow> gateway_exn + model_provider_info list" where
  "model_provider_catalog env =
    bindE (relay_ready env) (\<lambda>ready.
    bindE (gpt_relay_protocol env) (\<lambda>protocol.
    let allowed = real_model_calls_allowed env; openai = official_openai_api_key env \<noteq> None;
        relay = environ_flag env ''OPENAI_API_KEY'' \<and> environ_flag env ''OPENAI_API_BASE'' in
    Inr
     [\<lparr>pi_name = ''mock'', pi_adapter = ''mock'', pi_enabled = True, pi_real_calls = False,
       pi_real_calls_configured = False, pi_requires_credentials = False,
       pi_description = ''Deterministic mocked adapter used for local development and tests.'',
       pi_protocol = ''unknown''\<rparr>,
      real_info ''openai'' ''openai_compatible'' (allowed \<and> openai) openai
        (''Official OpenAI adapter is available when OPENAI_OFFICIAL_API_KEY is set, ''
         @ ''an agent explicitly opts in, and real calls are explicitly enabled.'') ''responses'',
      real_info ''gpt_relay''
        (if protocol = ''chat_completions'' then ''openai_compatible_chat'' else ''openai_compatible'')
        (allowed \<and> ready) relay
        (''Direct GPT relay adapter uses OPENAI_API_KEY and OPENAI_API_BASE without ''
         @ ''starting the local LiteLLM process.'') protocol,
      stub_info ''anthropic'' True ''Anthropic adapter skeleton only; API keys and real calls are not wired.'',
      real_info ''deepseek'' ''openai_compatible_chat'' (allowed \<and> environ_flag env ''DEEPSEEK_API_KEY'')
        (environ_flag env ''DEEPSEEK_API_KEY'')
        (''DeepSeek adapter uses the OpenAI-compatible API only when DEEPSEEK_API_KEY is set ''
         @ ''and an agent explicitly opts in.'') ''chat_completions'',
      real_info ''litellm_proxy'' ''openai_compatible_chat'' (allowed \<and> environ_flag env ''LITELLM_API_KEY'')
        (environ_flag env ''LITELLM_API_KEY'')
        (''LiteLLM Proxy adapter uses an OpenAI-compatible gateway at LITELLM_BASE_URL ''
         @ ''and requires LITELLM_API_KEY plus explicit real-call opt-in.'') ''chat_completions'',
      stub_info ''local'' False ''Local model adapter skeleton only; local endpoints are not wired.'']))"

definition provider_ready :: "gateway_env \<Rightarrow> string \<Rightarrow> gateway_exn + bool" where
  "provider_ready env provider = (case map_of (ge_adapters env) provider of
     None \<Rightarrow> Inr False
   | Some Provider_stub \<Rightarrow> Inr False
   | Some Openai_compatible \<Rightarrow>
       bindE (model_provider_catalog env) (\<lambda>catalog. Inr (case find (\<lambda>i. pi_name i = provider) catalog of
         None \<Rightarrow> True
       | Some i \<Rightarrow> pi_enabled i \<and> (pi_real_calls_configured i \<or> \<not> pi_requires_credentials i)))
   | Some _ \<Rightarrow> Inr True)"

section \<open>What a request asks for\<close>

definition image_block :: "jobj \<Rightarrow> bool" where
  "image_block block \<longleftrightarrow> jget block ''type'' = JStr ''image_ref''"

definition request_contains_image_block :: "model_request \<Rightarrow> bool" where
  "request_contains_image_block q \<longleftrightarrow>
     list_ex (\<lambda>m. case mm_content m of Inl _ \<Rightarrow> False | Inr blocks \<Rightarrow> list_ex image_block blocks) (mq_messages q)"

definition required_model_capabilities :: "model_request \<Rightarrow> jval list" where
  "required_model_capabilities q =
    (let required = (case jget (mq_metadata q) ''required_model_capabilities'' of JList xs \<Rightarrow> xs | _ \<Rightarrow> []) in
     if request_contains_image_block q \<and> JStr ''vision'' \<notin> set required then required @ [JStr ''vision'']
     else required)"

definition request_requirements :: "model_request \<Rightarrow> route_requirements" where
  "request_requirements q = \<lparr>rq_tools = mq_tools q \<noteq> [],
     rq_vision = JStr ''vision'' \<in> set (required_model_capabilities q),
     rq_reasoning = JStr ''reasoning'' \<in> set (required_model_capabilities q),
     rq_web_sidecar = JStr ''web_sidecar'' \<in> set (required_model_capabilities q)\<rparr>"

definition gateway_rejection ::
  "gateway_env \<Rightarrow> string \<Rightarrow> string \<Rightarrow> model_request \<Rightarrow> string \<Rightarrow> string option \<Rightarrow> gateway_exn" where
  "gateway_rejection env message reason q error_class summary = Model_error
     (local_rejection (ge_secret env) message reason (Some (mq_provider q)) (Some (mq_model q)) error_class summary)"

definition capability_rejection :: "gateway_env \<Rightarrow> string \<Rightarrow> model_request \<Rightarrow> gateway_exn" where
  "capability_rejection env message q = gateway_rejection env message ''capability_mismatch'' q
     ''ModelCapabilityError'' (Some ''classification=capability_error;retryable=false'')"

definition known_requirement :: "jval \<Rightarrow> bool" where
  "known_requirement v \<longleftrightarrow> v \<in> {JStr ''tools'', JStr ''vision'', JStr ''reasoning'', JStr ''web_sidecar''}"

definition validate_request_capabilities :: "gateway_env \<Rightarrow> model_request \<Rightarrow> gateway_exn + unit" where
  "validate_request_capabilities env q =
    (let reject = capability_rejection env ''Model route does not satisfy the request capability contract.'' q in
     case jget_or (mq_metadata q) ''required_model_capabilities'' (JList []) of
       JList required \<Rightarrow>
         if \<not> list_all known_requirement required then
           Inl (capability_rejection env ''Model request contains invalid capability requirements.'' q)
         else (case require_capability (ge_capabilities env) (mq_provider q) (mq_model q)
               \<lparr>rq_tools = mq_tools q \<noteq> [] \<or> JStr ''tools'' \<in> set required,
                rq_vision = JStr ''vision'' \<in> set required, rq_reasoning = JStr ''reasoning'' \<in> set required,
                rq_web_sidecar = JStr ''web_sidecar'' \<in> set required\<rparr> of
             Inl _ \<Rightarrow> Inl reject
           | Inr m \<Rightarrow> (case (cm_capability m, mq_max_tokens q) of
               (Some c, Some n) \<Rightarrow> (case mc_max_output_tokens c of
                   Some limit \<Rightarrow> if n > limit then Inl reject else Inr ()
                 | None \<Rightarrow> Inr ())
             | _ \<Rightarrow> Inr ()))
     | _ \<Rightarrow> Inl (capability_rejection env ''Model request contains invalid capability requirements.'' q))"

definition TIMEOUT_MESSAGE :: string where
  "TIMEOUT_MESSAGE = ''Model request timeout_seconds must be a positive finite number.''"

definition validated_positive_timeout :: "gateway_env \<Rightarrow> rat \<Rightarrow> string \<Rightarrow> gateway_exn + rat" where
  "validated_positive_timeout env q message =
    (if q \<le> 0 then Inl (Model_error (local_rejection (ge_secret env) message ''invalid_request'' None None
        ''InvalidModelRequest'' (Some ''classification=provider_error;retryable=false'')))
     else Inr q)"

definition request_timeout :: "gateway_env \<Rightarrow> model_request \<Rightarrow> gateway_exn + rat" where
  "request_timeout env q = (case mq_timeout_seconds q of
     None \<Rightarrow> model_timeout env
   | Some t \<Rightarrow> validated_positive_timeout env t TIMEOUT_MESSAGE)"

end
