(* ===== verification/Agent_Loop.thy ===== *)
theory Agent_Loop imports Tool_Gateway Model_Gateway begin

text \<open>
  \<open>AgentLoopExecutor\<close> of \<open>backend/app/core/agent_loop.py\<close>: a model that calls tools, in at most
  \<open>max_steps\<close> requests, within budgets of time, tokens, cost, tool calls and repetitions. The
  model gateway's \<open>complete\<close> is an argument, its \<open>route_prices\<close> is modelled. \<open>ae_perf_counter k\<close>
  is the \<open>k\<close>-th reading of the clock, in seconds; floating-point numbers are rationals.
\<close>

section \<open>State\<close>

type_synonym model_interaction = "model_request \<times> model_response"

record agent_loop_result =
  ag_text :: string
  ag_interactions :: "model_interaction list"
  ag_tool_call_count :: int
  ag_estimated_cost_usd :: "rat option"
  ag_stop_reason :: string
  ag_budget_exhausted :: bool

record agent_loop_env =
  ae_tools :: tool_gateway
  ae_capabilities :: capability_registry
  ae_complete :: "model_request \<Rightarrow> model_response io"
  ae_on_request_started :: "(model_request \<Rightarrow> unit io) option"
  ae_perf_counter :: "nat \<Rightarrow> rat"
  ae_float :: "string \<Rightarrow> rat option"

text \<open>The local variables of the loop; \<open>lv_signatures\<close> lists the signatures that were counted.\<close>

record loop_vars =
  lv_messages :: "model_message list"
  lv_interactions :: "model_interaction list"
  lv_signatures :: "string list"
  lv_tool_call_count :: int
  lv_total_tokens :: int
  lv_estimated_cost :: "rat option"
  lv_best_text :: string
  lv_force_final :: bool
  lv_forced_stop_reason :: "string option"

section \<open>Prices\<close>

text \<open>\<open>float(value)\<close>; \<open>None\<close> when it raises or is not finite, which ends in the same error.\<close>

fun py_float :: "(string \<Rightarrow> rat option) \<Rightarrow> jval \<Rightarrow> rat option" where
  "py_float f (JInt n) = Some (of_int n)"
| "py_float f (JBool b) = Some (if b then 1 else 0)"
| "py_float f (JFloat q) = Some q"
| "py_float f (JStr s) = f s"
| "py_float f _ = None"

definition model_pricing :: "(string \<Rightarrow> rat option) \<Rightarrow> agent_definition \<Rightarrow> exn + (rat \<times> rat) option" where
  "model_pricing f agent =
    (let i = jget (a_model_settings agent) ''input_usd_per_million'';
         out = jget (a_model_settings agent) ''output_usd_per_million'' in
     if i = JNull \<and> out = JNull then Inr None
     else if i = JNull \<or> out = JNull then
       Inl (AgentLoopError ''Model input/output prices must be configured together.'')
     else case (py_float f i, py_float f out) of
       (Some a, Some b) \<Rightarrow>
         if a < 0 \<or> b < 0 then Inl (AgentLoopError ''Model prices must be non-negative numbers.'')
         else Inr (Some (a, b))
     | _ \<Rightarrow> Inl (AgentLoopError ''Model prices must be non-negative numbers.''))"

definition max_price :: "(model_route_price \<Rightarrow> rat) \<Rightarrow> model_route_price option list \<Rightarrow> rat" where
  "max_price f prices = (case map f (List.map_filter id prices) of [] \<Rightarrow> 0 | x # xs \<Rightarrow> fold max xs x)"

definition cost_bounded_output_tokens ::
  "int \<Rightarrow> rat \<Rightarrow> model_route_price option list \<Rightarrow> int \<Rightarrow> int" where
  "cost_bounded_output_tokens requested remaining_cost prices estimated_input =
    (let input_cost = max_price mp_input_usd_per_million prices * of_int estimated_input / 1000000;
         remaining_output = remaining_cost - input_cost;
         output_price = max_price mp_output_usd_per_million prices in
     if remaining_output \<le> 0 then 0
     else if output_price \<le> 0 then requested
     else min requested (max 0 \<lfloor>remaining_output * 1000000 / output_price\<rfloor>))"

definition selected_response_pricing ::
  "model_response \<Rightarrow> model_route_price option list \<Rightarrow> model_route_price option" where
  "selected_response_pricing r prices =
    (let provider = or_str (mr_selected_provider r) (mr_raw_provider r);
         matching = filter (\<lambda>p. mp_provider p = provider
            \<and> (mr_selected_model r = None \<or> mr_selected_model r = Some (mp_model p))) (List.map_filter id prices) in
     case matching of [p] \<Rightarrow> Some p | _ \<Rightarrow> None)"

section \<open>Usage\<close>

definition counter :: "int option \<Rightarrow> int" where
  "counter v = (case v of None \<Rightarrow> 0 | Some n \<Rightarrow> if n \<ge> 0 then n else 0)"

definition response_tokens :: "(string \<times> int) list \<Rightarrow> int \<Rightarrow> int" where
  "response_tokens usage unknown_charge =
    (let i = map_of usage ''input_tokens''; out = map_of usage ''output_tokens'';
         has_split = (i \<noteq> None \<and> out \<noteq> None); split_total = counter i + counter out;
         known = (if has_split \<and> split_total > 0 then split_total else unknown_charge) in
     case map_of usage ''total_tokens'' of
       Some t \<Rightarrow> if t > 0 then max t (if has_split then split_total else 0) else known
     | None \<Rightarrow> known)"

definition response_cost :: "(string \<times> int) list \<Rightarrow> rat \<times> rat \<Rightarrow> int \<Rightarrow> rat" where
  "response_cost usage pricing token_charge =
    (case (map_of usage ''input_tokens'', map_of usage ''output_tokens'') of
       (Some i, Some out) \<Rightarrow>
         (of_int i * fst pricing + of_int out * snd pricing
           + of_int (max 0 (token_charge - (i + out))) * max (fst pricing) (snd pricing)) / 1000000
     | _ \<Rightarrow> of_int token_charge * max (fst pricing) (snd pricing) / 1000000)"

section \<open>Texts\<close>

definition tool_call_json :: "model_tool_call \<Rightarrow> jval" where
  "tool_call_json c = JObj [(''id'', JStr (tc_id c)), (''name'', JStr (tc_name c)),
     (''arguments'', JObj (tc_arguments c))]"

definition message_json :: "model_message \<Rightarrow> jval" where
  "message_json m = JObj ([(''role'', JStr (mm_role m)),
      (''content'', (case mm_content m of Inl s \<Rightarrow> JStr s | Inr blocks \<Rightarrow> JList (map JObj blocks)))]
     @ (case mm_tool_call_id m of None \<Rightarrow> [] | Some i \<Rightarrow> [(''tool_call_id'', JStr i)])
     @ (if mm_tool_calls m = [] then [] else [(''tool_calls'', JList (map tool_call_json (mm_tool_calls m)))]))"

definition tool_definition_json :: "model_tool_definition \<Rightarrow> jval" where
  "tool_definition_json t = JObj [(''name'', JStr (td_name t)), (''description'', JStr (td_description t)),
     (''input_schema'', JObj (td_input_schema t))]"

definition request_text :: "(rat \<Rightarrow> string) \<Rightarrow> model_request \<Rightarrow> string" where
  "request_text show_float q = compact_json show_float (JObj
     [(''system_prompt'', JStr (mq_system_prompt q)),
      (''messages'', JList (map message_json (mq_messages q))),
      (''tools'', JList (map tool_definition_json (mq_tools q)))])"

definition estimated_request_input_tokens :: "world \<Rightarrow> model_request \<Rightarrow> int" where
  "estimated_request_input_tokens w q =
     max 1 (int (length (w_encode w (request_text (w_show_float w) q)))
       + (64 + 16 * int (length (mq_messages q)) + 16 * int (length (mq_tools q))))"

definition truncation_mark :: string where
  "truncation_mark = ''...[truncated]''"

definition bounded_observation :: "world \<Rightarrow> jval \<Rightarrow> int \<Rightarrow> string" where
  "bounded_observation w v max_chars =
    (let rendered = w_redact w (compact_json (w_show_float w)
            (JObj [(''trust'', JStr ''untrusted_tool_output''), (''observation'', v)])) in
     if int (length rendered) \<le> max_chars then rendered
     else take (nat max_chars) rendered @ truncation_mark)"

definition tool_signature :: "world \<Rightarrow> string \<Rightarrow> jobj \<Rightarrow> string" where
  "tool_signature w name arguments =
     name @ '':'' @ json_text '','' '':'' (sort_key fst) (w_show_float w) (JObj arguments)"

section \<open>Trace\<close>

definition record_stop :: "run \<Rightarrow> workflow_step \<Rightarrow> string \<Rightarrow> nat \<Rightarrow> int \<Rightarrow> bool \<Rightarrow> unit io" where
  "record_stop run step reason model_calls tool_calls budget_exhausted =
    thenM (record_trace (r_id run) WORKFLOW_EVENT
      [(''action'', JStr ''agent_loop_stopped''), (''step_name'', JStr (ws_name step)),
       (''reason'', JStr reason), (''model_calls'', JInt (int model_calls)),
       (''tool_calls'', JInt tool_calls), (''budget_exhausted'', JBool budget_exhausted)] None None)
    (returnM ())"

definition interaction_agent_run :: "tool_env \<Rightarrow> model_request \<Rightarrow> string option" where
  "interaction_agent_run env q = (let v = jget (mq_metadata q) ''agent_run_id'' in
     if jtruthy v then Some (py_str env v) else None)"

definition record_interaction ::
  "agent_loop_env \<Rightarrow> run \<Rightarrow> model_request \<Rightarrow> model_response \<Rightarrow> unit io" where
  "record_interaction env run q r =
    (let tools_env = tg_env (ae_tools env); md = mq_metadata q; agent_run = interaction_agent_run tools_env q in
     thenM (record_trace (r_id run) MODEL_ACTION
       ([(''action'', JStr ''model_request''), (''provider'', JStr (mq_provider q)), (''model'', JStr (mq_model q)),
         (''agent_id'', jget md ''agent_id''), (''step_name'', jget md ''step_name''),
         (''agent_loop_step'', jget md ''agent_loop_step'')]
        @ reasoning_effort_trace_payload (te_environ tools_env) q
        @ [(''tools_allowed'', jstr_list (map td_name (mq_tools q))), (''context_keys'', context_keys_of md)])
       agent_run None)
    (thenM (record_trace (r_id run) MODEL_ACTION
       [(''action'', JStr ''model_response''),
        (''provider'', JStr (or_str (mr_selected_provider r) (mr_raw_provider r))),
        (''model'', JStr (or_str (mr_selected_model r) (mq_model q))),
        (''agent_id'', jget md ''agent_id''), (''step_name'', jget md ''step_name''),
        (''agent_loop_step'', jget md ''agent_loop_step''), (''adapter'', JStr (mr_adapter r)),
        (''mocked'', JBool (mr_mocked r)), (''usage'', JObj (map (\<lambda>(k, n). (k, JInt n)) (mr_usage r))),
        (''latency_ms'', JInt (mr_latency_ms r)), (''finish_reason'', JStr (mr_finish_reason r)),
        (''output_length'', JInt (int (length (mr_text r)))),
        (''tool_call_count'', JInt (int (length (mr_tool_calls r)))),
        (''route_receipt'', JList (map JObj (mr_route_receipt r)))]
       agent_run (Some (mr_latency_ms r)))
    (returnM ())))"

section \<open>Ending the loop\<close>

definition loop_completed :: "run \<Rightarrow> workflow_step \<Rightarrow> loop_vars \<Rightarrow> string \<Rightarrow> agent_loop_result io" where
  "loop_completed run step v text =
    thenM (record_stop run step ''finished'' (length (lv_interactions v)) (lv_tool_call_count v) False)
    (returnM \<lparr>ag_text = text, ag_interactions = lv_interactions v, ag_tool_call_count = lv_tool_call_count v,
       ag_estimated_cost_usd = lv_estimated_cost v, ag_stop_reason = ''finished'', ag_budget_exhausted = False\<rparr>)"

definition spaced :: "string \<Rightarrow> string" where
  "spaced = map (\<lambda>c. if c = CHR ''_'' then CHR '' '' else c)"

definition loop_stopped :: "run \<Rightarrow> workflow_step \<Rightarrow> loop_vars \<Rightarrow> string \<Rightarrow> string \<Rightarrow> agent_loop_result io" where
  "loop_stopped run step v best_text reason =
    thenM (guardM (strip best_text \<noteq> [])
      (AgentLoopError (''Agent loop exhausted the '' @ spaced reason @ '' without a usable result.'')))
    (thenM (record_stop run step reason (length (lv_interactions v)) (lv_tool_call_count v) True)
    (returnM \<lparr>ag_text = best_text, ag_interactions = lv_interactions v, ag_tool_call_count = lv_tool_call_count v,
       ag_estimated_cost_usd = lv_estimated_cost v, ag_stop_reason = reason, ag_budget_exhausted = True\<rparr>))"

section \<open>A turn\<close>

text \<open>What stays the same over the loop.\<close>

record loop_frame =
  lf_run :: run
  lf_step :: workflow_step
  lf_policy :: agent_loop_policy
  lf_request :: model_request
  lf_prices :: "model_route_price option list"
  lf_tool_specs :: "model_tool_definition list"
  lf_context :: tool_context
  lf_deadline :: rat

definition turn_tools :: "loop_frame \<Rightarrow> nat \<Rightarrow> loop_vars \<Rightarrow> model_tool_definition list" where
  "turn_tools f i v = (if \<not> lv_force_final v \<and> int i < al_max_steps (lf_policy f) - 1 then lf_tool_specs f else [])"

definition budget_request :: "loop_frame \<Rightarrow> nat \<Rightarrow> loop_vars \<Rightarrow> model_request" where
  "budget_request f i v = (lf_request f)\<lparr>mq_messages := lv_messages v, mq_tools := turn_tools f i v\<rparr>"

text \<open>The request of a turn, or the budget that is spent. \<open>estimated\<close> are the input tokens.\<close>

definition turn_request :: "loop_frame \<Rightarrow> nat \<Rightarrow> loop_vars \<Rightarrow> rat \<Rightarrow> int \<Rightarrow> string + model_request" where
  "turn_request f i v remaining_seconds estimated =
    (let p = lf_policy f; remaining_tokens = al_max_total_tokens p - lv_total_tokens v;
         available = remaining_tokens - estimated;
         capped = (case mq_max_tokens (lf_request f) of None \<Rightarrow> available | Some m \<Rightarrow> min m available);
         costed = (case (al_max_cost_usd p, lv_estimated_cost v) of
             (Some limit, Some spent) \<Rightarrow>
               Some (cost_bounded_output_tokens capped (max 0 (limit - spent)) (lf_prices f) estimated)
           | _ \<Rightarrow> None);
         issue = (\<lambda>n. Inr ((budget_request f i v)\<lparr>mq_max_tokens := Some n,
             mq_timeout_seconds := Some remaining_seconds,
             mq_metadata := jput ''agent_loop_step'' (JInt (int i + 1)) (mq_metadata (lf_request f))\<rparr>)) in
     if remaining_seconds \<le> 0 then Inl ''timeout_budget''
     else if remaining_tokens \<le> 0 then Inl ''token_budget''
     else if available \<le> 0 then Inl ''token_budget''
     else case costed of
       None \<Rightarrow> issue capped
     | Some n \<Rightarrow> if n \<le> 0 then Inl ''cost_budget'' else issue n)"

definition account_response ::
  "loop_frame \<Rightarrow> loop_vars \<Rightarrow> model_request \<Rightarrow> model_response \<Rightarrow> exn + loop_vars" where
  "account_response f v q r =
    (let charge = response_tokens (mr_usage r) (al_max_total_tokens (lf_policy f) - lv_total_tokens v);
         v' = v\<lparr>lv_total_tokens := lv_total_tokens v + charge\<rparr>;
         best = (\<lambda>x. if strip (mr_text r) \<noteq> [] then x\<lparr>lv_best_text := mr_text r\<rparr> else x) in
     case lv_estimated_cost v of
       None \<Rightarrow> Inr (best v')
     | Some spent \<Rightarrow> (case selected_response_pricing r (lf_prices f) of
         None \<Rightarrow> Inl (AgentLoopError ''Selected model route has no reliable price for cost accounting.'')
       | Some p \<Rightarrow> Inr (best (v'\<lparr>lv_estimated_cost := Some (spent
           + response_cost (mr_usage r) (mp_input_usd_per_million p, mp_output_usd_per_million p) charge)\<rparr>))))"

text \<open>Which budget the response has used up, if any.\<close>

definition spent_budget :: "loop_frame \<Rightarrow> loop_vars \<Rightarrow> rat \<Rightarrow> string option" where
  "spent_budget f v now =
    (if now \<ge> lf_deadline f then Some ''timeout_budget''
     else if lv_total_tokens v \<ge> al_max_total_tokens (lf_policy f) then Some ''token_budget''
     else case (al_max_cost_usd (lf_policy f), lv_estimated_cost v) of
       (Some limit, Some spent) \<Rightarrow> if spent \<ge> limit then Some ''cost_budget'' else None
     | _ \<Rightarrow> None)"

definition error_observation :: "string \<Rightarrow> jval" where
  "error_observation m = JObj [(''error'', JStr m)]"

datatype call_decision = Execute_call | Refuse_call string "string option"

text \<open>What happens to a tool call, with the reason that it forces the loop to stop for.\<close>

definition decide_call :: "agent_loop_policy \<Rightarrow> loop_vars \<Rightarrow> string \<Rightarrow> call_decision" where
  "decide_call p v signature =
    (if lv_forced_stop_reason v \<noteq> None then Refuse_call ''agent_loop_budget_exhausted'' None
     else if lv_tool_call_count v > al_max_tool_calls p then
       Refuse_call ''tool_call_budget_exhausted'' (Some ''tool_call_budget'')
     else if int (count_list (lv_signatures v) signature) > al_max_repeated_tool_calls p then
       Refuse_call ''repeated_tool_call_blocked'' (Some ''repetition_budget'')
     else Execute_call)"

definition execute_tool_call :: "agent_loop_env \<Rightarrow> tool_context \<Rightarrow> model_tool_call \<Rightarrow> jval io" where
  "execute_tool_call env ctx c =
    catch_if is_tool_gateway_error
      (bindM (call_tool (ae_tools env) ctx (tc_name c) (JObj (tc_arguments c))) (\<lambda>d. returnM (JObj d)))
      (\<lambda>e. bindM (getsM (\<lambda>w. w_redact w (exn_str e))) (\<lambda>m.
        returnM (JObj [(''error'', JStr (exn_class e)), (''message'', JStr m)])))"

definition counted_call :: "string \<Rightarrow> loop_vars \<Rightarrow> loop_vars" where
  "counted_call signature v = v\<lparr>lv_tool_call_count := lv_tool_call_count v + 1,
     lv_signatures := lv_signatures v @ [signature]\<rparr>"

definition forced_stop :: "string option \<Rightarrow> loop_vars \<Rightarrow> loop_vars" where
  "forced_stop reason v = (case reason of None \<Rightarrow> v
     | Some _ \<Rightarrow> v\<lparr>lv_force_final := True, lv_forced_stop_reason := reason\<rparr>)"

definition observe :: "agent_loop_policy \<Rightarrow> model_tool_call \<Rightarrow> loop_vars \<Rightarrow> jval \<Rightarrow> loop_vars io" where
  "observe p c v observation =
    bindM (getsM (\<lambda>w. bounded_observation w observation (al_max_observation_chars p))) (\<lambda>content.
    returnM (v\<lparr>lv_messages := lv_messages v @ [\<lparr>mm_role = ''tool'', mm_content = Inl content,
      mm_tool_call_id = Some (tc_id c), mm_tool_calls = []\<rparr>]\<rparr>))"

definition answer_tool_call ::
  "agent_loop_env \<Rightarrow> loop_frame \<Rightarrow> model_tool_call \<Rightarrow> loop_vars \<Rightarrow> loop_vars io" where
  "answer_tool_call env f c v0 =
    bindM (getsM (\<lambda>w. tool_signature w (tc_name c) (tc_arguments c))) (\<lambda>signature.
    let v = counted_call signature v0 in
    case decide_call (lf_policy f) v signature of
      Execute_call \<Rightarrow> bindM (execute_tool_call env (lf_context f) c) (observe (lf_policy f) c v)
    | Refuse_call m reason \<Rightarrow> observe (lf_policy f) c (forced_stop reason v) (error_observation m))"

primrec answer_tool_calls ::
  "agent_loop_env \<Rightarrow> loop_frame \<Rightarrow> model_tool_call list \<Rightarrow> loop_vars \<Rightarrow> loop_vars io" where
  "answer_tool_calls env f [] v = returnM v"
| "answer_tool_calls env f (c # cs) v =
     bindM (answer_tool_call env f c v) (answer_tool_calls env f cs)"

definition assistant_message :: "model_response \<Rightarrow> model_message" where
  "assistant_message r = \<lparr>mm_role = ''assistant'', mm_content = Inl (mr_text r), mm_tool_call_id = None,
     mm_tool_calls = mr_tool_calls r\<rparr>"

text \<open>The rest of a turn once the response is accounted for: a result, or the next turn.\<close>

definition follow_response ::
  "agent_loop_env \<Rightarrow> loop_frame \<Rightarrow> nat \<Rightarrow> model_tool_definition list \<Rightarrow> model_response \<Rightarrow> loop_vars
    \<Rightarrow> (agent_loop_result + loop_vars) io" where
  "follow_response env f i tools r v =
    (if mr_tool_calls r = [] then
       thenM (guardM (strip (mr_text r) \<noteq> []) (AgentLoopError ''Agent loop returned neither text nor tool calls.''))
       (bindM (case lv_forced_stop_reason v of
           Some reason \<Rightarrow> loop_stopped (lf_run f) (lf_step f) v (mr_text r) reason
         | None \<Rightarrow> loop_completed (lf_run f) (lf_step f) v (mr_text r)) (\<lambda>x. returnM (Inl x)))
     else
       thenM (guardM (tools \<noteq> [])
         (AgentLoopError ''Model requested tools after the loop entered finalization mode.''))
       (bindM (answer_tool_calls env f (mr_tool_calls r)
           (v\<lparr>lv_messages := lv_messages v @ [assistant_message r]\<rparr>)) (\<lambda>v'.
        returnM (Inr (if int i \<ge> al_max_steps (lf_policy f) - 2 then v'\<lparr>lv_force_final := True\<rparr> else v')))))"

text \<open>The clock is read for the \<open>i\<close>-th turn when it starts and when its response is there.\<close>

definition loop_turn ::
  "agent_loop_env \<Rightarrow> loop_frame \<Rightarrow> nat \<Rightarrow> loop_vars \<Rightarrow> (agent_loop_result + loop_vars) io" where
  "loop_turn env f i v =
    (let stop = (\<lambda>v reason. bindM (loop_stopped (lf_run f) (lf_step f) v (lv_best_text v) reason)
           (\<lambda>x. returnM (Inl x))) in
     bindM (getsM (\<lambda>w. estimated_request_input_tokens w (budget_request f i v))) (\<lambda>estimated.
     case turn_request f i v (lf_deadline f - ae_perf_counter env (2 * i + 1)) estimated of
       Inl reason \<Rightarrow> stop v reason
     | Inr q \<Rightarrow>
        thenM (case ae_on_request_started env of None \<Rightarrow> returnM () | Some h \<Rightarrow> h q)
        (bindM (ae_complete env q) (\<lambda>r.
         let v1 = v\<lparr>lv_interactions := lv_interactions v @ [(q, r)]\<rparr> in
         thenM (record_interaction env (lf_run f) q r)
         (bindM (liftE (account_response f v1 q r)) (\<lambda>v2.
          case spent_budget f v2 (ae_perf_counter env (2 * i + 2)) of
            Some reason \<Rightarrow> stop v2 reason
          | None \<Rightarrow> follow_response env f i (turn_tools f i v) r v2))))))"

text \<open>\<open>n\<close> turns are left.\<close>

primrec loop_turns :: "agent_loop_env \<Rightarrow> loop_frame \<Rightarrow> nat \<Rightarrow> nat \<Rightarrow> loop_vars \<Rightarrow> agent_loop_result io" where
  "loop_turns env f 0 i v = loop_stopped (lf_run f) (lf_step f) v (lv_best_text v) ''step_budget''"
| "loop_turns env f (Suc n) i v =
     bindM (loop_turn env f i v) (\<lambda>x. case x of
       Inl result \<Rightarrow> returnM result
     | Inr v' \<Rightarrow> loop_turns env f n (Suc i) v')"

section \<open>The executor\<close>

definition loop_context :: "tool_env \<Rightarrow> run \<Rightarrow> workflow_step \<Rightarrow> agent_definition \<Rightarrow> model_request \<Rightarrow> tool_context" where
  "loop_context env run step agent q =
    (let v = jget (mq_metadata q) ''agent_run_id'' in
     \<lparr>tx_run_id = r_id run, tx_agent_run_id = (if jtruthy v then py_str env v else ''unknown''),
      tx_agent = agent, tx_allowed_tools = ws_allowed_tools step,
      tx_real_web_access_confirmed = r_real_web_access_confirmed run,
      tx_confirmed_real_web_tools = r_confirmed_real_web_tools run,
      tx_confirmed_real_web_tool_routes =
        map_option (map route_identity) (r_confirmed_real_web_tool_routes run),
      tx_enforce_side_effect_approval = True,
      tx_approved_side_effect_tools = r_approved_side_effect_tools run\<rparr>)"

definition initial_vars :: "model_request \<Rightarrow> model_route_price option list \<Rightarrow> loop_vars" where
  "initial_vars q prices = \<lparr>lv_messages = mq_messages q, lv_interactions = [], lv_signatures = [],
     lv_tool_call_count = 0, lv_total_tokens = 0,
     lv_estimated_cost = (if None \<in> set prices then None else Some 0),
     lv_best_text = [], lv_force_final = False, lv_forced_stop_reason = None\<rparr>"

definition priced_request :: "(rat \<times> rat) option \<Rightarrow> model_request \<Rightarrow> model_request" where
  "priced_request pricing q = (case (mq_input_usd_per_million q, pricing) of
     (None, Some (i, out)) \<Rightarrow> q\<lparr>mq_input_usd_per_million := Some i, mq_output_usd_per_million := Some out\<rparr>
   | _ \<Rightarrow> q)"

definition prepare_loop ::
  "agent_loop_env \<Rightarrow> run \<Rightarrow> workflow_step \<Rightarrow> agent_definition \<Rightarrow> model_request \<Rightarrow> exn + loop_frame" where
  "prepare_loop env run step agent q0 =
    (let policy = ws_agent_loop step;
         allowed = filter (\<lambda>t. t \<in> set (a_tool_permissions agent)) (ws_allowed_tools step) in
     bindE (guardE (al_enabled policy) (AgentLoopError ''Agent loop is not enabled for this workflow step.'')) (\<lambda>_.
     bindE (guardE (allowed \<noteq> []) (AgentLoopError ''Agent loop has no tools allowed by both the step and agent.'')) (\<lambda>_.
     bindE (model_tool_specs (ae_tools env) allowed) (\<lambda>specs.
     bindE (model_pricing (ae_float env) agent) (\<lambda>pricing.
     let q = priced_request pricing q0 in
     bindE (route_prices (ae_capabilities env) q) (\<lambda>prices.
     bindE (guardE (al_max_cost_usd policy = None \<or> None \<notin> set prices) (AgentLoopError
        ''Agent loop cost budget requires a known input/output price for every route candidate.'')) (\<lambda>_.
     Inr \<lparr>lf_run = run, lf_step = step, lf_policy = policy, lf_request = q, lf_prices = prices,
       lf_tool_specs = specs, lf_context = loop_context (tg_env (ae_tools env)) run step agent q,
       lf_deadline = ae_perf_counter env 0 + al_timeout_seconds policy\<rparr>)))))))"

definition execute_agent_loop ::
  "agent_loop_env \<Rightarrow> run \<Rightarrow> workflow_step \<Rightarrow> agent_definition \<Rightarrow> model_request \<Rightarrow> agent_loop_result io" where
  "execute_agent_loop env run step agent q =
    bindM (liftE (prepare_loop env run step agent q)) (\<lambda>f.
    loop_turns env f (nat (al_max_steps (lf_policy f))) 0 (initial_vars (lf_request f) (lf_prices f)))"

end
