(* ===== verification/Agent_Loop_Guarantees.thy ===== *)
theory Agent_Loop_Guarantees imports Agent_Loop begin

text \<open>
  The budgets of the agent loop: what every request, observation and result of the loop
  respects, whatever the model and the tools answer.
\<close>

section \<open>Budgets\<close>

text \<open>
  \<open>fits_tokens p n q\<close>: after responses that were charged \<open>n\<close> tokens, the least that the input of
  the request counts for and the output it may ask for are within the token budget.
\<close>

definition fits_tokens :: "agent_loop_policy \<Rightarrow> int \<Rightarrow> model_request \<Rightarrow> bool" where
  "fits_tokens p n q \<longleftrightarrow> (case mq_max_tokens q of None \<Rightarrow> False
     | Some m \<Rightarrow> n + (64 + 16 * int (length (mq_messages q)) + 16 * int (length (mq_tools q))) + m
                 \<le> al_max_total_tokens p)"

text \<open>The charge of each response follows the budget that was left when its request was made.\<close>

definition charge_of :: "agent_loop_policy \<Rightarrow> int \<Rightarrow> model_response \<Rightarrow> int" where
  "charge_of p n r = response_tokens (mr_usage r) (al_max_total_tokens p - n)"

primrec charged :: "agent_loop_policy \<Rightarrow> int \<Rightarrow> model_interaction list \<Rightarrow> int" where
  "charged p n [] = n"
| "charged p n (x # xs) = charged p (n + charge_of p n (snd x)) xs"

primrec within_tokens :: "agent_loop_policy \<Rightarrow> int \<Rightarrow> model_interaction list \<Rightarrow> bool" where
  "within_tokens p n [] = True"
| "within_tokens p n (x # xs) = (fits_tokens p n (fst x) \<and> within_tokens p (n + charge_of p n (snd x)) xs)"

lemma charged_append [simp]: "charged p n (xs @ ys) = charged p (charged p n xs) ys"
  by (induction xs arbitrary: n) simp_all

lemma within_tokens_append [simp]:
  "within_tokens p n (xs @ ys) \<longleftrightarrow> within_tokens p n xs \<and> within_tokens p (charged p n xs) ys"
  by (induction xs arbitrary: n) auto

text \<open>The observations that were added to the messages of the first request.\<close>

definition short_observation :: "agent_loop_policy \<Rightarrow> model_message \<Rightarrow> bool" where
  "short_observation p m \<longleftrightarrow> mm_role m \<noteq> ''tool''
     \<or> (case mm_content m of Inl s \<Rightarrow>
          int (length s) \<le> max 0 (al_max_observation_chars p) + int (length truncation_mark) | Inr _ \<Rightarrow> False)"

definition extends_messages :: "agent_loop_policy \<Rightarrow> model_message list \<Rightarrow> model_message list \<Rightarrow> bool" where
  "extends_messages p ms ms' \<longleftrightarrow> (\<exists>extra. ms' = ms @ extra \<and> list_all (short_observation p) extra)"

lemma extends_messages_refl [simp]: "extends_messages p ms ms"
  by (simp add: extends_messages_def)

lemma extends_messages_snoc:
  "extends_messages p ms ms' \<Longrightarrow> short_observation p m \<Longrightarrow> extends_messages p ms (ms' @ [m])"
  by (auto simp: extends_messages_def)

lemma bounded_observation_length:
  "int (length (bounded_observation w v n)) \<le> max 0 n + int (length truncation_mark)"
  by (auto simp: bounded_observation_def Let_def)

section \<open>One request\<close>

lemma estimate_lower:
  "64 + 16 * int (length (mq_messages q)) + 16 * int (length (mq_tools q)) \<le> estimated_request_input_tokens w q"
  by (simp add: estimated_request_input_tokens_def)

lemma cost_bounded_le: "cost_bounded_output_tokens n c prices e \<le> max 0 n"
  by (auto simp: cost_bounded_output_tokens_def Let_def)

lemma turn_request_fits:
  assumes t: "turn_request f i v s e = Inr q"
    and e: "64 + 16 * int (length (mq_messages (budget_request f i v)))
      + 16 * int (length (mq_tools (budget_request f i v))) \<le> e"
  shows "fits_tokens (lf_policy f) (lv_total_tokens v) q"
    and "mq_messages q = lv_messages v" and "mq_tools q = turn_tools f i v"
proof -
  let ?available = "al_max_total_tokens (lf_policy f) - lv_total_tokens v - e"
  let ?capped = "case mq_max_tokens (lf_request f) of None \<Rightarrow> ?available | Some m \<Rightarrow> min m ?available"
  obtain n where n: "mq_max_tokens q = Some n" "n \<le> max 0 ?capped \<or> n = ?capped" "?available > 0"
    "mq_messages q = lv_messages v" "mq_tools q = turn_tools f i v"
    using t cost_bounded_le [of ?capped]
    by (auto simp: turn_request_def Let_def budget_request_def split: if_splits option.splits)
  have "?capped \<le> ?available" by (simp split: option.split)
  with n(2,3) have "n \<le> ?available" by linarith
  with n e show "fits_tokens (lf_policy f) (lv_total_tokens v) q"
    by (simp add: fits_tokens_def budget_request_def)
  show "mq_messages q = lv_messages v" "mq_tools q = turn_tools f i v" by fact+
qed

text \<open>
  With a cost budget, the worst case of the request (its estimated input and all of its output
  at any of the route's prices) is within what is left of the budget.
\<close>

lemma fold_max_start: "y \<le> fold max xs (y :: rat)"
  by (induction xs arbitrary: y) (auto intro: order_trans [OF max.cobounded2])

lemma fold_max_ge: "x \<in> set xs \<Longrightarrow> x \<le> fold max xs (y :: rat)"
proof (induction xs arbitrary: y)
  case (Cons a xs)
  have "a \<le> fold max xs (max a y)" using order_trans [OF max.cobounded1 fold_max_start] .
  with Cons show ?case by auto
qed simp

lemma max_price_ge:
  assumes "Some p \<in> set prices" shows "f p \<le> max_price f prices"
proof -
  have "f p \<in> set (map f (List.map_filter id prices))"
    using assms by (auto simp: map_filter_def image_iff)
  then show ?thesis
    using fold_max_ge fold_max_start by (auto simp: max_price_def split: list.split)
qed

lemma cost_bounded_worst_case:
  assumes m: "cost_bounded_output_tokens n left prices e = m" "0 < m"
    and p: "Some p \<in> set prices" and pos: "0 \<le> e"
  shows "(mp_input_usd_per_million p * of_int e + mp_output_usd_per_million p * of_int m) / 1000000 \<le> left"
proof -
  let ?i = "max_price mp_input_usd_per_million prices" and ?o = "max_price mp_output_usd_per_million prices"
  let ?rest = "left - ?i * of_int e / 1000000"
  have i: "mp_input_usd_per_million p * of_int e \<le> ?i * of_int e"
    using max_price_ge [OF p] pos by (simp add: mult_right_mono)
  have rest: "0 < ?rest" using m by (auto simp: cost_bounded_output_tokens_def Let_def split: if_splits)
  have "mp_output_usd_per_million p * of_int m \<le> ?rest * 1000000"
  proof (cases "?o \<le> 0")
    case True
    then have "mp_output_usd_per_million p \<le> 0"
      using max_price_ge [OF p, of mp_output_usd_per_million] by linarith
    then have "mp_output_usd_per_million p * of_int m \<le> 0"
      using m(2) by (simp add: mult_nonpos_nonneg)
    moreover have "0 \<le> ?rest * 1000000" using rest by simp
    ultimately show ?thesis by (rule order_trans)
  next
    case False
    have "m \<le> \<lfloor>?rest * 1000000 / ?o\<rfloor>"
      using m False rest by (auto simp: cost_bounded_output_tokens_def Let_def split: if_splits)
    then have "of_int m \<le> ?rest * 1000000 / ?o" by (simp add: le_floor_iff)
    then have "?o * of_int m \<le> ?rest * 1000000"
      using False by (simp add: field_simps)
    moreover have "mp_output_usd_per_million p * of_int m \<le> ?o * of_int m"
      using max_price_ge [OF p] m(2) by (simp add: mult_right_mono)
    ultimately show ?thesis by linarith
  qed
  with i show ?thesis by (simp add: field_simps)
qed

text \<open>A tool call that runs is one of the allowed number, in total and for its arguments.\<close>

lemma executed_call_in_budget:
  "decide_call p v signature = Execute_call \<longleftrightarrow> lv_forced_stop_reason v = None
     \<and> lv_tool_call_count v \<le> al_max_tool_calls p
     \<and> int (count_list (lv_signatures v) signature) \<le> al_max_repeated_tool_calls p"
  by (auto simp: decide_call_def)

section \<open>The loop\<close>

definition loop_inv :: "loop_frame \<Rightarrow> nat \<Rightarrow> loop_vars \<Rightarrow> bool" where
  "loop_inv f i v \<longleftrightarrow> length (lv_interactions v) = i
     \<and> lv_total_tokens v = charged (lf_policy f) 0 (lv_interactions v)
     \<and> within_tokens (lf_policy f) 0 (lv_interactions v)
     \<and> list_all (\<lambda>x. extends_messages (lf_policy f) (mq_messages (lf_request f)) (mq_messages (fst x)))
         (lv_interactions v)
     \<and> extends_messages (lf_policy f) (mq_messages (lf_request f)) (lv_messages v)
     \<and> lv_forced_stop_reason v \<noteq> Some ''finished''"

definition result_ok :: "loop_frame \<Rightarrow> nat \<Rightarrow> agent_loop_result \<Rightarrow> bool" where
  "result_ok f n r \<longleftrightarrow> length (ag_interactions r) \<le> n \<and> strip (ag_text r) \<noteq> []
     \<and> ag_budget_exhausted r = (ag_stop_reason r \<noteq> ''finished'')
     \<and> within_tokens (lf_policy f) 0 (ag_interactions r)
     \<and> list_all (\<lambda>x. extends_messages (lf_policy f) (mq_messages (lf_request f)) (mq_messages (fst x)))
         (ag_interactions r)"

lemma loop_stopped_ok:
  assumes "loop_stopped run step v text reason w = (Inr r, w')" "loop_inv f i v" "reason \<noteq> ''finished''"
  shows "result_ok f i r"
  using assms by (auto simp: loop_stopped_def returns_iff result_ok_def loop_inv_def)

lemma loop_completed_ok:
  assumes "loop_completed run step v text w = (Inr r, w')" "loop_inv f i v" "strip text \<noteq> []"
  shows "result_ok f i r"
  using assms by (auto simp: loop_completed_def returns_iff result_ok_def loop_inv_def)

text \<open>What answering a tool call changes.\<close>

definition same_account :: "loop_vars \<Rightarrow> loop_vars \<Rightarrow> bool" where
  "same_account v v' \<longleftrightarrow> lv_interactions v' = lv_interactions v \<and> lv_total_tokens v' = lv_total_tokens v"

lemma observe_ok:
  assumes "observe (lf_policy f) c v x w = (Inr v', w')" "loop_inv f i v"
  shows "loop_inv f i v'"
  using assms by (auto simp: observe_def returns_iff loop_inv_def intro!: extends_messages_snoc
      simp: short_observation_def bounded_observation_length)

lemma loop_inv_counted [simp]: "loop_inv f i (counted_call s v) = loop_inv f i v"
  by (simp add: loop_inv_def counted_call_def)

lemma decide_call_reason: "decide_call p v s = Refuse_call m reason \<Longrightarrow> reason \<noteq> Some ''finished''"
  by (auto simp: decide_call_def split: if_splits)

lemma loop_inv_forced:
  "loop_inv f i v \<Longrightarrow> reason \<noteq> Some ''finished'' \<Longrightarrow> loop_inv f i (forced_stop reason v)"
  by (auto simp: loop_inv_def forced_stop_def split: option.split)

lemma answer_tool_call_ok:
  assumes a: "answer_tool_call env f c v w = (Inr v', w')" and inv: "loop_inv f i v"
  shows "loop_inv f i v'"
proof -
  let ?s = "tool_signature w (tc_name c) (tc_arguments c)"
  have inv': "loop_inv f i (counted_call ?s v)" using inv by simp
  show ?thesis
  proof (cases "decide_call (lf_policy f) (counted_call ?s v) ?s")
    case Execute_call
    then obtain x w1 where "observe (lf_policy f) c (counted_call ?s v) x w1 = (Inr v', w')"
      using a by (auto simp: answer_tool_call_def returns_iff Let_def)
    from observe_ok [OF this inv'] show ?thesis .
  next
    case (Refuse_call m reason)
    then have "observe (lf_policy f) c (forced_stop reason (counted_call ?s v)) (error_observation m) w = (Inr v', w')"
      using a by (auto simp: answer_tool_call_def returns_iff Let_def)
    from observe_ok [OF this loop_inv_forced [OF inv' decide_call_reason [OF Refuse_call]]] show ?thesis .
  qed
qed

lemma answer_tool_calls_ok:
  "answer_tool_calls env f cs v w = (Inr v', w') \<Longrightarrow> loop_inv f i v \<Longrightarrow> loop_inv f i v'"
  by (induction cs arbitrary: v w) (auto simp: returns_iff dest: answer_tool_call_ok)

lemma follow_response_ok:
  assumes a: "follow_response env f j tools r v w = (Inr x, w')" and inv: "loop_inv f i v"
  shows "case x of Inl res \<Rightarrow> result_ok f i res | Inr v' \<Rightarrow> loop_inv f i v'"
proof (cases "mr_tool_calls r = []")
  case True
  show ?thesis
  proof (cases "lv_forced_stop_reason v")
    case None
    then obtain res w1 where "loop_completed (lf_run f) (lf_step f) v (mr_text r) w1 = (Inr res, w')"
      "x = Inl res" "strip (mr_text r) \<noteq> []"
      using a True by (auto simp: follow_response_def returns_iff)
    then show ?thesis using loop_completed_ok [OF _ inv] by auto
  next
    case (Some reason)
    then obtain res w1 where "loop_stopped (lf_run f) (lf_step f) v (mr_text r) reason w1 = (Inr res, w')" "x = Inl res"
      using a True by (auto simp: follow_response_def returns_iff)
    then show ?thesis using loop_stopped_ok [OF _ inv, of _ _ _ reason] inv Some by (auto simp: loop_inv_def)
  qed
next
  case False
  let ?v = "v\<lparr>lv_messages := lv_messages v @ [assistant_message r]\<rparr>"
  obtain v1 w1 where v1: "answer_tool_calls env f (mr_tool_calls r) ?v w1 = (Inr v1, w')"
    and x: "x = Inr (if int j \<ge> al_max_steps (lf_policy f) - 2 then v1\<lparr>lv_force_final := True\<rparr> else v1)"
    using a False by (auto simp: follow_response_def returns_iff)
  have "loop_inv f i ?v"
    using inv by (auto simp: loop_inv_def assistant_message_def short_observation_def intro!: extends_messages_snoc)
  from answer_tool_calls_ok [OF v1 this] x show ?thesis by (simp add: loop_inv_def)
qed

lemma account_response_ok:
  assumes a: "account_response f (v\<lparr>lv_interactions := lv_interactions v @ [(q, r)]\<rparr>) q r = Inr v2"
    and inv: "loop_inv f i v" and fits: "fits_tokens (lf_policy f) (lv_total_tokens v) q"
    and msgs: "mq_messages q = lv_messages v"
  shows "loop_inv f (Suc i) v2"
proof -
  have "lv_interactions v2 = lv_interactions v @ [(q, r)]"
    "lv_total_tokens v2 = lv_total_tokens v + charge_of (lf_policy f) (lv_total_tokens v) r"
    "lv_messages v2 = lv_messages v" "lv_forced_stop_reason v2 = lv_forced_stop_reason v"
    using a by (auto simp: account_response_def charge_of_def Let_def split: option.splits if_splits)
  with inv fits msgs show ?thesis by (simp add: loop_inv_def)
qed

lemma turn_request_reason: "turn_request f i v s e = Inl reason \<Longrightarrow> reason \<noteq> ''finished''"
  by (auto simp: turn_request_def Let_def split: if_splits option.splits)

lemma spent_budget_reason: "spent_budget f v now = Some reason \<Longrightarrow> reason \<noteq> ''finished''"
  by (auto simp: spent_budget_def split: if_splits option.splits)

lemma result_ok_mono: "result_ok f i r \<Longrightarrow> i \<le> j \<Longrightarrow> result_ok f j r"
  by (auto simp: result_ok_def)

lemma loop_turn_ok:
  assumes a: "loop_turn env f i v w = (Inr x, w')" and inv: "loop_inv f i v"
  shows "case x of Inl res \<Rightarrow> result_ok f (Suc i) res | Inr v' \<Rightarrow> loop_inv f (Suc i) v'"
proof -
  let ?e = "estimated_request_input_tokens w (budget_request f i v)"
  let ?t = "turn_request f i v (lf_deadline f - ae_perf_counter env (2 * i + 1)) ?e"
  show ?thesis
  proof (cases ?t)
    case (Inl reason)
    then obtain res where "loop_stopped (lf_run f) (lf_step f) v (lv_best_text v) reason w = (Inr res, w')" "x = Inl res"
      using a by (auto simp: loop_turn_def returns_iff Let_def)
    then show ?thesis
      using loop_stopped_ok [OF _ inv turn_request_reason [OF Inl]]
      by (auto intro: result_ok_mono [of f i res "Suc i"])
  next
    case (Inr q)
    note fits = turn_request_fits [OF Inr estimate_lower]
    obtain r w1 v2 where v2: "account_response f (v\<lparr>lv_interactions := lv_interactions v @ [(q, r)]\<rparr>) q r = Inr v2"
      and rest: "(case spent_budget f v2 (ae_perf_counter env (2 * i + 2)) of
            Some reason \<Rightarrow> bindM (loop_stopped (lf_run f) (lf_step f) v2 (lv_best_text v2) reason) (\<lambda>x. returnM (Inl x))
          | None \<Rightarrow> follow_response env f i (turn_tools f i v) r v2) w1 = (Inr x, w')"
      using a Inr by (auto simp: loop_turn_def returns_iff Let_def liftE_returns)
    note inv2 = account_response_ok [OF v2 inv fits(1,2)]
    show ?thesis
    proof (cases "spent_budget f v2 (ae_perf_counter env (2 * i + 2))")
      case None
      then show ?thesis using rest follow_response_ok [OF _ inv2] by simp
    next
      case (Some reason)
      then obtain res where "loop_stopped (lf_run f) (lf_step f) v2 (lv_best_text v2) reason w1 = (Inr res, w')" "x = Inl res"
        using rest by (auto simp: returns_iff)
      then show ?thesis using loop_stopped_ok [OF _ inv2 spent_budget_reason [OF Some]] by auto
    qed
  qed
qed

lemma loop_turns_ok:
  "loop_turns env f n i v w = (Inr r, w') \<Longrightarrow> loop_inv f i v \<Longrightarrow> result_ok f (i + n) r"
proof (induction n arbitrary: i v w)
  case 0
  then show ?case using loop_stopped_ok [of "lf_run f" "lf_step f" v] by simp
next
  case (Suc n)
  then obtain x w1 where x: "loop_turn env f i v w = (Inr x, w1)"
    and rest: "(case x of Inl result \<Rightarrow> returnM result | Inr v' \<Rightarrow> loop_turns env f n (Suc i) v') w1 = (Inr r, w')"
    by (auto simp: returns_iff)
  note ok = loop_turn_ok [OF x Suc.prems(2)]
  show ?case
  proof (cases x)
    case (Inl res)
    then show ?thesis using ok rest result_ok_mono [of f "Suc i" res "i + Suc n"] by (simp add: returns_iff)
  next
    case (Inr v')
    then show ?thesis using ok rest Suc.IH [of "Suc i" v' w1] by simp
  qed
qed

text \<open>
  C38. The agent loop stays within its budgets, whatever the model and the tools answer: a result
  has text, comes from at most \<open>max_steps\<close> requests, and says whether a budget ended it; every
  request asks for no more output than what its input, counted at least as message and tool
  framing, and the charges of the earlier responses leave of the token budget; and its messages
  are the first ones followed by the conversation, in which no observation of a tool is longer
  than the observation budget and the truncation mark.
\<close>

theorem agent_loop_stays_within_budget:
  assumes "execute_agent_loop env run step agent q w = (Inr r, w')"
  shows "length (ag_interactions r) \<le> nat (al_max_steps (ws_agent_loop step))
    \<and> strip (ag_text r) \<noteq> [] \<and> ag_budget_exhausted r = (ag_stop_reason r \<noteq> ''finished'')
    \<and> within_tokens (ws_agent_loop step) 0 (ag_interactions r)
    \<and> list_all (\<lambda>x. extends_messages (ws_agent_loop step) (mq_messages q) (mq_messages (fst x))) (ag_interactions r)"
proof -
  obtain f where f: "prepare_loop env run step agent q = Inr f"
    and turns: "loop_turns env f (nat (al_max_steps (lf_policy f))) 0 (initial_vars (lf_request f) (lf_prices f)) w
      = (Inr r, w')"
    using assms by (auto simp: execute_agent_loop_def returns_iff liftE_returns)
  have "loop_inv f 0 (initial_vars (lf_request f) (lf_prices f))"
    by (simp add: loop_inv_def initial_vars_def)
  note ok = loop_turns_ok [OF turns this]
  have "lf_policy f = ws_agent_loop step" "mq_messages (lf_request f) = mq_messages q"
    using f by (auto simp: prepare_loop_def Let_def priced_request_def split: option.split)
  with ok show ?thesis by (simp add: result_ok_def)
qed

section \<open>An example\<close>

definition example_loop_policy :: agent_loop_policy where
  "example_loop_policy = \<lparr>al_enabled = True, al_max_steps = 1, al_max_tool_calls = 1,
     al_max_total_tokens = 10000, al_timeout_seconds = 60, al_max_repeated_tool_calls = 1,
     al_max_observation_chars = 10, al_max_cost_usd = None\<rparr>"

definition example_loop_step :: workflow_step where
  "example_loop_step = (example_step ''draft'' ''writer'' [] PATCH)\<lparr>
     ws_allowed_tools := [''fetch_page_mock''], ws_agent_loop := example_loop_policy\<rparr>"

definition example_request :: model_request where
  "example_request = \<lparr>mq_provider = ''mock'', mq_model = ''m'', mq_system_prompt = ''s'', mq_messages = [],
     mq_temperature = None, mq_max_tokens = None, mq_max_continuations = 0, mq_reasoning_effort = None,
     mq_timeout_seconds = None, mq_tools_allowed = [], mq_tools = [], mq_fallbacks = [],
     mq_input_usd_per_million = None, mq_output_usd_per_million = None, mq_metadata = []\<rparr>"

definition example_reply :: model_response where
  "example_reply = \<lparr>mr_text = ''done'', mr_usage = [(''total_tokens'', 100)],
     mr_latency_ms = 1, mr_finish_reason = ''stop'', mr_raw_provider = ''mock'', mr_adapter = ''mock'',
     mr_mocked = True, mr_tool_calls = [],
     mr_route_receipt = [], mr_provider_attempts = [], mr_partial = False, mr_continuation_count = 0,
     mr_selected_provider = None, mr_selected_model = None, mr_selected_input_usd_per_million = None,
     mr_selected_output_usd_per_million = None\<rparr>"

definition example_loop_env :: agent_loop_env where
  "example_loop_env = \<lparr>ae_tools = example_gateway, ae_capabilities = default_model_capability_registry,
     ae_complete = (\<lambda>q. returnM example_reply), ae_on_request_started = None,
     ae_perf_counter = of_nat, ae_float = (\<lambda>_. None)\<rparr>"

definition example_loop_agent :: agent_definition where
  "example_loop_agent = waiting_agent\<lparr>a_tool_permissions := [''fetch_page_mock'']\<rparr>"

definition example_loop_world :: world where
  "example_loop_world = example_world (empty_db\<lparr>d_tasks := [example_task], d_runs := [run_row_of example_run]\<rparr>)"

definition example_price :: model_route_price where
  "example_price = \<lparr>mp_provider = ''mock'', mp_model = ''m'', mp_input_usd_per_million = 0,
     mp_output_usd_per_million = 0, mp_source = ''capability_registry''\<rparr>"

definition example_frame :: loop_frame where
  "example_frame = \<lparr>lf_run = example_run, lf_step = example_loop_step, lf_policy = example_loop_policy,
     lf_request = example_request, lf_prices = [Some example_price],
     lf_tool_specs = [\<lparr>td_name = ''fetch_page_mock'', td_description = ''Mock page fetch.'',
        td_input_schema = object_schema [(''url'', string_schema 4096)] [''url'']\<rparr>],
     lf_context = loop_context example_tool_env example_run example_loop_step example_loop_agent example_request,
     lf_deadline = 60\<rparr>"

lemma example_tool:
  "map_of (tg_tools example_gateway) ''fetch_page_mock'' = Some (simple_tool ''fetch_page_mock'' ''Mock page fetch.''
     [''url''] [(''url'', string_schema 4096)]
     (\<lambda>d. returnM [(''url'', jget d ''url''), (''content'', JStr ''mock page content'')]))"
  by (simp add: example_gateway_def mock_tools_def simple_tool_def web_call_def Let_def)

lemma example_prices: "route_prices default_model_capability_registry example_request = Inr [Some example_price]"
  by code_simp

lemma example_prepared:
  "prepare_loop example_loop_env example_run example_loop_step example_loop_agent example_request = Inr example_frame"
proof -
  have "model_tool_specs example_gateway [''fetch_page_mock''] = Inr (lf_tool_specs example_frame)"
    by (simp add: model_tool_specs_def sorted_set_def bindE_def get_tool_def of_option_def example_tool
        simple_tool_def example_frame_def tool_input_schema_def)
  moreover have "model_pricing (\<lambda>_. None) example_loop_agent = Inr None"
    by code_simp
  ultimately show ?thesis
    using example_prices
    by (simp add: prepare_loop_def example_loop_env_def example_loop_step_def example_loop_policy_def bindE_def
        guardE_def example_loop_agent_def priced_request_def example_request_def Let_def example_frame_def
        example_gateway_def)
qed

definition example_sent :: model_request where
  "example_sent = example_request\<lparr>mq_max_tokens := Some (10000 - estimated_request_input_tokens example_loop_world
      example_request), mq_timeout_seconds := Some 59, mq_metadata := [(''agent_loop_step'', JInt 1)]\<rparr>"

definition example_loop_vars :: loop_vars where
  "example_loop_vars = initial_vars example_request [Some example_price]"

lemma example_turn_request:
  "turn_request example_frame 0 example_loop_vars 59
     (estimated_request_input_tokens example_loop_world example_request) = Inr example_sent"
  "budget_request example_frame 0 example_loop_vars = example_request"
  by code_simp+

definition example_traced :: world where
  "example_traced = snd (record_interaction example_loop_env example_run example_sent example_reply example_loop_world)"

definition example_after :: loop_vars where
  "example_after = example_loop_vars\<lparr>lv_interactions := [(example_sent, example_reply)], lv_total_tokens := 100,
     lv_estimated_cost := Some 0, lv_best_text := ''done''\<rparr>"

lemma example_turn_pieces:
  "account_response example_frame (example_loop_vars\<lparr>lv_interactions := [(example_sent, example_reply)]\<rparr>)
     example_sent example_reply = Inr example_after"
  "spent_budget example_frame example_after 2 = None"
  by code_simp+

lemma example_traces:
  "returned (record_interaction example_loop_env example_run example_sent example_reply example_loop_world)"
  "returned (loop_completed example_run example_loop_step example_after ''done'' example_traced)"
  by code_simp+

lemma returned_Inr: "returned x \<longleftrightarrow> (\<exists>r w. x = (Inr r, w))"
  by (cases x) (auto simp: returned_def split: sum.split)

lemma example_turn:
  "\<exists>r w. loop_turn example_loop_env example_frame 0 example_loop_vars example_loop_world = (Inr (Inl r), w)"
proof -
  have first: "lv_interactions example_loop_vars = []" by (simp add: example_loop_vars_def initial_vars_def)
  have env: "ae_on_request_started example_loop_env = None"
    "ae_complete example_loop_env q = returnM example_reply" "ae_perf_counter example_loop_env = of_nat"
    "lf_deadline example_frame = 60" "lf_run example_frame = example_run"
    "lf_step example_frame = example_loop_step" for q
    by (simp_all add: example_loop_env_def example_frame_def)
  have traced: "record_interaction example_loop_env example_run example_sent example_reply example_loop_world
      = (Inr (), example_traced)"
    using example_traces(1) by (auto simp: returned_Inr example_traced_def)
  have reply: "mr_tool_calls example_reply = []" "mr_text example_reply = ''done''" "strip ''done'' \<noteq> []"
    "lv_forced_stop_reason example_after = None"
    by (simp_all add: example_reply_def example_after_def example_loop_vars_def initial_vars_def) code_simp
  obtain r w where fin: "loop_completed example_run example_loop_step example_after ''done'' example_traced = (Inr r, w)"
    using example_traces(2) by (auto simp: returned_Inr)
  have "loop_turn example_loop_env example_frame 0 example_loop_vars example_loop_world
      = follow_response example_loop_env example_frame 0 (turn_tools example_frame 0 example_loop_vars)
          example_reply example_after example_traced"
    using example_turn_request example_turn_pieces
    by (simp add: loop_turn_def env first traced bindM_def thenM_def getsM_def returnM_def liftE_def)
  also have "\<dots> = (Inr (Inl r), w)"
    using fin by (simp add: follow_response_def env reply bindM_def thenM_def guardM_def returnM_def)
  finally show ?thesis by blast
qed

theorem agent_loop_stays_within_budget_witness:
  "\<exists>r. fst (execute_agent_loop example_loop_env example_run example_loop_step example_loop_agent example_request
      example_loop_world) = Inr r \<and> length (ag_interactions r) \<le> 1 \<and> strip (ag_text r) \<noteq> []"
proof -
  obtain r w where turn: "loop_turn example_loop_env example_frame 0 example_loop_vars example_loop_world
      = (Inr (Inl r), w)" using example_turn by blast
  have "lf_request example_frame = example_request" "lf_prices example_frame = [Some example_price]"
    "al_max_steps (lf_policy example_frame) = 1"
    by (simp_all add: example_frame_def example_loop_policy_def)
  then have run: "execute_agent_loop example_loop_env example_run example_loop_step example_loop_agent example_request
      example_loop_world = (Inr r, w)"
    using turn by (simp add: execute_agent_loop_def example_prepared liftE_def bindM_def returnM_def
        flip: example_loop_vars_def)
  have "al_max_steps (ws_agent_loop example_loop_step) = 1"
    by (simp add: example_loop_step_def example_loop_policy_def)
  with agent_loop_stays_within_budget [OF run] show ?thesis
    by (simp add: run)
qed

end
