(* ===== verification/Model_Completion.thy ===== *)
theory Model_Completion imports Model_Gateway begin

text \<open>
  \<open>ModelGateway.complete\<close> of \<open>backend/app/core/model_runtime.py\<close>: one call of an adapter, its
  continuations, the second try after an invalid answer, and the walk over the candidates.
\<close>

section \<open>The mock adapter\<close>

text \<open>The number of words of \<open>str.split()\<close>.\<close>

fun word_count :: "bool \<Rightarrow> string \<Rightarrow> nat" where
  "word_count inside [] = 0"
| "word_count inside (c # cs) = (if is_space c then word_count False cs
     else (if inside then 0 else 1) + word_count True cs)"

definition text_tokens :: "gateway_env \<Rightarrow> string \<Rightarrow> nat" where
  "text_tokens env v = (if starts_with ''data:'' v then max 1 ((ge_utf8_length env v + 3) div 4)
     else max 1 (word_count False v))"

text \<open>The JSON text of a number, a truth value or \<open>null\<close> is one word.\<close>

fun estimate_tokens :: "gateway_env \<Rightarrow> jval \<Rightarrow> nat" where
  "estimate_tokens env (JList xs) = max 1 (sum_list (map (estimate_tokens env) xs))"
| "estimate_tokens env (JObj d) = max 1 (sum_list (map (\<lambda>x. text_tokens env (fst x) + estimate_tokens env (snd x)) d))"
| "estimate_tokens env (JStr v) = text_tokens env v"
| "estimate_tokens env v = 1"

definition content_json :: "string + jobj list \<Rightarrow> jval" where
  "content_json c = (case c of Inl v \<Rightarrow> JStr v | Inr blocks \<Rightarrow> JList (map JObj blocks))"

definition metadata_text :: "gateway_env \<Rightarrow> model_request \<Rightarrow> string \<Rightarrow> string \<Rightarrow> string" where
  "metadata_text env q k d = (case jget_or (mq_metadata q) k (JStr d) of JStr v \<Rightarrow> v | v \<Rightarrow> ge_py_str env v)"

definition mock_text :: "gateway_env \<Rightarrow> model_request \<Rightarrow> string" where
  "mock_text env q = metadata_text env q ''agent_role'' ''Agent'' @ '' completed ''
     @ metadata_text env q ''step_name'' ''step'' @ ''.'' @ [CHR 0x0A, CHR 0x0A]
     @ ''Task: '' @ metadata_text env q ''task_title'' ''Task'' @ [CHR 0x0A]
     @ ''Provider: '' @ mq_provider q @ [CHR 0x0A] @ ''Model: '' @ mq_model q @ [CHR 0x0A]"

definition mock_complete :: "gateway_env \<Rightarrow> model_request \<Rightarrow> raw_response option gateway_act" where
  "mock_complete env q =
    (if JStr ''vision'' \<in> set (required_model_capabilities q) \<or> request_contains_image_block q then
       raiseG (Model_error (routed_error (ge_secret env)
         ''The mock provider cannot inspect image input; use a confirmed vision-capable provider.''
         (mq_provider q) (mq_model q) ''MockVisionUnsupported''
         ''classification=capability_error;retryable=false'' []))
     else bindG (perf_counter env) (\<lambda>started. bindG (perf_counter env) (\<lambda>ended.
       let text = mock_text env q in
       returnG (Some \<lparr>rr_text = JStr text,
         rr_usage = JObj [(''input_tokens'', JInt (int (text_tokens env (mq_system_prompt q)
              + sum_list (map (\<lambda>m. estimate_tokens env (content_json (mm_content m))) (mq_messages q))))),
            (''output_tokens'', JInt (int (text_tokens env text)))],
         rr_latency_ms = JInt (max 1 \<lfloor>(ended - started) * 1000\<rfloor>), rr_finish_reason = JStr ''stop'',
         rr_raw_provider = JStr (mq_provider q), rr_adapter = JStr ''mock'', rr_mocked = JBool True,
         rr_tool_calls = Some [], rr_provider_attempts = JList [], rr_partial = JBool False,
         rr_continuation_count = JInt 0, rr_selected_provider = JStr (mq_provider q),
         rr_selected_model = JStr (mq_model q)\<rparr>))))"

section \<open>One call of an adapter\<close>

definition stub_error :: "string \<Rightarrow> gateway_exn" where
  "stub_error provider = Model_error (plain_runtime_error (''Model provider skeleton is not enabled: ''
     @ provider @ ''. '' @ ''Real provider calls are not implemented in this phase.''))"

definition dispatch :: "model_request \<Rightarrow> unit gateway_act" where
  "dispatch q = (\<lambda>s. (Inr (), s\<lparr>gs_sent := gs_sent s @ [q]\<rparr>))"

definition adapter_complete :: "gateway_env \<Rightarrow> adapter_kind \<Rightarrow> model_request \<Rightarrow> raw_response option gateway_act" where
  "adapter_complete env kind q = bindG (dispatch q) (\<lambda>_. case kind of
     Mock_adapter \<Rightarrow> mock_complete env q
   | Provider_stub \<Rightarrow> raiseG (stub_error (mq_provider q))
   | _ \<Rightarrow> bindG tick (\<lambda>k. liftG (ge_reply env k q)))"

definition acquire_gate :: "gateway_env \<Rightarrow> string \<Rightarrow> bool gateway_act" where
  "acquire_gate env provider = bindG tick (\<lambda>k.
     if ge_acquire env k then (\<lambda>s. (Inr True, s\<lparr>gs_held := provider # gs_held s\<rparr>)) else returnG False)"

definition release_gate :: "string \<Rightarrow> gateway_state \<Rightarrow> gateway_state" where
  "release_gate provider s = s\<lparr>gs_held := remove1 provider (gs_held s)\<rparr>"

definition capacity_timeout :: "gateway_env \<Rightarrow> model_request \<Rightarrow> string \<Rightarrow> gateway_exn" where
  "capacity_timeout env q verb = gateway_rejection env
     (''Provider concurrency wait '' @ verb @ '' the request timeout: '' @ mq_provider q)
     ''provider_capacity_timeout'' q ''ProviderConcurrencyLimit''
     (Some ''classification=timeout_error;retryable=true'')"

definition complete_single :: "gateway_env \<Rightarrow> model_request \<Rightarrow> raw_response option gateway_act" where
  "complete_single env q = (case map_of (ge_adapters env) (mq_provider q) of
     None \<Rightarrow> raiseG (gateway_rejection env (''Model provider not configured: '' @ mq_provider q)
       ''provider_not_configured'' q ''ProviderNotConfigured'' None)
   | Some kind \<Rightarrow>
       bindG (liftG (validate_request_capabilities env q)) (\<lambda>_.
       bindG (liftG (request_timeout env q)) (\<lambda>timeout.
       bindG (perf_counter env) (\<lambda>started.
       bindG (acquire_gate env (mq_provider q)) (\<lambda>acquired.
       if \<not> acquired then raiseG (capacity_timeout env q ''exceeded'')
       else finallyG
         (bindG (perf_counter env) (\<lambda>now.
          let remaining = started + timeout - now in
          if remaining \<le> 0 then raiseG (capacity_timeout env q ''exhausted'')
          else adapter_complete env kind (q\<lparr>mq_timeout_seconds := Some remaining\<rparr>)))
         (release_gate (mq_provider q)))))))"

section \<open>Continuations\<close>

definition validated_call :: "gateway_env \<Rightarrow> bool \<Rightarrow> model_request \<Rightarrow> model_response gateway_act" where
  "validated_call env trusted q = bindG (complete_single env q) (\<lambda>response.
     case validate_model_response (ge_secret env) (ge_show_float env) (mq_provider q) (mq_model q)
         (map td_name (mq_tools q)) trusted response of
       Inl e \<Rightarrow> raiseG (Model_error e)
     | Inr r \<Rightarrow> returnG r)"

definition assembled_response :: "model_response list \<Rightarrow> string \<Rightarrow> nat \<Rightarrow> model_response" where
  "assembled_response responses text index = (last responses)\<lparr>mr_text := text,
     mr_usage := sum_model_usage responses, mr_latency_ms := sum_list (map mr_latency_ms responses),
     mr_partial := False, mr_continuation_count := int index,
     mr_provider_attempts := concat (map mr_provider_attempts responses)\<rparr>"

definition incomplete_error :: "gateway_env \<Rightarrow> model_request \<Rightarrow> model_response list \<Rightarrow> gateway_exn" where
  "incomplete_error env q responses = Model_error (raised_model_error (ge_secret env)
     ((plain_runtime_error ''Model response remained incomplete after bounded continuations.'')
       \<lparr>me_provider := Some (mq_provider q), me_model := Some (mq_model q),
        me_error_class := Some ''IncompleteModelResponse'',
        me_error_summary := Some (''finish_reason='' @ mr_finish_reason (last responses)),
        me_elapsed_ms := Some (sum_list (map mr_latency_ms responses)),
        me_provider_attempts := concat (map mr_provider_attempts responses)\<rparr>))"

text \<open>The first argument after the request is the number of continuations that are left.\<close>

primrec continue_response ::
  "gateway_env \<Rightarrow> bool \<Rightarrow> rat \<Rightarrow> model_request \<Rightarrow> nat \<Rightarrow> nat \<Rightarrow> model_response list \<Rightarrow> string \<Rightarrow> model_response gateway_act" where
  "continue_response env trusted deadline q 0 index responses assembled = raiseG (incomplete_error env q responses)"
| "continue_response env trusted deadline q (Suc n) index responses assembled =
    bindG (perf_counter env) (\<lambda>now.
    if deadline - now \<le> 0 then raiseG (incomplete_error env q responses)
    else bindG (validated_call env trusted (continuation_request q assembled index (deadline - now))) (\<lambda>r.
      let responses' = responses @ [r]; text = merge_continuation_text assembled (mr_text r) in
      if \<not> mr_partial r then returnG (assembled_response responses' text index)
      else continue_response env trusted deadline q n (Suc index) responses' text))"

definition continuation_deadline :: "gateway_env \<Rightarrow> model_request \<Rightarrow> rat option \<Rightarrow> rat gateway_act" where
  "continuation_deadline env q deadline = (case deadline of
     Some d \<Rightarrow> returnG d
   | None \<Rightarrow>
       bindG (case mq_timeout_seconds q of
           Some t \<Rightarrow> if t \<noteq> 0 then returnG t else liftG (model_timeout env)
         | None \<Rightarrow> liftG (model_timeout env)) (\<lambda>timeout.
       bindG (perf_counter env) (\<lambda>now. returnG (now + timeout))))"

definition complete_with_continuations ::
  "gateway_env \<Rightarrow> bool \<Rightarrow> rat option \<Rightarrow> model_request \<Rightarrow> model_response gateway_act" where
  "complete_with_continuations env trusted deadline q =
    bindG (validated_call env trusted q) (\<lambda>r.
    if \<not> mr_partial r then returnG r
    else bindG (continuation_deadline env q deadline) (\<lambda>d.
      continue_response env trusted d q (nat (mq_max_continuations q)) 1 [r] (mr_text r)))"

section \<open>A second try\<close>

definition INVALID_RESPONSE_RETRY_LIMIT :: nat where
  "INVALID_RESPONSE_RETRY_LIMIT = 1"

definition remaining_seconds :: "gateway_env \<Rightarrow> rat option \<Rightarrow> model_request \<Rightarrow> rat option gateway_act" where
  "remaining_seconds env deadline q = (case deadline of
     None \<Rightarrow> returnG (mq_timeout_seconds q)
   | Some d \<Rightarrow> bindG (perf_counter env) (\<lambda>now. returnG (Some (d - now))))"

definition retry_request :: "model_request \<Rightarrow> rat option \<Rightarrow> nat \<Rightarrow> model_request" where
  "retry_request q timeout attempt = q\<lparr>mq_timeout_seconds := timeout,
     mq_metadata := jput ''response_retry_attempt'' (JInt (int attempt)) (mq_metadata q)\<rparr>"

primrec complete_with_retry ::
  "gateway_env \<Rightarrow> bool \<Rightarrow> rat option \<Rightarrow> nat \<Rightarrow> nat \<Rightarrow> model_request \<Rightarrow> model_response gateway_act" where
  "complete_with_retry env trusted deadline 0 attempt q = complete_with_continuations env trusted deadline q"
| "complete_with_retry env trusted deadline (Suc n) attempt q =
    bindG (outcomeG (complete_with_continuations env trusted deadline q)) (\<lambda>r. case r of
      Inr v \<Rightarrow> returnG v
    | Inl (Other_exn e) \<Rightarrow> raiseG (Other_exn e)
    | Inl (Model_error e) \<Rightarrow>
        if me_error_class e \<noteq> Some ''InvalidModelResponse'' then raiseG (Model_error e)
        else bindG (remaining_seconds env deadline q) (\<lambda>remaining.
          if (case remaining of None \<Rightarrow> False | Some t \<Rightarrow> t \<le> 0) then raiseG (Model_error e)
          else complete_with_retry env trusted deadline n (Suc attempt) (retry_request q remaining (Suc attempt))))"

section \<open>One candidate\<close>

definition confirmed :: "model_request \<Rightarrow> string \<Rightarrow> bool" where
  "confirmed q k \<longleftrightarrow> jget (mq_metadata q) k = JBool True"

text \<open>The checks before the route policy is asked; attempts are counted from 1.\<close>

definition early_rejection :: "model_request \<Rightarrow> nat \<Rightarrow> route_candidate \<Rightarrow> string option" where
  "early_rejection q attempt c =
    (if cd_provider c \<in> set REAL_MODEL_PROVIDERS \<and> confirmed q ''run_bound''
        \<and> \<not> confirmed q ''real_model_access_confirmed'' then Some ''real_model_access_not_confirmed''
     else if cd_provider c = ''mock'' \<and> attempt > 1 \<and> \<not> confirmed q ''allow_mock_fallback'' then
       Some ''mock_fallback_disabled''
     else if attempt > 1 \<and> cd_provider c \<in> set REAL_MODEL_PROVIDERS \<and> \<not> cd_allow_real_calls c then
       Some ''real_fallback_not_approved''
     else None)"

text \<open>
  \<open>explain_route\<close> for the one candidate. It asks \<open>provider_ready\<close> when all checks before it
  have passed, and what that raises goes through; otherwise the result is the reason to pass over.
\<close>

definition route_question :: "gateway_env \<Rightarrow> model_request \<Rightarrow> nat \<Rightarrow> route_policy" where
  "route_question env q k = \<lparr>rp_requirements = request_requirements q, rp_capabilities = ge_capabilities env,
     rp_configured_providers = map fst (ge_adapters env),
     rp_allow_mock_fallback = confirmed q ''allow_mock_fallback'',
     rp_provider_ready = Some (\<lambda>d. provider_ready env (cd_provider d) = Inr True),
     rp_clock = (\<lambda>_. ge_health_clock env k)\<rparr>"

definition ask_route ::
  "gateway_env \<Rightarrow> model_request \<Rightarrow> nat \<Rightarrow> route_candidate \<Rightarrow> provider_health_registry
    \<Rightarrow> route_decision \<times> provider_health_registry" where
  "ask_route env q k c g = (case explain_route (route_question env q k) [c] (Some g) of
     (decision, g') \<Rightarrow> (decision, case g' of None \<Rightarrow> g | Some h \<Rightarrow> h))"

definition route_rejection_reason :: "gateway_env \<Rightarrow> model_request \<Rightarrow> route_candidate \<Rightarrow> string option gateway_act" where
  "route_rejection_reason env q c =
    bindG tick (\<lambda>k. bindG (on_health (ask_route env q k c)) (\<lambda>decision.
    if route_usable decision then returnG None
    else let reason = (case rd_rejected decision of [] \<Rightarrow> ''route_rejected'' | x # _ \<Rightarrow> rj_reason x) in
      if reason = ''provider_not_ready'' then
        bindG (liftG (provider_ready env (cd_provider c))) (\<lambda>_. returnG (Some reason))
      else returnG (Some reason)))"

definition DEEPSEEK_MIN_RUN_OUTPUT_TOKENS :: int where
  "DEEPSEEK_MIN_RUN_OUTPUT_TOKENS = 8000"

definition candidate_request :: "gateway_env \<Rightarrow> model_request \<Rightarrow> nat \<Rightarrow> route_candidate \<Rightarrow> model_request" where
  "candidate_request env q attempt c =
    (let price = route_price (ge_capabilities env) c in q\<lparr>
      mq_provider := cd_provider c, mq_model := cd_model c,
      mq_max_tokens := (if cd_provider c = ''deepseek'' \<and> \<not> confirmed q ''smoke_test''
          \<and> jget (mq_metadata q) ''agent_loop_step'' = JNull
        then Some (max (case mq_max_tokens q of None \<Rightarrow> 0 | Some n \<Rightarrow> n) DEEPSEEK_MIN_RUN_OUTPUT_TOKENS)
        else mq_max_tokens q),
      mq_fallbacks := [],
      mq_input_usd_per_million := map_option mp_input_usd_per_million price,
      mq_output_usd_per_million := map_option mp_output_usd_per_million price,
      mq_metadata := jput ''route_reason'' (JStr (cd_reason c))
        (jput ''route_attempt'' (JInt (int attempt)) (mq_metadata q))\<rparr>)"

definition candidate_entry :: "gateway_env \<Rightarrow> nat \<Rightarrow> route_candidate \<Rightarrow> string \<Rightarrow> string \<Rightarrow> receipt_fields" where
  "candidate_entry env attempt c outcome reason =
     plain_receipt (int attempt) (cd_provider c) (cd_model c) outcome reason"

definition rejected_entry :: "gateway_env \<Rightarrow> nat \<Rightarrow> route_candidate \<Rightarrow> string \<Rightarrow> jobj" where
  "rejected_entry env attempt c reason =
     route_receipt_entry (ge_secret env) (candidate_entry env attempt c ''rejected'' reason)"

definition attempt_entry :: "gateway_env \<Rightarrow> nat \<Rightarrow> route_candidate \<Rightarrow> jobj \<Rightarrow> jobj" where
  "attempt_entry env attempt c a = route_receipt_entry (ge_secret env)
     ((candidate_entry env attempt c ''failed'' (text_of (jget a ''reason'')))
       \<lparr>re_error_class := Some (text_of (jget a ''error_class'')),
        re_error_summary := Some (text_of (jget a ''error_summary'')),
        re_provider_attempt := int_of_json (jget a ''provider_attempt''), re_usage_known := Some False\<rparr>)"

text \<open>What the failure of a candidate adds to the receipt.\<close>

definition failure_entries ::
  "gateway_env \<Rightarrow> nat \<Rightarrow> route_candidate \<Rightarrow> bool \<Rightarrow> bool \<Rightarrow> model_runtime_error \<Rightarrow> jobj list" where
  "failure_entries env attempt c trusted retryable e = (case me_local_reason e of
     Some reason \<Rightarrow> [route_receipt_entry (ge_secret env) ((candidate_entry env attempt c ''rejected'' reason)
       \<lparr>re_error_class := me_error_class e, re_error_summary := me_error_summary e,
        re_latency_ms := me_elapsed_ms e\<rparr>)]
   | None \<Rightarrow>
       if trusted \<and> me_provider_attempts e \<noteq> [] then map (attempt_entry env attempt c) (me_provider_attempts e)
       else [route_receipt_entry (ge_secret env) ((candidate_entry env attempt c ''failed''
           (if retryable then ''retryable_error'' else ''non_retryable_error''))
         \<lparr>re_error_class := me_error_class e, re_error_summary := me_error_summary e,
          re_latency_ms := me_elapsed_ms e\<rparr>)])"

definition success_entries ::
  "gateway_env \<Rightarrow> nat \<Rightarrow> route_candidate \<Rightarrow> bool \<Rightarrow> model_response \<Rightarrow> jobj list" where
  "success_entries env attempt c trusted r =
    map (attempt_entry env attempt c) (mr_provider_attempts r)
    @ [route_receipt_entry (ge_secret env) ((candidate_entry env attempt c ''succeeded'' ''selected'')
       \<lparr>re_mocked := Some (mr_mocked r), re_latency_ms := Some (mr_latency_ms r), re_usage := Some (mr_usage r),
        re_cost_usd := estimate_route_cost (route_price (ge_capabilities env) c) (mr_usage r),
        re_provider_attempt := (if trusted then Some (int (length (mr_provider_attempts r)) + 1) else None),
        re_usage_known := (if trusted then Some (map_of (mr_usage r) ''input_tokens'' \<noteq> None
            \<and> map_of (mr_usage r) ''output_tokens'' \<noteq> None) else None)\<rparr>)]"

definition selected_response ::
  "gateway_env \<Rightarrow> route_candidate \<Rightarrow> jobj list \<Rightarrow> model_response \<Rightarrow> model_response" where
  "selected_response env c receipt r =
    (let price = route_price (ge_capabilities env) c in r\<lparr>mr_route_receipt := receipt,
       mr_selected_provider := Some (cd_provider c), mr_selected_model := Some (cd_model c),
       mr_selected_input_usd_per_million := map_option mp_input_usd_per_million price,
       mr_selected_output_usd_per_million := map_option mp_output_usd_per_million price\<rparr>)"

text \<open>How a candidate ends: the next one follows, the loop breaks, or the call returns.\<close>

datatype candidate_end =
    Next_candidate "jobj list" "model_runtime_error option"
  | Route_ended "jobj list"
  | Selected model_response

definition trusted_adapter :: "gateway_env \<Rightarrow> string \<Rightarrow> bool" where
  "trusted_adapter env provider \<longleftrightarrow> map_of (ge_adapters env) provider = Some Openai_compatible"

text \<open>An incomplete or invalid answer goes on to the next candidate, if there is one.\<close>

definition candidate_failed ::
  "gateway_env \<Rightarrow> nat \<Rightarrow> nat \<Rightarrow> route_candidate \<Rightarrow> jobj list \<Rightarrow> model_runtime_error \<Rightarrow> candidate_end gateway_act" where
  "candidate_failed env n attempt c receipt e =
    (let retryable = model_error_is_retryable e
           \<or> (me_error_class e \<in> {Some ''IncompleteModelResponse'', Some ''InvalidModelResponse''} \<and> attempt < n);
         receipt' = receipt @ failure_entries env attempt c (trusted_adapter env (cd_provider c)) retryable e;
         e' = e\<lparr>me_route_receipt := receipt'\<rparr> in
     bindG tick (\<lambda>k.
     bindG (on_health (\<lambda>g. ((), if me_local_reason e = None
         then record_failure (ge_health_clock env k) (cd_provider c) (me_error_class e) retryable g else g))) (\<lambda>_.
     if \<not> retryable then raiseG (Model_error e') else returnG (Next_candidate receipt' (Some e')))))"

definition call_candidate ::
  "gateway_env \<Rightarrow> rat option \<Rightarrow> nat \<Rightarrow> nat \<Rightarrow> route_candidate \<Rightarrow> jobj list \<Rightarrow> model_request \<Rightarrow> candidate_end gateway_act" where
  "call_candidate env deadline n attempt c receipt q =
    (let trusted = trusted_adapter env (cd_provider c) in
     bindG (outcomeG (complete_with_retry env trusted deadline INVALID_RESPONSE_RETRY_LIMIT 0 q)) (\<lambda>r. case r of
       Inl (Other_exn e) \<Rightarrow> raiseG (Other_exn e)
     | Inl (Model_error e) \<Rightarrow> candidate_failed env n attempt c receipt e
     | Inr v \<Rightarrow>
         bindG (on_health (\<lambda>g. ((), record_success (cd_provider c) (Some (mr_latency_ms v)) g))) (\<lambda>_.
         returnG (Selected (selected_response env c (receipt @ success_entries env attempt c trusted v) v)))))"

definition not_ready_error :: "gateway_env \<Rightarrow> route_candidate \<Rightarrow> string \<Rightarrow> jobj list \<Rightarrow> gateway_exn" where
  "not_ready_error env c reason receipt = Model_error (routed_error (ge_secret env)
     ''The primary model route is not ready; fallback was not attempted.'' (cd_provider c) (cd_model c)
     (if reason = ''provider_not_configured'' then ''ProviderNotConfigured'' else ''ProviderNotReady'')
     ''classification=provider_error;retryable=false'' receipt)"

definition try_candidate ::
  "gateway_env \<Rightarrow> model_request \<Rightarrow> rat option \<Rightarrow> nat \<Rightarrow> nat \<Rightarrow> route_candidate \<Rightarrow> jobj list
    \<Rightarrow> candidate_end gateway_act" where
  "try_candidate env q deadline n attempt c receipt = (case early_rejection q attempt c of
     Some reason \<Rightarrow> returnG (Next_candidate (receipt @ [rejected_entry env attempt c reason]) None)
   | None \<Rightarrow> bindG (route_rejection_reason env q c) (\<lambda>rejected. case rejected of
       Some reason \<Rightarrow>
         let receipt' = receipt @ [rejected_entry env attempt c reason] in
         if n > 1 \<and> attempt = 1 \<and> reason \<in> {''provider_not_configured'', ''provider_not_ready''} then
           raiseG (not_ready_error env c reason receipt')
         else returnG (Next_candidate receipt' None)
     | None \<Rightarrow>
         let request = candidate_request env q attempt c in
         (case deadline of
           None \<Rightarrow> call_candidate env deadline n attempt c receipt request
         | Some d \<Rightarrow> bindG (perf_counter env) (\<lambda>now.
             if d - now \<le> 0 then
               returnG (Route_ended (receipt @ [rejected_entry env attempt c ''route_timeout_budget_exhausted'']))
             else call_candidate env deadline n attempt c receipt
               (request\<lparr>mq_timeout_seconds := Some (d - now)\<rparr>)))))"

section \<open>The walk over the candidates\<close>

definition route_failed ::
  "gateway_env \<Rightarrow> model_request \<Rightarrow> nat \<Rightarrow> jobj list \<Rightarrow> model_runtime_error option \<Rightarrow> gateway_exn" where
  "route_failed env q n receipt last_error =
    (let failed = (\<lambda>message error_class summary. Model_error (routed_error (ge_secret env) message
         (mq_provider q) (mq_model q) error_class summary receipt));
         unusable = failed ''No usable model route remained after capability and health checks.''
           ''RoutePolicyError'' ''classification=provider_error;retryable=false'' in
     case last_error of
       Some e \<Rightarrow> Model_error (e\<lparr>me_route_receipt := receipt\<rparr>)
     | None \<Rightarrow> (case (n = 1, receipt) of
         (True, entry # _) \<Rightarrow>
           if jget entry ''reason'' = JStr ''provider_not_configured'' then
             failed (''Model provider not configured: '' @ mq_provider q) ''ProviderNotConfigured''
               ''classification=provider_error;retryable=false''
           else if jget entry ''reason'' = JStr ''capability_mismatch'' then
             failed ''Model route does not satisfy the request capability contract.'' ''ModelCapabilityError''
               ''classification=capability_error;retryable=false''
           else unusable
       | _ \<Rightarrow> unusable))"

primrec walk_route ::
  "gateway_env \<Rightarrow> model_request \<Rightarrow> rat option \<Rightarrow> nat \<Rightarrow> nat \<Rightarrow> route_candidate list \<Rightarrow> jobj list
    \<Rightarrow> model_runtime_error option \<Rightarrow> model_response gateway_act" where
  "walk_route env q deadline n attempt [] receipt last_error = raiseG (route_failed env q n receipt last_error)"
| "walk_route env q deadline n attempt (c # cs) receipt last_error =
    bindG (try_candidate env q deadline n attempt c receipt) (\<lambda>r. case r of
      Next_candidate receipt' e \<Rightarrow> walk_route env q deadline n (Suc attempt) cs receipt'
        (case e of None \<Rightarrow> last_error | Some x \<Rightarrow> Some x)
    | Route_ended receipt' \<Rightarrow> raiseG (route_failed env q n receipt' last_error)
    | Selected v \<Rightarrow> returnG v)"

definition route_deadline :: "gateway_env \<Rightarrow> model_request \<Rightarrow> nat \<Rightarrow> rat option gateway_act" where
  "route_deadline env q n =
    (if n \<le> 1 then returnG None
     else bindG (liftG (request_timeout env q)) (\<lambda>timeout.
       bindG (perf_counter env) (\<lambda>now. returnG (Some (now + timeout)))))"

definition gateway_complete :: "gateway_env \<Rightarrow> model_request \<Rightarrow> model_response gateway_act" where
  "gateway_complete env q = (case request_candidates q of
     Inl _ \<Rightarrow> raiseG (Model_error (routed_error (ge_secret env)
       ''Model request contains an invalid route candidate.'' (mq_provider q) (mq_model q) ''RoutePolicyError''
       ''classification=provider_error;retryable=false'' []))
   | Inr candidates \<Rightarrow>
       bindG (route_deadline env q (length candidates)) (\<lambda>deadline.
       walk_route env q deadline (length candidates) 1 candidates [] None))"

end
