(* ===== verification/Model_Dispatch.thy ===== *)
theory Model_Dispatch imports Model_Completion begin

text \<open>
  What the model gateway hands to adapters: the judgement \<open>sends\<close>, with a rule for each step
  of the gateway, and what it gives for \<open>gateway_complete\<close>.
\<close>

section \<open>The judgement\<close>

text \<open>
  An action hands at most \<open>n\<close> requests to adapters, each with the property \<open>P\<close>, gives back
  every slot it takes, and if it returns, its result has the property \<open>Q\<close>.
\<close>

named_theorems sends_intros

definition sends :: "(model_request \<Rightarrow> bool) \<Rightarrow> nat \<Rightarrow> ('a \<Rightarrow> bool) \<Rightarrow> 'a gateway_act \<Rightarrow> bool" where
  "sends P n Q m \<longleftrightarrow> (\<forall>s. case m s of (r, s') \<Rightarrow>
     (\<exists>new. gs_sent s' = gs_sent s @ new \<and> list_all P new \<and> length new \<le> n) \<and> gs_held s' = gs_held s
     \<and> (case r of Inl _ \<Rightarrow> True | Inr x \<Rightarrow> Q x))"

lemma sendsI:
  assumes "\<And>s r s'. m s = (r, s') \<Longrightarrow>
    (\<exists>new. gs_sent s' = gs_sent s @ new \<and> list_all P new \<and> length new \<le> n) \<and> gs_held s' = gs_held s
      \<and> (case r of Inl _ \<Rightarrow> True | Inr x \<Rightarrow> Q x)"
  shows "sends P n Q m"
  unfolding sends_def using assms by fastforce

lemma sendsD:
  assumes "sends P n Q m" "m s = (r, s')"
  obtains new where "gs_sent s' = gs_sent s @ new" "list_all P new" "length new \<le> n" "gs_held s' = gs_held s"
    "\<And>x. r = Inr x \<Longrightarrow> Q x"
proof -
  have "case m s of (r, s') \<Rightarrow>
     (\<exists>new. gs_sent s' = gs_sent s @ new \<and> list_all P new \<and> length new \<le> n) \<and> gs_held s' = gs_held s
     \<and> (case r of Inl _ \<Rightarrow> True | Inr x \<Rightarrow> Q x)"
    by (rule assms(1) [unfolded sends_def, THEN spec])
  then show thesis using assms(2) that by (auto split: sum.splits)
qed

lemma sends_bind:
  assumes m: "sends P a Q m" and f: "\<And>x. Q x \<Longrightarrow> sends P b R (f x)"
  shows "sends P (a + b) R (bindG m f)"
proof (rule sendsI)
  fix s r s' assume run: "bindG m f s = (r, s')"
  obtain r1 s1 where m1: "m s = (r1, s1)" by fastforce
  obtain new where new: "gs_sent s1 = gs_sent s @ new" "list_all P new" "length new \<le> a" "gs_held s1 = gs_held s"
    and Q: "\<And>x. r1 = Inr x \<Longrightarrow> Q x" by (rule sendsD [OF m m1]) blast
  show "(\<exists>new. gs_sent s' = gs_sent s @ new \<and> list_all P new \<and> length new \<le> a + b) \<and> gs_held s' = gs_held s
      \<and> (case r of Inl _ \<Rightarrow> True | Inr x \<Rightarrow> R x)"
  proof (cases r1)
    case (Inl e)
    with run m1 have "r = Inl e" "s' = s1" by (simp_all add: bindG_def)
    with new show ?thesis by auto
  next
    case (Inr x)
    then have fx: "f x s1 = (r, s')" using run m1 by (simp add: bindG_def)
    obtain new' where new': "gs_sent s' = gs_sent s1 @ new'" "list_all P new'" "length new' \<le> b"
        "gs_held s' = gs_held s1" and R: "\<And>x. r = Inr x \<Longrightarrow> R x"
      by (rule sendsD [OF f [OF Q [OF Inr]] fx]) blast
    have "gs_sent s' = gs_sent s @ (new @ new')" "list_all P (new @ new')" "length (new @ new') \<le> a + b"
      using new new' by simp_all
    then have "\<exists>new. gs_sent s' = gs_sent s @ new \<and> list_all P new \<and> length new \<le> a + b" by blast
    moreover have "case r of Inl _ \<Rightarrow> True | Inr x \<Rightarrow> R x" using R by (cases r) simp_all
    ultimately show ?thesis using new(4) new'(4) by simp
  qed
qed

lemma sends_mono:
  assumes "sends P a Q m" "a \<le> b" "\<And>q. P q \<Longrightarrow> P' q" "\<And>x. Q x \<Longrightarrow> Q' x"
  shows "sends P' b Q' m"
proof (rule sendsI)
  fix s r s' assume run: "m s = (r, s')"
  obtain new where "gs_sent s' = gs_sent s @ new" "list_all P new" "length new \<le> a"
    "gs_held s' = gs_held s" "\<And>x. r = Inr x \<Longrightarrow> Q x" using sendsD [OF assms(1) run] by blast
  then show "(\<exists>new. gs_sent s' = gs_sent s @ new \<and> list_all P' new \<and> length new \<le> b) \<and> gs_held s' = gs_held s
      \<and> (case r of Inl _ \<Rightarrow> True | Inr x \<Rightarrow> Q' x)"
    using assms(2-4) by (fastforce simp: list_all_iff split: sum.split)
qed

lemma sends_quiet:
  assumes "sends P 0 Q m" "\<And>x. Q x \<Longrightarrow> sends P n R (f x)"
  shows "sends P n R (bindG m f)"
  using sends_bind [OF assms] by simp

lemma sends_return [sends_intros]: "Q x \<Longrightarrow> sends P n Q (returnG x)"
  by (simp add: sends_def returnG_def)

lemma sends_raise [sends_intros]: "sends P n Q (raiseG e)"
  by (simp add: sends_def raiseG_def)

lemma sends_lift: "(\<And>x. r = Inr x \<Longrightarrow> Q x) \<Longrightarrow> sends P n Q (liftG r)"
  by (auto simp: sends_def liftG_def split: sum.split)

lemma sends_lift_any: "sends P n (\<lambda>_. True) (liftG r)"
  by (rule sends_lift) simp

lemma sends_tick [sends_intros]: "sends P n (\<lambda>_. True) tick"
  by (simp add: sends_def tick_def)

lemma sends_perf_counter [sends_intros]: "sends P n (\<lambda>_. True) (perf_counter env)"
  unfolding perf_counter_def by (rule sends_quiet [OF sends_tick]) (simp add: sends_return)

lemma sends_on_health: "(\<And>g. Q (fst (f g))) \<Longrightarrow> sends P n Q (on_health f)"
  by (auto simp: sends_def on_health_def split: prod.split) (metis fst_conv)

lemma sends_outcome:
  assumes "sends P n Q m"
  shows "sends P n (\<lambda>r. case r of Inl _ \<Rightarrow> True | Inr x \<Rightarrow> Q x) (outcomeG m)"
proof (rule sendsI)
  fix s r s' assume "outcomeG m s = (r, s')"
  then obtain r1 where "m s = (r1, s')" "r = Inr r1" by (auto simp: outcomeG_def split: prod.splits)
  then show "(\<exists>new. gs_sent s' = gs_sent s @ new \<and> list_all P new \<and> length new \<le> n) \<and> gs_held s' = gs_held s
      \<and> (case r of Inl _ \<Rightarrow> True | Inr x \<Rightarrow> (case x of Inl _ \<Rightarrow> True | Inr x \<Rightarrow> Q x))"
    using sendsD [OF assms, of s r1 s'] by (cases r1) (simp, blast, simp, blast)
qed

lemma sends_if: "(b \<Longrightarrow> sends P n Q m) \<Longrightarrow> (\<not> b \<Longrightarrow> sends P n Q k) \<Longrightarrow> sends P n Q (if b then m else k)"
  by simp

text \<open>A slot that was acquired is given back on every path.\<close>

lemma sends_gated:
  assumes "sends P n Q m"
  shows "sends P n Q (bindG (acquire_gate env p) (\<lambda>ok. if \<not> ok then raiseG e else finallyG m (release_gate p)))"
proof (rule sendsI)
  fix s r s'
  assume run: "bindG (acquire_gate env p) (\<lambda>ok. if \<not> ok then raiseG e else finallyG m (release_gate p)) s = (r, s')"
  let ?s1 = "s\<lparr>gs_ticks := Suc (gs_ticks s)\<rparr>" let ?s2 = "?s1\<lparr>gs_held := p # gs_held s\<rparr>"
  show "(\<exists>new. gs_sent s' = gs_sent s @ new \<and> list_all P new \<and> length new \<le> n) \<and> gs_held s' = gs_held s
      \<and> (case r of Inl _ \<Rightarrow> True | Inr x \<Rightarrow> Q x)"
  proof (cases "ge_acquire env (gs_ticks s)")
    case True
    obtain r1 s1 where m1: "m ?s2 = (r1, s1)" by fastforce
    have "r = r1" "s' = release_gate p s1"
      using run True m1 by (auto simp: bindG_def acquire_gate_def tick_def finallyG_def)
    moreover obtain new where "gs_sent s1 = gs_sent ?s2 @ new" "list_all P new" "length new \<le> n"
        "gs_held s1 = gs_held ?s2" "\<And>x. r1 = Inr x \<Longrightarrow> Q x" using sendsD [OF assms m1] by blast
    ultimately show ?thesis by (auto simp: release_gate_def split: sum.split)
  next
    case False
    then show ?thesis using run by (auto simp: bindG_def acquire_gate_def tick_def returnG_def raiseG_def)
  qed
qed

section \<open>The calls of one candidate\<close>

text \<open>A request that differs from \<open>q\<close> in its messages, timeout and metadata only.\<close>

definition same_target :: "model_request \<Rightarrow> model_request \<Rightarrow> bool" where
  "same_target q x \<longleftrightarrow> mq_provider x = mq_provider q \<and> mq_model x = mq_model q \<and> mq_tools x = mq_tools q
     \<and> mq_max_tokens x = mq_max_tokens q \<and> mq_fallbacks x = mq_fallbacks q"

definition timed_call :: "model_request \<Rightarrow> model_request \<Rightarrow> bool" where
  "timed_call q x \<longleftrightarrow> same_target q x \<and> (case mq_timeout_seconds x of None \<Rightarrow> False | Some t \<Rightarrow> t > 0)"

lemma timed_call_trans: "same_target q x \<Longrightarrow> timed_call x y \<Longrightarrow> timed_call q y"
  by (simp add: timed_call_def same_target_def)

lemma same_target_refl [simp]: "same_target q q"
  by (simp add: same_target_def)

lemma sends_dispatch: "P q \<Longrightarrow> sends P 1 (\<lambda>_. True) (dispatch q)"
  by (simp add: sends_def dispatch_def)

lemma sends_adapter: "P q \<Longrightarrow> sends P 1 (\<lambda>_. True) (adapter_complete env kind q)"
proof -
  assume P: "P q"
  have "sends P 0 (\<lambda>_. True) (case kind of
      Mock_adapter \<Rightarrow> mock_complete env q | Provider_stub \<Rightarrow> raiseG (stub_error (mq_provider q))
    | _ \<Rightarrow> bindG tick (\<lambda>k. liftG (ge_reply env k q)))"
    by (cases kind) (auto simp: mock_complete_def Let_def intro!: sends_if sends_quiet [OF sends_tick]
        sends_quiet [OF sends_perf_counter] sends_lift sends_raise sends_return)
  with sends_bind [OF sends_dispatch [of P, OF P]] show ?thesis by (simp add: adapter_complete_def)
qed

lemma sends_single: "sends (timed_call q) 1 (\<lambda>_. True) (complete_single env q)"
proof -
  have body: "sends (timed_call q) 1 (\<lambda>_. True) (bindG (perf_counter env) (\<lambda>now.
      let remaining = t - now in if remaining \<le> 0 then raiseG e
      else adapter_complete env kind (q\<lparr>mq_timeout_seconds := Some remaining\<rparr>)))" for t e kind
    unfolding Let_def
    by (intro sends_quiet [OF sends_perf_counter] sends_if sends_raise sends_adapter)
      (simp add: timed_call_def same_target_def)
  show ?thesis
  proof (cases "map_of (ge_adapters env) (mq_provider q)")
    case (Some kind)
    show ?thesis
      unfolding complete_single_def Some option.case
      by (rule sends_quiet [OF sends_lift_any], rule sends_quiet [OF sends_lift_any],
          rule sends_quiet [OF sends_perf_counter], rule sends_gated [OF body])
  qed (simp add: complete_single_def sends_raise)
qed

text \<open>A validated response is complete or partial with text, and calls only tools of its request.\<close>

definition only_tools_of :: "model_request \<Rightarrow> model_response \<Rightarrow> bool" where
  "only_tools_of q r \<longleftrightarrow> set (map tc_name (mr_tool_calls r)) \<subseteq> set (map td_name (mq_tools q))"

lemma validated_tools:
  assumes "validate_model_response secret show p m allowed attempts response = Inr r"
  shows "set (map tc_name (mr_tool_calls r)) \<subseteq> set allowed"
proof -
  obtain raw partial reason v where
    "valid_content show raw allowed partial = Inr (mr_tool_calls r, reason, v)"
    using assms by (auto simp: validate_model_response_def split: option.splits sum.splits prod.splits)
  then have "ensure_tool_calls_allowed (mr_tool_calls r) allowed = Inr ()"
    by (auto simp: valid_content_def)
  then show ?thesis by (auto simp: ensure_tool_calls_allowed_def filter_empty_conv)
qed

lemma sends_validated: "sends (timed_call q) 1 (only_tools_of q) (validated_call env trusted q)"
proof -
  have "sends (timed_call q) 0 (only_tools_of q)
      (case validate_model_response (ge_secret env) (ge_show_float env) (mq_provider q) (mq_model q)
         (map td_name (mq_tools q)) trusted response of
       Inl e \<Rightarrow> raiseG (Model_error e) | Inr r \<Rightarrow> returnG r)" for response
    using validated_tools [of "ge_secret env" "ge_show_float env" "mq_provider q" "mq_model q"
        "map td_name (mq_tools q)" trusted response]
    by (auto simp: only_tools_of_def split: sum.split intro!: sends_raise sends_return)
  from sends_bind [OF sends_single this] show ?thesis by (simp add: validated_call_def)
qed

lemma sends_validated_target:
  assumes "same_target q x"
  shows "sends (timed_call q) 1 (only_tools_of q) (validated_call env trusted x)"
  by (rule sends_mono [OF sends_validated order_refl])
    (use assms in \<open>auto simp: timed_call_trans only_tools_of_def same_target_def\<close>)

definition settled_answer :: "model_request \<Rightarrow> model_response \<Rightarrow> bool" where
  "settled_answer q r \<longleftrightarrow> only_tools_of q r \<and> \<not> mr_partial r"

lemma sends_continue:
  "sends (timed_call q) n (settled_answer q) (continue_response env trusted d q n index responses sofar)"
proof (induction n arbitrary: index responses sofar)
  case (Suc n)
  have step: "sends (timed_call q) n (settled_answer q)
      (let responses' = responses @ [r]; t = merge_continuation_text sofar (mr_text r) in
       if \<not> mr_partial r then returnG (assembled_response responses' t index)
       else continue_response env trusted d q n (Suc index) responses' t)"
    if "only_tools_of q r" for r
    unfolding Let_def
    by (intro sends_if sends_return Suc.IH)
      (use that in \<open>simp add: settled_answer_def only_tools_of_def assembled_response_def\<close>)
  have target: "same_target q (continuation_request q sofar index t)" for t
    by (simp add: same_target_def continuation_request_def)
  have call: "sends (timed_call q) (Suc n) (settled_answer q)
      (bindG (validated_call env trusted (continuation_request q sofar index t)) (\<lambda>r.
        let responses' = responses @ [r]; t = merge_continuation_text sofar (mr_text r) in
        if \<not> mr_partial r then returnG (assembled_response responses' t index)
        else continue_response env trusted d q n (Suc index) responses' t))" for t
    using sends_bind [OF sends_validated_target [OF target, of env trusted t] step] by simp
  show ?case
    by (simp only: continue_response.simps) (intro sends_quiet [OF sends_perf_counter] sends_if sends_raise call)
qed (simp add: sends_raise)

lemma sends_continuations:
  "sends (timed_call q) (Suc (nat (mq_max_continuations q))) (settled_answer q)
     (complete_with_continuations env trusted deadline q)"
proof -
  have dl: "sends (timed_call q) 0 (\<lambda>_. True) (continuation_deadline env q deadline)"
    unfolding continuation_deadline_def
    by (auto split: option.split intro!: sends_return sends_if sends_quiet [OF sends_perf_counter]
        sends_quiet [OF sends_return] sends_quiet [OF sends_lift] sends_lift
        intro: sends_quiet [where Q = "\<lambda>_. True"])
  have "sends (timed_call q) (nat (mq_max_continuations q)) (settled_answer q)
      (if \<not> mr_partial r then returnG r
       else bindG (continuation_deadline env q deadline) (\<lambda>d.
        continue_response env trusted d q (nat (mq_max_continuations q)) 1 [r] (mr_text r)))"
    if "only_tools_of q r" for r
    by (intro sends_if sends_return sends_quiet [OF dl] sends_continue) (use that in \<open>simp add: settled_answer_def\<close>)
  from sends_bind [OF sends_validated this] show ?thesis
    by (simp add: complete_with_continuations_def)
qed

lemma sends_retry:
  assumes "same_target q x" "mq_max_continuations x = mq_max_continuations q"
  shows "sends (timed_call q) (Suc n * Suc (nat (mq_max_continuations q))) (settled_answer q)
     (complete_with_retry env trusted deadline n attempt x)"
  using assms
proof (induction n arbitrary: attempt x)
  have call: "sends (timed_call q) (Suc (nat (mq_max_continuations q))) (settled_answer q)
      (complete_with_continuations env trusted deadline x)"
    if "same_target q x" "mq_max_continuations x = mq_max_continuations q" for x
    by (rule sends_mono [OF sends_continuations])
      (use that in \<open>auto simp: timed_call_trans settled_answer_def only_tools_of_def same_target_def\<close>)
  { case 0 then show ?case using call by simp }
  case (Suc n)
  define b where "b = Suc n * Suc (nat (mq_max_continuations q))"
  have retry: "sends (timed_call q) b (settled_answer q)
      (complete_with_retry env trusted deadline n (Suc attempt) (retry_request x t (Suc attempt)))" for t
    unfolding b_def by (rule Suc.IH) (use Suc.prems in \<open>simp_all add: retry_request_def same_target_def\<close>)
  have left: "sends (timed_call q) 0 (\<lambda>_. True) (remaining_seconds env deadline x)"
    unfolding remaining_seconds_def
    by (auto split: option.split intro!: sends_return sends_quiet [OF sends_perf_counter])
  have after: "sends (timed_call q) b (settled_answer q) (case r of
      Inr v \<Rightarrow> returnG v
    | Inl (Other_exn e) \<Rightarrow> raiseG (Other_exn e)
    | Inl (Model_error e) \<Rightarrow>
        if me_error_class e \<noteq> Some ''InvalidModelResponse'' then raiseG (Model_error e)
        else bindG (remaining_seconds env deadline x) (\<lambda>remaining.
          if (case remaining of None \<Rightarrow> False | Some t \<Rightarrow> t \<le> 0) then raiseG (Model_error e)
          else complete_with_retry env trusted deadline n (Suc attempt) (retry_request x remaining (Suc attempt))))"
    if "case r of Inl _ \<Rightarrow> True | Inr v \<Rightarrow> settled_answer q v" for r
    using retry that by (cases r)
      (auto split: gateway_exn.split intro!: sends_return sends_raise sends_if sends_quiet [OF left])
  show ?case
    using sends_bind [OF sends_outcome [OF call [OF Suc.prems]] after]
    by (simp add: b_def algebra_simps)
qed

section \<open>The route\<close>

text \<open>
  What must hold of the \<open>attempt\<close>-th candidate for a request to reach its adapter: a real provider
  needs the confirmation of the run and, as a fallback, its own approval; the mock is a fallback
  only when that is allowed; the provider is ready, and the model has what the request asks for.
\<close>

definition route_permitted :: "gateway_env \<Rightarrow> model_request \<Rightarrow> nat \<Rightarrow> route_candidate \<Rightarrow> bool" where
  "route_permitted env q attempt c \<longleftrightarrow>
    (cd_provider c \<in> set REAL_MODEL_PROVIDERS \<longrightarrow>
       (confirmed q ''run_bound'' \<longrightarrow> confirmed q ''real_model_access_confirmed'')
       \<and> (attempt > 1 \<longrightarrow> cd_allow_real_calls c))
    \<and> (cd_provider c = ''mock'' \<and> attempt > 1 \<longrightarrow> confirmed q ''allow_mock_fallback'')
    \<and> provider_ready env (cd_provider c) = Inr True
    \<and> (case require_capability (ge_capabilities env) (cd_provider c) (cd_model c) (request_requirements q) of
         Inl _ \<Rightarrow> False | Inr _ \<Rightarrow> True)"

definition authorised_call :: "gateway_env \<Rightarrow> model_request \<Rightarrow> route_candidate list \<Rightarrow> model_request \<Rightarrow> bool" where
  "authorised_call env q cs x \<longleftrightarrow> (\<exists>i < length cs. route_permitted env q (Suc i) (cs ! i)
     \<and> timed_call (candidate_request env q (Suc i) (cs ! i)) x)"

text \<open>An answer is settled, names a permitted candidate and closes its receipt with a success.\<close>

definition routed_answer :: "gateway_env \<Rightarrow> model_request \<Rightarrow> route_candidate list \<Rightarrow> model_response \<Rightarrow> bool" where
  "routed_answer env q cs r \<longleftrightarrow> settled_answer q r
     \<and> (\<exists>i < length cs. route_permitted env q (Suc i) (cs ! i)
         \<and> mr_selected_provider r = Some (cd_provider (cs ! i)) \<and> mr_selected_model r = Some (cd_model (cs ! i)))
     \<and> mr_route_receipt r \<noteq> [] \<and> jget (last (mr_route_receipt r)) ''outcome'' = JStr ''succeeded''"

lemma early_rejection_None:
  "early_rejection q attempt c = None \<Longrightarrow>
    (cd_provider c \<in> set REAL_MODEL_PROVIDERS \<longrightarrow>
       (confirmed q ''run_bound'' \<longrightarrow> confirmed q ''real_model_access_confirmed'')
       \<and> (attempt > 1 \<longrightarrow> cd_allow_real_calls c))
    \<and> (cd_provider c = ''mock'' \<and> attempt > 1 \<longrightarrow> confirmed q ''allow_mock_fallback'')"
  by (auto simp: early_rejection_def split: if_splits)

lemma ask_route_usable:
  assumes "route_usable (fst (ask_route env q k c g))"
  shows "provider_ready env (cd_provider c) = Inr True
    \<and> (case require_capability (ge_capabilities env) (cd_provider c) (cd_model c) (request_requirements q) of
         Inl _ \<Rightarrow> False | Inr _ \<Rightarrow> True)"
proof -
  obtain h where "reject_reason (route_question env q k) 0 c (Some g) = (None, h)"
    using assms by (auto simp: ask_route_def explain_route_def route_usable_def split: prod.splits option.splits)
  then have "provider_ready env (cd_provider c) = Inr True" "\<not> capability_mismatch (route_question env q k) c"
    by (auto simp: reject_reason_def route_question_def split: prod.splits if_splits)
  then show ?thesis by (simp add: capability_mismatch_def route_question_def split: sum.splits)
qed

lemma sends_rejection_reason:
  assumes "early_rejection q attempt c = None"
  shows "sends P 0 (\<lambda>x. x = None \<longrightarrow> route_permitted env q attempt c) (route_rejection_reason env q c)"
proof -
  have "route_permitted env q attempt c" if "route_usable (fst (ask_route env q k c g))" for k g
    using ask_route_usable [OF that] early_rejection_None [OF assms] by (simp add: route_permitted_def)
  then have health: "sends P 0 (\<lambda>d. route_usable d \<longrightarrow> route_permitted env q attempt c)
      (on_health (ask_route env q k c))" for k
    by (intro sends_on_health) blast
  show ?thesis
    unfolding route_rejection_reason_def Let_def
    by (rule sends_quiet [OF sends_tick], rule sends_quiet [OF health],
        intro sends_if sends_return sends_quiet [OF sends_lift_any]) auto
qed

definition good_end :: "gateway_env \<Rightarrow> model_request \<Rightarrow> route_candidate list \<Rightarrow> candidate_end \<Rightarrow> bool" where
  "good_end env q cs x = (case x of Selected r \<Rightarrow> routed_answer env q cs r | _ \<Rightarrow> True)"

definition calls_of :: "model_request \<Rightarrow> nat" where
  "calls_of q = 2 * Suc (nat (mq_max_continuations q))"

lemma sends_failed: "sends P n (good_end env q cs) (candidate_failed env m attempt c receipt e)"
  unfolding candidate_failed_def Let_def
  by (rule sends_quiet [OF sends_tick], rule sends_quiet [OF sends_on_health [where Q = "\<lambda>_. True"]], simp,
      intro sends_if sends_raise sends_return) (simp add: good_end_def)

lemma sends_call_candidate:
  assumes i: "i < length cs" "route_permitted env q (Suc i) (cs ! i)"
    and x: "same_target (candidate_request env q (Suc i) (cs ! i)) x" "mq_max_continuations x = mq_max_continuations q"
  shows "sends (authorised_call env q cs) (calls_of q) (good_end env q cs)
    (call_candidate env deadline n (Suc i) (cs ! i) receipt x)"
proof -
  let ?c = "cs ! i" let ?q = "candidate_request env q (Suc i) ?c"
  have max: "mq_max_continuations ?q = mq_max_continuations q" "mq_tools ?q = mq_tools q"
    by (simp_all add: candidate_request_def Let_def)
  have call: "sends (authorised_call env q cs) (calls_of q)
      (\<lambda>r. case r of Inl _ \<Rightarrow> True | Inr v \<Rightarrow> settled_answer q v)
      (outcomeG (complete_with_retry env t deadline INVALID_RESPONSE_RETRY_LIMIT 0 x))" for t
    by (rule sends_outcome, rule sends_mono [OF sends_retry [OF x(1)]])
      (use i x max in \<open>auto simp: authorised_call_def calls_of_def INVALID_RESPONSE_RETRY_LIMIT_def
        settled_answer_def only_tools_of_def\<close>)
  have answer: "routed_answer env q cs (selected_response env ?c (receipt @ success_entries env (Suc i) ?c t v) v)"
    if "settled_answer q v" for t v
    using i that
    by (auto simp: routed_answer_def selected_response_def Let_def settled_answer_def only_tools_of_def
        success_entries_def route_receipt_entry_def candidate_entry_def plain_receipt_def jget_def)
  have after: "sends (authorised_call env q cs) 0 (good_end env q cs) (case r of
       Inl (Other_exn e) \<Rightarrow> raiseG (Other_exn e)
     | Inl (Model_error e) \<Rightarrow> candidate_failed env n (Suc i) ?c receipt e
     | Inr v \<Rightarrow>
         bindG (on_health (\<lambda>g. ((), record_success (cd_provider ?c) (Some (mr_latency_ms v)) g))) (\<lambda>_.
         returnG (Selected (selected_response env ?c (receipt @ success_entries env (Suc i) ?c t v) v))))"
    if "case r of Inl _ \<Rightarrow> True | Inr v \<Rightarrow> settled_answer q v" for r t
  proof (cases r)
    case (Inl e)
    then show ?thesis by (cases e) (simp_all add: sends_raise sends_failed)
  next
    case (Inr v)
    with that answer [of v t] show ?thesis
      by (auto simp: good_end_def intro!: sends_quiet [OF sends_on_health [where Q = "\<lambda>_. True"]] sends_return)
  qed
  show ?thesis
    using sends_bind [OF call after] by (simp add: call_candidate_def Let_def)
qed

lemma sends_try:
  assumes i: "i < length cs"
  shows "sends (authorised_call env q cs) (calls_of q) (good_end env q cs)
    (try_candidate env q deadline n (Suc i) (cs ! i) receipt)"
proof (cases "early_rejection q (Suc i) (cs ! i)")
  case (Some reason)
  then show ?thesis by (simp add: try_candidate_def sends_return good_end_def)
next
  case None
  let ?q = "candidate_request env q (Suc i) (cs ! i)"
  have q: "mq_max_continuations ?q = mq_max_continuations q"
    by (simp add: candidate_request_def Let_def)
  note rejected = sends_rejection_reason [OF None, of "authorised_call env q cs" env]
  show ?thesis
    unfolding try_candidate_def None option.case Let_def
  proof (rule sends_quiet [OF rejected])
    fix x :: "string option"
    assume x: "x = None \<longrightarrow> route_permitted env q (Suc i) (cs ! i)"
    show "sends (authorised_call env q cs) (calls_of q) (good_end env q cs) (case x of
        Some reason \<Rightarrow>
          if n > 1 \<and> Suc i = 1 \<and> reason \<in> {''provider_not_configured'', ''provider_not_ready''} then
            raiseG (not_ready_error env (cs ! i) reason (receipt @ [rejected_entry env (Suc i) (cs ! i) reason]))
          else returnG (Next_candidate (receipt @ [rejected_entry env (Suc i) (cs ! i) reason]) None)
      | None \<Rightarrow> (case deadline of
            None \<Rightarrow> call_candidate env deadline n (Suc i) (cs ! i) receipt ?q
          | Some d \<Rightarrow> bindG (perf_counter env) (\<lambda>now.
              if d - now \<le> 0 then returnG (Route_ended
                (receipt @ [rejected_entry env (Suc i) (cs ! i) ''route_timeout_budget_exhausted'']))
              else call_candidate env deadline n (Suc i) (cs ! i) receipt (?q\<lparr>mq_timeout_seconds := Some (d - now)\<rparr>))))"
    proof (cases x)
      case None
      with x have p: "route_permitted env q (Suc i) (cs ! i)" by simp
      have call: "sends (authorised_call env q cs) (calls_of q) (good_end env q cs)
          (call_candidate env deadline n (Suc i) (cs ! i) receipt (?q\<lparr>mq_timeout_seconds := t\<rparr>))" for t
        by (rule sends_call_candidate [OF i p]) (simp_all add: same_target_def q)
      have "sends (authorised_call env q cs) (calls_of q) (good_end env q cs)
          (call_candidate env deadline n (Suc i) (cs ! i) receipt ?q)"
        by (rule sends_call_candidate [OF i p]) (simp_all add: q)
      with call None show ?thesis
        by (auto simp: good_end_def split: option.split
            intro!: sends_quiet [OF sends_perf_counter] sends_if sends_return)
    qed (auto simp: good_end_def intro!: sends_if sends_raise sends_return)
  qed
qed

lemma sends_walk:
  "length pre + length rest = length cs \<Longrightarrow> cs = pre @ rest \<Longrightarrow>
   sends (authorised_call env q cs) (length rest * calls_of q) (routed_answer env q cs)
    (walk_route env q deadline n (Suc (length pre)) rest receipt last_error)"
proof (induction rest arbitrary: pre receipt last_error)
  case (Cons c rest)
  then have i: "length pre < length cs" "cs ! length pre = c" by (simp_all add: nth_append)
  have walk: "sends (authorised_call env q cs) (length rest * calls_of q) (routed_answer env q cs)
      (walk_route env q deadline n (Suc (Suc (length pre))) rest receipt' e)" for receipt' e
    using Cons.IH [of "pre @ [c]" receipt' e] Cons.prems by simp
  have "sends (authorised_call env q cs) (length rest * calls_of q) (routed_answer env q cs) (case r of
      Next_candidate receipt' e \<Rightarrow> walk_route env q deadline n (Suc (Suc (length pre))) rest receipt'
        (case e of None \<Rightarrow> last_error | Some x \<Rightarrow> Some x)
    | Route_ended receipt' \<Rightarrow> raiseG (route_failed env q n receipt' last_error)
    | Selected v \<Rightarrow> returnG v)" if "good_end env q cs r" for r
    using that walk by (cases r) (auto simp: good_end_def intro!: sends_raise sends_return)
  from sends_bind [OF sends_try [OF i(1), of env q deadline n receipt] this] show ?case
    using i(2) by (simp add: algebra_simps)
qed (simp add: sends_raise)

lemma sends_complete:
  assumes cs: "request_candidates q = Inr cs"
  shows "sends (authorised_call env q cs) (length cs * calls_of q) (routed_answer env q cs) (gateway_complete env q)"
proof -
  have "sends (authorised_call env q cs) 0 (\<lambda>_. True) (route_deadline env q (length cs))"
    unfolding route_deadline_def
    by (intro sends_if sends_return TrueI sends_quiet [OF sends_lift_any] sends_quiet [OF sends_perf_counter])
  from sends_quiet [OF this sends_walk [of "[]" cs cs]] show ?thesis
    by (simp add: gateway_complete_def cs)
qed

text \<open>
  C39. Every dispatch to a model provider is authorised. Whatever the adapters, the clocks and the
  other threads do, a completion hands a request only to a candidate of its route that the checks
  permit: a real provider only with the confirmation of a run-bound request and as a fallback
  only with its own approval, the mock as a fallback only when allowed, a ready provider, a
  capable model, with the tools of the request and a positive timeout. It makes at most two
  times one more than the continuations calls for each candidate and gives back each
  concurrency slot. An answer is complete, calls only tools of the request, names the permitted
  candidate that gave it, and its receipt ends with that success.
\<close>

theorem every_dispatch_is_authorised:
  "case gateway_complete env q s of (r, s') \<Rightarrow> gs_held s' = gs_held s \<and>
    (case request_candidates q of
       Inl _ \<Rightarrow> gs_sent s' = gs_sent s
     | Inr cs \<Rightarrow>
         (\<exists>new. gs_sent s' = gs_sent s @ new \<and> list_all (authorised_call env q cs) new
            \<and> length new \<le> length cs * calls_of q)
         \<and> (case r of Inl _ \<Rightarrow> True | Inr v \<Rightarrow> routed_answer env q cs v))"
proof (cases "request_candidates q")
  case (Inl e)
  then show ?thesis by (simp add: gateway_complete_def raiseG_def)
next
  case (Inr cs)
  then show ?thesis using sends_complete [OF Inr, of env, unfolded sends_def, THEN spec, of s] by auto
qed

section \<open>Evidence and text\<close>

text \<open>The evidence that the code makes of an attempt passes its own validation unchanged.\<close>

lemma identifier_text_strip: "identifier_text v \<Longrightarrow> strip v = v"
proof -
  assume "identifier_text v"
  then have "list_all (\<lambda>c. c \<in> set MODEL_RESPONSE_IDENTIFIER_CHARS) v" by (simp add: identifier_text_def)
  moreover have "list_all (\<lambda>c. \<not> is_space c) MODEL_RESPONSE_IDENTIFIER_CHARS" by code_simp
  ultimately have clean: "\<not> is_space c" if "c \<in> set v" for c
    using that by (auto simp: list_all_iff)
  then have "dropWhile is_space v = v" "dropWhile is_space (rev v) = rev v"
    by (cases v, simp, simp, cases "rev v", simp) (metis dropWhile.simps(2) list.set_intros(1) set_rev)
  then show ?thesis by (simp add: strip_def)
qed

lemma safe_identifier_ok: "identifier_text fallback \<Longrightarrow> identifier_text (safe_model_identifier secret v fallback)"
  by (simp add: safe_model_identifier_def Let_def)

lemma evidence_validates:
  "validated_attempt index (JObj (provider_attempt_evidence secret index error_class summary retryable))
     = Inr (provider_attempt_evidence secret index error_class summary retryable)"
proof -
  have "identifier_text ''ProviderError''" by code_simp
  then have id: "identifier_text (safe_model_error_class secret error_class)"
    unfolding safe_model_error_class_def by (rule safe_identifier_ok)
  have known: "summary_accepted UNCLASSIFIED_MODEL_ERROR_SUMMARY" by code_simp
  show ?thesis
    using id identifier_text_strip [OF id] known
    by (auto simp: validated_attempt_def provider_attempt_evidence_def ATTEMPT_KEYS_def jget_def bindE_def
        guardE_def validated_model_response_identifier_def normalize_model_error_summary_def
        UNCLASSIFIED_MODEL_ERROR_SUMMARY_def split: option.split)
qed

text \<open>
  The numbers of the attempts start at one in each response. When two parts of a continued
  response have evidence, the constructor of the error refuses their concatenation, and an
  incomplete response is reported as an invalid one.
\<close>

lemma evidence_of_two_parts_is_refused:
  assumes "map mr_provider_attempts responses
    = [[provider_attempt_evidence secret 1 a x True], [provider_attempt_evidence secret 1 b y True]]"
  shows "incomplete_error env q responses = Model_error invalid_metadata"
proof -
  have c: "concat (map mr_provider_attempts responses)
      = [provider_attempt_evidence secret 1 a x True, provider_attempt_evidence secret 1 b y True]"
    by (simp only: assms) simp
  have "validated_attempt 2 (JObj (provider_attempt_evidence secret 1 b y True)) = Inl invalid_metadata"
    by (simp add: validated_attempt_def provider_attempt_evidence_def ATTEMPT_KEYS_def jget_def bindE_def guardE_def)
  then have "validated_provider_attempts (JList (map JObj (concat (map mr_provider_attempts responses))))
      = Inl invalid_metadata"
    by (simp only: c) (simp add: validated_provider_attempts_def numeral_2_eq_2 [symmetric] bindE_def evidence_validates)
  then show ?thesis by (simp add: incomplete_error_def raised_model_error_def del: map_concat)
qed

text \<open>A continuation never takes text away.\<close>

lemma merge_overlap_extends: "merge_overlap v c n = Some m \<Longrightarrow> prefix v m"
  by (induction n) (auto split: if_splits)

lemma merge_extends: "prefix v (merge_continuation_text v c)"
  by (auto simp: merge_continuation_text_def Let_def split: option.split dest: merge_overlap_extends)

section \<open>An example\<close>

definition example_gateway_env :: gateway_env where
  "example_gateway_env = \<lparr>ge_adapters = [(''mock'', Mock_adapter), (''openai'', Openai_compatible)],
     ge_reply = (\<lambda>k q. Inr None), ge_capabilities = default_model_capability_registry,
     ge_clock = (\<lambda>k. of_nat k / 1000), ge_health_clock = (\<lambda>k. of_nat k / 1000), ge_acquire = (\<lambda>k. True),
     ge_environ = (\<lambda>k. None), ge_float = (\<lambda>v. None), ge_urlparse = (\<lambda>v. None), ge_loopback_ip = (\<lambda>v. False),
     ge_secret = (\<lambda>v. False), ge_show_float = (\<lambda>q. []), ge_py_str = (\<lambda>v. []), ge_utf8_length = length\<rparr>"

definition example_gateway_state :: gateway_state where
  "example_gateway_state = \<lparr>gs_health = \<lparr>hr_failure_threshold = 3, hr_cooldown_seconds = 60, hr_states = []\<rparr>,
     gs_sent = [], gs_held = [], gs_ticks = 0\<rparr>"

definition example_completion :: "string \<Rightarrow> model_request" where
  "example_completion provider = \<lparr>mq_provider = provider, mq_model = ''m'', mq_system_prompt = ''s'',
     mq_messages = [], mq_temperature = None, mq_max_tokens = None, mq_max_continuations = 0,
     mq_reasoning_effort = None, mq_timeout_seconds = Some 10, mq_tools_allowed = [], mq_tools = [],
     mq_fallbacks = [], mq_input_usd_per_million = None, mq_output_usd_per_million = None,
     mq_metadata = [(''run_bound'', JBool True)]\<rparr>"

text \<open>The mock answers a run-bound request; a real provider without confirmation is not asked.\<close>

lemma mock_answers:
  "case gateway_complete example_gateway_env (example_completion ''mock'') example_gateway_state of
     (Inr r, s') \<Rightarrow> length (gs_sent s') = 1 \<and> mr_selected_provider r = Some ''mock'' \<and> gs_held s' = []
   | _ \<Rightarrow> False"
  by code_simp

lemma unconfirmed_is_not_asked:
  "case gateway_complete example_gateway_env (example_completion ''openai'') example_gateway_state of
     (Inl (Model_error e), s') \<Rightarrow> gs_sent s' = [] \<and> me_error_class e = Some ''RoutePolicyError''
       \<and> map (\<lambda>x. jget x ''reason'') (me_route_receipt e) = [JStr ''real_model_access_not_confirmed'']
   | _ \<Rightarrow> False"
  by code_simp

end
