(* ===== verification/Unified_Diff.thy ===== *)
theory Unified_Diff imports Tool_Gateway Model_Errors begin

text \<open>
  The patches of \<open>backend/app/core/writeback.py\<close>: finding the fenced diff in an artifact, parsing
  a unified diff, the paths a patch may name and the application of a file patch to a text. An
  index into the list of lines is the list of the lines that are left.
\<close>

section \<open>Lines\<close>

text \<open>\<open>str.splitlines(keepends=True)\<close>: the separators are those of Python, not only newlines.\<close>

definition CR :: char where "CR = CHR 0x0D"
definition LF :: char where "LF = CHR 0x0A"

definition line_break :: "char \<Rightarrow> bool" where
  "line_break c \<longleftrightarrow> c \<in> {CHR 0x0A, CHR 0x0B, CHR 0x0C, CHR 0x0D, CHR 0x1C, CHR 0x1D, CHR 0x1E, CHR 0x85}"

fun split_lines :: "string \<Rightarrow> string list" where
  "split_lines [] = []"
| "split_lines (c # cs) =
    (if c = CR \<and> take 1 cs = [LF] then [CR, LF] # split_lines (drop 1 cs)
     else if line_break c then [c] # split_lines cs
     else case split_lines cs of [] \<Rightarrow> [[c]] | l # ls \<Rightarrow> (c # l) # ls)"

text \<open>\<open>value.rstrip("\r\n")\<close> and \<open>value.endswith(("\r", "\n"))\<close>.\<close>

definition line_body :: "string \<Rightarrow> string" where
  "line_body v = rev (dropWhile (\<lambda>c. c = CR \<or> c = LF) (rev v))"

definition has_newline :: "string \<Rightarrow> bool" where
  "has_newline v \<longleftrightarrow> v \<noteq> [] \<and> (last v = CR \<or> last v = LF)"

section \<open>The fenced diff\<close>

text \<open>
  The regular expression of \<open>_extract_unified_diff\<close> works on the lines between \<open>\n\<close>: an opening
  fence may end in a carriage return, a closing one may not.
\<close>

definition blank_prefix :: "string \<Rightarrow> string" where
  "blank_prefix v = dropWhile (\<lambda>c. c = CHR '' '' \<or> c = CHR 0x09) v"

definition opening_fence :: "string \<Rightarrow> bool" where
  "opening_fence line \<longleftrightarrow> (let v = blank_prefix line in
     starts_with ''```'' v \<and> (starts_with ''diff'' (lower (drop 3 v)) \<and> blank_prefix (drop 7 v) \<in> {[], [CR]}
       \<or> starts_with ''patch'' (lower (drop 3 v)) \<and> blank_prefix (drop 8 v) \<in> {[], [CR]}))"

definition closing_fence :: "string \<Rightarrow> bool" where
  "closing_fence line \<longleftrightarrow> (let v = blank_prefix line in starts_with ''```'' v \<and> blank_prefix (drop 3 v) = [])"

definition text_of_lines :: "string list \<Rightarrow> string" where
  "text_of_lines ls = concat (map (\<lambda>l. l @ [LF]) ls)"

text \<open>The last of the lines has no \<open>\n\<close> after it and opens no fence.\<close>

function fenced_blocks :: "string list \<Rightarrow> string list" where
  "fenced_blocks [] = []"
| "fenced_blocks (line # rest) =
    (if rest \<noteq> [] \<and> opening_fence line then
       (case dropWhile (\<lambda>l. \<not> closing_fence l) rest of
          [] \<Rightarrow> fenced_blocks rest
        | fence # later \<Rightarrow> text_of_lines (takeWhile (\<lambda>l. \<not> closing_fence l) rest) # fenced_blocks later)
     else fenced_blocks rest)"
  by pat_completeness auto
termination
proof (relation "measure length", goal_cases)
  case (3 line rest fence later)
  have "length (dropWhile (\<lambda>l. \<not> closing_fence l) rest) \<le> length rest" by (rule length_dropWhile_le)
  with 3(2) show ?case by simp
qed auto

definition diff_candidate :: "string \<Rightarrow> bool" where
  "diff_candidate v \<longleftrightarrow> strip v \<noteq> [] \<and> (sublist ''diff --git '' v
     \<or> sublist (LF # ''--- '') (LF # v) \<and> sublist (LF # ''+++ '') (LF # v))"

definition extract_unified_diff :: "string \<Rightarrow> exn + string" where
  "extract_unified_diff content = (case find diff_candidate (fenced_blocks (split_char LF content)) of
     Some v \<Rightarrow> Inr v
   | None \<Rightarrow> Inl (WritebackError ''Patch artifact does not contain a fenced unified diff.''))"

section \<open>Paths\<close>

definition EXCLUDED_DIR_NAMES :: "string list" where
  "EXCLUDED_DIR_NAMES = [''.git'', ''.hg'', ''.mypy_cache'', ''.next'', ''.pytest_cache'', ''.ruff_cache'',
     ''.tox'', ''.venv'', ''__pycache__'', ''build'', ''coverage'', ''data'', ''dist'', ''node_modules'',
     ''output'', ''target'', ''venv'']"

text \<open>The maximal runs of lower-case letters and digits: the segments of the normalized stem.\<close>

definition segment_char :: "char \<Rightarrow> bool" where
  "segment_char c \<longleftrightarrow> is_digit c \<or> (CHR ''a'' \<le> c \<and> c \<le> CHR ''z'')"

definition name_segments :: "string \<Rightarrow> string list" where
  "name_segments v = filter (\<lambda>x. x \<noteq> [])
     (split_char (CHR ''_'') (map (\<lambda>c. if segment_char c then c else CHR ''_'') v))"

definition is_sensitive_name :: "string \<Rightarrow> bool" where
  "is_sensitive_name name =
    (let lowered = lower name; suffix = path_suffix lowered;
         segments = name_segments (take (length lowered - length suffix) lowered);
         normalized = join ''_'' segments in
     lowered = ''.env'' \<or> starts_with ''.env.'' lowered
     \<or> lowered \<in> {''.netrc'', ''.npmrc'', ''.pypirc'', ''id_dsa'', ''id_ecdsa'', ''id_ed25519'', ''id_rsa''}
     \<or> suffix \<in> {''.jks'', ''.key'', ''.p12'', ''.pem'', ''.pfx''}
     \<or> list_ex (\<lambda>x. x \<in> {''apikey'', ''authorization'', ''credential'', ''credentials'', ''password'',
          ''secret'', ''secrets'', ''token''}) segments
     \<or> sublist ''api_key'' normalized \<or> sublist ''private_key'' normalized)"

definition drive_path :: "string \<Rightarrow> bool" where
  "drive_path v \<longleftrightarrow> (case v of
     c # d # e # _ \<Rightarrow> (CHR ''a'' \<le> lower_char c \<and> lower_char c \<le> CHR ''z'') \<and> d = CHR '':'' \<and> e = CHR ''/''
   | _ \<Rightarrow> False)"

definition validate_relative_patch_path :: "string \<Rightarrow> exn + string" where
  "validate_relative_patch_path v =
    (let parts = path_parts v in
    bindE (guardE (v \<noteq> [] \<and> v \<noteq> ''.'' \<and> v \<noteq> ''..'')
      (WritebackError ''Patch path must be a non-empty relative path.'')) (\<lambda>_.
    bindE (guardE (\<not> drive_path v \<and> hd v \<noteq> CHR ''/'') (WritebackError ''Patch paths must be relative.'')) (\<lambda>_.
    bindE (guardE (list_all (\<lambda>x. x \<notin> {[], ''.'', ''..''}) parts)
      (WritebackError ''Patch paths must stay inside the repository.'')) (\<lambda>_.
    bindE (guardE (list_all (\<lambda>x. lower x \<notin> set EXCLUDED_DIR_NAMES) (butlast parts))
      (WritebackError (''Patch path is inside an excluded directory: '' @ v))) (\<lambda>_.
    bindE (guardE (list_all (\<lambda>x. \<not> is_sensitive_name x) parts)
      (WritebackError (''Patch path looks sensitive and cannot be written: '' @ v))) (\<lambda>_.
    Inr (if parts = [] then ''.'' else join ''/'' parts)))))))"

definition header_path :: "string \<Rightarrow> string \<Rightarrow> string" where
  "header_path line marker = takeWhile (\<lambda>c. c \<noteq> CHR '' '')
     (takeWhile (\<lambda>c. c \<noteq> CHR 0x09) (strip (drop (length marker) line)))"

definition strip_diff_prefix :: "string \<Rightarrow> string" where
  "strip_diff_prefix v = (let normalized = map (\<lambda>c. if c = CHR 0x5C then CHR ''/'' else c) v in
     if starts_with ''a/'' normalized \<or> starts_with ''b/'' normalized then drop 2 normalized else normalized)"

definition normalized_patch_path :: "string \<Rightarrow> string \<Rightarrow> exn + string" where
  "normalized_patch_path old_raw new_raw =
    bindE (guardE (old_raw \<noteq> ''/dev/null'' \<and> new_raw \<noteq> ''/dev/null'')
      (WritebackError ''Create and delete patches are not supported.'')) (\<lambda>_.
    bindE (guardE (strip_diff_prefix old_raw = strip_diff_prefix new_raw)
      (WritebackError ''Rename patches are not supported.'')) (\<lambda>_.
    validate_relative_patch_path (strip_diff_prefix new_raw)))"

section \<open>Parsing\<close>

record diff_line =
  dl_kind :: char
  dl_text :: string
  dl_no_newline :: bool

record diff_hunk =
  dh_old_start :: int
  dh_old_count :: int
  dh_new_start :: int
  dh_new_count :: int
  dh_lines :: "diff_line list"

record file_patch =
  fp_path :: string
  fp_hunks :: "diff_hunk list"

text \<open>\<open>\d+(?:,(\d+))?\<close>: the two numbers and what follows.\<close>

definition parse_range :: "string \<Rightarrow> (int \<times> int \<times> string) option" where
  "parse_range v =
    (let start = takeWhile is_digit v; rest = dropWhile is_digit v in
     if start = [] then None
     else if take 1 rest = '','' then
       (let number = takeWhile is_digit (drop 1 rest) in
        if number = [] then None else Some (undigits start, undigits number, dropWhile is_digit (drop 1 rest)))
     else Some (undigits start, 1, rest))"

definition hunk_header :: "string \<Rightarrow> (int \<times> int \<times> int \<times> int) option" where
  "hunk_header line =
    (if \<not> starts_with ''@@ -'' line then None
     else case parse_range (drop 4 line) of
       None \<Rightarrow> None
     | Some (old_start, old_count, rest) \<Rightarrow>
         if \<not> starts_with '' +'' rest then None
         else case parse_range (drop 2 rest) of
           None \<Rightarrow> None
         | Some (new_start, new_count, rest') \<Rightarrow>
             if starts_with '' @@'' rest' then Some (old_start, old_count, new_start, new_count) else None)"

definition ends_hunk :: "string \<Rightarrow> bool" where
  "ends_hunk line \<longleftrightarrow> starts_with ''@@ '' line \<or> starts_with ''diff --git '' line \<or> starts_with ''--- '' line"

definition NO_NEWLINE_MARK :: string where
  "NO_NEWLINE_MARK = CHR 0x5C # '' No newline at end of file''"

fun hunk_lines :: "diff_line list \<Rightarrow> string list \<Rightarrow> exn + (diff_line list \<times> string list)" where
  "hunk_lines acc [] = Inr (acc, [])"
| "hunk_lines acc (line # rest) =
    (if ends_hunk line then Inr (acc, line # rest)
     else if starts_with NO_NEWLINE_MARK line then
       (if acc = [] \<or> dl_no_newline (last acc) then
          Inl (WritebackError ''Unified diff no-newline marker is misplaced.'')
        else hunk_lines (butlast acc @ [(last acc)\<lparr>dl_no_newline := True\<rparr>]) rest)
     else if line = [] \<or> hd line \<notin> {CHR '' '', CHR ''+'', CHR ''-''} then
       Inl (WritebackError ''Unified diff hunk line is invalid.'')
     else hunk_lines (acc @ [\<lparr>dl_kind = hd line, dl_text = tl line, dl_no_newline = False\<rparr>]) rest)"

definition in_old :: "diff_line \<Rightarrow> bool" where
  "in_old d \<longleftrightarrow> dl_kind d \<in> {CHR '' '', CHR ''-''}"

definition in_new :: "diff_line \<Rightarrow> bool" where
  "in_new d \<longleftrightarrow> dl_kind d \<in> {CHR '' '', CHR ''+''}"

definition parse_hunk :: "string \<Rightarrow> string list \<Rightarrow> exn + (diff_hunk \<times> string list)" where
  "parse_hunk header rest = (case hunk_header header of
     None \<Rightarrow> Inl (WritebackError ''Unified diff hunk header is invalid.'')
   | Some (old_start, old_count, new_start, new_count) \<Rightarrow>
       bindE (hunk_lines [] rest) (\<lambda>(body, rest').
       bindE (guardE (int (length (filter in_old body)) = old_count \<and> int (length (filter in_new body)) = new_count)
         (WritebackError ''Unified diff hunk line counts do not match the header.'')) (\<lambda>_.
       Inr (\<lparr>dh_old_start = old_start, dh_old_count = old_count, dh_new_start = new_start,
         dh_new_count = new_count, dh_lines = body\<rparr>, rest'))))"

lemma hunk_lines_shorter: "hunk_lines acc ls = Inr (body, rest) \<Longrightarrow> length rest \<le> length ls"
  by (induction acc ls rule: hunk_lines.induct) (auto split: if_splits)

lemma parse_hunk_shorter: "parse_hunk header ls = Inr (h, rest) \<Longrightarrow> length rest \<le> length ls"
  by (auto simp: parse_hunk_def split: option.splits dest: hunk_lines_shorter)

definition skipped_header :: "string \<Rightarrow> bool" where
  "skipped_header line \<longleftrightarrow> starts_with ''index '' line \<or> starts_with ''old mode '' line \<or> starts_with ''new mode '' line"

definition unsupported_header :: "string \<Rightarrow> bool" where
  "unsupported_header line \<longleftrightarrow> starts_with ''new file mode '' line \<or> starts_with ''deleted file mode '' line
     \<or> starts_with ''rename from '' line \<or> starts_with ''rename to '' line"

text \<open>The hunks of a file, up to the header of the next file.\<close>

function parse_hunks :: "string list \<Rightarrow> exn + (diff_hunk list \<times> string list)" where
  "parse_hunks [] = Inr ([], [])"
| "parse_hunks (line # rest) =
    (if starts_with ''diff --git '' line \<or> starts_with ''--- '' line then Inr ([], line # rest)
     else if starts_with ''@@ '' line then
       (case parse_hunk line rest of
          Inl e \<Rightarrow> Inl e
        | Inr (h, rest') \<Rightarrow> (case parse_hunks rest' of Inl e \<Rightarrow> Inl e | Inr (hs, rest'') \<Rightarrow> Inr (h # hs, rest'')))
     else if skipped_header line then parse_hunks rest
     else if unsupported_header line then
       Inl (WritebackError ''Create, delete, and rename patches are not supported.'')
     else parse_hunks rest)"
  by pat_completeness auto
termination
  by (relation "measure length") (auto dest: parse_hunk_shorter)

lemma parse_hunks_shorter: "parse_hunks ls = Inr (hs, rest) \<Longrightarrow> length rest \<le> length ls"
proof (induction ls arbitrary: hs rest rule: parse_hunks.induct)
  case (2 line ls)
  show ?case
    using 2 parse_hunk_shorter [of line ls]
    by (auto split: if_splits sum.splits prod.splits) force+
qed simp

function parse_unified_diff :: "string list \<Rightarrow> exn + file_patch list" where
  "parse_unified_diff [] = Inr []"
| "parse_unified_diff [line] =
    (if starts_with ''diff --git '' line \<or> \<not> starts_with ''--- '' line then Inr []
     else Inl (WritebackError ''Unified diff file header is incomplete.''))"
| "parse_unified_diff (line # next_line # rest) =
    (if starts_with ''diff --git '' line \<or> \<not> starts_with ''--- '' line then parse_unified_diff (next_line # rest)
     else if \<not> starts_with ''+++ '' next_line then
       Inl (WritebackError ''Unified diff file header is incomplete.'')
     else case normalized_patch_path (header_path line ''---'') (header_path next_line ''+++'') of
       Inl e \<Rightarrow> Inl e
     | Inr path \<Rightarrow> (case parse_hunks rest of
         Inl e \<Rightarrow> Inl e
       | Inr (hunks, rest') \<Rightarrow>
           if hunks = [] then Inl (WritebackError (''Patch for '' @ path @ '' does not contain any hunks.''))
           else (case parse_unified_diff rest' of
             Inl e \<Rightarrow> Inl e
           | Inr patches \<Rightarrow> Inr (\<lparr>fp_path = path, fp_hunks = hunks\<rparr> # patches))))"
  by pat_completeness auto
termination
  by (relation "measure length") (auto dest: parse_hunks_shorter)

section \<open>Applying a patch\<close>

definition hunk_start_index :: "int \<Rightarrow> int \<Rightarrow> int" where
  "hunk_start_index start n = (if n = 0 then start else start - 1)"

definition does_not_apply :: "string \<Rightarrow> exn" where
  "does_not_apply path = WritebackConflict (''Patch does not apply cleanly to '' @ path @ ''.'')"

definition assert_source_line :: "string \<Rightarrow> string list \<Rightarrow> nat \<Rightarrow> diff_line \<Rightarrow> exn + unit" where
  "assert_source_line path original cursor expected =
    (if cursor \<ge> length original then Inl (does_not_apply path)
     else if line_body (original ! cursor) \<noteq> line_body (dl_text expected)
       \<or> has_newline (original ! cursor) = dl_no_newline expected then Inl (does_not_apply path)
     else Inr ())"

definition added_text :: "diff_line \<Rightarrow> string" where
  "added_text d = (if dl_no_newline d then line_body (dl_text d) else dl_text d)"

primrec apply_lines ::
  "string \<Rightarrow> string list \<Rightarrow> nat \<Rightarrow> string list \<Rightarrow> diff_line list \<Rightarrow> exn + (nat \<times> string list)" where
  "apply_lines path original cursor out [] = Inr (cursor, out)"
| "apply_lines path original cursor out (d # ds) =
    (if dl_kind d = CHR '' '' then
       bindE (assert_source_line path original cursor d) (\<lambda>_.
         apply_lines path original (Suc cursor) (out @ [original ! cursor]) ds)
     else if dl_kind d = CHR ''-'' then
       bindE (assert_source_line path original cursor d) (\<lambda>_.
         apply_lines path original (Suc cursor) out ds)
     else if dl_kind d = CHR ''+'' then apply_lines path original cursor (out @ [added_text d]) ds
     else Inl (WritebackError ''Unsupported diff line kind.''))"

definition slice :: "nat \<Rightarrow> nat \<Rightarrow> 'a list \<Rightarrow> 'a list" where
  "slice i j xs = take (j - i) (drop i xs)"

primrec apply_hunks ::
  "string \<Rightarrow> string list \<Rightarrow> nat \<Rightarrow> string list \<Rightarrow> diff_hunk list \<Rightarrow> exn + string list" where
  "apply_hunks path original cursor out [] = Inr (out @ drop cursor original)"
| "apply_hunks path original cursor out (h # hs) =
    (let target = hunk_start_index (dh_old_start h) (dh_old_count h);
         out' = out @ slice cursor (nat target) original in
     if target < int cursor \<or> target > int (length original) then Inl (does_not_apply path)
     else if hunk_start_index (dh_new_start h) (dh_new_count h) \<noteq> int (length out') then
       Inl (does_not_apply path)
     else bindE (apply_lines path original (nat target) out' (dh_lines h)) (\<lambda>(cursor', out'').
       apply_hunks path original cursor' out'' hs))"

definition apply_file_patch :: "file_patch \<Rightarrow> string \<Rightarrow> exn + string" where
  "apply_file_patch p original =
     bindE (apply_hunks (fp_path p) (split_lines original) 0 [] (fp_hunks p)) (\<lambda>out. Inr (concat out))"

end
