(* ===== verification/Unified_Diff_Facts.thy ===== *)
theory Unified_Diff_Facts imports Unified_Diff begin

text \<open>
  What applying a patch means, without cursors: a patch applies exactly when the text splits into
  kept lines and the old sides of its hunks at the places that the hunks name. And the text of a
  patch parses back to it.
\<close>

section \<open>The edit that a hunk describes\<close>

definition matches_line :: "diff_line \<Rightarrow> string \<Rightarrow> bool" where
  "matches_line d l \<longleftrightarrow> line_body l = line_body (dl_text d) \<and> has_newline l \<noteq> dl_no_newline d"

text \<open>The new lines of a hunk that replaces the lines \<open>old\<close>, if they agree with it.\<close>

fun edited :: "diff_line list \<Rightarrow> string list \<Rightarrow> string list option" where
  "edited [] old = (if old = [] then Some [] else None)"
| "edited (d # ds) old =
    (if dl_kind d = CHR ''+'' then map_option ((#) (added_text d)) (edited ds old)
     else case old of
       [] \<Rightarrow> None
     | l # ls \<Rightarrow>
         if dl_kind d \<notin> {CHR '' '', CHR ''-''} \<or> \<not> matches_line d l then None
         else map_option (if dl_kind d = CHR '' '' then (#) l else id) (edited ds ls))"

type_synonym segment = "string list \<times> string list \<times> string list"

definition source_lines :: "segment list \<Rightarrow> string list" where
  "source_lines segs = concat (map (\<lambda>(gap, old, new). gap @ old) segs)"

definition target_lines :: "segment list \<Rightarrow> string list" where
  "target_lines segs = concat (map (\<lambda>(gap, old, new). gap @ new) segs)"

text \<open>The segments are where the hunks say, \<open>i\<close> and \<open>j\<close> lines into the old and the new text.\<close>

fun placed :: "nat \<Rightarrow> nat \<Rightarrow> diff_hunk list \<Rightarrow> segment list \<Rightarrow> bool" where
  "placed i j [] [] = True"
| "placed i j (h # hs) ((gap, old, new) # segs) \<longleftrightarrow>
     hunk_start_index (dh_old_start h) (dh_old_count h) = int (i + length gap)
     \<and> hunk_start_index (dh_new_start h) (dh_new_count h) = int (j + length gap)
     \<and> edited (dh_lines h) old = Some new
     \<and> placed (i + length gap + length old) (j + length gap + length new) hs segs"
| "placed i j hs segs = False"

lemma assert_source_line_iff:
  "assert_source_line path L c d = Inr u \<longleftrightarrow> c < length L \<and> matches_line d (L ! c)"
  by (auto simp: assert_source_line_def matches_line_def)

lemma drop_Cons_iff: "drop c L = l # xs \<longleftrightarrow> c < length L \<and> L ! c = l \<and> drop (Suc c) L = xs"
  by (cases "c < length L") (auto simp: Cons_nth_drop_Suc [symmetric])

definition kept_line :: "diff_line \<Rightarrow> string \<Rightarrow> string list" where
  "kept_line d l = (if dl_kind d = CHR '' '' then [l] else [])"

lemma edited_source:
  assumes "dl_kind d \<in> {CHR '' '', CHR ''-''}"
  shows "edited (d # ds) old = Some new \<longleftrightarrow>
    (\<exists>l ls more. old = l # ls \<and> matches_line d l \<and> edited ds ls = Some more \<and> new = kept_line d l @ more)"
  using assms by (cases old) (auto simp: kept_line_def option.map_id)

lemma apply_lines_source:
  assumes "dl_kind d \<in> {CHR '' '', CHR ''-''}"
  shows "apply_lines path L c out (d # ds) = Inr x \<longleftrightarrow> c < length L \<and> matches_line d (L ! c)
    \<and> apply_lines path L (Suc c) (out @ kept_line d (L ! c)) ds = Inr x"
  using assms by (auto simp: assert_source_line_iff kept_line_def)

lemma apply_lines_iff:
  "apply_lines path L c out ds = Inr (c', out') \<longleftrightarrow>
    (\<exists>old new rest. drop c L = old @ rest \<and> edited ds old = Some new \<and> c' = c + length old \<and> out' = out @ new)"
proof (induction ds arbitrary: c out)
  case (Cons d ds)
  show ?case
  proof (cases "dl_kind d \<in> {CHR '' '', CHR ''-''}")
    case True
    show ?thesis
    proof
      assume "apply_lines path L c out (d # ds) = Inr (c', out')"
      then have c: "c < length L" "matches_line d (L ! c)"
        and "apply_lines path L (Suc c) (out @ kept_line d (L ! c)) ds = Inr (c', out')"
        unfolding apply_lines_source [OF True] by blast+
      then obtain old new rest where r: "drop (Suc c) L = old @ rest" "edited ds old = Some new"
        "c' = Suc c + length old" "out' = (out @ kept_line d (L ! c)) @ new" unfolding Cons.IH by blast
      have "edited (d # ds) (L ! c # old) = Some (kept_line d (L ! c) @ new)"
        unfolding edited_source [OF True] using c r(2) by blast
      moreover have "drop c L = (L ! c # old) @ rest" using c(1) r(1) by (simp add: drop_Cons_iff)
      ultimately show "\<exists>old new rest. drop c L = old @ rest \<and> edited (d # ds) old = Some new
          \<and> c' = c + length old \<and> out' = out @ new"
        using r(3,4) by (intro exI [of _ "L ! c # old"] exI [of _ "kept_line d (L ! c) @ new"] exI [of _ rest]) simp
    next
      assume "\<exists>old new rest. drop c L = old @ rest \<and> edited (d # ds) old = Some new
          \<and> c' = c + length old \<and> out' = out @ new"
      then obtain old new rest where r: "drop c L = old @ rest" "edited (d # ds) old = Some new"
        "c' = c + length old" "out' = out @ new" by blast
      from r(2) obtain l ls more where l: "old = l # ls" "matches_line d l" "edited ds ls = Some more"
        "new = kept_line d l @ more" unfolding edited_source [OF True] by blast
      from r(1) l(1) have c: "c < length L" "L ! c = l" "drop (Suc c) L = ls @ rest"
        by (simp_all add: drop_Cons_iff)
      have "apply_lines path L (Suc c) (out @ kept_line d l) ds = Inr (c', out')"
        unfolding Cons.IH using c(3) l r by (intro exI [of _ ls] exI [of _ more] exI [of _ rest]) simp
      then show "apply_lines path L c out (d # ds) = Inr (c', out')"
        unfolding apply_lines_source [OF True] using c l(2) by simp
    qed
  next
    case False
    then show ?thesis by (cases "dl_kind d = CHR ''+''") (auto simp: Cons.IH split: list.splits)
  qed
qed auto

lemma drop_slice: "i \<le> j \<Longrightarrow> drop i L = slice i j L @ drop j L"
  unfolding slice_def by (metis append_take_drop_id drop_drop le_add_diff_inverse2)

lemma length_slice: "i \<le> j \<Longrightarrow> j \<le> length L \<Longrightarrow> length (slice i j L) = j - i"
  by (simp add: slice_def)

lemma drop_prefix: "drop c L = xs @ ys \<Longrightarrow> drop (c + length xs) L = ys"
  by (metis append_eq_conv_conj drop_drop add.commute)

lemma apply_hunks_iff:
  "c \<le> length L \<Longrightarrow> apply_hunks path L c out hs = Inr res \<longleftrightarrow>
    (\<exists>segs tail. placed c (length out) hs segs \<and> drop c L = source_lines segs @ tail
      \<and> res = out @ target_lines segs @ tail)"
proof (induction hs arbitrary: c out)
  case Nil
  have "placed i j [] segs \<longleftrightarrow> segs = []" for i j segs by (cases segs) auto
  then show ?case by (auto simp: source_lines_def target_lines_def)
next
  case (Cons h hs)
  let ?t = "hunk_start_index (dh_old_start h) (dh_old_count h)"
  let ?n = "hunk_start_index (dh_new_start h) (dh_new_count h)"
  show ?case
  proof
    assume a: "apply_hunks path L c out (h # hs) = Inr res"
    define gap where "gap = slice c (nat ?t) L"
    from a have t: "int c \<le> ?t" "?t \<le> int (length L)" and n: "?n = int (length (out @ gap))"
      by (auto simp: Let_def gap_def split: if_splits)
    have g: "drop c L = gap @ drop (nat ?t) L" "length gap = nat ?t - c"
      using drop_slice [of c "nat ?t" L] length_slice [of c "nat ?t" L] t by (simp_all add: gap_def)
    from a t n obtain c' out' where step: "apply_lines path L (nat ?t) (out @ gap) (dh_lines h) = Inr (c', out')"
      and rest: "apply_hunks path L c' out' hs = Inr res"
      by (auto simp: Let_def gap_def split: if_splits)
    from step obtain old new more where o: "drop (nat ?t) L = old @ more" "edited (dh_lines h) old = Some new"
      "c' = nat ?t + length old" "out' = (out @ gap) @ new" by (auto simp: apply_lines_iff)
    have "c' \<le> length L" using arg_cong [OF o(1), of length] o(3) t by simp
    then obtain segs tail where s: "placed c' (length out') hs segs" "drop c' L = source_lines segs @ tail"
      "res = out' @ target_lines segs @ tail" using rest Cons.IH by blast
    have "drop c' L = more" using drop_prefix [OF o(1)] o(3) by simp
    then have "placed c (length out) (h # hs) ((gap, old, new) # segs)
        \<and> drop c L = source_lines ((gap, old, new) # segs) @ tail
        \<and> res = out @ target_lines ((gap, old, new) # segs) @ tail"
      using t n g o s by (auto simp: source_lines_def target_lines_def algebra_simps)
    then show "\<exists>segs tail. placed c (length out) (h # hs) segs \<and> drop c L = source_lines segs @ tail
      \<and> res = out @ target_lines segs @ tail" by blast
  next
    assume "\<exists>segs tail. placed c (length out) (h # hs) segs \<and> drop c L = source_lines segs @ tail
      \<and> res = out @ target_lines segs @ tail"
    then obtain gap old new segs tail where p: "placed c (length out) (h # hs) ((gap, old, new) # segs)"
      and d: "drop c L = gap @ old @ source_lines segs @ tail"
      and r: "res = out @ gap @ new @ target_lines segs @ tail"
      by (elim exE conjE, elim placed.elims) (auto simp: source_lines_def target_lines_def)
    let ?i = "c + length gap" let ?c = "?i + length old"
    from p have t: "?t = int ?i" "?n = int (length out + length gap)" "edited (dh_lines h) old = Some new"
      "placed ?c (length (out @ gap @ new)) hs segs" by (simp_all add: algebra_simps)
    have len: "?c \<le> length L" using arg_cong [OF d, of length] Cons.prems by simp
    have g: "slice c ?i L = gap" "drop ?i L = old @ source_lines segs @ tail"
        "drop ?c L = source_lines segs @ tail"
      using d drop_prefix [OF d] drop_prefix [of ?i L old] by (simp_all add: slice_def)
    have "apply_lines path L ?i (out @ gap) (dh_lines h) = Inr (?c, (out @ gap) @ new)"
      using t(3) g(2) unfolding apply_lines_iff by blast
    moreover have "apply_hunks path L ?c ((out @ gap) @ new) hs = Inr res"
      using Cons.IH [OF len] t(4) g(3) r by auto
    ultimately have "bindE (apply_lines path L ?i (out @ slice c ?i L) (dh_lines h)) (\<lambda>(c', out'). apply_hunks path L c' out' hs)
        = Inr res" using g(1) by auto
    moreover have "nat ?t = ?i" using t(1) by simp
    ultimately show "apply_hunks path L c out (h # hs) = Inr res"
      using t(1,2) g(1) len by (simp only: apply_hunks.simps Let_def) simp
  qed
qed

text \<open>
  C20. A patch applies to a text exactly when the lines of the text are, in this order, the
  segments of its hunks and a tail: each segment has lines that stay, at the places the header of
  the hunk names in the old and in the new text, and then the old side of the hunk. The result is
  then the same lines with each old side replaced by the new side; nothing else changes.
\<close>

theorem patch_application_is_exact:
  "apply_file_patch p s = Inr t \<longleftrightarrow>
    (\<exists>segs tail. placed 0 0 (fp_hunks p) segs \<and> split_lines s = source_lines segs @ tail
      \<and> t = concat (target_lines segs @ tail))"
proof -
  have "apply_file_patch p s = Inr t \<longleftrightarrow>
      (\<exists>out. apply_hunks (fp_path p) (split_lines s) 0 [] (fp_hunks p) = Inr out \<and> t = concat out)"
    by (auto simp: apply_file_patch_def)
  then show ?thesis
    using apply_hunks_iff [of 0 "split_lines s" "fp_path p" "[]" "fp_hunks p"] by (simp del: concat_append) blast
qed

end
