(* ===== verification/Unified_Diff_Text.thy ===== *)
theory Unified_Diff_Text imports Unified_Diff begin

text \<open>
  The text of a patch, and that parsing it gives the patch back: the parser of
  \<open>backend/app/core/writeback.py\<close> loses nothing of a patch that can be written down.
\<close>

section \<open>The text of a patch\<close>

definition shown_line :: "diff_line \<Rightarrow> string list" where
  "shown_line d = (dl_kind d # dl_text d) # (if dl_no_newline d then [NO_NEWLINE_MARK @ [LF]] else [])"

definition shown_header :: "diff_hunk \<Rightarrow> string" where
  "shown_header h = ''@@ -'' @ show_int (dh_old_start h) @ '','' @ show_int (dh_old_count h)
     @ '' +'' @ show_int (dh_new_start h) @ '','' @ show_int (dh_new_count h) @ '' @@'' @ [LF]"

definition shown_hunk :: "diff_hunk \<Rightarrow> string list" where
  "shown_hunk h = shown_header h # concat (map shown_line (dh_lines h))"

definition shown_patch :: "file_patch \<Rightarrow> string list" where
  "shown_patch p = (''--- a/'' @ fp_path p @ [LF]) # (''+++ b/'' @ fp_path p @ [LF])
     # concat (map shown_hunk (fp_hunks p))"

text \<open>A line that ends in its only line break.\<close>

definition plain_line :: "string \<Rightarrow> bool" where
  "plain_line v \<longleftrightarrow> v \<noteq> [] \<and> last v = LF \<and> list_all (\<lambda>c. \<not> line_break c) (butlast v)"

text \<open>
  The patches that can be written down: a line of a hunk is one line and does not look like the
  start of something else, which a removed line that starts with two hyphens and a space does.
\<close>

definition line_showable :: "diff_line \<Rightarrow> bool" where
  "line_showable d \<longleftrightarrow> dl_kind d \<in> {CHR '' '', CHR ''+'', CHR ''-''} \<and> plain_line (dl_text d)
     \<and> \<not> (dl_kind d = CHR ''-'' \<and> starts_with ''-- '' (dl_text d))"

definition hunk_showable :: "diff_hunk \<Rightarrow> bool" where
  "hunk_showable h \<longleftrightarrow> list_all line_showable (dh_lines h) \<and> dh_old_start h \<ge> 0 \<and> dh_new_start h \<ge> 0
     \<and> dh_old_count h = int (length (filter in_old (dh_lines h)))
     \<and> dh_new_count h = int (length (filter in_new (dh_lines h)))"

definition patch_showable :: "file_patch \<Rightarrow> bool" where
  "patch_showable p \<longleftrightarrow> fp_hunks p \<noteq> [] \<and> list_all hunk_showable (fp_hunks p)
     \<and> validate_relative_patch_path (fp_path p) = Inr (fp_path p)
     \<and> list_all (\<lambda>c. \<not> is_space c \<and> \<not> line_break c \<and> c \<noteq> CHR 0x5C) (fp_path p)"

lemma split_lines_plain: "plain_line v \<Longrightarrow> split_lines (v @ w) = v # split_lines w"
proof (induction v)
  case (Cons c cs)
  show ?case
  proof (cases cs)
    case Nil
    then have "c = LF" using Cons.prems by (simp add: plain_line_def)
    then show ?thesis using Nil by (simp add: line_break_def LF_def CR_def)
  next
    case (Cons d ds)
    then have "\<not> line_break c" and "plain_line cs" using Cons.prems by (auto simp: plain_line_def)
    moreover have "c \<noteq> CR" using \<open>\<not> line_break c\<close> by (auto simp: line_break_def CR_def)
    ultimately show ?thesis using Cons.IH by simp
  qed
qed (simp add: plain_line_def)

lemma split_lines_concat: "list_all plain_line ls \<Longrightarrow> split_lines (concat ls) = ls"
  by (induction ls) (simp_all add: split_lines_plain)

lemma pad_digits_digits: "list_all is_digit (pad_digits k n)"
proof (induction k arbitrary: n)
  case (Suc k)
  have "int (of_char (char_of (48 + n mod 10) :: char)) = 48 + n mod 10"
    unfolding of_nat_of_char by (rule digit_char)
  moreover have "0 \<le> n mod 10" "n mod 10 < 10" by simp_all
  ultimately have "is_digit (char_of (48 + n mod 10))" unfolding is_digit_def by linarith
  with Suc show ?case by simp
qed simp

lemma show_int_digits: "0 \<le> n \<Longrightarrow> list_all is_digit (show_int n) \<and> show_int n \<noteq> []"
proof -
  have "digit_count n \<noteq> 0" by (subst digit_count.simps) simp
  then obtain k where "digit_count n = Suc k" by (cases "digit_count n") auto
  then show "0 \<le> n \<Longrightarrow> list_all is_digit (show_int n) \<and> show_int n \<noteq> []"
    using pad_digits_digits [of "digit_count n" n] by (simp add: show_int_def)
qed

lemma undigits_show_int: "0 \<le> n \<Longrightarrow> undigits (show_int n) = n"
  using undigits_show_nat [of "nat n"] by (simp add: show_nat_def)

lemma take_digits:
  assumes "list_all is_digit ds" "rest = [] \<or> \<not> is_digit (hd rest)"
  shows "takeWhile is_digit (ds @ rest) = ds \<and> dropWhile is_digit (ds @ rest) = rest"
  using assms by (induction ds) (cases rest; auto)+

lemma parse_range_shown:
  assumes "0 \<le> m" "0 \<le> n" "rest \<noteq> []" "\<not> is_digit (hd rest)"
  shows "parse_range (show_int m @ '','' @ show_int n @ rest) = Some (m, n, rest)"
proof -
  have comma: "\<not> is_digit (CHR '','')" by (simp add: is_digit_def)
  have "takeWhile is_digit (show_int m @ '','' @ show_int n @ rest) = show_int m
      \<and> dropWhile is_digit (show_int m @ '','' @ show_int n @ rest) = '','' @ show_int n @ rest"
    using take_digits [of "show_int m" "'','' @ show_int n @ rest"] show_int_digits [OF assms(1)] comma by simp
  moreover have "takeWhile is_digit (show_int n @ rest) = show_int n \<and> dropWhile is_digit (show_int n @ rest) = rest"
    using take_digits [of "show_int n" rest] show_int_digits [OF assms(2)] assms(4) by simp
  ultimately show ?thesis
    using show_int_digits [OF assms(1)] show_int_digits [OF assms(2)] assms(1,2)
    by (simp add: parse_range_def Let_def undigits_show_int)
qed

lemma hunk_header_shown:
  assumes "hunk_showable h"
  shows "hunk_header (shown_header h) = Some (dh_old_start h, dh_old_count h, dh_new_start h, dh_new_count h)"
proof -
  have pos: "0 \<le> dh_old_start h" "0 \<le> dh_old_count h" "0 \<le> dh_new_start h" "0 \<le> dh_new_count h"
    using assms by (simp_all add: hunk_showable_def)
  note new = parse_range_shown [OF pos(3,4), of "'' @@'' @ [LF]"]
  note old = parse_range_shown [OF pos(1,2), of "'' +'' @ show_int (dh_new_start h) @ '','' @ show_int (dh_new_count h) @ '' @@'' @ [LF]"]
  have sp: "\<not> is_digit (CHR '' '')" by (simp add: is_digit_def)
  show ?thesis
    using new old sp by (simp add: hunk_header_def shown_header_def starts_with_def)
qed

lemma shown_line_kind:
  assumes "line_showable d"
  shows "\<not> ends_hunk (dl_kind d # dl_text d)" "\<not> starts_with NO_NEWLINE_MARK (dl_kind d # dl_text d)"
  using assms by (auto simp: line_showable_def ends_hunk_def starts_with_def NO_NEWLINE_MARK_def)

lemma mark_line: "\<not> ends_hunk (NO_NEWLINE_MARK @ [LF])" "starts_with NO_NEWLINE_MARK (NO_NEWLINE_MARK @ [LF])"
  by (simp_all add: ends_hunk_def starts_with_def NO_NEWLINE_MARK_def)

lemma hunk_lines_shown:
  "list_all line_showable ds \<Longrightarrow>
    hunk_lines acc (concat (map shown_line ds) @ rest) = hunk_lines (acc @ ds) rest"
proof (induction ds arbitrary: acc)
  case (Cons d ds)
  then have d: "line_showable d" by simp
  obtain k t b where e: "d = \<lparr>dl_kind = k, dl_text = t, dl_no_newline = b\<rparr>" by (cases d) auto
  from d have k: "k \<in> {CHR '' '', CHR ''+'', CHR ''-''}" by (simp add: line_showable_def e)
  have "hunk_lines acc (shown_line d @ concat (map shown_line ds) @ rest)
      = hunk_lines (acc @ [d]) (concat (map shown_line ds) @ rest)"
    using shown_line_kind [OF d] k mark_line
    by (cases b) (auto simp: shown_line_def e)
  with Cons show ?case by simp
qed simp

definition begins_block :: "string list \<Rightarrow> bool" where
  "begins_block ls \<longleftrightarrow> ls = [] \<or> ends_hunk (hd ls)"

lemma hunk_lines_end: "begins_block rest \<Longrightarrow> hunk_lines acc rest = Inr (acc, rest)"
  by (cases rest) (auto simp: begins_block_def)

lemma parse_hunk_shown:
  assumes "hunk_showable h" "begins_block rest"
  shows "parse_hunk (shown_header h) (concat (map shown_line (dh_lines h)) @ rest) = Inr (h, rest)"
  using assms hunk_lines_shown [of "dh_lines h" "[]" rest] hunk_lines_end [OF assms(2)]
  by (simp add: parse_hunk_def hunk_header_shown) (simp add: hunk_showable_def)

lemma header_begins: "starts_with ''@@ '' (shown_header h)" "\<not> starts_with ''diff --git '' (shown_header h)"
  "\<not> starts_with ''--- '' (shown_header h)" "ends_hunk (shown_header h)"
  by (simp_all add: shown_header_def starts_with_def ends_hunk_def)

lemma shown_hunks_begin: "begins_block rest \<Longrightarrow> begins_block (concat (map shown_hunk hs) @ rest)"
  by (cases hs) (simp_all add: begins_block_def shown_hunk_def header_begins)

text \<open>What follows the hunks of a file: nothing, or the header of the next file.\<close>

definition begins_file :: "string list \<Rightarrow> bool" where
  "begins_file ls \<longleftrightarrow> ls = [] \<or> starts_with ''--- '' (hd ls)"

lemma parse_hunks_shown:
  "list_all hunk_showable hs \<Longrightarrow> begins_file rest \<Longrightarrow>
    parse_hunks (concat (map shown_hunk hs) @ rest) = Inr (hs, rest)"
proof (induction hs)
  case Nil
  then show ?case by (cases rest) (auto simp: begins_file_def)
next
  case (Cons h hs)
  have "begins_block rest" using Cons.prems by (auto simp: begins_file_def begins_block_def ends_hunk_def)
  then have "parse_hunk (shown_header h)
      (concat (map shown_line (dh_lines h)) @ concat (map shown_hunk hs) @ rest) = Inr (h, concat (map shown_hunk hs) @ rest)"
    using Cons.prems by (intro parse_hunk_shown shown_hunks_begin) simp_all
  moreover have "concat (map shown_hunk (h # hs)) @ rest
      = shown_header h # concat (map shown_line (dh_lines h)) @ concat (map shown_hunk hs) @ rest"
    by (simp add: shown_hunk_def)
  ultimately show ?case using Cons by (simp add: header_begins del: concat.simps list.map)
qed

lemma strip_clean: "list_all (\<lambda>c. \<not> is_space c) v \<Longrightarrow> strip (CHR '' '' # v @ [LF]) = v"
proof -
  assume clean: "list_all (\<lambda>c. \<not> is_space c) v"
  have space: "is_space (CHR '' '')" "is_space LF" by (simp_all add: is_space_def LF_def)
  have drop: "dropWhile is_space (w @ [LF]) = (if w = [] then [] else w @ [LF])"
      "dropWhile is_space w = w" if "list_all (\<lambda>c. \<not> is_space c) w" for w
    using that space by (cases w; simp)+
  have "list_all (\<lambda>c. \<not> is_space c) (rev v)" using clean by (simp add: list_all_iff)
  with clean space drop [OF clean] drop(2) [of "rev v"] show ?thesis by (simp add: strip_def)
qed

lemma header_path_shown:
  assumes "list_all (\<lambda>c. \<not> is_space c \<and> \<not> line_break c \<and> c \<noteq> CHR 0x5C) path"
  shows "header_path (''--- a/'' @ path @ [LF]) ''---'' = ''a/'' @ path"
    "header_path (''+++ b/'' @ path @ [LF]) ''+++'' = ''b/'' @ path"
    "strip_diff_prefix (''a/'' @ path) = path" "strip_diff_prefix (''b/'' @ path) = path"
proof -
  have path: "list_all (\<lambda>c. \<not> is_space c) path" "list_all (\<lambda>c. c \<noteq> CHR 0x5C) path"
    using assms by (simp_all add: list_all_iff)
  have letters: "\<not> is_space (CHR ''a'')" "\<not> is_space (CHR ''b'')" "\<not> is_space (CHR ''/'')"
    by (simp_all add: is_space_def)
  have a: "list_all (\<lambda>c. \<not> is_space c) (''a/'' @ path)" "list_all (\<lambda>c. \<not> is_space c) (''b/'' @ path)"
    using path(1) letters by simp_all
  have upto: "takeWhile (\<lambda>c. c \<noteq> x) v = v" if "list_all (\<lambda>c. \<not> is_space c) v" "is_space x" for x v
    using that by (auto simp: takeWhile_eq_all_conv list_all_iff)
  have sp: "is_space (CHR '' '')" "is_space (CHR 0x09)" by (simp_all add: is_space_def)
  have cut: "drop (length ''---'') (''--- a/'' @ path @ [LF]) = CHR '' '' # (''a/'' @ path) @ [LF]"
    "drop (length ''+++'') (''+++ b/'' @ path @ [LF]) = CHR '' '' # (''b/'' @ path) @ [LF]" by simp_all
  show "header_path (''--- a/'' @ path @ [LF]) ''---'' = ''a/'' @ path"
    by (simp only: header_path_def cut strip_clean [OF a(1)] upto [OF a(1) sp(1)] upto [OF a(1) sp(2)])
  show "header_path (''+++ b/'' @ path @ [LF]) ''+++'' = ''b/'' @ path"
    by (simp only: header_path_def cut strip_clean [OF a(2)] upto [OF a(2) sp(1)] upto [OF a(2) sp(2)])
  have "map (\<lambda>c. if c = CHR 0x5C then CHR ''/'' else c) path = path"
    using path(2) by (induction path) simp_all
  then show "strip_diff_prefix (''a/'' @ path) = path" "strip_diff_prefix (''b/'' @ path) = path"
    by (simp_all add: strip_diff_prefix_def starts_with_def)
qed

lemma parse_one_patch:
  assumes "starts_with ''--- '' x" "\<not> starts_with ''diff --git '' x" "starts_with ''+++ '' y"
    and "normalized_patch_path (header_path x ''---'') (header_path y ''+++'') = Inr path"
    and "parse_hunks ls = Inr (hunks, rest)" "hunks \<noteq> []" "parse_unified_diff rest = Inr ps"
  shows "parse_unified_diff (x # y # ls) = Inr (\<lparr>fp_path = path, fp_hunks = hunks\<rparr> # ps)"
  using assms by simp

lemma parse_patches_shown:
  "list_all patch_showable ps \<Longrightarrow> parse_unified_diff (concat (map shown_patch ps)) = Inr ps"
proof (induction ps)
  case (Cons p ps)
  then have p: "patch_showable p" by simp
  then have path: "list_all (\<lambda>c. \<not> is_space c \<and> \<not> line_break c \<and> c \<noteq> CHR 0x5C) (fp_path p)"
    by (simp add: patch_showable_def)
  let ?rest = "concat (map shown_patch ps)"
  have "begins_file ?rest" by (cases ps) (simp_all add: begins_file_def shown_patch_def starts_with_def)
  then have hunks: "parse_hunks (concat (map shown_hunk (fp_hunks p)) @ ?rest) = Inr (fp_hunks p, ?rest)"
    using p by (intro parse_hunks_shown) (simp_all add: patch_showable_def)
  have header: "normalized_patch_path (header_path (''--- a/'' @ fp_path p @ [LF]) ''---'')
      (header_path (''+++ b/'' @ fp_path p @ [LF]) ''+++'') = Inr (fp_path p)"
    using p by (simp only: header_path_shown [OF path] normalized_patch_path_def)
      (simp add: patch_showable_def)
  have "starts_with ''--- '' (''--- a/'' @ fp_path p @ [LF])" "starts_with ''+++ '' (''+++ b/'' @ fp_path p @ [LF])"
    "\<not> starts_with ''diff --git '' (''--- a/'' @ fp_path p @ [LF])" by (simp_all add: starts_with_def)
  moreover have "fp_hunks p \<noteq> []" using p by (simp add: patch_showable_def)
  moreover have "parse_unified_diff ?rest = Inr ps" using Cons by simp
  ultimately have "parse_unified_diff ((''--- a/'' @ fp_path p @ [LF]) # (''+++ b/'' @ fp_path p @ [LF])
      # (concat (map shown_hunk (fp_hunks p)) @ ?rest)) = Inr (\<lparr>fp_path = fp_path p, fp_hunks = fp_hunks p\<rparr> # ps)"
    using header hunks by (intro parse_one_patch)
  moreover have "concat (map shown_patch (p # ps)) = (''--- a/'' @ fp_path p @ [LF])
      # (''+++ b/'' @ fp_path p @ [LF]) # (concat (map shown_hunk (fp_hunks p)) @ ?rest)"
    by (simp add: shown_patch_def)
  moreover have "\<lparr>fp_path = fp_path p, fp_hunks = fp_hunks p\<rparr> = p" by simp
  ultimately show ?case by (simp only:)
qed simp

lemma shown_patch_plain: "patch_showable p \<Longrightarrow> list_all plain_line (shown_patch p)"
proof -
  assume p: "patch_showable p"
  have "\<not> line_break c" if "is_digit c" for c using that by (auto simp: is_digit_def line_break_def)
  then have num: "list_all (\<lambda>c. \<not> line_break c) (show_int n)" if "0 \<le> n" for n
    using show_int_digits [OF that] by (auto simp: list_all_iff)
  have "plain_line (shown_header h)" if "hunk_showable h" for h
    using that num [of "dh_old_start h"] num [of "dh_old_count h"] num [of "dh_new_start h"] num [of "dh_new_count h"]
    by (auto simp: plain_line_def shown_header_def hunk_showable_def line_break_def butlast_append)
  moreover have "list_all plain_line (shown_line d)" if "line_showable d" for d
    using that by (auto simp: shown_line_def line_showable_def plain_line_def NO_NEWLINE_MARK_def
        line_break_def LF_def butlast_append)
  ultimately have "list_all plain_line (shown_hunk h)" if "hunk_showable h" for h
    using that by (auto simp: shown_hunk_def hunk_showable_def list_all_iff)
  moreover have "plain_line (''--- a/'' @ fp_path p @ [LF])" "plain_line (''+++ b/'' @ fp_path p @ [LF])"
    using p by (auto simp: plain_line_def patch_showable_def list_all_iff line_break_def butlast_append)
  ultimately show ?thesis using p by (auto simp: shown_patch_def patch_showable_def list_all_iff)
qed

text \<open>
  C21. The text of a list of patches parses back to exactly these patches, provided that each has a
  path that validation accepts unchanged, without spaces, and hunks with the counts of their
  lines, whose lines are single lines; removed lines that begin with two hyphens and a space are
  excepted.
\<close>

theorem patch_text_round_trip:
  assumes "list_all patch_showable ps"
  shows "parse_unified_diff (split_lines (concat (concat (map shown_patch ps)))) = Inr ps"
proof -
  have "list_all plain_line (concat (map shown_patch ps))"
    using assms shown_patch_plain by (auto simp: list_all_iff)
  then show ?thesis using parse_patches_shown [OF assms] by (simp only: split_lines_concat)
qed

text \<open>A patch of two hunks, the second of which ends the file without a line break.\<close>

definition sample_patch :: file_patch where
  "sample_patch = \<lparr>fp_path = ''app/main.py'', fp_hunks =
    [\<lparr>dh_old_start = 1, dh_old_count = 2, dh_new_start = 1, dh_new_count = 1, dh_lines =
       [\<lparr>dl_kind = CHR '' '', dl_text = ''a'' @ [LF], dl_no_newline = False\<rparr>,
        \<lparr>dl_kind = CHR ''-'', dl_text = ''b'' @ [LF], dl_no_newline = False\<rparr>]\<rparr>,
     \<lparr>dh_old_start = 12, dh_old_count = 0, dh_new_start = 12, dh_new_count = 1, dh_lines =
       [\<lparr>dl_kind = CHR ''+'', dl_text = ''z'' @ [LF], dl_no_newline = True\<rparr>]\<rparr>]\<rparr>"

theorem patch_text_round_trip_witness:
  "parse_unified_diff (split_lines (concat (concat (map shown_patch [sample_patch])))) = Inr [sample_patch]"
proof (rule patch_text_round_trip)
  show "list_all patch_showable [sample_patch]" by code_simp
qed

section \<open>Patches that are refused\<close>

text \<open>
  A removed line that begins with two hyphens and a space is taken for the header of the next file,
  so that the hunk misses the line.
\<close>

lemma removed_comment_ends_the_hunk:
  "parse_unified_diff [''--- a/f'' @ [LF], ''+++ b/f'' @ [LF], ''@@ -1,1 +1,0 @@'' @ [LF], ''--- note'' @ [LF]]
    = Inl (WritebackError ''Unified diff hunk line counts do not match the header.'')"
  by code_simp

text \<open>
  Lines are separated at a form feed too, where the numbers of the hunk headers count newlines: a
  change of the second line of a text whose first line has a form feed does not apply.
\<close>

definition second_line_patch :: file_patch where
  "second_line_patch = \<lparr>fp_path = ''f'', fp_hunks =
    [\<lparr>dh_old_start = 2, dh_old_count = 1, dh_new_start = 2, dh_new_count = 1, dh_lines =
       [\<lparr>dl_kind = CHR ''-'', dl_text = ''c'' @ [LF], dl_no_newline = False\<rparr>,
        \<lparr>dl_kind = CHR ''+'', dl_text = ''d'' @ [LF], dl_no_newline = False\<rparr>]\<rparr>]\<rparr>"

lemma form_feed_moves_the_lines:
  "apply_file_patch second_line_patch (''a b'' @ [LF] @ ''c'' @ [LF]) = Inr (''a b'' @ [LF] @ ''d'' @ [LF])
    \<and> apply_file_patch second_line_patch (''a'' @ [CHR 0x0C] @ ''b'' @ [LF] @ ''c'' @ [LF]) = Inl (does_not_apply ''f'')"
  by code_simp

text \<open>An artifact with CRLF line ends: the opening fence is found, the closing one is not.\<close>

lemma crlf_fence_is_not_closed:
  "opening_fence (''```diff'' @ [CR]) \<and> closing_fence ''```'' \<and> \<not> closing_fence (''```'' @ [CR])"
  by code_simp

end
