(* ===== verification/Spec2Isabelle.thy ===== *)
theory Spec2Isabelle imports Plan_Guarantees Run_Control Step_Gates Task_Intake Parallel_Execution Route_Policy Worker_Guarantees Agent_Loop_Guarantees Model_Dispatch Unified_Diff_Facts Unified_Diff_Text
begin

text \<open>
  A verification development for the team agent harness
  (\<open>src/team_agent_harness/backend/app\<close>).

  The program runs workflow Packs: a Pack names agents and steps with dependencies; a run of
  a task executes the steps in dependency order, records sessions, jobs, artifacts, events and
  evaluations in SQLite, pauses for approvals and resumes. Its parts and their theories:

  \<^item> \<open>Prelude\<close>: JSON values, exceptions, pure code that raises (\<open>bindE\<close>,
    \<open>guardE\<close>), actions with state and exceptions (\<open>bindM\<close>, \<open>catchM\<close>,
    \<open>finallyM\<close>) and the judgement \<open>keeps\<close> with its collection of rules.
  \<^item> \<open>Harness_Models\<close>: \<open>core/models.py\<close>, the persisted records, enums and validators.
  \<^item> \<open>Plan_Graph\<close>: the graph algorithms that \<open>packs/base.py\<close>,
    \<open>core/execution_plan.py\<close> and \<open>core/runner.py\<close> repeat for their own step types
    (cycle detection, order, batches, upstream closure), once, over the two views of a step;
    the locale \<open>step_view\<close> is the contract of an accepted list of steps.
  \<^item> \<open>Workflow_Pack\<close>: \<open>packs/base.py\<close>, the Pack and every check of its validator.
  \<^item> \<open>Scheduling\<close>: the scheduling part of \<open>core/runner.py\<close>.
  \<^item> \<open>Execution_Plan\<close>, \<open>Plan_Guarantees\<close>: \<open>core/execution_plan.py\<close>,
    freezing a plan, validating it against a Pack, the Pack that is executed; what acceptance
    guarantees; and the last step as \<open>core/quality.py\<close> computes it.
  \<^item> \<open>Store\<close>, \<open>Store_Facts\<close>: \<open>core/storage.py\<close> and \<open>core/trace.py\<close>.
    The database is a record of tables; a transaction rolls back; any write statement or
    commit may fail. The locale \<open>store_table\<close> is the contract of a table, interpreted on
    all twelve; the invariant \<open>store_inv\<close> holds in every reachable database.
  \<^item> \<open>Registry\<close>: \<open>core/registry.py\<close>, the agents by id and by role.
  \<^item> \<open>Runtime_Control\<close>: \<open>core/runtime_control.py\<close>, approving, rejecting,
    cancelling and recovering runtime jobs; the locale \<open>terminal_table\<close> is the contract of
    the loops that close open rows.
  \<^item> \<open>Run_Control\<close>: \<open>core/run_control.py\<close>, queue items, the run lock, its
    heartbeat and exclusive execution.
  \<^item> \<open>Storage_Frames\<close>, \<open>Artifacts\<close>, \<open>Artifact_Facts\<close>: \<open>core/artifacts.py\<close>.
    A system call may fail; the locales \<open>storage_frame\<close>, \<open>os_frame\<close> and
    \<open>process_frame\<close> are the contracts of what every operation keeps.
  \<^item> \<open>Step_Gates\<close>: the checks of \<open>core/runner.py\<close> around a step, evaluations,
    the final artifact and the names of files.
  \<^item> \<open>Context_Injection\<close>: \<open>core/context_injection.py\<close>, the context of a
    step with its JSON text and its budgets.
  \<^item> \<open>Task_Intake\<close>: \<open>core/task_intake.py\<close>, the routing of a task by its text.
  \<^item> \<open>Model_Trace\<close>: the reasoning effort of a model request
    (\<open>core/model_runtime.py\<close>) and the events of a model call.
  \<^item> \<open>Runner_State\<close>, \<open>Runner_Steps\<close>, \<open>Runner\<close>: \<open>WorkflowRunner\<close>
    of \<open>core/runner.py\<close>: the durable state of a run, one step, the main loop and the entry points.
  \<^item> \<open>Runner_Facts\<close>, \<open>Runner_Loop\<close>, \<open>Runner_Guarantees\<close>: the locale
    \<open>runner_frame\<close>, the contract of an assertion on the world that the runner keeps; the
    progress of the loop; how a run ends.
  \<^item> \<open>Parallel_Execution\<close>: the thread pool of \<open>_execute_prepared_steps\<close> as a state
    machine and its agreement with serial execution.
  \<^item> \<open>Run_Worker\<close>, \<open>Worker_Guarantees\<close>: \<open>core/run_worker.py\<close>, the background
    thread, its wake queue, submissions, recovery and failures; the reachable states of the worker
    and why no exception ends its loop.
  \<^item> \<open>Provider_Health\<close>, \<open>Model_Capabilities\<close>, \<open>Route_Policy\<close>:
    \<open>core/provider_health.py\<close>, \<open>core/model_capabilities.py\<close> and
    \<open>core/route_policy.py\<close>: the circuit breaker, what models can do, the choice of a route.
  \<^item> \<open>Model_Errors\<close>, \<open>Model_Responses\<close>, \<open>Model_Gateway\<close>,
    \<open>Model_Completion\<close>, \<open>Model_Dispatch\<close>: the gateway of \<open>core/model_runtime.py\<close>: errors
    and receipts, the validation of answers, the configuration, a completion over the candidates of
    a route; the judgement \<open>sends\<close> says what reaches an adapter.
  \<^item> \<open>Tool_Summaries\<close>, \<open>Tool_Gateway\<close>: \<open>core/tool_gateway.py\<close>, permissions,
    payload schemas and the tools, with the trace summaries of \<open>core/web_tools.py\<close> and
    \<open>core/browser_tools.py\<close>.
  \<^item> \<open>Agent_Loop\<close>, \<open>Agent_Loop_Guarantees\<close>: \<open>core/agent_loop.py\<close>, the
    loop of model turns and tool calls of a step and its budgets of time, tokens, cost and calls.
  \<^item> \<open>Unified_Diff\<close>, \<open>Unified_Diff_Facts\<close>, \<open>Unified_Diff_Text\<close>: the patches of
    \<open>core/writeback.py\<close>: finding and parsing a unified diff, the paths it may name and its
    application; the edit that a patch describes and the text of a patch.

  How the model corresponds to the code. A pydantic model is a record and its validators a
  function to a sum of an error and the validated value. A method of a stateful class is an
  action over \<open>world\<close>: the database, the transaction depth and the answers of the clock,
  the id generator and SQLite's failures, which are functions of a counter and otherwise
  arbitrary. Exceptions are values of \<open>exn\<close> with the subclass tests of the handlers.
  Python integers are \<open>int\<close>, timestamps microseconds since the epoch, finite floats are
  rationals. Dictionaries whose order shows are association lists.

  Bounds and fuel. The loops over steps and the work lists terminate by measures; the
  depth-first search carries fuel, shown to be enough for every input
  (\<open>dependency_cycle_total\<close>); the write attempts are three as in the code. The main loop of
  a run has one turn more than there are steps, which is enough (\<open>runner_loop_terminates\<close>);
  the loop of the thread pool has one turn for each step (\<open>parallel_execution_is_complete\<close>).

  Concurrency. A future of the pool takes effect at once when it completes; which one completes
  next and whether a queued one can still be cancelled is a parameter. The steps of a batch have
  distinct names, as in a validated Pack, so outputs are kept by index. The executor, the
  environment variables and the JSON reader of a persisted plan are the parameter \<open>runner_env\<close>.
  The requests that other threads make to the worker while it waits or executes are the parameter
  \<open>we_other\<close>. The model behind the agent loop is \<open>ae_complete\<close>, an action on the world of
  which only what the code uses is asked; the files of the workspace and the web and browser
  clients are \<open>tool_providers\<close>, and the environment variables and Python's text of a value
  \<open>tool_env\<close>. The providers behind the model gateway, its clocks and the competition for slots are
  \<open>gateway_env\<close>.

  What the lemmas show. Packs that validate can be scheduled and never get stuck; accepted
  plans expand no permission and keep the Pack's blocker checks; frozen plans validate again;
  the database keeps its constraints and one lock per run; purging removes all
  records of exactly the settled runs (or of the expected ones, when all are settled), and the
  terminal actions are complete and touch one run only, all or nothing; execution under the
  lock leaves the run unlocked whatever the code raises, except when the release itself fails
  in all its three writes, and the queue mirrors the run; artifacts read back as written, are written
  once and overwrite nothing; the gates of a step pass exactly when they should; a context
  stays within its budgets; the intake of a task classifies and routes it in the order
  of its tables and only to an available Pack; the loop completes only with every step done; the loop of a run ends, and a
  run that was started ends as completed and closed, waiting for an approval, failed and closed,
  or with a storage error; the pool runs every step once and agrees with serial execution.
  The background worker survives every failure of a run and keeps one wake per scheduled run;
  a tool call that is not permitted or whose payload does not conform runs no handler; the agent
  loop stays within its budgets whatever the model answers; the choice of a route is the first
  candidate that passes on its own; the model gateway asks only candidates that are permitted,
  a bounded number of times. A patch changes exactly the lines it names, or does not apply,
  and its text parses back.

  Not modelled: the text of rows (JSON), file and network effects (staged inputs and
  purge quarantines, the HTTP adapter of the model runtime, the web, browser and code tools, the transaction of
  the write-back, skills), the HTTP layer, and regular-expression redaction, which
  is the parameter \<open>w_redact\<close> of the world.
\<close>


end
